(* ===== verification/LB_Prelude.thy ===== *)
theory LB_Prelude
  imports Main "HOL-Library.AList" "HOL-Library.Multiset"
begin

text \<open>
  Shared vocabulary of the development: Go errors and fallible results, Go maps as
  association lists, and the lemmas about them that the components use.

  A Go map is an association list with distinct keys. Its order is the order in which a
  \<open>range\<close> statement visits it: Go leaves that order unspecified, so a statement about every
  list covers every order. A Go slice is a list, a nil map or slice is the empty list unless
  the code tells it from an empty one (then it is an \<open>option\<close>).
\<close>

named_theorems go_defs \<open>definitions of small operations that proofs unfold\<close>
named_theorems frame \<open>what an operation leaves unchanged\<close>

section \<open>Errors and results\<close>

text \<open>
  An error value keeps the format of the message and the formatted arguments; a wrapped error
  (\<open>%w\<close>) keeps its cause, \<open>errors.Join\<close> the list of the causes.
\<close>

datatype go_error =
    Errorf string "string list"
  | Wrapf string "string list" go_error
  | Joined "go_error list"

type_synonym 'a result = "go_error + 'a"

definition is_ok :: "'a result \<Rightarrow> bool" where
  "is_ok r = (case r of Inl _ \<Rightarrow> False | Inr _ \<Rightarrow> True)"

lemma is_ok_simps [simp]: "is_ok (Inr x)" "\<not> is_ok (Inl e)"
  by (simp_all add: is_ok_def)

lemma is_ok_iff: "is_ok r \<longleftrightarrow> (\<exists>x. r = Inr x)"
  by (cases r) simp_all

text \<open>\<open>errors.Join\<close> of a list of failures: nil exactly when there is none.\<close>

definition join_errors :: "go_error list \<Rightarrow> unit result" where
  "join_errors es = (if es = [] then Inr () else Inl (Joined es))"

lemma join_errors_ok [simp]: "is_ok (join_errors es) \<longleftrightarrow> es = []"
  by (simp add: join_errors_def)

section \<open>Lists\<close>

lemma append_mark_eq:
  "x \<notin> set a \<Longrightarrow> x \<notin> set a' \<Longrightarrow> a @ x # b = a' @ x # b' \<longleftrightarrow> a = a' \<and> b = b'"
proof (induction a arbitrary: a')
  case Nil
  then show ?case by (cases a') auto
next
  case (Cons y a)
  then show ?case by (cases a') auto
qed

lemma length_filter_all: "length (filter P xs) = length xs \<longleftrightarrow> (\<forall>x \<in> set xs. P x)"
  by (induction xs) (auto, metis length_filter_le Suc_n_not_le_n)

section \<open>Go maps\<close>

type_synonym ('k, 'v) gomap = "('k \<times> 'v) list"

text \<open>\<open>m[k]\<close> of a map whose value type has the zero value \<open>z\<close>.\<close>

definition map_get :: "'v \<Rightarrow> ('k, 'v) gomap \<Rightarrow> 'k \<Rightarrow> 'v" where
  "map_get z m k = (case map_of m k of None \<Rightarrow> z | Some v \<Rightarrow> v)"

lemma map_get_simps [simp]:
  "map_get z [] k = z"
  "map_get z ((k', v) # m) k = (if k = k' then v else map_get z m k)"
  by (simp_all add: map_get_def)

abbreviation has_key :: "('k, 'v) gomap \<Rightarrow> 'k \<Rightarrow> bool" where
  "has_key m k \<equiv> map_of m k \<noteq> None"

abbreviation keys_of :: "('k, 'v) gomap \<Rightarrow> 'k list" where
  "keys_of m \<equiv> map fst m"

text \<open>A Go map holds every key once.\<close>

abbreviation is_gomap :: "('k, 'v) gomap \<Rightarrow> bool" where
  "is_gomap m \<equiv> distinct (keys_of m)"

lemma map_of_update [simp]:
  "map_of (AList.update k v m) k' = (if k = k' then Some v else map_of m k')"
  by (simp add: update_conv')

lemma map_of_delete [simp]:
  "map_of (AList.delete k m) k' = (if k = k' then None else map_of m k')"
  by (simp add: delete_conv')

lemma is_gomap_update [intro]: "is_gomap m \<Longrightarrow> is_gomap (AList.update k v m)"
  by (rule distinct_update)

lemma is_gomap_delete [intro]: "is_gomap m \<Longrightarrow> is_gomap (AList.delete k m)"
  by (rule distinct_delete)

lemma set_keys_update [simp]: "set (keys_of (AList.update k v m)) = insert k (set (keys_of m))"
  by (induction m) auto

lemma set_keys_delete [simp]: "set (keys_of (AList.delete k m)) = set (keys_of m) - {k}"
  by (induction m) (auto simp: AList.delete_eq)

lemma map_of_in_keys: "map_of m k \<noteq> None \<longleftrightarrow> k \<in> set (keys_of m)"
  by (induction m) auto

lemma map_get_update [simp]:
  "map_get z (AList.update k v m) k' = (if k = k' then v else map_get z m k')"
  by (simp add: map_get_def)

end
