(* ===== verification/Go_Strings.thy ===== *)
theory Go_Strings
  imports LB_Prelude "HOL-Library.Char_ord" "HOL-Library.List_Lexorder"
begin

text \<open>
  The functions of Go's \<open>strings\<close>, \<open>strconv\<close> and \<open>unicode/utf8\<close> packages that the sources
  call. A Go string is a list of bytes, so it is a \<open>string\<close> here (a \<open>char\<close> is a byte).
  White space is the ASCII white space and \<open>ToLower\<close> maps the ASCII letters: the further
  Unicode spaces and letters are not modelled. \<open>EqualFold\<close> is exact when one of the two
  strings is ASCII, as it is in all comparisons with a constant of the sources.
\<close>

section \<open>Prefixes, splitting and joining\<close>

definition HasPrefix :: "string \<Rightarrow> string \<Rightarrow> bool" where
  "HasPrefix s p \<longleftrightarrow> take (length p) s = p"

definition HasSuffix :: "string \<Rightarrow> string \<Rightarrow> bool" where
  "HasSuffix s p \<longleftrightarrow> length p \<le> length s \<and> drop (length s - length p) s = p"

definition TrimPrefix :: "string \<Rightarrow> string \<Rightarrow> string" where
  "TrimPrefix s p = (if HasPrefix s p then drop (length p) s else s)"

definition TrimSuffix :: "string \<Rightarrow> string \<Rightarrow> string" where
  "TrimSuffix s p = (if HasSuffix s p then take (length s - length p) s else s)"

text \<open>\<open>Cut s sep\<close>: what stands before and after the first \<open>sep\<close> in \<open>s\<close> (\<open>sep\<close> not empty).\<close>

fun Cut :: "string \<Rightarrow> string \<Rightarrow> (string \<times> string) option" where
  "Cut [] sep = None"
| "Cut (c # cs) sep =
     (if HasPrefix (c # cs) sep then Some ([], drop (length sep) (c # cs))
      else map_option (\<lambda>(a, b). (c # a, b)) (Cut cs sep))"

text \<open>\<open>SplitN s sep n\<close> gives at most \<open>n\<close> parts, the last one unsplit.\<close>

fun SplitN :: "nat \<Rightarrow> string \<Rightarrow> string \<Rightarrow> string list" where
  "SplitN 0 s sep = []"
| "SplitN (Suc 0) s sep = [s]"
| "SplitN (Suc (Suc n)) s sep =
     (case Cut s sep of None \<Rightarrow> [s] | Some (a, b) \<Rightarrow> a # SplitN (Suc n) b sep)"

text \<open>
  \<open>Split\<close> is \<open>SplitN\<close> with one part more than there are separators. Every separator takes
  at least one byte, so \<open>length s + 1\<close> parts are never too few.
\<close>

definition Split :: "string \<Rightarrow> string \<Rightarrow> string list" where
  "Split s sep = SplitN (Suc (length s)) s sep"

fun Join :: "string list \<Rightarrow> string \<Rightarrow> string" where
  "Join [] sep = []"
| "Join [s] sep = s"
| "Join (s # t # ss) sep = s @ sep @ Join (t # ss) sep"

definition ReplaceAll :: "string \<Rightarrow> string \<Rightarrow> string \<Rightarrow> string" where
  "ReplaceAll s old new = Join (Split s old) new"

lemma HasPrefix_iff: "HasPrefix s p \<longleftrightarrow> (\<exists>t. s = p @ t)"
  unfolding HasPrefix_def by (metis append_eq_conv_conj)

lemma HasPrefix_append [simp]: "HasPrefix (p @ t) p"
  by (simp add: HasPrefix_def)

lemma HasSuffix_iff: "HasSuffix s p \<longleftrightarrow> (\<exists>t. s = t @ p)"
  unfolding HasSuffix_def
  by (metis append_eq_append_conv append_take_drop_id diff_diff_cancel length_append
      length_drop le_add2 same_append_eq)

lemma TrimPrefix_append [simp]: "TrimPrefix (p @ t) p = t"
  by (simp add: TrimPrefix_def)

lemma Cut_Some: "Cut s sep = Some (a, b) \<Longrightarrow> s = a @ sep @ b"
proof (induction s sep arbitrary: a rule: Cut.induct)
  case (2 c cs sep)
  show ?case
  proof (cases "HasPrefix (c # cs) sep")
    case True
    then obtain t where t: "c # cs = sep @ t" by (auto simp: HasPrefix_iff)
    from True "2.prems" have "a = []" "b = drop (length sep) (c # cs)" by simp_all
    with t show ?thesis by simp
  next
    case False
    with 2 show ?thesis by auto
  qed
qed simp

lemma Cut_None_iff: "sep \<noteq> [] \<Longrightarrow> Cut s sep = None \<longleftrightarrow> (\<nexists>a b. s = a @ sep @ b)"
proof (induction s sep rule: Cut.induct)
  case (2 c cs sep)
  show ?case
  proof (cases "HasPrefix (c # cs) sep")
    case True
    then have "\<exists>a b. c # cs = a @ sep @ b" by (metis HasPrefix_iff append_Nil)
    with True show ?thesis by simp
  next
    case False
    have "(\<exists>a b. c # cs = a @ sep @ b) \<longleftrightarrow> (\<exists>a b. cs = a @ sep @ b)"
    proof
      assume "\<exists>a b. c # cs = a @ sep @ b"
      then obtain a b where e: "c # cs = a @ sep @ b" by blast
      with False have "a \<noteq> []" by (auto simp: HasPrefix_iff)
      with e show "\<exists>a b. cs = a @ sep @ b" by (metis append_Cons list.exhaust list.inject)
    qed (metis append_Cons)
    with False 2 show ?thesis by simp
  qed
qed simp

lemma Join_Cons: "ss \<noteq> [] \<Longrightarrow> Join (s # ss) sep = s @ sep @ Join ss sep"
  by (cases ss) auto

lemma SplitN_ne: "SplitN (Suc n) s sep \<noteq> []"
  by (cases n) (auto split: option.splits)

lemma Split_ne [simp]: "Split s sep \<noteq> []"
  by (simp add: Split_def SplitN_ne)

lemma Join_SplitN: "Join (SplitN (Suc n) s sep) sep = s"
proof (induction n arbitrary: s)
  case (Suc n)
  then show ?case
    by (auto split: option.splits simp: Join_Cons SplitN_ne dest: Cut_Some)
qed simp

lemma Join_Split: "Join (Split s sep) sep = s"
  unfolding Split_def by (rule Join_SplitN)

text \<open>A part that \<open>Split\<close> gives holds no separator: the count of parts was enough.\<close>

lemma SplitN_parts:
  "sep \<noteq> [] \<Longrightarrow> length s \<le> n \<Longrightarrow> p \<in> set (SplitN (Suc n) s sep) \<Longrightarrow> Cut p sep = None"
proof (induction n arbitrary: s)
  case 0
  then show ?case by simp
next
  case (Suc n)
  show ?case
  proof (cases "Cut s sep")
    case None
    with Suc.prems show ?thesis by simp
  next
    case (Some ab)
    then obtain a b where ab: "Cut s sep = Some (a, b)" by (cases ab) auto
    from Cut_Some [OF ab] have s: "s = a @ sep @ b" .
    have first: "Cut a sep = None" using ab
    proof (induction s sep arbitrary: a rule: Cut.induct)
      case (2 c cs sep)
      show ?case
      proof (cases "HasPrefix (c # cs) sep")
        case True
        with 2 show ?thesis by auto
      next
        case False
        with 2 obtain a' where a': "a = c # a'" "Cut cs sep = Some (a', b)" by auto
        have np: "\<not> HasPrefix (c # a') sep"
        proof
          assume "HasPrefix (c # a') sep"
          then obtain t where "c # a' = sep @ t" by (auto simp: HasPrefix_iff)
          with Cut_Some [OF a'(2)] have "c # cs = sep @ t @ sep @ b" by (metis append_Cons append_assoc)
          with False show False by (auto simp: HasPrefix_iff)
        qed
        from 2(1) [OF False a'(2)] np a'(1) show ?thesis by simp
      qed
    qed simp
    from s Suc.prems(1,2) have "length b \<le> n" by (cases sep) auto
    with Suc.IH [OF Suc.prems(1)] Suc.prems(3) ab first show ?thesis by auto
  qed
qed

lemma Split_parts: "sep \<noteq> [] \<Longrightarrow> p \<in> set (Split s sep) \<Longrightarrow> Cut p sep = None"
  unfolding Split_def by (rule SplitN_parts) auto

lemma Split_no_sep: "Cut s sep = None \<Longrightarrow> Split s sep = [s]"
  by (cases s) (auto simp: Split_def)

text \<open>Splitting at one byte.\<close>

fun char_parts :: "char \<Rightarrow> string \<Rightarrow> string \<Rightarrow> string list" where
  "char_parts x w [] = [w]"
| "char_parts x w (c # cs) = (if c = x then w # char_parts x [] cs else char_parts x (w @ [c]) cs)"

lemma Cut_char: "Cut s [x] = (if x \<in> set s
     then Some (takeWhile (\<lambda>c. c \<noteq> x) s, tl (dropWhile (\<lambda>c. c \<noteq> x) s)) else None)"
  by (induction s) (auto simp: HasPrefix_def)

lemma char_parts_unfold:
  "char_parts x w s = (if x \<in> set s
     then (w @ takeWhile (\<lambda>c. c \<noteq> x) s) # char_parts x [] (tl (dropWhile (\<lambda>c. c \<noteq> x) s))
     else [w @ s])"
  by (induction x w s rule: char_parts.induct) auto

lemma SplitN_char: "length s \<le> n \<Longrightarrow> SplitN (Suc n) s [x] = char_parts x [] s"
proof (induction n arbitrary: s)
  case 0
  then show ?case by simp
next
  case (Suc n)
  show ?case
  proof (cases "x \<in> set s")
    case True
    then have "dropWhile (\<lambda>c. c \<noteq> x) s \<noteq> []" by (auto simp: dropWhile_eq_Nil_conv)
    moreover have "length (dropWhile (\<lambda>c. c \<noteq> x) s) \<le> length s"
      by (rule length_dropWhile_le)
    ultimately have "length (tl (dropWhile (\<lambda>c. c \<noteq> x) s)) \<le> n"
      using Suc.prems by (cases "dropWhile (\<lambda>c. c \<noteq> x) s") auto
    from Suc.IH [OF this] True show ?thesis
      by (simp add: Cut_char char_parts_unfold [of x "[]" s])
  next
    case False
    then show ?thesis by (simp add: Cut_char char_parts_unfold [of x "[]" s])
  qed
qed

lemma Split_char: "Split s [x] = char_parts x [] s"
  unfolding Split_def by (rule SplitN_char) simp

lemma char_parts_ne [simp]: "char_parts x w s \<noteq> []"
  by (induction x w s rule: char_parts.induct) auto

lemma char_parts_mark: "x \<notin> set a \<Longrightarrow> char_parts x w (a @ x # b) = (w @ a) # char_parts x [] b"
  by (induction a arbitrary: w) auto

lemma Split_mark: "x \<notin> set a \<Longrightarrow> Split (a @ x # b) [x] = a # Split b [x]"
  by (simp add: Split_char char_parts_mark)

lemma Split_one: "x \<notin> set a \<Longrightarrow> Split a [x] = [a]"
  by (simp add: Split_char char_parts_unfold)

lemma Split_Join:
  "es \<noteq> [] \<Longrightarrow> \<forall>e \<in> set es. x \<notin> set e \<Longrightarrow> Split (Join es [x]) [x] = es"
proof (induction es)
  case (Cons e es)
  then show ?case by (cases "es = []") (simp_all add: Join_Cons Split_mark Split_one)
qed simp

section \<open>White space\<close>

definition is_space :: "char \<Rightarrow> bool" where
  "is_space c \<longleftrightarrow> c \<in> {CHR '' '', CHR 0x09, CHR 0x0A, CHR 0x0B, CHR 0x0C, CHR 0x0D}"

definition TrimLeftSpace :: "string \<Rightarrow> string" where
  "TrimLeftSpace s = dropWhile is_space s"

definition TrimSpace :: "string \<Rightarrow> string" where
  "TrimSpace s = rev (dropWhile is_space (rev (dropWhile is_space s)))"

text \<open>\<open>Fields\<close>: the runs of bytes that are not white space; \<open>w\<close> is the run being read.\<close>

fun fields_from :: "string \<Rightarrow> string \<Rightarrow> string list" where
  "fields_from w [] = (if w = [] then [] else [w])"
| "fields_from w (c # cs) =
     (if is_space c then (if w = [] then fields_from [] cs else w # fields_from [] cs)
      else fields_from (w @ [c]) cs)"

definition Fields :: "string \<Rightarrow> string list" where
  "Fields s = fields_from [] s"

lemma fields_from_word:
  "list_all (\<lambda>c. \<not> is_space c) u \<Longrightarrow> fields_from w (u @ s) = fields_from (w @ u) s"
  by (induction u arbitrary: w) auto

lemma fields_from_space:
  "is_space c \<Longrightarrow> fields_from w (s @ c # t) = fields_from w s @ fields_from [] t"
  by (induction w s rule: fields_from.induct) auto

lemma Fields_space: "is_space c \<Longrightarrow> Fields (s @ c # t) = Fields s @ Fields t"
  by (simp add: Fields_def fields_from_space)

lemma Fields_Cons_space: "is_space c \<Longrightarrow> Fields (c # t) = Fields t"
  by (simp add: Fields_def)

lemma Fields_word: "u \<noteq> [] \<Longrightarrow> list_all (\<lambda>c. \<not> is_space c) u \<Longrightarrow> Fields u = [u]"
  using fields_from_word [of u "[]" "[]"] by (simp add: Fields_def)

lemma Fields_Nil [simp]: "Fields [] = []"
  by (simp add: Fields_def)

lemma TrimSpace_Nil [simp]: "TrimSpace [] = []"
  by (simp add: TrimSpace_def)

end
