(* ===== verification/Go_Sort.thy ===== *)
theory Go_Sort
  imports Go_Strings "HOL-Library.Multiset"
begin

text \<open>
  \<open>sort.Sort\<close> and \<open>sort.Strings\<close> of the Go library: the interface \<open>slice_sorter\<close> with the
  documented contract, the consequences the components use, and the routine itself.
\<close>

section \<open>The contract of a sort\<close>

text \<open>The order that \<open>sort.Interface\<close> asks of \<open>Less\<close>: a strict weak ordering.\<close>

definition strict_weak :: "('a \<Rightarrow> 'a \<Rightarrow> bool) \<Rightarrow> bool" where
  "strict_weak lt \<longleftrightarrow>
     (\<forall>x y. lt x y \<longrightarrow> \<not> lt y x) \<and>
     (\<forall>x y z. \<not> lt x y \<longrightarrow> \<not> lt y z \<longrightarrow> \<not> lt x z)"

lemma strict_weakD:
  assumes "strict_weak lt"
  shows "lt x y \<Longrightarrow> \<not> lt y x" "\<not> lt x y \<Longrightarrow> \<not> lt y z \<Longrightarrow> \<not> lt x z"
  using assms unfolding strict_weak_def by blast+

lemma strict_weak_desc: "strict_weak (\<lambda>x y. (key x :: 'k :: linorder) > key y)"
  unfolding strict_weak_def by auto

lemma strict_weak_asc: "strict_weak (\<lambda>x y. (key x :: 'k :: linorder) < key y)"
  unfolding strict_weak_def by auto

locale slice_sorter =
  fixes srt :: "('a \<Rightarrow> 'a \<Rightarrow> bool) \<Rightarrow> 'a list \<Rightarrow> 'a list"
  assumes mset_srt: "mset (srt lt xs) = mset xs"
    and sorted_srt: "strict_weak lt \<Longrightarrow> sorted_wrt (\<lambda>x y. \<not> lt y x) (srt lt xs)"
begin

lemma set_srt [simp]: "set (srt lt xs) = set xs"
  using mset_srt [of lt xs] by (metis set_mset_mset)

lemma length_srt [simp]: "length (srt lt xs) = length xs"
  using mset_srt [of lt xs] by (metis size_mset)

lemma srt_empty_iff [simp]: "srt lt xs = [] \<longleftrightarrow> xs = []"
  by (metis length_0_conv length_srt)

lemma distinct_srt [simp]: "distinct (srt lt xs) = distinct xs"
  using mset_srt [of lt xs] by (metis mset_eq_imp_distinct_iff)

lemma distinct_map_srt [simp]: "distinct (map f (srt lt xs)) = distinct (map f xs)"
  using mset_srt [of lt xs] by (metis mset_eq_imp_distinct_iff mset_map)

lemma sorted_desc:
  "sorted_wrt (\<ge>) (map key (srt (\<lambda>x y. (key x :: 'k :: linorder) > key y) xs))"
  using sorted_srt [OF strict_weak_desc, of key xs] by (simp add: sorted_wrt_map not_less)

lemma sorted_asc:
  "sorted (map key (srt (\<lambda>x y. (key x :: 'k :: linorder) < key y) xs))"
  using sorted_srt [OF strict_weak_asc, of key xs] by (simp add: sorted_map not_less)

text \<open>
  The result does not depend on the order of the input when the keys tell the elements
  apart, so a slice filled from a map in any order sorts to the same slice.
\<close>

lemma srt_desc_unique:
  assumes "mset xs = mset ys" and inj: "inj_on key (set xs)"
  shows "srt (\<lambda>x y. (key x :: 'k :: linorder) > key y) xs = srt (\<lambda>x y. key x > key y) ys"
proof -
  let ?l = "\<lambda>x y. key x > key y"
  have "sorted (rev (map key (srt ?l xs)))" "sorted (rev (map key (srt ?l ys)))"
    using sorted_desc [of key xs] sorted_desc [of key ys] by (simp_all add: sorted_wrt_rev)
  moreover have "mset (rev (map key (srt ?l xs))) = mset (rev (map key (srt ?l ys)))"
    using assms(1) by (simp add: mset_srt)
  ultimately have "rev (map key (srt ?l xs)) = rev (map key (srt ?l ys))"
    by (metis sorted_list_of_multiset_mset sorted_sort_id)
  then have "map key (srt ?l xs) = map key (srt ?l ys)" by simp
  moreover have "set ys = set xs" using assms(1) by (metis set_mset_mset)
  ultimately show ?thesis using inj by (simp add: inj_on_map_eq_map)
qed

end

section \<open>The routine\<close>

text \<open>
  \<open>sort.Sort\<close> runs an insertion sort on slices of at most twelve elements: the element at
  \<open>i\<close> moves left while it is less than its left neighbour. On longer slices Go sorts by
  another algorithm of the same contract, whose result agrees with this one whenever \<open>Less\<close>
  is a strict ordering of the elements (\<open>slice_sorter\<close> is all the proofs use there).
  \<open>ins_left\<close> works on the reversed prefix.
\<close>

fun ins_left :: "('a \<Rightarrow> 'a \<Rightarrow> bool) \<Rightarrow> 'a \<Rightarrow> 'a list \<Rightarrow> 'a list" where
  "ins_left lt x [] = [x]"
| "ins_left lt x (y # ys) = (if lt x y then y # ins_left lt x ys else x # y # ys)"

definition go_sort :: "('a \<Rightarrow> 'a \<Rightarrow> bool) \<Rightarrow> 'a list \<Rightarrow> 'a list" where
  "go_sort lt xs = rev (foldl (\<lambda>p x. ins_left lt x p) [] xs)"

lemma mset_ins_left: "mset (ins_left lt x p) = add_mset x (mset p)"
  by (induction p) auto

lemma mset_foldl_ins: "mset (foldl (\<lambda>p x. ins_left lt x p) p xs) = mset p + mset xs"
  by (induction xs arbitrary: p) (auto simp: mset_ins_left)

lemma set_ins_left: "set (ins_left lt x p) = insert x (set p)"
  using mset_ins_left [of lt x p] by (metis set_mset_add_mset_insert set_mset_mset)

lemma sorted_ins_left:
  assumes sw: "strict_weak lt"
  shows "sorted_wrt (\<lambda>x y. \<not> lt x y) p \<Longrightarrow> sorted_wrt (\<lambda>x y. \<not> lt x y) (ins_left lt x p)"
proof (induction p)
  case (Cons y ys)
  show ?case
  proof (cases "lt x y")
    case True
    with Cons show ?thesis using strict_weakD(1) [OF sw] by (auto simp: set_ins_left)
  next
    case False
    with Cons.prems show ?thesis using strict_weakD(2) [OF sw] by auto
  qed
qed simp

lemma sorted_foldl_ins:
  "strict_weak lt \<Longrightarrow> sorted_wrt (\<lambda>x y. \<not> lt x y) p \<Longrightarrow>
   sorted_wrt (\<lambda>x y. \<not> lt x y) (foldl (\<lambda>p x. ins_left lt x p) p xs)"
  by (induction xs arbitrary: p) (auto intro: sorted_ins_left)

interpretation gs: slice_sorter go_sort
proof unfold_locales
  fix lt :: "'a \<Rightarrow> 'a \<Rightarrow> bool" and xs :: "'a list"
  show "mset (go_sort lt xs) = mset xs"
    by (simp add: go_sort_def mset_foldl_ins)
  assume "strict_weak lt"
  then show "sorted_wrt (\<lambda>x y. \<not> lt y x) (go_sort lt xs)"
    using sorted_foldl_ins [of lt "[]" xs] by (simp add: go_sort_def sorted_wrt_rev)
qed

text \<open>\<open>sort.Strings\<close>, and \<open>Sort\<close> of a \<open>sort.StringSlice\<close>: ascending in byte order.\<close>

definition sort_strings :: "string list \<Rightarrow> string list" where
  "sort_strings xs = go_sort (<) xs"

lemma sorted_sort_strings: "sorted (sort_strings xs)"
  using gs.sorted_asc [of "\<lambda>x. x" xs] by (simp add: sort_strings_def)

lemma set_sort_strings [simp]: "set (sort_strings xs) = set xs"
  by (simp add: sort_strings_def)

lemma mset_sort_strings: "mset (sort_strings xs) = mset xs"
  by (simp add: sort_strings_def gs.mset_srt)

end
