(* ===== verification/Go_Text.thy ===== *)
theory Go_Text
  imports Go_Strings
begin

text \<open>
  Decimal numbers (\<open>strconv.Itoa\<close>, \<open>strconv.Atoi\<close>), letter case (\<open>strings.EqualFold\<close>,
  \<open>strings.ToLower\<close>) and the decoding of UTF-8 that a \<open>range\<close> over a string performs.
\<close>

abbreviation code :: "char \<Rightarrow> nat" where
  "code c \<equiv> of_char c"

section \<open>Decimal numbers\<close>

definition digit_char :: "nat \<Rightarrow> char" where
  "digit_char d = char_of (48 + d)"

definition is_digit :: "char \<Rightarrow> bool" where
  "is_digit c \<longleftrightarrow> 48 \<le> code c \<and> code c \<le> 57"

fun dec_digits :: "nat \<Rightarrow> string" where
  "dec_digits n = (if n < 10 then [digit_char n] else dec_digits (n div 10) @ [digit_char (n mod 10)])"

declare dec_digits.simps [simp del]

definition Itoa :: "int \<Rightarrow> string" where
  "Itoa i = (if i < 0 then CHR ''-'' # dec_digits (nat (- i)) else dec_digits (nat i))"

definition dec_value :: "string \<Rightarrow> int" where
  "dec_value s = foldl (\<lambda>a c. 10 * a + int (code c - 48)) 0 s"

text \<open>\<open>Atoi\<close> reads an optional sign and digits, and fails outside the 64-bit range of \<open>int\<close>.\<close>

definition Atoi :: "string \<Rightarrow> int option" where
  "Atoi s = (case s of
       [] \<Rightarrow> None
     | c # cs \<Rightarrow>
         let ds = (if c = CHR ''-'' \<or> c = CHR ''+'' then cs else s);
             v = (if c = CHR ''-'' then - dec_value ds else dec_value ds)
         in if ds \<noteq> [] \<and> list_all is_digit ds \<and> - (2 ^ 63) \<le> v \<and> v < 2 ^ 63
            then Some v else None)"

lemma code_digit_char [simp]: "d < 10 \<Longrightarrow> code (digit_char d) = 48 + d"
  by (simp add: digit_char_def)

lemma is_digit_digit_char [simp]: "d < 10 \<Longrightarrow> is_digit (digit_char d)"
  by (simp add: is_digit_def)

lemma list_all_dec_digits: "list_all is_digit (dec_digits n)"
proof (induction n rule: dec_digits.induct)
  case (1 n)
  then show ?case by (cases "n < 10") (simp_all add: dec_digits.simps [of n])
qed

lemma dec_digits_ne [simp]: "dec_digits n \<noteq> []"
  by (subst dec_digits.simps) simp

lemma dec_value_digits: "dec_value (dec_digits n) = int n"
proof (induction n rule: dec_digits.induct)
  case (1 n)
  show ?case
  proof (cases "n < 10")
    case True
    then show ?thesis by (simp add: dec_digits.simps [of n] dec_value_def)
  next
    case False
    with 1 have "dec_value (dec_digits (n div 10)) = int (n div 10)" by simp
    then have "dec_value (dec_digits n) = 10 * int (n div 10) + int (n mod 10)"
      using False by (subst dec_digits.simps) (simp add: dec_value_def)
    then show ?thesis by (simp add: zdiv_int zmod_int)
  qed
qed

lemma is_digit_not_special:
  "is_digit c \<Longrightarrow> c \<noteq> CHR ''-'' \<and> c \<noteq> CHR ''+'' \<and> \<not> is_space c"
  by (auto simp: is_digit_def is_space_def)

lemma dec_digits_hd: "dec_digits n = c # cs \<Longrightarrow> is_digit c"
  using list_all_dec_digits [of n] by simp

lemma Atoi_dec_digits: "int n < 2 ^ 63 \<Longrightarrow> Atoi (dec_digits n) = Some (int n)"
  using is_digit_not_special [OF dec_digits_hd] list_all_dec_digits [of n] dec_value_digits [of n]
  by (cases "dec_digits n") (auto simp: Atoi_def Let_def)

text \<open>\<open>Atoi\<close> reads back what \<open>Itoa\<close> prints, for every 64-bit \<open>int\<close>.\<close>

lemma Atoi_Itoa: "- (2 ^ 63) \<le> i \<Longrightarrow> i < 2 ^ 63 \<Longrightarrow> Atoi (Itoa i) = Some i"
proof (cases "i < 0")
  case True
  assume "- (2 ^ 63) \<le> i" "i < 2 ^ 63"
  with True show ?thesis
    using list_all_dec_digits [of "nat (- i)"] dec_value_digits [of "nat (- i)"]
    by (simp add: Itoa_def Atoi_def Let_def)
next
  case False
  assume "i < 2 ^ 63"
  with False show ?thesis using Atoi_dec_digits [of "nat i"] by (simp add: Itoa_def)
qed

lemma Itoa_inj: "Itoa i = Itoa j \<Longrightarrow> i = j"
proof -
  assume e: "Itoa i = Itoa j"
  have dd: "m = n" if "dec_digits m = dec_digits n" for m n
    using that dec_value_digits by (metis of_nat_eq_iff)
  have nm: "dec_digits n \<noteq> CHR ''-'' # cs" for n cs
    using dec_digits_hd [of n] is_digit_not_special by blast
  from e show "i = j"
    by (auto simp: Itoa_def nm nm [symmetric] dest: dd split: if_splits)
qed

lemma Itoa_inj_iff [simp]: "Itoa i = Itoa j \<longleftrightarrow> i = j"
  using Itoa_inj by blast

lemma Itoa_ne [simp]: "Itoa i \<noteq> []"
  by (simp add: Itoa_def)

lemma Itoa_no_space: "list_all (\<lambda>c. \<not> is_space c) (Itoa i)"
proof -
  have "list_all (\<lambda>c. \<not> is_space c) (dec_digits n)" for n
    using list_all_dec_digits [of n] by (auto simp: list_all_iff dest: is_digit_not_special)
  then show ?thesis by (simp add: Itoa_def is_space_def)
qed

section \<open>Letter case\<close>

definition ascii_lower :: "char \<Rightarrow> char" where
  "ascii_lower c = (if 65 \<le> code c \<and> code c \<le> 90 then char_of (code c + 32) else c)"

definition ToLower :: "string \<Rightarrow> string" where
  "ToLower s = map ascii_lower s"

text \<open>
  The simple case folding behind \<open>EqualFold\<close>: ASCII letters, and the two code points outside
  ASCII that fold to an ASCII letter (U+017F to s, U+212A to k, here as their UTF-8 bytes).
\<close>

function fold_case :: "string \<Rightarrow> string" where
  "fold_case [] = []"
| "fold_case (c # cs) =
     (if c = CHR 0xC5 \<and> take 1 cs = [CHR 0xBF] then CHR ''s'' # fold_case (drop 1 cs)
      else if c = CHR 0xE2 \<and> take 2 cs = [CHR 0x84, CHR 0xAA] then CHR ''k'' # fold_case (drop 2 cs)
      else ascii_lower c # fold_case cs)"
  by pat_completeness auto
termination
  by (relation "measure length") auto

definition EqualFold :: "string \<Rightarrow> string \<Rightarrow> bool" where
  "EqualFold s t \<longleftrightarrow> fold_case s = fold_case t"

lemma EqualFold_refl [simp]: "EqualFold s s"
  by (simp add: EqualFold_def)

lemma EqualFold_sym: "EqualFold s t \<longleftrightarrow> EqualFold t s"
  by (auto simp: EqualFold_def)

lemma EqualFold_trans: "EqualFold s t \<Longrightarrow> EqualFold t u \<Longrightarrow> EqualFold s u"
  by (simp add: EqualFold_def)

text \<open>What evaluates numbers and letter case on literals.\<close>

lemmas eval_text = EqualFold_def ascii_lower_def ToLower_def Itoa_def dec_digits.simps
  digit_char_def char_of_def bit_0 Atoi_def dec_value_def is_digit_def

section \<open>UTF-8\<close>

definition cont_byte :: "nat \<Rightarrow> nat \<Rightarrow> char list \<Rightarrow> nat \<Rightarrow> bool" where
  "cont_byte lo hi bs i \<longleftrightarrow> i < length bs \<and> lo \<le> code (bs ! i) \<and> code (bs ! i) \<le> hi"

text \<open>
  \<open>utf8.DecodeRuneInString\<close> of a string whose first byte is \<open>c\<close>: the rune and its width in
  bytes; an invalid encoding is U+FFFD of width 1.
\<close>

definition decode_rune :: "char \<Rightarrow> string \<Rightarrow> nat \<times> nat" where
  "decode_rune c cs = (let b0 = code c; low = (\<lambda>i. code (cs ! i) mod 64) in
     if b0 < 128 then (b0, 1)
     else if 194 \<le> b0 \<and> b0 \<le> 223 \<and> cont_byte 128 191 cs 0
       then ((b0 mod 32) * 64 + low 0, 2)
     else if 224 \<le> b0 \<and> b0 \<le> 239
          \<and> cont_byte (if b0 = 224 then 160 else 128) (if b0 = 237 then 159 else 191) cs 0
          \<and> cont_byte 128 191 cs 1
       then ((b0 mod 16) * 4096 + low 0 * 64 + low 1, 3)
     else if 240 \<le> b0 \<and> b0 \<le> 244
          \<and> cont_byte (if b0 = 240 then 144 else 128) (if b0 = 244 then 143 else 191) cs 0
          \<and> cont_byte 128 191 cs 1 \<and> cont_byte 128 191 cs 2
       then ((b0 mod 8) * 262144 + low 0 * 4096 + low 1 * 64 + low 2, 4)
     else (65533, 1))"

text \<open>\<open>string(r)\<close> of a rune; runes outside Unicode's scalar values encode U+FFFD.\<close>

definition encode_rune :: "nat \<Rightarrow> string" where
  "encode_rune r =
     (if r < 128 then [char_of r]
      else if r < 2048 then [char_of (192 + r div 64), char_of (128 + r mod 64)]
      else if r > 1114111 \<or> (55296 \<le> r \<and> r \<le> 57343) then [CHR 0xEF, CHR 0xBF, CHR 0xBD]
      else if r < 65536 then
        [char_of (224 + r div 4096), char_of (128 + r div 64 mod 64), char_of (128 + r mod 64)]
      else [char_of (240 + r div 262144), char_of (128 + r div 4096 mod 64),
            char_of (128 + r div 64 mod 64), char_of (128 + r mod 64)])"

text \<open>\<open>for i, r := range s\<close>: the byte index and the rune of every iteration.\<close>

function runes_from :: "nat \<Rightarrow> string \<Rightarrow> (nat \<times> nat) list" where
  "runes_from i [] = []"
| "runes_from i (c # cs) =
     (case decode_rune c cs of (r, w) \<Rightarrow> (i, r) # runes_from (i + w) (drop (w - 1) cs))"
  by pat_completeness auto
termination
  by (relation "measure (\<lambda>(i, s). length s)") auto

declare runes_from.simps(2) [simp del]

abbreviation runes :: "string \<Rightarrow> (nat \<times> nat) list" where
  "runes s \<equiv> runes_from 0 s"

definition is_ascii :: "string \<Rightarrow> bool" where
  "is_ascii s \<longleftrightarrow> list_all (\<lambda>c. code c < 128) s"

lemma is_ascii_simps [simp]:
  "is_ascii []" "is_ascii (c # cs) \<longleftrightarrow> code c < 128 \<and> is_ascii cs"
  "is_ascii (s @ t) \<longleftrightarrow> is_ascii s \<and> is_ascii t"
  by (simp_all add: is_ascii_def)

lemma runes_from_ascii_Cons [simp]:
  "code c < 128 \<Longrightarrow> runes_from i (c # cs) = (i, code c) # runes_from (Suc i) cs"
  by (simp add: runes_from.simps(2) decode_rune_def Let_def)

lemma encode_rune_ascii [simp]: "code c < 128 \<Longrightarrow> encode_rune (code c) = [c]"
  by (simp add: encode_rune_def)

end
