(* ===== verification/LB_Config.thy ===== *)
theory LB_Config
  imports Go_Sort Go_Text
begin

text \<open>
  The configuration model of \<open>config/config.go\<close>: the records that the controller builds and
  the provider renders, the orders of the three slices, and the name of a backend.
\<close>

section \<open>Data\<close>

text \<open>Protocols and rule comparators are strings, compared with \<open>EqualFold\<close> or exactly.\<close>

abbreviation (input) "HTTPProto \<equiv> ''http''"
abbreviation (input) "HTTPSProto \<equiv> ''https''"
abbreviation (input) "TLSProto \<equiv> ''tls''"
abbreviation (input) "TCPProto \<equiv> ''tcp''"
abbreviation (input) "SNIProto \<equiv> ''sni''"
abbreviation (input) "UDPProto \<equiv> ''udp''"
abbreviation (input) "EqRuleComparator \<equiv> ''eq''"
abbreviation (input) "BegRuleComparator \<equiv> ''beg''"
abbreviation (input) "EndRuleComparator \<equiv> ''end''"

record HealthCheck =
  hc_ResponseTimeout :: int
  hc_Interval :: int
  hc_HealthyThreshold :: int
  hc_UnhealthyThreshold :: int
  hc_RequestLine :: string
  hc_Port :: int

record StickinessPolicy =
  sp_Name :: string
  sp_Cookie :: string
  sp_Domain :: string
  sp_Indirect :: bool
  sp_Nocache :: bool
  sp_Postonly :: bool
  sp_Mode :: string

record Endpoint =
  ep_Name :: string
  ep_IP :: string
  ep_Port :: int
  ep_Config :: string
  ep_IsCname :: bool
  ep_DrainTimeout :: string
  ep_Weight :: int
  ep_Stopping :: bool

text \<open>The zero value of \<open>Endpoint\<close>, from which a composite literal starts.\<close>

definition zero_Endpoint :: Endpoint where
  "zero_Endpoint = \<lparr>ep_Name = '''', ep_IP = '''', ep_Port = 0, ep_Config = '''', ep_IsCname = False,
     ep_DrainTimeout = '''', ep_Weight = 0, ep_Stopping = False\<rparr>"

record BackendService =
  be_UUID :: string
  be_Endpoints :: "Endpoint list"
  be_Path :: string
  be_Host :: string
  be_RuleComparator :: string
  be_Algorithm :: string
  be_Port :: int
  be_Protocol :: string
  be_Config :: string
  be_HealthCheck :: "HealthCheck option"
  be_Priority :: int
  be_SendProxy :: bool

record FrontendService =
  fe_Name :: string
  fe_Port :: int
  fe_BackendServices :: "BackendService list"
  fe_Protocol :: string
  fe_Config :: string
  fe_AcceptProxy :: bool

record Certificate =
  cert_Name :: string
  cert_Cert :: string
  cert_Key :: string
  cert_Fetch :: bool

record LoadBalancerConfig =
  lb_DefaultCert :: "Certificate option"
  lb_Certs :: "Certificate option list"
  lb_Name :: string
  lb_Annotations :: "(string, string) gomap"
  lb_FrontendServices :: "FrontendService list"
  lb_Config :: string
  lb_StickinessPolicy :: "StickinessPolicy option"

section \<open>Orders\<close>

text \<open>\<open>FrontendServices.Less\<close> and \<open>Endpoints.Less\<close>: descending by name, by address.\<close>

definition frontend_less :: "FrontendService \<Rightarrow> FrontendService \<Rightarrow> bool" where
  "frontend_less a b \<longleftrightarrow> fe_Name a > fe_Name b"

definition endpoint_less :: "Endpoint \<Rightarrow> Endpoint \<Rightarrow> bool" where
  "endpoint_less a b \<longleftrightarrow> ep_IP a > ep_IP b"

definition backend_less :: "BackendService \<Rightarrow> BackendService \<Rightarrow> bool" where
  "backend_less a b =
     (let host1 = be_Host a; path1 = be_Path a; host2 = be_Host b; path2 = be_Path b;
          eq1 = EqualFold (be_RuleComparator a) EqRuleComparator;
          eq2 = EqualFold (be_RuleComparator b) EqRuleComparator;
          p1 = be_Priority a; p2 = be_Priority b
      in if p1 > 0 then (if p2 = 0 then True else p1 < p2)
         else if p2 > 0 then False
         else if host1 \<noteq> '''' then
           (if eq1 then
              (if path1 \<noteq> '''' then True else host2 = '''' \<or> \<not> eq2)
            else host2 = '''' \<or> (\<not> eq2 \<and> path1 \<noteq> '''' \<and> path2 = ''''))
         else if path1 \<noteq> '''' then host2 = ''''
         else False)"

definition sort_frontends :: "FrontendService list \<Rightarrow> FrontendService list" where
  "sort_frontends = go_sort frontend_less"

definition sort_backends :: "BackendService list \<Rightarrow> BackendService list" where
  "sort_backends = go_sort backend_less"

definition sort_endpoints :: "Endpoint list \<Rightarrow> Endpoint list" where
  "sort_endpoints = go_sort endpoint_less"

lemma frontend_less_eq: "frontend_less = (\<lambda>a b. fe_Name a > fe_Name b)"
  by (simp add: fun_eq_iff frontend_less_def)

lemma endpoint_less_eq: "endpoint_less = (\<lambda>a b. ep_IP a > ep_IP b)"
  by (simp add: fun_eq_iff endpoint_less_def)

lemma set_sorts [simp]:
  "set (sort_frontends fs) = set fs" "set (sort_backends bs) = set bs" "set (sort_endpoints es) = set es"
  by (simp_all add: sort_frontends_def sort_backends_def sort_endpoints_def)

lemma mset_sorts:
  "mset (sort_frontends fs) = mset fs" "mset (sort_backends bs) = mset bs"
  "mset (sort_endpoints es) = mset es"
  by (simp_all add: sort_frontends_def sort_backends_def sort_endpoints_def gs.mset_srt)

lemma sorted_sort_frontends: "sorted_wrt (\<ge>) (map fe_Name (sort_frontends fs))"
  unfolding sort_frontends_def frontend_less_eq by (rule gs.sorted_desc)

lemma sorted_sort_endpoints: "sorted_wrt (\<ge>) (map ep_IP (sort_endpoints es))"
  unfolding sort_endpoints_def endpoint_less_eq by (rule gs.sorted_desc)

lemma sort_frontends_unique:
  "mset fs = mset gs \<Longrightarrow> inj_on fe_Name (set fs) \<Longrightarrow> sort_frontends fs = sort_frontends gs"
  unfolding sort_frontends_def frontend_less_eq by (rule gs.srt_desc_unique)

section \<open>Backend names\<close>

definition is_alnum :: "char \<Rightarrow> bool" where
  "is_alnum c \<longleftrightarrow> (65 \<le> code c \<and> code c \<le> 90) \<or> (97 \<le> code c \<and> code c \<le> 122) \<or> is_digit c"

text \<open>
  \<open>regexBackend.ReplaceAllString(s, "_")\<close>: every longest run of bytes outside \<open>[A-Za-z0-9]\<close>
  becomes one underscore. \<open>run\<close> tells that the byte before belongs to such a run.
\<close>

fun squash :: "bool \<Rightarrow> string \<Rightarrow> string" where
  "squash run [] = []"
| "squash run (c # cs) =
     (if is_alnum c then c # squash False cs
      else if run then squash True cs else CHR ''_'' # squash True cs)"

text \<open>\<open>fmt.Sprintf("%v_%s_%s", port, host, path)\<close>, the key of a backend.\<close>

definition path_uuid :: "int \<Rightarrow> string \<Rightarrow> string \<Rightarrow> string" where
  "path_uuid port host path = Itoa port @ ''_'' @ host @ ''_'' @ path"

definition FormulateBackendName :: "int \<Rightarrow> string \<Rightarrow> string \<Rightarrow> string" where
  "FormulateBackendName sourcePort hostname path = squash False (path_uuid sourcePort hostname path)"

lemma squash_chars: "c \<in> set (squash run s) \<Longrightarrow> is_alnum c \<or> c = CHR ''_''"
  by (induction run s rule: squash.induct) (auto split: if_splits)

lemma squash_no_double: "squash run s \<noteq> u @ ''__'' @ v \<and> (run \<longrightarrow> squash run s \<noteq> CHR ''_'' # v)"
proof (induction run s arbitrary: u v rule: squash.induct)
  case (2 run c cs)
  show ?case
  proof (cases "is_alnum c")
    case True
    then have "c \<noteq> CHR ''_''" by (auto simp: is_alnum_def is_digit_def)
    with 2 True show ?thesis by (auto simp: Cons_eq_append_conv)
  next
    case False
    with 2 show ?thesis by (cases run) (auto simp: Cons_eq_append_conv)
  qed
qed simp

lemma is_alnum_not_space: "is_alnum c \<Longrightarrow> \<not> is_space c"
  by (auto simp: is_alnum_def is_digit_def is_space_def)

lemma squash_no_space: "list_all (\<lambda>c. \<not> is_space c) (squash run s)"
  unfolding list_all_iff by (auto dest!: squash_chars is_alnum_not_space simp: is_space_def)

lemma path_uuid_inj:
  assumes "path_uuid p h x = path_uuid q g y" and "CHR ''_'' \<notin> set h" and "CHR ''_'' \<notin> set g"
  shows "p = q \<and> h = g \<and> x = y"
proof -
  have du: "CHR ''_'' \<notin> set (dec_digits n)" for n
    using list_all_dec_digits [of n] by (auto simp: list_all_iff is_digit_def)
  have nu: "CHR ''_'' \<notin> set (Itoa i)" for i
    by (auto simp: Itoa_def du)
  from assms(1) have "Itoa p = Itoa q \<and> h @ CHR ''_'' # x = g @ CHR ''_'' # y"
    using append_mark_eq [OF nu nu] by (simp add: path_uuid_def)
  with append_mark_eq [OF assms(2,3)] show ?thesis by simp
qed

end
