(* ===== verification/Go_Json.thy ===== *)
theory Go_Json
  imports Go_Text
begin

text \<open>
  JSON texts as \<open>encoding/json\<close> writes and reads them: the text of a value without white space,
  with the escapes of \<open>Marshal\<close>, and the reading of a text into a value. Numbers are kept as
  their literal; the bytes of a string that are not UTF-8 become U+FFFD in both directions.
\<close>

datatype json =
    JNull
  | JBool bool
  | JNum string
  | JStr string
  | JArr "json list"
  | JObj "(string \<times> json) list"

section \<open>Strings\<close>

definition hex_char :: "nat \<Rightarrow> char" where
  "hex_char d = char_of (if d < 10 then 48 + d else 87 + d)"

definition hex4 :: "nat \<Rightarrow> string" where
  "hex4 r = [hex_char (r div 16 div 16 div 16 mod 16), hex_char (r div 16 div 16 mod 16), hex_char (r div 16 mod 16),
     hex_char (r mod 16)]"

definition backslash :: char where
  "backslash = CHR 0x5C"

definition quote_char :: char where
  "quote_char = CHR 0x22"

definition escape_rune :: "nat \<Rightarrow> string" where
  "escape_rune r = backslash # CHR ''u'' # hex4 r"

definition short_escapes :: "(char \<times> char) list" where
  "short_escapes = [(CHR 0x22, CHR 0x22), (CHR 0x5C, CHR 0x5C), (CHR 0x08, CHR ''b''), (CHR 0x0C, CHR ''f''),
     (CHR 0x0A, CHR ''n''), (CHR 0x0D, CHR ''r''), (CHR 0x09, CHR ''t'')]"

definition escape_byte :: "char \<Rightarrow> string" where
  "escape_byte c = (case map_of short_escapes c of
       Some e \<Rightarrow> [backslash, e]
     | None \<Rightarrow> if code c < 32 \<or> c = CHR ''<'' \<or> c = CHR ''>'' \<or> c = CHR ''&'' then escape_rune (code c) else [c])"

text \<open>A rune of more than one byte, and an invalid byte (the rune U+FFFD of width one).\<close>

definition escape_wide :: "nat \<Rightarrow> nat \<Rightarrow> string \<Rightarrow> string" where
  "escape_wide r w s =
     (if r = 65533 \<and> w = 1 \<or> r = 0x2028 \<or> r = 0x2029 then escape_rune r else take w s)"

function quote_from :: "string \<Rightarrow> string" where
  "quote_from [] = []"
| "quote_from (c # cs) =
     (if code c < 128 then escape_byte c @ quote_from cs
      else case decode_rune c cs of (r, w) \<Rightarrow> escape_wide r w (c # cs) @ quote_from (drop (w - 1) cs))"
  by pat_completeness auto
termination
  by (relation "measure length") auto

declare quote_from.simps(2) [simp del]

definition quote :: "string \<Rightarrow> string" where
  "quote s = quote_char # quote_from s @ [quote_char]"

text \<open>Reading: \<open>hex_value\<close> of four digits; two escapes may be one rune (a surrogate pair).\<close>

definition hex_digit_value :: "char \<Rightarrow> nat option" where
  "hex_digit_value c =
     (if is_digit c then Some (code c - 48)
      else if 97 \<le> code c \<and> code c \<le> 102 then Some (code c - 87)
      else if 65 \<le> code c \<and> code c \<le> 70 then Some (code c - 55)
      else None)"

definition read_hex4 :: "string \<Rightarrow> nat option" where
  "read_hex4 s =
     (if length s < 4 then None
      else fold (\<lambda>c a. case (a, hex_digit_value c) of (Some v, Some d) \<Rightarrow> Some (16 * v + d) | _ \<Rightarrow> None) (take 4 s) (Some 0))"

definition is_surrogate :: "nat \<Rightarrow> bool" where
  "is_surrogate r \<longleftrightarrow> 0xD800 \<le> r \<and> r < 0xE000"

text \<open>The low half of a pair after a high one: the rune.\<close>

definition low_half :: "nat \<Rightarrow> string \<Rightarrow> nat option" where
  "low_half r s =
     (if take 2 s = [backslash, CHR ''u''] \<and> 0xD800 \<le> r \<and> r < 0xDC00
      then (case read_hex4 (drop 2 s) of
              None \<Rightarrow> None
            | Some l \<Rightarrow> if 0xDC00 \<le> l \<and> l < 0xE000 then Some ((r - 0xD800) * 1024 + (l - 0xDC00) + 0x10000) else None)
      else None)"

definition read_escapes :: "(char \<times> char) list" where
  "read_escapes = (CHR ''/'', CHR ''/'') # map prod.swap short_escapes"

function read_string :: "string \<Rightarrow> (string \<times> string) option" where
  "read_string [] = None"
| "read_string (c # cs) =
     (if c = quote_char then Some ([], cs)
      else if c = backslash then
        (case cs of
           [] \<Rightarrow> None
         | e # es \<Rightarrow>
             if e = CHR ''u'' then
               (case read_hex4 es of
                  None \<Rightarrow> None
                | Some r \<Rightarrow>
                    (case low_half r (drop 4 es) of
                       Some p \<Rightarrow> map_option (apfst ((@) (encode_rune p))) (read_string (drop 6 (drop 4 es)))
                     | None \<Rightarrow> map_option (apfst ((@) (encode_rune (if is_surrogate r then 65533 else r))))
                         (read_string (drop 4 es))))
             else (case map_of read_escapes e of
                     None \<Rightarrow> None
                   | Some x \<Rightarrow> map_option (apfst ((#) x)) (read_string es)))
      else if code c < 32 then None
      else (case decode_rune c cs of (r, w) \<Rightarrow>
              map_option (apfst ((@) (encode_rune r))) (read_string (drop (w - 1) cs))))"
  by pat_completeness auto
termination
  by (relation "measure length") auto

declare read_string.simps(2) [simp del]

text \<open>What both directions make of bytes that are not UTF-8.\<close>

function to_valid :: "string \<Rightarrow> string" where
  "to_valid [] = []"
| "to_valid (c # cs) = (case decode_rune c cs of (r, w) \<Rightarrow> encode_rune r @ to_valid (drop (w - 1) cs))"
  by pat_completeness auto
termination
  by (relation "measure length") auto

declare to_valid.simps(2) [simp del]

lemma cont_byte_take: "cont_byte lo hi cs i \<Longrightarrow> i < n \<Longrightarrow> cont_byte lo hi (take n cs @ t) i \<and> (take n cs @ t) ! i = cs ! i"
  by (auto simp: cont_byte_def nth_append)

lemma decode_rune_wide:
  assumes "decode_rune c cs = (r, w)" and "code c \<ge> 128" and "\<not> (r = 65533 \<and> w = 1)"
  obtains "w = 2" "194 \<le> code c" "code c \<le> 223" "cont_byte 128 191 cs 0"
  | "w = 3" "224 \<le> code c" "code c \<le> 239" "cont_byte 128 191 cs 1"
    "cont_byte (if code c = 224 then 160 else 128) (if code c = 237 then 159 else 191) cs 0"
  | "w = 4" "240 \<le> code c" "code c \<le> 244" "cont_byte 128 191 cs 1" "cont_byte 128 191 cs 2"
    "cont_byte (if code c = 240 then 144 else 128) (if code c = 244 then 143 else 191) cs 0"
proof -
  consider (two) "194 \<le> code c \<and> code c \<le> 223 \<and> cont_byte 128 191 cs 0"
  | (three) "224 \<le> code c \<and> code c \<le> 239 \<and>
      cont_byte (if code c = 224 then 160 else 128) (if code c = 237 then 159 else 191) cs 0 \<and> cont_byte 128 191 cs 1"
  | (four) "240 \<le> code c \<and> code c \<le> 244 \<and>
      cont_byte (if code c = 240 then 144 else 128) (if code c = 244 then 143 else 191) cs 0 \<and>
      cont_byte 128 191 cs 1 \<and> cont_byte 128 191 cs 2"
  | (bad) "decode_rune c cs = (65533, 1)"
    using assms(2) unfolding decode_rune_def Let_def by (simp only: if_False not_less [symmetric]) argo
  then show thesis
  proof cases
    case two
    moreover from two assms(1,2) have "w = 2" by (simp add: decode_rune_def Let_def)
    ultimately show thesis using that(1) by blast
  next
    case three
    moreover from three assms(1,2) have "w = 3" by (simp add: decode_rune_def Let_def)
    ultimately show thesis using that(2) by blast
  next
    case four
    moreover from four assms(1,2) have "w = 4" by (simp add: decode_rune_def Let_def)
    ultimately show thesis using that(3) by blast
  next
    case bad
    with assms show thesis by simp
  qed
qed

lemma decode_rune_context:
  assumes "decode_rune c cs = (r, w)" and "code c \<ge> 128" and "\<not> (r = 65533 \<and> w = 1)"
  shows "decode_rune c (take (w - 1) cs @ t) = (r, w)" and "length (take (w - 1) cs) = w - 1" and "w > 0"
proof -
  have "decode_rune c (take (w - 1) cs @ t) = (r, w) \<and> length (take (w - 1) cs) = w - 1 \<and> w > 0"
    using assms
  proof (cases rule: decode_rune_wide [OF assms])
    case 1
    with assms(1) cont_byte_take [OF 1(4), of 1 t] show ?thesis
      by (cases cs) (simp_all add: decode_rune_def Let_def cont_byte_def)
  next
    case 2
    with assms(1) cont_byte_take [OF 2(4), of 2 t] cont_byte_take [OF 2(5), of 2 t] show ?thesis
      by (simp add: decode_rune_def Let_def) (simp add: cont_byte_def)
  next
    case 3
    with assms(1) cont_byte_take [OF 3(4), of 3 t] cont_byte_take [OF 3(5), of 3 t] cont_byte_take [OF 3(6), of 3 t] show ?thesis
      by (simp add: decode_rune_def Let_def) (simp add: cont_byte_def)
  qed
  then show "decode_rune c (take (w - 1) cs @ t) = (r, w)" and "length (take (w - 1) cs) = w - 1" and "w > 0" by auto
qed

lemma decode_rune_ascii: "code c < 128 \<Longrightarrow> decode_rune c cs = (code c, 1)"
  by (simp add: decode_rune_def Let_def)

lemma hex_digit_value_char: "d < 16 \<Longrightarrow> hex_digit_value (hex_char d) = Some d"
  by (auto simp: hex_digit_value_def is_digit_def hex_char_def)

lemma read_hex4_hex4: "r < 65536 \<Longrightarrow> read_hex4 (hex4 r @ s) = Some r"
proof -
  assume r: "r < 65536"
  have "16 * (16 * (16 * (r div 16 div 16 div 16 mod 16) + r div 16 div 16 mod 16) + r div 16 mod 16) + r mod 16 = r"
    using r by simp
  then show ?thesis by (simp add: read_hex4_def hex4_def hex_digit_value_char)
qed

lemma read_escape:
  assumes "map_of short_escapes c = Some e"
  shows "read_string (backslash # e # s) = map_option (apfst ((#) c)) (read_string s)"
proof -
  from assms have "e \<noteq> CHR ''u'' \<and> map_of read_escapes e = Some c"
    by (auto simp: short_escapes_def read_escapes_def split: if_split_asm)
  then show ?thesis by (simp add: read_string.simps(2) backslash_def quote_char_def)
qed

lemma read_escape_rune:
  assumes "r < 65536" and "\<not> is_surrogate r"
  shows "read_string (escape_rune r @ s) = map_option (apfst ((@) (encode_rune r))) (read_string s)"
proof -
  have "drop 4 (hex4 r @ s) = s" by (simp add: hex4_def)
  moreover have "low_half r s = None" using assms(2) by (auto simp: low_half_def is_surrogate_def)
  ultimately show ?thesis
    using assms by (simp add: escape_rune_def read_string.simps(2) backslash_def quote_char_def read_hex4_hex4)
qed

lemma read_escape_byte:
  assumes "code c < 128"
  shows "read_string (escape_byte c @ s) = map_option (apfst ((#) c)) (read_string s)"
proof (cases "map_of short_escapes c")
  case (Some e)
  then show ?thesis by (simp add: escape_byte_def read_escape)
next
  case None
  then have c: "c \<noteq> quote_char" "c \<noteq> backslash"
    by (auto simp: short_escapes_def quote_char_def backslash_def split: if_split_asm)
  have nc: "encode_rune (code c) = [c]" using assms by simp
  show ?thesis
  proof (cases "code c < 32 \<or> c = CHR ''<'' \<or> c = CHR ''>'' \<or> c = CHR ''&''")
    case True
    with None read_escape_rune [of "code c" s] assms show ?thesis
      by (simp add: escape_byte_def is_surrogate_def apfst_def map_prod_def)
  next
    case False
    with None c assms nc show ?thesis
      by (simp add: escape_byte_def read_string.simps(2) decode_rune_ascii apfst_def map_prod_def)
  qed
qed

text \<open>A quoted string is read back, up to the bytes that are not UTF-8.\<close>

lemma read_string_quote: "read_string (quote_from s @ quote_char # rest) = Some (to_valid s, rest)"
proof (induction s rule: quote_from.induct)
  case 1
  then show ?case by (simp add: read_string.simps(2))
next
  case (2 c cs)
  show ?case
  proof (cases "code c < 128")
    case True
    with 2(1) show ?thesis
      by (simp add: quote_from.simps(2) read_escape_byte to_valid.simps(2) decode_rune_ascii)
  next
    case False
    obtain r w where d: "decode_rune c cs = (r, w)" by fastforce
    note IH = 2(2) [OF False d [symmetric]]
    have q: "quote_from (c # cs) = escape_wide r w (c # cs) @ quote_from (drop (w - 1) cs)"
      and v: "to_valid (c # cs) = encode_rune r @ to_valid (drop (w - 1) cs)"
      using False d by (simp_all add: quote_from.simps(2) to_valid.simps(2))
    show ?thesis
    proof (cases "r = 65533 \<and> w = 1 \<or> r = 0x2028 \<or> r = 0x2029")
      case True
      then have "r < 65536" "\<not> is_surrogate r" by (auto simp: is_surrogate_def)
      from read_escape_rune [OF this] True IH show ?thesis by (simp add: q v escape_wide_def)
    next
      case wide: False
      then have ni: "\<not> (r = 65533 \<and> w = 1)" by blast
      have ge: "code c \<ge> 128" using False by simp
      let ?X = "quote_from (drop (w - 1) cs) @ quote_char # rest"
      note C = decode_rune_context [OF d ge ni]
      have t: "take w (c # cs) = c # take (w - 1) cs" using C(3) by (cases w) auto
      have "c \<noteq> quote_char" "c \<noteq> backslash" using ge by (auto simp: quote_char_def backslash_def)
      with ge C(1) [of ?X] C(2) IH show ?thesis
        unfolding q v escape_wide_def using wide by (auto simp: t read_string.simps(2))
    qed
  qed
qed

section \<open>Numbers\<close>

text \<open>The literal at the front of a text, and what follows it.\<close>

definition scan_fraction :: "string \<Rightarrow> (string \<times> string) option" where
  "scan_fraction s = (case s of
       [] \<Rightarrow> Some ([], [])
     | c # cs \<Rightarrow>
         if c \<noteq> CHR ''.'' then Some ([], s)
         else if takeWhile is_digit cs = [] then None
         else Some (c # takeWhile is_digit cs, dropWhile is_digit cs))"

definition scan_exponent :: "string \<Rightarrow> (string \<times> string) option" where
  "scan_exponent s = (case s of
       [] \<Rightarrow> Some ([], [])
     | c # cs \<Rightarrow>
         if c \<noteq> CHR ''e'' \<and> c \<noteq> CHR ''E'' then Some ([], s)
         else let sign = (case cs of [] \<Rightarrow> [] | x # _ \<Rightarrow> if x = CHR ''+'' \<or> x = CHR ''-'' then [x] else []);
                  ds = drop (length sign) cs
              in if takeWhile is_digit ds = [] then None
                 else Some (c # sign @ takeWhile is_digit ds, dropWhile is_digit ds))"

definition scan_integer :: "string \<Rightarrow> (string \<times> string) option" where
  "scan_integer s =
     (let sign = (case s of [] \<Rightarrow> [] | c # _ \<Rightarrow> if c = CHR ''-'' then [c] else []);
          ds = drop (length sign) s
      in case ds of
           [] \<Rightarrow> None
         | d # rest \<Rightarrow>
             if \<not> is_digit d then None
             else if d = CHR ''0'' then Some (sign @ [d], rest)
             else Some (sign @ takeWhile is_digit ds, dropWhile is_digit ds))"

definition scan_number :: "string \<Rightarrow> (string \<times> string) option" where
  "scan_number s = (case scan_integer s of None \<Rightarrow> None | Some (i, s1) \<Rightarrow>
     (case scan_fraction s1 of None \<Rightarrow> None | Some (f, s2) \<Rightarrow>
        (case scan_exponent s2 of None \<Rightarrow> None | Some (e, s3) \<Rightarrow> Some (i @ f @ e, s3))))"

definition number_text :: "string \<Rightarrow> bool" where
  "number_text t \<longleftrightarrow> scan_number t = Some (t, [])"

definition ends_number :: "string \<Rightarrow> bool" where
  "ends_number s = (case s of [] \<Rightarrow> True | c # _ \<Rightarrow> \<not> is_digit c \<and> c \<notin> set ''.eE+-'')"

lemma digits_end:
  "ends_number r \<Longrightarrow> takeWhile is_digit (s @ r) = takeWhile is_digit s"
  "ends_number r \<Longrightarrow> dropWhile is_digit (s @ r) = dropWhile is_digit s @ r"
  by (induction s) (auto simp: ends_number_def split: list.splits)

lemma ends_number_digits: "ends_number r \<Longrightarrow> takeWhile is_digit r = []" "ends_number r \<Longrightarrow> dropWhile is_digit r = r"
  using digits_end [of r "[]"] by simp_all

lemmas number_ends = digits_end ends_number_digits

lemma scan_integer_append: "scan_integer s = Some (a, b) \<Longrightarrow> ends_number r \<Longrightarrow> scan_integer (s @ r) = Some (a, b @ r)"
  by (cases s; cases "tl s")
    (auto simp: scan_integer_def Let_def number_ends split: if_split_asm list.split_asm)

lemma scan_fraction_append: "scan_fraction s = Some (a, b) \<Longrightarrow> ends_number r \<Longrightarrow> scan_fraction (s @ r) = Some (a, b @ r)"
  by (cases s) (auto simp: scan_fraction_def number_ends ends_number_def split: if_split_asm list.split)

lemma scan_exponent_append: "scan_exponent s = Some (a, b) \<Longrightarrow> ends_number r \<Longrightarrow> scan_exponent (s @ r) = Some (a, b @ r)"
  by (cases s; cases "tl s")
    (auto simp: scan_exponent_def Let_def number_ends ends_number_def split: if_split_asm list.split)

lemma scan_number_append:
  assumes "number_text t" and "ends_number r"
  shows "scan_number (t @ r) = Some (t, r)"
  using assms scan_integer_append [of t _ _ r] scan_fraction_append [of _ _ _ r] scan_exponent_append [of _ _ "[]" r]
  by (fastforce simp: scan_number_def number_text_def split: option.splits prod.splits)

text \<open>What \<open>strconv\<close> prints of an integer is a number.\<close>

lemma dec_digits_lead: "n > 0 \<Longrightarrow> hd (dec_digits n) \<noteq> CHR ''0''"
proof (induction n rule: dec_digits.induct)
  case (1 n)
  have "digit_char n \<noteq> CHR ''0''" if "n < 10" using code_digit_char [OF that] 1(2) by (auto simp del: code_digit_char)
  with 1 show ?case by (cases "n < 10") (simp_all add: dec_digits.simps [of n] hd_append)
qed

lemma number_text_Itoa: "number_text (Itoa i)"
proof -
  have d: "number_text (dec_digits n)" and m: "number_text (CHR ''-'' # dec_digits n)" for n
  proof -
    have all: "takeWhile is_digit (dec_digits n) = dec_digits n" "dropWhile is_digit (dec_digits n) = []"
      using list_all_dec_digits [of n] by (simp_all add: list_all_iff takeWhile_eq_all_conv dropWhile_eq_Nil_conv)
    obtain c cs where c: "dec_digits n = c # cs" using dec_digits_ne [of n] by (cases "dec_digits n") auto
    have "is_digit c" using c by (rule dec_digits_hd)
    moreover have "c \<noteq> CHR ''-''" using \<open>is_digit c\<close> by (auto simp: is_digit_def)
    moreover have "c \<noteq> CHR ''0'' \<or> cs = []"
      using c dec_digits_lead [of n] by (cases "n = 0") (simp_all add: dec_digits.simps [of 0])
    moreover from all \<open>is_digit c\<close> have tw: "takeWhile is_digit cs = cs" "dropWhile is_digit cs = []" by (simp_all add: c)
    ultimately show "number_text (dec_digits n)" and "number_text (CHR ''-'' # dec_digits n)"
      by (auto simp: c tw number_text_def scan_number_def scan_integer_def scan_fraction_def scan_exponent_def Let_def)
  qed
  then show ?thesis by (simp add: Itoa_def)
qed

section \<open>Values\<close>

text \<open>The text of a value; \<open>Marshal\<close> writes no white space.\<close>

fun print_json :: "json \<Rightarrow> string" where
  "print_json JNull = ''null''"
| "print_json (JBool b) = (if b then ''true'' else ''false'')"
| "print_json (JNum t) = t"
| "print_json (JStr s) = quote s"
| "print_json (JArr js) = CHR ''['' # Join (map print_json js) '','' @ '']''"
| "print_json (JObj kvs) = CHR ''{'' # Join (map (\<lambda>(k, v). quote k @ CHR '':'' # print_json v) kvs) '','' @ ''}''"

definition json_space :: "char \<Rightarrow> bool" where
  "json_space c \<longleftrightarrow> c = CHR '' '' \<or> c = CHR 0x09 \<or> c = CHR 0x0A \<or> c = CHR 0x0D"

abbreviation skip_ws :: "string \<Rightarrow> string" where
  "skip_ws s \<equiv> dropWhile json_space s"

text \<open>A value that is a word.\<close>

definition read_word :: "string \<Rightarrow> (json \<times> string) option" where
  "read_word s =
     (if HasPrefix s ''null'' then Some (JNull, drop 4 s)
      else if HasPrefix s ''true'' then Some (JBool True, drop 4 s)
      else if HasPrefix s ''false'' then Some (JBool False, drop 5 s)
      else None)"

definition first_is :: "char \<Rightarrow> string \<Rightarrow> bool" where
  "first_is c s \<longleftrightarrow> s \<noteq> [] \<and> hd s = c"

text \<open>
  Reading a value, the values of an array after its bracket, the members of an object after its
  brace. \<open>d\<close> is how deep values may still nest; \<open>n\<close> bounds the calls, and the bytes that are read
  are always enough (\<open>parse_fuel\<close>).
\<close>

fun parse_value :: "nat \<Rightarrow> nat \<Rightarrow> string \<Rightarrow> (json \<times> string) option"
  and parse_elems :: "nat \<Rightarrow> nat \<Rightarrow> string \<Rightarrow> (json list \<times> string) option"
  and parse_members :: "nat \<Rightarrow> nat \<Rightarrow> string \<Rightarrow> ((string \<times> json) list \<times> string) option" where
  "parse_value 0 d s = None"
| "parse_value (Suc n) d s =
     (let t = skip_ws s; u = tl t in
      if first_is quote_char t then map_option (apfst JStr) (read_string u)
      else if first_is (CHR ''['') t then
        (if d = 0 then None
         else if first_is (CHR '']'') (skip_ws u) then Some (JArr [], tl (skip_ws u))
         else map_option (apfst JArr) (parse_elems n (d - 1) u))
      else if first_is (CHR ''{'') t then
        (if d = 0 then None
         else if first_is (CHR ''}'') (skip_ws u) then Some (JObj [], tl (skip_ws u))
         else map_option (apfst JObj) (parse_members n (d - 1) u))
      else if t \<noteq> [] \<and> (is_digit (hd t) \<or> hd t = CHR ''-'') then map_option (apfst JNum) (scan_number t)
      else read_word t)"
| "parse_elems 0 d s = None"
| "parse_elems (Suc n) d s =
     (case parse_value n d s of
        None \<Rightarrow> None
      | Some (v, r) \<Rightarrow>
          let t = skip_ws r in
          if first_is (CHR '','') t then map_option (apfst ((#) v)) (parse_elems n d (tl t))
          else if first_is (CHR '']'') t then Some ([v], tl t)
          else None)"
| "parse_members 0 d s = None"
| "parse_members (Suc n) d s =
     (let q = skip_ws s in
      if \<not> first_is quote_char q then None
      else case read_string (tl q) of
        None \<Rightarrow> None
      | Some (k, r) \<Rightarrow>
          if \<not> first_is (CHR '':'') (skip_ws r) then None
          else case parse_value n d (tl (skip_ws r)) of
            None \<Rightarrow> None
          | Some (v, r1) \<Rightarrow>
              let t = skip_ws r1 in
              if first_is (CHR '','') t then map_option (apfst ((#) (k, v))) (parse_members n d (tl t))
              else if first_is (CHR ''}'') t then Some ([(k, v)], tl t)
              else None)"

text \<open>A document: one value, nested at most 10000 deep.\<close>

definition maxNestingDepth :: nat where
  "maxNestingDepth = 10000"

definition parse_json :: "string \<Rightarrow> json option" where
  "parse_json s = (case parse_value (Suc (length s)) maxNestingDepth s of
     None \<Rightarrow> None | Some (v, r) \<Rightarrow> if skip_ws r = [] then Some v else None)"

section \<open>Round trip\<close>

fun scrub :: "json \<Rightarrow> json" where
  "scrub (JStr s) = JStr (to_valid s)"
| "scrub (JArr js) = JArr (map scrub js)"
| "scrub (JObj kvs) = JObj (map (\<lambda>(k, v). (to_valid k, scrub v)) kvs)"
| "scrub j = j"

text \<open>Numbers are literals of the grammar, and the value is not nested too deep.\<close>

fun json_ok :: "nat \<Rightarrow> json \<Rightarrow> bool" where
  "json_ok d (JNum t) \<longleftrightarrow> number_text t"
| "json_ok d (JArr js) \<longleftrightarrow> d > 0 \<and> list_all (json_ok (d - 1)) js"
| "json_ok d (JObj kvs) \<longleftrightarrow> d > 0 \<and> list_all (\<lambda>kv. json_ok (d - 1) (snd kv)) kvs"
| "json_ok d j \<longleftrightarrow> True"

lemma number_text_first: "number_text t \<Longrightarrow> \<exists>c cs. t = c # cs \<and> (is_digit c \<or> c = CHR ''-'')"
  by (cases t) (auto simp: number_text_def scan_number_def scan_integer_def Let_def split: option.splits if_split_asm list.splits)

lemma first_is_simps [simp]: "first_is c (x # s) \<longleftrightarrow> x = c" "\<not> first_is c []"
  by (auto simp: first_is_def)

lemma ends_number_simps [simp]: "ends_number []" "ends_number (CHR '','' # s)" "ends_number (CHR '']'' # s)" "ends_number (CHR ''}'' # s)"
  by (simp_all add: ends_number_def is_digit_def)

lemma json_space_simps [simp]: "\<not> json_space (CHR '','')" "\<not> json_space (CHR '']'')" "\<not> json_space (CHR ''}'')"
    "\<not> json_space (CHR '':'')" "\<not> json_space (CHR ''['')" "\<not> json_space (CHR ''{'')" "\<not> json_space quote_char"
  by (simp_all add: json_space_def quote_char_def)

lemma quote_char_simps [simp]: "CHR ''['' \<noteq> quote_char" "CHR ''{'' \<noteq> quote_char" "quote_char \<noteq> CHR '']''" "quote_char \<noteq> CHR ''}''"
  by (simp_all add: quote_char_def)

lemma first_print:
  assumes "json_ok d j"
  shows "\<exists>c cs. print_json j = c # cs \<and> \<not> json_space c \<and> c \<noteq> CHR '']'' \<and> c \<noteq> CHR ''}''"
proof (cases j)
  case (JNum t)
  with assms have "number_text t" by simp
  from number_text_first [OF this] JNum show ?thesis by (auto simp: json_space_def is_digit_def)
qed (auto simp: quote_def quote_char_def json_space_def)

definition json_reads_back :: "json \<Rightarrow> bool" where
  "json_reads_back j \<longleftrightarrow> (\<forall>n d r. json_ok d j \<longrightarrow> length (print_json j) \<le> n \<longrightarrow> ends_number r \<longrightarrow>
     parse_value n d (print_json j @ r) = Some (scrub j, r))"

lemma json_reads_backD: "json_reads_back j \<Longrightarrow> json_ok d j \<Longrightarrow> length (print_json j) \<le> n \<Longrightarrow> ends_number r \<Longrightarrow>
    parse_value n d (print_json j @ r) = Some (scrub j, r)"
  by (simp add: json_reads_back_def)

lemma read_elems:
  assumes "\<forall>j \<in> set js. json_reads_back j \<and> json_ok d j" and "js \<noteq> []" and "length (Join (map print_json js) '','') < n"
  shows "parse_elems n d (Join (map print_json js) '','' @ CHR '']'' # r) = Some (map scrub js, r)"
  using assms
proof (induction js arbitrary: n)
  case (Cons j js)
  from Cons.prems(3) obtain m where n: "n = Suc m" by (cases n) auto
  from Cons.prems(1) have j: "json_reads_back j" "json_ok d j" by auto
  show ?case
  proof (cases js)
    case Nil
    with Cons.prems(3) json_reads_backD [OF j, of m "CHR '']'' # r"] show ?thesis by (simp add: n)
  next
    case (Cons j' js')
    let ?rest = "Join (map print_json js) '','' @ CHR '']'' # r"
    from Cons Cons.prems(3) have "length (print_json j) \<le> m" "length (Join (map print_json js) '','') < m"
      by (simp_all add: n)
    with json_reads_backD [OF j, of m "CHR '','' # ?rest"] Cons.IH [of m] Cons.prems(1) Cons show ?thesis
      by (simp add: n apfst_def map_prod_def)
  qed
qed simp

abbreviation print_member :: "string \<times> json \<Rightarrow> string" where
  "print_member \<equiv> \<lambda>(k, v). quote k @ CHR '':'' # print_json v"

lemma read_member:
  assumes "json_reads_back v" and "json_ok d v" and "length (print_member (k, v)) \<le> n" and "ends_number r"
  shows "first_is quote_char (skip_ws (print_member (k, v) @ r))"
    and "read_string (tl (skip_ws (print_member (k, v) @ r))) = Some (to_valid k, CHR '':'' # print_json v @ r)"
    and "parse_value n d (print_json v @ r) = Some (scrub v, r)"
  using read_string_quote [of k "CHR '':'' # print_json v @ r"] json_reads_backD [OF assms(1,2) _ assms(4)] assms(3)
  by (simp_all add: quote_def)

lemma read_members:
  assumes "\<forall>kv \<in> set kvs. json_reads_back (snd kv) \<and> json_ok d (snd kv)" and "kvs \<noteq> []"
    and "length (Join (map print_member kvs) '','') < n"
  shows "parse_members n d (Join (map print_member kvs) '','' @ CHR ''}'' # r) = Some (map (\<lambda>(k, v). (to_valid k, scrub v)) kvs, r)"
  using assms
proof (induction kvs arbitrary: n)
  case (Cons kv kvs)
  obtain k v where kv: "kv = (k, v)" by (cases kv)
  from Cons.prems(3) obtain m where n: "n = Suc m" by (cases n) auto
  from Cons.prems(1) have j: "json_reads_back v" "json_ok d v" by (auto simp: kv)
  show ?case
  proof (cases kvs)
    case Nil
    with Cons.prems(3) have "length (print_member (k, v)) \<le> m" by (simp add: n kv)
    note M = read_member [OF j this, of "CHR ''}'' # r", simplified]
    show ?thesis using M by (simp add: n kv Nil)
  next
    case (Cons kv' kvs')
    let ?rest = "Join (map print_member kvs) '','' @ CHR ''}'' # r"
    from Cons Cons.prems(3) have "length (print_member (k, v)) \<le> m" "length (Join (map print_member kvs) '','') < m"
      by (simp_all add: n kv)
    with read_member [OF j, of k m "CHR '','' # ?rest", simplified] Cons.IH [of m] Cons.prems(1) Cons show ?thesis
      by (simp add: n kv apfst_def map_prod_def)
  qed
qed simp

lemma parse_word:
  "parse_value (Suc n) d (''null'' @ r) = Some (JNull, r)"
  "parse_value (Suc n) d (''true'' @ r) = Some (JBool True, r)"
  "parse_value (Suc n) d (''false'' @ r) = Some (JBool False, r)"
  by (simp_all add: Let_def json_space_def is_digit_def quote_char_def read_word_def HasPrefix_def)

lemma json_reads_backI:
  assumes "\<And>n d r. json_ok d j \<Longrightarrow> length (print_json j) \<le> Suc n \<Longrightarrow> ends_number r \<Longrightarrow>
    parse_value (Suc n) d (print_json j @ r) = Some (scrub j, r)"
  shows "json_reads_back j"
  unfolding json_reads_back_def
proof (intro allI impI)
  fix n d r
  assume *: "json_ok d j" "length (print_json j) \<le> n" "ends_number r"
  from *(2) first_print [OF *(1)] obtain m where "n = Suc m" by (cases n) auto
  with * assms show "parse_value n d (print_json j @ r) = Some (scrub j, r)" by blast
qed

lemma reads_back_json: "json_reads_back j"
proof (induction j)
  case JNull
  show ?case by (rule json_reads_backI) (simp only: print_json.simps scrub.simps parse_word)
next
  case (JBool b)
  show ?case by (cases b; rule json_reads_backI) (simp_all only: print_json.simps scrub.simps parse_word if_True if_False)
next
  case (JNum t)
  show ?case
  proof (rule json_reads_backI)
    fix n d r
    assume t: "json_ok d (JNum t)" and r: "ends_number r"
    from t have nt: "number_text t" by simp
    obtain c cs where c: "t = c # cs" "is_digit c \<or> c = CHR ''-''" using number_text_first [OF nt] by blast
    from c(2) have "\<not> json_space c \<and> c \<noteq> quote_char \<and> c \<noteq> CHR ''['' \<and> c \<noteq> CHR ''{''"
      by (auto simp: json_space_def is_digit_def quote_char_def)
    with c scan_number_append [OF nt r] show "parse_value (Suc n) d (print_json (JNum t) @ r) = Some (scrub (JNum t), r)"
      by (simp add: Let_def)
  qed
next
  case (JStr s)
  show ?case by (rule json_reads_backI) (simp add: quote_def Let_def read_string_quote)
next
  case (JArr js)
  show ?case
  proof (rule json_reads_backI)
    fix m d r
    assume ok: "json_ok d (JArr js)" and n: "length (print_json (JArr js)) \<le> Suc m"
    show "parse_value (Suc m) d (print_json (JArr js) @ r) = Some (scrub (JArr js), r)"
    proof (cases js)
      case Nil
      with ok show ?thesis by (simp add: Let_def quote_char_def)
    next
      case (Cons j js')
      with ok have "json_ok (d - 1) j" by simp
      from first_print [OF this] Cons obtain c cs where c: "Join (map print_json js) '','' = c # cs"
          "\<not> json_space c" "c \<noteq> CHR '']''" by (cases js') auto
      from Cons JArr ok n have "parse_elems m (d - 1) (Join (map print_json js) '','' @ CHR '']'' # r) = Some (map scrub js, r)"
        by (intro read_elems) (auto simp: list_all_iff)
      with c ok show ?thesis by (simp add: Let_def quote_char_def)
    qed
  qed
next
  case (JObj kvs)
  show ?case
  proof (rule json_reads_backI)
    fix m d r
    assume ok: "json_ok d (JObj kvs)" and n: "length (print_json (JObj kvs)) \<le> Suc m"
    show "parse_value (Suc m) d (print_json (JObj kvs) @ r) = Some (scrub (JObj kvs), r)"
    proof (cases kvs)
      case Nil
      with ok show ?thesis by (simp add: Let_def)
    next
      case (Cons kv kvs')
      then obtain cs where c: "Join (map print_member kvs) '','' = quote_char # cs"
        by (cases kv; cases kvs') (auto simp: quote_def)
      have "\<forall>kv \<in> set kvs. json_reads_back (snd kv)" using JObj by (force simp: snds.simps)
      with Cons ok n have "parse_members m (d - 1) (Join (map print_member kvs) '','' @ CHR ''}'' # r) =
          Some (map (\<lambda>(k, v). (to_valid k, scrub v)) kvs, r)"
        by (intro read_members) (auto simp: list_all_iff)
      with c ok show ?thesis by (simp add: Let_def)
    qed
  qed
qed

text \<open>A document that is written is read back as the value, with its strings made valid UTF-8.\<close>

lemma parse_print_json: "json_ok maxNestingDepth j \<Longrightarrow> parse_json (print_json j) = Some (scrub j)"
  using json_reads_backD [OF reads_back_json, of maxNestingDepth j "Suc (length (print_json j))" "[]"]
  by (simp add: parse_json_def)

lemma to_valid_ascii [simp]: "is_ascii s \<Longrightarrow> to_valid s = s"
  by (induction s) (simp_all add: to_valid.simps(2) decode_rune_ascii)

section \<open>Fuel\<close>

lemma skip_ws_length: "length (skip_ws s) \<le> length s"
  by (rule length_dropWhile_le)

lemma read_string_length: "read_string s = Some (t, r) \<Longrightarrow> length r < length s"
proof (induction s arbitrary: t rule: measure_induct_rule [of length])
  case (less s)
  then have k: "length r < length s" if "read_string y = Some (u, r)" "length y < length s" for y u
    using that less_trans by blast
  show ?case
    using less.prems
    by (cases s) (auto simp: read_string.simps(2) split: if_split_asm list.split_asm option.split_asm prod.split_asm
        dest!: k simp del: drop_drop)
qed

lemma scan_number_length:
  assumes "scan_number s = Some (t, r)"
  shows "length r < length s"
proof -
  have dw: "length (dropWhile P x) \<le> length x" for P and x :: string by (rule length_dropWhile_le)
  have i: "length b < length s" if "scan_integer s = Some (a, b)" for a b
    using that dw dw [THEN le_SucI] by (auto simp: scan_integer_def Let_def less_Suc_eq_le split: if_split_asm list.split_asm)
  have f: "length b \<le> length x" if "scan_fraction x = Some (a, b)" for a b x
    using that dw by (auto simp: scan_fraction_def le_SucI split: if_split_asm list.split_asm)
  have e: "length b \<le> length x" if "scan_exponent x = Some (a, b)" for a b x
    using that dw by (auto simp: scan_exponent_def Let_def le_SucI split: if_split_asm list.split_asm)
  from assms show ?thesis
    by (auto simp: scan_number_def split: option.split_asm prod.split_asm dest!: i f e)
qed

lemma read_word_length: "read_word s = Some (v, r) \<Longrightarrow> length r < length s"
  by (auto simp: read_word_def HasPrefix_iff split: if_split_asm)

lemma tl_skip_length: "first_is c (skip_ws s) \<Longrightarrow> length (tl (skip_ws s)) < length s"
  using skip_ws_length [of s] by (cases "skip_ws s") auto

text \<open>A result that stands for every fuel from the bytes it reads upwards.\<close>

definition settles :: "(nat \<Rightarrow> ('a \<times> string) option) \<Rightarrow> string \<Rightarrow> 'a \<Rightarrow> string \<Rightarrow> bool" where
  "settles f s v r \<longleftrightarrow> length r < length s \<and> (\<forall>m. length s - length r \<le> m \<longrightarrow> f m = Some (v, r))"

lemma settlesD: "settles f s v r \<Longrightarrow> length r < length s"
    "settles f s v r \<Longrightarrow> length s - length r \<le> m \<Longrightarrow> f m = Some (v, r)"
  by (simp_all add: settles_def)

lemma settlesI:
  assumes "length r < length s" and "\<And>m. length s - length r \<le> Suc m \<Longrightarrow> f (Suc m) = Some (v, r)"
  shows "settles f s v r"
  unfolding settles_def
proof (intro conjI allI impI)
  fix m
  assume "length s - length r \<le> m"
  with assms show "f m = Some (v, r)" by (cases m) auto
qed (fact assms(1))

lemma array_settles:
  assumes a: "first_is (CHR ''['') (skip_ws s)" and p: "parse_value (Suc n) d s = Some (v, r)"
    and IH: "\<And>vs. d \<noteq> 0 \<Longrightarrow> \<not> first_is (CHR '']'') (skip_ws (tl (skip_ws s))) \<Longrightarrow> parse_elems n (d - 1) (tl (skip_ws s)) = Some (vs, r) \<Longrightarrow>
      settles (\<lambda>m. parse_elems m (d - 1) (tl (skip_ws s))) (tl (skip_ws s)) vs r"
  shows "settles (\<lambda>m. parse_value m d s) s v r"
proof -
  from a have nq: "\<not> first_is quote_char (skip_ws s)" by (auto simp: first_is_def)
  note lt = tl_skip_length [OF a]
  from a nq p have d: "d \<noteq> 0" by (simp add: Let_def split: if_split_asm)
  show ?thesis
  proof (cases "first_is (CHR '']'') (skip_ws (tl (skip_ws s)))")
    case True
    with a nq d p tl_skip_length [OF True] lt show ?thesis by (intro settlesI) (auto simp: Let_def)
  next
    case False
    with a nq d p obtain vs where vs: "parse_elems n (d - 1) (tl (skip_ws s)) = Some (vs, r)" "v = JArr vs"
      by (auto simp: Let_def apfst_def)
    note S = settlesD [OF IH [OF d False vs(1)]]
    show ?thesis
    proof (rule settlesI)
      fix m
      assume "length s - length r \<le> Suc m"
      with S(1) lt S(2) [of m] a nq d False vs(2) show "parse_value (Suc m) d s = Some (v, r)" by (simp add: Let_def)
    qed (use S(1) lt in simp)
  qed
qed

lemma object_settles:
  assumes a: "first_is (CHR ''{'') (skip_ws s)" and p: "parse_value (Suc n) d s = Some (v, r)"
    and IH: "\<And>kvs. d \<noteq> 0 \<Longrightarrow> \<not> first_is (CHR ''}'') (skip_ws (tl (skip_ws s))) \<Longrightarrow> parse_members n (d - 1) (tl (skip_ws s)) = Some (kvs, r) \<Longrightarrow>
      settles (\<lambda>m. parse_members m (d - 1) (tl (skip_ws s))) (tl (skip_ws s)) kvs r"
  shows "settles (\<lambda>m. parse_value m d s) s v r"
proof -
  from a have nq: "\<not> first_is quote_char (skip_ws s)" "\<not> first_is (CHR ''['') (skip_ws s)" by (auto simp: first_is_def)
  note lt = tl_skip_length [OF a]
  from a nq p have d: "d \<noteq> 0" by (simp add: Let_def split: if_split_asm)
  show ?thesis
  proof (cases "first_is (CHR ''}'') (skip_ws (tl (skip_ws s)))")
    case True
    with a nq d p tl_skip_length [OF True] lt show ?thesis by (intro settlesI) (auto simp: Let_def)
  next
    case False
    with a nq d p obtain kvs where vs: "parse_members n (d - 1) (tl (skip_ws s)) = Some (kvs, r)" "v = JObj kvs"
      by (auto simp: Let_def apfst_def)
    note S = settlesD [OF IH [OF d False vs(1)]]
    show ?thesis
    proof (rule settlesI)
      fix m
      assume "length s - length r \<le> Suc m"
      with S(1) lt S(2) [of m] a nq d False vs(2) show "parse_value (Suc m) d s = Some (v, r)" by (simp add: Let_def)
    qed (use S(1) lt in simp)
  qed
qed

lemma atom_settles:
  assumes "\<not> first_is (CHR ''['') (skip_ws s)" "\<not> first_is (CHR ''{'') (skip_ws s)"
    and p: "parse_value (Suc n) d s = Some (v, r)"
  shows "settles (\<lambda>m. parse_value m d s) s v r"
proof (rule settlesI)
  have "parse_value (Suc m) d s = parse_value (Suc n) d s" for m using assms(1,2) by (simp add: Let_def)
  with p show "parse_value (Suc m) d s = Some (v, r)" for m by simp
  show "length r < length s"
  proof (cases "first_is quote_char (skip_ws s)")
    case True
    with p obtain x where "read_string (tl (skip_ws s)) = Some (x, r)" by (auto simp: Let_def apfst_def)
    with read_string_length tl_skip_length [OF True] show ?thesis by fastforce
  next
    case False
    with assms have "length r < length (skip_ws s)"
      by (auto simp: Let_def split: if_split_asm dest: scan_number_length read_word_length)
    then show ?thesis using skip_ws_length [of s] by linarith
  qed
qed

lemma elems_settles:
  assumes p: "parse_elems (Suc n) d s = Some (vs, r)"
    and IHv: "\<And>v r1. parse_value n d s = Some (v, r1) \<Longrightarrow> settles (\<lambda>m. parse_value m d s) s v r1"
    and IHe: "\<And>v r1 vs. parse_value n d s = Some (v, r1) \<Longrightarrow> first_is (CHR '','') (skip_ws r1) \<Longrightarrow>
      parse_elems n d (tl (skip_ws r1)) = Some (vs, r) \<Longrightarrow>
      settles (\<lambda>m. parse_elems m d (tl (skip_ws r1))) (tl (skip_ws r1)) vs r"
  shows "settles (\<lambda>m. parse_elems m d s) s vs r"
proof -
  from p obtain v r1 where v: "parse_value n d s = Some (v, r1)" by (auto split: option.split_asm)
  note V = settlesD [OF IHv [OF v]]
  show ?thesis
  proof (cases "first_is (CHR '','') (skip_ws r1)")
    case True
    with p v obtain vs' where vs: "parse_elems n d (tl (skip_ws r1)) = Some (vs', r)" "vs = v # vs'"
      by (auto simp: Let_def apfst_def)
    note E = settlesD [OF IHe [OF v True vs(1)]] and lt = tl_skip_length [OF True]
    show ?thesis
    proof (rule settlesI)
      fix m
      assume "length s - length r \<le> Suc m"
      with V(1) E(1) lt V(2) [of m] E(2) [of m] True vs(2) show "parse_elems (Suc m) d s = Some (vs, r)"
        by (simp add: Let_def)
    qed (use V(1) E(1) lt in simp)
  next
    case False
    with p v have c: "first_is (CHR '']'') (skip_ws r1)" "vs = [v]" "r = tl (skip_ws r1)"
      by (auto simp: Let_def split: if_split_asm)
    note lt = tl_skip_length [OF c(1)]
    show ?thesis
    proof (rule settlesI)
      fix m
      assume "length s - length r \<le> Suc m"
      with V(1) lt V(2) [of m] False c show "parse_elems (Suc m) d s = Some (vs, r)" by (simp add: Let_def)
    qed (use V(1) lt c in simp)
  qed
qed

lemma members_settles:
  assumes p: "parse_members (Suc n) d s = Some (kvs, r)"
    and IHv: "\<And>k r0 v r1. read_string (tl (skip_ws s)) = Some (k, r0) \<Longrightarrow> first_is quote_char (skip_ws s) \<Longrightarrow>
      first_is (CHR '':'') (skip_ws r0) \<Longrightarrow> parse_value n d (tl (skip_ws r0)) = Some (v, r1) \<Longrightarrow>
      settles (\<lambda>m. parse_value m d (tl (skip_ws r0))) (tl (skip_ws r0)) v r1"
    and IHe: "\<And>k r0 v r1 kvs. read_string (tl (skip_ws s)) = Some (k, r0) \<Longrightarrow> first_is quote_char (skip_ws s) \<Longrightarrow>
      first_is (CHR '':'') (skip_ws r0) \<Longrightarrow> parse_value n d (tl (skip_ws r0)) = Some (v, r1) \<Longrightarrow>
      first_is (CHR '','') (skip_ws r1) \<Longrightarrow> parse_members n d (tl (skip_ws r1)) = Some (kvs, r) \<Longrightarrow>
      settles (\<lambda>m. parse_members m d (tl (skip_ws r1))) (tl (skip_ws r1)) kvs r"
  shows "settles (\<lambda>m. parse_members m d s) s kvs r"
proof -
  from p obtain k r0 v r1 where m: "first_is quote_char (skip_ws s)" "read_string (tl (skip_ws s)) = Some (k, r0)"
      "first_is (CHR '':'') (skip_ws r0)" "parse_value n d (tl (skip_ws r0)) = Some (v, r1)"
    by (auto simp: Let_def split: option.split_asm if_split_asm)
  note V = settlesD [OF IHv [OF m(2,1,3,4)]]
    and lt0 = tl_skip_length [OF m(1)] read_string_length [OF m(2)] tl_skip_length [OF m(3)]
  show ?thesis
  proof (cases "first_is (CHR '','') (skip_ws r1)")
    case True
    with p m obtain kvs' where vs: "parse_members n d (tl (skip_ws r1)) = Some (kvs', r)" "kvs = (k, v) # kvs'"
      by (auto simp: Let_def apfst_def)
    note E = settlesD [OF IHe [OF m(2,1,3,4) True vs(1)]] and lt = tl_skip_length [OF True]
    show ?thesis
    proof (rule settlesI)
      fix l
      assume "length s - length r \<le> Suc l"
      with V(1) E(1) lt lt0 V(2) [of l] E(2) [of l] True vs(2) m show "parse_members (Suc l) d s = Some (kvs, r)"
        by (simp add: Let_def)
    qed (use V(1) E(1) lt lt0 in simp)
  next
    case False
    with p m have c: "first_is (CHR ''}'') (skip_ws r1)" "kvs = [(k, v)]" "r = tl (skip_ws r1)"
      by (auto simp: Let_def split: if_split_asm)
    note lt = tl_skip_length [OF c(1)]
    show ?thesis
    proof (rule settlesI)
      fix l
      assume "length s - length r \<le> Suc l"
      with V(1) lt lt0 V(2) [of l] False c m show "parse_members (Suc l) d s = Some (kvs, r)" by (simp add: Let_def)
    qed (use V(1) lt lt0 c in simp)
  qed
qed

lemma parse_fuel:
  "parse_value n d s = Some (v, r) \<Longrightarrow> settles (\<lambda>m. parse_value m d s) s v r"
  "parse_elems n d s = Some (vs, r) \<Longrightarrow> settles (\<lambda>m. parse_elems m d s) s vs r"
  "parse_members n d s = Some (kvs, r) \<Longrightarrow> settles (\<lambda>m. parse_members m d s) s kvs r"
proof (induction n d s and n d s and n d s arbitrary: v r and vs r and kvs r rule: parse_value_parse_elems_parse_members.induct)
  case (2 n d s)
  consider (arr) "first_is (CHR ''['') (skip_ws s)" | (obj) "first_is (CHR ''{'') (skip_ws s)"
    | (atom) "\<not> first_is (CHR ''['') (skip_ws s)" "\<not> first_is (CHR ''{'') (skip_ws s)" by blast
  then show ?case
  proof cases
    case arr
    then have nq: "\<not> first_is quote_char (skip_ws s)" by (auto simp: first_is_def)
    show ?thesis by (rule array_settles [OF arr "2.prems"]) (rule "2.IH"(1) [OF refl refl nq arr])
  next
    case obj
    then have nq: "\<not> first_is quote_char (skip_ws s)" "\<not> first_is (CHR ''['') (skip_ws s)" by (auto simp: first_is_def)
    show ?thesis by (rule object_settles [OF obj "2.prems"]) (rule "2.IH"(2) [OF refl refl nq obj])
  next
    case atom
    from atom_settles [OF atom "2.prems"] show ?thesis .
  qed
next
  case (4 n d s)
  show ?case
    by (rule elems_settles [OF "4.prems"]) (rule 4(1), assumption, rule 4(2) [OF _ refl refl], auto)
next
  case (6 n d s)
  show ?case
    by (rule members_settles [OF "6.prems"]) (rule "6.IH"(1), auto, rule "6.IH"(2), auto)
qed simp_all

text \<open>So a document is read as with any larger fuel.\<close>

lemma parse_json_fuel:
  assumes "parse_value n maxNestingDepth s = Some (v, r)" and "skip_ws r = []"
  shows "parse_json s = Some v"
  using settlesD [OF parse_fuel(1) [OF assms(1)]] assms(2) by (simp add: parse_json_def del: parse_value.simps)

end
