(* ===== verification/Metadata_Types.thy ===== *)
theory Metadata_Types
  imports LB_Config Go_Json
begin

text \<open>
  The JSON documents of the metadata service (\<open>internal/metadata/types.go\<close>) as records, and the
  conversion of its load-balancer part (\<open>controller/rancher/metadata_util.go\<close>).
\<close>

section \<open>Documents\<close>

text \<open>A decoded \<open>interface{}\<close> is a JSON value; a number keeps its text.\<close>

record md_HealthCheck =
  mhc_HealthyThreshold :: int
  mhc_Interval :: int
  mhc_Port :: int
  mhc_RequestLine :: string
  mhc_ResponseTimeout :: int
  mhc_UnhealthyThreshold :: int

record LBStickinessPolicy =
  lsp_Cookie :: string
  lsp_Domain :: string
  lsp_Indirect :: bool
  lsp_Mode :: string
  lsp_Name :: string
  lsp_Nocache :: bool
  lsp_Postonly :: bool

record PortRule =
  pr_BackendName :: string
  pr_Hostname :: string
  pr_Path :: string
  pr_Priority :: int
  pr_Protocol :: string
  pr_Selector :: string
  pr_Service :: string
  pr_SourcePort :: int
  pr_TargetPort :: int
  pr_Container :: string
  pr_Region :: string
  pr_Environment :: string
  pr_Weight :: int

text \<open>The zero value of \<open>PortRule\<close>, from which a composite literal starts.\<close>

definition zero_PortRule :: PortRule where
  "zero_PortRule = \<lparr>pr_BackendName = '''', pr_Hostname = '''', pr_Path = '''', pr_Priority = 0,
     pr_Protocol = '''', pr_Selector = '''', pr_Service = '''', pr_SourcePort = 0, pr_TargetPort = 0,
     pr_Container = '''', pr_Region = '''', pr_Environment = '''', pr_Weight = 0\<rparr>"

record LBConfig =
  lbc_Certs :: "string list"
  lbc_Config :: string
  lbc_DefaultCert :: string
  lbc_PortRules :: "PortRule list"
  lbc_StickinessPolicy :: LBStickinessPolicy

record Container =
  ct_CreateIndex :: int
  ct_Dns :: "string list"
  ct_DnsSearch :: "string list"
  ct_EnvironmentUUID :: string
  ct_ExternalId :: string
  ct_HealthCheck :: md_HealthCheck
  ct_HealthCheckHosts :: "string list"
  ct_HealthState :: string
  ct_HostUUID :: string
  ct_Hostname :: string
  ct_IPs :: "string list"
  ct_Labels :: "(string, string) gomap"
  ct_Links :: "(string, string) gomap"
  ct_MemoryReservation :: int
  ct_MetadataKind :: string
  ct_MilliCPUReservation :: int
  ct_Name :: string
  ct_NetworkFromContainerUUID :: string
  ct_NetworkUUID :: string
  ct_Ports :: "string list"
  ct_PrimaryIp :: string
  ct_PrimaryMacAddress :: string
  ct_ServiceIndex :: string
  ct_ServiceName :: string
  ct_StackName :: string
  ct_StackUUID :: string
  ct_StartCount :: int
  ct_State :: string
  ct_System :: bool
  ct_UUID :: string

record Service =
  svc_Containers :: "Container list"
  svc_CreateIndex :: int
  svc_EnvironmentUUID :: string
  svc_Expose :: "string list"
  svc_ExternalIps :: "string list"
  svc_Fqdn :: string
  svc_HealthCheck :: md_HealthCheck
  svc_Hostname :: string
  svc_Kind :: string
  svc_Labels :: "(string, string) gomap"
  svc_LBConfig :: LBConfig
  svc_Links :: "(string, string) gomap"
  svc_Metadata :: "(string, json) gomap"
  svc_MetadataKind :: string
  svc_Name :: string
  svc_Ports :: "string list"
  svc_PrimaryServiceName :: string
  svc_Scale :: int
  svc_Sidekicks :: "string list"
  svc_StackName :: string
  svc_StackUUID :: string
  svc_State :: string
  svc_System :: bool
  svc_Token :: string
  svc_UUID :: string
  svc_Vip :: string

record Stack =
  stk_EnvironmentName :: string
  stk_EnvironmentUUID :: string
  stk_MetadataKind :: string
  stk_Name :: string
  stk_Services :: "Service list"
  stk_System :: bool
  stk_UUID :: string

record Host =
  host_AgentIP :: string
  host_AgentState :: string
  host_EnvironmentUUID :: string
  host_HostId :: int
  host_Hostname :: string
  host_Labels :: "(string, string) gomap"
  host_LocalStorageMb :: int
  host_Memory :: int
  host_MetadataKind :: string
  host_MilliCPU :: int
  host_Name :: string
  host_State :: string
  host_UUID :: string

record NetworkPolicyRuleBetween =
  npb_GroupBy :: string
  npb_Selector :: string

record NetworkPolicyRuleMember =
  npm_Selector :: string

record NetworkPolicyRule =
  npr_Action :: string
  npr_Between :: "NetworkPolicyRuleBetween option"
  npr_From :: "NetworkPolicyRuleMember option"
  npr_Ports :: "string list"
  npr_To :: "NetworkPolicyRuleMember option"
  npr_Within :: string

record Network =
  net_Default :: bool
  net_DefaultPolicyAction :: string
  net_EnvironmentUUID :: string
  net_HostPorts :: bool
  net_Metadata :: "(string, json) gomap"
  net_MetadataKind :: string
  net_Name :: string
  net_Policy :: "NetworkPolicyRule list"
  net_UUID :: string

record Environment =
  env_Containers :: "Container list"
  env_Hosts :: "Host list"
  env_Name :: string
  env_Networks :: "Network list"
  env_RegionName :: string
  env_Services :: "Service list"
  env_Stacks :: "Stack list"
  env_UUID :: string
  env_Version :: string

section \<open>Load-balancer metadata\<close>

record LBMetadata =
  lm_PortRules :: "PortRule list"
  lm_Certs :: "string list"
  lm_DefaultCert :: string
  lm_Config :: string
  lm_StickinessPolicy :: StickinessPolicy

text \<open>
  \<open>convert\<close> marshals a value to JSON and decodes that text into the target. The two pairs of
  types it is used on have the same JSON names and types field by field, so it copies every
  field, and neither step can fail on them (shown in \<open>Metadata_Codec\<close>).
\<close>

definition convert_stickiness :: "LBStickinessPolicy \<Rightarrow> StickinessPolicy" where
  "convert_stickiness p = \<lparr>sp_Name = lsp_Name p, sp_Cookie = lsp_Cookie p, sp_Domain = lsp_Domain p,
     sp_Indirect = lsp_Indirect p, sp_Nocache = lsp_Nocache p, sp_Postonly = lsp_Postonly p,
     sp_Mode = lsp_Mode p\<rparr>"

definition GetLBMetadata :: "LBConfig \<Rightarrow> LBMetadata result" where
  "GetLBMetadata data = Inr \<lparr>lm_PortRules = lbc_PortRules data, lm_Certs = lbc_Certs data,
     lm_DefaultCert = lbc_DefaultCert data, lm_Config = lbc_Config data,
     lm_StickinessPolicy = convert_stickiness (lbc_StickinessPolicy data)\<rparr>"

definition getConfigServiceHealthCheck :: "md_HealthCheck \<Rightarrow> HealthCheck result" where
  "getConfigServiceHealthCheck d = Inr \<lparr>hc_ResponseTimeout = mhc_ResponseTimeout d,
     hc_Interval = mhc_Interval d, hc_HealthyThreshold = mhc_HealthyThreshold d,
     hc_UnhealthyThreshold = mhc_UnhealthyThreshold d, hc_RequestLine = mhc_RequestLine d,
     hc_Port = mhc_Port d\<rparr>"

section \<open>Zero values\<close>

definition zero_HealthCheck :: md_HealthCheck where
  "zero_HealthCheck = \<lparr>mhc_HealthyThreshold = 0, mhc_Interval = 0, mhc_Port = 0, mhc_RequestLine = '''',
     mhc_ResponseTimeout = 0, mhc_UnhealthyThreshold = 0\<rparr>"

definition zero_LBConfig :: LBConfig where
  "zero_LBConfig = \<lparr>lbc_Certs = [], lbc_Config = '''', lbc_DefaultCert = '''', lbc_PortRules = [],
     lbc_StickinessPolicy = \<lparr>lsp_Cookie = '''', lsp_Domain = '''', lsp_Indirect = False, lsp_Mode = '''',
       lsp_Name = '''', lsp_Nocache = False, lsp_Postonly = False\<rparr>\<rparr>"

definition zero_Container :: Container where
  "zero_Container = \<lparr>ct_CreateIndex = 0, ct_Dns = [], ct_DnsSearch = [], ct_EnvironmentUUID = '''',
     ct_ExternalId = '''', ct_HealthCheck = zero_HealthCheck, ct_HealthCheckHosts = [],
     ct_HealthState = '''', ct_HostUUID = '''', ct_Hostname = '''', ct_IPs = [], ct_Labels = [],
     ct_Links = [], ct_MemoryReservation = 0, ct_MetadataKind = '''', ct_MilliCPUReservation = 0,
     ct_Name = '''', ct_NetworkFromContainerUUID = '''', ct_NetworkUUID = '''', ct_Ports = [],
     ct_PrimaryIp = '''', ct_PrimaryMacAddress = '''', ct_ServiceIndex = '''', ct_ServiceName = '''',
     ct_StackName = '''', ct_StackUUID = '''', ct_StartCount = 0, ct_State = '''', ct_System = False,
     ct_UUID = ''''\<rparr>"

definition zero_Service :: Service where
  "zero_Service = \<lparr>svc_Containers = [], svc_CreateIndex = 0, svc_EnvironmentUUID = '''', svc_Expose = [],
     svc_ExternalIps = [], svc_Fqdn = '''', svc_HealthCheck = zero_HealthCheck, svc_Hostname = '''',
     svc_Kind = '''', svc_Labels = [], svc_LBConfig = zero_LBConfig, svc_Links = [], svc_Metadata = [],
     svc_MetadataKind = '''', svc_Name = '''', svc_Ports = [], svc_PrimaryServiceName = '''',
     svc_Scale = 0, svc_Sidekicks = [], svc_StackName = '''', svc_StackUUID = '''', svc_State = '''',
     svc_System = False, svc_Token = '''', svc_UUID = '''', svc_Vip = ''''\<rparr>"

lemma GetLBMetadata_ok: "GetLBMetadata d = Inr m \<Longrightarrow> lm_PortRules m = lbc_PortRules d"
  by (auto simp: GetLBMetadata_def)

end
