(* ===== verification/Go_Sha1.thy ===== *)
theory Go_Sha1
  imports Go_Text "HOL-Library.Word"
begin

text \<open>
  SHA-1 as \<open>crypto/sha1\<close> computes it (FIPS 180-4) and the lower-case hexadecimal print of
  \<open>encoding/hex\<close>: what \<open>hashIP\<close> of \<open>controller/rancher/rancher.go\<close> makes an endpoint's name of.
\<close>

unbundle bit_operations_syntax

type_synonym u32 = "32 word"
type_synonym sha_state = "u32 \<times> u32 \<times> u32 \<times> u32 \<times> u32"

definition be_bytes :: "nat \<Rightarrow> nat \<Rightarrow> nat list" where
  "be_bytes n v = map (\<lambda>i. v div 256 ^ (n - 1 - i) mod 256) [0..<n]"

definition be_word :: "nat list \<Rightarrow> u32" where
  "be_word bs = of_nat (foldl (\<lambda>a b. 256 * a + b) 0 bs)"

definition sha1_pad :: "nat list \<Rightarrow> nat list" where
  "sha1_pad m = m @ [128] @ replicate ((119 - length m mod 64) mod 64) 0 @ be_bytes 8 (8 * length m mod 2 ^ 64)"

fun sha1_schedule :: "nat \<Rightarrow> u32 list \<Rightarrow> u32 list" where
  "sha1_schedule 0 ws = ws"
| "sha1_schedule (Suc n) ws =
     (let k = length ws
      in sha1_schedule n (ws @ [word_rotl 1 ((ws ! (k - 3)) XOR (ws ! (k - 8)) XOR
                                             (ws ! (k - 14)) XOR (ws ! (k - 16)))]))"

definition sha1_f :: "nat \<Rightarrow> u32 \<Rightarrow> u32 \<Rightarrow> u32 \<Rightarrow> u32" where
  "sha1_f t b c d =
     (if t < 20 then (b AND c) OR (NOT b AND d)
      else if t < 40 then b XOR c XOR d
      else if t < 60 then (b AND c) OR (b AND d) OR (c AND d)
      else b XOR c XOR d)"

definition sha1_k :: "nat \<Rightarrow> u32" where
  "sha1_k t = (if t < 20 then 0x5A827999 else if t < 40 then 0x6ED9EBA1
               else if t < 60 then 0x8F1BBCDC else 0xCA62C1D6)"

fun sha1_rounds :: "nat \<Rightarrow> u32 list \<Rightarrow> sha_state \<Rightarrow> sha_state" where
  "sha1_rounds t [] st = st"
| "sha1_rounds t (w # ws) (a, b, c, d, e) =
     sha1_rounds (Suc t) ws
       (word_rotl 5 a + sha1_f t b c d + e + sha1_k t + w, a, word_rotl 30 b, c, d)"

definition sha1_block :: "sha_state \<Rightarrow> u32 list \<Rightarrow> sha_state" where
  "sha1_block st ws =
     (case (st, sha1_rounds 0 (sha1_schedule 64 ws) st) of
        ((a, b, c, d, e), (a', b', c', d', e')) \<Rightarrow> (a + a', b + b', c + c', d + d', e + e'))"

fun chunks :: "nat \<Rightarrow> nat \<Rightarrow> 'a list \<Rightarrow> 'a list list" where
  "chunks n 0 xs = []"
| "chunks n (Suc k) xs = take n xs # chunks n k (drop n xs)"

definition sha1_init :: sha_state where
  "sha1_init = (0x67452301, 0xEFCDAB89, 0x98BADCFE, 0x10325476, 0xC3D2E1F0)"

definition sha1_sum :: "string \<Rightarrow> nat list" where
  "sha1_sum s =
     (let m = sha1_pad (map code s);
          blocks = map (\<lambda>b. map be_word (chunks 4 16 b)) (chunks 64 (length m div 64) m)
      in case foldl sha1_block sha1_init blocks of
           (a, b, c, d, e) \<Rightarrow> concat (map (\<lambda>x. be_bytes 4 (unat x)) [a, b, c, d, e]))"

definition hex_digit :: "nat \<Rightarrow> char" where
  "hex_digit d = (if d < 10 then char_of (48 + d) else char_of (87 + d))"

definition hex_encode :: "nat list \<Rightarrow> string" where
  "hex_encode bs = concat (map (\<lambda>b. [hex_digit (b div 16), hex_digit (b mod 16)]) bs)"

text \<open>\<open>hashIP\<close> (\<open>controller/rancher/rancher.go\<close>).\<close>

definition hashIP :: "string \<Rightarrow> string" where
  "hashIP ip = hex_encode (sha1_sum ip)"

lemma length_be_bytes [simp]: "length (be_bytes n v) = n"
  by (simp add: be_bytes_def)

lemma length_sha1_sum: "length (sha1_sum s) = 20"
  unfolding sha1_sum_def Let_def by (simp split: prod.split)

lemma length_hex_encode [simp]: "length (hex_encode bs) = 2 * length bs"
  by (induction bs) (auto simp: hex_encode_def)

text \<open>A name is forty hexadecimal digits: never empty, and with no white space in it.\<close>

lemma length_hashIP: "length (hashIP ip) = 40"
  by (simp add: hashIP_def length_sha1_sum)

lemma hashIP_ne [simp]: "hashIP ip \<noteq> []"
  using length_hashIP [of ip] by auto

lemma hex_digit_range: "d < 16 \<Longrightarrow> code (hex_digit d) \<in> {48..57} \<union> {97..102}"
  by (auto simp: hex_digit_def)

lemma be_bytes_bound: "b \<in> set (be_bytes n v) \<Longrightarrow> b < 256"
  by (auto simp: be_bytes_def)

lemma hashIP_chars: "c \<in> set (hashIP ip) \<Longrightarrow> code c \<in> {48..57} \<union> {97..102}"
proof -
  assume c: "c \<in> set (hashIP ip)"
  have bound: "b < 256" if "b \<in> set (sha1_sum ip)" for b
    using that unfolding sha1_sum_def Let_def by (auto split: prod.splits dest: be_bytes_bound)
  from c obtain b where "b \<in> set (sha1_sum ip)"
    and "c = hex_digit (b div 16) \<or> c = hex_digit (b mod 16)"
    by (auto simp: hashIP_def hex_encode_def)
  then obtain d where "c = hex_digit d" "d < 16"
    using bound [of b] by (auto intro: that [of "b div 16"] that [of "b mod 16"])
  then show ?thesis using hex_digit_range by blast
qed

lemma hashIP_no_space: "list_all (\<lambda>c. \<not> is_space c) (hashIP ip)"
  unfolding list_all_iff
proof
  fix c
  assume "c \<in> set (hashIP ip)"
  then have "code c \<in> {48..57} \<union> {97..102}" by (rule hashIP_chars)
  then show "\<not> is_space c" by (auto simp: is_space_def)
qed

end
