(* ===== verification/Endpoints.thy ===== *)
theory Endpoints
  imports Metadata_Types Go_Sha1
begin

text \<open>
  Which endpoints a target has: the service links, the states of containers, the preference for
  local ones, external and alias services (\<open>controller/rancher/rancher.go\<close>). The metadata client
  is a parameter: what one reconciliation reads of it.

  Alias services link to services, so \<open>getServiceEndpoints\<close> recurs along the links; it is
  defined with fuel, and \<open>OutOfFuel\<close> at every fuel is a recursion that does not end.
\<close>

section \<open>Outcomes\<close>

text \<open>A Go call returns a value, returns an error, or panics; with fuel it may also run out of it.\<close>

datatype 'a outcome = Ok 'a | Err go_error | Panic | OutOfFuel

fun bind_out :: "'a outcome \<Rightarrow> ('a \<Rightarrow> 'b outcome) \<Rightarrow> 'b outcome" where
  "bind_out (Ok x) f = f x"
| "bind_out (Err e) f = Err e"
| "bind_out Panic f = Panic"
| "bind_out OutOfFuel f = OutOfFuel"

definition of_result :: "'a result \<Rightarrow> 'a outcome" where
  "of_result r = (case r of Inl e \<Rightarrow> Err e | Inr x \<Rightarrow> Ok x)"

lemma of_result_simps [simp]: "of_result (Inl e) = Err e" "of_result (Inr x) = Ok x"
  by (simp_all add: of_result_def)

lemma bind_out_Ok: "bind_out r f = Ok y \<longleftrightarrow> (\<exists>x. r = Ok x \<and> f x = Ok y)"
  by (cases r) simp_all

lemma bind_out_fuel: "bind_out r (\<lambda>x. Ok (f x)) = OutOfFuel \<longleftrightarrow> r = OutOfFuel"
  by (cases r) simp_all

lemma of_result_Ok: "of_result r = Ok x \<longleftrightarrow> r = Inr x"
  by (cases r) simp_all

lemma of_result_fuel [simp]: "of_result r \<noteq> OutOfFuel" "of_result r \<noteq> Panic"
  by (cases r; simp)+

section \<open>The metadata client\<close>

record metadata_client =
  mc_GetSelfService :: "Service result"
  mc_GetSelfHost :: "Host result"
  mc_GetServices :: "Service list result"
  mc_GetContainers :: "Container list result"
  mc_GetRegionName :: "string result"
  mc_GetServiceFromRegionEnvironment :: "string \<Rightarrow> string \<Rightarrow> string \<Rightarrow> string \<Rightarrow> Service result"
  mc_GetServiceInLocalRegion :: "string \<Rightarrow> string \<Rightarrow> string \<Rightarrow> Service result"
  mc_GetServiceInLocalEnvironment :: "string \<Rightarrow> string \<Rightarrow> Service result"
  mc_GetServicesFromRegionEnvironment :: "string \<Rightarrow> string \<Rightarrow> Service list result"
  mc_GetServicesInLocalRegion :: "string \<Rightarrow> Service list result"

definition GetSelfHostUUID :: "metadata_client \<Rightarrow> string result" where
  "GetSelfHostUUID mc = (case mc_GetSelfHost mc of Inl e \<Rightarrow> Inl e | Inr h \<Rightarrow> Inr (host_UUID h))"

text \<open>\<open>GetService\<close>: a link without a slash indexes past the end of its parts.\<close>

definition GetService :: "metadata_client \<Rightarrow> string \<Rightarrow> Service outcome" where
  "GetService mc link =
     (case Split link ''/'' of
        [a, b, c, d] \<Rightarrow> of_result (mc_GetServiceFromRegionEnvironment mc a b c d)
      | [a, b, c] \<Rightarrow> of_result (mc_GetServiceInLocalRegion mc a b c)
      | a # b # _ \<Rightarrow> of_result (mc_GetServiceInLocalEnvironment mc a b)
      | _ \<Rightarrow> Panic)"

text \<open>\<open>GetContainer\<close>: the first container of the environment with the name, else the zero value.\<close>

definition GetContainer :: "metadata_client \<Rightarrow> string \<Rightarrow> string \<Rightarrow> Container result" where
  "GetContainer mc envUUID containerName =
     (case mc_GetContainers mc of
        Inl e \<Rightarrow> Inl e
      | Inr cs \<Rightarrow> Inr (case find (\<lambda>c. EqualFold (ct_EnvironmentUUID c) envUUID \<and> EqualFold (ct_Name c) containerName) cs of
          None \<Rightarrow> zero_Container | Some c \<Rightarrow> c))"

section \<open>Endpoints\<close>

definition IsActiveService :: "Service \<Rightarrow> bool" where
  "IsActiveService svc = (\<not> list_ex (EqualFold (svc_State svc)) [''inactive'', ''deactivating'', ''removed'', ''removing''])"

definition getContainerEndpoint :: "Container \<Rightarrow> int \<Rightarrow> string \<Rightarrow> string \<Rightarrow> (Endpoint \<times> bool) option" where
  "getContainerEndpoint c targetPort selfHostUUID localServicePreference =
     (if EqualFold (ct_State c) ''running'' \<or> EqualFold (ct_State c) ''starting'' \<or> EqualFold (ct_State c) ''stopping''
      then let ep = zero_Endpoint\<lparr>ep_Name := hashIP (ct_PrimaryIp c), ep_IP := ct_PrimaryIp c, ep_Port := targetPort\<rparr>;
               ep' = (if EqualFold (ct_State c) ''stopping'' then ep\<lparr>ep_Weight := 0, ep_Stopping := True\<rparr> else ep)
           in Some (ep', localServicePreference \<noteq> ''any'' \<and> \<not> EqualFold (ct_HostUUID c) selfHostUUID)
      else None)"

definition getExternalServiceEndpoints :: "Service \<Rightarrow> int \<Rightarrow> Endpoint list" where
  "getExternalServiceEndpoints svc targetPort =
     map (\<lambda>e. zero_Endpoint\<lparr>ep_Name := hashIP e, ep_IP := e, ep_Port := targetPort\<rparr>) (svc_ExternalIps svc) @
     (if svc_Hostname svc \<noteq> ''''
      then [zero_Endpoint\<lparr>ep_Name := svc_Hostname svc, ep_IP := svc_Hostname svc, ep_Port := targetPort, ep_IsCname := True\<rparr>]
      else [])"

text \<open>The loop of \<open>getRegularServiceEndpoints\<close>: the endpoints and the contingency ones.\<close>

fun container_loop ::
  "Container list \<Rightarrow> int \<Rightarrow> string \<Rightarrow> string \<Rightarrow> Endpoint list \<times> Endpoint list \<Rightarrow> Endpoint list \<times> Endpoint list" where
  "container_loop [] targetPort self pref s = s"
| "container_loop (c # cs) targetPort self pref (eps, contingency) =
     (case getContainerEndpoint c targetPort self pref of
        None \<Rightarrow> container_loop cs targetPort self pref (eps, contingency)
      | Some (ep, True) \<Rightarrow> container_loop cs targetPort self pref (eps, contingency @ [ep])
      | Some (ep, False) \<Rightarrow> container_loop cs targetPort self pref (eps @ [ep], contingency))"

definition getRegularServiceEndpoints :: "Service \<Rightarrow> int \<Rightarrow> string \<Rightarrow> string \<Rightarrow> Endpoint list" where
  "getRegularServiceEndpoints svc targetPort self pref =
     (case container_loop (svc_Containers svc) targetPort self pref ([], []) of
        (eps, contingency) \<Rightarrow> if pref = ''prefer-local'' \<and> eps = [] then contingency else eps)"

text \<open>
  The loop of \<open>getAliasServiceEndpoints\<close> over the links; \<open>rec\<close> is \<open>getServiceEndpoints\<close> of a
  linked service.
\<close>

fun alias_loop ::
  "metadata_client \<Rightarrow> (Service \<Rightarrow> Endpoint list outcome) \<Rightarrow> string list \<Rightarrow> Endpoint list \<Rightarrow> Endpoint list outcome" where
  "alias_loop mc rec [] eps = Ok eps"
| "alias_loop mc rec (link # links) eps =
     bind_out (GetService mc link) (\<lambda>service.
       bind_out (rec service) (\<lambda>newEps. alias_loop mc rec links (eps @ newEps)))"

fun getServiceEndpoints ::
  "nat \<Rightarrow> metadata_client \<Rightarrow> Service \<Rightarrow> int \<Rightarrow> string \<Rightarrow> string \<Rightarrow> Endpoint list outcome" where
  "getServiceEndpoints 0 mc svc targetPort self pref = OutOfFuel"
| "getServiceEndpoints (Suc n) mc svc targetPort self pref =
     bind_out
       (if EqualFold (svc_Kind svc) ''externalService'' then Ok (getExternalServiceEndpoints svc targetPort)
        else if EqualFold (svc_Kind svc) ''dnsService''
        then alias_loop mc (\<lambda>s. getServiceEndpoints n mc s targetPort self pref) (keys_of (svc_Links svc)) []
        else Ok (getRegularServiceEndpoints svc targetPort self pref))
       (\<lambda>eps. Ok (sort_endpoints eps))"

definition getServiceHealthCheck :: "Service \<Rightarrow> HealthCheck result" where
  "getServiceHealthCheck svc = getConfigServiceHealthCheck (svc_HealthCheck svc)"

definition getContainerHealthcheck :: "Container \<Rightarrow> HealthCheck result" where
  "getContainerHealthcheck c = getConfigServiceHealthCheck (ct_HealthCheck c)"

section \<open>Containers\<close>

lemma container_endpoint_shape:
  "getContainerEndpoint c p self pref = Some (ep, far) \<Longrightarrow>
   ep_IP ep = ct_PrimaryIp c \<and> ep_Name ep = hashIP (ct_PrimaryIp c) \<and> ep_Port ep = p \<and> ep_Weight ep = 0 \<and>
   ep_Config ep = '''' \<and> \<not> ep_IsCname ep \<and> ep_Stopping ep = EqualFold (ct_State c) ''stopping''"
  by (auto simp: getContainerEndpoint_def zero_Endpoint_def Let_def split: if_splits)

definition live_container :: "Container \<Rightarrow> bool" where
  "live_container c \<longleftrightarrow> list_ex (EqualFold (ct_State c)) [''running'', ''starting'', ''stopping'']"

definition local_container :: "string \<Rightarrow> Container \<Rightarrow> bool" where
  "local_container self c \<longleftrightarrow> EqualFold (ct_HostUUID c) self"

definition container_endpoint :: "int \<Rightarrow> Container \<Rightarrow> Endpoint" where
  "container_endpoint p c = zero_Endpoint\<lparr>ep_Name := hashIP (ct_PrimaryIp c), ep_IP := ct_PrimaryIp c,
     ep_Port := p, ep_Stopping := EqualFold (ct_State c) ''stopping''\<rparr>"

lemma getContainerEndpoint_eq:
  "getContainerEndpoint c p self pref =
     (if live_container c then Some (container_endpoint p c, pref \<noteq> ''any'' \<and> \<not> local_container self c) else None)"
  by (simp add: getContainerEndpoint_def live_container_def container_endpoint_def local_container_def
      zero_Endpoint_def Let_def)

lemma container_loop_eq:
  "container_loop cs p self pref (eps, con) =
     (eps @ map (container_endpoint p)
        (filter (\<lambda>c. live_container c \<and> (pref = ''any'' \<or> local_container self c)) cs),
      con @ map (container_endpoint p)
        (filter (\<lambda>c. live_container c \<and> \<not> (pref = ''any'' \<or> local_container self c)) cs))"
  by (induction cs arbitrary: eps con) (auto simp: getContainerEndpoint_eq)

lemma regular_endpoints_subset:
  "set (getRegularServiceEndpoints svc p self pref) \<subseteq> container_endpoint p ` set (svc_Containers svc)"
  by (auto simp: getRegularServiceEndpoints_def container_loop_eq)

text \<open>
  The preference for local containers, in closed form: without a preference every live
  container of a regular service is an endpoint; otherwise those on this host are, and with
  \<open>prefer-local\<close>, when there is none, those on the other hosts; the order of the metadata is
  kept, and an endpoint is stopping exactly when its container is.
\<close>

theorem regular_endpoints_eq:
  "getRegularServiceEndpoints svc p self pref = map (container_endpoint p)
     (let live = filter live_container (svc_Containers svc); near = filter (local_container self) live in
      if pref = ''any'' then live
      else if pref = ''prefer-local'' \<and> near = [] then live
      else near)"
proof -
  let ?cs = "svc_Containers svc"
  have near: "filter (\<lambda>c. live_container c \<and> (pref = ''any'' \<or> local_container self c)) ?cs =
      (if pref = ''any'' then filter live_container ?cs else filter (local_container self) (filter live_container ?cs))"
    by (simp add: filter_filter conj_commute)
  have far: "filter (\<lambda>c. live_container c \<and> \<not> (pref = ''any'' \<or> local_container self c)) ?cs = filter live_container ?cs"
    if "pref \<noteq> ''any''" "filter (local_container self) (filter live_container ?cs) = []"
    using that by (auto simp: filter_empty_conv intro!: filter_cong)
  show ?thesis
    using near far by (auto simp: getRegularServiceEndpoints_def container_loop_eq Let_def)
qed

section \<open>Aliases\<close>

lemma alias_loop_mono:
  assumes "\<And>s. rec s \<noteq> OutOfFuel \<Longrightarrow> rec' s = rec s"
  shows "alias_loop mc rec links eps \<noteq> OutOfFuel \<Longrightarrow> alias_loop mc rec' links eps = alias_loop mc rec links eps"
proof (induction links arbitrary: eps)
  case (Cons link links)
  show ?case
  proof (cases "GetService mc link")
    case (Ok s)
    with Cons.prems have "rec s \<noteq> OutOfFuel" by auto
    with assms have "rec' s = rec s" .
    with Ok Cons show ?thesis by (cases "rec s") auto
  qed simp_all
qed simp

lemma service_endpoints_mono:
  "getServiceEndpoints n mc svc p self pref \<noteq> OutOfFuel \<Longrightarrow>
   getServiceEndpoints (n + k) mc svc p self pref = getServiceEndpoints n mc svc p self pref"
proof (induction n arbitrary: svc)
  case (Suc n)
  let ?rec = "\<lambda>s. getServiceEndpoints n mc s p self pref"
  let ?rec' = "\<lambda>s. getServiceEndpoints (n + k) mc s p self pref"
  have "alias_loop mc ?rec' ls eps = alias_loop mc ?rec ls eps" if "alias_loop mc ?rec ls eps \<noteq> OutOfFuel" for ls eps
    using alias_loop_mono [of ?rec ?rec'] Suc.IH that by blast
  with Suc.prems show ?case
    by (cases "EqualFold (svc_Kind svc) ''externalService''"; cases "EqualFold (svc_Kind svc) ''dnsService''")
      (simp_all add: bind_out_fuel)
qed simp

text \<open>A rank that falls along the links of alias services bounds the fuel.\<close>

definition alias_rank :: "metadata_client \<Rightarrow> (Service \<Rightarrow> nat) \<Rightarrow> bool" where
  "alias_rank mc rank \<longleftrightarrow>
     (\<forall>svc link s. EqualFold (svc_Kind svc) ''dnsService'' \<longrightarrow> link \<in> set (keys_of (svc_Links svc)) \<longrightarrow>
        GetService mc link = Ok s \<longrightarrow> rank s < rank svc)"

lemma alias_loop_fuel:
  "(\<And>link s. link \<in> set links \<Longrightarrow> GetService mc link = Ok s \<Longrightarrow> rec s \<noteq> OutOfFuel) \<Longrightarrow>
   alias_loop mc rec links eps \<noteq> OutOfFuel"
proof (induction links arbitrary: eps)
  case (Cons link links)
  have g: "GetService mc link \<noteq> OutOfFuel"
    by (auto simp: GetService_def split: list.split)
  show ?case
  proof (cases "GetService mc link")
    case (Ok s)
    with Cons.prems [of link s] have "rec s \<noteq> OutOfFuel" by simp
    with Ok Cons show ?thesis by (cases "rec s") auto
  qed (use g in simp_all)
qed simp

lemma service_endpoints_fuel:
  "alias_rank mc rank \<Longrightarrow> rank svc < n \<Longrightarrow> getServiceEndpoints n mc svc p self pref \<noteq> OutOfFuel"
proof (induction n arbitrary: svc)
  case (Suc n)
  have "alias_loop mc (\<lambda>s. getServiceEndpoints n mc s p self pref) (keys_of (svc_Links svc)) [] \<noteq> OutOfFuel"
    if "EqualFold (svc_Kind svc) ''dnsService''"
    by (rule alias_loop_fuel, rule Suc.IH [OF Suc.prems(1)])
      (use Suc.prems that in \<open>fastforce simp: alias_rank_def\<close>)
  then show ?case
    by (cases "EqualFold (svc_Kind svc) ''externalService''"; cases "EqualFold (svc_Kind svc) ''dnsService''")
      (simp_all add: bind_out_fuel)
qed simp

text \<open>
  C33 Alias services resolve when their links are well-founded: if some rank falls along every
  link of an alias service, the recursion from any service returns, with one more unit of fuel
  than its rank, and more fuel gives the same result; it then cannot run for ever.
\<close>

theorem alias_terminates:
  assumes "alias_rank mc rank"
  shows "getServiceEndpoints (Suc (rank svc)) mc svc p self pref \<noteq> OutOfFuel \<and>
    getServiceEndpoints (Suc (rank svc) + k) mc svc p self pref = getServiceEndpoints (Suc (rank svc)) mc svc p self pref"
  using service_endpoints_fuel [OF assms lessI] service_endpoints_mono by blast

text \<open>Two services: \<open>s/web\<close> with one address and an alias of it, \<open>s/www\<close>.\<close>

definition demo_web :: Service where
  "demo_web = zero_Service\<lparr>svc_Name := ''web'', svc_StackName := ''s'', svc_Kind := ''externalService'',
     svc_ExternalIps := [''10.0.0.1'']\<rparr>"

definition demo_alias :: Service where
  "demo_alias = zero_Service\<lparr>svc_Name := ''www'', svc_StackName := ''s'', svc_Kind := ''dnsService'',
     svc_Links := [(''s/web'', ''web'')]\<rparr>"

definition demo_client :: metadata_client where
  "demo_client = \<lparr>mc_GetSelfService = Inr demo_web, mc_GetSelfHost = Inl (Errorf ''no host'' []),
     mc_GetServices = Inr [demo_web, demo_alias], mc_GetContainers = Inr [], mc_GetRegionName = Inr ''r'',
     mc_GetServiceFromRegionEnvironment = (\<lambda>r e st n. Inl (Errorf ''not found'' [])),
     mc_GetServiceInLocalRegion = (\<lambda>e st n. Inl (Errorf ''not found'' [])),
     mc_GetServiceInLocalEnvironment = (\<lambda>st n. Inr demo_web),
     mc_GetServicesFromRegionEnvironment = (\<lambda>r e. Inl (Errorf ''not found'' [])),
     mc_GetServicesInLocalRegion = (\<lambda>e. Inl (Errorf ''not found'' []))\<rparr>"

lemma demo_GetService: "GetService demo_client link = Ok s \<Longrightarrow> s = demo_web"
  by (auto simp: GetService_def demo_client_def split: list.splits)

lemma not_dns_external: "\<not> EqualFold ''externalService'' ''dnsService''"
  by code_simp

lemma demo_rank: "alias_rank demo_client (\<lambda>svc. if EqualFold (svc_Kind svc) ''dnsService'' then 1 else 0)"
  unfolding alias_rank_def using demo_GetService not_dns_external
  by (fastforce simp: demo_web_def)

lemma alias_terminates_witness:
  "getServiceEndpoints (Suc (if EqualFold (svc_Kind demo_alias) ''dnsService'' then 1 else 0)) demo_client demo_alias
     80 ''h'' ''any'' \<noteq> OutOfFuel \<and>
   getServiceEndpoints (Suc (if EqualFold (svc_Kind demo_alias) ''dnsService'' then 1 else 0) + 5) demo_client demo_alias
     80 ''h'' ''any'' =
   getServiceEndpoints (Suc (if EqualFold (svc_Kind demo_alias) ''dnsService'' then 1 else 0)) demo_client demo_alias
     80 ''h'' ''any''"
  by (rule alias_terminates [OF demo_rank])

text \<open>
  A cycle of aliases never resolves: an alias service that links to itself makes the recursion
  run for ever, at any depth, so one such service in the metadata ends the controller (the code
  keeps no record of the services it is resolving).
\<close>

theorem alias_cycle_diverges:
  assumes "svc_Kind svc = ''dnsService''" and "svc_Links svc = (link, name) # links" and "GetService mc link = Ok svc"
  shows "getServiceEndpoints n mc svc p self pref = OutOfFuel"
proof (induction n)
  case (Suc n)
  have "\<not> EqualFold ''dnsService'' ''externalService''" by code_simp
  with assms Suc show ?case by simp
qed simp

definition loop_alias :: Service where
  "loop_alias = zero_Service\<lparr>svc_Kind := ''dnsService'', svc_Links := [(''s/www'', ''www'')]\<rparr>"

lemma alias_cycle_diverges_witness:
  "getServiceEndpoints 9 (demo_client\<lparr>mc_GetServiceInLocalEnvironment := (\<lambda>st nm. Inr loop_alias)\<rparr>) loop_alias 80 ''h'' ''any''
     = OutOfFuel"
proof (rule alias_cycle_diverges [of _ "''s/www''" "''www''" "[]"])
  have "Split ''s/www'' ''/'' = [''s'', ''www'']" by code_simp
  then show "GetService (demo_client\<lparr>mc_GetServiceInLocalEnvironment := (\<lambda>st nm. Inr loop_alias)\<rparr>) ''s/www'' = Ok loop_alias"
    by (simp add: GetService_def)
qed (simp_all add: loop_alias_def)

end
