(* ===== verification/Selector.thy ===== *)
theory Selector
  imports Go_Text
begin

text \<open>
  Label selectors (\<open>controller/rancher/selector_util.go\<close>): the five constraints, how a selector
  text is cut into constraints, and when labels match it.
\<close>

section \<open>Constraints\<close>

abbreviation (input) "NEQ \<equiv> ''!=''"
abbreviation (input) "EQ \<equiv> ''=''"
abbreviation (input) "NOTIN \<equiv> '' notin ''"
abbreviation (input) "IN \<equiv> '' in ''"
abbreviation (input) "NOOP \<equiv> ''''"

datatype SelectorConstraint =
    SelectorConstraintIn string "string list"
  | SelectorConstraintNotIn string "string list"
  | SelectorConstraintEq string string
  | SelectorConstraintNEq string string
  | SelectorConstraintNoop string

text \<open>The method \<open>IsSelectorMatch\<close> of each constraint; the loops stop at the first hit.\<close>

fun constraint_match :: "SelectorConstraint \<Rightarrow> (string, string) gomap \<Rightarrow> bool" where
  "constraint_match (SelectorConstraintIn key vals) labels =
     list_ex (\<lambda>(k, l). EqualFold k key \<and> list_ex (\<lambda>v. EqualFold l v) vals) labels"
| "constraint_match (SelectorConstraintNotIn key vals) labels =
     list_ex (\<lambda>(k, l). EqualFold k key \<and> list_ex (\<lambda>v. \<not> EqualFold l v) vals) labels"
| "constraint_match (SelectorConstraintEq key val) labels =
     list_ex (\<lambda>(k, l). EqualFold k key \<and> EqualFold l val) labels"
| "constraint_match (SelectorConstraintNEq key val) labels =
     list_ex (\<lambda>(k, l). EqualFold k key \<and> \<not> EqualFold l val) labels"
| "constraint_match (SelectorConstraintNoop key) labels = has_key labels key"

text \<open>
  \<open>GetSelectorConstraint\<close>: the loop over the operators, in the order of \<open>opts\<close>, with the
  variables \<open>finalOp\<close>, \<open>key\<close> and \<open>value\<close>; the second test of \<open>EQ\<close> stands in the source.
\<close>

fun constraint_loop ::
  "string \<Rightarrow> string list \<Rightarrow> string \<Rightarrow> string \<Rightarrow> string \<Rightarrow> SelectorConstraint option" where
  "constraint_loop selector [] finalOp key val = None"
| "constraint_loop selector (opr # ops) finalOp key val =
     (if opr = NOOP then constraint_loop selector ops finalOp key val
      else let xs = Split selector opr;
               two = (length xs = 2);
               finalOp' = (if two then opr else finalOp);
               key' = (if two then TrimSpace (xs ! 0) else key);
               val' = (if two then TrimSpace (xs ! 1) else val)
           in if finalOp' = EQ then Some (SelectorConstraintEq key' val')
              else if finalOp' = EQ then Some (SelectorConstraintNEq key' val')
              else if finalOp' = NOOP then Some (SelectorConstraintNoop key')
              else if finalOp' = IN then Some (SelectorConstraintIn key' (Split val' '',''))
              else if finalOp' = NOTIN then Some (SelectorConstraintNotIn key' (Split val' '',''))
              else constraint_loop selector ops finalOp' key' val')"

definition GetSelectorConstraint :: "string \<Rightarrow> SelectorConstraint option" where
  "GetSelectorConstraint selector = constraint_loop selector [NOOP, EQ, NOTIN, IN, NEQ] NOOP '''' ''''"

text \<open>
  The first loop of \<open>GetSelectorConstraints\<close>, over the runes of the selector (\<open>n\<close> bytes long):
  \<open>con\<close> is the constraint being read, \<open>acc\<close> the ones finished.
\<close>

fun scan_constraints ::
  "nat \<Rightarrow> (nat \<times> nat) list \<Rightarrow> bool \<Rightarrow> string \<Rightarrow> string list \<Rightarrow> string list" where
  "scan_constraints n [] inList con acc = acc"
| "scan_constraints n ((i, r) # rs) inList con acc =
     (let c = encode_rune r; lst = (Suc i = n);
          inList' = (if c = ''('' then True else if c = '')'' then False else inList);
          con' = (if c = ''('' \<or> c = '')'' then con
                  else if c = '','' \<and> \<not> inList then con else con @ c);
          finish = (lst \<or> (c = '','' \<and> \<not> inList))
      in if finish then scan_constraints n rs inList' '''' (acc @ [con'])
         else scan_constraints n rs inList' con' acc)"

definition constraint_texts :: "string \<Rightarrow> string list" where
  "constraint_texts selector = scan_constraints (length selector) (runes selector) False '''' []"

definition GetSelectorConstraints :: "string \<Rightarrow> SelectorConstraint list" where
  "GetSelectorConstraints selector = List.map_filter GetSelectorConstraint (constraint_texts selector)"

definition IsSelectorMatch :: "string \<Rightarrow> (string, string) gomap \<Rightarrow> bool" where
  "IsSelectorMatch selector labels =
     (if selector = '''' then False
      else let constraints = GetSelectorConstraints selector
           in if constraints = [] then False
              else length (filter (\<lambda>c. constraint_match c labels) constraints) = length constraints)"

section \<open>What a constraint text denotes\<close>

text \<open>
  The loop returns in its second round, the one for \<open>=\<close>: the operators after it are never
  tried.
\<close>

lemma GetSelectorConstraint_eq:
  "GetSelectorConstraint s =
     Some (case Split s EQ of [k, v] \<Rightarrow> SelectorConstraintEq (TrimSpace k) (TrimSpace v)
           | _ \<Rightarrow> SelectorConstraintNoop '''')"
proof (cases "length (Split s EQ) = 2")
  case True
  then obtain k v where "Split s EQ = [k, v]"
    by (auto simp: length_Suc_conv numeral_2_eq_2)
  then show ?thesis by (simp add: GetSelectorConstraint_def Let_def)
next
  case False
  then have "(case Split s EQ of [k, v] \<Rightarrow> SelectorConstraintEq (TrimSpace k) (TrimSpace v)
              | _ \<Rightarrow> SelectorConstraintNoop '''') = SelectorConstraintNoop ''''"
    by (auto split: list.split)
  with False show ?thesis by (simp add: GetSelectorConstraint_def Let_def)
qed

lemma GetSelectorConstraints_map:
  "GetSelectorConstraints s = map (the \<circ> GetSelectorConstraint) (constraint_texts s)"
  unfolding GetSelectorConstraints_def
  by (induction "constraint_texts s") (auto simp: map_filter_def GetSelectorConstraint_eq)

lemma IsSelectorMatch_iff:
  "IsSelectorMatch s labels \<longleftrightarrow> s \<noteq> '''' \<and> constraint_texts s \<noteq> [] \<and>
     (\<forall>t \<in> set (constraint_texts s). constraint_match (the (GetSelectorConstraint t)) labels)"
  by (auto simp: IsSelectorMatch_def GetSelectorConstraints_map length_filter_all)

section \<open>How a selector is cut\<close>

text \<open>Without parentheses the texts are what stands between the commas.\<close>

lemma scan_comma_parts:
  assumes "is_ascii s" and "CHR ''('' \<notin> set s" and "CHR '')'' \<notin> set s" and "s \<noteq> []"
  shows "scan_constraints (i + length s) (runes_from i s) False w acc =
     acc @ (if last s = CHR '','' then butlast (char_parts CHR '','' w s) else char_parts CHR '','' w s)"
  using assms
proof (induction s arbitrary: i w acc)
  case (Cons c cs)
  from Cons.prems have c: "c \<noteq> CHR ''(''" "c \<noteq> CHR '')''" by auto
  show ?case
  proof (cases "cs = []")
    case True
    with Cons.prems c show ?thesis by (simp add: Let_def)
  next
    case False
    with Cons.prems c Cons.IH [of "Suc i"] show ?thesis by (simp add: Let_def)
  qed
qed simp

lemma constraint_texts_ascii:
  "is_ascii s \<Longrightarrow> CHR ''('' \<notin> set s \<Longrightarrow> CHR '')'' \<notin> set s \<Longrightarrow> s \<noteq> '''' \<Longrightarrow>
   constraint_texts s = (if last s = CHR '','' then butlast (Split s '','') else Split s '','')"
  unfolding constraint_texts_def Split_char using scan_comma_parts [of s 0] by simp

lemma constraint_texts_single:
  "is_ascii s \<Longrightarrow> set s \<inter> {CHR ''('', CHR '')'', CHR '',''} = {} \<Longrightarrow> s \<noteq> '''' \<Longrightarrow>
   constraint_texts s = [s]"
  using last_in_set [of s]
  by (subst constraint_texts_ascii) (auto simp: Split_no_sep Cut_char simp del: last_in_set)

end
