(* ===== verification/Build_Config.thy ===== *)
theory Build_Config
  imports Endpoints Selector
begin

text \<open>
  From the metadata to the configuration (\<open>controller/rancher/rancher.go\<close>): the port rules, the
  selector rules that are expanded into port rules, and the configuration they give. Frontends
  point to backends: a backend lives in \<open>allBe\<close> under its path key, and a frontend holds the
  keys of its backends, so a later rule that extends a backend extends it for its frontend.
\<close>

section \<open>The environment\<close>

text \<open>
  What the controller calls: the metadata client, the certificate fetcher, and the provider's
  \<open>ProcessCustomConfig\<close>.
\<close>

record controller_env =
  ce_meta :: metadata_client
  ce_fetch :: "LBMetadata \<Rightarrow> bool \<Rightarrow> Certificate option list result"
  ce_process :: "LoadBalancerConfig \<Rightarrow> string \<Rightarrow> unit result \<times> LoadBalancerConfig"

definition zero_LBMetadata :: LBMetadata where
  "zero_LBMetadata = \<lparr>lm_PortRules = [], lm_Certs = [], lm_DefaultCert = '''', lm_Config = '''',
     lm_StickinessPolicy = \<lparr>sp_Name = '''', sp_Cookie = '''', sp_Domain = '''', sp_Indirect = False,
       sp_Nocache = False, sp_Postonly = False, sp_Mode = ''''\<rparr>\<rparr>"

section \<open>One port rule\<close>

record frontend_cell =
  fc_frontend :: FrontendService
  fc_backends :: "string list"

record build_state =
  bs_frontends :: "(string, frontend_cell) gomap"
  bs_allBe :: "(string, BackendService) gomap"
  bs_allEps :: "(string, string list) gomap"

definition init_build :: build_state where
  "init_build = \<lparr>bs_frontends = [], bs_allBe = [], bs_allEps = []\<rparr>"

text \<open>The endpoints and the health check of a rule's target; \<open>None\<close> where the loop continues.\<close>

definition rule_targets ::
  "nat \<Rightarrow> metadata_client \<Rightarrow> string \<Rightarrow> string \<Rightarrow> string \<Rightarrow> PortRule \<Rightarrow> (Endpoint list \<times> HealthCheck) option outcome" where
  "rule_targets n mc envUUID selfHostUUID pref rule =
     (if pr_Service rule \<noteq> '''' then
        bind_out (GetService mc (pr_Service rule)) (\<lambda>service.
          if \<not> IsActiveService service then Ok None
          else bind_out (getServiceEndpoints n mc service (pr_TargetPort rule) selfHostUUID pref) (\<lambda>eps.
            bind_out (of_result (getServiceHealthCheck service)) (\<lambda>hc. Ok (Some (eps, hc)))))
      else
        bind_out (of_result (GetContainer mc envUUID (pr_Container rule))) (\<lambda>container.
          case getContainerEndpoint container (pr_TargetPort rule) selfHostUUID pref of
            None \<Rightarrow> Ok None
          | Some (ep, _) \<Rightarrow>
              bind_out (of_result (getContainerHealthcheck container)) (\<lambda>hc. Ok (Some ([ep], hc)))))"

text \<open>Host, path and comparator of a rule.\<close>

definition is_http_like :: "PortRule \<Rightarrow> bool" where
  "is_http_like rule \<longleftrightarrow> EqualFold (pr_Protocol rule) HTTPSProto \<or> EqualFold (pr_Protocol rule) HTTPProto \<or>
     EqualFold (pr_Protocol rule) SNIProto"

definition rule_path :: "PortRule \<Rightarrow> string" where
  "rule_path rule = (if is_http_like rule then pr_Path rule else '''')"

definition rule_host :: "PortRule \<Rightarrow> string \<times> string" where
  "rule_host rule =
     (let hostname = (if is_http_like rule then pr_Hostname rule else '''') in
      if length hostname > 2 then
        (if HasPrefix hostname ''*'' then (tl hostname, EndRuleComparator)
         else if HasSuffix hostname ''*'' then (butlast hostname, BegRuleComparator)
         else (hostname, EqRuleComparator))
      else (hostname, EqRuleComparator))"

definition rule_key :: "PortRule \<Rightarrow> string" where
  "rule_key rule = path_uuid (pr_SourcePort rule) (fst (rule_host rule)) (rule_path rule)"

definition weigh :: "int \<Rightarrow> Endpoint \<Rightarrow> Endpoint" where
  "weigh w ep = (if ep_Stopping ep then ep else ep\<lparr>ep_Weight := w\<rparr>)"

text \<open>The loop that adds the endpoints of a later rule to a backend: addresses seen are skipped.\<close>

fun merge_endpoints :: "int \<Rightarrow> Endpoint list \<Rightarrow> string list \<times> Endpoint list \<Rightarrow> string list \<times> Endpoint list" where
  "merge_endpoints w [] s = s"
| "merge_endpoints w (ep # eps) (epMap, out) =
     (if ep_IP ep \<in> set epMap then merge_endpoints w eps (epMap, out)
      else merge_endpoints w eps (ep_IP ep # epMap, out @ [weigh w ep]))"

definition new_backend :: "PortRule \<Rightarrow> Endpoint list \<Rightarrow> HealthCheck \<Rightarrow> BackendService" where
  "new_backend rule eps hc =
     \<lparr>be_UUID = (if pr_BackendName rule = ''''
         then FormulateBackendName (pr_SourcePort rule) (fst (rule_host rule)) (rule_path rule)
         else pr_BackendName rule),
      be_Endpoints = map (weigh (pr_Weight rule)) eps, be_Path = rule_path rule, be_Host = fst (rule_host rule),
      be_RuleComparator = snd (rule_host rule), be_Algorithm = '''', be_Port = pr_TargetPort rule,
      be_Protocol = pr_Protocol rule, be_Config = '''', be_HealthCheck = Some hc,
      be_Priority = pr_Priority rule, be_SendProxy = False\<rparr>"

definition new_cell :: "PortRule \<Rightarrow> frontend_cell" where
  "new_cell rule = \<lparr>fc_frontend = \<lparr>fe_Name = Itoa (pr_SourcePort rule), fe_Port = pr_SourcePort rule,
      fe_BackendServices = [], fe_Protocol = pr_Protocol rule, fe_Config = '''', fe_AcceptProxy = False\<rparr>,
     fc_backends = []\<rparr>"

definition add_rule :: "PortRule \<Rightarrow> Endpoint list \<Rightarrow> HealthCheck \<Rightarrow> build_state \<Rightarrow> build_state" where
  "add_rule rule eps hc st =
     (let name = Itoa (pr_SourcePort rule); key = rule_key rule;
          cell = (case map_of (bs_frontends st) name of Some c \<Rightarrow> c | None \<Rightarrow> new_cell rule)
      in case map_of (bs_allBe st) key of
           Some backend \<Rightarrow>
             (case merge_endpoints (pr_Weight rule) eps (map_get [] (bs_allEps st) key, be_Endpoints backend) of
                (epMap, out) \<Rightarrow>
                  st\<lparr>bs_frontends := AList.update name cell (bs_frontends st),
                     bs_allBe := AList.update key (backend\<lparr>be_Endpoints := out\<rparr>) (bs_allBe st),
                     bs_allEps := AList.update key epMap (bs_allEps st)\<rparr>)
         | None \<Rightarrow>
             st\<lparr>bs_frontends := AList.update name (cell\<lparr>fc_backends := fc_backends cell @ [key]\<rparr>) (bs_frontends st),
                bs_allBe := AList.update key (new_backend rule eps hc) (bs_allBe st),
                bs_allEps := AList.update key (map ep_IP eps) (bs_allEps st)\<rparr>)"

definition rule_step ::
  "nat \<Rightarrow> metadata_client \<Rightarrow> string \<Rightarrow> string \<Rightarrow> string \<Rightarrow> PortRule \<Rightarrow> build_state \<Rightarrow> build_state outcome" where
  "rule_step n mc envUUID selfHostUUID pref rule st =
     (if pr_SourcePort rule < 1 then Ok st
      else bind_out (rule_targets n mc envUUID selfHostUUID pref rule) (\<lambda>t.
        case t of None \<Rightarrow> Ok st | Some (eps, hc) \<Rightarrow> Ok (add_rule rule eps hc st)))"

fun rule_loop ::
  "nat \<Rightarrow> metadata_client \<Rightarrow> string \<Rightarrow> string \<Rightarrow> string \<Rightarrow> PortRule list \<Rightarrow> build_state \<Rightarrow> build_state outcome" where
  "rule_loop n mc envUUID self pref [] st = Ok st"
| "rule_loop n mc envUUID self pref (r # rs) st =
     bind_out (rule_step n mc envUUID self pref r st) (rule_loop n mc envUUID self pref rs)"

section \<open>The configuration\<close>

text \<open>A frontend with its backends looked up and sorted.\<close>

definition finish_frontend :: "build_state \<Rightarrow> frontend_cell \<Rightarrow> FrontendService" where
  "finish_frontend st cell =
     (fc_frontend cell)\<lparr>fe_BackendServices :=
        sort_backends (List.map_filter (map_of (bs_allBe st)) (fc_backends cell))\<rparr>"

definition finish_frontends :: "build_state \<Rightarrow> FrontendService list" where
  "finish_frontends st = sort_frontends (map (\<lambda>(_, c). finish_frontend st c) (bs_frontends st))"

definition BuildConfigFromMetadata ::
  "nat \<Rightarrow> controller_env \<Rightarrow> string \<Rightarrow> string \<Rightarrow> string \<Rightarrow> string \<Rightarrow> LBMetadata option \<Rightarrow>
   LoadBalancerConfig list outcome" where
  "BuildConfigFromMetadata n env lbName envUUID selfHostUUID localServicePreference meta =
     (let lbMeta = (case meta of None \<Rightarrow> zero_LBMetadata | Some m \<Rightarrow> m) in
      bind_out (of_result (ce_fetch env lbMeta True)) (\<lambda>defCerts.
        let defaultCert = (case defCerts of [] \<Rightarrow> None | c # _ \<Rightarrow> c) in
        bind_out (of_result (ce_fetch env lbMeta False)) (\<lambda>alternateCerts.
          bind_out (rule_loop n (ce_meta env) envUUID selfHostUUID localServicePreference
                      (lm_PortRules lbMeta) init_build) (\<lambda>st.
            let lbConfig = \<lparr>lb_DefaultCert = defaultCert,
                  lb_Certs = (case defaultCert of None \<Rightarrow> [] | Some c \<Rightarrow> [Some c]) @ alternateCerts,
                  lb_Name = lbName, lb_Annotations = [], lb_FrontendServices = finish_frontends st,
                  lb_Config = '''', lb_StickinessPolicy = Some (lm_StickinessPolicy lbMeta)\<rparr>
            in case ce_process env lbConfig (lm_Config lbMeta) of
                 (Inl e, _) \<Rightarrow> Err e
               | (Inr _, lbConfig') \<Rightarrow> Ok [lbConfig']))))"

section \<open>Selector rules\<close>

definition GetRegionServices :: "metadata_client \<Rightarrow> Service list \<Rightarrow> string \<Rightarrow> string \<Rightarrow> Service list result" where
  "GetRegionServices mc localsvcs regionName envName =
     (if regionName \<noteq> '''' \<and> envName \<noteq> '''' then mc_GetServicesFromRegionEnvironment mc regionName envName
      else if envName \<noteq> '''' then mc_GetServicesInLocalRegion mc envName
      else Inr localsvcs)"

definition getServiceName :: "string \<Rightarrow> string \<Rightarrow> string \<Rightarrow> string \<Rightarrow> string" where
  "getServiceName svcName stackName regionName envName =
     (if regionName \<noteq> '''' then regionName @ ''/'' @ envName @ ''/'' @ stackName @ ''/'' @ svcName
      else if envName \<noteq> '''' then envName @ ''/'' @ stackName @ ''/'' @ svcName
      else stackName @ ''/'' @ svcName)"

text \<open>The rules one matching service contributes to a selector rule.\<close>

definition target_rule :: "bool \<Rightarrow> PortRule \<Rightarrow> string \<Rightarrow> Service \<Rightarrow> PortRule \<Rightarrow> PortRule" where
  "target_rule skipTarget lbRule svcName svc rule =
     (let port = zero_PortRule\<lparr>pr_SourcePort := pr_SourcePort lbRule, pr_Protocol := pr_Protocol lbRule,
            pr_Service := svcName, pr_TargetPort := pr_TargetPort rule, pr_BackendName := pr_BackendName rule,
            pr_Weight := pr_Weight lbRule\<rparr>
      in if skipTarget \<and> EqualFold (svc_Kind svc) ''loadBalancerService'' then port
         else port\<lparr>pr_Hostname := pr_Hostname rule, pr_Path := pr_Path rule\<rparr>)"

definition own_rule :: "PortRule \<Rightarrow> string \<Rightarrow> PortRule" where
  "own_rule lbRule svcName =
     zero_PortRule\<lparr>pr_SourcePort := pr_SourcePort lbRule, pr_Protocol := pr_Protocol lbRule,
       pr_Path := pr_Path lbRule, pr_Hostname := pr_Hostname lbRule, pr_Service := svcName,
       pr_TargetPort := pr_TargetPort lbRule, pr_BackendName := pr_BackendName lbRule,
       pr_Weight := pr_Weight lbRule\<rparr>"

fun service_rules :: "bool \<Rightarrow> PortRule \<Rightarrow> string \<Rightarrow> string \<Rightarrow> Service list \<Rightarrow> PortRule list result" where
  "service_rules skipTarget lbRule regionName envName [] = Inr []"
| "service_rules skipTarget lbRule regionName envName (svc # svcs) =
     (if \<not> IsSelectorMatch (pr_Selector lbRule) (svc_Labels svc)
      then service_rules skipTarget lbRule regionName envName svcs
      else if lbc_PortRules (svc_LBConfig svc) = [] \<and> pr_TargetPort lbRule = 0
      then service_rules skipTarget lbRule regionName envName svcs
      else case GetLBMetadata (svc_LBConfig svc) of
        Inl e \<Rightarrow> Inl e
      | Inr meta \<Rightarrow>
          (let svcName = getServiceName (svc_Name svc) (svc_StackName svc) regionName envName;
               new = (if lm_PortRules meta \<noteq> []
                      then map (target_rule skipTarget lbRule svcName svc) (lm_PortRules meta)
                      else [own_rule lbRule svcName])
           in case service_rules skipTarget lbRule regionName envName svcs of
                Inl e \<Rightarrow> Inl e | Inr rest \<Rightarrow> Inr (new @ rest)))"

fun selector_rules :: "metadata_client \<Rightarrow> bool \<Rightarrow> Service list \<Rightarrow> PortRule list \<Rightarrow> PortRule list result" where
  "selector_rules mc skipTarget localsvcs [] = Inr []"
| "selector_rules mc skipTarget localsvcs (lbRule # rs) =
     (if pr_Selector lbRule = '''' then
        (case selector_rules mc skipTarget localsvcs rs of Inl e \<Rightarrow> Inl e | Inr rest \<Rightarrow> Inr (lbRule # rest))
      else
        let regionName = ToLower (pr_Region lbRule); envName = ToLower (pr_Environment lbRule) in
        case GetRegionServices mc localsvcs regionName envName of
          Inl _ \<Rightarrow> selector_rules mc skipTarget localsvcs rs
        | Inr svcs \<Rightarrow>
            (case service_rules skipTarget lbRule regionName envName svcs of
               Inl e \<Rightarrow> Inl e
             | Inr new \<Rightarrow>
                 (case selector_rules mc skipTarget localsvcs rs of Inl e \<Rightarrow> Inl e | Inr rest \<Rightarrow> Inr (new @ rest))))"

definition processSelector :: "metadata_client \<Rightarrow> bool \<Rightarrow> LBMetadata \<Rightarrow> LBMetadata result" where
  "processSelector mc skipTargetLBRoutingRules lbMeta =
     (case mc_GetServices mc of
        Inl e \<Rightarrow> Inl e
      | Inr localsvcs \<Rightarrow>
          (case selector_rules mc skipTargetLBRoutingRules localsvcs (lm_PortRules lbMeta) of
             Inl e \<Rightarrow> Inl e
           | Inr rules \<Rightarrow> Inr (lbMeta\<lparr>lm_PortRules := rules\<rparr>)))"

definition CollectLBMetadata :: "metadata_client \<Rightarrow> Service \<Rightarrow> LBMetadata result" where
  "CollectLBMetadata mc lbSvc =
     (case GetLBMetadata (svc_LBConfig lbSvc) of
        Inl e \<Rightarrow> Inl e
      | Inr lbMeta \<Rightarrow> processSelector mc
          (EqualFold (map_get '''' (svc_Labels lbSvc) ''io.rancher.lb_service.skip_target_lb_rules'') ''true'') lbMeta)"

abbreviation (input) "target_label \<equiv> ''io.rancher.lb_service.target''"

definition GetLBConfigs :: "nat \<Rightarrow> controller_env \<Rightarrow> LoadBalancerConfig list outcome" where
  "GetLBConfigs n env =
     bind_out (of_result (mc_GetSelfService (ce_meta env))) (\<lambda>lbSvc.
       bind_out (of_result (CollectLBMetadata (ce_meta env) lbSvc)) (\<lambda>lbMeta.
         case map_of (svc_Labels lbSvc) target_label of
           None \<Rightarrow> BuildConfigFromMetadata n env (svc_Name lbSvc) (svc_EnvironmentUUID lbSvc) '''' ''any'' (Some lbMeta)
         | Some val \<Rightarrow>
             bind_out (of_result (GetSelfHostUUID (ce_meta env))) (\<lambda>selfHostUUID.
               if val \<noteq> ''any'' \<and> val \<noteq> ''only-local'' \<and> val \<noteq> ''prefer-local''
               then Err (Errorf ''Invalid label value for label io.rancher.lb_service.target=%s'' [val])
               else BuildConfigFromMetadata n env (svc_Name lbSvc) (svc_EnvironmentUUID lbSvc) selfHostUUID val
                 (Some lbMeta))))"

end
