(* ===== verification/Build_Invariant.thy ===== *)
theory Build_Invariant
  imports Build_Config
begin

text \<open>
  The invariant of the rule loop: which backends exist, what their endpoints are and which
  frontend holds them, in terms of the rules that were fed to the loop and their targets.
\<close>

section \<open>The rules that count\<close>

type_synonym fed = "PortRule \<times> Endpoint list \<times> HealthCheck"

fun fed_rules ::
  "nat \<Rightarrow> metadata_client \<Rightarrow> string \<Rightarrow> string \<Rightarrow> string \<Rightarrow> PortRule list \<Rightarrow> fed list" where
  "fed_rules n mc envUUID self pref [] = []"
| "fed_rules n mc envUUID self pref (r # rs) =
     (if pr_SourcePort r < 1 then fed_rules n mc envUUID self pref rs
      else case rule_targets n mc envUUID self pref r of
        Ok (Some (eps, hc)) \<Rightarrow> (r, eps, hc) # fed_rules n mc envUUID self pref rs
      | _ \<Rightarrow> fed_rules n mc envUUID self pref rs)"

definition feed :: "fed list \<Rightarrow> build_state" where
  "feed fl = fold (\<lambda>(r, eps, hc). add_rule r eps hc) fl init_build"

lemma rule_loop_feed:
  "rule_loop n mc envUUID self pref rs st = Ok st' \<Longrightarrow>
   st' = fold (\<lambda>(r, eps, hc). add_rule r eps hc) (fed_rules n mc envUUID self pref rs) st"
proof (induction rs arbitrary: st)
  case (Cons r rs)
  from Cons.prems obtain st1 where s: "rule_step n mc envUUID self pref r st = Ok st1"
    and l: "rule_loop n mc envUUID self pref rs st1 = Ok st'" by (auto simp: bind_out_Ok)
  from Cons.IH [OF l] s show ?case
    by (auto simp: rule_step_def bind_out_Ok split: if_splits option.splits prod.splits)
qed simp

lemma fed_rules_port: "(r, eps, hc) \<in> set (fed_rules n mc envUUID self pref rs) \<Longrightarrow>
   r \<in> set rs \<and> 1 \<le> pr_SourcePort r \<and> rule_targets n mc envUUID self pref r = Ok (Some (eps, hc))"
  by (induction rs) (auto split: if_splits outcome.splits option.splits)

lemma fed_rules_complete:
  "r \<in> set rs \<Longrightarrow> 1 \<le> pr_SourcePort r \<Longrightarrow> rule_targets n mc envUUID self pref r = Ok (Some (eps, hc)) \<Longrightarrow>
   (r, eps, hc) \<in> set (fed_rules n mc envUUID self pref rs)"
  by (induction rs) (auto split: outcome.split option.split)

section \<open>Keys\<close>

lemma Itoa_no_mark: "CHR ''_'' \<notin> set (Itoa i)"
proof -
  have "CHR ''_'' \<notin> set (dec_digits n)" for n
    using list_all_dec_digits [of n] by (auto simp: list_all_iff is_digit_def)
  then show ?thesis by (auto simp: Itoa_def)
qed

lemma path_uuid_port: "path_uuid p h x = path_uuid q g y \<Longrightarrow> p = q"
  using append_mark_eq [OF Itoa_no_mark Itoa_no_mark, of p "h @ ''_'' @ x" q "g @ ''_'' @ y"]
  by (simp add: path_uuid_def)

lemma rule_key_port: "rule_key r = rule_key s \<Longrightarrow> pr_SourcePort r = pr_SourcePort s"
  unfolding rule_key_def by (rule path_uuid_port)

section \<open>Merging\<close>

lemma merge_endpoints_spec:
  "merge_endpoints w eps (m, out) = (m', out') \<Longrightarrow> set m = ep_IP ` set out \<Longrightarrow>
   set m' = ep_IP ` set out' \<and> ep_IP ` set out' = ep_IP ` set out \<union> ep_IP ` set eps \<and>
   set out' \<subseteq> set out \<union> weigh w ` set eps \<and>
   (distinct (map ep_IP out) \<longrightarrow> distinct (map ep_IP out'))"
proof (induction w eps "(m, out)" arbitrary: m out rule: merge_endpoints.induct)
  case (2 w ep eps epMap out)
  have ip: "ep_IP (weigh w e) = ep_IP e" for e by (simp add: weigh_def)
  show ?case
  proof (cases "ep_IP ep \<in> set epMap")
    case True
    with 2 show ?thesis by auto
  next
    case False
    with "2.prems" have m: "merge_endpoints w eps (ep_IP ep # epMap, out @ [weigh w ep]) = (m', out')" by simp
    from False "2.prems" have "set (ep_IP ep # epMap) = ep_IP ` set (out @ [weigh w ep])" by (simp add: ip)
    from "2.hyps"(2) [OF False m this] False "2.prems"(2) show ?thesis by (auto simp: ip)
  qed
qed simp

section \<open>The invariant\<close>

definition key_of :: "fed \<Rightarrow> string" where
  "key_of f = rule_key (fst f)"

definition backend_ok :: "fed list \<Rightarrow> string \<Rightarrow> BackendService \<Rightarrow> bool" where
  "backend_ok fl key be \<longleftrightarrow>
     ep_IP ` set (be_Endpoints be) = (\<Union>(r, eps, hc) \<in> {f \<in> set fl. key_of f = key}. ep_IP ` set eps) \<and>
     set (be_Endpoints be) \<subseteq> (\<Union>(r, eps, hc) \<in> {f \<in> set fl. key_of f = key}. weigh (pr_Weight r) ` set eps) \<and>
     (\<exists>(r, eps, hc) \<in> {f \<in> set fl. key_of f = key}.
        be\<lparr>be_Endpoints := []\<rparr> = (new_backend r [] hc))"

definition cell_ok :: "fed list \<Rightarrow> string \<Rightarrow> frontend_cell \<Rightarrow> bool" where
  "cell_ok fl name cell \<longleftrightarrow>
     name = Itoa (fe_Port (fc_frontend cell)) \<and> fe_Name (fc_frontend cell) = name \<and> distinct (fc_backends cell) \<and>
     set (fc_backends cell) = key_of ` {f \<in> set fl. pr_SourcePort (fst f) = fe_Port (fc_frontend cell)} \<and>
     fc_backends cell \<noteq> []"

definition build_ok :: "fed list \<Rightarrow> build_state \<Rightarrow> bool" where
  "build_ok fl st \<longleftrightarrow>
     is_gomap (bs_allBe st) \<and> set (keys_of (bs_allBe st)) = key_of ` set fl \<and>
     (\<forall>key be. map_of (bs_allBe st) key = Some be \<longrightarrow> backend_ok fl key be \<and>
        set (map_get [] (bs_allEps st) key) = ep_IP ` set (be_Endpoints be)) \<and>
     is_gomap (bs_frontends st) \<and>
     set (keys_of (bs_frontends st)) = (\<lambda>f. Itoa (pr_SourcePort (fst f))) ` set fl \<and>
     (\<forall>name cell. map_of (bs_frontends st) name = Some cell \<longrightarrow> cell_ok fl name cell)"

lemma feed_snoc: "feed (fl @ [(r, eps, hc)]) = add_rule r eps hc (feed fl)"
  by (simp add: feed_def)

lemma keys_iff: "map_of m k = None \<longleftrightarrow> k \<notin> set (keys_of m)"
  by (induction m) auto

lemma fed_filter_snoc:
  "{f \<in> set (fl @ [g]). P f} = {f \<in> set fl. P f} \<union> (if P g then {g} else {})"
  by auto

lemma backend_ok_other:
  "backend_ok fl key be \<Longrightarrow> key_of f \<noteq> key \<Longrightarrow> backend_ok (fl @ [f]) key be"
  unfolding backend_ok_def fed_filter_snoc by simp

lemma backend_ok_new:
  assumes "key \<notin> key_of ` set fl" and "key = rule_key r"
  shows "backend_ok (fl @ [(r, eps, hc)]) key (new_backend r eps hc)"
proof -
  have e: "{f \<in> set (fl @ [(r, eps, hc)]). key_of f = key} = {(r, eps, hc)}"
    using assms by (auto simp: key_of_def image_iff)
  have ip: "ep_IP (weigh w e) = ep_IP e" for w e by (simp add: weigh_def)
  show ?thesis
    unfolding backend_ok_def e by (simp add: new_backend_def image_image ip)
qed

lemma backend_ok_merge:
  assumes "backend_ok fl key be" and "key = rule_key r"
    and "ep_IP ` set out = ep_IP ` set (be_Endpoints be) \<union> ep_IP ` set eps"
    and "set out \<subseteq> set (be_Endpoints be) \<union> weigh (pr_Weight r) ` set eps"
  shows "backend_ok (fl @ [(r, eps, hc)]) key (be\<lparr>be_Endpoints := out\<rparr>)"
proof -
  let ?F = "{f \<in> set fl. key_of f = key}"
  have e: "{f \<in> set (fl @ [(r, eps, hc)]). key_of f = key} = ?F \<union> {(r, eps, hc)}"
    using assms(2) unfolding fed_filter_snoc by (simp add: key_of_def)
  from assms(1) have b: "ep_IP ` set (be_Endpoints be) = (\<Union>(r, eps, hc) \<in> ?F. ep_IP ` set eps)"
    "set (be_Endpoints be) \<subseteq> (\<Union>(r, eps, hc) \<in> ?F. weigh (pr_Weight r) ` set eps)"
    "\<exists>(r, eps, hc) \<in> ?F. be\<lparr>be_Endpoints := []\<rparr> = new_backend r [] hc"
    unfolding backend_ok_def by blast+
  have "ep_IP ` set out = (\<Union>(r, eps, hc) \<in> ?F \<union> {(r, eps, hc)}. ep_IP ` set eps)"
    using assms(3) b(1) by (simp add: Un_commute)
  moreover have "set out \<subseteq> (\<Union>(r, eps, hc) \<in> ?F \<union> {(r, eps, hc)}. weigh (pr_Weight r) ` set eps)"
    using assms(4) b(2) by auto
  moreover have "\<exists>(r, eps, hc) \<in> ?F \<union> {(r, eps, hc)}.
      (be\<lparr>be_Endpoints := out\<rparr>)\<lparr>be_Endpoints := []\<rparr> = new_backend r [] hc"
    using b(3) by auto
  ultimately show ?thesis
    unfolding backend_ok_def e by simp
qed

lemma cell_ok_other:
  "cell_ok fl name cell \<Longrightarrow> Itoa (pr_SourcePort (fst f)) \<noteq> name \<Longrightarrow> cell_ok (fl @ [f]) name cell"
  unfolding cell_ok_def fed_filter_snoc by auto

lemma cell_ok_same:
  assumes "cell_ok fl name cell" and "key_of f \<in> key_of ` set fl"
  shows "cell_ok (fl @ [f]) name cell"
proof -
  let ?P = "\<lambda>g :: fed. pr_SourcePort (fst g) = fe_Port (fc_frontend cell)"
  from assms(2) obtain g where g: "g \<in> set fl" "key_of f = key_of g" by auto
  then have "pr_SourcePort (fst f) = pr_SourcePort (fst g)" unfolding key_of_def by (blast dest: rule_key_port)
  then have "?P f \<longrightarrow> key_of f \<in> key_of ` {f \<in> set fl. ?P f}" using g by auto
  then have "key_of ` {h \<in> set (fl @ [f]). ?P h} = key_of ` {h \<in> set fl. ?P h}"
    unfolding fed_filter_snoc by (cases "?P f") (simp_all add: insert_absorb)
  with assms(1) show ?thesis unfolding cell_ok_def by blast
qed

lemma cell_ok_extend:
  assumes "cell_ok fl name cell \<or> cell = new_cell r \<and> name \<notin> (\<lambda>f. Itoa (pr_SourcePort (fst f))) ` set fl"
    and "name = Itoa (pr_SourcePort r)" and "rule_key r \<notin> key_of ` set fl"
  shows "cell_ok (fl @ [(r, eps, hc)]) name (cell\<lparr>fc_backends := fc_backends cell @ [rule_key r]\<rparr>)"
  using assms(1)
proof
  assume "cell_ok fl name cell"
  with assms(2,3) show ?thesis unfolding cell_ok_def fed_filter_snoc by (auto simp: key_of_def)
next
  assume c: "cell = new_cell r \<and> name \<notin> (\<lambda>f. Itoa (pr_SourcePort (fst f))) ` set fl"
  then have e: "{f \<in> set (fl @ [(r, eps, hc)]). pr_SourcePort (fst f) = pr_SourcePort r} = {(r, eps, hc)}"
    using assms(2) by (force simp: image_iff)
  from c have p: "fe_Port (fc_frontend (cell\<lparr>fc_backends := fc_backends cell @ [rule_key r]\<rparr>)) = pr_SourcePort r"
    by (simp add: new_cell_def)
  from c assms(2) show ?thesis
    unfolding cell_ok_def p e by (simp add: new_cell_def key_of_def)
qed

lemma build_ok_add:
  assumes B: "build_ok fl st"
  shows "build_ok (fl @ [(r, eps, hc)]) (add_rule r eps hc st)"
proof -
  let ?f = "(r, eps, hc)" and ?name = "Itoa (pr_SourcePort r)" and ?key = "rule_key r"
  let ?cell = "case map_of (bs_frontends st) ?name of Some c \<Rightarrow> c | None \<Rightarrow> new_cell r"
  note b = B [unfolded build_ok_def]
  show ?thesis
  proof (cases "map_of (bs_allBe st) ?key")
    case (Some be)
    from Some b have inkey: "key_of ?f \<in> key_of ` set fl"
      by (metis fst_conv key_of_def keys_iff option.distinct(1))
    then obtain g where g: "g \<in> set fl" "rule_key (fst g) = ?key" by (auto simp: key_of_def)
    have "Itoa (pr_SourcePort (fst g)) \<in> (\<lambda>f. Itoa (pr_SourcePort (fst f))) ` set fl" using g(1) by (rule imageI)
    then have "?name \<in> set (keys_of (bs_frontends st))" using b unfolding rule_key_port [OF g(2)] by blast
    then obtain c where c: "map_of (bs_frontends st) ?name = Some c" by (metis keys_iff not_None_eq)
    obtain m out where m: "merge_endpoints (pr_Weight r) eps (map_get [] (bs_allEps st) ?key, be_Endpoints be) = (m, out)"
      by fastforce
    from b Some have ok: "backend_ok fl ?key be" "set (map_get [] (bs_allEps st) ?key) = ep_IP ` set (be_Endpoints be)"
      by blast+
    note mm = merge_endpoints_spec [OF m ok(2)]
    have st: "add_rule r eps hc st = st\<lparr>bs_frontends := AList.update ?name c (bs_frontends st),
        bs_allBe := AList.update ?key (be\<lparr>be_Endpoints := out\<rparr>) (bs_allBe st),
        bs_allEps := AList.update ?key m (bs_allEps st)\<rparr>"
      using Some c m by (simp add: add_rule_def Let_def)
    have new: "backend_ok (fl @ [?f]) ?key (be\<lparr>be_Endpoints := out\<rparr>)"
      by (rule backend_ok_merge [OF ok(1)]) (use mm in auto)
    have bes: "backend_ok (fl @ [?f]) key be' \<and>
        set (map_get [] (bs_allEps (add_rule r eps hc st)) key) = ep_IP ` set (be_Endpoints be')"
      if "map_of (bs_allBe (add_rule r eps hc st)) key = Some be'" for key be'
    proof (cases "key = ?key")
      case True
      with that have "be' = be\<lparr>be_Endpoints := out\<rparr>" by (simp add: st)
      with True new mm show ?thesis by (simp add: st)
    next
      case False
      with that have "map_of (bs_allBe st) key = Some be'" by (simp add: st)
      with b have "backend_ok fl key be' \<and> set (map_get [] (bs_allEps st) key) = ep_IP ` set (be_Endpoints be')"
        by blast
      with backend_ok_other [of fl key be' ?f] False show ?thesis by (simp add: st key_of_def)
    qed
    have cells: "cell_ok (fl @ [?f]) name cell"
      if "map_of (bs_frontends (add_rule r eps hc st)) name = Some cell" for name cell
    proof -
      from that c have "map_of (bs_frontends st) name = Some cell" by (simp add: st split: if_splits)
      with b have "cell_ok fl name cell" by blast
      from cell_ok_same [OF this inkey] show ?thesis .
    qed
    have ks: "set (keys_of (bs_allBe (add_rule r eps hc st))) = key_of ` set (fl @ [?f])"
      "set (keys_of (bs_frontends (add_rule r eps hc st))) = (\<lambda>f. Itoa (pr_SourcePort (fst f))) ` set (fl @ [?f])"
      using b inkey unfolding st by (auto simp: set_keys_update key_of_def simp del: set_map)
    have "is_gomap (bs_allBe (add_rule r eps hc st))" "is_gomap (bs_frontends (add_rule r eps hc st))"
      using b by (simp_all add: st is_gomap_update)
    with ks bes cells show ?thesis unfolding build_ok_def by blast
  next
    case None
    then have nokey: "?key \<notin> key_of ` set fl" using b by (metis keys_iff)
    have st: "add_rule r eps hc st =
        st\<lparr>bs_frontends := AList.update ?name (?cell\<lparr>fc_backends := fc_backends ?cell @ [?key]\<rparr>) (bs_frontends st),
           bs_allBe := AList.update ?key (new_backend r eps hc) (bs_allBe st),
           bs_allEps := AList.update ?key (map ep_IP eps) (bs_allEps st)\<rparr>"
      using None by (simp add: add_rule_def Let_def)
    have ip: "ep_IP (weigh w e) = ep_IP e" for w e by (simp add: weigh_def)
    have bes: "backend_ok (fl @ [?f]) key be' \<and>
        set (map_get [] (bs_allEps (add_rule r eps hc st)) key) = ep_IP ` set (be_Endpoints be')"
      if "map_of (bs_allBe (add_rule r eps hc st)) key = Some be'" for key be'
    proof (cases "key = ?key")
      case True
      with that backend_ok_new [OF nokey refl, of eps hc] show ?thesis
        by (auto simp: st new_backend_def image_image ip)
    next
      case False
      with that have "map_of (bs_allBe st) key = Some be'" by (simp add: st)
      with b have "backend_ok fl key be' \<and> set (map_get [] (bs_allEps st) key) = ep_IP ` set (be_Endpoints be')"
        by blast
      with backend_ok_other [of fl key be' ?f] False show ?thesis by (simp add: st key_of_def)
    qed
    have "cell_ok fl ?name ?cell \<or> ?cell = new_cell r \<and> ?name \<notin> (\<lambda>f. Itoa (pr_SourcePort (fst f))) ` set fl"
    proof (cases "map_of (bs_frontends st) ?name")
      case None
      with b have "?name \<notin> (\<lambda>f. Itoa (pr_SourcePort (fst f))) ` set fl" by (metis keys_iff)
      with None show ?thesis by simp
    next
      case (Some c)
      with b show ?thesis by simp
    qed
    from cell_ok_extend [OF this refl nokey] have ext:
      "cell_ok (fl @ [?f]) ?name (?cell\<lparr>fc_backends := fc_backends ?cell @ [?key]\<rparr>)" .
    have cells: "cell_ok (fl @ [?f]) name cell"
      if "map_of (bs_frontends (add_rule r eps hc st)) name = Some cell" for name cell
    proof (cases "name = ?name")
      case True
      with that ext show ?thesis by (simp add: st)
    next
      case False
      with that have "map_of (bs_frontends st) name = Some cell" by (simp add: st)
      with b have "cell_ok fl name cell" by blast
      from cell_ok_other [OF this, of ?f] False show ?thesis by auto
    qed
    have ks: "set (keys_of (bs_allBe (add_rule r eps hc st))) = key_of ` set (fl @ [?f])"
      "set (keys_of (bs_frontends (add_rule r eps hc st))) = (\<lambda>f. Itoa (pr_SourcePort (fst f))) ` set (fl @ [?f])"
      using b unfolding st by (auto simp: set_keys_update key_of_def simp del: set_map)
    have "is_gomap (bs_allBe (add_rule r eps hc st))" "is_gomap (bs_frontends (add_rule r eps hc st))"
      using b by (simp_all add: st is_gomap_update)
    with ks bes cells show ?thesis unfolding build_ok_def by blast
  qed
qed

lemma build_ok_feed: "build_ok fl (feed fl)"
proof (induction fl rule: rev_induct)
  case Nil
  show ?case by (simp add: build_ok_def feed_def init_build_def)
next
  case (snoc f fl)
  obtain r eps hc where f: "f = (r, eps, hc)" by (metis prod_cases3)
  from build_ok_add [OF snoc] show ?case unfolding f feed_snoc .
qed

end
