(* ===== verification/Build_Theorems.thy ===== *)
theory Build_Theorems
  imports Build_Invariant
begin

text \<open>
  The properties of the built configuration: its frontends, its backends and their endpoints in
  terms of the port rules, its independence from the order of the maps, and the expansion of the
  selector rules.
\<close>

section \<open>A rule to run on\<close>

definition demo_rule :: PortRule where
  "demo_rule = zero_PortRule\<lparr>pr_SourcePort := 80, pr_Protocol := ''http'', pr_Service := ''s/web'',
     pr_TargetPort := 8080, pr_Hostname := ''foo.com'', pr_Weight := 3\<rparr>"

definition demo_ep :: Endpoint where
  "demo_ep = zero_Endpoint\<lparr>ep_Name := hashIP ''10.0.0.1'', ep_IP := ''10.0.0.1'', ep_Port := 8080\<rparr>"

definition demo_hc :: HealthCheck where
  "demo_hc = \<lparr>hc_ResponseTimeout = 0, hc_Interval = 0, hc_HealthyThreshold = 0, hc_UnhealthyThreshold = 0,
     hc_RequestLine = '''', hc_Port = 0\<rparr>"

lemma demo_targets: "rule_targets (Suc 0) demo_client '''' '''' ''any'' demo_rule = Ok (Some ([demo_ep], demo_hc))"
proof -
  have s: "Split ''s/web'' ''/'' = [''s'', ''web'']" by code_simp
  have a: "IsActiveService demo_web" by code_simp
  have x: "EqualFold ''externalService'' ''externalService''" by simp
  have so: "sort_endpoints [e] = [e]" for e by (simp add: sort_endpoints_def go_sort_def)
  have g: "GetService demo_client ''s/web'' = Ok demo_web" by (simp add: GetService_def s demo_client_def)
  have e: "getExternalServiceEndpoints demo_web 8080 = [demo_ep]"
    by (simp add: getExternalServiceEndpoints_def demo_web_def zero_Service_def demo_ep_def)
  have k: "svc_Kind demo_web = ''externalService''" by (simp add: demo_web_def)
  have h: "getServiceHealthCheck demo_web = Inr demo_hc"
    by (simp add: getServiceHealthCheck_def getConfigServiceHealthCheck_def demo_web_def zero_Service_def
        zero_HealthCheck_def demo_hc_def)
  have r: "pr_Service demo_rule = ''s/web''" "pr_TargetPort demo_rule = 8080" by (simp_all add: demo_rule_def)
  show ?thesis by (simp add: rule_targets_def r g a k e h so)
qed

lemma demo_run:
  "rule_loop (Suc 0) demo_client '''' '''' ''any'' [demo_rule] init_build = Ok (feed [(demo_rule, [demo_ep], demo_hc)])"
proof -
  have "pr_SourcePort demo_rule = 80" by (simp add: demo_rule_def)
  then show ?thesis by (simp add: rule_step_def demo_targets feed_def)
qed

lemma demo_fed: "fed_rules (Suc 0) demo_client '''' '''' ''any'' [demo_rule] = [(demo_rule, [demo_ep], demo_hc)]"
proof -
  have "pr_SourcePort demo_rule = 80" by (simp add: demo_rule_def)
  then show ?thesis by (simp add: demo_targets)
qed

section \<open>Frontends\<close>

lemma keysD: "k \<in> set (keys_of m) \<Longrightarrow> \<exists>v. map_of m k = Some v"
  by (induction m) auto

lemma build_okD:
  assumes "build_ok fl st"
  shows "is_gomap (bs_allBe st)" "set (keys_of (bs_allBe st)) = key_of ` set fl"
    "map_of (bs_allBe st) key = Some be \<Longrightarrow> backend_ok fl key be"
    "is_gomap (bs_frontends st)"
    "set (keys_of (bs_frontends st)) = (\<lambda>f. Itoa (pr_SourcePort (fst f))) ` set fl"
    "map_of (bs_frontends st) name = Some cell \<Longrightarrow> cell_ok fl name cell"
  using assms [unfolded build_ok_def] by simp_all

lemma cell_in: "build_ok fl st \<Longrightarrow> (name, cell) \<in> set (bs_frontends st) \<Longrightarrow> cell_ok fl name cell"
  using build_okD(6) [OF _ map_of_is_SomeI [OF build_okD(4)]] by blast

lemma finish_fields [simp]:
  "fe_Name (finish_frontend st c) = fe_Name (fc_frontend c)" "fe_Port (finish_frontend st c) = fe_Port (fc_frontend c)"
  by (simp_all add: finish_frontend_def)

lemma finish_backends:
  assumes "build_ok fl st" and "cell_ok fl name cell"
  shows "be \<in> set (fe_BackendServices (finish_frontend st cell)) \<longleftrightarrow>
    (\<exists>key \<in> set (fc_backends cell). map_of (bs_allBe st) key = Some be)"
  by (force simp: finish_frontend_def List.map_filter_def image_iff)

lemma backend_exists:
  assumes B: "build_ok fl st" and f: "f \<in> set fl"
  obtains be where "map_of (bs_allBe st) (key_of f) = Some be" "backend_ok fl (key_of f) be"
proof -
  from f have "key_of f \<in> set (keys_of (bs_allBe st))" unfolding build_okD(2) [OF B] by (rule imageI)
  then obtain be where be: "map_of (bs_allBe st) (key_of f) = Some be" by (blast dest: keysD)
  with build_okD(3) [OF B be] show ?thesis by (intro that)
qed

lemma fe_in_finish:
  "fe \<in> set (finish_frontends st) \<longleftrightarrow> (\<exists>name cell. (name, cell) \<in> set (bs_frontends st) \<and> fe = finish_frontend st cell)"
  by (auto simp: finish_frontends_def)

lemma finish_names:
  assumes "build_ok fl st"
  shows "map fe_Name (map (\<lambda>(_, c). finish_frontend st c) (bs_frontends st)) = keys_of (bs_frontends st)"
  using cell_in [OF assms] by (auto simp: cell_ok_def split_beta)

text \<open>
  C27 One frontend per port, in a fixed order: the frontends of a built configuration are sorted
  strictly by name (so no two share a port), each is named after its port and has at least one
  backend, and their ports are exactly those of the rules that count: rules with a port of at
  least 1 whose service is active, or whose container is live.
\<close>

theorem frontends_of_rules:
  assumes "rule_loop n mc envUUID self pref rules init_build = Ok st"
  shows "sorted_wrt (>) (map fe_Name (finish_frontends st)) \<and>
    (\<forall>fe \<in> set (finish_frontends st). fe_Name fe = Itoa (fe_Port fe) \<and> 1 \<le> fe_Port fe \<and> fe_BackendServices fe \<noteq> []) \<and>
    fe_Port ` set (finish_frontends st) =
      {pr_SourcePort r | r. r \<in> set rules \<and> 1 \<le> pr_SourcePort r \<and>
         (\<exists>eps hc. rule_targets n mc envUUID self pref r = Ok (Some (eps, hc)))}"
proof -
  let ?fl = "fed_rules n mc envUUID self pref rules"
  from rule_loop_feed [OF assms] have st: "st = feed ?fl" by (simp add: feed_def)
  have B: "build_ok ?fl st" unfolding st by (rule build_ok_feed)
  let ?fs = "map (\<lambda>(_, c). finish_frontend st c) (bs_frontends st)"
  have "distinct (map fe_Name ?fs)"
    unfolding finish_names [OF B] by (rule build_okD(4) [OF B])
  then have "distinct (map fe_Name (finish_frontends st))"
    by (simp add: finish_frontends_def sort_frontends_def)
  moreover have "sorted_wrt (\<ge>) (map fe_Name (finish_frontends st))"
    unfolding finish_frontends_def by (rule sorted_sort_frontends)
  ultimately have sorted: "sorted_wrt (>) (map fe_Name (finish_frontends st))"
    by (auto simp: sorted_wrt_iff_nth_less distinct_conv_nth order.order_iff_strict)
  have each: "fe_Name fe = Itoa (fe_Port fe) \<and> 1 \<le> fe_Port fe \<and> fe_BackendServices fe \<noteq> [] \<and>
      (\<exists>f \<in> set ?fl. pr_SourcePort (fst f) = fe_Port fe)" if fe: "fe \<in> set (finish_frontends st)" for fe
  proof -
    from fe obtain name cell where c: "(name, cell) \<in> set (bs_frontends st)" "fe = finish_frontend st cell"
      unfolding fe_in_finish by blast
    note ok = cell_in [OF B c(1)]
    then obtain key where k: "key \<in> set (fc_backends cell)" unfolding cell_ok_def by (meson last_in_set)
    with ok obtain f where f: "f \<in> set ?fl" "pr_SourcePort (fst f) = fe_Port (fc_frontend cell)" "key = key_of f"
      unfolding cell_ok_def by blast
    from backend_exists [OF B f(1)] obtain be where "map_of (bs_allBe st) key = Some be" using f(3) by metis
    with finish_backends [OF B ok] k have "fe_BackendServices fe \<noteq> []" unfolding c(2) by force
    moreover have "1 \<le> pr_SourcePort (fst f)" using f(1) fed_rules_port by (metis prod_cases3 fst_conv)
    ultimately show ?thesis using ok f c(2) by (auto simp: cell_ok_def)
  qed
  have "p \<in> fe_Port ` set (finish_frontends st)" if "f \<in> set ?fl" "p = pr_SourcePort (fst f)" for f p
  proof -
    from that have "Itoa p \<in> set (keys_of (bs_frontends st))" unfolding build_okD(5) [OF B] by blast
    then obtain cell where c: "(Itoa p, cell) \<in> set (bs_frontends st)" by auto
    with cell_in [OF B this] have "fe_Port (finish_frontend st cell) = p" by (simp add: cell_ok_def)
    with c show ?thesis using fe_in_finish by blast
  qed
  then have "(\<lambda>f. pr_SourcePort (fst f)) ` set ?fl \<subseteq> fe_Port ` set (finish_frontends st)" by blast
  moreover have "fe_Port fe \<in> (\<lambda>f. pr_SourcePort (fst f)) ` set ?fl" if "fe \<in> set (finish_frontends st)" for fe
    using each [OF that] by (metis imageI)
  ultimately have ports: "fe_Port ` set (finish_frontends st) = (\<lambda>f. pr_SourcePort (fst f)) ` set ?fl" by blast
  have "(\<lambda>f. pr_SourcePort (fst f)) ` set ?fl = {pr_SourcePort r | r. r \<in> set rules \<and> 1 \<le> pr_SourcePort r \<and>
         (\<exists>eps hc. rule_targets n mc envUUID self pref r = Ok (Some (eps, hc)))}" (is "?L = ?R'")
  proof
    show "?L \<subseteq> ?R'" by (auto dest!: fed_rules_port)
    show "?R' \<subseteq> ?L"
    proof
      fix p assume "p \<in> ?R'"
      then obtain r eps hc where r: "p = pr_SourcePort r" "r \<in> set rules" "1 \<le> pr_SourcePort r"
        "rule_targets n mc envUUID self pref r = Ok (Some (eps, hc))" by blast
      from imageI [OF fed_rules_complete [OF r(2,3,4)], of "\<lambda>f. pr_SourcePort (fst f)"] show "p \<in> ?L"
        by (simp add: r(1))
    qed
  qed
  with ports have "fe_Port ` set (finish_frontends st) = {pr_SourcePort r | r. r \<in> set rules \<and> 1 \<le> pr_SourcePort r \<and>
         (\<exists>eps hc. rule_targets n mc envUUID self pref r = Ok (Some (eps, hc)))}" by (rule trans)
  moreover have "\<forall>fe \<in> set (finish_frontends st).
      fe_Name fe = Itoa (fe_Port fe) \<and> 1 \<le> fe_Port fe \<and> fe_BackendServices fe \<noteq> []"
    using each by simp
  ultimately show ?thesis using sorted by (intro conjI)
qed

lemma frontends_of_rules_witness:
  "fe_Port ` set (finish_frontends (feed [(demo_rule, [demo_ep], demo_hc)])) =
      {pr_SourcePort r | r. r \<in> set [demo_rule] \<and> 1 \<le> pr_SourcePort r \<and>
         (\<exists>eps hc. rule_targets (Suc 0) demo_client '''' '''' ''any'' r = Ok (Some (eps, hc)))}"
  using frontends_of_rules [OF demo_run] by blast

section \<open>Backends and endpoints\<close>

text \<open>Every backend of a finished frontend satisfies the invariant of some rule of its port.\<close>

lemma finished_backend_ok:
  assumes "rule_loop n mc envUUID self pref rules init_build = Ok st"
    and "fe \<in> set (finish_frontends st)" and "be \<in> set (fe_BackendServices fe)"
  obtains f where "f \<in> set (fed_rules n mc envUUID self pref rules)" "pr_SourcePort (fst f) = fe_Port fe"
    "backend_ok (fed_rules n mc envUUID self pref rules) (key_of f) be"
proof -
  let ?fl = "fed_rules n mc envUUID self pref rules"
  from rule_loop_feed [OF assms(1)] have st: "st = feed ?fl" by (simp add: feed_def)
  have B: "build_ok ?fl st" unfolding st by (rule build_ok_feed)
  from assms(2) obtain name cell where c: "(name, cell) \<in> set (bs_frontends st)" "fe = finish_frontend st cell"
    unfolding fe_in_finish by blast
  note ok = cell_in [OF B c(1)]
  from assms(3) obtain key where k: "key \<in> set (fc_backends cell)" "map_of (bs_allBe st) key = Some be"
    unfolding c(2) finish_backends [OF B ok] by blast
  from k(1) ok obtain f where f: "f \<in> set ?fl" "key = key_of f" "pr_SourcePort (fst f) = fe_Port (fc_frontend cell)"
    unfolding cell_ok_def by blast
  from build_okD(3) [OF B k(2)] f(2) have "backend_ok ?fl (key_of f) be" by simp
  with f c(2) show ?thesis by (intro that) simp_all
qed

text \<open>
  C4 Every backend is accounted for by rules: each backend of a frontend was created by a rule of
  the frontend's port (its name, host, path, comparator, protocol, priority and health check
  are that rule's), its addresses are exactly the addresses of the targets of the rules with the
  same port, host and path, and each endpoint is one of those targets with the rule's weight
  (a stopping one keeps its weight of zero).
\<close>

theorem backend_sound:
  assumes "rule_loop n mc envUUID self pref rules init_build = Ok st"
    and "fe \<in> set (finish_frontends st)" and "be \<in> set (fe_BackendServices fe)"
  shows "\<exists>(r, eps, hc) \<in> set (fed_rules n mc envUUID self pref rules).
    pr_SourcePort r = fe_Port fe \<and> be\<lparr>be_Endpoints := []\<rparr> = new_backend r [] hc \<and>
    ep_IP ` set (be_Endpoints be) =
      (\<Union>(s, es, h) \<in> {f \<in> set (fed_rules n mc envUUID self pref rules). key_of f = rule_key r}. ep_IP ` set es) \<and>
    set (be_Endpoints be) \<subseteq>
      (\<Union>(s, es, h) \<in> {f \<in> set (fed_rules n mc envUUID self pref rules). key_of f = rule_key r}.
         weigh (pr_Weight s) ` set es)"
proof -
  let ?fl = "fed_rules n mc envUUID self pref rules"
  obtain f where f: "f \<in> set ?fl" "pr_SourcePort (fst f) = fe_Port fe" and bk: "backend_ok ?fl (key_of f) be"
    by (rule finished_backend_ok [OF assms])
  then obtain r eps hc where r: "(r, eps, hc) \<in> set ?fl" "rule_key r = key_of f"
    "be\<lparr>be_Endpoints := []\<rparr> = new_backend r [] hc"
    unfolding backend_ok_def key_of_def by auto
  with f(2) have "pr_SourcePort r = fe_Port fe" unfolding key_of_def by (auto dest: rule_key_port)
  moreover note bk [unfolded backend_ok_def r(2) [symmetric], THEN conjunct1]
  moreover note bk [unfolded backend_ok_def r(2) [symmetric], THEN conjunct2, THEN conjunct1]
  ultimately show ?thesis
    using r(1,3) by (intro bexI [OF _ r(1)]) (simp only: prod.case)
qed

lemma demo_backend:
  "finish_frontends (feed [(demo_rule, [demo_ep], demo_hc)]) =
     [(fc_frontend (new_cell demo_rule))\<lparr>fe_BackendServices := [new_backend demo_rule [demo_ep] demo_hc]\<rparr>]"
  by (simp add: finish_frontends_def feed_def init_build_def add_rule_def Let_def finish_frontend_def
      List.map_filter_def sort_backends_def sort_frontends_def go_sort_def new_cell_def)

lemma backend_sound_witness:
  "\<exists>(r, eps, hc) \<in> set (fed_rules (Suc 0) demo_client '''' '''' ''any'' [demo_rule]).
    pr_SourcePort r = 80 \<and> (new_backend demo_rule [demo_ep] demo_hc)\<lparr>be_Endpoints := []\<rparr> = new_backend r [] hc"
  using backend_sound [OF demo_run, unfolded demo_backend, of _ "new_backend demo_rule [demo_ep] demo_hc"]
  by (fastforce simp: new_cell_def demo_rule_def)

text \<open>
  C28 No target is lost: for every rule with a port of at least 1 whose target has endpoints,
  the frontend of the port exists and holds a backend for the rule's host and path that has
  every address of the target.
\<close>

theorem rule_complete:
  assumes "rule_loop n mc envUUID self pref rules init_build = Ok st"
    and "r \<in> set rules" and "1 \<le> pr_SourcePort r"
    and "rule_targets n mc envUUID self pref r = Ok (Some (eps, hc))"
  shows "\<exists>fe \<in> set (finish_frontends st). fe_Port fe = pr_SourcePort r \<and>
    (\<exists>be \<in> set (fe_BackendServices fe). path_uuid (fe_Port fe) (be_Host be) (be_Path be) = rule_key r \<and>
       ep_IP ` set eps \<subseteq> ep_IP ` set (be_Endpoints be))"
proof -
  let ?fl = "fed_rules n mc envUUID self pref rules" and ?f = "(r, eps, hc)"
  from rule_loop_feed [OF assms(1)] have st: "st = feed ?fl" by (simp add: feed_def)
  have B: "build_ok ?fl st" unfolding st by (rule build_ok_feed)
  have f: "?f \<in> set ?fl" by (rule fed_rules_complete [OF assms(2-4)])
  have "Itoa (pr_SourcePort r) \<in> set (keys_of (bs_frontends st))"
    unfolding build_okD(5) [OF B] using imageI [OF f, of "\<lambda>f. Itoa (pr_SourcePort (fst f))"] by simp
  then obtain cell where c: "(Itoa (pr_SourcePort r), cell) \<in> set (bs_frontends st)" by auto
  note ok = cell_in [OF B c]
  from ok have p: "fe_Port (fc_frontend cell) = pr_SourcePort r"
    and keys: "set (fc_backends cell) = key_of ` {f \<in> set ?fl. pr_SourcePort (fst f) = fe_Port (fc_frontend cell)}"
    unfolding cell_ok_def by simp_all
  have k: "key_of ?f \<in> set (fc_backends cell)" unfolding keys using f p by (intro imageI) simp
  obtain be where be: "map_of (bs_allBe st) (key_of ?f) = Some be" "backend_ok ?fl (key_of ?f) be"
    by (rule backend_exists [OF B f])
  have fe: "finish_frontend st cell \<in> set (finish_frontends st)" using c fe_in_finish by blast
  have bin: "be \<in> set (fe_BackendServices (finish_frontend st cell))"
    using finish_backends [OF B ok] k be(1) by blast
  from be(2) obtain s es h where s: "rule_key s = key_of ?f" "be\<lparr>be_Endpoints := []\<rparr> = new_backend s [] h"
    unfolding backend_ok_def by (auto simp: key_of_def)
  from arg_cong [OF s(2), of be_Host] arg_cong [OF s(2), of be_Path]
  have hp: "be_Host be = fst (rule_host s)" "be_Path be = rule_path s" by (simp_all add: new_backend_def)
  have "path_uuid (pr_SourcePort r) (be_Host be) (be_Path be) = rule_key r"
    using s(1) rule_key_port [of s r] by (simp add: hp key_of_def rule_key_def)
  moreover have "ep_IP ` set eps \<subseteq> ep_IP ` set (be_Endpoints be)"
    using be(2) f unfolding backend_ok_def by (fastforce simp: key_of_def)
  ultimately show ?thesis
    using fe bin p by (intro bexI [OF _ fe] conjI bexI [OF _ bin]) simp_all
qed

lemma rule_complete_witness:
  "\<exists>fe \<in> set (finish_frontends (feed [(demo_rule, [demo_ep], demo_hc)])). fe_Port fe = pr_SourcePort demo_rule \<and>
    (\<exists>be \<in> set (fe_BackendServices fe). path_uuid (fe_Port fe) (be_Host be) (be_Path be) = rule_key demo_rule \<and>
       ep_IP ` set [demo_ep] \<subseteq> ep_IP ` set (be_Endpoints be))"
  by (rule rule_complete [OF demo_run _ _ demo_targets]) (simp_all add: demo_rule_def)

section \<open>Order\<close>

text \<open>
  The configuration does not depend on the order in which Go visits the map of frontends:
  any other order of the same entries gives the same list of frontends.
\<close>

theorem frontends_order_independent:
  assumes "rule_loop n mc envUUID self pref rules init_build = Ok st"
    and "mset m = mset (bs_frontends st)"
  shows "finish_frontends (st\<lparr>bs_frontends := m\<rparr>) = finish_frontends st"
proof -
  let ?fl = "fed_rules n mc envUUID self pref rules"
  from rule_loop_feed [OF assms(1)] have st: "st = feed ?fl" by (simp add: feed_def)
  have B: "build_ok ?fl st" unfolding st by (rule build_ok_feed)
  have fin: "finish_frontend (st\<lparr>bs_frontends := m\<rparr>) = finish_frontend st"
    by (simp add: finish_frontend_def fun_eq_iff)
  let ?g = "\<lambda>(_ :: string, c). finish_frontend st c"
  have "distinct (map fe_Name (map ?g (bs_frontends st)))"
    unfolding finish_names [OF B] by (rule build_okD(4) [OF B])
  moreover have ms: "mset (map ?g m) = mset (map ?g (bs_frontends st))" using assms(2) by simp
  ultimately have "inj_on fe_Name (set (map ?g m))"
    by (metis distinct_map set_mset_mset)
  from sort_frontends_unique [OF ms this] show ?thesis
    by (simp add: finish_frontends_def fin)
qed

lemma frontends_order_independent_witness:
  "finish_frontends (feed [(demo_rule, [demo_ep], demo_hc)]
      \<lparr>bs_frontends := rev (bs_frontends (feed [(demo_rule, [demo_ep], demo_hc)]))\<rparr>) =
   finish_frontends (feed [(demo_rule, [demo_ep], demo_hc)])"
  by (rule frontends_order_independent [OF demo_run]) simp

section \<open>Wildcard hosts\<close>

lemma butlast_wild: "butlast (h @ ''*'') = h"
  by simp

text \<open>
  A wildcard rule is absorbed by an exact one: the key of a backend does not contain the
  comparator, so a rule for \<open>h*\<close> after a rule for the exact host \<open>h\<close> (same HTTP port and path)
  does not get a backend of its own. The only backend keeps comparator \<open>eq\<close> and takes the
  addresses of both, so no rule routes the hosts that begin with \<open>h\<close>, and requests for \<open>h\<close> also
  reach the targets meant for the wildcard.
\<close>

theorem wildcard_absorbed:
  assumes "is_http_like r1" and "is_http_like r2" and "pr_SourcePort r2 = pr_SourcePort r1"
    and "pr_Path r2 = pr_Path r1" and "pr_Hostname r1 = h" and "pr_Hostname r2 = h @ ''*''"
    and "length h > 2" and "\<not> HasPrefix h ''*''" and "\<not> HasSuffix h ''*''"
  shows "snd (rule_host r2) = BegRuleComparator \<and>
    (\<exists>be. bs_allBe (feed [(r1, e1, h1), (r2, e2, h2)]) = [(rule_key r1, be)] \<and>
       be_RuleComparator be = EqRuleComparator \<and>
       ep_IP ` set (be_Endpoints be) = ep_IP ` set e1 \<union> ep_IP ` set e2)"
proof -
  have pre: "\<not> HasPrefix (h @ ''*'') ''*''" using assms(7,8) by (cases h) (simp_all add: HasPrefix_def)
  have suf: "HasSuffix (h @ ''*'') ''*''" by (auto simp: HasSuffix_iff)
  have rh1: "rule_host r1 = (h, EqRuleComparator)" and rh2: "rule_host r2 = (h, BegRuleComparator)"
    using assms pre suf by (simp_all add: rule_host_def Let_def butlast_append)
  have key: "rule_key r2 = rule_key r1" using assms by (simp add: rule_key_def rh1 rh2 rule_path_def)
  let ?fl = "[(r1, e1, h1), (r2, e2, h2)]" and ?b = "new_backend r1 e1 h1"
  obtain m out where m: "merge_endpoints (pr_Weight r2) e2 (map ep_IP e1, be_Endpoints ?b) = (m, out)" by fastforce
  have ip: "ep_IP (weigh w e) = ep_IP e" for w e by (simp add: weigh_def)
  have "ep_IP ` set out = ep_IP ` set e1 \<union> ep_IP ` set e2"
    using merge_endpoints_spec [OF m] by (simp add: new_backend_def image_image ip)
  moreover have "bs_allBe (feed ?fl) = [(rule_key r1, ?b\<lparr>be_Endpoints := out\<rparr>)]"
    using m key by (simp add: feed_def add_rule_def Let_def init_build_def)
  ultimately show ?thesis
    using rh1 rh2 by (intro conjI exI [of _ "?b\<lparr>be_Endpoints := out\<rparr>"]) (simp_all add: new_backend_def)
qed

lemma wildcard_absorbed_witness:
  "snd (rule_host (demo_rule\<lparr>pr_Hostname := ''foo.com*''\<rparr>)) = BegRuleComparator \<and>
    (\<exists>be. bs_allBe (feed [(demo_rule, [demo_ep], demo_hc),
                          (demo_rule\<lparr>pr_Hostname := ''foo.com*''\<rparr>, [demo_ep], demo_hc)]) = [(rule_key demo_rule, be)] \<and>
       be_RuleComparator be = EqRuleComparator \<and>
       ep_IP ` set (be_Endpoints be) = ep_IP ` set [demo_ep] \<union> ep_IP ` set [demo_ep])"
proof (rule wildcard_absorbed)
  show "is_http_like demo_rule" "is_http_like (demo_rule\<lparr>pr_Hostname := ''foo.com*''\<rparr>)"
    by (simp_all add: is_http_like_def demo_rule_def)
  show "\<not> HasSuffix ''foo.com'' ''*''" "\<not> HasPrefix ''foo.com'' ''*''" by code_simp+
qed (simp_all add: demo_rule_def)

section \<open>Selector rules\<close>

text \<open>What one rule of the metadata expands to.\<close>

definition matching :: "PortRule \<Rightarrow> Service \<Rightarrow> bool" where
  "matching lbRule svc \<longleftrightarrow> IsSelectorMatch (pr_Selector lbRule) (svc_Labels svc) \<and>
     (lbc_PortRules (svc_LBConfig svc) \<noteq> [] \<or> pr_TargetPort lbRule \<noteq> 0)"

definition expand_service :: "bool \<Rightarrow> PortRule \<Rightarrow> Service \<Rightarrow> PortRule list" where
  "expand_service skipTarget lbRule svc =
     (let svcName = getServiceName (svc_Name svc) (svc_StackName svc)
            (ToLower (pr_Region lbRule)) (ToLower (pr_Environment lbRule)) in
      if lbc_PortRules (svc_LBConfig svc) \<noteq> []
      then map (target_rule skipTarget lbRule svcName svc) (lbc_PortRules (svc_LBConfig svc))
      else [own_rule lbRule svcName])"

definition expand_rule :: "metadata_client \<Rightarrow> bool \<Rightarrow> Service list \<Rightarrow> PortRule \<Rightarrow> PortRule list" where
  "expand_rule mc skipTarget localsvcs lbRule =
     (if pr_Selector lbRule = '''' then [lbRule]
      else case GetRegionServices mc localsvcs (ToLower (pr_Region lbRule)) (ToLower (pr_Environment lbRule)) of
        Inl _ \<Rightarrow> []
      | Inr svcs \<Rightarrow> concat (map (expand_service skipTarget lbRule) (filter (matching lbRule) svcs)))"

lemma service_rules_eq:
  "service_rules skipTarget lbRule (ToLower (pr_Region lbRule)) (ToLower (pr_Environment lbRule)) svcs =
   Inr (concat (map (expand_service skipTarget lbRule) (filter (matching lbRule) svcs)))"
  by (induction svcs) (auto simp: GetLBMetadata_def matching_def expand_service_def Let_def)

lemma selector_rules_eq:
  "selector_rules mc skipTarget localsvcs rs = Inr (concat (map (expand_rule mc skipTarget localsvcs) rs))"
  by (induction rs) (auto simp: expand_rule_def service_rules_eq Let_def split: sum.split)

lemma expanded_plain: "r \<in> set (expand_rule mc skipTarget localsvcs lbRule) \<Longrightarrow> pr_Selector r = ''''"
  by (auto simp: expand_rule_def expand_service_def target_rule_def own_rule_def zero_PortRule_def Let_def
      split: if_splits sum.splits)

text \<open>
  Selector rules are replaced by what they select, in order: rules without a selector stay as
  they are; a selector rule becomes, service by service, the port rules of the matching
  services (with the rule's own port, protocol and weight), or the rule itself with the
  service's name when the service has none and a target port is given; a region that cannot be
  read contributes nothing and does not fail the rest; no selector is left.
\<close>

theorem processSelector_eq:
  "processSelector mc skipTarget lbMeta =
     (case mc_GetServices mc of
        Inl e \<Rightarrow> Inl e
      | Inr svcs \<Rightarrow> Inr (lbMeta\<lparr>lm_PortRules := concat (map (expand_rule mc skipTarget svcs) (lm_PortRules lbMeta))\<rparr>)) \<and>
   list_all (\<lambda>r. pr_Selector r = '''') (concat (map (expand_rule mc skipTarget localsvcs) (lm_PortRules lbMeta)))"
  by (auto simp: processSelector_def selector_rules_eq list_all_iff dest: expanded_plain split: sum.split)

end
