(* ===== verification/Custom_Config.thy ===== *)
theory Custom_Config
  imports LB_Config
begin

text \<open>
  \<open>provider/haproxy/haproxy_config_util.go\<close>: the custom configuration of a load balancer is cut
  into sections, the defaults it does not override are added, and the \<open>Config\<close> text of the
  load balancer, its frontends, backends and endpoints is written.
\<close>

abbreviation (input) "nl \<equiv> CHR 0x0A"

section \<open>Defaults\<close>

type_synonym custom = "(string, string list) gomap"
type_synonym defaults = "(string, (string, string) gomap) gomap"

definition GetDefaultConfig :: defaults where
  "GetDefaultConfig =
    [(''defaults'',
       [(''mode'', ''tcp''), (''option redispatch'', ''''), (''option http-server-close'', ''''),
        (''option forwardfor'', ''''), (''maxconn'', ''4096''), (''retries'', ''3''),
        (''timeout connect'', ''5000''), (''timeout client'', ''50000''), (''timeout server'', ''50000''),
        (''errorfile 400'', ''/etc/haproxy/errors/400.http''),
        (''errorfile 403'', ''/etc/haproxy/errors/403.http''),
        (''errorfile 408'', ''/etc/haproxy/errors/408.http''),
        (''errorfile 500'', ''/etc/haproxy/errors/500.http''),
        (''errorfile 502'', ''/etc/haproxy/errors/502.http''),
        (''errorfile 503'', ''/etc/haproxy/errors/503.http''),
        (''errorfile 504'', ''/etc/haproxy/errors/504.http'')]),
     (''global'',
       [(''maxconn'', ''4096''), (''maxpipes'', ''1024''),
        (''ssl-default-bind-ciphers'', ''ECDHE-ECDSA-AES128-GCM-SHA256:ECDHE-RSA-AES128-GCM-SHA256:ECDHE-ECDSA-AES128-SHA256:ECDHE-RSA-AES128-SHA256:ECDHE-ECDSA-AES128-SHA:ECDHE-RSA-AES128-SHA:ECDHE-ECDSA-AES256-GCM-SHA384:ECDHE-RSA-AES256-GCM-SHA384:ECDHE-ECDSA-AES256-SHA384:ECDHE-RSA-AES256-SHA384:ECDHE-RSA-AES256-SHA:ECDHE-ECDSA-AES256-SHA:AES128-GCM-SHA256:AES128-SHA256:AES128-SHA:AES256-GCM-SHA384:AES256-SHA256:AES256-SHA''),
        (''ssl-default-server-ciphers'', ''ECDHE-ECDSA-AES128-GCM-SHA256:ECDHE-RSA-AES128-GCM-SHA256:ECDHE-ECDSA-AES128-SHA256:ECDHE-RSA-AES128-SHA256:ECDHE-ECDSA-AES128-SHA:ECDHE-RSA-AES128-SHA:ECDHE-ECDSA-AES256-GCM-SHA384:ECDHE-RSA-AES256-GCM-SHA384:ECDHE-ECDSA-AES256-SHA384:ECDHE-RSA-AES256-SHA384:ECDHE-RSA-AES256-SHA:ECDHE-ECDSA-AES256-SHA:AES128-GCM-SHA256:AES128-SHA256:AES128-SHA:AES256-GCM-SHA384:AES256-SHA256:AES256-SHA''),
        (''ssl-default-bind-options'', ''no-sslv3 no-tlsv10 no-tls-tickets''),
        (''chroot'', ''/var/lib/haproxy''), (''daemon'', ''''),
        (''stats socket'', ''/run/haproxy/haproxy.sock mode 600 level admin''), (''stats timeout'', ''2m'')]),
     (''backend'',
       [(''http-request add-header X-Forwarded-Proto'', ''https if { ssl_fc } forwarded_proto''),
        (''http-request add-header X-Forwarded-Port'', ''%[dst_port] if forwarded_port'')])]"

definition directive_keywords :: "string list" where
  "directive_keywords = [''backend'', ''frontend'', ''global'', ''defaults'', ''listen'', ''userlist'', ''peers'', ''mailers'']"

definition isDirective :: "string \<Rightarrow> bool" where
  "isDirective directive = list_ex (EqualFold directive) directive_keywords"

definition confToString :: "string list \<Rightarrow> bool \<Rightarrow> bool \<Rightarrow> string" where
  "confToString conf sortValues tab =
     (if conf = [] then ''''
      else let c = (if sortValues then sort_strings conf else conf) in
        if tab then ''    '' @ Join c (nl # ''    '') else Join c (nl # ''    ''))"

section \<open>Sections\<close>

text \<open>\<open>m[k] = append(m[k], v)\<close>.\<close>

definition append_conf :: "string \<Rightarrow> string \<Rightarrow> custom \<Rightarrow> custom" where
  "append_conf k v m = AList.update k (map_get [] m k @ [v]) m"

abbreviation (input) "serverPrefix \<equiv> ''server $IP''"

text \<open>The inner loop: the defaults of the section that a line overrides are deleted.\<close>

definition exclude_defaults :: "string \<Rightarrow> string \<Rightarrow> defaults \<Rightarrow> defaults" where
  "exclude_defaults key trimmed ds =
     (case map_of ds key of
        None \<Rightarrow> ds
      | Some m \<Rightarrow> AList.update key
          (filter (\<lambda>(k, v). \<not> (EqualFold trimmed key \<or> HasPrefix trimmed (k @ '' ''))) m) ds)"

text \<open>One line of the custom configuration: the section so far, the map, the defaults left.\<close>

definition config_line :: "string \<Rightarrow> string \<times> custom \<times> defaults \<Rightarrow> string \<times> custom \<times> defaults" where
  "config_line conf s =
     (case s of (key, cm, ds) \<Rightarrow>
        let trimmed = TrimSpace conf; keys = SplitN 2 trimmed '' ''; prefix = hd keys in
        if TrimSpace prefix = '''' then (key, cm, ds)
        else if isDirective prefix \<or> HasPrefix trimmed serverPrefix then
          (if HasPrefix trimmed serverPrefix then
             let serverConf = SplitN 2 trimmed serverPrefix;
                 value = (if length serverConf > 1 then serverConf ! 1 else '''')
             in (key, append_conf (key @ ''_$IP'') value cm, ds)
           else if length keys > 1
             then (TrimSpace (TrimSpace (keys ! 0) @ '' '' @ TrimSpace (keys ! 1)), cm, ds)
           else (prefix, cm, ds))
        else (key, append_conf key conf cm, exclude_defaults key trimmed ds))"

definition read_custom :: "string list \<Rightarrow> string \<times> custom \<times> defaults" where
  "read_custom ls = fold config_line ls ('''', [], GetDefaultConfig)"

definition default_value :: "string \<times> string \<Rightarrow> string" where
  "default_value kv = TrimSpace (TrimSpace (fst kv) @ '' '' @ TrimSpace (snd kv))"

text \<open>What is left of the defaults goes to the end of its section, sorted.\<close>

definition add_defaults :: "defaults \<Rightarrow> custom \<Rightarrow> custom" where
  "add_defaults ds cm =
     fold (\<lambda>(k, m). append_conf k (confToString (map default_value m) True False)) ds cm"

definition custom_map :: "string \<Rightarrow> custom" where
  "custom_map customConfig =
     (case read_custom (Split customConfig [nl]) of (_, cm, ds) \<Rightarrow> add_defaults ds cm)"

section \<open>Endpoints, backends and frontends\<close>

definition has_check :: "BackendService \<Rightarrow> bool" where
  "has_check be = (case be_HealthCheck be of None \<Rightarrow> False | Some hc \<Rightarrow> hc_Port hc > 0)"

definition check_text :: "BackendService \<Rightarrow> string" where
  "check_text be =
     (case be_HealthCheck be of
        None \<Rightarrow> ''''
      | Some hc \<Rightarrow> ''check port '' @ Itoa (hc_Port hc) @ '' inter '' @ Itoa (hc_Interval hc) @
          '' rise '' @ Itoa (hc_HealthyThreshold hc) @ '' fall '' @ Itoa (hc_UnhealthyThreshold hc))"

text \<open>The last steps on one endpoint; \<open>base\<close> is the text of the custom \<open>server $IP\<close> lines.\<close>

definition endpoint_text :: "string \<Rightarrow> BackendService \<Rightarrow> bool \<Rightarrow> Endpoint \<Rightarrow> string" where
  "endpoint_text base be policy ep =
     base @
     (if has_check be then '' '' @ check_text be else '''') @
     (if ep_IsCname ep
      then '' '' @ (if has_check be then '' resolvers rancher'' else '' check resolvers rancher'') else '''') @
     (if policy then '' cookie '' @ ep_Name ep else '''') @
     (if ep_Weight ep \<noteq> 1 \<and> ep_Weight ep \<ge> 0 \<and> ep_Weight ep < 257
      then '' weight '' @ Itoa (ep_Weight ep) else '''')"

definition custom_endpoint :: "custom \<Rightarrow> BackendService \<Rightarrow> bool \<Rightarrow> Endpoint \<Rightarrow> Endpoint" where
  "custom_endpoint cm be policy ep =
     ep\<lparr>ep_Config := endpoint_text
       (confToString (map_get [] cm (''backend '' @ be_UUID be @ ''_$IP'')) False False) be policy ep\<rparr>"

definition cookie_line :: "StickinessPolicy \<Rightarrow> string" where
  "cookie_line p = ''cookie '' @ sp_Cookie p @ '' '' @ sp_Mode p @
     (if sp_Indirect p then '' indirect'' else '''') @
     (if sp_Nocache p then '' nocache'' else '''') @
     (if sp_Postonly p then '' postonly'' else '''') @
     (if sp_Domain p \<noteq> '''' then '' domain '' @ sp_Domain p else '''')"

text \<open>
  One backend. The policy is the one the load balancer points to: giving it a cookie name
  changes it for every later backend as well.
\<close>

definition custom_backend ::
  "custom \<Rightarrow> BackendService \<Rightarrow> StickinessPolicy option \<Rightarrow> BackendService \<times> StickinessPolicy option" where
  "custom_backend cm be policy =
     (let beConfig = map_get [] cm (''backend '' @ be_UUID be) @ map_get [] cm ''backend'';
          c1 = confToString beConfig False True;
          c2 = (case be_HealthCheck be of
                  Some hc \<Rightarrow>
                    if hc_Port hc > 0
                    then c1 @ nl # ''    timeout check '' @ Itoa (hc_ResponseTimeout hc) @
                         (if hc_RequestLine hc \<noteq> '''' then nl # ''    option httpchk '' @ hc_RequestLine hc else '''')
                    else c1
                | None \<Rightarrow> c1);
          policy' = map_option (\<lambda>p. if sp_Cookie p = '''' then p\<lparr>sp_Cookie := be_UUID be\<rparr> else p) policy;
          c3 = (case policy' of None \<Rightarrow> c2 | Some p \<Rightarrow> c2 @ nl # ''    '' @ cookie_line p)
      in (be\<lparr>be_Config := c3,
            be_Endpoints := map (custom_endpoint cm be (policy \<noteq> None)) (be_Endpoints be)\<rparr>, policy'))"

fun custom_backends ::
  "custom \<Rightarrow> BackendService list \<Rightarrow> StickinessPolicy option \<Rightarrow> BackendService list \<times> StickinessPolicy option" where
  "custom_backends cm [] policy = ([], policy)"
| "custom_backends cm (be # bes) policy =
     (case custom_backend cm be policy of
        (be', p1) \<Rightarrow> (case custom_backends cm bes p1 of (bes', p2) \<Rightarrow> (be' # bes', p2)))"

definition is_accept_proxy :: "string \<Rightarrow> bool" where
  "is_accept_proxy v = EqualFold (TrimSpace v) ''accept-proxy''"

definition sticky_frontend :: "StickinessPolicy option \<Rightarrow> FrontendService \<Rightarrow> bool" where
  "sticky_frontend sp fe \<longleftrightarrow>
     (case sp of None \<Rightarrow> False | Some p \<Rightarrow> sp_Mode p \<noteq> '''') \<and>
     (EqualFold (fe_Protocol fe) HTTPSProto \<or> EqualFold (fe_Protocol fe) HTTPProto)"

definition custom_frontend ::
  "custom \<Rightarrow> FrontendService \<Rightarrow> StickinessPolicy option \<Rightarrow> FrontendService \<times> StickinessPolicy option" where
  "custom_frontend cm fe sp =
     (let values = map_get [] cm (''frontend '' @ fe_Name fe);
          r = custom_backends cm (fe_BackendServices fe) (if sticky_frontend sp fe then sp else None)
      in (fe\<lparr>fe_AcceptProxy := fe_AcceptProxy fe \<or> list_ex is_accept_proxy values,
            fe_Config := confToString (filter (\<lambda>v. \<not> is_accept_proxy v) values) False True,
            fe_BackendServices := fst r\<rparr>,
          if sticky_frontend sp fe then snd r else sp))"

fun custom_frontends ::
  "custom \<Rightarrow> FrontendService list \<Rightarrow> StickinessPolicy option \<Rightarrow> FrontendService list \<times> StickinessPolicy option" where
  "custom_frontends cm [] sp = ([], sp)"
| "custom_frontends cm (fe # fes) sp =
     (case custom_frontend cm fe sp of
        (fe', p1) \<Rightarrow> (case custom_frontends cm fes p1 of (fes', p2) \<Rightarrow> (fe' # fes', p2)))"

section \<open>The rest of the configuration\<close>

definition processed_names :: "FrontendService list \<Rightarrow> string list" where
  "processed_names fes = concat (map (\<lambda>fe. (''frontend '' @ fe_Name fe) #
     concat (map (\<lambda>be. (''backend '' @ be_UUID be) #
        (if be_Endpoints be = [] then [] else [''backend '' @ be_UUID be @ ''_$IP''])) (fe_BackendServices fe))) fes)"

definition extra_section :: "custom \<Rightarrow> string list \<Rightarrow> string \<Rightarrow> string" where
  "extra_section cm processed k =
     (if EqualFold k ''global'' \<or> EqualFold k ''backend'' \<or> EqualFold k ''defaults'' \<or> k \<in> set processed \<or>
         HasPrefix k ''backend'' \<and> HasSuffix k ''_$IP''
      then '''' else k @ nl # confToString (map_get [] cm k) False True @ [nl])"

definition extra_config :: "custom \<Rightarrow> string list \<Rightarrow> string" where
  "extra_config cm processed = concat (map (extra_section cm processed) (sort_strings (keys_of cm)))"

text \<open>\<open>BuildCustomConfig\<close>; it reports no error, and the drain manager it is given is not used.\<close>

definition BuildCustomConfig :: "LoadBalancerConfig \<Rightarrow> string \<Rightarrow> LoadBalancerConfig" where
  "BuildCustomConfig lb customConfig =
     (let cm = custom_map customConfig;
          r = custom_frontends cm (lb_FrontendServices lb) (lb_StickinessPolicy lb);
          extra = extra_config cm (processed_names (lb_FrontendServices lb));
          base = ''global'' @ nl # confToString (map_get [] cm ''global'') False True @ nl # nl #
                 ''defaults'' @ nl # confToString (map_get [] cm ''defaults'') False True
      in lb\<lparr>lb_FrontendServices := fst r, lb_StickinessPolicy := snd r,
            lb_Config := (if extra \<noteq> '''' then base @ nl # nl # extra else base)\<rparr>)"

section \<open>What the pass leaves alone\<close>

lemma custom_endpoint_frame [simp]:
  "ep_Name (custom_endpoint cm be p ep) = ep_Name ep" "ep_IP (custom_endpoint cm be p ep) = ep_IP ep"
  "ep_Port (custom_endpoint cm be p ep) = ep_Port ep" "ep_Weight (custom_endpoint cm be p ep) = ep_Weight ep"
  "ep_Stopping (custom_endpoint cm be p ep) = ep_Stopping ep"
  "ep_Config (custom_endpoint cm be p ep) =
     endpoint_text (confToString (map_get [] cm (''backend '' @ be_UUID be @ ''_$IP'')) False False) be p ep"
  by (simp_all add: custom_endpoint_def)

text \<open>The same configuration without the texts that the pass writes.\<close>

definition bare_endpoint :: "Endpoint \<Rightarrow> Endpoint" where
  "bare_endpoint ep = ep\<lparr>ep_Config := ''''\<rparr>"

definition bare_backend :: "BackendService \<Rightarrow> BackendService" where
  "bare_backend be = be\<lparr>be_Config := '''', be_Endpoints := map bare_endpoint (be_Endpoints be)\<rparr>"

definition bare_frontend :: "FrontendService \<Rightarrow> FrontendService" where
  "bare_frontend fe = fe\<lparr>fe_Config := '''', fe_AcceptProxy := False,
     fe_BackendServices := map bare_backend (fe_BackendServices fe)\<rparr>"

lemma bare_custom_endpoint [simp]: "bare_endpoint (custom_endpoint cm be p ep) = bare_endpoint ep"
  by (simp add: bare_endpoint_def custom_endpoint_def)

lemma bare_custom_backend: "bare_backend (fst (custom_backend cm be p)) = bare_backend be"
  by (simp add: bare_backend_def custom_backend_def Let_def comp_def)

lemma bare_custom_backends: "map bare_backend (fst (custom_backends cm bes p)) = map bare_backend bes"
  by (induction bes arbitrary: p) (auto simp: split_beta bare_custom_backend)

lemma bare_custom_frontend: "bare_frontend (fst (custom_frontend cm fe sp)) = bare_frontend fe"
  by (simp add: bare_frontend_def custom_frontend_def Let_def bare_custom_backends)

lemma bare_custom_frontends: "map bare_frontend (fst (custom_frontends cm fes sp)) = map bare_frontend fes"
  by (induction fes arbitrary: sp) (auto simp: split_beta bare_custom_frontend)

lemma custom_backends_set:
  "be' \<in> set (fst (custom_backends cm bes p)) \<Longrightarrow> \<exists>be \<in> set bes. \<exists>q. be' = fst (custom_backend cm be q)"
  by (induction bes arbitrary: p) (auto simp: split_beta)

lemma custom_frontends_set:
  "fe' \<in> set (fst (custom_frontends cm fes sp)) \<Longrightarrow> \<exists>fe \<in> set fes. \<exists>q. fe' = fst (custom_frontend cm fe q)"
  by (induction fes arbitrary: sp) (auto simp: split_beta)

text \<open>Every endpoint of the result stems from one of the input, in the same backend.\<close>

lemma built_endpoint:
  assumes "fe' \<in> set (lb_FrontendServices (BuildCustomConfig lb custom))"
    and "be' \<in> set (fe_BackendServices fe')" and "ep' \<in> set (be_Endpoints be')"
  obtains fe be ep policy where "fe \<in> set (lb_FrontendServices lb)" "be \<in> set (fe_BackendServices fe)"
    "ep \<in> set (be_Endpoints be)" "ep' = custom_endpoint (custom_map custom) be policy ep"
    "be_UUID be' = be_UUID be"
proof -
  from assms(1) obtain fe q where fe: "fe \<in> set (lb_FrontendServices lb)"
    "fe' = fst (custom_frontend (custom_map custom) fe q)"
    by (auto simp: BuildCustomConfig_def Let_def dest!: custom_frontends_set)
  with assms(2) obtain be p where be: "be \<in> set (fe_BackendServices fe)"
    "be' = fst (custom_backend (custom_map custom) be p)"
    by (auto simp: custom_frontend_def Let_def dest!: custom_backends_set)
  with assms(3) obtain ep where "ep \<in> set (be_Endpoints be)"
    "ep' = custom_endpoint (custom_map custom) be (p \<noteq> None) ep"
    by (auto simp: custom_backend_def Let_def)
  with fe be show ?thesis by (intro that) (auto simp: custom_backend_def Let_def)
qed


end
