(* ===== verification/Custom_Theorems.thy ===== *)
theory Custom_Theorems
  imports Custom_Config
begin

text \<open>
  What the custom configuration means: a declarative reading of its lines (every line belongs to
  the nearest section header above it) that the loop of \<open>BuildCustomConfig\<close> implements, and the
  defaults that survive it.
\<close>

section \<open>The reading of a line\<close>

datatype line_kind = Blank | Header string | Server string | Plain

definition line_kind :: "string \<Rightarrow> line_kind" where
  "line_kind conf =
     (let t = TrimSpace conf; ks = SplitN 2 t '' '' in
      if TrimSpace (hd ks) = '''' then Blank
      else if HasPrefix t serverPrefix then
        Server (if length (SplitN 2 t serverPrefix) > 1 then SplitN 2 t serverPrefix ! 1 else '''')
      else if isDirective (hd ks) then
        Header (if length ks > 1 then TrimSpace (TrimSpace (ks ! 0) @ '' '' @ TrimSpace (ks ! 1)) else hd ks)
      else Plain)"

text \<open>The section of the line after \<open>ls\<close>: the last header among them.\<close>

definition section_of :: "string list \<Rightarrow> string" where
  "section_of ls = last ('''' # [h. Header h \<leftarrow> map line_kind ls])"

text \<open>What the line \<open>i\<close> contributes to section \<open>k\<close>.\<close>

definition contribution :: "string list \<Rightarrow> string \<Rightarrow> nat \<Rightarrow> string list" where
  "contribution ls k i =
     (case line_kind (ls ! i) of
        Plain \<Rightarrow> if section_of (take i ls) = k then [ls ! i] else []
      | Server v \<Rightarrow> if section_of (take i ls) @ ''_$IP'' = k then [v] else []
      | _ \<Rightarrow> [])"

definition section_lines :: "string list \<Rightarrow> string \<Rightarrow> string list" where
  "section_lines ls k = concat (map (contribution ls k) [0 ..< length ls])"

definition overridden :: "string list \<Rightarrow> string \<Rightarrow> string \<Rightarrow> bool" where
  "overridden ls k d \<longleftrightarrow>
     (\<exists>i < length ls. line_kind (ls ! i) = Plain \<and> section_of (take i ls) = k \<and>
        (EqualFold (TrimSpace (ls ! i)) k \<or> HasPrefix (TrimSpace (ls ! i)) (d @ '' '')))"

section \<open>The loop implements it\<close>

lemma config_line_kind:
  "config_line conf (key, cm, ds) =
     (case line_kind conf of
        Blank \<Rightarrow> (key, cm, ds)
      | Header h \<Rightarrow> (h, cm, ds)
      | Server v \<Rightarrow> (key, append_conf (key @ ''_$IP'') v cm, ds)
      | Plain \<Rightarrow> (key, append_conf key conf cm, exclude_defaults key (TrimSpace conf) ds))"
  by (auto simp: config_line_def line_kind_def Let_def)

lemma section_of_Nil [simp]: "section_of [] = ''''"
  by (simp add: section_of_def)

lemma section_of_snoc [simp]:
  "section_of (ls @ [l]) = (case line_kind l of Header h \<Rightarrow> h | _ \<Rightarrow> section_of ls)"
  by (simp add: section_of_def split: line_kind.split)

lemma section_lines_snoc:
  "section_lines (ls @ [l]) k = section_lines ls k @
     (case line_kind l of
        Plain \<Rightarrow> if section_of ls = k then [l] else []
      | Server v \<Rightarrow> if section_of ls @ ''_$IP'' = k then [v] else []
      | _ \<Rightarrow> [])"
proof -
  have m: "map (contribution (ls @ [l]) k) [0 ..< length ls] = map (contribution ls k) [0 ..< length ls]"
    by (rule map_cong) (auto simp: contribution_def nth_append split: line_kind.split)
  have "section_lines (ls @ [l]) k =
      concat (map (contribution (ls @ [l]) k) [0 ..< length ls]) @ contribution (ls @ [l]) k (length ls)"
    by (simp add: section_lines_def)
  then show ?thesis
    unfolding m by (simp add: section_lines_def [symmetric] contribution_def split: line_kind.split)
qed

lemma overridden_snoc:
  "overridden (ls @ [l]) k d \<longleftrightarrow> overridden ls k d \<or>
     line_kind l = Plain \<and> section_of ls = k \<and> (EqualFold (TrimSpace l) k \<or> HasPrefix (TrimSpace l) (d @ '' ''))"
proof -
  have "(\<exists>i < length (ls @ [l]). P i) \<longleftrightarrow> (\<exists>i < length ls. P i) \<or> P (length ls)" for P
    by (auto simp: less_Suc_eq)
  then show ?thesis
    unfolding overridden_def by (auto simp: nth_append)
qed

lemma map_get_append_conf [simp]:
  "map_get [] (append_conf k v m) k' = (if k = k' then map_get [] m k @ [v] else map_get [] m k')"
  by (simp add: append_conf_def)

lemma map_of_exclude:
  "map_of (exclude_defaults key t ds) k =
     (if k = key
      then map_option (filter (\<lambda>(d, v). \<not> (EqualFold t key \<or> HasPrefix t (d @ '' '')))) (map_of ds key)
      else map_of ds k)"
  by (auto simp: exclude_defaults_def split: option.split)

lemma keys_exclude: "keys_of (exclude_defaults key t ds) = keys_of ds"
proof -
  have "keys_of (AList.update key v ds) = keys_of ds" if "map_of ds key = Some w" for v w
    using that by (induction ds) auto
  then show ?thesis by (simp add: exclude_defaults_def split: option.split)
qed

lemma read_custom_snoc: "read_custom (ls @ [l]) = config_line l (read_custom ls)"
  by (simp add: read_custom_def)

lemma read_custom_spec:
  "read_custom ls = (key, cm, ds) \<Longrightarrow>
   key = section_of ls \<and> map_get [] cm k = section_lines ls k \<and> keys_of ds = keys_of GetDefaultConfig \<and>
   map_of ds k = map_option (filter (\<lambda>(d, v). \<not> overridden ls k d)) (map_of GetDefaultConfig k)"
proof (induction ls arbitrary: key cm ds k rule: rev_induct)
  case Nil
  then show ?case by (simp add: read_custom_def section_lines_def overridden_def option.map_ident)
next
  case (snoc l ls)
  obtain key0 cm0 ds0 where r: "read_custom ls = (key0, cm0, ds0)" by (metis prod_cases3)
  have c: "config_line l (key0, cm0, ds0) = (key, cm, ds)"
    using snoc.prems r by (simp add: read_custom_snoc)
  have key: "key = section_of (ls @ [l])" and cm: "map_get [] cm k = section_lines (ls @ [l]) k"
    and ks: "keys_of ds = keys_of GetDefaultConfig"
    using c snoc.IH [OF r] unfolding config_line_kind
    by (auto simp: section_lines_snoc keys_exclude split: line_kind.splits)
  have "map_of ds k = map_option (filter (\<lambda>(d, v). \<not> overridden (ls @ [l]) k d)) (map_of GetDefaultConfig k)"
  proof (cases "line_kind l")
    case Plain
    with c have "ds = exclude_defaults key0 (TrimSpace l) ds0" by (auto simp: config_line_kind)
    with snoc.IH [OF r, of k] Plain show ?thesis
      by (auto simp: map_of_exclude overridden_snoc option.map_comp comp_def split_def
          intro!: option.map_cong0 filter_cong)
  qed (use c snoc.IH [OF r, of k] in \<open>simp_all add: config_line_kind overridden_snoc\<close>)
  with key cm ks show ?case by blast
qed

lemma map_get_add_defaults:
  "is_gomap ds \<Longrightarrow> map_get [] (add_defaults ds cm) k = map_get [] cm k @
     (case map_of ds k of None \<Rightarrow> [] | Some m \<Rightarrow> [confToString (map default_value m) True False])"
  unfolding add_defaults_def
proof (induction ds arbitrary: cm)
  case (Cons d ds)
  obtain j m where d: "d = (j, m)" by (cases d)
  from Cons.prems d have n: "map_of ds j = None" by (simp add: map_of_eq_None_iff)
  from Cons.IH Cons.prems d n show ?case by (cases "j = k") auto
qed simp


section \<open>What the loop does not do\<close>

text \<open>
  A default whose option takes no value is only overridden by a line that continues after it: the
  test for the bare option compares the line with the section and not with the option.
\<close>

lemma overridden_only_by_prefix:
  assumes "overridden ls k d" and "\<And>l. l \<in> set ls \<Longrightarrow> line_kind l = Plain \<Longrightarrow> \<not> EqualFold (TrimSpace l) k"
  shows "\<exists>l \<in> set ls. HasPrefix (TrimSpace l) (d @ '' '')"
  using assms unfolding overridden_def by (metis nth_mem)

definition redispatch_text :: string where
  "redispatch_text = ''defaults'' @ nl # ''  option redispatch''"

text \<open>
  A bare option of the custom configuration does not replace its default: with a custom
  \<open>option redispatch\<close> in \<open>defaults\<close>, the section holds the custom line and, among the
  defaults after it, the same option again, although the code means to exclude the defaults
  that are present in the custom configuration.
\<close>

theorem bare_option_duplicated:
  "case map_get [] (custom_map redispatch_text) ''defaults'' of
     [line, rest] \<Rightarrow> TrimSpace line = ''option redispatch'' \<and>
                     ''option redispatch'' \<in> set (map TrimSpace (Split rest [nl]))
   | _ \<Rightarrow> False"
  by code_simp

end
