(* ===== verification/Log_Safety.thy ===== *)
theory Log_Safety
  imports Go_Text
begin

text \<open>
  \<open>SanitizeLogText\<close> of \<open>utils/log_safety.go\<close>: untrusted text made safe for one log record.
\<close>

text \<open>\<open>unicode.IsControl\<close>: the category Cc.\<close>

definition is_control :: "nat \<Rightarrow> bool" where
  "is_control r \<longleftrightarrow> r < 32 \<or> (127 \<le> r \<and> r \<le> 159)"

definition sanitize_rune :: "nat \<Rightarrow> nat" where
  "sanitize_rune r =
     (if r = 13 \<or> r = 10 then r
      else if r = 0x85 \<or> r = 0x2028 \<or> r = 0x2029 then 0xFFFD
      else if is_control r then 0xFFFD else r)"

text \<open>
  \<open>strings.Map\<close> over the runes, then the two replacements. (\<open>strings.Map\<close> writes an invalid
  byte as U+FFFD, as \<open>encode_rune\<close> does with the rune the decoder gives for it.)
\<close>

definition map_runes :: "(nat \<Rightarrow> nat) \<Rightarrow> string \<Rightarrow> string" where
  "map_runes f s = concat (map (\<lambda>(i, r). encode_rune (f r)) (runes s))"

definition SanitizeLogText :: "string \<Rightarrow> string" where
  "SanitizeLogText input =
     (let s = map_runes sanitize_rune input
      in ReplaceAll (ReplaceAll s [CHR 0x0D] (CHR 0x5C # ''r'')) [CHR 0x0A] (CHR 0x5C # ''n''))"

lemma SplitN_single_parts:
  "p \<in> set (SplitN n s [x]) \<Longrightarrow> set p \<subseteq> set s"
proof (induction n s "[x]" arbitrary: p rule: SplitN.induct)
  case (3 n s)
  then show ?case by (fastforce split: option.splits dest: Cut_Some)
qed auto

lemma set_Join: "set (Join ps sep) \<subseteq> \<Union> (set ` set ps) \<union> set sep"
  by (induction ps sep rule: Join.induct) auto

lemma Cut_single: "Cut p [x] = None \<longleftrightarrow> x \<notin> set p"
  by (subst Cut_None_iff) (auto simp: in_set_conv_decomp)

lemma ReplaceAll_single_set:
  "set (ReplaceAll s [x] new) \<subseteq> (set s - {x}) \<union> set new"
proof
  fix c
  assume "c \<in> set (ReplaceAll s [x] new)"
  then consider p where "p \<in> set (Split s [x])" "c \<in> set p" | "c \<in> set new"
    using set_Join [of "Split s [x]" new] by (auto simp: ReplaceAll_def)
  then show "c \<in> (set s - {x}) \<union> set new"
  proof cases
    case 1
    then have "x \<notin> set p" using Split_parts [of "[x]" p s] by (simp add: Cut_single)
    moreover have "set p \<subseteq> set s" using 1 SplitN_single_parts by (auto simp: Split_def)
    ultimately show ?thesis using 1 by blast
  qed simp
qed

lemma encode_rune_control:
  "c \<in> set (encode_rune r) \<Longrightarrow> code c < 32 \<or> code c = 127 \<Longrightarrow> r = code c"
  by (auto simp: encode_rune_def split: if_splits)

lemma sanitize_rune_control: "sanitize_rune r < 32 \<or> sanitize_rune r = 127 \<Longrightarrow> sanitize_rune r \<in> {10, 13}"
  by (auto simp: sanitize_rune_def is_control_def split: if_splits)

lemma map_runes_control:
  "c \<in> set (map_runes sanitize_rune s) \<Longrightarrow> code c < 32 \<or> code c = 127 \<Longrightarrow> code c \<in> {10, 13}"
proof -
  assume "c \<in> set (map_runes sanitize_rune s)" and low: "code c < 32 \<or> code c = 127"
  then obtain r where "c \<in> set (encode_rune (sanitize_rune r))" by (auto simp: map_runes_def)
  from encode_rune_control [OF this low] have "sanitize_rune r = code c" .
  with low sanitize_rune_control [of r] show "code c \<in> {10, 13}" by simp
qed

end
