(* ===== verification/Runtime_Api.thy ===== *)
theory Runtime_Api
  imports Log_Safety
begin

text \<open>
  The exchange with the HAProxy process: commands on its runtime socket and the parsing of the
  replies (\<open>provider/haproxy/haproxy.go\<close> and \<open>provider/haproxy/drain_recovery.go\<close>).

  What lies outside the program, the HAProxy process behind the socket, the PID file and the
  process table, is the parameter \<open>env\<close>, whose operations act on a world of any type. The state
  \<open>io\<close> threads that world and records the commands sent, for statements about them.
\<close>

section \<open>The environment\<close>

record 'w haproxy_env =
  env_command :: "string \<Rightarrow> 'w \<Rightarrow> string list result \<times> 'w"
  env_pidof :: "'w \<Rightarrow> string result"
  env_pidFile :: "'w \<Rightarrow> string result"
  env_statProc :: "int \<Rightarrow> 'w \<Rightarrow> bool result"

record 'w io =
  io_world :: 'w
  io_sent :: "string list"

definition runCommand :: "'w haproxy_env \<Rightarrow> string \<Rightarrow> 'w io \<Rightarrow> string list result \<times> 'w io" where
  "runCommand env cmd io =
     (case env_command env cmd (io_world io) of
        (r, w) \<Rightarrow> (r, \<lparr>io_world = w, io_sent = io_sent io @ [cmd]\<rparr>))"

lemma runCommand_sent [frame]: "runCommand env cmd io = (r, io') \<Longrightarrow> io_sent io' = io_sent io @ [cmd]"
  by (auto simp: runCommand_def split: prod.splits)

text \<open>\<open>readPid\<close>: the PID file holds one positive decimal number; the result is its print.\<close>

definition readPid :: "'w haproxy_env \<Rightarrow> 'w io \<Rightarrow> string result" where
  "readPid env io =
     (case env_pidFile env (io_world io) of
        Inl e \<Rightarrow> Inl e
      | Inr content \<Rightarrow>
          (case Atoi (TrimSpace content) of
             None \<Rightarrow> Inl (Errorf ''invalid HAProxy PID: expected a positive decimal process ID'' [])
           | Some pid \<Rightarrow>
               if pid \<le> 0
               then Inl (Errorf ''invalid HAProxy PID: expected a positive decimal process ID'' [])
               else Inr (Itoa pid)))"

text \<open>\<open>olderPidExists\<close> (the listing of \<open>pidof haproxy\<close>): the flag it returns beside an error is true.\<close>

definition olderPidExists :: "'w haproxy_env \<Rightarrow> 'w io \<Rightarrow> bool \<times> go_error option" where
  "olderPidExists env io =
     (case env_pidof env (io_world io) of
        Inl e \<Rightarrow> (True, Some (Wrapf ''error listing old process %v'' [] e))
      | Inr processes \<Rightarrow> (length (Split processes '' '') > 1, None))"

text \<open>\<open>processExists\<close>: \<open>env_statProc\<close> is the \<open>stat\<close> of \<open>/proc/<pid>\<close>, false when there is none.\<close>

definition processExists :: "'w haproxy_env \<Rightarrow> int \<Rightarrow> 'w io \<Rightarrow> bool result" where
  "processExists env pid io =
     (if pid < 1 then Inl (Errorf ''process ID must be positive'' [])
      else env_statProc env pid (io_world io))"

section \<open>Statistics\<close>

type_synonym Stat = "(string, string) gomap"

text \<open>The columns of one line under the names of the header; a later column of a name wins.\<close>

definition columns :: "string list \<Rightarrow> string list \<Rightarrow> (string, string) gomap" where
  "columns ks vs = foldl (\<lambda>m (k, v). AList.update k v m) [] (zip ks vs)"

fun parse_stats ::
  "string list \<Rightarrow> string list \<Rightarrow> (string, Stat list) gomap \<Rightarrow> (string, Stat list) gomap result" where
  "parse_stats ks [] stats = Inr stats"
| "parse_stats ks (line # rest) stats =
     (if line = '''' then parse_stats ks rest stats
      else let vs = Split line '',''
           in if length ks \<noteq> length vs
              then Inl (Errorf ''invalid HAProxy stat column count: got %d, want %d''
                          [Itoa (int (length vs)), Itoa (int (length ks))])
              else let stat = columns ks vs; sv = map_get '''' stat ''svname''
                   in parse_stats ks rest (AList.update sv (map_get [] stats sv @ [stat]) stats))"

definition stats_of_lines :: "string list \<Rightarrow> (string, Stat list) gomap result" where
  "stats_of_lines ls =
     (case ls of
        [] \<Rightarrow> Inl (Errorf ''Failed to find stats'' [])
      | h # rest \<Rightarrow>
          if \<not> HasPrefix h ''# '' then Inl (Errorf ''Failed to find stats'' [])
          else parse_stats (Split (TrimPrefix h ''# '') '','') rest [])"

definition ReadStats ::
  "'w haproxy_env \<Rightarrow> 'w io \<Rightarrow> (string, Stat list) gomap result \<times> 'w io" where
  "ReadStats env io =
     (case runCommand env ''show stat'' io of
        (Inl e, io') \<Rightarrow> (Inl e, io')
      | (Inr ls, io') \<Rightarrow> (stats_of_lines ls, io'))"

text \<open>The loop of \<open>readCurrentStats\<close> over the rows of one server.\<close>

fun sum_sessions ::
  "string \<Rightarrow> Stat list \<Rightarrow> int \<Rightarrow> string list \<Rightarrow> (int \<times> string list) result" where
  "sum_sessions name [] tot names = Inr (tot, names)"
| "sum_sessions name (st # sts) tot names =
     (let names' = (case map_of st ''pxname'' of None \<Rightarrow> names
                    | Some px \<Rightarrow> names @ [px @ ''/'' @ name])
      in case map_of st ''scur'' of
           None \<Rightarrow> sum_sessions name sts tot names'
         | Some scur \<Rightarrow>
             if scur = '''' then sum_sessions name sts tot names'
             else (case Atoi scur of
                     None \<Rightarrow> Inl (Errorf ''invalid HAProxy current session count for endpoint %s'' [name])
                   | Some n \<Rightarrow> sum_sessions name sts (tot + n) names'))"

definition readCurrentStats ::
  "'w haproxy_env \<Rightarrow> string \<Rightarrow> 'w io \<Rightarrow> (string \<times> string list) result \<times> 'w io" where
  "readCurrentStats env name io =
     (case ReadStats env io of
        (Inl e, io') \<Rightarrow> (Inl (Wrapf ''Error %v reading haproxy stats'' [] e), io')
      | (Inr stats, io') \<Rightarrow>
          (case map_of stats name of
             None \<Rightarrow> (Inl (Errorf ''Error finding endpoint %v in haproxy stats'' [name]), io')
           | Some rows \<Rightarrow>
               (case sum_sessions name rows 0 [] of
                  Inl e \<Rightarrow> (Inl e, io')
                | Inr (tot, names) \<Rightarrow> (Inr (Itoa tot, names), io'))))"

section \<open>Server states\<close>

record serverState =
  ss_backend :: string
  ss_name :: string
  ss_weight :: int
  ss_initialWeight :: int
  ss_admin :: int
  ss_operational :: int

definition required_columns :: "string list" where
  "required_columns = [''be_name'', ''srv_name'', ''srv_uweight'', ''srv_iweight'', ''srv_admin_state'',
     ''srv_op_state'']"

text \<open>One data line under a header; \<open>strconv.Atoi\<close> of a missing column fails.\<close>

definition server_state_of_line :: "string list \<Rightarrow> string \<Rightarrow> serverState result" where
  "server_state_of_line header line =
     (let vs = Fields line in
      if length vs \<noteq> length header
      then Inl (Errorf ''invalid HAProxy server state column count'' [])
      else let f = map_get '''' (columns header vs) in
        case (Atoi (f ''srv_uweight''), Atoi (f ''srv_iweight''), Atoi (f ''srv_admin_state''),
              Atoi (f ''srv_op_state'')) of
          (Some weight, Some initialWeight, Some admin, Some operational) \<Rightarrow>
            if f ''be_name'' = '''' \<or> f ''srv_name'' = '''' \<or> weight < 0 \<or> weight > 256
               \<or> initialWeight < 0 \<or> initialWeight > 256 \<or> admin < 0 \<or> operational < 0
               \<or> operational > 3
            then Inl (Errorf ''invalid HAProxy server state fields'' [])
            else Inr \<lparr>ss_backend = f ''be_name'' @ ''/'' @ f ''srv_name'', ss_name = f ''srv_name'',
                   ss_weight = weight, ss_initialWeight = initialWeight, ss_admin = admin,
                   ss_operational = operational\<rparr>
        | _ \<Rightarrow> Inl (Errorf ''invalid HAProxy server state fields'' []))"

type_synonym states = "(string, serverState) gomap"

fun parse_states ::
  "string list option \<Rightarrow> string list \<Rightarrow> states \<Rightarrow> (string list option \<times> states) result" where
  "parse_states header [] states = Inr (header, states)"
| "parse_states header (line # rest) states =
     (if HasPrefix line ''# '' then parse_states (Some (Fields (TrimPrefix line ''# ''))) rest states
      else (case header of
              None \<Rightarrow> parse_states header rest states
            | Some h \<Rightarrow>
                if TrimSpace line = '''' then parse_states header rest states
                else (case server_state_of_line h line of
                        Inl e \<Rightarrow> Inl e
                      | Inr s \<Rightarrow> parse_states header rest (AList.update (ss_backend s) s states))))"

definition states_of_lines :: "string list \<Rightarrow> states result" where
  "states_of_lines ls =
     (case parse_states None ls [] of
        Inl e \<Rightarrow> Inl e
      | Inr (None, _) \<Rightarrow> Inl (Errorf ''HAProxy server state header is missing'' [])
      | Inr (Some header, states) \<Rightarrow>
          (case find (\<lambda>c. c \<notin> set header) required_columns of
             Some c \<Rightarrow> Inl (Errorf ''HAProxy server state header is missing %s'' [c])
           | None \<Rightarrow> Inr states))"

definition readServerStates :: "'w haproxy_env \<Rightarrow> 'w io \<Rightarrow> states result \<times> 'w io" where
  "readServerStates env io =
     (case runCommand env ''show servers state'' io of
        (Inl e, io') \<Rightarrow> (Inl e, io')
      | (Inr ls, io') \<Rightarrow> (states_of_lines ls, io'))"

section \<open>Weights\<close>

definition weight_command :: "string \<Rightarrow> int \<Rightarrow> string" where
  "weight_command backend weight = ''set server '' @ backend @ '' weight '' @ Itoa weight"

definition setWeight :: "'w haproxy_env \<Rightarrow> string \<Rightarrow> int \<Rightarrow> 'w io \<Rightarrow> unit result \<times> 'w io" where
  "setWeight env backend weight io =
     (case runCommand env (weight_command backend weight) io of
        (Inl e, io') \<Rightarrow> (Inl e, io')
      | (Inr ls, io') \<Rightarrow>
          (case find (\<lambda>l. TrimSpace l \<noteq> '''') ls of
             Some l \<Rightarrow> (Inl (Errorf (''HAProxy rejected weight change: '' @ SanitizeLogText l) []), io')
           | None \<Rightarrow> (Inr (), io')))"

definition setWeightVerified ::
  "'w haproxy_env \<Rightarrow> string \<Rightarrow> int \<Rightarrow> 'w io \<Rightarrow> unit result \<times> 'w io" where
  "setWeightVerified env backend weight io =
     (case setWeight env backend weight io of
        (Inl e, io') \<Rightarrow> (Inl e, io')
      | (Inr _, io') \<Rightarrow>
          (case readServerStates env io' of
             (Inl e, io'') \<Rightarrow> (Inl e, io'')
           | (Inr states, io'') \<Rightarrow>
               (case map_of states backend of
                  None \<Rightarrow> (Inl (Errorf ''weight verification failed: backend=%s wantWeight=%d''
                            [backend, Itoa weight]), io'')
                | Some state \<Rightarrow>
                    if ss_weight state \<noteq> weight
                    then (Inl (Errorf ''weight verification failed: backend=%s wantWeight=%d''
                           [backend, Itoa weight]), io'')
                    else (Inr (), io''))))"

definition SetWeightForDrain :: "'w haproxy_env \<Rightarrow> string \<Rightarrow> 'w io \<Rightarrow> unit result \<times> 'w io" where
  "SetWeightForDrain env backend io = setWeight env backend 0 io"

section \<open>What the exchange guarantees\<close>

lemma setWeight_sent [frame]:
  "setWeight env k n io = (r, io') \<Longrightarrow> io_sent io' = io_sent io @ [weight_command k n]"
  by (auto simp: setWeight_def split: prod.splits sum.splits option.splits dest: runCommand_sent)

lemma readServerStates_sent [frame]:
  "readServerStates env io = (r, io') \<Longrightarrow> io_sent io' = io_sent io @ [''show servers state'']"
  by (auto simp: readServerStates_def split: prod.splits sum.splits dest: runCommand_sent)

lemma ReadStats_sent [frame]:
  "ReadStats env io = (r, io') \<Longrightarrow> io_sent io' = io_sent io @ [''show stat'']"
  by (auto simp: ReadStats_def split: prod.splits sum.splits dest: runCommand_sent)

lemma readCurrentStats_sent [frame]:
  "readCurrentStats env name io = (r, io') \<Longrightarrow> io_sent io' = io_sent io @ [''show stat'']"
  by (auto simp: readCurrentStats_def split: prod.splits sum.splits option.splits dest: ReadStats_sent)

text \<open>A verified weight change sends the change itself and at most one reading of the states.\<close>

lemma setWeightVerified_sent [frame]:
  "setWeightVerified env k n io = (r, io') \<Longrightarrow>
   io_sent io' = io_sent io @ [weight_command k n]
   \<or> io_sent io' = io_sent io @ [weight_command k n, ''show servers state'']"
  by (auto simp: setWeightVerified_def split: prod.splits sum.splits option.splits if_splits
      dest!: setWeight_sent readServerStates_sent)

text \<open>The range checks of \<open>readServerStates\<close>, and the key a state is filed under.\<close>

definition valid_state :: "string \<Rightarrow> serverState \<Rightarrow> bool" where
  "valid_state k s \<longleftrightarrow> k = ss_backend s \<and> ss_name s \<noteq> '''' \<and>
     0 \<le> ss_weight s \<and> ss_weight s \<le> 256 \<and> 0 \<le> ss_initialWeight s \<and> ss_initialWeight s \<le> 256 \<and>
     0 \<le> ss_admin s \<and> 0 \<le> ss_operational s \<and> ss_operational s \<le> 3 \<and>
     (\<exists>b. b \<noteq> '''' \<and> ss_backend s = b @ ''/'' @ ss_name s)"

lemma server_state_of_line_valid:
  "server_state_of_line h l = Inr s \<Longrightarrow> valid_state (ss_backend s) s"
  by (auto simp: server_state_of_line_def Let_def valid_state_def split: if_splits option.splits)

lemma set_update_subset: "set (AList.update k v m) \<subseteq> insert (k, v) (set m)"
  by (induction m) auto

lemma parse_states_valid:
  "parse_states header ls states = Inr (h, out) \<Longrightarrow> \<forall>(k, s) \<in> set states. valid_state k s \<Longrightarrow>
   \<forall>(k, s) \<in> set out. valid_state k s"
proof (induction header ls states rule: parse_states.induct)
  case (2 header line rest states)
  consider (pre) "HasPrefix line ''# ''" | (no) "\<not> HasPrefix line ''# ''" "header = None"
    | (blank) hd where "\<not> HasPrefix line ''# ''" "header = Some hd" "TrimSpace line = ''''"
    | (row) hd where "\<not> HasPrefix line ''# ''" "header = Some hd" "TrimSpace line \<noteq> ''''"
    by (cases header) auto
  then show ?case
  proof cases
    case pre
    with "2.prems"(1) have "parse_states (Some (Fields (TrimPrefix line ''# ''))) rest states = Inr (h, out)"
      by simp
    from "2.IH"(1) [OF pre this "2.prems"(2)] show ?thesis .
  next
    case no
    with "2.prems"(1) have "parse_states header rest states = Inr (h, out)" by simp
    from "2.IH"(2) [OF no this "2.prems"(2)] show ?thesis .
  next
    case (blank hd)
    with "2.prems"(1) have "parse_states header rest states = Inr (h, out)" by simp
    from "2.IH"(3) [OF blank this "2.prems"(2)] show ?thesis .
  next
    case (row hd)
    with "2.prems"(1) obtain s where s: "server_state_of_line hd line = Inr s"
      and p: "parse_states header rest (AList.update (ss_backend s) s states) = Inr (h, out)"
      by (auto split: sum.splits)
    have "\<forall>(k, s) \<in> set (AList.update (ss_backend s) s states). valid_state k s"
      using set_update_subset [of "ss_backend s" s states] "2.prems"(2)
        server_state_of_line_valid [OF s] by blast
    from "2.IH"(4) [OF row s p this] show ?thesis .
  qed
qed simp

lemma parse_states_gomap:
  "parse_states header ls states = Inr (h, out) \<Longrightarrow> is_gomap states \<Longrightarrow> is_gomap out"
  by (induction header ls states rule: parse_states.induct)
    (auto split: if_splits option.splits sum.splits intro: distinct_update)

lemma states_of_lines_valid:
  assumes "states_of_lines ls = Inr states"
  shows "is_gomap states" and "(k, s) \<in> set states \<Longrightarrow> valid_state k s"
proof -
  from assms obtain h where "parse_states None ls [] = Inr (Some h, states)"
    by (auto simp: states_of_lines_def split: sum.splits option.splits)
  from parse_states_gomap [OF this] parse_states_valid [OF this]
  show "is_gomap states" "(k, s) \<in> set states \<Longrightarrow> valid_state k s" by auto
qed

lemma readServerStates_valid:
  assumes "readServerStates env io = (Inr states, io')"
  shows "is_gomap states" and "(k, s) \<in> set states \<Longrightarrow> valid_state k s"
proof -
  from assms obtain ls where "states_of_lines ls = Inr states"
    by (auto simp: readServerStates_def split: prod.splits sum.splits)
  from states_of_lines_valid [OF this]
  show "is_gomap states" "(k, s) \<in> set states \<Longrightarrow> valid_state k s" by blast+
qed

text \<open>
  The contract of a verified change: on success the process has reported, after the command,
  that the server has the wanted weight.
\<close>

lemma setWeightVerified_ok:
  assumes "setWeightVerified env k n io = (Inr u, io')"
  obtains io1 states st where "setWeight env k n io = (Inr (), io1)"
    and "readServerStates env io1 = (Inr states, io')"
    and "map_of states k = Some st" and "ss_weight st = n"
  using assms by (auto simp: setWeightVerified_def split: prod.splits sum.splits option.splits if_splits)

end
