(* ===== verification/Drain_Manager.thy ===== *)
theory Drain_Manager
  imports Runtime_Api LB_Config
begin

text \<open>
  The drain manager of \<open>provider/haproxy\<close>: which endpoints drain, which server weights the
  controller has changed (and so may restore), and the reconciliation that runs every five
  seconds and after each applied configuration (\<open>drain_recovery.go\<close>, \<open>haproxy.go\<close>).
\<close>

unbundle bit_operations_syntax

section \<open>State\<close>

record drainWeight =
  dw_weight :: int
  dw_initialWeight :: int
  dw_pid :: string
  dw_stoppingReload :: bool
  dw_retry :: bool

record desiredEndpoint =
  de_weight :: int
  de_disabled :: bool
  de_temporaryZero :: bool

type_synonym owned = "(string, drainWeight) gomap"

text \<open>
  \<open>dm_weights\<close> files the owned weights by endpoint name and by backend key; \<open>dm_desired\<close> is
  \<open>None\<close> until the first configuration is applied (a nil map).
\<close>

record drainMgr =
  dm_drainList :: "(string, string) gomap"
  dm_weights :: "(string, owned) gomap"
  dm_desired :: "(string, desiredEndpoint) gomap option"

definition init_drainMgr :: drainMgr where
  "init_drainMgr = \<lparr>dm_drainList = [], dm_weights = [], dm_desired = None\<rparr>"

definition operatorAdminState :: int where
  "operatorAdminState = 0x1f OR 0x40"

definition operator_admin :: "serverState \<Rightarrow> bool" where
  "operator_admin st \<longleftrightarrow> (ss_admin st AND operatorAdminState) \<noteq> 0"

section \<open>The desired endpoints\<close>

text \<open>The loop of \<open>setDesired\<close> over the words of an endpoint's configuration.\<close>

fun config_fields :: "string list \<Rightarrow> desiredEndpoint \<Rightarrow> desiredEndpoint" where
  "config_fields [] s = s"
| "config_fields (f # fs) s =
     (let s1 = (if f = ''disabled'' then s\<lparr>de_disabled := True\<rparr> else s);
          s2 = (if f = ''weight''
                then (case fs of [] \<Rightarrow> s1
                      | v # _ \<Rightarrow> (case Atoi v of None \<Rightarrow> s1 | Some w \<Rightarrow> s1\<lparr>de_weight := w\<rparr>))
                else s1)
      in config_fields fs s2)"

definition desired_of :: "Endpoint \<Rightarrow> desiredEndpoint" where
  "desired_of ep = config_fields (Fields (ep_Config ep))
     \<lparr>de_weight = 1, de_disabled = False, de_temporaryZero = ep_Stopping ep\<rparr>"

definition endpoint_key :: "BackendService \<Rightarrow> Endpoint \<Rightarrow> string" where
  "endpoint_key be ep = be_UUID be @ ''/'' @ ep_Name ep"

text \<open>The endpoints of a configuration in the order of the three nested loops.\<close>

definition config_endpoints :: "LoadBalancerConfig \<Rightarrow> (BackendService \<times> Endpoint) list" where
  "config_endpoints lb =
     concat (map (\<lambda>fe. concat (map (\<lambda>be. map (\<lambda>ep. (be, ep)) (be_Endpoints be)) (fe_BackendServices fe)))
       (lb_FrontendServices lb))"

definition setDesired :: "LoadBalancerConfig \<Rightarrow> drainMgr \<Rightarrow> drainMgr" where
  "setDesired lb dm =
     dm\<lparr>dm_desired := Some (foldl (\<lambda>m (be, ep). AList.update (endpoint_key be ep) (desired_of ep) m) []
        (config_endpoints lb))\<rparr>"

section \<open>Starting a drain\<close>

text \<open>
  The loop of \<open>drainEndpoint\<close> over the server states: the entry is written before the command
  is sent. \<open>setw\<close> is \<open>setWeightVerified\<close>.
\<close>

fun drain_loop ::
  "(string \<Rightarrow> int \<Rightarrow> 'io \<Rightarrow> unit result \<times> 'io) \<Rightarrow> string \<Rightarrow> string \<Rightarrow> (string \<times> serverState) list \<Rightarrow>
   owned \<Rightarrow> 'io \<Rightarrow> owned \<times> go_error list \<times> 'io" where
  "drain_loop setw name pid [] ws io = (ws, [], io)"
| "drain_loop setw name pid ((key, st) # sts) ws io =
     (if ss_name st \<noteq> name \<or> ss_admin st \<noteq> 0 \<or> ss_weight st = 0
      then drain_loop setw name pid sts ws io
      else
        let entry = (case map_of ws key of
               None \<Rightarrow> \<lparr>dw_weight = ss_weight st, dw_initialWeight = ss_initialWeight st, dw_pid = pid,
                        dw_stoppingReload = False, dw_retry = False\<rparr>
             | Some original \<Rightarrow> original\<lparr>dw_pid := pid\<rparr>);
            ws1 = AList.update key entry ws
        in case setw key 0 io of
             (Inl e, io1) \<Rightarrow>
               (case drain_loop setw name pid sts ws1 io1 of
                  (ws2, es, io2) \<Rightarrow> (ws2, Wrapf ''backend=%s: %w'' [key] e # es, io2))
           | (Inr _, io1) \<Rightarrow> drain_loop setw name pid sts ws1 io1)"

definition drainEndpoint ::
  "(string \<Rightarrow> int \<Rightarrow> 'io \<Rightarrow> unit result \<times> 'io) \<Rightarrow> string \<Rightarrow> string \<Rightarrow> states \<Rightarrow> drainMgr \<Rightarrow> 'io \<Rightarrow>
   unit result \<times> drainMgr \<times> 'io" where
  "drainEndpoint setw name pid sts dm io =
     (case drain_loop setw name pid sts (map_get [] (dm_weights dm) name) io of
        (ws, es, io') \<Rightarrow>
          (join_errors es, dm\<lparr>dm_weights := AList.update name ws (dm_weights dm)\<rparr>, io'))"

text \<open>
  \<open>AddEndpointForDrain\<close>, of an endpoint that is not nil. An error of \<open>olderPidExists\<close> is only
  logged: its flag counts.
\<close>

definition AddEndpointForDrain ::
  "'w haproxy_env \<Rightarrow> Endpoint \<Rightarrow> string \<Rightarrow> drainMgr \<Rightarrow> 'w io \<Rightarrow> bool \<times> drainMgr \<times> 'w io" where
  "AddEndpointForDrain env ep pid dm io =
     (if ep_Name ep = '''' then (False, dm, io)
      else if has_key (dm_drainList dm) (ep_Name ep) then (True, dm, io)
      else case readCurrentStats env (ep_Name ep) io of
        (Inl _, io1) \<Rightarrow> (False, dm, io1)
      | (Inr (scur, _), io1) \<Rightarrow>
          (case readServerStates env io1 of
             (Inl _, io2) \<Rightarrow> (False, dm, io2)
           | (Inr sts, io2) \<Rightarrow>
               (case drainEndpoint (setWeightVerified env) (ep_Name ep) pid sts dm io2 of
                  (Inl _, dm1, io3) \<Rightarrow> (False, dm1, io3)
                | (Inr _, dm1, io3) \<Rightarrow>
                    if scur = ''0'' \<and> \<not> fst (olderPidExists env io3) then (False, dm1, io3)
                    else (True, dm1\<lparr>dm_drainList :=
                       AList.update (ep_Name ep) (if scur = ''0'' then '''' else pid) (dm_drainList dm1)\<rparr>, io3))))"

definition RemoveEndpointFromDrain :: "Endpoint \<Rightarrow> drainMgr \<Rightarrow> drainMgr" where
  "RemoveEndpointFromDrain ep dm =
     (if ep_Name ep \<noteq> '''' then dm\<lparr>dm_drainList := AList.delete (ep_Name ep) (dm_drainList dm)\<rparr> else dm)"

definition isEndpointUpForDrain :: "Endpoint \<Rightarrow> drainMgr \<Rightarrow> bool \<times> string" where
  "isEndpointUpForDrain ep dm =
     (if ep_Name ep \<noteq> ''''
      then (case map_of (dm_drainList dm) (ep_Name ep) of Some t \<Rightarrow> (True, t) | None \<Rightarrow> (False, ''''))
      else (False, ''''))"

section \<open>Reconciliation\<close>

text \<open>
  What one iteration of \<open>reconcileDrains\<close> decides about an owned weight: to give the ownership
  up, to keep it (with the entry as stored), to reapply a zero, or to restore a weight.
\<close>

datatype decision = Forget | Keep drainWeight | Reapply drainWeight | Restore int

definition given_up :: "serverState \<Rightarrow> desiredEndpoint \<Rightarrow> bool" where
  "given_up st de \<longleftrightarrow>
     de_disabled de \<or> (de_weight de = 0 \<and> \<not> de_temporaryZero de) \<or> operator_admin st"

text \<open>The body of the loop for an endpoint that still drains.\<close>

definition active_decision ::
  "string \<Rightarrow> serverState option \<Rightarrow> desiredEndpoint option \<Rightarrow> drainWeight \<Rightarrow> decision" where
  "active_decision pid state desired original =
     (case (state, desired) of
        (Some st, Some de) \<Rightarrow>
          if given_up st de then Forget
          else if ss_admin st \<noteq> 0 then Keep original
          else if dw_pid original = pid \<and> \<not> dw_retry original then
            (if ss_weight st \<noteq> 0 then Forget else Keep original)
          else if dw_pid original \<noteq> pid \<and> de_temporaryZero de \<and> de_weight de = 0
                  \<and> ss_initialWeight st = 0 \<and> ss_weight st = 0 then
            Keep (original\<lparr>dw_pid := pid, dw_retry := False, dw_stoppingReload := True\<rparr>)
          else if dw_pid original \<noteq> pid \<and> ss_weight st = 0 then Keep original
          else if dw_pid original \<noteq> pid \<and> ss_weight st \<noteq> ss_initialWeight st then Forget
          else if dw_pid original \<noteq> pid \<and> ss_initialWeight st \<noteq> de_weight de then Keep original
          else Reapply (original\<lparr>dw_pid := pid, dw_retry := True\<rparr>)
      | _ \<Rightarrow> Forget)"

definition restore_weight :: "desiredEndpoint \<Rightarrow> drainWeight \<Rightarrow> int" where
  "restore_weight de original =
     (if de_weight de \<noteq> dw_initialWeight original then de_weight de else dw_weight original)"

definition running_reload :: "string \<Rightarrow> serverState \<Rightarrow> desiredEndpoint \<Rightarrow> drainWeight \<Rightarrow> bool" where
  "running_reload pid st de original \<longleftrightarrow>
     dw_stoppingReload original \<and> dw_pid original \<noteq> pid \<and> ss_weight st > 0 \<and>
     ss_initialWeight st = de_weight de \<and>
     (ss_weight st = ss_initialWeight st \<or> ss_weight st = restore_weight de original)"

text \<open>The body of the loop for an endpoint whose drain is over.\<close>

definition idle_decision ::
  "string \<Rightarrow> serverState option \<Rightarrow> desiredEndpoint option \<Rightarrow> drainWeight \<Rightarrow> decision" where
  "idle_decision pid state desired original =
     (case (state, desired) of
        (Some st, Some de) \<Rightarrow>
          if given_up st de then Forget
          else if de_temporaryZero de \<and> de_weight de = 0 then
            (if ss_weight st \<noteq> 0 then Forget
             else if dw_pid original \<noteq> pid \<and> ss_initialWeight st = 0
             then Keep (original\<lparr>dw_pid := pid, dw_stoppingReload := True\<rparr>)
             else Keep original)
          else if ss_weight st \<noteq> 0 \<and> \<not> running_reload pid st de original then Forget
          else if dw_pid original \<noteq> pid \<and> \<not> running_reload pid st de original then Forget
          else if ss_admin st \<noteq> 0 \<or> ss_operational st \<noteq> 2 then Keep original
          else Restore (restore_weight de original)
      | _ \<Rightarrow> Forget)"

text \<open>
  One iteration: the entry that stays (\<open>None\<close> when it is deleted), the failure if any, and the
  state of the exchange. A command is sent only where the weight differs.
\<close>

definition perform ::
  "(string \<Rightarrow> int \<Rightarrow> 'io \<Rightarrow> unit result \<times> 'io) \<Rightarrow> string \<Rightarrow> string \<Rightarrow> int \<Rightarrow> drainWeight \<Rightarrow> decision \<Rightarrow> 'io \<Rightarrow>
   drainWeight option \<times> go_error option \<times> 'io" where
  "perform setw name key current original d io =
     (case d of
        Forget \<Rightarrow> (None, None, io)
      | Keep w \<Rightarrow> (Some w, None, io)
      | Reapply w \<Rightarrow>
          if current \<noteq> 0
          then (case setw key 0 io of
                  (Inl e, io') \<Rightarrow> (Some w, Some (Wrapf ''reapply active drain backend=%s: %w'' [key] e), io')
                | (Inr _, io') \<Rightarrow> (Some (w\<lparr>dw_retry := False\<rparr>), None, io'))
          else (Some (w\<lparr>dw_retry := False\<rparr>), None, io)
      | Restore n \<Rightarrow>
          if current \<noteq> n
          then (case setw key n io of
                  (Inl e, io') \<Rightarrow>
                    (Some original, Some (Wrapf ''restore endpoint=%s backend=%s weight=%d: %w'' [name, key, Itoa n] e), io')
                | (Inr _, io') \<Rightarrow> (None, None, io'))
          else (None, None, io))"

definition reconcile_step ::
  "(string \<Rightarrow> int \<Rightarrow> 'io \<Rightarrow> unit result \<times> 'io) \<Rightarrow> bool \<Rightarrow> string \<Rightarrow> states \<Rightarrow>
   (string, desiredEndpoint) gomap \<Rightarrow> string \<Rightarrow> string \<Rightarrow> drainWeight \<Rightarrow> 'io \<Rightarrow>
   drainWeight option \<times> go_error option \<times> 'io" where
  "reconcile_step setw active pid sts des name key original io =
     perform setw name key (case map_of sts key of Some st \<Rightarrow> ss_weight st | None \<Rightarrow> 0) original
       ((if active then active_decision else idle_decision) pid (map_of sts key) (map_of des key) original) io"

text \<open>The loop over the owned weights of one endpoint; an iteration touches its own entry only.\<close>

fun reconcile_entries ::
  "(string \<Rightarrow> drainWeight \<Rightarrow> 'io \<Rightarrow> drainWeight option \<times> go_error option \<times> 'io) \<Rightarrow> owned \<Rightarrow> 'io \<Rightarrow>
   owned \<times> go_error list \<times> 'io" where
  "reconcile_entries step [] io = ([], [], io)"
| "reconcile_entries step ((key, original) # ws) io =
     (case step key original io of
        (e, f, io1) \<Rightarrow>
          (case reconcile_entries step ws io1 of
             (ws', fs, io2) \<Rightarrow>
               ((case e of None \<Rightarrow> ws' | Some w \<Rightarrow> (key, w) # ws'),
                (case f of None \<Rightarrow> fs | Some x \<Rightarrow> x # fs), io2)))"

text \<open>The outer loop; the entry of an endpoint that does not drain goes when it is empty.\<close>

fun reconcile_names ::
  "(string \<Rightarrow> int \<Rightarrow> 'io \<Rightarrow> unit result \<times> 'io) \<Rightarrow> (string, string) gomap \<Rightarrow> string \<Rightarrow> states \<Rightarrow>
   (string, desiredEndpoint) gomap \<Rightarrow> (string \<times> owned) list \<Rightarrow> 'io \<Rightarrow>
   (string \<times> owned) list \<times> go_error list \<times> 'io" where
  "reconcile_names setw drains pid sts des [] io = ([], [], io)"
| "reconcile_names setw drains pid sts des ((name, ws) # rest) io =
     (let active = has_key drains name in
      case reconcile_entries (reconcile_step setw active pid sts des name) ws io of
        (ws', fs, io1) \<Rightarrow>
          (case reconcile_names setw drains pid sts des rest io1 of
             (rest', gs, io2) \<Rightarrow>
               ((if active \<or> ws' \<noteq> [] then (name, ws') # rest' else rest'), fs @ gs, io2)))"

definition reconcileDrains ::
  "'w haproxy_env \<Rightarrow> bool \<Rightarrow> drainMgr \<Rightarrow> 'w io \<Rightarrow> unit result \<times> drainMgr \<times> 'w io" where
  "reconcileDrains env recoveryBlocked dm io =
     (if recoveryBlocked then (Inr (), dm, io)
      else case dm_desired dm of
        None \<Rightarrow> (Inr (), dm, io)
      | Some des \<Rightarrow>
          if dm_weights dm = [] then (Inr (), dm, io)
          else case readPid env io of
            Inl e \<Rightarrow> (Inl (Wrapf ''read HAProxy pid for drain recovery: %w'' [] e), dm, io)
          | Inr pid \<Rightarrow>
              (case readServerStates env io of
                 (Inl e, io1) \<Rightarrow> (Inl (Wrapf ''read HAProxy state for drain recovery: %w'' [] e), dm, io1)
               | (Inr sts, io1) \<Rightarrow>
                   (case reconcile_names (setWeightVerified env) (dm_drainList dm) pid sts des (dm_weights dm) io1 of
                      (ws, fs, io2) \<Rightarrow> (join_errors fs, dm\<lparr>dm_weights := ws\<rparr>, io2))))"

end
