(* ===== verification/Drain_Safety.thy ===== *)
theory Drain_Safety
  imports Drain_Manager
begin

text \<open>
  What the drain manager guarantees: the commands it may send, what becomes of the saved
  weights, and when a weight comes back. The interface to the runtime socket is the locale
  \<open>weight_port\<close>; \<open>setWeightVerified\<close> of every environment provides it.
\<close>

section \<open>The port\<close>

locale weight_port =
  fixes setw :: "string \<Rightarrow> int \<Rightarrow> 'io \<Rightarrow> unit result \<times> 'io"
    and sent :: "'io \<Rightarrow> string list"
    and cmd :: "string \<Rightarrow> int \<Rightarrow> string"
    and reading :: string
  assumes setw_sent: "setw k n io = (r, io') \<Longrightarrow>
    \<exists>xs. sent io' = sent io @ xs \<and> set xs \<subseteq> {cmd k n, reading} \<and> cmd k n \<in> set xs"

text \<open>
  When a command \<open>set server k weight n\<close> may be sent for an owned weight: the endpoint is still
  desired with a weight, neither the configuration nor an operator holds it down, and the
  weight read is either the one of an untouched new process (reapplied drains) or a zero of our
  own (restored weights).
\<close>

definition authorised ::
  "bool \<Rightarrow> string \<Rightarrow> states \<Rightarrow> (string, desiredEndpoint) gomap \<Rightarrow> string \<Rightarrow> drainWeight \<Rightarrow> int \<Rightarrow> bool" where
  "authorised active pid sts des k dw n \<longleftrightarrow>
     (\<exists>st de. map_of sts k = Some st \<and> map_of des k = Some de \<and> \<not> given_up st de \<and>
        ss_admin st = 0 \<and> ss_weight st \<noteq> n \<and>
        (if active
         then n = 0 \<and> (if dw_pid dw = pid then dw_retry dw
                        else ss_weight st = ss_initialWeight st \<and> ss_initialWeight st = de_weight de)
         else n = restore_weight de dw \<and> ss_operational st = 2 \<and>
              (ss_weight st = 0 \<and> dw_pid dw = pid \<or> running_reload pid st de dw)))"

lemma active_reapplyD:
  "active_decision pid (Some st) (Some de) dw = Reapply w \<Longrightarrow>
   \<not> given_up st de \<and> ss_admin st = 0 \<and> w = dw\<lparr>dw_pid := pid, dw_retry := True\<rparr> \<and>
   (if dw_pid dw = pid then dw_retry dw
    else ss_weight st = ss_initialWeight st \<and> ss_initialWeight st = de_weight de)"
  by (auto simp: active_decision_def split: if_splits)

lemma idle_restoreD:
  "idle_decision pid (Some st) (Some de) dw = Restore n \<Longrightarrow>
   \<not> given_up st de \<and> ss_admin st = 0 \<and> n = restore_weight de dw \<and> ss_operational st = 2 \<and>
   (ss_weight st = 0 \<and> dw_pid dw = pid \<or> running_reload pid st de dw)"
  by (auto simp: idle_decision_def split: if_splits)

lemma decision_total:
  "active_decision pid None de dw = Forget" "active_decision pid st None dw = Forget"
  "idle_decision pid None de dw = Forget" "idle_decision pid st None dw = Forget"
  by (auto simp: active_decision_def idle_decision_def split: option.splits)

lemma active_not_restore: "active_decision pid st de dw \<noteq> Restore n"
  by (auto simp: active_decision_def split: option.splits if_splits)

lemma idle_not_reapply: "idle_decision pid st de dw \<noteq> Reapply w"
  by (auto simp: idle_decision_def split: option.splits if_splits)

text \<open>A kept entry is the saved one up to its process, its retry and its reload mark.\<close>

definition same_saved :: "drainWeight \<Rightarrow> drainWeight \<Rightarrow> bool" where
  "same_saved a b \<longleftrightarrow> dw_weight a = dw_weight b \<and> dw_initialWeight a = dw_initialWeight b"

lemma same_saved_refl [simp]: "same_saved a a"
  by (simp add: same_saved_def)

lemma active_keepD: "active_decision pid st de dw \<in> {Keep w, Reapply w} \<Longrightarrow> same_saved w dw"
  by (auto simp: active_decision_def same_saved_def split: option.splits if_splits)

lemma idle_keepD: "idle_decision pid st de dw = Keep w \<Longrightarrow> same_saved w dw"
  by (auto simp: idle_decision_def same_saved_def split: option.splits if_splits)

lemma same_saved_retry [simp]: "same_saved (w\<lparr>dw_retry := b\<rparr>) dw = same_saved w dw"
  by (simp add: same_saved_def)

lemma perform_saved:
  "perform setw name key cur dw d io = (Some w, f, io') \<Longrightarrow>
   (\<exists>w0. (d = Keep w0 \<or> d = Reapply w0) \<and> (w = w0 \<or> w = w0\<lparr>dw_retry := False\<rparr>)) \<or> (\<exists>n. d = Restore n \<and> w = dw)"
  by (auto simp: perform_def split: decision.splits if_splits prod.splits sum.splits)

lemma step_saved:
  assumes "reconcile_step setw active pid sts des name key dw io = (Some w, f, io')"
  shows "same_saved w dw"
proof -
  let ?d = "(if active then active_decision else idle_decision) pid (map_of sts key) (map_of des key) dw"
  have keep: "same_saved w0 dw" if "?d = Keep w0 \<or> ?d = Reapply w0" for w0
    using that active_keepD [of pid "map_of sts key" "map_of des key" dw w0]
      idle_keepD [of pid "map_of sts key" "map_of des key" dw w0]
      idle_not_reapply [of pid "map_of sts key" "map_of des key" dw w0]
    by (auto split: if_splits)
  from perform_saved [OF assms [unfolded reconcile_step_def]] show ?thesis
    using keep by auto
qed

text \<open>A failure never drops the entry: the proof of ownership outlives a failed command.\<close>

lemma step_failure_keeps:
  "reconcile_step setw active pid sts des name key dw io = (e, Some x, io') \<Longrightarrow>
   \<exists>w fmt cause. e = Some w \<and> same_saved w dw \<and> (\<exists>args. x = Wrapf fmt args cause \<and> key \<in> set args)"
  using step_saved [of setw active pid sts des name key dw io]
  by (auto simp: reconcile_step_def perform_def
      split: decision.splits if_splits prod.splits sum.splits)

context weight_port
begin

lemma step_sent:
  assumes "reconcile_step setw active pid sts des name key dw io = (e, f, io')"
  shows "\<exists>xs. sent io' = sent io @ xs \<and>
    (\<forall>c \<in> set xs. c = reading \<or> (\<exists>n. c = cmd key n \<and> authorised active pid sts des key dw n))"
proof -
  let ?d = "(if active then active_decision else idle_decision) pid (map_of sts key) (map_of des key) dw"
  show ?thesis
  proof (cases "(\<exists>w. ?d = Reapply w) \<or> (\<exists>n. ?d = Restore n)")
    case False
    with assms have "io' = io"
      by (auto simp: reconcile_step_def perform_def split: decision.splits)
    then show ?thesis by (intro exI [of _ "[]"]) simp
  next
    case True
    then obtain st de where sd: "map_of sts key = Some st" "map_of des key = Some de"
      by (cases "map_of sts key"; cases "map_of des key") (auto simp: decision_total split: if_splits)
    from True show ?thesis
    proof
      assume "\<exists>w. ?d = Reapply w"
      then obtain w where a: "active" and d: "active_decision pid (Some st) (Some de) dw = Reapply w"
        using sd by (auto simp: idle_not_reapply split: if_splits)
      show ?thesis
      proof (cases "ss_weight st = 0")
        case True
        with assms a d sd have "io' = io" by (auto simp: reconcile_step_def perform_def)
        then show ?thesis by (intro exI [of _ "[]"]) simp
      next
        case False
        with assms a d sd obtain r where "setw key 0 io = (r, io')"
          by (auto simp: reconcile_step_def perform_def split: prod.splits sum.splits)
        from setw_sent [OF this] active_reapplyD [OF d] False a sd show ?thesis
          by (fastforce simp: authorised_def)
      qed
    next
      assume "\<exists>n. ?d = Restore n"
      then obtain n where a: "\<not> active" and d: "idle_decision pid (Some st) (Some de) dw = Restore n"
        using sd by (auto simp: active_not_restore split: if_splits)
      show ?thesis
      proof (cases "ss_weight st = n")
        case True
        with assms a d sd have "io' = io" by (auto simp: reconcile_step_def perform_def)
        then show ?thesis by (intro exI [of _ "[]"]) simp
      next
        case False
        with assms a d sd obtain r where "setw key n io = (r, io')"
          by (auto simp: reconcile_step_def perform_def split: prod.splits sum.splits)
        from setw_sent [OF this] idle_restoreD [OF d] False a sd show ?thesis
          by (fastforce simp: authorised_def)
      qed
    qed
  qed
qed

lemma entries_sent:
  "reconcile_entries (reconcile_step setw active pid sts des name) ws io = (ws', fs, io') \<Longrightarrow>
   \<exists>xs. sent io' = sent io @ xs \<and>
     (\<forall>c \<in> set xs. c = reading \<or>
        (\<exists>k dw n. (k, dw) \<in> set ws \<and> c = cmd k n \<and> authorised active pid sts des k dw n))"
proof (induction ws arbitrary: io ws' fs io')
  case (Cons kd ws)
  obtain k dw where kd: "kd = (k, dw)" by (cases kd)
  obtain e f io1 where s: "reconcile_step setw active pid sts des name k dw io = (e, f, io1)"
    by (metis prod_cases3)
  obtain ws1 fs1 io2 where r:
    "reconcile_entries (reconcile_step setw active pid sts des name) ws io1 = (ws1, fs1, io2)"
    by (metis prod_cases3)
  from Cons.prems kd s r have io: "io' = io2" by simp
  from step_sent [OF s] obtain xs where xs: "sent io1 = sent io @ xs"
    "\<forall>c \<in> set xs. c = reading \<or> (\<exists>n. c = cmd k n \<and> authorised active pid sts des k dw n)" by blast
  from Cons.IH [OF r] obtain ys where ys: "sent io2 = sent io1 @ ys"
    "\<forall>c \<in> set ys. c = reading \<or>
        (\<exists>k dw n. (k, dw) \<in> set ws \<and> c = cmd k n \<and> authorised active pid sts des k dw n)" by blast
  show ?case
    using xs ys io kd by (intro exI [of _ "xs @ ys"]) fastforce
qed simp

lemma names_sent:
  "reconcile_names setw drains pid sts des nws io = (nws', fs, io') \<Longrightarrow>
   \<exists>xs. sent io' = sent io @ xs \<and>
     (\<forall>c \<in> set xs. c = reading \<or>
        (\<exists>name ws k dw n. (name, ws) \<in> set nws \<and> (k, dw) \<in> set ws \<and> c = cmd k n \<and>
           authorised (has_key drains name) pid sts des k dw n))"
proof (induction nws arbitrary: io nws' fs io')
  case (Cons nw nws)
  obtain name ws where nw: "nw = (name, ws)" by (cases nw)
  let ?active = "has_key drains name"
  obtain ws1 fs1 io1 where s:
    "reconcile_entries (reconcile_step setw ?active pid sts des name) ws io = (ws1, fs1, io1)"
    by (metis prod_cases3)
  obtain nws1 gs io2 where r: "reconcile_names setw drains pid sts des nws io1 = (nws1, gs, io2)"
    by (metis prod_cases3)
  from Cons.prems nw s r have io: "io' = io2" by (simp add: Let_def)
  from entries_sent [OF s] obtain xs where xs: "sent io1 = sent io @ xs"
    "\<forall>c \<in> set xs. c = reading \<or>
        (\<exists>k dw n. (k, dw) \<in> set ws \<and> c = cmd k n \<and> authorised ?active pid sts des k dw n)" by blast
  from Cons.IH [OF r] obtain ys where ys: "sent io2 = sent io1 @ ys"
    "\<forall>c \<in> set ys. c = reading \<or>
        (\<exists>name ws k dw n. (name, ws) \<in> set nws \<and> (k, dw) \<in> set ws \<and> c = cmd k n \<and>
           authorised (has_key drains name) pid sts des k dw n)" by blast
  show ?case
    using xs ys io nw by (intro exI [of _ "xs @ ys"]) fastforce
qed simp

text \<open>Starting a drain only sends zero weights to the live servers of the endpoint.\<close>

lemma drain_loop_sent:
  "drain_loop setw name pid sts ws io = (ws', es, io') \<Longrightarrow>
   \<exists>xs. sent io' = sent io @ xs \<and>
     (\<forall>c \<in> set xs. c = reading \<or>
        (\<exists>k st. (k, st) \<in> set sts \<and> c = cmd k 0 \<and> ss_name st = name \<and> ss_admin st = 0 \<and> ss_weight st \<noteq> 0))"
proof (induction sts arbitrary: ws io ws' es io')
  case (Cons ks sts)
  obtain key st where ks: "ks = (key, st)" by (cases ks)
  show ?case
  proof (cases "ss_name st \<noteq> name \<or> ss_admin st \<noteq> 0 \<or> ss_weight st = 0")
    case True
    with Cons ks show ?thesis by fastforce
  next
    case False
    obtain r io1 where s: "setw key 0 io = (r, io1)" by fastforce
    from Cons.prems ks False s obtain ws1 ws2 es2 where
      d: "drain_loop setw name pid sts ws1 io1 = (ws2, es2, io')"
      by (auto simp: Let_def split: sum.splits prod.splits)
    from setw_sent [OF s] obtain xs where xs: "sent io1 = sent io @ xs" "set xs \<subseteq> {cmd key 0, reading}"
      by blast
    from Cons.IH [OF d] obtain ys where ys: "sent io' = sent io1 @ ys"
      "\<forall>c \<in> set ys. c = reading \<or>
        (\<exists>k st. (k, st) \<in> set sts \<and> c = cmd k 0 \<and> ss_name st = name \<and> ss_admin st = 0 \<and> ss_weight st \<noteq> 0)"
      by blast
    show ?thesis
      using xs ys ks False by (intro exI [of _ "xs @ ys"]) fastforce
  qed
qed simp

end

interpretation wp: weight_port "setWeightVerified env" io_sent weight_command "''show servers state''"
  by unfold_locales (auto dest!: setWeightVerified_sent)

section \<open>Every owned weight is visited once\<close>

lemma entries_keys:
  "reconcile_entries step ws io = (ws', fs, io') \<Longrightarrow> set (keys_of ws') \<subseteq> set (keys_of ws)"
proof (induction ws arbitrary: io ws' fs io')
  case (Cons kd ws)
  obtain k dw where kd: "kd = (k, dw)" by (cases kd)
  obtain e f io1 where s: "step k dw io = (e, f, io1)" by (metis prod_cases3)
  obtain ws1 fs1 io2 where r: "reconcile_entries step ws io1 = (ws1, fs1, io2)" by (metis prod_cases3)
  from Cons.prems kd s r have "ws' = (case e of None \<Rightarrow> ws1 | Some w \<Rightarrow> (k, w) # ws1)" by simp
  then show ?case using Cons.IH [OF r] kd by (cases e) auto
qed simp

lemma entries_gomap:
  "reconcile_entries step ws io = (ws', fs, io') \<Longrightarrow> is_gomap ws \<Longrightarrow> is_gomap ws'"
proof (induction ws arbitrary: io ws' fs io')
  case (Cons kd ws)
  obtain k dw where kd: "kd = (k, dw)" by (cases kd)
  obtain e f io1 where s: "step k dw io = (e, f, io1)" by (metis prod_cases3)
  obtain ws1 fs1 io2 where r: "reconcile_entries step ws io1 = (ws1, fs1, io2)" by (metis prod_cases3)
  from Cons.IH [OF r] Cons.prems(2) have "is_gomap ws1" by simp
  with Cons.prems kd s r entries_keys [OF r] show ?case by (auto split: option.splits)
qed simp

lemma entries_visit:
  assumes "reconcile_entries step ws io = (ws', fs, io')" and "(k, dw) \<in> set ws" and "is_gomap ws"
  shows "\<exists>io1 e f io2. step k dw io1 = (e, f, io2) \<and> map_of ws' k = e \<and> (\<forall>x. f = Some x \<longrightarrow> x \<in> set fs)"
  using assms
proof (induction ws arbitrary: io ws' fs io')
  case (Cons kd ws)
  obtain j d where kd: "kd = (j, d)" by (cases kd)
  obtain e f io1 where s: "step j d io = (e, f, io1)" by (metis prod_cases3)
  obtain ws1 fs1 io2 where r: "reconcile_entries step ws io1 = (ws1, fs1, io2)" by (metis prod_cases3)
  have ws': "ws' = (case e of None \<Rightarrow> ws1 | Some w \<Rightarrow> (j, w) # ws1)"
    and fs: "fs = (case f of None \<Rightarrow> fs1 | Some x \<Rightarrow> x # fs1)"
    using Cons.prems(1) kd s r by auto
  show ?case
  proof (cases "k = j")
    case True
    with Cons.prems(2,3) kd have d: "d = dw" by (auto simp: image_iff)
    have "k \<notin> set (keys_of ws1)" using entries_keys [OF r] Cons.prems(3) kd True by auto
    then have "map_of ws1 k = None" by (simp add: map_of_eq_None_iff)
    with s d ws' fs True show ?thesis
      by (intro exI [of _ io] exI [of _ e] exI [of _ f] exI [of _ io1]) (auto split: option.splits)
  next
    case False
    with Cons.prems kd have "(k, dw) \<in> set ws" "is_gomap ws" by auto
    from Cons.IH [OF r this] obtain io3 e' f' io4 where
      "step k dw io3 = (e', f', io4)" "map_of ws1 k = e'" "\<forall>x. f' = Some x \<longrightarrow> x \<in> set fs1" by blast
    with False ws' fs show ?thesis
      by (intro exI [of _ io3] exI [of _ e'] exI [of _ f'] exI [of _ io4]) (auto split: option.splits)
  qed
qed simp

lemma entries_origin:
  "reconcile_entries step ws io = (ws', fs, io') \<Longrightarrow> (k, w) \<in> set ws' \<Longrightarrow>
   \<exists>dw io1 f io2. (k, dw) \<in> set ws \<and> step k dw io1 = (Some w, f, io2)"
proof (induction ws arbitrary: io ws' fs io')
  case (Cons kd ws)
  obtain j d where kd: "kd = (j, d)" by (cases kd)
  obtain e f io1 where s: "step j d io = (e, f, io1)" by (metis prod_cases3)
  obtain ws1 fs1 io2 where r: "reconcile_entries step ws io1 = (ws1, fs1, io2)" by (metis prod_cases3)
  from Cons.prems kd s r consider "(k, w) \<in> set ws1" | "e = Some w" "k = j"
    by (auto split: option.splits)
  then show ?case
  proof cases
    case 1
    from Cons.IH [OF r this] kd show ?thesis by auto
  next
    case 2
    with s kd show ?thesis by auto
  qed
qed simp

lemma entries_failure:
  "reconcile_entries step ws io = (ws', fs, io') \<Longrightarrow> x \<in> set fs \<Longrightarrow>
   \<exists>k dw io1 e io2. (k, dw) \<in> set ws \<and> step k dw io1 = (e, Some x, io2) \<and> (\<forall>w. e = Some w \<longrightarrow> (k, w) \<in> set ws')"
proof (induction ws arbitrary: io ws' fs io')
  case (Cons kd ws)
  obtain j d where kd: "kd = (j, d)" by (cases kd)
  obtain e f io1 where s: "step j d io = (e, f, io1)" by (metis prod_cases3)
  obtain ws1 fs1 io2 where r: "reconcile_entries step ws io1 = (ws1, fs1, io2)" by (metis prod_cases3)
  have ws': "ws' = (case e of None \<Rightarrow> ws1 | Some w \<Rightarrow> (j, w) # ws1)"
    and fs: "fs = (case f of None \<Rightarrow> fs1 | Some x \<Rightarrow> x # fs1)"
    using Cons.prems(1) kd s r by auto
  from Cons.prems(2) fs consider "x \<in> set fs1" | "f = Some x" by (auto split: option.splits)
  then show ?case
  proof cases
    case 1
    from Cons.IH [OF r this] obtain k dw io3 e' io4 where
      h: "(k, dw) \<in> set ws" "step k dw io3 = (e', Some x, io4)" "\<forall>w. e' = Some w \<longrightarrow> (k, w) \<in> set ws1" by blast
    with ws' kd show ?thesis
      by (intro exI [of _ k] exI [of _ dw] exI [of _ io3] exI [of _ e'] exI [of _ io4]) (auto split: option.splits)
  next
    case 2
    with s ws' kd show ?thesis
      by (intro exI [of _ j] exI [of _ d] exI [of _ io] exI [of _ e] exI [of _ io1]) (auto split: option.splits)
  qed
qed simp

text \<open>The same for the outer loop: what becomes of the map of one endpoint.\<close>

lemma names_keys:
  "reconcile_names setw drains pid sts des nws io = (nws', fs, io') \<Longrightarrow>
   set (keys_of nws') \<subseteq> set (keys_of nws)"
proof (induction nws arbitrary: io nws' fs io')
  case (Cons nw nws)
  obtain m v where nw: "nw = (m, v)" by (cases nw)
  obtain v1 fs1 io1 where s:
    "reconcile_entries (reconcile_step setw (has_key drains m) pid sts des m) v io = (v1, fs1, io1)"
    by (metis prod_cases3)
  obtain nws1 gs io2 where r: "reconcile_names setw drains pid sts des nws io1 = (nws1, gs, io2)"
    by (metis prod_cases3)
  from Cons.prems nw s r have "nws' = (if has_key drains m \<or> v1 \<noteq> [] then (m, v1) # nws1 else nws1)"
    by (simp add: Let_def)
  then show ?case using Cons.IH [OF r] nw by (cases "has_key drains m \<or> v1 \<noteq> []") auto
qed simp

lemma names_visit:
  assumes "reconcile_names setw drains pid sts des nws io = (nws', fs, io')"
    and "(name, ws) \<in> set nws" and "is_gomap nws"
  shows "\<exists>io1 ws' gs io2.
     reconcile_entries (reconcile_step setw (has_key drains name) pid sts des name) ws io1 = (ws', gs, io2) \<and>
     map_get [] nws' name = ws' \<and> set gs \<subseteq> set fs"
  using assms
proof (induction nws arbitrary: io nws' fs io')
  case (Cons nw nws)
  obtain m v where nw: "nw = (m, v)" by (cases nw)
  obtain v1 fs1 io1 where s:
    "reconcile_entries (reconcile_step setw (has_key drains m) pid sts des m) v io = (v1, fs1, io1)"
    by (metis prod_cases3)
  obtain nws1 gs io2 where r: "reconcile_names setw drains pid sts des nws io1 = (nws1, gs, io2)"
    by (metis prod_cases3)
  have nws': "nws' = (if has_key drains m \<or> v1 \<noteq> [] then (m, v1) # nws1 else nws1)" and fs: "fs = fs1 @ gs"
    using Cons.prems(1) nw s r by (auto simp: Let_def)
  show ?case
  proof (cases "name = m")
    case True
    with Cons.prems(2,3) nw have v: "v = ws" by (auto simp: image_iff)
    have "name \<notin> set (keys_of nws1)" using names_keys [OF r] Cons.prems(3) nw True by auto
    then have "map_of nws1 name = None" by (simp add: map_of_eq_None_iff)
    with s v nws' fs True show ?thesis
      by (intro exI [of _ io] exI [of _ v1] exI [of _ fs1] exI [of _ io1]) (auto simp: map_get_def)
  next
    case False
    with Cons.prems nw have "(name, ws) \<in> set nws" "is_gomap nws" by auto
    from Cons.IH [OF r this] obtain io3 ws2 hs io4 where
      "reconcile_entries (reconcile_step setw (has_key drains name) pid sts des name) ws io3 = (ws2, hs, io4)"
      "map_get [] nws1 name = ws2" "set hs \<subseteq> set gs" by blast
    with False nws' fs show ?thesis
      by (intro exI [of _ io3] exI [of _ ws2] exI [of _ hs] exI [of _ io4]) auto
  qed
qed simp

lemma names_origin:
  "reconcile_names setw drains pid sts des nws io = (nws', fs, io') \<Longrightarrow> (name, ws') \<in> set nws' \<Longrightarrow>
   \<exists>ws io1 gs io2. (name, ws) \<in> set nws \<and>
     reconcile_entries (reconcile_step setw (has_key drains name) pid sts des name) ws io1 = (ws', gs, io2)"
proof (induction nws arbitrary: io nws' fs io')
  case (Cons nw nws)
  obtain m v where nw: "nw = (m, v)" by (cases nw)
  obtain v1 fs1 io1 where s:
    "reconcile_entries (reconcile_step setw (has_key drains m) pid sts des m) v io = (v1, fs1, io1)"
    by (metis prod_cases3)
  obtain nws1 gs io2 where r: "reconcile_names setw drains pid sts des nws io1 = (nws1, gs, io2)"
    by (metis prod_cases3)
  from Cons.prems nw s r consider "(name, ws') \<in> set nws1" | "name = m" "ws' = v1"
    by (auto simp: Let_def split: if_splits)
  then show ?case
  proof cases
    case 1
    from Cons.IH [OF r this] nw show ?thesis by auto
  next
    case 2
    with s nw show ?thesis by auto
  qed
qed simp

lemma names_failure:
  "reconcile_names setw drains pid sts des nws io = (nws', fs, io') \<Longrightarrow> x \<in> set fs \<Longrightarrow>
   \<exists>name ws io1 ws' gs io2. (name, ws) \<in> set nws \<and> x \<in> set gs \<and>
     reconcile_entries (reconcile_step setw (has_key drains name) pid sts des name) ws io1 = (ws', gs, io2) \<and>
     (ws' \<noteq> [] \<longrightarrow> (name, ws') \<in> set nws')"
proof (induction nws arbitrary: io nws' fs io')
  case (Cons nw nws)
  obtain m v where nw: "nw = (m, v)" by (cases nw)
  obtain v1 fs1 io1 where s:
    "reconcile_entries (reconcile_step setw (has_key drains m) pid sts des m) v io = (v1, fs1, io1)"
    by (metis prod_cases3)
  obtain nws1 gs io2 where r: "reconcile_names setw drains pid sts des nws io1 = (nws1, gs, io2)"
    by (metis prod_cases3)
  have nws': "nws' = (if has_key drains m \<or> v1 \<noteq> [] then (m, v1) # nws1 else nws1)" and fs: "fs = fs1 @ gs"
    using Cons.prems(1) nw s r by (auto simp: Let_def)
  from Cons.prems(2) fs consider "x \<in> set gs" | "x \<in> set fs1" by auto
  then show ?case
  proof cases
    case 1
    from Cons.IH [OF r this] nw nws' show ?thesis
      by (metis list.set_intros(2))
  next
    case 2
    with s nw nws' show ?thesis
      by (intro exI [of _ m] exI [of _ v] exI [of _ io] exI [of _ v1] exI [of _ fs1] exI [of _ io1]) auto
  qed
qed simp

lemma names_gomap:
  "reconcile_names setw drains pid sts des nws io = (nws', fs, io') \<Longrightarrow> is_gomap nws \<Longrightarrow> is_gomap nws'"
proof (induction nws arbitrary: io nws' fs io')
  case (Cons nw nws)
  obtain m v where nw: "nw = (m, v)" by (cases nw)
  obtain v1 fs1 io1 where s:
    "reconcile_entries (reconcile_step setw (has_key drains m) pid sts des m) v io = (v1, fs1, io1)"
    by (metis prod_cases3)
  obtain nws1 gs io2 where r: "reconcile_names setw drains pid sts des nws io1 = (nws1, gs, io2)"
    by (metis prod_cases3)
  from Cons.IH [OF r] Cons.prems(2) have g: "is_gomap nws1" by simp
  have "m \<notin> set (keys_of nws1)" using names_keys [OF r] Cons.prems(2) nw by auto
  moreover from Cons.prems(1) nw s r have "nws' = (if has_key drains m \<or> v1 \<noteq> [] then (m, v1) # nws1 else nws1)"
    by (simp add: Let_def)
  ultimately show ?case using g by simp
qed simp

section \<open>Saved weights when a drain starts\<close>

lemma drain_loop_lookup:
  assumes "drain_loop setw name pid sts ws io = (ws', es, io')" and "is_gomap sts"
  shows "map_of ws' k =
    (case map_of sts k of
       Some st \<Rightarrow>
         if ss_name st = name \<and> ss_admin st = 0 \<and> ss_weight st \<noteq> 0
         then Some (case map_of ws k of
             None \<Rightarrow> \<lparr>dw_weight = ss_weight st, dw_initialWeight = ss_initialWeight st, dw_pid = pid,
                      dw_stoppingReload = False, dw_retry = False\<rparr>
           | Some original \<Rightarrow> original\<lparr>dw_pid := pid\<rparr>)
         else map_of ws k
     | None \<Rightarrow> map_of ws k)"
  using assms
proof (induction sts arbitrary: ws io ws' es io')
  case (Cons ks sts)
  obtain key st where ks: "ks = (key, st)" by (cases ks)
  have nk: "map_of sts key = None" using Cons.prems(2) ks by (simp add: map_of_eq_None_iff)
  show ?case
  proof (cases "ss_name st \<noteq> name \<or> ss_admin st \<noteq> 0 \<or> ss_weight st = 0")
    case True
    with Cons.prems ks have d: "drain_loop setw name pid sts ws io = (ws', es, io')" by auto
    show ?thesis
      using Cons.IH [OF d] Cons.prems(2) ks nk True by (cases "k = key") auto
  next
    case False
    obtain r io1 where s: "setw key 0 io = (r, io1)" by fastforce
    let ?entry = "case map_of ws key of
               None \<Rightarrow> \<lparr>dw_weight = ss_weight st, dw_initialWeight = ss_initialWeight st, dw_pid = pid,
                        dw_stoppingReload = False, dw_retry = False\<rparr>
             | Some original \<Rightarrow> original\<lparr>dw_pid := pid\<rparr>"
    from Cons.prems ks False s obtain es2 where
      d: "drain_loop setw name pid sts (AList.update key ?entry ws) io1 = (ws', es2, io')"
      by (auto simp: Let_def split: sum.splits prod.splits)
    show ?thesis
      using Cons.IH [OF d] Cons.prems(2) ks nk False
      by (cases "k = key"; cases "map_of sts k") simp_all
  qed
qed simp

lemma drain_loop_gomap:
  "drain_loop setw name pid sts ws io = (ws', es, io') \<Longrightarrow> is_gomap ws \<Longrightarrow> is_gomap ws'"
proof (induction sts arbitrary: ws io ws' es io')
  case (Cons ks sts)
  obtain key st where ks: "ks = (key, st)" by (cases ks)
  obtain r io1 where s: "setw key 0 io = (r, io1)" by fastforce
  from Cons.prems ks s show ?case
    by (auto simp: Let_def split: sum.splits prod.splits if_splits
        intro: Cons.IH distinct_update)
qed simp

end
