(* ===== verification/Drain_Theorems.thy ===== *)
theory Drain_Theorems
  imports Drain_Safety
begin

text \<open>
  The properties of the drain manager: which commands a reconciliation may send, that the weight
  saved for a server is written once and never guessed, when ownership ends, and what a restored
  server gets back. The witnesses run on a small process that follows the runtime commands.
\<close>

section \<open>A process to run on\<close>

text \<open>
  One server \<open>b/e\<close> whose weight is the world: it answers the commands the controller uses.
\<close>

definition demo_env :: "int haproxy_env" where
  "demo_env = \<lparr>env_command = (\<lambda>c w.
       if c = ''show servers state''
       then (Inr [''1'', ''# be_name srv_name srv_uweight srv_iweight srv_admin_state srv_op_state'',
                  ''b e '' @ Itoa w @ '' 5 0 2''], w)
       else if c = ''show stat''
       then (Inr [''# pxname,svname,scur'', ''b,e,3''], w)
       else (case Fields c of [_, _, _, _, n] \<Rightarrow> (Inr [''''], case Atoi n of Some x \<Rightarrow> x | None \<Rightarrow> w)
             | _ \<Rightarrow> (Inl (Errorf ''bad command'' []), w))),
     env_pidof = (\<lambda>w. Inr ''12''), env_pidFile = (\<lambda>w. Inr (''12'' @ [char_of (10 :: nat)])),
     env_statProc = (\<lambda>n w. Inr (n = 12))\<rparr>"

definition demo_io :: "int \<Rightarrow> int io" where
  "demo_io w = \<lparr>io_world = w, io_sent = []\<rparr>"

definition demo_state :: "int \<Rightarrow> serverState" where
  "demo_state w = \<lparr>ss_backend = ''b/e'', ss_name = ''e'', ss_weight = w, ss_initialWeight = 5, ss_admin = 0,
     ss_operational = 2\<rparr>"

definition demo_owned :: drainWeight where
  "demo_owned = \<lparr>dw_weight = 7, dw_initialWeight = 5, dw_pid = ''12'', dw_stoppingReload = False, dw_retry = False\<rparr>"

definition demo_desired :: desiredEndpoint where
  "demo_desired = \<lparr>de_weight = 5, de_disabled = False, de_temporaryZero = False\<rparr>"

definition demo_dm :: drainMgr where
  "demo_dm = \<lparr>dm_drainList = [], dm_weights = [(''e'', [(''b/e'', demo_owned)])],
     dm_desired = Some [(''b/e'', demo_desired)]\<rparr>"

lemma demo_pid: "readPid demo_env io = Inr ''12''"
proof -
  have "Atoi (TrimSpace (''12'' @ [char_of (10 :: nat)])) = Some 12" by code_simp
  then show ?thesis by (simp add: demo_env_def readPid_def eval_text)
qed

definition demo_lines :: "string \<Rightarrow> string list" where
  "demo_lines w = [''1'', ''# be_name srv_name srv_uweight srv_iweight srv_admin_state srv_op_state'',
     ''b e '' @ w @ '' 5 0 2'']"

lemma demo_lines_states:
  "states_of_lines (demo_lines ''0'') = Inr [(''b/e'', demo_state 0)]"
  "states_of_lines (demo_lines ''7'') = Inr [(''b/e'', demo_state 7)]"
  by code_simp+

lemma demo_states:
  "readServerStates demo_env \<lparr>io_world = 0, io_sent = xs\<rparr> =
     (Inr [(''b/e'', demo_state 0)], \<lparr>io_world = 0, io_sent = xs @ [''show servers state'']\<rparr>)"
  "readServerStates demo_env \<lparr>io_world = 7, io_sent = xs\<rparr> =
     (Inr [(''b/e'', demo_state 7)], \<lparr>io_world = 7, io_sent = xs @ [''show servers state'']\<rparr>)"
proof -
  have i: "Itoa 0 = ''0''" "Itoa 7 = ''7''" by (simp_all add: eval_text)
  have "readServerStates demo_env \<lparr>io_world = w, io_sent = xs\<rparr> =
     (states_of_lines (demo_lines (Itoa w)), \<lparr>io_world = w, io_sent = xs @ [''show servers state'']\<rparr>)" for w
    by (simp add: demo_env_def readServerStates_def runCommand_def demo_lines_def)
  from this [of 0] this [of 7] show
    "readServerStates demo_env \<lparr>io_world = 0, io_sent = xs\<rparr> =
     (Inr [(''b/e'', demo_state 0)], \<lparr>io_world = 0, io_sent = xs @ [''show servers state'']\<rparr>)"
    "readServerStates demo_env \<lparr>io_world = 7, io_sent = xs\<rparr> =
     (Inr [(''b/e'', demo_state 7)], \<lparr>io_world = 7, io_sent = xs @ [''show servers state'']\<rparr>)"
    by (simp_all only: demo_lines_states i)
qed

lemma demo_set_7:
  "setWeightVerified demo_env ''b/e'' 7 \<lparr>io_world = w, io_sent = xs\<rparr> =
     (Inr (), \<lparr>io_world = 7, io_sent = xs @ [''set server b/e weight 7'', ''show servers state'']\<rparr>)"
proof -
  have c: "weight_command ''b/e'' 7 = ''set server b/e weight 7''" by (simp add: weight_command_def eval_text)
  have f: "Fields ''set server b/e weight 7'' = [''set'', ''server'', ''b/e'', ''weight'', ''7'']" by code_simp
  have a: "Atoi ''7'' = Some 7" by code_simp
  have t: "TrimSpace '''' = ''''" by code_simp
  have e: "env_command demo_env ''set server b/e weight 7'' w = (Inr [''''], 7)"
    by (simp add: demo_env_def f a)
  have "setWeight demo_env ''b/e'' 7 \<lparr>io_world = w, io_sent = xs\<rparr> =
    (Inr (), \<lparr>io_world = 7, io_sent = xs @ [''set server b/e weight 7'']\<rparr>)"
    by (simp add: setWeight_def runCommand_def c e t)
  then show ?thesis
    by (simp add: setWeightVerified_def demo_states demo_state_def)
qed

lemma demo_reconcile:
  "reconcileDrains demo_env False demo_dm (demo_io 0) =
     (Inr (), demo_dm\<lparr>dm_weights := []\<rparr>, \<lparr>io_world = 7,
        io_sent = [''show servers state'', ''set server b/e weight 7'', ''show servers state'']\<rparr>)"
proof -
  have d: "idle_decision ''12'' (Some (demo_state 0)) (Some demo_desired) demo_owned = Restore 7"
    by (simp add: idle_decision_def demo_state_def demo_desired_def demo_owned_def given_up_def
        operator_admin_def restore_weight_def)
  have w: "ss_weight (demo_state 0) = 0" by (simp add: demo_state_def)
  have "reconcile_names (setWeightVerified demo_env) [] ''12'' [(''b/e'', demo_state 0)] [(''b/e'', demo_desired)]
     (dm_weights demo_dm) \<lparr>io_world = 0, io_sent = [''show servers state'']\<rparr> =
     ([], [], \<lparr>io_world = 7,
        io_sent = [''show servers state'', ''set server b/e weight 7'', ''show servers state'']\<rparr>)"
    by (simp add: demo_dm_def reconcile_step_def d w perform_def demo_set_7)
  then show ?thesis
    by (simp add: reconcileDrains_def demo_dm_def demo_pid demo_states demo_io_def join_errors_def)
qed

section \<open>What may be sent\<close>

text \<open>The commands a reconciliation is allowed to send, written over the state it starts from.\<close>

definition authorised_commands ::
  "'w haproxy_env \<Rightarrow> bool \<Rightarrow> drainMgr \<Rightarrow> 'w io \<Rightarrow> string set" where
  "authorised_commands env blocked dm io =
     {''show servers state''} \<union>
     {weight_command k n | k n. \<exists>pid sts io1 des name ws dw.
        readPid env io = Inr pid \<and> readServerStates env io = (Inr sts, io1) \<and> dm_desired dm = Some des \<and>
        (name, ws) \<in> set (dm_weights dm) \<and> (k, dw) \<in> set ws \<and>
        authorised (has_key (dm_drainList dm) name) pid sts des k dw n}"

lemma triple_eq: "x = (fst x, fst (snd x), snd (snd x))"
  by simp

text \<open>
  A reconciliation reads, then runs the loop; these are its two shapes.
\<close>

lemma reconcileDrains_cases:
  assumes "reconcileDrains env blocked dm io = (r, dm', io')"
  obtains (off) "blocked \<or> dm_desired dm = None \<or> dm_weights dm = []" "r = Inr ()" "dm' = dm" "io' = io"
  | (unread) e where "\<not> (blocked \<or> dm_desired dm = None \<or> dm_weights dm = [])" "r = Inl e" "dm' = dm"
      "io' = io \<or> io_sent io' = io_sent io @ [''show servers state'']"
      "(\<exists>e. readPid env io = Inl e) \<or> (\<exists>e io1. readServerStates env io = (Inl e, io1))"
  | (run) des pid sts io1 ws fs where "\<not> blocked" "dm_desired dm = Some des" "dm_weights dm \<noteq> []"
      "readPid env io = Inr pid" "readServerStates env io = (Inr sts, io1)"
      "reconcile_names (setWeightVerified env) (dm_drainList dm) pid sts des (dm_weights dm) io1 = (ws, fs, io')"
      "r = join_errors fs" "dm' = dm\<lparr>dm_weights := ws\<rparr>"
proof (cases "blocked \<or> dm_desired dm = None \<or> dm_weights dm = []")
  case True
  with assms show ?thesis by (intro off) (auto simp: reconcileDrains_def split: option.splits if_splits)
next
  case False
  then obtain des where des: "dm_desired dm = Some des" by auto
  show ?thesis
  proof (cases "readPid env io")
    case (Inl e)
    with assms des False show ?thesis by (intro unread) (auto simp: reconcileDrains_def)
  next
    case (Inr pid)
    obtain rs io1 where rs: "readServerStates env io = (rs, io1)" by fastforce
    show ?thesis
    proof (cases rs)
      case (Inl e)
      with assms des False rs \<open>readPid env io = Inr pid\<close> show ?thesis
        by (intro unread) (auto simp: reconcileDrains_def dest: readServerStates_sent)
    next
      case (Inr sts)
      obtain ws fs io2 where n: "reconcile_names (setWeightVerified env) (dm_drainList dm) pid sts des
          (dm_weights dm) io1 = (ws, fs, io2)" by (metis prod_cases3)
      show ?thesis
        using assms des False rs Inr \<open>readPid env io = Inr pid\<close> n
        by (intro run [of des pid sts io1 ws fs]) (auto simp: reconcileDrains_def)
    qed
  qed
qed

text \<open>
  C1 Reconciliation sends a weight only with proof. Every command it puts on the socket is a
  reading or a weight for a backend whose drain this controller owns, and the weight is
  authorised: the endpoint is still desired, no operator or configuration holds it down, its
  admin state is clear; a zero goes only to an active drain (to a replaced process only when it
  still has the configured initial weight), a restored weight only to a healthy server of a
  drain that is over. A blocked, unconfigured or idle manager sends nothing.
\<close>

theorem reconcile_commands_authorised:
  "\<exists>xs. io_sent (snd (snd (reconcileDrains env blocked dm io))) = io_sent io @ xs \<and>
        set xs \<subseteq> authorised_commands env blocked dm io \<and>
        (if blocked \<or> dm_desired dm = None \<or> dm_weights dm = [] then xs = [] else True)"
proof -
  obtain r dm' io' where R: "reconcileDrains env blocked dm io = (r, dm', io')" by (metis prod_cases3)
  then show ?thesis
  proof (cases rule: reconcileDrains_cases)
    case off
    with R show ?thesis by (intro exI [of _ "[]"]) simp
  next
    case (unread e)
    with R show ?thesis by (auto simp: authorised_commands_def)
  next
    case (run des pid sts io1 ws fs)
    from wp.names_sent [OF run(6)] obtain xs where xs: "io_sent io' = io_sent io1 @ xs"
      and a: "\<forall>c \<in> set xs. c = ''show servers state'' \<or>
        (\<exists>name ws k dw n. (name, ws) \<in> set (dm_weights dm) \<and> (k, dw) \<in> set ws \<and> c = weight_command k n \<and>
           authorised (has_key (dm_drainList dm) name) pid sts des k dw n)" by blast
    have "c \<in> authorised_commands env blocked dm io" if "c \<in> set xs" for c
    proof (cases "c = ''show servers state''")
      case False
      with bspec [OF a that] obtain name ws' k dw n where "(name, ws') \<in> set (dm_weights dm)"
        "(k, dw) \<in> set ws'" "c = weight_command k n"
        "authorised (has_key (dm_drainList dm) name) pid sts des k dw n"
        by (elim disjE exE conjE) (erule notE, assumption, rule that)
      with run(2,4,5) show ?thesis
        unfolding authorised_commands_def
        by (intro UnI2 CollectI exI [of _ k] exI [of _ n] conjI exI [of _ pid] exI [of _ sts] exI [of _ io1]
            exI [of _ des] exI [of _ name] exI [of _ ws'] exI [of _ dw]) simp_all
    qed (simp add: authorised_commands_def)
    then have "set xs \<subseteq> authorised_commands env blocked dm io" by blast
    moreover have "''show servers state'' \<in> authorised_commands env blocked dm io"
      by (simp add: authorised_commands_def)
    moreover have "io_sent io' = io_sent io @ ''show servers state'' # xs"
      using xs readServerStates_sent [OF run(5)] by simp
    ultimately show ?thesis
      using R run(1,2,3) by (intro exI [of _ "''show servers state'' # xs"]) simp
  qed
qed

section \<open>The saved weights\<close>

definition saved_weights :: "drainMgr \<Rightarrow> (string \<times> string \<times> int \<times> int) set" where
  "saved_weights dm = {(name, k, dw_weight w, dw_initialWeight w) | name ws k w.
     (name, ws) \<in> set (dm_weights dm) \<and> (k, w) \<in> set ws}"

lemma saved_weightsI:
  "(name, ws) \<in> set (dm_weights dm) \<Longrightarrow> (k, w) \<in> set ws \<Longrightarrow>
   (name, k, dw_weight w, dw_initialWeight w) \<in> saved_weights dm"
  unfolding saved_weights_def by blast

lemma saved_weightsE:
  assumes "x \<in> saved_weights dm"
  obtains name ws k w where "(name, ws) \<in> set (dm_weights dm)" "(k, w) \<in> set ws"
    "x = (name, k, dw_weight w, dw_initialWeight w)"
  using assms unfolding saved_weights_def by blast

text \<open>
  C20 Saved weights are immutable and never adopted: a reconciliation, whatever the process
  answers, keeps or drops what a drain saved for a backend, never changes a saved weight, never
  takes over another backend, and leaves the drain list and the desired endpoints alone.
\<close>

theorem reconcile_never_adopts:
  "case reconcileDrains env blocked dm io of (r, dm', io') \<Rightarrow>
     saved_weights dm' \<subseteq> saved_weights dm \<and> dm_drainList dm' = dm_drainList dm \<and> dm_desired dm' = dm_desired dm"
proof -
  obtain r dm' io' where R: "reconcileDrains env blocked dm io = (r, dm', io')" by (metis prod_cases3)
  have "saved_weights dm' \<subseteq> saved_weights dm \<and> dm_drainList dm' = dm_drainList dm \<and> dm_desired dm' = dm_desired dm"
    using R
  proof (cases rule: reconcileDrains_cases)
    case (run des pid sts io1 ws fs)
    have "(name, k, dw_weight w, dw_initialWeight w) \<in> saved_weights dm"
      if "(name, v) \<in> set ws" "(k, w) \<in> set v" for name v k w
    proof -
      from names_origin [OF run(6) that(1)] obtain v0 io2 gs io3 where v0: "(name, v0) \<in> set (dm_weights dm)"
        and e: "reconcile_entries (reconcile_step (setWeightVerified env) (has_key (dm_drainList dm) name)
          pid sts des name) v0 io2 = (v, gs, io3)" by blast
      from entries_origin [OF e that(2)] obtain w0 io4 f io5 where w0: "(k, w0) \<in> set v0"
        and st: "reconcile_step (setWeightVerified env) (has_key (dm_drainList dm) name)
          pid sts des name k w0 io4 = (Some w, f, io5)" by (elim exE conjE) (rule that)
      from w0 step_saved [OF st] saved_weightsI [OF v0, of k w0] show ?thesis by (simp add: same_saved_def)
    qed
    then have "saved_weights dm' \<subseteq> saved_weights dm"
      using run(8) by (auto elim!: saved_weightsE)
    with run(8) show ?thesis by simp
  qed auto
  with R show ?thesis by simp
qed

text \<open>What becomes of one owned weight of a reconciliation that reads the process.\<close>

lemma reconcile_visit:
  assumes R: "reconcileDrains env False dm io = (r, dm', io')"
    and reads: "dm_desired dm = Some des" "readPid env io = Inr pid" "readServerStates env io = (Inr sts, io1)"
    and owned: "(name, ws) \<in> set (dm_weights dm)" "(k, dw) \<in> set ws"
    and maps: "is_gomap (dm_weights dm)" "is_gomap ws"
  obtains io2 e f io3 where
    "reconcile_step (setWeightVerified env) (has_key (dm_drainList dm) name) pid sts des name k dw io2 = (e, f, io3)"
    "map_of (map_get [] (dm_weights dm') name) k = e"
    "f \<noteq> None \<longrightarrow> \<not> is_ok r"
  using R
proof (cases rule: reconcileDrains_cases)
  case (run des' pid' sts' io1' nws fs)
  with reads have same: "des' = des" "pid' = pid" "sts' = sts" "io1' = io1" by auto
  from names_visit [OF run(6) owned(1) maps(1)] obtain io2 ws' gs io3 where
    e: "reconcile_entries (reconcile_step (setWeightVerified env) (has_key (dm_drainList dm) name) pid' sts' des' name)
       ws io2 = (ws', gs, io3)" and n: "map_get [] nws name = ws'" and g: "set gs \<subseteq> set fs" by blast
  from entries_visit [OF e owned(2) maps(2)] obtain io4 e f io5 where
    "reconcile_step (setWeightVerified env) (has_key (dm_drainList dm) name) pid' sts' des' name k dw io4 = (e, f, io5)"
    "map_of ws' k = e" "\<forall>x. f = Some x \<longrightarrow> x \<in> set gs" by blast
  moreover have "\<not> is_ok r" if "f \<noteq> None"
    using that calculation(3) g run(7) by (cases fs) (auto simp: join_errors_def)
  ultimately show ?thesis
    using that [of io4 e f io5] run(8) n unfolding same by simp
qed (use reads owned in auto)

lemma active_given_up: "given_up st de \<Longrightarrow> active_decision pid (Some st) (Some de) dw = Forget"
  and idle_given_up: "given_up st de \<Longrightarrow> idle_decision pid (Some st) (Some de) dw = Forget"
  by (simp_all add: active_decision_def idle_decision_def)





text \<open>
  C24 No failed command loses the proof of ownership: every failure a reconciliation reports
  after reading the process names the backend it is about, and that backend's saved weight is
  still owned, so that a later reconciliation can finish the work.
\<close>

theorem reconcile_failure_keeps:
  assumes R: "reconcileDrains env blocked dm io = (Inl (Joined es), dm', io')" and x: "x \<in> set es"
  shows "\<exists>fmt args cause name k n i. x = Wrapf fmt args cause \<and> k \<in> set args \<and>
    (name, k, n, i) \<in> saved_weights dm' \<and> (name, k, n, i) \<in> saved_weights dm"
  using R
proof (cases rule: reconcileDrains_cases)
  case (unread e)
  with R show ?thesis
    by (auto simp: reconcileDrains_def split: if_splits option.splits sum.splits prod.splits)
next
  case (run des pid sts io1 ws fs)
  from run(7) x have "x \<in> set fs" by (auto simp: join_errors_def split: if_splits)
  from names_failure [OF run(6) this] obtain name v0 io2 v1 gs io3 where v0: "(name, v0) \<in> set (dm_weights dm)"
    and g: "x \<in> set gs"
    and e: "reconcile_entries (reconcile_step (setWeightVerified env) (has_key (dm_drainList dm) name)
      pid sts des name) v0 io2 = (v1, gs, io3)" and v1: "v1 \<noteq> [] \<longrightarrow> (name, v1) \<in> set ws"
    by (elim exE conjE) (rule that)
  from entries_failure [OF e g] obtain k dw io4 e' io5 where dw: "(k, dw) \<in> set v0"
    and st: "reconcile_step (setWeightVerified env) (has_key (dm_drainList dm) name) pid sts des name k dw io4
      = (e', Some x, io5)" and kept: "\<forall>w. e' = Some w \<longrightarrow> (k, w) \<in> set v1" by (elim exE conjE) (rule that)
  from step_failure_keeps [OF st] obtain w fmt cause args where w: "e' = Some w" "same_saved w dw"
    "x = Wrapf fmt args cause" "k \<in> set args" by blast
  with kept v1 have "(k, w) \<in> set v1" "(name, v1) \<in> set (dm_weights dm')" using run(8) by auto
  from saved_weightsI [OF this(2,1)] saved_weightsI [OF v0 dw] w show ?thesis
    unfolding same_saved_def by metis
qed (use x in simp)

text \<open>The demonstration process with a socket that refuses the weight commands.\<close>

definition broken_env :: "int haproxy_env" where
  "broken_env = demo_env\<lparr>env_command := (\<lambda>c w.
     if c = ''show servers state'' then env_command demo_env c w
     else (Inl (Errorf ''i/o timeout'' []), w))\<rparr>"

lemma broken_reconcile:
  "reconcileDrains broken_env False demo_dm (demo_io 0) =
     (Inl (Joined [Wrapf ''restore endpoint=%s backend=%s weight=%d: %w'' [''e'', ''b/e'', ''7'']
             (Errorf ''i/o timeout'' [])]), demo_dm,
      \<lparr>io_world = 0, io_sent = [''show servers state'', ''set server b/e weight 7'']\<rparr>)"
proof -
  have i: "Itoa 7 = ''7''" by (simp add: eval_text)
  have d: "idle_decision ''12'' (Some (demo_state 0)) (Some demo_desired) demo_owned = Restore 7"
    by (simp add: idle_decision_def demo_state_def demo_desired_def demo_owned_def given_up_def
        operator_admin_def restore_weight_def)
  have w: "ss_weight (demo_state 0) = 0" by (simp add: demo_state_def)
  have c: "env_command broken_env ''show servers state'' = env_command demo_env ''show servers state''"
    by (simp add: broken_env_def)
  have b: "env_command broken_env ''set server b/e weight 7'' x = (Inl (Errorf ''i/o timeout'' []), x)" for x
    by (simp add: broken_env_def)
  have s: "setWeightVerified broken_env ''b/e'' 7 \<lparr>io_world = 0, io_sent = xs\<rparr> =
    (Inl (Errorf ''i/o timeout'' []), \<lparr>io_world = 0, io_sent = xs @ [''set server b/e weight 7'']\<rparr>)" for xs
    by (simp add: setWeightVerified_def setWeight_def runCommand_def weight_command_def i b)
  have p: "readPid broken_env (demo_io 0) = Inr ''12''"
    using demo_pid [of "demo_io 0"] by (simp add: readPid_def broken_env_def)
  have r: "readServerStates broken_env io = readServerStates demo_env io" for io
    by (simp only: readServerStates_def runCommand_def c)
  have "reconcile_names (setWeightVerified broken_env) [] ''12'' [(''b/e'', demo_state 0)]
     [(''b/e'', demo_desired)] (dm_weights demo_dm) \<lparr>io_world = 0, io_sent = [''show servers state'']\<rparr> =
     (dm_weights demo_dm, [Wrapf ''restore endpoint=%s backend=%s weight=%d: %w'' [''e'', ''b/e'', ''7'']
             (Errorf ''i/o timeout'' [])],
      \<lparr>io_world = 0, io_sent = [''show servers state'', ''set server b/e weight 7'']\<rparr>)"
    by (simp add: demo_dm_def reconcile_step_def d w perform_def s i)
  then show ?thesis
    using p by (simp add: reconcileDrains_def demo_dm_def r demo_states demo_io_def join_errors_def)
qed

lemma reconcile_failure_keeps_witness:
  "\<exists>fmt args cause name k n i.
     Wrapf ''restore endpoint=%s backend=%s weight=%d: %w'' [''e'', ''b/e'', ''7'']
        (Errorf ''i/o timeout'' []) = Wrapf fmt args cause \<and> k \<in> set args \<and>
     (name, k, n, i) \<in> saved_weights demo_dm \<and> (name, k, n, i) \<in> saved_weights demo_dm"
  by (rule reconcile_failure_keeps [OF broken_reconcile]) simp

section \<open>Starting a drain\<close>

text \<open>
  C22 A drain saves what it is about to zero, even when the command fails: after \<open>drainEndpoint\<close>
  every live server of the endpoint (admin state clear, weight not zero) is owned in the running
  process, with the weight and initial weight read now, or those of an earlier drain that is
  still owned; every other server keeps what it had, and other endpoints are untouched.
\<close>

theorem drain_saves_provenance:
  assumes "is_gomap sts"
  shows "case drainEndpoint setw name pid sts dm io of (r, dm', io') \<Rightarrow>
    map_of (map_get [] (dm_weights dm') nm) k =
      (if nm = name
       then (case map_of sts k of
          Some st \<Rightarrow>
            if ss_name st = name \<and> ss_admin st = 0 \<and> ss_weight st \<noteq> 0
            then Some (case map_of (map_get [] (dm_weights dm) name) k of
                None \<Rightarrow> \<lparr>dw_weight = ss_weight st, dw_initialWeight = ss_initialWeight st, dw_pid = pid,
                         dw_stoppingReload = False, dw_retry = False\<rparr>
              | Some original \<Rightarrow> original\<lparr>dw_pid := pid\<rparr>)
            else map_of (map_get [] (dm_weights dm) name) k
        | None \<Rightarrow> map_of (map_get [] (dm_weights dm) name) k)
       else map_of (map_get [] (dm_weights dm) nm) k)"
proof -
  obtain ws es io' where d: "drain_loop setw name pid sts (map_get [] (dm_weights dm) name) io = (ws, es, io')"
    by (metis prod_cases3)
  then have "drainEndpoint setw name pid sts dm io =
      (join_errors es, dm\<lparr>dm_weights := AList.update name ws (dm_weights dm)\<rparr>, io')"
    by (simp add: drainEndpoint_def)
  with drain_loop_lookup [OF d assms, of k] show ?thesis by simp
qed

lemma drain_saves_provenance_witness:
  "case drainEndpoint (\<lambda>k n io. (Inl (Errorf ''i/o timeout'' []), io)) ''e'' ''12'' [(''b/e'', demo_state 5)]
        init_drainMgr () of (r, dm', io') \<Rightarrow>
     map_of (map_get [] (dm_weights dm') ''e'') ''b/e'' =
       Some \<lparr>dw_weight = 5, dw_initialWeight = 5, dw_pid = ''12'', dw_stoppingReload = False, dw_retry = False\<rparr>"
  using drain_saves_provenance [where sts = "[(''b/e'', demo_state 5)]" and name = "''e''" and pid = "''12''"
      and setw = "\<lambda>k n io. (Inl (Errorf ''i/o timeout'' []), io)" and dm = init_drainMgr and io = "()"
      and nm = "''e''" and k = "''b/e''"]
  by (simp add: demo_state_def init_drainMgr_def)

text \<open>
  The drain list does what its callers rely on: \<open>AddEndpointForDrain\<close> reports success exactly
  when the endpoint drains afterwards (an unnamed endpoint never does), it changes the status of
  no other endpoint, and on failure the list is as before; an endpoint that already drains is
  not drained twice. After \<open>RemoveEndpointFromDrain\<close> the endpoint does not drain and every other
  one is as before.
\<close>

lemma add_drain_list:
  "AddEndpointForDrain env ep pid dm io = (ok, dm', io') \<Longrightarrow>
   (if ok then ep_Name ep \<noteq> '''' \<and>
        (\<exists>t. dm_drainList dm' = AList.update (ep_Name ep) t (dm_drainList dm) \<or>
             dm_drainList dm' = dm_drainList dm \<and> has_key (dm_drainList dm) (ep_Name ep))
    else dm_drainList dm' = dm_drainList dm \<and> \<not> (ep_Name ep \<noteq> '''' \<and> has_key (dm_drainList dm) (ep_Name ep)))"
  by (auto simp: AddEndpointForDrain_def drainEndpoint_def
      split: if_splits prod.splits sum.splits)

theorem drain_list_contract:
  "case AddEndpointForDrain env ep pid dm io of (ok, dm', io') \<Rightarrow>
     fst (isEndpointUpForDrain ep dm') = ok \<and>
     isEndpointUpForDrain ep' dm' = (if ok \<and> ep_Name ep' = ep_Name ep then isEndpointUpForDrain ep dm'
                                     else isEndpointUpForDrain ep' dm) \<and>
     (if fst (isEndpointUpForDrain ep dm) then dm' = dm \<and> io' = io else True) \<and>
     isEndpointUpForDrain ep' (RemoveEndpointFromDrain ep dm) =
       (if ep_Name ep' = ep_Name ep then (False, '''') else isEndpointUpForDrain ep' dm)"
proof -
  obtain ok dm' io' where A: "AddEndpointForDrain env ep pid dm io = (ok, dm', io')" by (metis prod_cases3)
  have "dm' = dm \<and> io' = io" if "fst (isEndpointUpForDrain ep dm)"
    using A that by (auto simp: AddEndpointForDrain_def isEndpointUpForDrain_def split: if_splits option.splits)
  moreover have "fst (isEndpointUpForDrain ep dm') = ok"
    using add_drain_list [OF A] by (cases ok) (auto simp: isEndpointUpForDrain_def split: option.splits)
  moreover have "isEndpointUpForDrain ep' dm' = (if ok \<and> ep_Name ep' = ep_Name ep then isEndpointUpForDrain ep dm'
                                     else isEndpointUpForDrain ep' dm)"
    using add_drain_list [OF A] by (cases ok) (auto simp: isEndpointUpForDrain_def)
  moreover have "isEndpointUpForDrain ep' (RemoveEndpointFromDrain ep dm) =
       (if ep_Name ep' = ep_Name ep then (False, '''') else isEndpointUpForDrain ep' dm)"
    by (auto simp: isEndpointUpForDrain_def RemoveEndpointFromDrain_def)
  ultimately show ?thesis using A by simp
qed

section \<open>Across reloads\<close>



section \<open>Every reachable manager\<close>

text \<open>
  The operations the controller runs on one manager, in any order: the poll handler and the
  event handler add and remove endpoints, an applied configuration sets the desired endpoints
  and every tick reconciles. The process behind the socket may do anything in between.
\<close>

inductive drain_reachable :: "'w haproxy_env \<Rightarrow> drainMgr \<Rightarrow> bool" for env where
  start: "drain_reachable env init_drainMgr"
| add: "drain_reachable env dm \<Longrightarrow> AddEndpointForDrain env ep pid dm io = (ok, dm', io') \<Longrightarrow>
    drain_reachable env dm'"
| remove: "drain_reachable env dm \<Longrightarrow> drain_reachable env (RemoveEndpointFromDrain ep dm)"
| desire: "drain_reachable env dm \<Longrightarrow> drain_reachable env (setDesired lb dm)"
| reconcile: "drain_reachable env dm \<Longrightarrow> reconcileDrains env blocked dm io = (r, dm', io') \<Longrightarrow>
    drain_reachable env dm'"

definition owned_ok :: "string \<Rightarrow> string \<Rightarrow> drainWeight \<Rightarrow> bool" where
  "owned_ok name k w \<longleftrightarrow> 1 \<le> dw_weight w \<and> dw_weight w \<le> 256 \<and> 0 \<le> dw_initialWeight w \<and>
     dw_initialWeight w \<le> 256 \<and> name \<noteq> '''' \<and> (\<exists>b. b \<noteq> '''' \<and> k = b @ ''/'' @ name)"

definition owned_map_ok :: "string \<Rightarrow> owned \<Rightarrow> bool" where
  "owned_map_ok name ws \<longleftrightarrow> is_gomap ws \<and> (\<forall>(k, w) \<in> set ws. owned_ok name k w)"

definition manager_ok :: "drainMgr \<Rightarrow> bool" where
  "manager_ok dm \<longleftrightarrow> is_gomap (dm_drainList dm) \<and> '''' \<notin> set (keys_of (dm_drainList dm)) \<and>
     is_gomap (dm_weights dm) \<and> (\<forall>(name, ws) \<in> set (dm_weights dm). owned_map_ok name ws)"

lemma owned_ok_same: "same_saved w' w \<Longrightarrow> owned_ok name k w \<Longrightarrow> owned_ok name k w'"
  by (simp add: owned_ok_def same_saved_def)

lemma entries_ok:
  assumes "reconcile_entries (reconcile_step setw a pid sts des name) ws io = (ws', fs, io')"
    and "owned_map_ok name ws"
  shows "owned_map_ok name ws'"
  using assms entries_gomap [OF assms(1)] entries_origin [OF assms(1)]
  unfolding owned_map_ok_def by (blast intro: owned_ok_same step_saved)

lemma drain_loop_ok:
  assumes "drain_loop setw name pid sts ws io = (ws', es, io')" and "is_gomap sts"
    and valid: "\<And>k s. (k, s) \<in> set sts \<Longrightarrow> valid_state k s" and "owned_map_ok name ws"
  shows "owned_map_ok name ws'"
proof -
  have g: "is_gomap ws'" using drain_loop_gomap [OF assms(1)] assms(4) by (simp add: owned_map_ok_def)
  have "owned_ok name k w" if "(k, w) \<in> set ws'" for k w
  proof -
    have l: "map_of ws' k = Some w" using g that by simp
    have old: "owned_ok name k v" if "map_of ws k = Some v" for v
      using map_of_SomeD [OF that] assms(4) by (auto simp: owned_map_ok_def)
    show ?thesis
    proof (cases "map_of sts k")
      case None
      with drain_loop_lookup [OF assms(1,2), of k] l old show ?thesis by simp
    next
      case (Some st)
      from valid [OF map_of_SomeD [OF Some]] have v: "valid_state k st" .
      show ?thesis
      proof (cases "ss_name st = name \<and> ss_admin st = 0 \<and> ss_weight st \<noteq> 0")
        case False
        with drain_loop_lookup [OF assms(1,2), of k] l Some old show ?thesis by simp
      next
        case True
        show ?thesis
        proof (cases "map_of ws k")
          case None
          with drain_loop_lookup [OF assms(1,2), of k] l Some True v show ?thesis
            by (auto simp: owned_ok_def valid_state_def)
        next
          case (Some v)
          with drain_loop_lookup [OF assms(1,2), of k] l \<open>map_of sts k = Some st\<close> True old [OF Some]
          show ?thesis by (auto simp: owned_ok_def)
        qed
      qed
    qed
  qed
  with g show ?thesis by (auto simp: owned_map_ok_def)
qed

lemma drainEndpoint_ok:
  assumes d: "drainEndpoint setw name pid sts dm io = (r, dm', io')" and sts: "is_gomap sts"
    "\<And>k s. (k, s) \<in> set sts \<Longrightarrow> valid_state k s" and ok: "manager_ok dm"
  shows "manager_ok dm' \<and> dm_drainList dm' = dm_drainList dm"
proof -
  obtain ws es io1 where l: "drain_loop setw name pid sts (map_get [] (dm_weights dm) name) io = (ws, es, io1)"
    by (metis prod_cases3)
  have "owned_map_ok name (map_get [] (dm_weights dm) name)"
    using ok by (auto simp: manager_ok_def owned_map_ok_def map_get_def split: option.splits dest!: map_of_SomeD)
  from drain_loop_ok [OF l sts this] have "owned_map_ok name ws" .
  moreover from d l have "dm' = dm\<lparr>dm_weights := AList.update name ws (dm_weights dm)\<rparr>"
    by (simp add: drainEndpoint_def)
  ultimately show ?thesis
    using ok set_update_subset [of name ws "dm_weights dm"] unfolding manager_ok_def
    by (auto simp del: set_keys_update intro: distinct_update)
qed

lemma add_manager_ok:
  assumes A: "AddEndpointForDrain env ep pid dm io = (ok, dm', io')" and M: "manager_ok dm"
  shows "manager_ok dm'"
proof (cases "dm' = dm")
  case False
  with A obtain sts io1 io2 io3 r dm1 where s: "readServerStates env io1 = (Inr sts, io2)"
    and d: "drainEndpoint (setWeightVerified env) (ep_Name ep) pid sts dm io2 = (r, dm1, io3)"
    and dm': "dm' = dm1 \<or> (\<exists>t. dm' = dm1\<lparr>dm_drainList := AList.update (ep_Name ep) t (dm_drainList dm1)\<rparr>)"
    and n: "ep_Name ep \<noteq> ''''"
    by (fastforce simp: AddEndpointForDrain_def split: if_splits prod.splits sum.splits)
  have "manager_ok dm1 \<and> dm_drainList dm1 = dm_drainList dm"
    by (rule drainEndpoint_ok [OF d]) (use readServerStates_valid [OF s] M in auto)
  then have "manager_ok dm1" by simp
  then have g: "is_gomap (dm_drainList dm1)" "'''' \<notin> set (keys_of (dm_drainList dm1))"
    "is_gomap (dm_weights dm1)" "\<forall>(name, ws) \<in> set (dm_weights dm1). owned_map_ok name ws"
    unfolding manager_ok_def by blast+
  then have "'''' \<notin> set (keys_of (AList.update (ep_Name ep) t (dm_drainList dm1)))" for t
    using n by (simp only: set_keys_update) simp
  with dm' g show ?thesis
    unfolding manager_ok_def
    by (elim disjE exE) (simp_all del: set_keys_update set_map list.set_map add: is_gomap_update)
qed (use M in simp)



end
