(* ===== verification/Pipeline.thy ===== *)
theory Pipeline
  imports Build_Theorems Custom_Theorems Drain_Theorems
begin

text \<open>
  The components together: metadata to configuration to custom configuration, and back from the
  configuration text to the drain manager's desired weights.
\<close>

section \<open>Reading the weight back\<close>

lemma Fields_weight: "Fields (x @ '' weight '' @ Itoa w) = Fields x @ [''weight'', Itoa w]"
proof -
  have sp: "is_space CHR '' ''" by (simp add: is_space_def)
  have w: "Fields ''weight'' = [''weight'']" by code_simp
  have i: "Fields (Itoa w) = [Itoa w]" by (intro Fields_word Itoa_no_space) simp
  have "Fields (x @ CHR '' '' # (''weight'' @ CHR '' '' # Itoa w)) = Fields x @ [''weight''] @ [Itoa w]"
    using Fields_space [OF sp, of x "''weight'' @ CHR '' '' # Itoa w"] Fields_space [OF sp, of "''weight''" "Itoa w"]
    by (simp add: w i)
  then show ?thesis by simp
qed

lemma Itoa_not_word: "Itoa w \<noteq> ''weight'' \<and> Itoa w \<noteq> ''disabled''"
proof -
  have d: "\<not> is_digit CHR ''w''" "\<not> is_digit CHR ''d''" by (simp_all add: is_digit_def)
  have "Itoa w = CHR ''-'' # dec_digits (nat (- w)) \<or> list_all is_digit (Itoa w)"
    using list_all_dec_digits by (auto simp: Itoa_def)
  with d show ?thesis by auto
qed

lemma config_fields_frame:
  "de_temporaryZero (config_fields fs s) = de_temporaryZero s"
  by (induction fs s rule: config_fields.induct) (auto simp: Let_def split: list.splits option.splits)

lemma config_fields_last:
  assumes "Atoi v = Some w" and "v \<noteq> ''weight''"
  shows "de_weight (config_fields (fs @ [''weight'', v]) s) = w"
proof (induction fs arbitrary: s)
  case Nil
  show ?case using assms by (simp add: Let_def)
next
  case (Cons f fs)
  then show ?case by (simp add: Let_def)
qed

lemma endpoint_weight_back:
  assumes "fe \<in> set (lb_FrontendServices (BuildCustomConfig lb custom))"
    and "be \<in> set (fe_BackendServices fe)" and "ep \<in> set (be_Endpoints be)"
    and "ep_Weight ep \<noteq> 1" and "0 \<le> ep_Weight ep" and "ep_Weight ep < 257"
  shows "de_weight (desired_of ep) = ep_Weight ep \<and> de_temporaryZero (desired_of ep) = ep_Stopping ep"
proof -
  from assms(1-3) obtain be0 ep0 policy where ep: "ep = custom_endpoint (custom_map custom) be0 policy ep0"
    by (elim built_endpoint)
  obtain x where c: "ep_Config ep = x @ '' weight '' @ Itoa (ep_Weight ep)"
    using assms(4-6) unfolding ep custom_endpoint_frame endpoint_text_def
    by (simp only: append_assoc [symmetric]) simp
  have "Atoi (Itoa (ep_Weight ep)) = Some (ep_Weight ep)" using assms(5,6) by (intro Atoi_Itoa) simp_all
  from config_fields_last [OF this] Itoa_not_word
  have "de_weight (config_fields (Fields (x @ '' weight '' @ Itoa (ep_Weight ep))) s) = ep_Weight ep" for s
    unfolding Fields_weight by blast
  then show ?thesis
    unfolding desired_of_def c by (simp only: config_fields_frame desiredEndpoint.simps simp_thms)
qed

text \<open>
  C10 The drain manager reads back the weight the configuration writes: for every endpoint of a
  configuration built with any custom text, a weight other than 1 within HAProxy's range 0 to
  256 is the last weight of the endpoint's text, so the desired weight computed from that text
  is the endpoint's weight, and it is marked temporary exactly for a stopping endpoint.
\<close>

theorem weight_read_back:
  assumes "fe \<in> set (lb_FrontendServices (BuildCustomConfig lb custom))"
    and "be \<in> set (fe_BackendServices fe)" and "ep \<in> set (be_Endpoints be)"
    and "ep_Weight ep \<noteq> 1" and "0 \<le> ep_Weight ep" and "ep_Weight ep < 257"
  shows "de_weight (desired_of ep) = ep_Weight ep \<and> de_temporaryZero (desired_of ep) = ep_Stopping ep"
  by (rule endpoint_weight_back [OF assms])

section \<open>Stopping endpoints\<close>

lemma alias_loop_all:
  assumes "\<And>s es. rec s = Ok es \<Longrightarrow> list_all P es"
  shows "alias_loop mc rec links eps = Ok out \<Longrightarrow> list_all P eps \<Longrightarrow> list_all P out"
proof (induction links arbitrary: eps)
  case (Cons link links)
  from Cons.prems(1) obtain s es where "rec s = Ok es" "alias_loop mc rec links (eps @ es) = Ok out"
    by (auto simp: bind_out_Ok)
  with Cons assms show ?case by simp
qed simp

lemma service_endpoints_zero:
  "getServiceEndpoints n mc svc p self pref = Ok eps \<Longrightarrow> list_all (\<lambda>ep. ep_Weight ep = 0) eps"
proof (induction n arbitrary: svc eps)
  case (Suc n)
  let ?linked = "alias_loop mc (\<lambda>s. getServiceEndpoints n mc s p self pref) (keys_of (svc_Links svc)) []"
  have "\<exists>raw. eps = sort_endpoints raw \<and>
    (raw = getExternalServiceEndpoints svc p \<or> ?linked = Ok raw \<or> raw = getRegularServiceEndpoints svc p self pref)"
    using Suc.prems
    by (cases "EqualFold (svc_Kind svc) ''externalService''"; cases "EqualFold (svc_Kind svc) ''dnsService''"; cases ?linked)
      (simp_all, metis+)
  then obtain raw where r: "eps = sort_endpoints raw" and
    "raw = getExternalServiceEndpoints svc p \<or> ?linked = Ok raw \<or> raw = getRegularServiceEndpoints svc p self pref"
    by blast
  then consider "raw = getExternalServiceEndpoints svc p" | "?linked = Ok raw"
    | "raw = getRegularServiceEndpoints svc p self pref" by blast
  then have "list_all (\<lambda>ep. ep_Weight ep = 0) raw"
  proof cases
    case 1
    then show ?thesis by (auto simp: getExternalServiceEndpoints_def list_all_iff zero_Endpoint_def)
  next
    case 2
    from alias_loop_all [OF Suc.IH 2] show ?thesis by simp
  next
    case 3
    then show ?thesis
      using regular_endpoints_subset [of svc p self pref]
      by (auto simp: list_all_iff container_endpoint_def zero_Endpoint_def)
  qed
  then show ?case by (simp add: r list_all_iff)
qed simp

lemma targets_zero:
  assumes "rule_targets n mc envUUID self pref r = Ok (Some (eps, hc))"
  shows "list_all (\<lambda>ep. ep_Weight ep = 0) eps"
proof (cases "pr_Service r = ''''")
  case True
  with assms obtain c ep far where "getContainerEndpoint c (pr_TargetPort r) self pref = Some (ep, far)" "eps = [ep]"
    by (auto simp: rule_targets_def bind_out_Ok split: option.splits)
  with container_endpoint_shape show ?thesis by fastforce
next
  case False
  with assms obtain s where "getServiceEndpoints n mc s (pr_TargetPort r) self pref = Ok eps"
    by (auto simp: rule_targets_def bind_out_Ok split: if_splits)
  then show ?thesis by (rule service_endpoints_zero)
qed

text \<open>A configuration with one endpoint, of the weight 3 of its rule.\<close>

definition demo_lb :: "Endpoint \<Rightarrow> LoadBalancerConfig" where
  "demo_lb ep = \<lparr>lb_DefaultCert = None, lb_Certs = [], lb_Name = ''lb'', lb_Annotations = [],
     lb_FrontendServices = finish_frontends (feed [(demo_rule, [ep], demo_hc)]),
     lb_Config = '''', lb_StickinessPolicy = None\<rparr>"

lemma demo_lb_fronts [simp]: "lb_FrontendServices (demo_lb ep) = finish_frontends (feed [(demo_rule, [ep], demo_hc)])"
  "lb_StickinessPolicy (demo_lb ep) = None"
  by (simp_all add: demo_lb_def)

lemma demo_finish:
  "finish_frontends (feed [(demo_rule, [ep], demo_hc)]) =
     [(fc_frontend (new_cell demo_rule))\<lparr>fe_BackendServices := [new_backend demo_rule [ep] demo_hc]\<rparr>]"
  by (simp add: finish_frontends_def feed_def init_build_def add_rule_def Let_def finish_frontend_def
      List.map_filter_def sort_backends_def sort_frontends_def go_sort_def new_cell_def)

lemma demo_built_in:
  obtains fe be ep where "fe \<in> set (lb_FrontendServices (BuildCustomConfig (demo_lb e) custom))"
    "be \<in> set (fe_BackendServices fe)" "ep \<in> set (be_Endpoints be)"
    "ep_Weight ep = ep_Weight (weigh 3 e)" "ep_Stopping ep = ep_Stopping e"
proof -
  let ?be = "new_backend demo_rule [e] demo_hc" and ?cm = "custom_map custom"
  let ?fe = "(fc_frontend (new_cell demo_rule))\<lparr>fe_BackendServices := [?be]\<rparr>"
  have 1: "lb_FrontendServices (BuildCustomConfig (demo_lb e) custom) = [fst (custom_frontend ?cm ?fe None)]"
    unfolding BuildCustomConfig_def Let_def by (simp add: demo_finish split_beta)
  have 2: "fe_BackendServices (fst (custom_frontend ?cm ?fe None)) = [fst (custom_backend ?cm ?be None)]"
    unfolding custom_frontend_def Let_def sticky_frontend_def by (simp add: split_beta)
  have w: "be_Endpoints ?be = [weigh 3 e]" by (simp add: new_backend_def demo_rule_def)
  have 3: "be_Endpoints (fst (custom_backend ?cm ?be None)) = [custom_endpoint ?cm ?be False (weigh 3 e)]"
    unfolding custom_backend_def Let_def by (simp add: w)
  have "ep_Stopping (weigh 3 e) = ep_Stopping e" by (simp add: weigh_def)
  then show ?thesis using 1 2 3
    by (intro that [of "fst (custom_frontend ?cm ?fe None)" "fst (custom_backend ?cm ?be None)"
          "custom_endpoint ?cm ?be False (weigh 3 e)"]) simp_all
qed

lemma weight_read_back_witness:
  "\<exists>fe \<in> set (lb_FrontendServices (BuildCustomConfig (demo_lb demo_ep) ''global'')).
     \<exists>be \<in> set (fe_BackendServices fe). \<exists>ep \<in> set (be_Endpoints be). de_weight (desired_of ep) = 3"
proof -
  have "ep_Weight (weigh 3 demo_ep) = 3" by (simp add: weigh_def demo_ep_def zero_Endpoint_def)
  then obtain fe be ep where in_lb: "fe \<in> set (lb_FrontendServices (BuildCustomConfig (demo_lb demo_ep) ''global''))"
    "be \<in> set (fe_BackendServices fe)" "ep \<in> set (be_Endpoints be)" and w: "ep_Weight ep = 3"
    by (metis demo_built_in)
  with weight_read_back [OF in_lb] have "de_weight (desired_of ep) = 3" by simp
  with in_lb show ?thesis by blast
qed

text \<open>
  A stopping endpoint is a drain, not a removal: in every configuration built from metadata,
  an endpoint of a stopping container has weight zero, and the drain manager reads it as a
  temporary zero, so that a weight owned for it is kept and reapplied instead of given up,
  unless its text disables it or an operator takes over.
\<close>

theorem stopping_is_temporary:
  assumes loop: "rule_loop n mc envUUID self pref rules init_build = Ok st"
    and fronts: "lb_FrontendServices lb = finish_frontends st"
    and "fe \<in> set (lb_FrontendServices (BuildCustomConfig lb custom))"
    and "be \<in> set (fe_BackendServices fe)" and "ep \<in> set (be_Endpoints be)" and "ep_Stopping ep"
  shows "ep_Weight ep = 0 \<and> de_weight (desired_of ep) = 0 \<and> de_temporaryZero (desired_of ep) \<and>
    given_up sst (desired_of ep) = (de_disabled (desired_of ep) \<or> operator_admin sst)"
proof -
  from assms(3-5) obtain fe0 be0 ep0 policy where o: "fe0 \<in> set (finish_frontends st)"
    "be0 \<in> set (fe_BackendServices fe0)" "ep0 \<in> set (be_Endpoints be0)"
    and ep: "ep = custom_endpoint (custom_map custom) be0 policy ep0"
    unfolding fronts [symmetric] by (elim built_endpoint)
  obtain f where "backend_ok (fed_rules n mc envUUID self pref rules) (key_of f) be0"
    by (rule finished_backend_ok [OF loop o(1,2)])
  then obtain r eps hc e where r: "(r, eps, hc) \<in> set (fed_rules n mc envUUID self pref rules)" "e \<in> set eps"
    "ep0 = weigh (pr_Weight r) e"
    using o(3) unfolding backend_ok_def by blast
  from fed_rules_port [OF r(1)] targets_zero have "ep_Weight e = 0"
    using r(2) by (auto simp: list_all_iff)
  moreover have "ep_Stopping e" using assms(6) r(3) ep by (auto simp: weigh_def split: if_splits)
  ultimately have z: "ep_Weight ep = 0" by (simp add: ep r(3) weigh_def)
  then have "de_weight (desired_of ep) = 0 \<and> de_temporaryZero (desired_of ep) = ep_Stopping ep"
    using endpoint_weight_back [OF assms(3-5)] by simp
  with z assms(6) show ?thesis by (simp add: given_up_def)
qed

text \<open>The stopping container of a regular service.\<close>

definition demo_stopping :: Endpoint where
  "demo_stopping = demo_ep\<lparr>ep_Stopping := True\<rparr>"

definition demo_stop_service :: Service where
  "demo_stop_service = zero_Service\<lparr>svc_Kind := ''service'', svc_Containers :=
     [zero_Container\<lparr>ct_PrimaryIp := ''10.0.0.1'', ct_State := ''stopping''\<rparr>]\<rparr>"

definition demo_stop_client :: metadata_client where
  "demo_stop_client = demo_client\<lparr>mc_GetServiceInLocalEnvironment := (\<lambda>st n. Inr demo_stop_service)\<rparr>"

lemma demo_stop_targets:
  "rule_targets (Suc 0) demo_stop_client '''' '''' ''any'' demo_rule = Ok (Some ([demo_stopping], demo_hc))"
proof -
  have s: "Split ''s/web'' ''/'' = [''s'', ''web'']" by code_simp
  have a: "IsActiveService demo_stop_service" by code_simp
  have k: "\<not> EqualFold ''service'' ''externalService''" "\<not> EqualFold ''service'' ''dnsService''" by code_simp+
  have l: "EqualFold ''stopping'' ''stopping''" by simp
  have g: "GetService demo_stop_client ''s/web'' = Ok demo_stop_service"
    by (simp add: GetService_def s demo_stop_client_def)
  have kd: "svc_Kind demo_stop_service = ''service''" by (simp add: demo_stop_service_def)
  have e: "getRegularServiceEndpoints demo_stop_service 8080 '''' ''any'' = [demo_stopping]"
    by (simp add: getRegularServiceEndpoints_def container_loop_eq demo_stop_service_def zero_Service_def
        live_container_def l container_endpoint_def demo_stopping_def demo_ep_def)
  have h: "getServiceHealthCheck demo_stop_service = Inr demo_hc"
    by (simp add: getServiceHealthCheck_def getConfigServiceHealthCheck_def demo_stop_service_def zero_Service_def
        zero_HealthCheck_def demo_hc_def)
  have so: "sort_endpoints [x] = [x]" for x by (simp add: sort_endpoints_def go_sort_def)
  have r: "pr_Service demo_rule = ''s/web''" "pr_TargetPort demo_rule = 8080" by (simp_all add: demo_rule_def)
  show ?thesis by (simp add: rule_targets_def r g a kd k e h so)
qed

lemma demo_stop_run:
  "rule_loop (Suc 0) demo_stop_client '''' '''' ''any'' [demo_rule] init_build =
     Ok (feed [(demo_rule, [demo_stopping], demo_hc)])"
proof -
  have "pr_SourcePort demo_rule = 80" by (simp add: demo_rule_def)
  then show ?thesis by (simp add: rule_step_def demo_stop_targets feed_def)
qed

lemma stopping_is_temporary_witness:
  "\<exists>fe \<in> set (lb_FrontendServices (BuildCustomConfig (demo_lb demo_stopping) ''global'')).
     \<exists>be \<in> set (fe_BackendServices fe). \<exists>ep \<in> set (be_Endpoints be). de_temporaryZero (desired_of ep)"
proof -
  have "ep_Stopping demo_stopping" by (simp add: demo_stopping_def)
  then obtain fe be ep
    where in_lb: "fe \<in> set (lb_FrontendServices (BuildCustomConfig (demo_lb demo_stopping) ''global''))"
      "be \<in> set (fe_BackendServices fe)" "ep \<in> set (be_Endpoints be)" and w: "ep_Stopping ep"
    by (metis demo_built_in)
  from stopping_is_temporary [OF demo_stop_run demo_lb_fronts(1) in_lb w] in_lb show ?thesis by blast
qed

end
