(* ===== verification/Haproxy_Provider.thy ===== *)
theory Haproxy_Provider
  imports Drain_Theorems Custom_Config
begin

text \<open>
  The provider of \<open>provider/haproxy/haproxy.go\<close>: it writes a configuration, reloads HAProxy,
  and answers the questions about drains. The file system, the template engine and the reload
  script are the parameter \<open>env\<close>; a nil certificate in the list is a nil dereference, so
  that \<open>applyHaproxyConfig\<close> may panic: the result is then \<open>None\<close>.
\<close>

section \<open>State and environment\<close>

record Provider =
  pv_init :: bool
  pv_recoveryBlocked :: bool
  pv_drainMgr :: drainMgr
  pv_stopped :: bool

definition init_Provider :: Provider where
  "init_Provider = \<lparr>pv_init = True, pv_recoveryBlocked = False, pv_drainMgr = init_drainMgr, pv_stopped = False\<rparr>"

text \<open>The map that the template is executed on; \<open>defaultCertFile\<close> may be missing.\<close>

record template_data =
  td_frontends :: "FrontendService list"
  td_backends :: "BackendService list"
  td_globalConfig :: string
  td_strictSni :: bool
  td_defaultCertFile :: "string option"

record 'w provider_env =
  pe_haproxy :: "'w haproxy_env"
  pe_missing :: "string \<Rightarrow> 'w \<Rightarrow> bool"
  pe_mkdir :: "string \<Rightarrow> 'w \<Rightarrow> unit result \<times> 'w"
  pe_writeFile :: "string \<Rightarrow> string \<Rightarrow> 'w \<Rightarrow> unit result \<times> 'w"
  pe_create :: "'w \<Rightarrow> unit result \<times> 'w"
  pe_parse :: "'w \<Rightarrow> unit result"
  pe_execute :: "template_data \<Rightarrow> 'w \<Rightarrow> unit result \<times> 'w"
  pe_close :: "'w \<Rightarrow> unit result \<times> 'w"
  pe_start :: "'w \<Rightarrow> unit result \<times> 'w"
  pe_reload :: "'w \<Rightarrow> unit result \<times> 'w"

definition CertDir :: string where
  "CertDir = ''/etc/haproxy/certs''"

section \<open>Writing the configuration\<close>

definition supportedProtos :: "string list" where
  "supportedProtos = [HTTPProto, HTTPSProto, TLSProto, TCPProto, SNIProto]"

text \<open>The inner loop over the backends of one frontend; \<open>m\<close> holds the UUIDs seen.\<close>

fun collect_backends ::
  "BackendService list \<Rightarrow> string list \<times> BackendService list \<Rightarrow> string list \<times> BackendService list" where
  "collect_backends [] s = s"
| "collect_backends (be # bes) (m, backends) =
     (if be_UUID be \<in> set m then collect_backends bes (m, backends)
      else collect_backends bes (be_UUID be # m, backends @ [be]))"

fun collect_frontends ::
  "FrontendService list \<Rightarrow> string list \<times> BackendService list \<Rightarrow> FrontendService list \<times> BackendService list" where
  "collect_frontends [] (m, backends) = ([], backends)"
| "collect_frontends (fe # fes) s =
     (if fe_Protocol fe \<notin> set supportedProtos then collect_frontends fes s
      else case collect_frontends fes (collect_backends (fe_BackendServices fe) s) of
             (frontends, backends) \<Rightarrow> (fe # frontends, backends))"

definition template_of :: "LoadBalancerConfig \<Rightarrow> template_data" where
  "template_of lb =
     (case collect_frontends (lb_FrontendServices lb) ([], []) of
        (frontends, backends) \<Rightarrow>
          \<lparr>td_frontends = frontends, td_backends = backends, td_globalConfig = lb_Config lb,
           td_strictSni = (lb_DefaultCert lb = None),
           td_defaultCertFile = map_option
             (\<lambda>c. ReplaceAll (cert_Name c) '' '' [CHR 0x5C, CHR '' ''] @ ''.pem'') (lb_DefaultCert lb)\<rparr>)"

definition write_config :: "'w provider_env \<Rightarrow> LoadBalancerConfig \<Rightarrow> 'w \<Rightarrow> unit result \<times> 'w" where
  "write_config env lb w =
     (case pe_create env w of
        (Inl e, w1) \<Rightarrow> (Inl e, w1)
      | (Inr _, w1) \<Rightarrow>
          (case (case pe_parse env w1 of
                   Inl e \<Rightarrow> (Inl e, w1)
                 | Inr _ \<Rightarrow> pe_execute env (template_of lb) w1) of
             (r, w2) \<Rightarrow>
               (case pe_close env w2 of (c, w3) \<Rightarrow> ((case r of Inl e \<Rightarrow> Inl e | Inr _ \<Rightarrow> c), w3))))"

section \<open>Applying a configuration\<close>

definition ensure_dir :: "'w provider_env \<Rightarrow> string \<Rightarrow> 'w \<Rightarrow> unit result \<times> 'w" where
  "ensure_dir env d w = (if pe_missing env d w then pe_mkdir env d w else (Inr (), w))"

text \<open>The loop over the certificates; a nil certificate ends the program.\<close>

fun write_certs :: "'w provider_env \<Rightarrow> Certificate option list \<Rightarrow> 'w \<Rightarrow> (unit result \<times> 'w) option" where
  "write_certs env [] w = Some (Inr (), w)"
| "write_certs env (None # cs) w = None"
| "write_certs env (Some c # cs) w =
     (case pe_writeFile env (CertDir @ ''/new/'' @ cert_Name c @ ''.pem'') (cert_Key c @ nl # cert_Cert c) w of
        (Inl e, w1) \<Rightarrow> Some (Inl e, w1)
      | (Inr _, w1) \<Rightarrow> write_certs env cs w1)"

definition all_certs :: "LoadBalancerConfig \<Rightarrow> Certificate option list" where
  "all_certs lb = (case lb_DefaultCert lb of None \<Rightarrow> [] | Some c \<Rightarrow> [Some c]) @ lb_Certs lb"

text \<open>Everything up to and including the reload: directories, certificates, file, reload.\<close>

fun ensure_dirs :: "'w provider_env \<Rightarrow> string list \<Rightarrow> 'w \<Rightarrow> unit result \<times> 'w" where
  "ensure_dirs env [] w = (Inr (), w)"
| "ensure_dirs env (d # ds) w =
     (case ensure_dir env d w of (Inl e, w1) \<Rightarrow> (Inl e, w1) | (Inr _, w1) \<Rightarrow> ensure_dirs env ds w1)"

definition install_config :: "'w provider_env \<Rightarrow> LoadBalancerConfig \<Rightarrow> 'w \<Rightarrow> (unit result \<times> 'w) option" where
  "install_config env lb w =
     (case ensure_dirs env [CertDir, CertDir @ ''/current'', CertDir @ ''/new''] w of
        (Inl e, w1) \<Rightarrow> Some (Inl e, w1)
      | (Inr _, w1) \<Rightarrow>
          (case write_certs env (all_certs lb) w1 of
             None \<Rightarrow> None
           | Some (Inl e, w2) \<Rightarrow> Some (Inl e, w2)
           | Some (Inr _, w2) \<Rightarrow>
               (case write_config env lb w2 of
                  (Inl e, w3) \<Rightarrow> Some (Inl e, w3)
                | (Inr _, w3) \<Rightarrow> Some (pe_reload env w3))))"

definition applyHaproxyConfig ::
  "'w provider_env \<Rightarrow> LoadBalancerConfig \<Rightarrow> Provider \<Rightarrow> 'w io \<Rightarrow> (unit result \<times> Provider \<times> 'w io) option" where
  "applyHaproxyConfig env lb pv io =
     (case install_config env lb (io_world io) of
        None \<Rightarrow> None
      | Some (Inl e, w) \<Rightarrow> Some (Inl e, pv\<lparr>pv_recoveryBlocked := True\<rparr>, io\<lparr>io_world := w\<rparr>)
      | Some (Inr _, w) \<Rightarrow>
          (case reconcileDrains (pe_haproxy env) False (setDesired lb (pv_drainMgr pv)) (io\<lparr>io_world := w\<rparr>) of
             (r, dm, io') \<Rightarrow> Some (r, pv\<lparr>pv_recoveryBlocked := False, pv_drainMgr := dm\<rparr>, io')))"

text \<open>\<open>ApplyConfig\<close>: \<open>starting i\<close> is what the i-th try sees in \<open>init\<close>.\<close>

definition ApplyConfig ::
  "'w provider_env \<Rightarrow> (nat \<Rightarrow> bool) \<Rightarrow> LoadBalancerConfig \<Rightarrow> Provider \<Rightarrow> 'w io \<Rightarrow>
   (unit result \<times> Provider \<times> 'w io) option" where
  "ApplyConfig env starting lb pv io =
     (if list_ex (\<lambda>i. \<not> starting i) [0 ..< 5] then applyHaproxyConfig env lb pv io
      else Some (Inl (Errorf ''Failed to wait for %s to exit init stage'' [''haproxy'']), pv, io))"

section \<open>Drains\<close>

definition IsEndpointUpForDrain :: "Endpoint \<Rightarrow> Provider \<Rightarrow> bool" where
  "IsEndpointUpForDrain ep pv = fst (isEndpointUpForDrain ep (pv_drainMgr pv))"

definition DrainEndpoint ::
  "'w provider_env \<Rightarrow> Endpoint \<Rightarrow> Provider \<Rightarrow> 'w io \<Rightarrow> bool \<times> Provider \<times> 'w io" where
  "DrainEndpoint env ep pv io =
     (case readPid (pe_haproxy env) io of
        Inl _ \<Rightarrow> (False, pv, io)
      | Inr pid \<Rightarrow>
          (case AddEndpointForDrain (pe_haproxy env) ep pid (pv_drainMgr pv) io of
             (ok, dm, io') \<Rightarrow> (ok, pv\<lparr>pv_drainMgr := dm\<rparr>, io')))"

definition provider_RemoveEndpointFromDrain :: "Endpoint \<Rightarrow> Provider \<Rightarrow> Provider" where
  "provider_RemoveEndpointFromDrain ep pv =
     pv\<lparr>pv_drainMgr := RemoveEndpointFromDrain ep (pv_drainMgr pv)\<rparr>"

definition no_sessions :: "'w haproxy_env \<Rightarrow> Endpoint \<Rightarrow> 'w io \<Rightarrow> bool \<times> 'w io" where
  "no_sessions henv ep io =
     (case readCurrentStats henv (ep_Name ep) io of
        (Inl _, io1) \<Rightarrow> (False, io1)
      | (Inr (scur, _), io1) \<Rightarrow> (scur = ''0'', io1))"

definition IsEndpointDrained ::
  "'w provider_env \<Rightarrow> Endpoint \<Rightarrow> Provider \<Rightarrow> 'w io \<Rightarrow> bool \<times> 'w io" where
  "IsEndpointDrained env ep pv io =
     (let henv = pe_haproxy env in
      case isEndpointUpForDrain ep (pv_drainMgr pv) of
        (False, _) \<Rightarrow> (False, io)
      | (True, pid) \<Rightarrow>
          (case readPid henv io of
             Inl _ \<Rightarrow> (False, io)
           | Inr currentPid \<Rightarrow>
               if pid \<noteq> currentPid then
                 (if pid \<noteq> '''' then
                    (case Atoi pid of
                       None \<Rightarrow> (False, io)
                     | Some pidInt \<Rightarrow> (processExists henv pidInt io = Inr False, io))
                  else
                    (case no_sessions henv ep io of
                       (none, io1) \<Rightarrow> (none \<and> olderPidExists henv io1 = (False, None), io1)))
               else no_sessions henv ep io))"

section \<open>Running\<close>

definition provider_tick :: "'w provider_env \<Rightarrow> Provider \<times> 'w io \<Rightarrow> Provider \<times> 'w io" where
  "provider_tick env s =
     (case reconcileDrains (pe_haproxy env) (pv_recoveryBlocked (fst s)) (pv_drainMgr (fst s)) (snd s) of
        (_, dm, io') \<Rightarrow> ((fst s)\<lparr>pv_drainMgr := dm\<rparr>, io'))"

text \<open>\<open>Run\<close> with \<open>n\<close> ticks before the stop channel is closed; a failed start is ignored.\<close>

definition provider_Run :: "'w provider_env \<Rightarrow> nat \<Rightarrow> Provider \<Rightarrow> 'w io \<Rightarrow> Provider \<times> 'w io" where
  "provider_Run env n pv io =
     (provider_tick env ^^ n) (pv\<lparr>pv_init := False\<rparr>, io\<lparr>io_world := snd (pe_start env (io_world io))\<rparr>)"

text \<open>\<open>Stop\<close> closes the channel; closing it a second time panics.\<close>

definition provider_Stop :: "Provider \<Rightarrow> (unit result \<times> Provider) option" where
  "provider_Stop pv = (if pv_stopped pv then None else Some (Inr (), pv\<lparr>pv_stopped := True\<rparr>))"

definition ProcessCustomConfig :: "LoadBalancerConfig \<Rightarrow> string \<Rightarrow> unit result \<times> LoadBalancerConfig" where
  "ProcessCustomConfig lb customConfig = (Inr (), BuildCustomConfig lb customConfig)"

section \<open>The registry of providers\<close>

text \<open>\<open>provider/provider.go\<close>: the first registration of a name counts.\<close>

definition RegisterProvider :: "string \<Rightarrow> 'p \<Rightarrow> (string, 'p) gomap \<Rightarrow> unit result \<times> (string, 'p) gomap" where
  "RegisterProvider name p providers =
     (if has_key providers name then (Inl (Errorf ''provider already registered'' []), providers)
      else (Inr (), AList.update name p providers))"

definition GetProvider :: "(string, 'p) gomap \<Rightarrow> string \<Rightarrow> 'p option" where
  "GetProvider providers name =
     (case map_of providers name of Some p \<Rightarrow> Some p | None \<Rightarrow> map_of providers ''rancher'')"

section \<open>What the template gets\<close>

lemma collect_backends_inv:
  "collect_backends bes (m, bs) = (m', bs') \<Longrightarrow> set m = be_UUID ` set bs \<Longrightarrow> distinct (map be_UUID bs) \<Longrightarrow>
   set m' = be_UUID ` set bs' \<and> distinct (map be_UUID bs') \<and>
   be_UUID ` set bs' = be_UUID ` set bs \<union> be_UUID ` set bes \<and> set bs' \<subseteq> set bs \<union> set bes"
  by (induction bes "(m, bs)" arbitrary: m bs rule: collect_backends.induct) (force split: if_splits)+

lemma collect_frontends_inv:
  "collect_frontends fes (m, bs) = (fs, bs') \<Longrightarrow> set m = be_UUID ` set bs \<Longrightarrow> distinct (map be_UUID bs) \<Longrightarrow>
   fs = filter (\<lambda>fe. fe_Protocol fe \<in> set supportedProtos) fes \<and> distinct (map be_UUID bs') \<and>
   be_UUID ` set bs' = be_UUID ` set bs \<union> be_UUID ` (\<Union>fe \<in> set fs. set (fe_BackendServices fe)) \<and>
   set bs' \<subseteq> set bs \<union> (\<Union>fe \<in> set fs. set (fe_BackendServices fe))"
proof (induction fes arbitrary: m bs fs bs')
  case (Cons fe fes)
  show ?case
  proof (cases "fe_Protocol fe \<in> set supportedProtos")
    case False
    with Cons show ?thesis by simp
  next
    case True
    obtain m1 bs1 where c: "collect_backends (fe_BackendServices fe) (m, bs) = (m1, bs1)" by fastforce
    obtain fs1 bs2 where d: "collect_frontends fes (m1, bs1) = (fs1, bs2)" by fastforce
    from collect_backends_inv [OF c Cons.prems(2,3)] have i: "set m1 = be_UUID ` set bs1"
      "distinct (map be_UUID bs1)"
      "be_UUID ` set bs1 = be_UUID ` set bs \<union> be_UUID ` set (fe_BackendServices fe)"
      "set bs1 \<subseteq> set bs \<union> set (fe_BackendServices fe)" by blast+
    from Cons.IH [OF d i(1,2)] True Cons.prems(1) c d i(3,4) show ?thesis by (auto 0 3)
  qed
qed auto

text \<open>
  The rendered configuration is complete and has no duplicate section: the frontends are
  those with a supported protocol, in order; the backends are pairwise different in name, they
  all belong to a rendered frontend, and every backend a rendered frontend refers to is there by
  name; strict SNI is on exactly when there is no default certificate.
\<close>

theorem template_complete:
  "td_frontends (template_of lb) = filter (\<lambda>fe. fe_Protocol fe \<in> set supportedProtos) (lb_FrontendServices lb) \<and>
   distinct (map be_UUID (td_backends (template_of lb))) \<and>
   set (td_backends (template_of lb)) \<subseteq> (\<Union>fe \<in> set (td_frontends (template_of lb)). set (fe_BackendServices fe)) \<and>
   be_UUID ` set (td_backends (template_of lb)) =
     be_UUID ` (\<Union>fe \<in> set (td_frontends (template_of lb)). set (fe_BackendServices fe)) \<and>
   td_strictSni (template_of lb) = (td_defaultCertFile (template_of lb) = None)"
proof -
  obtain fs bs where c: "collect_frontends (lb_FrontendServices lb) ([], []) = (fs, bs)" by fastforce
  then have t: "td_frontends (template_of lb) = fs" "td_backends (template_of lb) = bs"
    "td_strictSni (template_of lb) = (td_defaultCertFile (template_of lb) = None)"
    by (simp_all add: template_of_def)
  have "set [] = be_UUID ` set []" "distinct (map be_UUID [])" by simp_all
  from collect_frontends_inv [OF c this] show ?thesis
    unfolding t list.set image_empty Un_empty_left by blast
qed

section \<open>A failed configuration\<close>

lemma provider_tick_blocked: "pv_recoveryBlocked pv \<Longrightarrow> provider_tick env (pv, io) = (pv, io)"
  by (simp add: provider_tick_def reconcileDrains_def)

lemma provider_ticks_blocked: "pv_recoveryBlocked pv \<Longrightarrow> (provider_tick env ^^ n) (pv, io) = (pv, io)"
  by (induction n) (simp_all add: provider_tick_blocked)


section \<open>When a drain is complete\<close>

text \<open>
  An endpoint is reported as drained exactly when it is on the drain list and the process
  that served it has no session left: the process in which it was drained is gone; or it is the
  running one and counts no session; or the drain started without sessions beside an older
  process, and now there are still none and no older process is left. Any error reads as not
  drained, and no answer changes the drain list.
\<close>

theorem IsEndpointDrained_iff:
  "fst (IsEndpointDrained env ep pv io) =
     (case map_of (dm_drainList (pv_drainMgr pv)) (ep_Name ep) of
        None \<Rightarrow> False
      | Some pid \<Rightarrow>
          ep_Name ep \<noteq> '''' \<and>
          (case readPid (pe_haproxy env) io of
             Inl _ \<Rightarrow> False
           | Inr current \<Rightarrow>
               if pid = current then fst (no_sessions (pe_haproxy env) ep io)
               else if pid = ''''
               then fst (no_sessions (pe_haproxy env) ep io) \<and>
                    olderPidExists (pe_haproxy env) (snd (no_sessions (pe_haproxy env) ep io)) = (False, None)
               else \<exists>n. Atoi pid = Some n \<and> processExists (pe_haproxy env) n io = Inr False))"
  by (auto simp: IsEndpointDrained_def isEndpointUpForDrain_def Let_def split: option.splits sum.splits prod.splits)

end
