(* ===== verification/Task_Queue.thy ===== *)
theory Task_Queue
  imports LB_Prelude
begin

text \<open>
  The queue of \<open>utils/utils.go\<close>: producers enqueue keys, one worker synchronizes them. The
  critical sections are atomic steps; sending on the wake channel (of capacity one, without
  blocking) is a step of its own, after the lock is released. The worker is a small state
  machine over its program counter.
\<close>

section \<open>The queue\<close>

record TaskQueue =
  tq_items :: "string list"
  tq_pending :: "(string, unit) gomap"
  tq_wake :: bool
  tq_workerDone :: bool
  tq_stopOnce :: bool
  tq_stopped :: bool

definition NewTaskQueue :: TaskQueue where
  "NewTaskQueue = \<lparr>tq_items = [], tq_pending = [], tq_wake = False, tq_workerDone = False,
     tq_stopOnce = False, tq_stopped = False\<rparr>"

definition queue_pop :: "TaskQueue \<Rightarrow> (string \<times> TaskQueue) option" where
  "queue_pop t =
     (case tq_items t of
        [] \<Rightarrow> None
      | key # items \<Rightarrow> Some (key, t\<lparr>tq_items := items, tq_pending := AList.delete key (tq_pending t)\<rparr>))"

text \<open>The locked part of \<open>Enqueue\<close>; the flag tells that the wake-up follows.\<close>

definition enqueue_locked :: "string \<Rightarrow> TaskQueue \<Rightarrow> bool \<times> TaskQueue" where
  "enqueue_locked key t =
     (if key = '''' \<or> tq_stopped t \<or> has_key (tq_pending t) key then (False, t)
      else (True, t\<lparr>tq_pending := AList.update key () (tq_pending t), tq_items := tq_items t @ [key]\<rparr>))"

definition send_wake :: "TaskQueue \<Rightarrow> TaskQueue" where
  "send_wake t = t\<lparr>tq_wake := True\<rparr>"

definition Enqueue :: "string \<Rightarrow> TaskQueue \<Rightarrow> TaskQueue" where
  "Enqueue key t = (case enqueue_locked key t of (added, t') \<Rightarrow> if added then send_wake t' else t')"

definition Requeue :: "string \<Rightarrow> go_error \<Rightarrow> TaskQueue \<Rightarrow> TaskQueue" where
  "Requeue key err t = Enqueue key t"

text \<open>The first half of \<open>Shutdown\<close>'s \<open>stopOnce\<close> body; again the wake-up follows.\<close>

definition shutdown_locked :: "TaskQueue \<Rightarrow> bool \<times> TaskQueue" where
  "shutdown_locked t =
     (if tq_stopOnce t then (False, t) else (True, t\<lparr>tq_stopOnce := True, tq_stopped := True\<rparr>))"

definition Shutdown :: "TaskQueue \<Rightarrow> TaskQueue" where
  "Shutdown t = (case shutdown_locked t of (first, t') \<Rightarrow> if first then send_wake t' else t')"

section \<open>The contract of a coalescing queue\<close>

locale coalescing_queue =
  fixes enq :: "'k \<Rightarrow> 'q \<Rightarrow> 'q" and deq :: "'q \<Rightarrow> ('k \<times> 'q) option"
    and waiting :: "'q \<Rightarrow> 'k list" and accepts :: "'q \<Rightarrow> 'k \<Rightarrow> bool" and ok :: "'q \<Rightarrow> bool"
  assumes enq_waiting: "ok q \<Longrightarrow> waiting (enq k q) =
      (if accepts q k \<and> k \<notin> set (waiting q) then waiting q @ [k] else waiting q)"
    and enq_accepts: "accepts (enq k q) j = accepts q j"
    and enq_ok: "ok q \<Longrightarrow> ok (enq k q)"
    and deq_none: "deq q = None \<longleftrightarrow> waiting q = []"
    and deq_some: "deq q = Some (k, q') \<Longrightarrow> waiting q = k # waiting q' \<and> (\<forall>j. accepts q' j = accepts q j)"
    and deq_ok: "ok q \<Longrightarrow> deq q = Some (k, q') \<Longrightarrow> ok q'"
begin

lemma burst:
  "ok q \<Longrightarrow> waiting (fold enq ks q) =
     waiting q @ rev (remdups (rev (filter (\<lambda>k. accepts q k \<and> k \<notin> set (waiting q)) ks)))"
proof (induction ks rule: rev_induct)
  case (snoc k ks)
  have ok: "ok (fold enq ks q)" for ks
    using snoc.prems by (induction ks rule: rev_induct) (auto intro: enq_ok)
  have acc: "accepts (fold enq ks q) j = accepts q j" for ks j
    by (induction ks rule: rev_induct) (auto simp: enq_accepts)
  let ?P = "\<lambda>k. accepts q k \<and> k \<notin> set (waiting q)"
  have w: "waiting (fold enq ks q) = waiting q @ rev (remdups (rev (filter ?P ks)))"
    by (rule snoc.IH [OF snoc.prems])
  then have mem: "k \<in> set (waiting (fold enq ks q)) \<longleftrightarrow> k \<in> set (waiting q) \<or> k \<in> set (filter ?P ks)"
    by auto
  have e: "waiting (fold enq (ks @ [k]) q) =
      (if accepts q k \<and> k \<notin> set (waiting (fold enq ks q)) then waiting (fold enq ks q) @ [k]
       else waiting (fold enq ks q))"
    using enq_waiting [OF ok, of k ks] acc by simp
  show ?case
  proof (cases "?P k")
    case True
    then have "(accepts q k \<and> k \<notin> set (waiting (fold enq ks q))) = (k \<notin> set (filter ?P ks))"
      unfolding mem by blast
    then show ?thesis
      unfolding e using True by (simp add: w)
  next
    case False
    then have "\<not> (accepts q k \<and> k \<notin> set (waiting (fold enq ks q)))"
      unfolding mem by blast
    then have "waiting (fold enq (ks @ [k]) q) = waiting (fold enq ks q)" unfolding e by (rule if_not_P)
    moreover have "filter ?P (ks @ [k]) = filter ?P ks" using False by simp
    ultimately show ?thesis using w by (simp only:)
  qed
qed simp

text \<open>Taking everything out gives the waiting keys in order.\<close>

fun take_out :: "nat \<Rightarrow> 'q \<Rightarrow> 'k list" where
  "take_out 0 q = []"
| "take_out (Suc n) q = (case deq q of None \<Rightarrow> [] | Some (k, q') \<Rightarrow> k # take_out n q')"

lemma take_out: "length (waiting q) \<le> n \<Longrightarrow> take_out n q = waiting q"
proof (induction n arbitrary: q)
  case (Suc n)
  show ?case
  proof (cases "deq q")
    case None
    with deq_none [of q] show ?thesis by simp
  next
    case (Some kq)
    then obtain k q' where k: "deq q = Some (k, q')" by (cases kq) auto
    from deq_some [OF k] Suc k show ?thesis by auto
  qed
qed (use deq_none in auto)

end

text \<open>The invariant of the queue: the set of pending keys and the list agree.\<close>

definition queue_ok :: "TaskQueue \<Rightarrow> bool" where
  "queue_ok t \<longleftrightarrow> distinct (tq_items t) \<and> '''' \<notin> set (tq_items t) \<and>
     (\<forall>k. has_key (tq_pending t) k \<longleftrightarrow> k \<in> set (tq_items t))"

definition queue_accepts :: "TaskQueue \<Rightarrow> string \<Rightarrow> bool" where
  "queue_accepts t k \<longleftrightarrow> k \<noteq> '''' \<and> \<not> tq_stopped t"

lemma enqueue_locked_ok: "queue_ok t \<Longrightarrow> queue_ok (snd (enqueue_locked key t))"
  by (auto simp: queue_ok_def enqueue_locked_def)

lemma queue_pop_ok: "queue_ok t \<Longrightarrow> queue_pop t = Some (k, t') \<Longrightarrow> queue_ok t'"
proof -
  assume ok: "queue_ok t" and "queue_pop t = Some (k, t')"
  then obtain items where i: "tq_items t = k # items"
    and t': "t' = t\<lparr>tq_items := items, tq_pending := AList.delete k (tq_pending t)\<rparr>"
    by (cases "tq_items t") (simp_all add: queue_pop_def)
  have "has_key (tq_pending t') j \<longleftrightarrow> j \<in> set items" for j
  proof -
    have "has_key (tq_pending t) j \<longleftrightarrow> j = k \<or> j \<in> set items"
      using ok i unfolding queue_ok_def by (metis set_ConsD list.set_intros)
    moreover have "k \<notin> set items" using ok i unfolding queue_ok_def by simp
    ultimately show ?thesis by (cases "j = k") (simp_all add: t')
  qed
  with ok i t' show ?thesis by (simp add: queue_ok_def)
qed

lemma queue_ok_update [simp]:
  "queue_ok (t\<lparr>tq_wake := b\<rparr>) = queue_ok t" "queue_ok (t\<lparr>tq_workerDone := b\<rparr>) = queue_ok t"
  "queue_ok (t\<lparr>tq_stopped := b\<rparr>) = queue_ok t" "queue_ok (t\<lparr>tq_stopOnce := b\<rparr>) = queue_ok t"
  by (simp_all add: queue_ok_def)

lemma queue_new_ok: "queue_ok NewTaskQueue"
  by (simp add: queue_ok_def NewTaskQueue_def)

lemma Enqueue_frame [simp]:
  "tq_items (Enqueue k t) = tq_items (snd (enqueue_locked k t))"
  "tq_pending (Enqueue k t) = tq_pending (snd (enqueue_locked k t))"
  "tq_stopped (Enqueue k t) = tq_stopped t"
  by (simp_all add: Enqueue_def send_wake_def enqueue_locked_def)

interpretation tq: coalescing_queue Enqueue queue_pop tq_items queue_accepts queue_ok
proof unfold_locales
  fix q k j q'
  show "queue_ok q \<Longrightarrow> tq_items (Enqueue k q) =
      (if queue_accepts q k \<and> k \<notin> set (tq_items q) then tq_items q @ [k] else tq_items q)"
    by (auto simp: queue_ok_def enqueue_locked_def queue_accepts_def)
  show "queue_accepts (Enqueue k q) j = queue_accepts q j" by (simp add: queue_accepts_def)
  show "queue_ok q \<Longrightarrow> queue_ok (Enqueue k q)"
    using enqueue_locked_ok [of q k] by (simp add: queue_ok_def)
  show "queue_pop q = None \<longleftrightarrow> tq_items q = []" by (auto simp: queue_pop_def split: list.splits)
  show "queue_pop q = Some (k, q') \<Longrightarrow> tq_items q = k # tq_items q' \<and> (\<forall>j. queue_accepts q' j = queue_accepts q j)"
    by (auto simp: queue_pop_def queue_accepts_def split: list.splits)
  show "queue_ok q \<Longrightarrow> queue_pop q = Some (k, q') \<Longrightarrow> queue_ok q'" by (rule queue_pop_ok)
qed

section \<open>The worker\<close>

text \<open>
  \<open>Run\<close> is about to pop, is inside \<open>sync\<close> of a key, waits in the \<open>select\<close>, or has returned.
  The system state adds the producers that hold an unsent wake-up, whether the stop channel is
  closed, and two histories: the keys accepted and the keys handed to \<open>sync\<close>.
\<close>

datatype worker = Popping | Syncing string | Selecting | Returned

record queue_system =
  qs_queue :: TaskQueue
  qs_worker :: worker
  qs_notifiers :: nat
  qs_stopCh :: bool
  qs_accepted :: "string list"
  qs_synced :: "string list"

definition init_system :: queue_system where
  "init_system = \<lparr>qs_queue = NewTaskQueue, qs_worker = Popping, qs_notifiers = 0, qs_stopCh = False,
     qs_accepted = [], qs_synced = []\<rparr>"

inductive queue_step :: "queue_system \<Rightarrow> queue_system \<Rightarrow> bool" where
  enqueue: "enqueue_locked key (qs_queue s) = (added, t) \<Longrightarrow>
    queue_step s (s\<lparr>qs_queue := t, qs_notifiers := (if added then Suc (qs_notifiers s) else qs_notifiers s),
      qs_accepted := (if added then qs_accepted s @ [key] else qs_accepted s)\<rparr>)"
| shutdown: "shutdown_locked (qs_queue s) = (first, t) \<Longrightarrow>
    queue_step s (s\<lparr>qs_queue := t, qs_notifiers := (if first then Suc (qs_notifiers s) else qs_notifiers s)\<rparr>)"
| wake: "qs_notifiers s = Suc n \<Longrightarrow>
    queue_step s (s\<lparr>qs_queue := send_wake (qs_queue s), qs_notifiers := n\<rparr>)"
| stop: "queue_step s (s\<lparr>qs_stopCh := True\<rparr>)"
| pop_key: "qs_worker s = Popping \<Longrightarrow> queue_pop (qs_queue s) = Some (key, t) \<Longrightarrow>
    queue_step s (s\<lparr>qs_queue := t, qs_worker := Syncing key, qs_synced := qs_synced s @ [key]\<rparr>)"
| synced: "qs_worker s = Syncing key \<Longrightarrow> queue_step s (s\<lparr>qs_worker := Popping\<rparr>)"
| pop_none: "qs_worker s = Popping \<Longrightarrow> queue_pop (qs_queue s) = None \<Longrightarrow>
    queue_step s (s\<lparr>qs_worker := Selecting\<rparr>)"
| woken: "qs_worker s = Selecting \<Longrightarrow> tq_wake (qs_queue s) \<Longrightarrow>
    queue_step s (s\<lparr>qs_queue := (qs_queue s)\<lparr>tq_wake := False\<rparr>, qs_worker := Popping\<rparr>)"
| stopping: "qs_worker s = Selecting \<Longrightarrow> qs_stopCh s \<Longrightarrow>
    queue_step s (s\<lparr>qs_queue := (snd (shutdown_locked (qs_queue s)))\<lparr>tq_workerDone := True\<rparr>, qs_worker := Returned\<rparr>)"

inductive queue_reachable :: "queue_system \<Rightarrow> bool" where
  init: "queue_reachable init_system"
| step: "queue_reachable s \<Longrightarrow> queue_step s s' \<Longrightarrow> queue_reachable s'"

definition system_ok :: "queue_system \<Rightarrow> bool" where
  "system_ok s \<longleftrightarrow> queue_ok (qs_queue s) \<and>
     qs_accepted s = qs_synced s @ tq_items (qs_queue s) \<and>
     (if qs_worker s = Selecting \<and> tq_items (qs_queue s) \<noteq> []
      then tq_wake (qs_queue s) \<or> 0 < qs_notifiers s else True) \<and>
     tq_workerDone (qs_queue s) = (qs_worker s = Returned) \<and>
     (if qs_worker s = Returned then qs_stopCh s else True)"

lemma enqueue_lockedD:
  "enqueue_locked key q = (added, t) \<Longrightarrow>
   tq_items t = (if added then tq_items q @ [key] else tq_items q) \<and> tq_wake t = tq_wake q \<and>
   tq_workerDone t = tq_workerDone q \<and> tq_stopped t = tq_stopped q"
  by (auto simp: enqueue_locked_def split: if_splits)

lemma system_ok_step: "queue_step s s' \<Longrightarrow> system_ok s \<Longrightarrow> system_ok s'"
proof (induction rule: queue_step.induct)
  case (enqueue key s added t)
  then have "queue_ok t" using enqueue_locked_ok [of "qs_queue s" key] by (simp add: system_ok_def)
  with enqueue enqueue_lockedD [OF enqueue.hyps] show ?case
    by (cases added) (simp_all add: system_ok_def)
next
  case (shutdown s first t)
  then show ?case by (cases "tq_stopOnce (qs_queue s)") (auto simp: system_ok_def shutdown_locked_def)
next
  case (pop_key s key t)
  moreover have "queue_ok t"
    using pop_key queue_pop_ok [of "qs_queue s" key t] by (simp add: system_ok_def)
  ultimately show ?case
    by (auto simp: system_ok_def queue_pop_def simp del: queue_ok_update split: list.splits)
next
  case (pop_none s)
  then show ?case by (simp add: system_ok_def queue_pop_def split: list.splits)
next
  case (stopping s)
  then show ?case by (simp add: system_ok_def shutdown_locked_def)
qed (simp_all add: system_ok_def send_wake_def)

lemma init_system_ok: "system_ok init_system"
  by (simp add: system_ok_def init_system_def queue_new_ok) (simp add: NewTaskQueue_def)

lemma reachable_system_ok: "queue_reachable s \<Longrightarrow> system_ok s"
  by (induction rule: queue_reachable.induct) (blast intro: init_system_ok system_ok_step)+

section \<open>Properties\<close>

text \<open>
  Bursts are coalesced in order: enqueueing any keys on a new queue leaves each key that is
  not empty once, in the order of their first occurrences, and after a shutdown nothing is added.
\<close>

theorem enqueue_burst:
  "tq_items (fold Enqueue ks NewTaskQueue) = rev (remdups (rev (filter (\<lambda>k. k \<noteq> '''') ks))) \<and>
   tq_items (fold Enqueue js (Shutdown (fold Enqueue ks NewTaskQueue))) = tq_items (fold Enqueue ks NewTaskQueue)"
proof -
  let ?q = "fold Enqueue ks NewTaskQueue"
  have e: "tq_stopOnce (Enqueue k t) = tq_stopOnce t" for k t
    by (simp add: Enqueue_def enqueue_locked_def send_wake_def)
  have ok: "queue_ok (fold Enqueue ks NewTaskQueue)"
    by (induction ks rule: rev_induct) (simp_all add: queue_new_ok tq.enq_ok)
  have once: "\<not> tq_stopOnce (fold Enqueue ks NewTaskQueue)"
    by (induction ks rule: rev_induct) (simp_all add: e, simp add: NewTaskQueue_def)
  from ok have "queue_ok (Shutdown ?q)" by (simp add: Shutdown_def shutdown_locked_def send_wake_def)
  from tq.burst [OF this, of js] tq.burst [OF queue_new_ok, of ks] once show ?thesis
    by (simp add: queue_accepts_def NewTaskQueue_def Shutdown_def shutdown_locked_def send_wake_def)
qed

text \<open>
  C25 No key is lost, duplicated or reordered: in every reachable state of producers and worker,
  the keys handed to \<open>sync\<close> followed by those waiting are exactly the accepted ones in their
  order, nothing waits twice, and a worker that waits in the \<open>select\<close> while keys are queued has
  a wake-up on the channel or on its way; the worker only returns when it was stopped.
\<close>

theorem queue_no_lost_key:
  assumes "queue_reachable s"
  shows "qs_accepted s = qs_synced s @ tq_items (qs_queue s) \<and> distinct (tq_items (qs_queue s)) \<and>
    (if qs_worker s = Selecting \<and> tq_items (qs_queue s) \<noteq> []
     then tq_wake (qs_queue s) \<or> 0 < qs_notifiers s else True) \<and>
    (if qs_worker s = Returned then qs_stopCh s else True)"
  using reachable_system_ok [OF assms] by (simp add: system_ok_def queue_ok_def)

lemma enqueue_a: "queue_step init_system (init_system\<lparr>qs_queue := snd (enqueue_locked ''a'' NewTaskQueue),
    qs_notifiers := 1, qs_accepted := [''a'']\<rparr>)"
  using queue_step.enqueue [of "''a''" init_system True "snd (enqueue_locked ''a'' NewTaskQueue)"]
  by (simp add: init_system_def enqueue_locked_def NewTaskQueue_def)

lemma queue_no_lost_key_witness:
  "qs_accepted (init_system\<lparr>qs_queue := snd (enqueue_locked ''a'' NewTaskQueue),
    qs_notifiers := 1, qs_accepted := [''a'']\<rparr>) = [] @ [''a'']"
  using queue_no_lost_key [OF queue_reachable.step [OF queue_reachable.init enqueue_a]]
  by (simp add: init_system_def enqueue_locked_def NewTaskQueue_def)

lemma worker_drains:
  "qs_worker s = Popping \<Longrightarrow> tq_items (qs_queue s) = ks \<Longrightarrow>
   \<exists>s'. queue_step\<^sup>*\<^sup>* s s' \<and> qs_accepted s' = qs_accepted s \<and> qs_synced s' = qs_synced s @ ks \<and>
        qs_worker s' = Popping \<and> tq_items (qs_queue s') = []"
proof (induction ks arbitrary: s)
  case Nil
  then show ?case by (intro exI [of _ s]) simp
next
  case (Cons k ks)
  from Cons.prems obtain t where p: "queue_pop (qs_queue s) = Some (k, t)" and t: "tq_items t = ks"
    by (simp add: queue_pop_def)
  let ?s1 = "s\<lparr>qs_queue := t, qs_worker := Syncing k, qs_synced := qs_synced s @ [k]\<rparr>"
  let ?s2 = "?s1\<lparr>qs_worker := Popping\<rparr>"
  have "queue_step s ?s1" using Cons.prems p by (intro queue_step.pop_key)
  moreover have "queue_step ?s1 ?s2" by (rule queue_step.synced) simp
  moreover obtain s' where "queue_step\<^sup>*\<^sup>* ?s2 s'" "qs_accepted s' = qs_accepted s"
    "qs_synced s' = qs_synced s @ k # ks" "qs_worker s' = Popping" "tq_items (qs_queue s') = []"
    using Cons.IH [of ?s2] t by auto
  ultimately show ?case by (blast intro: converse_rtranclp_into_rtranclp)
qed

text \<open>
  C26 Every accepted key can still be synchronized: from every reachable state whose worker has
  not returned, the steps of the system lead to a state in which exactly the accepted keys have
  been handed to \<open>sync\<close>. In particular the worker never gets stuck in the \<open>select\<close>.
\<close>

theorem queue_progress:
  assumes R: "queue_reachable s" and W: "qs_worker s \<noteq> Returned"
  shows "\<exists>s'. queue_step\<^sup>*\<^sup>* s s' \<and> qs_accepted s' = qs_accepted s \<and> qs_synced s' = qs_accepted s"
proof -
  note ok = reachable_system_ok [OF R, unfolded system_ok_def]
  have pop: "\<exists>s'. queue_step\<^sup>*\<^sup>* s s' \<and> qs_accepted s' = qs_accepted s \<and> qs_synced s' = qs_accepted s"
    if "queue_step\<^sup>*\<^sup>* s u" "qs_worker u = Popping" "qs_accepted u = qs_accepted s" "qs_synced u = qs_synced s"
      "tq_items (qs_queue u) = tq_items (qs_queue s)" for u
    using worker_drains [OF that(2) that(5)] that ok by (metis rtranclp_trans)
  show ?thesis
  proof (cases "qs_worker s")
    case Popping
    then show ?thesis by (intro pop) auto
  next
    case (Syncing k)
    then have "queue_step s (s\<lparr>qs_worker := Popping\<rparr>)" by (rule queue_step.synced)
    then show ?thesis by (intro pop [of "s\<lparr>qs_worker := Popping\<rparr>"]) auto
  next
    case Selecting
    have woken: "\<exists>v. queue_step u v \<and> qs_worker v = Popping \<and> qs_accepted v = qs_accepted u \<and>
        qs_synced v = qs_synced u \<and> tq_items (qs_queue v) = tq_items (qs_queue u)"
      if "qs_worker u = Selecting" "tq_wake (qs_queue u)" for u
      using queue_step.woken [OF that] by force
    show ?thesis
    proof (cases "tq_items (qs_queue s) = []")
      case True
      with ok show ?thesis by (intro exI [of _ s]) simp
    next
      case False
      show ?thesis
      proof (cases "tq_wake (qs_queue s)")
        case True
        from woken [OF Selecting this] pop show ?thesis by (metis r_into_rtranclp)
      next
        case nw: False
        with ok Selecting False obtain n where n: "qs_notifiers s = Suc n" by (cases "qs_notifiers s") auto
        let ?u = "s\<lparr>qs_queue := send_wake (qs_queue s), qs_notifiers := n\<rparr>"
        have u: "queue_step s ?u" using n by (rule queue_step.wake)
        obtain v where "queue_step ?u v" "qs_worker v = Popping" "qs_accepted v = qs_accepted s"
          "qs_synced v = qs_synced s" "tq_items (qs_queue v) = tq_items (qs_queue s)"
          using woken [of ?u] Selecting by (auto simp: send_wake_def)
        with u pop show ?thesis by (meson converse_rtranclp_into_rtranclp r_into_rtranclp)
      qed
    qed
  qed (use W in simp)
qed

lemma queue_progress_witness:
  "\<exists>s'. queue_step\<^sup>*\<^sup>* (init_system\<lparr>qs_queue := snd (enqueue_locked ''a'' NewTaskQueue),
    qs_notifiers := 1, qs_accepted := [''a'']\<rparr>) s' \<and> qs_accepted s' = [''a''] \<and> qs_synced s' = [''a'']"
  using queue_progress [OF queue_reachable.step [OF queue_reachable.init enqueue_a]]
  by (simp add: init_system_def)

end
