(* ===== verification/Text_Theorems.thy ===== *)
theory Text_Theorems
  imports Selector Log_Safety
begin

text \<open>
  The properties of the two text components: what a selector matches, and what a sanitized log
  text can contain.
\<close>

section \<open>Selectors\<close>

text \<open>What the constraint text \<open>t\<close> asks of the labels.\<close>

definition text_matches :: "(string, string) gomap \<Rightarrow> string \<Rightarrow> bool" where
  "text_matches labels t =
     (case Split t EQ of
        [k, v] \<Rightarrow> list_ex (\<lambda>(a, b). EqualFold a (TrimSpace k) \<and> EqualFold b (TrimSpace v)) labels
      | _ \<Rightarrow> has_key labels '''')"

lemma constraint_match_text: "constraint_match (the (GetSelectorConstraint t)) labels = text_matches labels t"
  unfolding GetSelectorConstraint_eq text_matches_def by (auto split: list.split)

text \<open>
  A selector is a conjunction of label tests: for an ASCII selector without parentheses that
  does not end in a comma, the labels match exactly when every comma-separated part does, and a
  part \<open>key=value\<close> matches when some label has that key and value up to case and surrounding
  white space.
\<close>

theorem selector_conjunction:
  assumes "is_ascii s" and "CHR ''('' \<notin> set s" and "CHR '')'' \<notin> set s" and "s \<noteq> ''''" and "last s \<noteq> CHR '',''"
  shows "IsSelectorMatch s labels = list_all (text_matches labels) (Split s '','')"
  using constraint_texts_ascii [OF assms(1-4)] assms(4,5)
  by (simp add: IsSelectorMatch_iff constraint_match_text list_all_iff)

lemma selector_conjunction_witness:
  "IsSelectorMatch ''a=b,c=d'' [(''a'', ''B'')] = list_all (text_matches [(''a'', ''B'')]) (Split ''a=b,c=d'' '','')"
proof (rule selector_conjunction)
  show "is_ascii ''a=b,c=d''" by code_simp
qed simp_all

text \<open>
  Only equality selectors work: whatever the selector, every constraint read from it is an
  equality or the test for a label with the empty name; \<open>in\<close>, \<open>notin\<close>, \<open>!=\<close> and the bare key, which
  the code declares operators for, are never read, and \<open>a!=b\<close> is the equality of the key \<open>a!\<close>.
\<close>

theorem selector_operators_lost:
  "list_all (\<lambda>c. case c of SelectorConstraintEq k v \<Rightarrow> True | SelectorConstraintNoop k \<Rightarrow> k = '''' | _ \<Rightarrow> False)
     (GetSelectorConstraints s) \<and>
   GetSelectorConstraint ''a!=b'' = Some (SelectorConstraintEq ''a!'' ''b'') \<and>
   GetSelectorConstraint ''a in (b,c)'' = Some (SelectorConstraintNoop '''') \<and>
   GetSelectorConstraint ''a'' = Some (SelectorConstraintNoop '''')"
proof (intro conjI)
  show "list_all (\<lambda>c. case c of SelectorConstraintEq k v \<Rightarrow> True | SelectorConstraintNoop k \<Rightarrow> k = '''' | _ \<Rightarrow> False)
     (GetSelectorConstraints s)"
    by (auto simp: GetSelectorConstraints_map list_all_iff GetSelectorConstraint_eq split: list.split)
qed code_simp+

section \<open>Log texts\<close>

lemma runes_printable:
  "list_all (\<lambda>c. 32 \<le> code c \<and> code c < 127) s \<Longrightarrow>
   concat (map (\<lambda>(i, r). encode_rune (sanitize_rune r)) (runes_from i s)) = s"
  by (induction s arbitrary: i) (auto simp: sanitize_rune_def is_control_def)

lemma ReplaceAll_absent: "x \<notin> set s \<Longrightarrow> ReplaceAll s [x] new = s"
  by (simp add: ReplaceAll_def Split_no_sep Cut_single)

text \<open>
  A sanitized text stays in its log record: it contains no ASCII control character, in
  particular no line break or escape, whatever the input bytes are; and a text of printable
  ASCII characters is unchanged.
\<close>

theorem sanitized_no_control:
  "list_all (\<lambda>c. 32 \<le> code c \<and> code c \<noteq> 127) (SanitizeLogText s) \<and>
   (if list_all (\<lambda>c. 32 \<le> code c \<and> code c < 127) s then SanitizeLogText s = s else True)"
proof -
  let ?m = "map_runes sanitize_rune s"
  let ?r = "ReplaceAll ?m [CHR 0x0D] (CHR 0x5C # ''r'')"
  have "32 \<le> code c \<and> code c \<noteq> 127" if "c \<in> set (SanitizeLogText s)" for c
  proof -
    from that have "c \<in> (set ?r - {CHR 0x0A}) \<union> set (CHR 0x5C # ''n'')"
      using ReplaceAll_single_set [of ?r "CHR 0x0A" "CHR 0x5C # ''n''"] unfolding SanitizeLogText_def Let_def by blast
    then consider "c \<in> set ?m" "c \<noteq> CHR 0x0A" "c \<noteq> CHR 0x0D" | "c \<in> {CHR 0x5C, CHR ''n'', CHR ''r''}"
      using ReplaceAll_single_set [of ?m "CHR 0x0D" "CHR 0x5C # ''r''"] by auto
    then show ?thesis
    proof cases
      case 1
      have "c = char_of (code c)" by simp
      with 1 have "code c \<noteq> 10" "code c \<noteq> 13" by (auto simp: char_of_def bit_0)
      with map_runes_control [OF 1(1)] show ?thesis by force
    qed auto
  qed
  moreover have "SanitizeLogText s = s" if p: "list_all (\<lambda>c. 32 \<le> code c \<and> code c < 127) s"
  proof -
    have m: "?m = s" using runes_printable [OF p] by (simp add: map_runes_def)
    have "CHR 0x0D \<notin> set s" "CHR 0x0A \<notin> set s" using p by (auto simp: list_all_iff)
    then show ?thesis by (simp add: SanitizeLogText_def m ReplaceAll_absent)
  qed
  ultimately show ?thesis by (simp add: list_all_iff)
qed

end
