(* ===== verification/Worker_Pool.thy ===== *)
theory Worker_Pool
  imports Metadata_Types
begin

text \<open>
  Events and the pool of workers that handle them (\<open>internal/events/event.go\<close>,
  \<open>internal/events/worker.go\<close>), with the locks by key of \<open>internal/locks/locks.go\<close>. The locker is one
  goroutine that serves one request after the other, so each request is an atomic step.
\<close>

section \<open>Events and replies\<close>

record Event =
  ev_Name :: string
  ev_ID :: string
  ev_PreviousIds :: string
  ev_PreviousNames :: string
  ev_Publisher :: string
  ev_ReplyTo :: string
  ev_ResourceID :: string
  ev_ResourceType :: string
  ev_Transitioning :: string
  ev_TransitioningInternalMessage :: string
  ev_TransitioningMessage :: string
  ev_TransitioningProgress :: string
  ev_Data :: "(string, json) gomap"
  ev_Time :: string

definition zero_Event :: Event where
  "zero_Event = \<lparr>ev_Name = '''', ev_ID = '''', ev_PreviousIds = '''', ev_PreviousNames = '''', ev_Publisher = '''',
     ev_ReplyTo = '''', ev_ResourceID = '''', ev_ResourceType = '''', ev_Transitioning = '''',
     ev_TransitioningInternalMessage = '''', ev_TransitioningMessage = '''', ev_TransitioningProgress = '''',
     ev_Data = [], ev_Time = ''''\<rparr>"

record ReplyEvent =
  re_Name :: string
  re_PreviousIds :: "string list"
  re_Data :: "(string, json) gomap"

definition NewReplyEvent :: "string \<Rightarrow> string \<Rightarrow> ReplyEvent" where
  "NewReplyEvent replyTo eventID = \<lparr>re_Name = replyTo, re_PreviousIds = [eventID], re_Data = []\<rparr>"

text \<open>The fields of the API's \<open>Publish\<close> resource that the handlers set.\<close>

record Publish =
  pub_Name :: string
  pub_PreviousIds :: "string list"
  pub_ResourceType :: string
  pub_ResourceId :: string
  pub_Transitioning :: string
  pub_TransitioningMessage :: string

section \<open>Locks\<close>

text \<open>\<open>resourceIDLocker\<close> gives a lock on a key, or none (\<open>NopLocker\<close>) for an event without resource.\<close>

definition resourceIDLocker :: "Event \<Rightarrow> string option" where
  "resourceIDLocker event =
     (if ev_ResourceID event = '''' then None
      else Some (ev_ResourceType event @ '':'' @ ev_ResourceID event))"

definition nopLocker :: "Event \<Rightarrow> string option" where
  "nopLocker event = None"

datatype operation = LOCK | UNLOCK

text \<open>
  One round of \<open>locker\<close>: the response (whether an unlocker is sent; \<open>UNLOCK\<close> has none) and the
  new set of locked keys.
\<close>

definition locker_serve :: "operation \<Rightarrow> string \<Rightarrow> string list \<Rightarrow> bool \<times> string list" where
  "locker_serve opr key lockedItems =
     (case opr of
        LOCK \<Rightarrow> if key \<in> set lockedItems then (False, lockedItems) else (True, key # lockedItems)
      | UNLOCK \<Rightarrow> (False, filter (\<lambda>k. k \<noteq> key) lockedItems))"

definition acquire :: "string option \<Rightarrow> string list \<Rightarrow> bool \<times> string list" where
  "acquire lock items = (case lock of None \<Rightarrow> (True, items) | Some key \<Rightarrow> locker_serve LOCK key items)"

definition release :: "string option \<Rightarrow> string list \<Rightarrow> string list" where
  "release lock items = (case lock of None \<Rightarrow> items | Some key \<Rightarrow> snd (locker_serve UNLOCK key items))"

section \<open>Handling one event\<close>

text \<open>
  What the pool calls: the handlers by event name, the text of an error, and the publishing of a
  reply, acting on a world.
\<close>

record 'w work_env =
  we_handlers :: "(string, Event \<Rightarrow> 'w \<Rightarrow> unit result \<times> 'w) gomap"
  we_errorText :: "go_error \<Rightarrow> string"
  we_publish :: "Publish \<Rightarrow> 'w \<Rightarrow> unit result \<times> 'w"

text \<open>\<open>doWork\<close> between lock and unlock: an error of the handler is answered with an error reply.\<close>

definition run_handler :: "'w work_env \<Rightarrow> Event \<Rightarrow> 'w \<Rightarrow> 'w" where
  "run_handler env event w =
     (case map_of (we_handlers env) (ev_Name event) of
        None \<Rightarrow> w
      | Some fn \<Rightarrow>
          (case fn event w of
             (Inr _, w1) \<Rightarrow> w1
           | (Inl err, w1) \<Rightarrow>
               snd (we_publish env \<lparr>pub_Name = ev_ReplyTo event, pub_PreviousIds = [ev_ID event],
                 pub_ResourceType = '''', pub_ResourceId = '''', pub_Transitioning = ''error'',
                 pub_TransitioningMessage = we_errorText env err\<rparr> w1)))"

definition doWork :: "'w work_env \<Rightarrow> Event \<Rightarrow> string option \<Rightarrow> string list \<Rightarrow> 'w \<Rightarrow> string list \<times> 'w" where
  "doWork env event lock items w =
     (case acquire lock items of
        (False, items1) \<Rightarrow> (items1, w)
      | (True, items1) \<Rightarrow> (release lock items1, run_handler env event w))"

section \<open>The pool\<close>

text \<open>
  A worker that took a token is about to lock, runs its handler, or is about to return the token.
  The state is the tokens in the channel, the busy workers, the locked keys, and the events
  dropped for want of a worker.
\<close>

datatype phase = Starting | Running | Finished

record worker_job =
  wj_token :: nat
  wj_event :: Event
  wj_phase :: phase

record pool =
  wp_workers :: "nat list"
  wp_jobs :: "worker_job list"
  wp_locked :: "string list"
  wp_dropped :: "Event list"

definition SkippingWorkerPool :: "nat \<Rightarrow> pool" where
  "SkippingWorkerPool size_n = \<lparr>wp_workers = [0 ..< size_n], wp_jobs = [], wp_locked = [], wp_dropped = []\<rparr>"

text \<open>\<open>HandleWork\<close> of the skipping pool: without a free token the event is dropped.\<close>

definition HandleWork :: "Event \<Rightarrow> pool \<Rightarrow> pool" where
  "HandleWork event p =
     (case wp_workers p of
        [] \<Rightarrow> p\<lparr>wp_dropped := wp_dropped p @ [event]\<rparr>
      | w # ws \<Rightarrow> p\<lparr>wp_workers := ws,
           wp_jobs := wp_jobs p @ [\<lparr>wj_token = w, wj_event = event, wj_phase = Starting\<rparr>]\<rparr>)"

text \<open>
  The steps of the workers. The pool locks with \<open>lock\<close> (\<open>resourceIDLocker\<close> or \<open>nopLocker\<close>); the jobs
  are interleaved in any order.
\<close>

inductive pool_step :: "(Event \<Rightarrow> string option) \<Rightarrow> pool \<Rightarrow> pool \<Rightarrow> bool" for lock where
  handle: "pool_step lock p (HandleWork event p)"
| lock_key: "wp_jobs p = js @ j # js' \<Longrightarrow> wj_phase j = Starting \<Longrightarrow>
    acquire (lock (wj_event j)) (wp_locked p) = (ok, items) \<Longrightarrow>
    pool_step lock p (p\<lparr>wp_jobs := js @ j\<lparr>wj_phase := (if ok then Running else Finished)\<rparr> # js', wp_locked := items\<rparr>)"
| unlock_key: "wp_jobs p = js @ j # js' \<Longrightarrow> wj_phase j = Running \<Longrightarrow>
    pool_step lock p (p\<lparr>wp_jobs := js @ j\<lparr>wj_phase := Finished\<rparr> # js',
      wp_locked := release (lock (wj_event j)) (wp_locked p)\<rparr>)"
| give_back: "wp_jobs p = js @ j # js' \<Longrightarrow> wj_phase j = Finished \<Longrightarrow>
    pool_step lock p (p\<lparr>wp_jobs := js @ js', wp_workers := wp_workers p @ [wj_token j]\<rparr>)"

inductive pool_reachable :: "(Event \<Rightarrow> string option) \<Rightarrow> nat \<Rightarrow> pool \<Rightarrow> bool" for lock size_n where
  start: "pool_reachable lock size_n (SkippingWorkerPool size_n)"
| step: "pool_reachable lock size_n p \<Longrightarrow> pool_step lock p p' \<Longrightarrow> pool_reachable lock size_n p'"

section \<open>The invariant\<close>

text \<open>The keys held by running jobs.\<close>

definition held_keys :: "(Event \<Rightarrow> string option) \<Rightarrow> worker_job list \<Rightarrow> string list" where
  "held_keys lock js = List.map_filter (\<lambda>j. if wj_phase j = Running then lock (wj_event j) else None) js"

definition pool_ok :: "(Event \<Rightarrow> string option) \<Rightarrow> nat \<Rightarrow> pool \<Rightarrow> bool" where
  "pool_ok lock size_n p \<longleftrightarrow>
     mset (wp_workers p @ map wj_token (wp_jobs p)) = mset [0 ..< size_n] \<and>
     distinct (held_keys lock (wp_jobs p)) \<and>
     set (held_keys lock (wp_jobs p)) = set (wp_locked p)"

lemma held_append [simp]:
  "held_keys lock (js @ js') = held_keys lock js @ held_keys lock js'"
  by (simp add: held_keys_def List.map_filter_def)

lemma held_Cons [simp]:
  "held_keys lock (j # js) =
     (if wj_phase j = Running then (case lock (wj_event j) of None \<Rightarrow> [] | Some k \<Rightarrow> [k]) else []) @ held_keys lock js"
  by (simp add: held_keys_def List.map_filter_def split: option.split)

lemma held_Nil [simp]: "held_keys lock [] = []"
  by (simp add: held_keys_def List.map_filter_def)

lemma pool_ok_step: "pool_step lock p p' \<Longrightarrow> pool_ok lock size_n p \<Longrightarrow> pool_ok lock size_n p'"
proof (induction rule: pool_step.induct)
  case (handle p event)
  then show ?case by (cases "wp_workers p") (simp_all add: pool_ok_def HandleWork_def)
next
  case (lock_key p js j js' ok items)
  then show ?case
    by (cases "lock (wj_event j)"; cases ok)
      (auto simp: pool_ok_def acquire_def locker_serve_def split: if_splits)
next
  case (unlock_key p js j js')
  then show ?case
    by (cases "lock (wj_event j)") (auto simp: pool_ok_def release_def locker_serve_def)
next
  case (give_back p js j js')
  then show ?case by (simp add: pool_ok_def)
qed

lemma reachable_pool_ok: "pool_reachable lock size_n p \<Longrightarrow> pool_ok lock size_n p"
  by (induction rule: pool_reachable.induct)
    (simp add: pool_ok_def SkippingWorkerPool_def, blast intro: pool_ok_step)

text \<open>
  C29 The worker pool keeps its promises under every interleaving: a token is either in the
  channel or with one worker, so at most as many events as the pool has workers are handled at a time and none is lost;
  no two running handlers hold the same key; and the keys the locker has locked are exactly
  those of the running handlers.
\<close>

theorem pool_mutual_exclusion:
  assumes "pool_reachable lock size_n p"
  shows "length (wp_jobs p) + length (wp_workers p) = size_n \<and> distinct (map wj_token (wp_jobs p)) \<and>
    distinct (held_keys lock (wp_jobs p)) \<and> set (held_keys lock (wp_jobs p)) = set (wp_locked p)"
proof -
  from reachable_pool_ok [OF assms] have ok: "pool_ok lock size_n p" .
  then have m: "mset (wp_workers p @ map wj_token (wp_jobs p)) = mset [0 ..< size_n]" by (simp add: pool_ok_def)
  then have "length (wp_workers p @ map wj_token (wp_jobs p)) = size_n"
    by (metis size_mset length_upt minus_nat.diff_0)
  moreover have "distinct (wp_workers p @ map wj_token (wp_jobs p))"
    using m by (metis distinct_upt mset_eq_imp_distinct_iff)
  ultimately show ?thesis using ok by (simp add: pool_ok_def)
qed

lemma pool_mutual_exclusion_witness:
  "length (wp_jobs (HandleWork zero_Event (SkippingWorkerPool 2))) +
   length (wp_workers (HandleWork zero_Event (SkippingWorkerPool 2))) = 2"
  using pool_mutual_exclusion [OF pool_reachable.step [OF pool_reachable.start [of resourceIDLocker 2]
        pool_step.handle [of resourceIDLocker _ zero_Event]]] by blast

text \<open>
  An event that arrives while its resource is locked is dropped without side effects, and one
  that gets the lock leaves the lock table as it found it, whatever its handler does.
\<close>

theorem doWork_lock_balanced:
  "doWork env event lock items w =
     (items, if (case lock of None \<Rightarrow> False | Some key \<Rightarrow> key \<in> set items) then w else run_handler env event w)"
  by (auto simp: doWork_def acquire_def release_def locker_serve_def filter_id_conv split: option.split prod.split)

end
