(* ===== verification/Drain_Events.thy ===== *)
theory Drain_Events
  imports Worker_Pool Endpoints
begin

text \<open>
  The handler of \<open>target.drain\<close> events (\<open>controller/rancher/rancher_events_handler.go\<close>). The
  functions it is given (\<open>CheckOnEvent\<close>, \<open>DoOnEvent\<close>, \<open>PollStatus\<close>, \<open>DoOnTimeout\<close>) and the API
  client's \<open>Publish.Create\<close> act on a state of any type; the contract of the first four is the
  locale \<open>drain_registry\<close>. An added endpoint starts two goroutines, a poller and a timer: each
  iteration of theirs is a step.
\<close>

section \<open>Durations\<close>

text \<open>
  \<open>time.ParseDuration\<close>, in nanoseconds. A fraction of a unit is rounded down exactly, where Go
  computes it in floating point.
\<close>

definition duration_unit :: "string \<Rightarrow> int option" where
  "duration_unit u =
     map_of [(''ns'', 1), (''us'', 1000), ([CHR 0xC2, CHR 0xB5, CHR ''s''], 1000),
       ([CHR 0xCE, CHR 0xBC, CHR ''s''], 1000), (''ms'', 1000000), (''s'', 1000000000),
       (''m'', 60000000000), (''h'', 3600000000000)] u"

definition is_number_char :: "char \<Rightarrow> bool" where
  "is_number_char c \<longleftrightarrow> c = CHR ''.'' \<or> is_digit c"

function duration_parts :: "string \<Rightarrow> int \<Rightarrow> int option" where
  "duration_parts [] d = Some d"
| "duration_parts (c # cs) d =
     (if \<not> is_number_char c then None
      else let s1 = dropWhile is_digit (c # cs);
               whole = takeWhile is_digit (c # cs);
               dot = (s1 \<noteq> [] \<and> hd s1 = CHR ''.'');
               frac = (if dot then takeWhile is_digit (tl s1) else []);
               s2 = (if dot then dropWhile is_digit (tl s1) else s1);
               unt = takeWhile (\<lambda>c. \<not> is_number_char c) s2;
               s3 = dropWhile (\<lambda>c. \<not> is_number_char c) s2
           in if whole = [] \<and> frac = [] \<or> unt = [] then None
              else case duration_unit unt of
                None \<Rightarrow> None
              | Some u \<Rightarrow>
                  let v = dec_value whole * u + dec_value frac * u div 10 ^ length frac
                  in if v > 2 ^ 63 \<or> d + v > 2 ^ 63 then None else duration_parts s3 (d + v))"
  by pat_completeness auto

lemma dropWhile_less: "takeWhile P xs \<noteq> [] \<Longrightarrow> length (dropWhile P xs) < length xs"
  by (cases xs) (auto simp: length_dropWhile_le less_Suc_eq_le split: if_splits)

lemma duration_rest:
  assumes "takeWhile Q (if dot then dropWhile P (tl (dropWhile P xs)) else dropWhile P xs) \<noteq> []"
  shows "length (dropWhile Q (if dot then dropWhile P (tl (dropWhile P xs)) else dropWhile P xs)) < length xs"
proof -
  have "length (if dot then dropWhile P (tl (dropWhile P xs)) else dropWhile P xs) \<le> length xs"
    using length_dropWhile_le [of P xs] length_dropWhile_le [of P "tl (dropWhile P xs)"] by auto
  with dropWhile_less [OF assms] show ?thesis by linarith
qed

termination duration_parts
proof (relation "measure (\<lambda>(s, d). length s)")
  show "wf (measure (\<lambda>(s :: string, d :: int). length s))" by simp
next
  fix c cs d s1 whole dot frac s2 unt s3 u v
  assume a: "s1 = dropWhile is_digit (c # cs)" "s2 = (if dot then dropWhile is_digit (tl s1) else s1)"
    "unt = takeWhile (\<lambda>c. \<not> is_number_char c) s2" "s3 = dropWhile (\<lambda>c. \<not> is_number_char c) s2"
    "\<not> (whole = [] \<and> frac = [] \<or> unt = [])"
  from a(5) have "unt \<noteq> []" by simp
  then have "length s3 < length (c # cs)"
    unfolding a(4) a(3) a(2) a(1) by (rule duration_rest)
  then show "((s3, d + v), c # cs, d) \<in> measure (\<lambda>(s, d). length s)" by simp
qed

definition ParseDuration :: "string \<Rightarrow> int option" where
  "ParseDuration s =
     (let neg = HasPrefix s ''-''; t = (if HasPrefix s ''-'' \<or> HasPrefix s ''+'' then tl s else s)
      in if t = ''0'' then Some 0
         else if t = '''' then None
         else case duration_parts t 0 of
           None \<Rightarrow> None
         | Some d \<Rightarrow> if neg then Some (- d) else if d > 2 ^ 63 - 1 then None else Some d)"

section \<open>The operations given to the handler\<close>

record 's registry_ops =
  ro_check :: "Endpoint \<Rightarrow> 's \<Rightarrow> bool"
  ro_do :: "Endpoint \<Rightarrow> 's \<Rightarrow> bool \<times> 's"
  ro_timeout :: "Endpoint \<Rightarrow> 's \<Rightarrow> 's"
  ro_poll :: "Endpoint \<Rightarrow> 's \<Rightarrow> bool \<times> 's"
  ro_publish :: "Publish \<Rightarrow> 's \<Rightarrow> unit result \<times> 's"

datatype timer = Armed | Blocked | TimerEnded

record session =
  se_ep :: Endpoint
  se_event :: Event
  se_polling :: bool
  se_timer :: timer

text \<open>
  \<open>eh_published\<close> lists the replies handed to \<open>Publish.Create\<close>; \<open>eh_sessions\<close> the goroutine
  pairs that were started.
\<close>

record 's handler =
  eh_state :: 's
  eh_EventMap :: "(string, Event) gomap"
  eh_published :: "Publish list"
  eh_sessions :: "session list"

section \<open>Replies\<close>

definition NewReply :: "Event \<Rightarrow> Publish" where
  "NewReply event = \<lparr>pub_Name = ev_ReplyTo event, pub_PreviousIds = [ev_ID event],
     pub_ResourceType = ev_ResourceType event, pub_ResourceId = ev_ResourceID event,
     pub_Transitioning = '''', pub_TransitioningMessage = ''''\<rparr>"

definition PublishReply :: "'s registry_ops \<Rightarrow> Publish \<Rightarrow> 's handler \<Rightarrow> unit result \<times> 's handler" where
  "PublishReply ops reply h =
     (case ro_publish ops reply (eh_state h) of
        (r, s) \<Rightarrow> (r, h\<lparr>eh_state := s, eh_published := eh_published h @ [reply]\<rparr>))"

definition CreateAndPublishReply :: "'s registry_ops \<Rightarrow> Event \<Rightarrow> 's handler \<Rightarrow> unit result \<times> 's handler" where
  "CreateAndPublishReply ops event h =
     (if pub_Name (NewReply event) = '''' then (Inr (), h) else PublishReply ops (NewReply event) h)"

definition ErrorReply :: "'s registry_ops \<Rightarrow> Event \<Rightarrow> string \<Rightarrow> 's handler \<Rightarrow> unit result \<times> 's handler" where
  "ErrorReply ops event errorText h =
     (if pub_Name (NewReply event) = '''' then (Inr (), h)
      else PublishReply ops ((NewReply event)\<lparr>pub_Transitioning := ''error'', pub_TransitioningMessage := errorText\<rparr>) h)"

definition saveEventToMap :: "Endpoint \<Rightarrow> Event \<Rightarrow> 's handler \<Rightarrow> 's handler" where
  "saveEventToMap ep event h = h\<lparr>eh_EventMap := AList.update (ep_Name ep) event (eh_EventMap h)\<rparr>"

definition readEventMap :: "Endpoint \<Rightarrow> 's handler \<Rightarrow> Event option" where
  "readEventMap ep h = map_of (eh_EventMap h) (ep_Name ep)"

definition removeFromEventMap :: "Endpoint \<Rightarrow> 's handler \<Rightarrow> 's handler" where
  "removeFromEventMap ep h = h\<lparr>eh_EventMap := AList.delete (ep_Name ep) (eh_EventMap h)\<rparr>"

definition replyToEvent :: "'s registry_ops \<Rightarrow> Endpoint \<Rightarrow> Event \<Rightarrow> 's handler \<Rightarrow> unit result \<times> 's handler" where
  "replyToEvent ops ep event h =
     (case readEventMap ep h of
        Some saved \<Rightarrow>
          (case CreateAndPublishReply ops saved h of
             (Inl e, h1) \<Rightarrow> (Inl (Wrapf ''Error replying to the event: %#v'' [] e), h1)
           | (Inr _, h1) \<Rightarrow> (Inr (), removeFromEventMap ep h1))
      | None \<Rightarrow>
          (case CreateAndPublishReply ops event h of
             (Inl e, h1) \<Rightarrow> (Inl (Wrapf ''Error replying to the event: %#v'' [] e), h1)
           | (Inr _, h1) \<Rightarrow> (Inr (), h1)))"

section \<open>The event\<close>

definition drain_endpoint :: "string \<Rightarrow> Endpoint" where
  "drain_endpoint ip = zero_Endpoint\<lparr>ep_IP := ip, ep_DrainTimeout := ''15000'', ep_Name := hashIP ip\<rparr>"

text \<open>
  \<open>doOnDrainTimeout\<close> up to its loop: a timeout that does not parse ends it, one that is not
  positive makes \<open>NewTicker\<close> panic.
\<close>

definition start_timer :: "Endpoint \<Rightarrow> timer outcome" where
  "start_timer ep =
     (case ParseDuration (ep_DrainTimeout ep @ ''ms'') of
        None \<Rightarrow> Ok TimerEnded
      | Some d \<Rightarrow> if d \<le> 0 then Panic else Ok Armed)"

text \<open>The second half of \<open>HandleDrainEvent\<close>, for the endpoint that the event names.\<close>

definition drain_or_reply ::
  "'s registry_ops \<Rightarrow> Event \<Rightarrow> Endpoint \<Rightarrow> 's handler \<Rightarrow> (bool \<times> 's handler) outcome" where
  "drain_or_reply ops event ep h =
     (if ro_check ops ep (eh_state h) then Ok (False, saveEventToMap ep event h)
      else case ro_do ops ep (eh_state h) of
        (True, s) \<Rightarrow>
          bind_out (start_timer ep) (\<lambda>t. Ok (False,
            (saveEventToMap ep event (h\<lparr>eh_state := s\<rparr>))
              \<lparr>eh_sessions := eh_sessions h @ [\<lparr>se_ep = ep, se_event = event, se_polling = True, se_timer = t\<rparr>]\<rparr>))
      | (False, s) \<Rightarrow> Ok (True, h\<lparr>eh_state := s\<rparr>))"

text \<open>\<open>HandleDrainEvent\<close>: whether to reply now; the type assertions panic on other JSON values.\<close>

definition HandleDrainEvent :: "'s registry_ops \<Rightarrow> Event \<Rightarrow> 's handler \<Rightarrow> (bool \<times> 's handler) outcome" where
  "HandleDrainEvent ops event h =
     (case map_of (ev_Data event) ''targetIPaddress'' of
        None \<Rightarrow> Ok (False, h)
      | Some JNull \<Rightarrow> Ok (True, h)
      | Some (JStr ip) \<Rightarrow>
          bind_out
            (case map_of (ev_Data event) ''drainTimeout'' of
               None \<Rightarrow> Ok (drain_endpoint ip)
             | Some (JStr t) \<Rightarrow> Ok ((drain_endpoint ip)\<lparr>ep_DrainTimeout := t\<rparr>)
             | Some _ \<Rightarrow> Panic)
            (\<lambda>ep. drain_or_reply ops event ep h)
      | Some _ \<Rightarrow> Panic)"

definition handle_event :: "'s registry_ops \<Rightarrow> Event \<Rightarrow> 's handler \<Rightarrow> (unit result \<times> 's handler) outcome" where
  "handle_event ops event h =
     (if ev_Name event \<noteq> ''target.drain'' then Ok (Inr (), h)
      else bind_out (HandleDrainEvent ops event h) (\<lambda>(sendReply, h1).
        Ok (if sendReply then CreateAndPublishReply ops event h1 else (Inr (), h1))))"

section \<open>The goroutines\<close>

text \<open>One iteration of \<open>pollOnDrainResults\<close>; the errors of replies are logged.\<close>

definition poll_once :: "'s registry_ops \<Rightarrow> session \<Rightarrow> 's handler \<Rightarrow> session \<times> 's handler" where
  "poll_once ops se h =
     (if \<not> ro_check ops (se_ep se) (eh_state h)
      then (se\<lparr>se_polling := False\<rparr>, snd (CreateAndPublishReply ops (se_event se) h))
      else case ro_poll ops (se_ep se) (eh_state h) of
        (True, s) \<Rightarrow> (se\<lparr>se_polling := False\<rparr>,
           snd (replyToEvent ops (se_ep se) (se_event se) (h\<lparr>eh_state := ro_timeout ops (se_ep se) s\<rparr>)))
      | (False, s) \<Rightarrow> (se, h\<lparr>eh_state := s\<rparr>))"

text \<open>
  One tick of \<open>doOnDrainTimeout\<close>. After a hit the ticker is stopped, which does not close its
  channel: the loop waits on it for ever (\<open>Blocked\<close>).
\<close>

definition tick_once :: "'s registry_ops \<Rightarrow> session \<Rightarrow> 's handler \<Rightarrow> session \<times> 's handler" where
  "tick_once ops se h =
     (if \<not> ro_check ops (se_ep se) (eh_state h)
      then (se\<lparr>se_timer := TimerEnded\<rparr>, snd (CreateAndPublishReply ops (se_event se) h))
      else case ro_poll ops (se_ep se) (eh_state h) of
        (drained, s) \<Rightarrow> (se\<lparr>se_timer := Blocked\<rparr>,
           snd (replyToEvent ops (se_ep se) (se_event se)
             (h\<lparr>eh_state := (if drained then s else ro_timeout ops (se_ep se) s)\<rparr>))))"

section \<open>The contract of the registry\<close>

locale drain_registry =
  fixes ops :: "'s registry_ops"
  assumes timeout_removes: "\<not> ro_check ops ep (ro_timeout ops ep s)"
    and do_adds: "ro_do ops ep s = (True, s') \<Longrightarrow> ro_check ops ep s'"
    and do_refuses: "ro_do ops ep s = (False, s') \<Longrightarrow> ro_check ops ep' s' = ro_check ops ep' s"
    and poll_reads: "ro_poll ops ep s = (d, s') \<Longrightarrow> ro_check ops ep' s' = ro_check ops ep' s"
    and publish_apart: "ro_publish ops reply s = (r, s') \<Longrightarrow> ro_check ops ep' s' = ro_check ops ep' s"
begin

lemma reply_check:
  "CreateAndPublishReply ops event h = (r, h') \<Longrightarrow> ro_check ops ep (eh_state h') = ro_check ops ep (eh_state h)"
  using publish_apart [of "NewReply event" "eh_state h" _ _ ep]
  by (auto simp: CreateAndPublishReply_def PublishReply_def split: if_splits prod.splits)

lemma replyToEvent_shape:
  "\<exists>r h1. CreateAndPublishReply ops (case readEventMap ep h of Some saved \<Rightarrow> saved | None \<Rightarrow> event) h = (r, h1) \<and>
     eh_state (snd (replyToEvent ops ep event h)) = eh_state h1 \<and>
     eh_published (snd (replyToEvent ops ep event h)) = eh_published h1"
  by (auto simp: replyToEvent_def removeFromEventMap_def split: option.split prod.split sum.split)

lemma replyToEvent_check:
  "ro_check ops ep (eh_state (snd (replyToEvent ops ep' event h))) = ro_check ops ep (eh_state h)"
  using replyToEvent_shape [where ep = ep' and h = h and event = event] reply_check by metis

lemma CreateAndPublishReply_published:
  "eh_published (snd (CreateAndPublishReply ops event h)) = eh_published h @
     (if ev_ReplyTo event = '''' then [] else [NewReply event])"
  by (auto simp: CreateAndPublishReply_def PublishReply_def NewReply_def split: prod.splits)

lemma replyToEvent_published:
  "eh_published (snd (replyToEvent ops ep event h)) = eh_published h @
     (let e = (case readEventMap ep h of Some saved \<Rightarrow> saved | None \<Rightarrow> event)
      in if ev_ReplyTo e = '''' then [] else [NewReply e])"
  using replyToEvent_shape [where ep = ep and h = h and event = event] CreateAndPublishReply_published unfolding Let_def by (metis snd_conv)

text \<open>The timeout of a drain that is not complete, followed by the next poll.\<close>

lemma timeout_then_poll:
  assumes "ro_check ops (se_ep se) (eh_state h)" and "ro_poll ops (se_ep se) (eh_state h) = (False, s)"
    and "tick_once ops se h = (se1, h1)" and "poll_once ops se1 h1 = (se2, h2)"
  shows "eh_published h2 = eh_published h @
      (let e = (case readEventMap (se_ep se) h of Some saved \<Rightarrow> saved | None \<Rightarrow> se_event se)
       in if ev_ReplyTo e = '''' then [] else [NewReply e]) @
      (if ev_ReplyTo (se_event se) = '''' then [] else [NewReply (se_event se)]) \<and>
    se_timer se2 = Blocked \<and> \<not> se_polling se2"
proof -
  let ?h0 = "h\<lparr>eh_state := ro_timeout ops (se_ep se) s\<rparr>"
  from assms(1-3) have 1: "se1 = se\<lparr>se_timer := Blocked\<rparr>" "h1 = snd (replyToEvent ops (se_ep se) (se_event se) ?h0)"
    by (simp_all add: tick_once_def)
  have "\<not> ro_check ops (se_ep se) (eh_state h1)"
    unfolding 1(2) replyToEvent_check by (simp add: timeout_removes)
  with assms(4) 1(1) have "se2 = se1\<lparr>se_polling := False\<rparr>" "h2 = snd (CreateAndPublishReply ops (se_event se) h1)"
    by (simp_all add: poll_once_def)
  then show ?thesis
    by (simp add: 1 CreateAndPublishReply_published replyToEvent_published readEventMap_def)
qed

lemma poll_completes:
  assumes "ro_check ops (se_ep se) (eh_state h)" and "ro_poll ops (se_ep se) (eh_state h) = (True, s)"
    and "poll_once ops se h = (se1, h1)"
  shows "\<not> ro_check ops (se_ep se) (eh_state h1) \<and> \<not> se_polling se1 \<and>
    eh_published h1 = eh_published h @
      (let e = (case readEventMap (se_ep se) h of Some saved \<Rightarrow> saved | None \<Rightarrow> se_event se)
       in if ev_ReplyTo e = '''' then [] else [NewReply e])"
  using assms by (auto simp: poll_once_def replyToEvent_check timeout_removes replyToEvent_published readEventMap_def)

lemma handled:
  assumes "HandleDrainEvent ops event h = Ok (reply, h')" and "map_of (ev_Data event) ''targetIPaddress'' = Some (JStr ip)"
  shows "(if reply then eh_sessions h' = eh_sessions h \<and> eh_EventMap h' = eh_EventMap h
          else map_of (eh_EventMap h') (hashIP ip) = Some event) \<and>
    (\<exists>ep. ep_Name ep = hashIP ip \<and> ep_IP ep = ip \<and> ro_check ops ep (eh_state h') = (\<not> reply)) \<and>
    eh_published h' = eh_published h"
proof -
  from assms obtain ep where t: "drain_or_reply ops event ep h = Ok (reply, h')"
    and e: "ep = drain_endpoint ip \<or> (\<exists>t. ep = (drain_endpoint ip)\<lparr>ep_DrainTimeout := t\<rparr>)"
    by (auto simp: HandleDrainEvent_def bind_out_Ok split: option.splits json.splits)
  from e have ep: "ep_Name ep = hashIP ip" "ep_IP ep = ip" by (auto simp: drain_endpoint_def)
  note r = t [unfolded drain_or_reply_def]
  show ?thesis
  proof (cases "ro_check ops ep (eh_state h)")
    case True
    with r ep show ?thesis by (auto simp: saveEventToMap_def)
  next
    case False
    obtain ok s where d: "ro_do ops ep (eh_state h) = (ok, s)" by fastforce
    show ?thesis
    proof (cases ok)
      case True
      with d have "ro_check ops ep s" by (intro do_adds) simp
      with r False d True ep show ?thesis by (auto simp: saveEventToMap_def bind_out_Ok)
    next
      case no: False
      with d False have "\<not> ro_check ops ep s" using do_refuses [of ep "eh_state h" s ep] by simp
      with r False d no ep show ?thesis by auto
    qed
  qed
qed

end

end
