(* ===== verification/Drain_Event_Theorems.thy ===== *)
theory Drain_Event_Theorems
  imports Drain_Events Haproxy_Provider
begin

text \<open>
  The event handler on the HAProxy provider: the provider's operations satisfy the contract
  \<open>drain_registry\<close>, so what the contract implies for drain events holds of the program.
\<close>

section \<open>The provider as a registry\<close>

definition provider_ops ::
  "'w provider_env \<Rightarrow> (Publish \<Rightarrow> 'w \<Rightarrow> unit result \<times> 'w) \<Rightarrow> (Provider \<times> 'w io) registry_ops" where
  "provider_ops env publish =
     \<lparr>ro_check = (\<lambda>ep s. IsEndpointUpForDrain ep (fst s)),
      ro_do = (\<lambda>ep s. DrainEndpoint env ep (fst s) (snd s)),
      ro_timeout = (\<lambda>ep s. (provider_RemoveEndpointFromDrain ep (fst s), snd s)),
      ro_poll = (\<lambda>ep s. case IsEndpointDrained env ep (fst s) (snd s) of (d, io) \<Rightarrow> (d, (fst s, io))),
      ro_publish = (\<lambda>reply s. case publish reply (io_world (snd s)) of
         (r, w) \<Rightarrow> (r, (fst s, (snd s)\<lparr>io_world := w\<rparr>)))\<rparr>"

lemma DrainEndpoint_cases:
  assumes "DrainEndpoint env ep pv io = (ok, pv', io')"
  shows "if ok then IsEndpointUpForDrain ep pv' else dm_drainList (pv_drainMgr pv') = dm_drainList (pv_drainMgr pv)"
proof (cases "readPid (pe_haproxy env) io")
  case (Inl e)
  with assms show ?thesis by (auto simp: DrainEndpoint_def)
next
  case (Inr pid)
  obtain ok2 dm io2 where a: "AddEndpointForDrain (pe_haproxy env) ep pid (pv_drainMgr pv) io = (ok2, dm, io2)"
    by (metis prod_cases3)
  with assms Inr have "ok2 = ok" "pv' = pv\<lparr>pv_drainMgr := dm\<rparr>" by (auto simp: DrainEndpoint_def)
  with add_drain_list [OF a] show ?thesis
    by (cases ok) (auto simp: IsEndpointUpForDrain_def isEndpointUpForDrain_def)
qed

interpretation pr: drain_registry "provider_ops env publish"
proof unfold_locales
  fix ep ep' :: Endpoint and s s' :: "Provider \<times> 'a io" and d r reply
  show "\<not> ro_check (provider_ops env publish) ep (ro_timeout (provider_ops env publish) ep s)"
    by (simp add: provider_ops_def IsEndpointUpForDrain_def isEndpointUpForDrain_def
        provider_RemoveEndpointFromDrain_def RemoveEndpointFromDrain_def)
  show "ro_do (provider_ops env publish) ep s = (True, s') \<Longrightarrow> ro_check (provider_ops env publish) ep s'"
    using DrainEndpoint_cases [of env ep "fst s" "snd s" True "fst s'" "snd s'"] by (simp add: provider_ops_def)
  show "ro_do (provider_ops env publish) ep s = (False, s') \<Longrightarrow>
      ro_check (provider_ops env publish) ep' s' = ro_check (provider_ops env publish) ep' s"
    using DrainEndpoint_cases [of env ep "fst s" "snd s" False "fst s'" "snd s'"]
    by (simp add: provider_ops_def IsEndpointUpForDrain_def isEndpointUpForDrain_def)
  show "ro_poll (provider_ops env publish) ep s = (d, s') \<Longrightarrow>
      ro_check (provider_ops env publish) ep' s' = ro_check (provider_ops env publish) ep' s"
    by (auto simp: provider_ops_def split: prod.splits)
  show "ro_publish (provider_ops env publish) reply s = (r, s') \<Longrightarrow>
      ro_check (provider_ops env publish) ep' s' = ro_check (provider_ops env publish) ep' s"
    by (auto simp: provider_ops_def split: prod.splits)
qed

section \<open>A provider to run on\<close>

definition demo_provider_env :: "int provider_env" where
  "demo_provider_env = \<lparr>pe_haproxy = demo_env, pe_missing = (\<lambda>d w. False), pe_mkdir = (\<lambda>d w. (Inr (), w)),
     pe_writeFile = (\<lambda>p c w. (Inr (), w)), pe_create = (\<lambda>w. (Inr (), w)), pe_parse = (\<lambda>w. Inr ()),
     pe_execute = (\<lambda>t w. (Inr (), w)), pe_close = (\<lambda>w. (Inr (), w)), pe_start = (\<lambda>w. (Inr (), w)),
     pe_reload = (\<lambda>w. (Inr (), w))\<rparr>"

definition demo_publish :: "Publish \<Rightarrow> int \<Rightarrow> unit result \<times> int" where
  "demo_publish reply w = (Inr (), w)"

definition demo_event :: Event where
  "demo_event = zero_Event\<lparr>ev_Name := ''target.drain'', ev_ID := ''1'', ev_ReplyTo := ''reply.1'',
     ev_Data := [(''targetIPaddress'', JStr ''10.0.0.1'')]\<rparr>"

text \<open>A provider in which the endpoint of that event already drains, since process 12.\<close>

definition demo_draining :: "(Provider \<times> int io) handler" where
  "demo_draining = \<lparr>eh_state = (init_Provider\<lparr>pv_drainMgr := init_drainMgr
       \<lparr>dm_drainList := [(hashIP ''10.0.0.1'', ''12'')]\<rparr>\<rparr>, demo_io 7),
     eh_EventMap = [], eh_published = [], eh_sessions = []\<rparr>"

definition demo_session :: session where
  "demo_session = \<lparr>se_ep = drain_endpoint ''10.0.0.1'', se_event = demo_event, se_polling = True, se_timer = Armed\<rparr>"

abbreviation (input) "demo_ops \<equiv> provider_ops demo_provider_env demo_publish"

lemma demo_check: "ro_check demo_ops (drain_endpoint ''10.0.0.1'') (eh_state demo_draining)"
  by (simp add: provider_ops_def IsEndpointUpForDrain_def isEndpointUpForDrain_def drain_endpoint_def
      demo_draining_def)

lemma demo_stats: "readCurrentStats demo_env (hashIP ip) io = (Inl e, io') \<or> readCurrentStats demo_env (hashIP ip) io = (Inr y, io')
  \<Longrightarrow> io' = io\<lparr>io_sent := io_sent io @ [''show stat'']\<rparr>"
  by (auto simp: readCurrentStats_def ReadStats_def runCommand_def demo_env_def
      split: prod.splits sum.splits option.splits)

section \<open>Properties\<close>

text \<open>
  C30 Every drain event is either answered at once or owned by a drain: if a \<open>target.drain\<close> event
  names an address and is handled, then either the reply is due now, the endpoint does not
  drain and no goroutine was started, or the endpoint drains and the event is the one saved for
  its reply (the latest event of an endpoint wins). Handling publishes nothing by itself.
\<close>

theorem drain_event_contract:
  assumes "HandleDrainEvent (provider_ops env publish) event h = Ok (reply, h')"
    and "map_of (ev_Data event) ''targetIPaddress'' = Some (JStr ip)"
  shows "(if reply then eh_sessions h' = eh_sessions h \<and> eh_EventMap h' = eh_EventMap h
          else map_of (eh_EventMap h') (hashIP ip) = Some event) \<and>
    (\<exists>ep. ep_Name ep = hashIP ip \<and> ep_IP ep = ip \<and> IsEndpointUpForDrain ep (fst (eh_state h')) = (\<not> reply)) \<and>
    eh_published h' = eh_published h"
  using pr.handled [OF assms] by (simp add: provider_ops_def)

lemma drain_event_contract_witness:
  "map_of (eh_EventMap (saveEventToMap (drain_endpoint ''10.0.0.1'') demo_event demo_draining)) (hashIP ''10.0.0.1'')
     = Some demo_event"
proof -
  have "HandleDrainEvent demo_ops demo_event demo_draining =
      Ok (False, saveEventToMap (drain_endpoint ''10.0.0.1'') demo_event demo_draining)"
    using demo_check by (simp add: HandleDrainEvent_def demo_event_def drain_or_reply_def)
  from drain_event_contract [OF this, of "''10.0.0.1''"] show ?thesis by (simp add: demo_event_def)
qed

text \<open>
  A completed drain is answered and forgotten: when the poller finds the endpoint drained, it
  leaves the drain list, exactly one reply is published, to the latest saved event of the
  endpoint (or to the event of the drain when none is saved; none if that event asks for no
  reply), and the poller ends.
\<close>

theorem poll_completes_drain:
  assumes "IsEndpointUpForDrain (se_ep se) (fst (eh_state h))"
    and "IsEndpointDrained env (se_ep se) (fst (eh_state h)) (snd (eh_state h)) = (True, io)"
    and "poll_once (provider_ops env publish) se h = (se1, h1)"
  shows "\<not> IsEndpointUpForDrain (se_ep se) (fst (eh_state h1)) \<and> \<not> se_polling se1 \<and>
    eh_published h1 = eh_published h @
      (let e = (case readEventMap (se_ep se) h of Some saved \<Rightarrow> saved | None \<Rightarrow> se_event se)
       in if ev_ReplyTo e = '''' then [] else [NewReply e])"
  using pr.poll_completes [of env publish se h "(fst (eh_state h), io)" se1 h1] assms
  by (simp add: provider_ops_def)

text \<open>An environment in which the process that drained is gone.\<close>

definition gone_env :: "int provider_env" where
  "gone_env = demo_provider_env\<lparr>pe_haproxy := demo_env\<lparr>env_statProc := (\<lambda>n w. Inr False)\<rparr>\<rparr>"

definition demo_drained :: "(Provider \<times> int io) handler" where
  "demo_drained = demo_draining\<lparr>eh_state := (init_Provider\<lparr>pv_drainMgr := init_drainMgr
       \<lparr>dm_drainList := [(hashIP ''10.0.0.1'', ''11'')]\<rparr>\<rparr>, demo_io 7)\<rparr>"

lemma gone_drained:
  "IsEndpointDrained gone_env (drain_endpoint ''10.0.0.1'') (fst (eh_state demo_drained)) (snd (eh_state demo_drained))
     = (True, demo_io 7)"
proof -
  have a: "Atoi ''11'' = Some 11" by code_simp
  have p: "readPid (demo_env\<lparr>env_statProc := (\<lambda>n w. Inr False)\<rparr>) io = Inr ''12''" for io
    using demo_pid [of io] by (simp add: readPid_def)
  show ?thesis
    by (simp add: IsEndpointDrained_def Let_def isEndpointUpForDrain_def drain_endpoint_def demo_drained_def
        demo_draining_def gone_env_def p a processExists_def)
qed

lemma poll_completes_drain_witness:
  "eh_published (snd (poll_once (provider_ops gone_env demo_publish) demo_session demo_drained)) = [NewReply demo_event]"
proof -
  have s: "se_ep demo_session = drain_endpoint ''10.0.0.1''" "se_event demo_session = demo_event"
    by (simp_all add: demo_session_def)
  have up: "IsEndpointUpForDrain (drain_endpoint ''10.0.0.1'') (fst (eh_state demo_drained))"
    by (simp add: IsEndpointUpForDrain_def isEndpointUpForDrain_def drain_endpoint_def demo_drained_def)
  have r: "readEventMap (drain_endpoint ''10.0.0.1'') demo_drained = None" "eh_published demo_drained = []"
    "ev_ReplyTo demo_event = ''reply.1''"
    by (simp_all add: readEventMap_def demo_drained_def demo_draining_def demo_event_def)
  obtain se1 h1 where p: "poll_once (provider_ops gone_env demo_publish) demo_session demo_drained = (se1, h1)"
    by fastforce
  from poll_completes_drain [OF _ _ p, unfolded s, OF up gone_drained] p show ?thesis
    by (simp add: r)
qed

text \<open>
  A drain that times out is answered twice, and its timer never ends: when the timer fires
  before the drain is complete, it removes the endpoint, replies to the saved event and stops
  the ticker, which leaves its loop waiting for ever; the poller, finding the endpoint gone,
  publishes another reply to the event that started the drain.
\<close>

theorem timeout_replies_twice:
  assumes "IsEndpointUpForDrain (se_ep se) (fst (eh_state h))"
    and "IsEndpointDrained env (se_ep se) (fst (eh_state h)) (snd (eh_state h)) = (False, io)"
    and "tick_once (provider_ops env publish) se h = (se1, h1)"
    and "poll_once (provider_ops env publish) se1 h1 = (se2, h2)"
    and "readEventMap (se_ep se) h = Some (se_event se)" and "ev_ReplyTo (se_event se) \<noteq> ''''"
  shows "eh_published h2 = eh_published h @ [NewReply (se_event se), NewReply (se_event se)] \<and> se_timer se2 = Blocked"
  using pr.timeout_then_poll [of env publish se h "(fst (eh_state h), io)" se1 h1 se2 h2] assms
  by (simp add: provider_ops_def)

text \<open>The endpoint is not in the statistics of the process, so it does not count as drained.\<close>

definition demo_saved :: "(Provider \<times> int io) handler" where
  "demo_saved = demo_draining\<lparr>eh_EventMap := [(hashIP ''10.0.0.1'', demo_event)]\<rparr>"

lemma demo_not_drained:
  "\<exists>io. IsEndpointDrained demo_provider_env (drain_endpoint ''10.0.0.1'') (fst (eh_state demo_saved))
     (snd (eh_state demo_saved)) = (False, io)"
proof -
  have l: "length (hashIP ''10.0.0.1'') = 40" by (rule length_hashIP)
  have ne: "hashIP ''10.0.0.1'' \<noteq> ''e''"
  proof
    assume "hashIP ''10.0.0.1'' = ''e''"
    with l show False by simp
  qed
  have st: "stats_of_lines [''# pxname,svname,scur'', ''b,e,3''] =
      Inr [(''e'', [[(''pxname'', ''b''), (''svname'', ''e''), (''scur'', ''3'')]])]" by code_simp
  have "fst (readCurrentStats demo_env (hashIP ''10.0.0.1'') (demo_io 7)) =
     Inl (Errorf ''Error finding endpoint %v in haproxy stats'' [hashIP ''10.0.0.1''])"
    using ne by (simp add: readCurrentStats_def ReadStats_def runCommand_def demo_env_def demo_io_def st)
  then have "fst (no_sessions demo_env (drain_endpoint ''10.0.0.1'') (demo_io 7)) = False"
    by (auto simp: no_sessions_def drain_endpoint_def split: prod.splits sum.splits)
  then have "fst (IsEndpointDrained demo_provider_env (drain_endpoint ''10.0.0.1'') (fst (eh_state demo_saved))
     (snd (eh_state demo_saved))) = False"
    by (simp add: IsEndpointDrained_def Let_def isEndpointUpForDrain_def drain_endpoint_def demo_saved_def
        demo_draining_def demo_provider_env_def demo_pid)
  then show ?thesis by (metis prod.collapse)
qed

lemma timeout_replies_twice_witness:
  "\<exists>se1 h1. tick_once demo_ops demo_session demo_saved = (se1, h1) \<and>
     eh_published (snd (poll_once demo_ops se1 h1)) = [NewReply demo_event, NewReply demo_event]"
proof -
  obtain io where n: "IsEndpointDrained demo_provider_env (drain_endpoint ''10.0.0.1'') (fst (eh_state demo_saved))
     (snd (eh_state demo_saved)) = (False, io)" using demo_not_drained by blast
  obtain se1 h1 where t: "tick_once demo_ops demo_session demo_saved = (se1, h1)" by fastforce
  have s: "se_ep demo_session = drain_endpoint ''10.0.0.1''" "se_event demo_session = demo_event"
    by (simp_all add: demo_session_def)
  have up: "IsEndpointUpForDrain (drain_endpoint ''10.0.0.1'') (fst (eh_state demo_saved))"
    by (simp add: IsEndpointUpForDrain_def isEndpointUpForDrain_def drain_endpoint_def demo_saved_def demo_draining_def)
  have "eh_published (snd (poll_once demo_ops se1 h1)) =
      eh_published demo_saved @ [NewReply (se_event demo_session), NewReply (se_event demo_session)]"
  proof -
    obtain se2 h2 where p: "poll_once demo_ops se1 h1 = (se2, h2)" by fastforce
    have e: "readEventMap (drain_endpoint ''10.0.0.1'') demo_saved = Some demo_event" "ev_ReplyTo demo_event \<noteq> ''''"
      by (simp_all add: readEventMap_def demo_saved_def drain_endpoint_def demo_event_def)
    from timeout_replies_twice [OF _ _ t p, unfolded s, OF up n e] p show ?thesis by (simp add: s)
  qed
  with t s show ?thesis by (simp add: demo_saved_def demo_draining_def)
qed

text \<open>
  A drain timeout of zero ends the program: if a drain event with \<open>drainTimeout\<close> \<open>"0"\<close> leads
  to a drain, the timer goroutine creates a ticker of no duration, which panics; the default
  timeout of 15000 milliseconds arms the timer.
\<close>

theorem zero_timeout_panics:
  assumes "map_of (ev_Data event) ''targetIPaddress'' = Some (JStr ip)"
    and "map_of (ev_Data event) ''drainTimeout'' = Some (JStr ''0'')"
    and "\<And>ep. \<not> ro_check ops ep (eh_state h)" and "\<And>ep. fst (ro_do ops ep (eh_state h))"
  shows "HandleDrainEvent ops event h = Panic \<and> start_timer (drain_endpoint ip) = Ok Armed"
proof -
  have z: "ParseDuration ''0ms'' = Some 0" and d: "ParseDuration ''15000ms'' = Some 15000000000" by code_simp+
  let ?ep = "(drain_endpoint ip)\<lparr>ep_DrainTimeout := ''0''\<rparr>"
  obtain s where s: "ro_do ops ?ep (eh_state h) = (True, s)" using assms(4) [of ?ep] by (metis prod.collapse)
  have t: "start_timer ?ep = Panic" by (simp add: start_timer_def z)
  have "drain_or_reply ops event ?ep h = Panic"
    using assms(3) s t by (simp add: drain_or_reply_def)
  with assms(1,2) have "HandleDrainEvent ops event h = Panic" by (simp add: HandleDrainEvent_def)
  moreover have "start_timer (drain_endpoint ip) = Ok Armed" by (simp add: start_timer_def drain_endpoint_def d)
  ultimately show ?thesis ..
qed

lemma zero_timeout_panics_witness:
  "HandleDrainEvent \<lparr>ro_check = (\<lambda>ep s. False), ro_do = (\<lambda>ep s. (True, s)), ro_timeout = (\<lambda>ep s. s),
      ro_poll = (\<lambda>ep s. (False, s)), ro_publish = (\<lambda>reply s. (Inr (), s))\<rparr>
    (demo_event\<lparr>ev_Data := [(''targetIPaddress'', JStr ''10.0.0.1''), (''drainTimeout'', JStr ''0'')]\<rparr>)
    \<lparr>eh_state = (), eh_EventMap = [], eh_published = [], eh_sessions = []\<rparr> = Panic"
  by (rule conjunct1, rule zero_timeout_panics [of _ "''10.0.0.1''"]) simp_all

end

