(* ===== verification/Go_Url.thy ===== *)
theory Go_Url
  imports Go_Text
begin

text \<open>
  The functions of Go's \<open>net/url\<close> package that the metadata client calls: escaping, \<open>Parse\<close>,
  \<open>EscapedPath\<close>. The authority of a URL (user, host and port) is parsed by a parameter.
\<close>

section \<open>Escaping\<close>

definition is_alpha :: "char \<Rightarrow> bool" where
  "is_alpha c \<longleftrightarrow> (65 \<le> code c \<and> code c \<le> 90) \<or> (97 \<le> code c \<and> code c \<le> 122)"

datatype encoding = encodePath | encodePathSegment | encodeQueryComponent | encodeFragment

text \<open>\<open>shouldEscape\<close> of the four modes in use.\<close>

definition should_escape :: "encoding \<Rightarrow> char \<Rightarrow> bool" where
  "should_escape m c =
     (if is_alpha c \<or> is_digit c \<or> c \<in> set ''-_.~'' then False
      else if c \<in> set ''$&+,/:;=?@'' then
        (case m of
           encodePath \<Rightarrow> c = CHR ''?''
         | encodePathSegment \<Rightarrow> c \<in> set ''/;,?''
         | encodeQueryComponent \<Rightarrow> True
         | encodeFragment \<Rightarrow> False)
      else if m = encodeFragment \<and> c \<in> set ''!()*'' then False
      else True)"

definition upper_hex :: "nat \<Rightarrow> char" where
  "upper_hex d = (if d < 10 then char_of (48 + d) else char_of (55 + d))"

fun escape :: "encoding \<Rightarrow> string \<Rightarrow> string" where
  "escape m [] = []"
| "escape m (c # cs) =
     (if c = CHR '' '' \<and> m = encodeQueryComponent then CHR ''+'' # escape m cs
      else if should_escape m c
      then CHR ''%'' # upper_hex (code c div 16) # upper_hex (code c mod 16) # escape m cs
      else c # escape m cs)"

definition PathEscape :: "string \<Rightarrow> string" where
  "PathEscape = escape encodePathSegment"

definition QueryEscape :: "string \<Rightarrow> string" where
  "QueryEscape = escape encodeQueryComponent"

definition hex_value :: "char \<Rightarrow> nat option" where
  "hex_value c =
     (if 48 \<le> code c \<and> code c \<le> 57 then Some (code c - 48)
      else if 97 \<le> code c \<and> code c \<le> 102 then Some (code c - 87)
      else if 65 \<le> code c \<and> code c \<le> 70 then Some (code c - 55) else None)"

text \<open>\<open>unescape\<close> of a path or a fragment; \<open>None\<close> for a percent sign without two hex digits.\<close>

fun unescape :: "string \<Rightarrow> string option" where
  "unescape [] = Some []"
| "unescape (c # cs) =
     (if c \<noteq> CHR ''%'' then map_option ((#) c) (unescape cs)
      else case cs of
        a # b # rest \<Rightarrow>
          (case (hex_value a, hex_value b) of
             (Some x, Some y) \<Rightarrow> map_option ((#) (char_of (16 * x + y))) (unescape rest)
           | _ \<Rightarrow> None)
      | _ \<Rightarrow> None)"

definition validEncoded :: "string \<Rightarrow> bool" where
  "validEncoded = list_all (\<lambda>c. c \<in> set ''!$&()*+,;=:@[]%'' \<or> code c = 39 \<or> \<not> should_escape encodePath c)"

section \<open>URLs\<close>

record URL =
  u_Scheme :: string
  u_Opaque :: string
  u_User :: "string option"
  u_Host :: string
  u_Path :: string
  u_RawPath :: string
  u_RawQuery :: string
  u_Fragment :: string
  u_RawFragment :: string
  u_ForceQuery :: bool
  u_OmitHost :: bool

definition EscapedPath :: "URL \<Rightarrow> string" where
  "EscapedPath u =
     (if u_RawPath u \<noteq> '''' \<and> validEncoded (u_RawPath u) \<and> unescape (u_RawPath u) = Some (u_Path u)
      then u_RawPath u
      else if u_Path u = ''*'' then ''*''
      else escape encodePath (u_Path u))"

definition setPath :: "string \<Rightarrow> URL \<Rightarrow> URL option" where
  "setPath p u =
     (case unescape p of
        None \<Rightarrow> None
      | Some path \<Rightarrow> Some (u\<lparr>u_Path := path, u_RawPath := (if p = escape encodePath path then '''' else p)\<rparr>))"

definition has_ctl :: "string \<Rightarrow> bool" where
  "has_ctl s \<longleftrightarrow> list_ex (\<lambda>c. code c < 32 \<or> code c = 127) s"

text \<open>\<open>getScheme\<close>: the scheme (empty when there is none) and the rest.\<close>

fun get_scheme :: "string \<Rightarrow> string \<Rightarrow> string \<Rightarrow> (string \<times> string) option" where
  "get_scheme raw acc [] = Some ('''', raw)"
| "get_scheme raw acc (c # cs) =
     (if is_alpha c then get_scheme raw (acc @ [c]) cs
      else if is_digit c \<or> c \<in> set ''+-.''
      then (if acc = '''' then Some ('''', raw) else get_scheme raw (acc @ [c]) cs)
      else if c = CHR '':'' then (if acc = '''' then None else Some (acc, cs))
      else Some ('''', raw))"

definition cut_at :: "string \<Rightarrow> string \<Rightarrow> string \<times> string" where
  "cut_at s sep = (case Cut s sep of None \<Rightarrow> (s, '''') | Some (a, b) \<Rightarrow> (a, b))"

definition empty_URL :: URL where
  "empty_URL = \<lparr>u_Scheme = '''', u_Opaque = '''', u_User = None, u_Host = '''', u_Path = '''', u_RawPath = '''',
     u_RawQuery = '''', u_Fragment = '''', u_RawFragment = '''', u_ForceQuery = False, u_OmitHost = False\<rparr>"

text \<open>What stands before the question mark, whether the query is empty but marked, and the query.\<close>

definition cut_query :: "string \<Rightarrow> string \<times> bool \<times> string" where
  "cut_query rest =
     (if HasSuffix rest ''?'' \<and> CHR ''?'' \<notin> set (butlast rest) then (butlast rest, True, '''')
      else (fst (cut_at rest ''?''), False, snd (cut_at rest ''?'')))"

text \<open>\<open>parse\<close> without the fragment; \<open>authority\<close> parses user and host.\<close>

definition parse_rest ::
  "(string \<Rightarrow> (string option \<times> string) option) \<Rightarrow> string \<Rightarrow> string \<Rightarrow> bool \<Rightarrow> string \<Rightarrow> URL option" where
  "parse_rest authority scheme rest force query =
     (let u = empty_URL\<lparr>u_Scheme := scheme, u_RawQuery := query, u_ForceQuery := force\<rparr> in
      if \<not> HasPrefix rest ''/'' \<and> scheme \<noteq> '''' then Some (u\<lparr>u_Opaque := rest\<rparr>)
      else if \<not> HasPrefix rest ''/'' \<and> CHR '':'' \<in> set (fst (cut_at rest ''/'')) then None
      else if (scheme \<noteq> '''' \<or> \<not> HasPrefix rest ''///'') \<and> HasPrefix rest ''//'' then
        (let a = takeWhile (\<lambda>c. c \<noteq> CHR ''/'') (drop 2 rest); path = dropWhile (\<lambda>c. c \<noteq> CHR ''/'') (drop 2 rest)
         in case authority a of
              None \<Rightarrow> None
            | Some (user, host) \<Rightarrow> setPath path (u\<lparr>u_User := user, u_Host := host\<rparr>))
      else setPath rest (u\<lparr>u_OmitHost := (scheme \<noteq> '''' \<and> HasPrefix rest ''/'')\<rparr>))"

definition setFragment :: "string \<Rightarrow> URL \<Rightarrow> URL option" where
  "setFragment f u =
     (case unescape f of
        None \<Rightarrow> None
      | Some frag \<Rightarrow> Some (u\<lparr>u_Fragment := frag, u_RawFragment := (if f = escape encodeFragment frag then '''' else f)\<rparr>))"

definition Parse :: "(string \<Rightarrow> (string option \<times> string) option) \<Rightarrow> string \<Rightarrow> URL option" where
  "Parse authority raw =
     (case cut_at raw ''#'' of (u, frag) \<Rightarrow>
        if has_ctl u then None
        else
          case (if u = ''*'' then Some (empty_URL\<lparr>u_Path := ''*''\<rparr>)
                else case get_scheme u '''' u of
                  None \<Rightarrow> None
                | Some (scheme, rest) \<Rightarrow>
                    (case cut_query rest of (path, force, query) \<Rightarrow> parse_rest authority (ToLower scheme) path force query)) of
            None \<Rightarrow> None
          | Some url \<Rightarrow>
              if frag = '''' then Some url else setFragment frag url)"

definition IsAbs :: "URL \<Rightarrow> bool" where
  "IsAbs u \<longleftrightarrow> u_Scheme u \<noteq> ''''"

section \<open>Escaping is undone by parsing\<close>

lemma code_bound: "code c < 256"
  by simp

lemma hex_value_upper: "d < 16 \<Longrightarrow> hex_value (upper_hex d) = Some d"
  by (auto simp: hex_value_def upper_hex_def)

lemma not_escaped_mark: "\<not> should_escape m c \<Longrightarrow> c \<noteq> CHR ''%''"
  by (auto simp: should_escape_def is_alpha_def is_digit_def)

lemma unescape_escape:
  assumes "m \<noteq> encodeQueryComponent"
  shows "unescape (escape m s @ t) = map_option ((@) s) (unescape t)"
proof (induction s)
  case Nil
  show ?case by (cases "unescape t") simp_all
next
  case (Cons c s)
  have c: "char_of (16 * (code c div 16) + code c mod 16) = c" by (simp add: mult.commute)
  have d: "code c div 16 < 16" using code_bound [of c] by (simp add: less_mult_imp_div_less)
  show ?case
    using assms Cons hex_value_upper [OF d] hex_value_upper [of "code c mod 16"] not_escaped_mark [of m c] c
    by (cases "unescape t") auto
qed

text \<open>The bytes of an escaped path segment.\<close>

lemma upper_hex_alnum: "d < 16 \<Longrightarrow> is_alpha (upper_hex d) \<or> is_digit (upper_hex d)"
  by (auto simp: upper_hex_def is_alpha_def is_digit_def)

lemma PathEscape_chars:
  "c \<in> set (PathEscape s) \<Longrightarrow> c = CHR ''%'' \<or> \<not> should_escape encodePathSegment c"
proof (induction s)
  case (Cons x s)
  have "\<not> should_escape encodePathSegment (upper_hex d)" if "d < 16" for d
    using upper_hex_alnum [OF that] by (auto simp: should_escape_def)
  moreover have "code x div 16 < 16" using code_bound [of x] by (simp add: less_mult_imp_div_less)
  ultimately show ?case using Cons by (auto simp: PathEscape_def split: if_splits)
qed (simp add: PathEscape_def)

lemma segment_char:
  assumes "c = CHR ''%'' \<or> \<not> should_escape encodePathSegment c"
  shows "is_alpha c \<or> is_digit c \<or> c \<in> set ''-_.~$&+:=@%''"
  using assms by (simp add: should_escape_def split: if_splits) auto

lemma segment_char_safe:
  assumes "is_alpha c \<or> is_digit c \<or> c \<in> set ''-_.~$&+:=@%''"
  shows "c \<notin> set ''/?#''" and "32 \<le> code c \<and> code c \<noteq> 127"
  using assms by (auto simp: is_alpha_def is_digit_def)

lemma segment_char_valid:
  assumes "is_alpha c \<or> is_digit c \<or> c \<in> set ''-_.~$&+:=@%''"
  shows "c \<in> set ''!$&()*+,;=:@[]%'' \<or> code c = 39 \<or> \<not> should_escape encodePath c"
  using assms by (auto simp: should_escape_def)

lemma cut_at_absent: "x \<notin> set s \<Longrightarrow> cut_at s [x] = (s, [])"
  using Cut_None_iff [of "[x]" s] by (auto simp: cut_at_def in_set_conv_decomp)

lemma cut_query_absent: "CHR ''?'' \<notin> set s \<Longrightarrow> cut_query s = (s, False, '''')"
  by (auto simp: cut_query_def cut_at_absent HasSuffix_iff)

text \<open>A reference that starts with one slash and has neither query nor fragment.\<close>

lemma Parse_path:
  assumes slash: "HasPrefix p ''/''" "\<not> HasPrefix p ''//''" and clean: "CHR ''#'' \<notin> set p" "CHR ''?'' \<notin> set p" "\<not> has_ctl p"
    and path: "unescape p = Some path"
  shows "Parse authority p =
    Some (empty_URL\<lparr>u_Path := path, u_RawPath := (if p = escape encodePath path then '''' else p)\<rparr>)"
proof -
  obtain q where q: "p = CHR ''/'' # q" using slash(1) by (auto simp: HasPrefix_iff)
  have "get_scheme p '''' p = Some ('''', p)" by (simp add: q is_alpha_def is_digit_def)
  moreover have "p \<noteq> ''*''" by (simp add: q)
  moreover have "cut_query p = (p, False, '''')" using clean(2) by (rule cut_query_absent)
  ultimately show ?thesis
    using slash clean path
    by (simp add: Parse_def cut_at_absent parse_rest_def setPath_def ToLower_def Let_def empty_URL_def)
qed

lemma EscapedPath_parsed:
  assumes "validEncoded p" "p \<noteq> ''''" "unescape p = Some (u_Path u)" "u_Path u \<noteq> ''*''"
    and "u_RawPath u = (if p = escape encodePath (u_Path u) then '''' else p)"
  shows "EscapedPath u = p"
  using assms by (auto simp: EscapedPath_def)

text \<open>An escaped segment is a dot segment only if the segment is.\<close>

lemma unescape_PathEscape: "unescape (PathEscape s @ t) = map_option ((@) s) (unescape t)"
  unfolding PathEscape_def by (rule unescape_escape) simp

lemma PathEscape_dots: "PathEscape s = ''..'' \<longleftrightarrow> s = ''..''"
proof
  assume e: "PathEscape s = ''..''"
  show "s = ''..''" using unescape_PathEscape [of s "[]"] by (simp add: e)
qed (simp add: PathEscape_def should_escape_def)

lemma dot_code: "code c = 46 \<Longrightarrow> c = CHR ''.''"
proof -
  assume "code c = 46"
  then have "code c = code (CHR ''.'')" by simp
  then show ?thesis by (simp only: of_char_eq_iff)
qed

lemma code_lower: "code (ascii_lower c) = (if 65 \<le> code c \<and> code c \<le> 90 then code c + 32 else code c)"
  by (simp add: ascii_lower_def)

lemma code_upper_hex: "d < 16 \<Longrightarrow> code (upper_hex d) = (if d < 10 then 48 + d else 55 + d)"
  by (simp add: upper_hex_def)

lemma fold_case_alnum: "is_alpha x \<or> is_digit x \<Longrightarrow> fold_case (x # xs) = ascii_lower x # fold_case xs"
  by (auto simp: is_alpha_def is_digit_def)

lemma fold_case_percent: "fold_case (CHR ''%'' # xs) = CHR ''%'' # fold_case xs"
  by (simp add: ascii_lower_def)

lemma upper_hex_lower:
  assumes "d < 16" and "ascii_lower (upper_hex d) = c"
  shows "code c = (if d < 10 then 48 + d else 87 + d)"
  using assms code_lower [of "upper_hex d"] by (auto simp: code_upper_hex)

lemma fold_case_hd: "fold_case (c # cs) = CHR ''%'' # r \<Longrightarrow> c = CHR ''%''"
proof -
  assume "fold_case (c # cs) = CHR ''%'' # r"
  then have "ascii_lower c = CHR ''%''" by (auto split: if_splits)
  then have "code (ascii_lower c) = code (CHR ''%'')" by simp
  then have "code c = code (CHR ''%'')" by (auto simp: code_lower split: if_splits)
  then show ?thesis by (simp only: of_char_eq_iff)
qed

lemma PathEscape_encoded_dots: "\<not> EqualFold (PathEscape s) ''%2e%2e''"
proof
  assume "EqualFold (PathEscape s) ''%2e%2e''"
  moreover have "fold_case ''%2e%2e'' = ''%2e%2e''" by (simp add: ascii_lower_def)
  ultimately have e: "fold_case (PathEscape s) = ''%2e%2e''" by (simp add: EqualFold_def)
  then obtain c cs where s: "s = c # cs" by (cases s) (simp_all add: PathEscape_def)
  have c: "should_escape encodePathSegment c"
  proof (rule ccontr)
    assume "\<not> should_escape encodePathSegment c"
    moreover from this have "PathEscape s = c # PathEscape cs" by (simp add: s PathEscape_def)
    ultimately show False using e not_escaped_mark fold_case_hd by metis
  qed
  let ?a = "code c div 16" and ?b = "code c mod 16"
  have b: "?a < 16" "?b < 16" using code_bound [of c] by (simp_all add: less_mult_imp_div_less)
  have p: "PathEscape s = CHR ''%'' # upper_hex ?a # upper_hex ?b # PathEscape cs"
    using c by (simp add: s PathEscape_def)
  have "ascii_lower (upper_hex ?a) = CHR ''2''" "ascii_lower (upper_hex ?b) = CHR ''e''"
    using e unfolding p fold_case_percent fold_case_alnum [OF upper_hex_alnum [OF b(1)]]
      fold_case_alnum [OF upper_hex_alnum [OF b(2)]] by (simp_all only: list.inject)
  from upper_hex_lower [OF b(1) this(1)] upper_hex_lower [OF b(2) this(2)] have "?a = 2" "?b = 14"
    by (auto split: if_splits)
  then have "code c = 46" by presburger
  with c show False by (auto dest!: dot_code simp: should_escape_def)
qed

end
