(* ===== verification/Metadata_Client.thy ===== *)
theory Metadata_Client
  imports Go_Url Build_Config
begin

text \<open>
  The client of the metadata service (\<open>internal/metadata/client.go\<close>): the checks of the base URL
  and of request paths, one request, the documents it decodes, the wait for the service and the
  stream of versions.

  The clock and the sleep (in milliseconds), the transport (\<open>http.Client.Do\<close>), the parser of URL
  authorities, \<open>net.ParseIP\<close> and the JSON decoders of the document types are the parameter \<open>env\<close>
  (\<open>Metadata_Codec\<close> has the decoders of the code). A method
  \<open>return result, client.decode(path, &result)\<close> gives the decoded value: Go leaves the order of
  the two operands unspecified, and its compiler reads the variable after the call.
\<close>

section \<open>State and environment\<close>

record httpClient =
  cl_baseURL :: URL
  cl_forwardedFor :: string
  cl_initErr :: "go_error option"

record http_request =
  rq_URL :: URL
  rq_Header :: "(string, string) gomap"
  rq_timeout :: int

text \<open>A response: its status, the bytes of the body, and whether reading fails after them.\<close>

record http_response =
  rs_StatusCode :: int
  rs_Body :: string
  rs_broken :: bool

record 'w metadata_env =
  me_authority :: "string \<Rightarrow> (string option \<times> string) option"
  me_isIP :: "string \<Rightarrow> bool"
  me_now :: "'w \<Rightarrow> int"
  me_sleep :: "int \<Rightarrow> 'w \<Rightarrow> 'w"
  me_do :: "(URL \<Rightarrow> URL list \<Rightarrow> unit result) \<Rightarrow> http_request \<Rightarrow> 'w \<Rightarrow> http_response result \<times> 'w"
  me_string :: "string \<Rightarrow> string option"
  me_host :: "string \<Rightarrow> Host option"
  me_hosts :: "string \<Rightarrow> Host list option"
  me_container :: "string \<Rightarrow> Container option"
  me_containers :: "string \<Rightarrow> Container list option"
  me_service :: "string \<Rightarrow> Service option"
  me_services :: "string \<Rightarrow> Service list option"
  me_stack :: "string \<Rightarrow> Stack option"
  me_stacks :: "string \<Rightarrow> Stack list option"
  me_environments :: "string \<Rightarrow> Environment list option"
  me_networks :: "string \<Rightarrow> Network list option"

definition maxResponseBytes :: int where
  "maxResponseBytes = push_bit 20 32"

definition requestTimeout :: int where
  "requestTimeout = 15"

section \<open>The constructor\<close>

definition TrimRightSlash :: "string \<Rightarrow> string" where
  "TrimRightSlash s = rev (dropWhile (\<lambda>c. c = CHR ''/'') (rev s))"

definition newHTTPClient :: "'w metadata_env \<Rightarrow> string \<Rightarrow> string \<Rightarrow> httpClient result" where
  "newHTTPClient env rawURL forwardedFor =
     (case Parse (me_authority env) rawURL of
        None \<Rightarrow> Inl (Errorf ''invalid metadata URL'' [])
      | Some u \<Rightarrow>
          if (u_Scheme u \<noteq> ''http'' \<and> u_Scheme u \<noteq> ''https'') \<or> u_Host u = ''''
          then Inl (Errorf ''metadata URL must use HTTP or HTTPS and include a host'' [])
          else if u_User u \<noteq> None \<or> u_RawQuery u \<noteq> '''' \<or> u_Fragment u \<noteq> ''''
          then Inl (Errorf ''metadata URL must not contain credentials, a query, or a fragment'' [])
          else if forwardedFor \<noteq> '''' \<and> \<not> me_isIP env forwardedFor
          then Inl (Errorf ''forwarded metadata address is not an IP address'' [])
          else Inr \<lparr>cl_baseURL = u\<lparr>u_Path := TrimRightSlash (u_Path u)\<rparr>, cl_forwardedFor = forwardedFor,
                 cl_initErr = None\<rparr>)"

text \<open>\<open>NewClient\<close> keeps the error for the first request.\<close>

definition NewClient :: "'w metadata_env \<Rightarrow> string \<Rightarrow> httpClient" where
  "NewClient env rawURL =
     (case newHTTPClient env rawURL '''' of
        Inl e \<Rightarrow> \<lparr>cl_baseURL = empty_URL, cl_forwardedFor = '''', cl_initErr = Some e\<rparr>
      | Inr client \<Rightarrow> client)"

text \<open>\<open>CheckRedirect\<close>; the last argument lists the requests made, the first one first.\<close>

definition check_redirect :: "URL \<Rightarrow> URL list \<Rightarrow> unit result" where
  "check_redirect request via =
     (case via of
        [] \<Rightarrow> Inr ()
      | origin # _ \<Rightarrow>
          if \<not> EqualFold (u_Scheme request) (u_Scheme origin) \<or> \<not> EqualFold (u_Host request) (u_Host origin)
          then Inl (Errorf ''metadata redirect changed origin'' [])
          else if length via \<ge> 5 then Inl (Errorf ''too many metadata redirects'' [])
          else Inr ())"

section \<open>One request\<close>

definition traversal_segment :: "string \<Rightarrow> bool" where
  "traversal_segment s \<longleftrightarrow> s = ''..'' \<or> EqualFold s ''%2e%2e''"

definition client_endpoint :: "'w metadata_env \<Rightarrow> httpClient \<Rightarrow> string \<Rightarrow> URL result" where
  "client_endpoint env client path =
     (case cl_initErr client of
        Some e \<Rightarrow> Inl e
      | None \<Rightarrow>
          (case Parse (me_authority env) path of
             None \<Rightarrow> Inl (Errorf ''invalid metadata request path'' [])
           | Some reference \<Rightarrow>
               if IsAbs reference \<or> u_Host reference \<noteq> '''' \<or> \<not> HasPrefix (u_Path reference) ''/''
               then Inl (Errorf ''invalid metadata request path'' [])
               else if list_ex traversal_segment (Split (EscapedPath reference) ''/'')
               then Inl (Errorf ''metadata request path contains traversal'' [])
               else Inr ((cl_baseURL client)\<lparr>u_Path := u_Path (cl_baseURL client) @ u_Path reference,
                      u_RawPath := '''', u_RawQuery := u_RawQuery reference\<rparr>)))"

definition sendRequest :: "'w metadata_env \<Rightarrow> httpClient \<Rightarrow> string \<Rightarrow> int \<Rightarrow> 'w \<Rightarrow> string result \<times> 'w" where
  "sendRequest env client path timeout w =
     (case client_endpoint env client path of
        Inl e \<Rightarrow> (Inl e, w)
      | Inr target \<Rightarrow>
          (case me_do env check_redirect
                  \<lparr>rq_URL = target,
                   rq_Header = (''Accept'', ''application/json'') #
                     (if cl_forwardedFor client \<noteq> '''' then [(''X-Forwarded-For'', cl_forwardedFor client)] else []),
                   rq_timeout = timeout\<rparr> w of
             (Inl e, w1) \<Rightarrow> (Inl (Wrapf ''metadata request failed: %w'' [] e), w1)
           | (Inr response, w1) \<Rightarrow>
               if rs_StatusCode response \<noteq> 200
               then (Inl (Errorf ''metadata request returned HTTP %d'' [Itoa (rs_StatusCode response)]), w1)
               else if int (length (rs_Body response)) > maxResponseBytes
               then (Inl (Errorf ''metadata response exceeded size limit'' []), w1)
               else if rs_broken response
               then (Inl (Errorf ''could not read metadata response'' []), w1)
               else (Inr (rs_Body response), w1)))"

definition SendRequest :: "'w metadata_env \<Rightarrow> httpClient \<Rightarrow> string \<Rightarrow> 'w \<Rightarrow> string result \<times> 'w" where
  "SendRequest env client path w = sendRequest env client path requestTimeout w"

definition decode :: "'w metadata_env \<Rightarrow> httpClient \<Rightarrow> (string \<Rightarrow> 'a option) \<Rightarrow> string \<Rightarrow> 'w \<Rightarrow> 'a result \<times> 'w" where
  "decode env client unmarshal path w =
     (case SendRequest env client path w of
        (Inl e, w1) \<Rightarrow> (Inl e, w1)
      | (Inr body, w1) \<Rightarrow>
          (case unmarshal body of
             None \<Rightarrow> (Inl (Errorf ''metadata response was not valid JSON'' []), w1)
           | Some x \<Rightarrow> (Inr x, w1)))"

section \<open>The documents\<close>

definition GetVersion :: "'w metadata_env \<Rightarrow> httpClient \<Rightarrow> 'w \<Rightarrow> string result \<times> 'w" where
  "GetVersion env client = decode env client (me_string env) ''/version''"

definition client_GetName :: "'w metadata_env \<Rightarrow> httpClient \<Rightarrow> 'w \<Rightarrow> string result \<times> 'w" where
  "client_GetName env client = decode env client (me_string env) ''/name''"

definition GetRegionName :: "'w metadata_env \<Rightarrow> httpClient \<Rightarrow> 'w \<Rightarrow> string result \<times> 'w" where
  "GetRegionName env client = decode env client (me_string env) ''/region_name''"

definition GetSelfHost :: "'w metadata_env \<Rightarrow> httpClient \<Rightarrow> 'w \<Rightarrow> Host result \<times> 'w" where
  "GetSelfHost env client = decode env client (me_host env) ''/self/host''"

definition GetSelfContainer :: "'w metadata_env \<Rightarrow> httpClient \<Rightarrow> 'w \<Rightarrow> Container result \<times> 'w" where
  "GetSelfContainer env client = decode env client (me_container env) ''/self/container''"

definition GetSelfServiceByName :: "'w metadata_env \<Rightarrow> httpClient \<Rightarrow> string \<Rightarrow> 'w \<Rightarrow> Service result \<times> 'w" where
  "GetSelfServiceByName env client name =
     decode env client (me_service env) (''/self/stack/services/'' @ PathEscape name)"

definition GetSelfService :: "'w metadata_env \<Rightarrow> httpClient \<Rightarrow> 'w \<Rightarrow> Service result \<times> 'w" where
  "GetSelfService env client = decode env client (me_service env) ''/self/service''"

definition GetSelfStack :: "'w metadata_env \<Rightarrow> httpClient \<Rightarrow> 'w \<Rightarrow> Stack result \<times> 'w" where
  "GetSelfStack env client = decode env client (me_stack env) ''/self/stack''"

text \<open>The path of a service in the local environment.\<close>

definition service_path :: "string \<Rightarrow> string \<Rightarrow> string" where
  "service_path stackName serviceName =
     ''/stacks/'' @ PathEscape stackName @ ''/services/'' @ PathEscape serviceName"

definition GetServiceInLocalEnvironment ::
  "'w metadata_env \<Rightarrow> httpClient \<Rightarrow> string \<Rightarrow> string \<Rightarrow> 'w \<Rightarrow> Service result \<times> 'w" where
  "GetServiceInLocalEnvironment env client stackName serviceName =
     decode env client (me_service env) (service_path stackName serviceName)"

definition GetEnvironments :: "'w metadata_env \<Rightarrow> httpClient \<Rightarrow> 'w \<Rightarrow> Environment list result \<times> 'w" where
  "GetEnvironments env client = decode env client (me_environments env) ''/environments''"

text \<open>The two loops of \<open>GetServiceFromRegionEnvironment\<close>: the first match ends both.\<close>

fun find_service :: "string \<Rightarrow> string \<Rightarrow> string \<Rightarrow> string \<Rightarrow> Environment list \<Rightarrow> Service option" where
  "find_service region environment stack service [] = None"
| "find_service region environment stack service (e # es) =
     (if \<not> EqualFold region (env_RegionName e) \<or> \<not> EqualFold environment (env_Name e)
      then find_service region environment stack service es
      else case find (\<lambda>s. svc_StackName s = stack \<and> svc_Name s = service) (env_Services e) of
        Some s \<Rightarrow> Some s
      | None \<Rightarrow> find_service region environment stack service es)"

definition GetServiceFromRegionEnvironment ::
  "'w metadata_env \<Rightarrow> httpClient \<Rightarrow> string \<Rightarrow> string \<Rightarrow> string \<Rightarrow> string \<Rightarrow> 'w \<Rightarrow> Service result \<times> 'w" where
  "GetServiceFromRegionEnvironment env client regionName environmentName stackName serviceName w =
     (case GetEnvironments env client w of
        (Inl e, w1) \<Rightarrow> (Inl e, w1)
      | (Inr environments, w1) \<Rightarrow>
          (case find_service regionName environmentName stackName serviceName environments of
             None \<Rightarrow> (Inl (Errorf ''metadata service was not found'' []), w1)
           | Some service \<Rightarrow> (Inr service, w1)))"

definition GetServiceInLocalRegion ::
  "'w metadata_env \<Rightarrow> httpClient \<Rightarrow> string \<Rightarrow> string \<Rightarrow> string \<Rightarrow> 'w \<Rightarrow> Service result \<times> 'w" where
  "GetServiceInLocalRegion env client environmentName stackName serviceName w =
     (case GetRegionName env client w of
        (Inl e, w1) \<Rightarrow> (Inl e, w1)
      | (Inr regionName, w1) \<Rightarrow>
          GetServiceFromRegionEnvironment env client regionName environmentName stackName serviceName w1)"

definition GetServices :: "'w metadata_env \<Rightarrow> httpClient \<Rightarrow> 'w \<Rightarrow> Service list result \<times> 'w" where
  "GetServices env client = decode env client (me_services env) ''/services''"

definition GetStacks :: "'w metadata_env \<Rightarrow> httpClient \<Rightarrow> 'w \<Rightarrow> Stack list result \<times> 'w" where
  "GetStacks env client = decode env client (me_stacks env) ''/stacks''"

definition first_services :: "(Environment \<Rightarrow> bool) \<Rightarrow> Environment list \<Rightarrow> Service list" where
  "first_services P es = (case find P es of None \<Rightarrow> [] | Some e \<Rightarrow> env_Services e)"

definition GetServicesFromRegionEnvironment ::
  "'w metadata_env \<Rightarrow> httpClient \<Rightarrow> string \<Rightarrow> string \<Rightarrow> 'w \<Rightarrow> Service list result \<times> 'w" where
  "GetServicesFromRegionEnvironment env client regionName environmentName w =
     (case GetEnvironments env client w of
        (Inl e, w1) \<Rightarrow> (Inl e, w1)
      | (Inr environments, w1) \<Rightarrow>
          (Inr (first_services (\<lambda>e. EqualFold regionName (env_RegionName e) \<and>
             EqualFold environmentName (env_Name e)) environments), w1))"

definition GetServicesInLocalRegion ::
  "'w metadata_env \<Rightarrow> httpClient \<Rightarrow> string \<Rightarrow> 'w \<Rightarrow> Service list result \<times> 'w" where
  "GetServicesInLocalRegion env client environmentName w =
     (case GetRegionName env client w of
        (Inl e, w1) \<Rightarrow> (Inl e, w1)
      | (Inr regionName, w1) \<Rightarrow> GetServicesFromRegionEnvironment env client regionName environmentName w1)"

definition GetServicesByEnvironmentUUID ::
  "'w metadata_env \<Rightarrow> httpClient \<Rightarrow> string \<Rightarrow> 'w \<Rightarrow> Service list result \<times> 'w" where
  "GetServicesByEnvironmentUUID env client environmentUUID w =
     (case GetEnvironments env client w of
        (Inl e, w1) \<Rightarrow> (Inl e, w1)
      | (Inr environments, w1) \<Rightarrow>
          (Inr (first_services (\<lambda>e. env_UUID e = environmentUUID) environments), w1))"

definition GetStackByName :: "'w metadata_env \<Rightarrow> httpClient \<Rightarrow> string \<Rightarrow> 'w \<Rightarrow> Stack result \<times> 'w" where
  "GetStackByName env client name = decode env client (me_stack env) (''/stacks/'' @ PathEscape name)"

definition GetContainers :: "'w metadata_env \<Rightarrow> httpClient \<Rightarrow> 'w \<Rightarrow> Container list result \<times> 'w" where
  "GetContainers env client = decode env client (me_containers env) ''/containers''"

definition GetServiceContainers ::
  "'w metadata_env \<Rightarrow> httpClient \<Rightarrow> string \<Rightarrow> string \<Rightarrow> 'w \<Rightarrow> Container list result \<times> 'w" where
  "GetServiceContainers env client serviceName stackName w =
     (case GetContainers env client w of
        (Inl e, w1) \<Rightarrow> (Inl e, w1)
      | (Inr containers, w1) \<Rightarrow>
          (Inr (filter (\<lambda>c. ct_ServiceName c = serviceName \<and> ct_StackName c = stackName) containers), w1))"

definition GetHosts :: "'w metadata_env \<Rightarrow> httpClient \<Rightarrow> 'w \<Rightarrow> Host list result \<times> 'w" where
  "GetHosts env client = decode env client (me_hosts env) ''/hosts''"

definition GetHost :: "'w metadata_env \<Rightarrow> httpClient \<Rightarrow> string \<Rightarrow> 'w \<Rightarrow> Host result \<times> 'w" where
  "GetHost env client uuid w =
     (case GetHosts env client w of
        (Inl e, w1) \<Rightarrow> (Inl e, w1)
      | (Inr hosts, w1) \<Rightarrow>
          (case find (\<lambda>h. host_UUID h = uuid) hosts of
             None \<Rightarrow> (Inl (Errorf ''metadata host was not found'' []), w1)
           | Some h \<Rightarrow> (Inr h, w1)))"

definition GetNetworks :: "'w metadata_env \<Rightarrow> httpClient \<Rightarrow> 'w \<Rightarrow> Network list result \<times> 'w" where
  "GetNetworks env client = decode env client (me_networks env) ''/networks''"

section \<open>Waiting for the service\<close>

definition connectionDeadline :: int where
  "connectionDeadline = 20000"

text \<open>The loop of \<open>waitForConnection\<close>, with fuel: one unit per try.\<close>

fun wait_loop :: "nat \<Rightarrow> 'w metadata_env \<Rightarrow> httpClient \<Rightarrow> int \<Rightarrow> int \<Rightarrow> 'w \<Rightarrow> (unit result \<times> 'w) option" where
  "wait_loop 0 env client deadline delay w = None"
| "wait_loop (Suc n) env client deadline delay w =
     (case GetVersion env client w of
        (Inr _, w1) \<Rightarrow> Some (Inr (), w1)
      | (Inl lastErr, w1) \<Rightarrow>
          if me_now env w1 + delay > deadline
          then Some (Inl (Wrapf ''metadata service did not become ready: %w'' [] lastErr), w1)
          else wait_loop n env client deadline (if delay < 4000 then 2 * delay else delay) (me_sleep env delay w1))"

definition waitForConnection :: "nat \<Rightarrow> 'w metadata_env \<Rightarrow> httpClient \<Rightarrow> 'w \<Rightarrow> (unit result \<times> 'w) option" where
  "waitForConnection n env client w = wait_loop n env client (me_now env w + connectionDeadline) 1000 w"

definition NewClientWithIPAndWait ::
  "nat \<Rightarrow> 'w metadata_env \<Rightarrow> string \<Rightarrow> string \<Rightarrow> 'w \<Rightarrow> (httpClient result \<times> 'w) option" where
  "NewClientWithIPAndWait n env rawURL forwardedFor w =
     (case newHTTPClient env rawURL forwardedFor of
        Inl e \<Rightarrow> Some (Inl e, w)
      | Inr client \<Rightarrow>
          (case waitForConnection n env client w of
             None \<Rightarrow> None
           | Some (Inl e, w1) \<Rightarrow> Some (Inl e, w1)
           | Some (Inr _, w1) \<Rightarrow> Some (Inr client, w1)))"

definition NewClientAndWait :: "nat \<Rightarrow> 'w metadata_env \<Rightarrow> string \<Rightarrow> 'w \<Rightarrow> (httpClient result \<times> 'w) option" where
  "NewClientAndWait n env rawURL w = NewClientWithIPAndWait n env rawURL '''' w"

section \<open>The stream of versions\<close>

definition waitVersion :: "'w metadata_env \<Rightarrow> httpClient \<Rightarrow> int \<Rightarrow> string \<Rightarrow> 'w \<Rightarrow> string result \<times> 'w" where
  "waitVersion env client maxWait version w =
     (let m = (if maxWait < 1 then 1 else maxWait) in
      case sendRequest env client (''/version?maxWait='' @ QueryEscape (Itoa m) @ ''&value='' @ QueryEscape version @
             ''&wait=true'') (m + 10) w of
        (Inl e, w1) \<Rightarrow> (Inl e, w1)
      | (Inr body, w1) \<Rightarrow>
          (case me_string env body of
             None \<Rightarrow> (Inl (Errorf ''metadata version response was not valid JSON'' []), w1)
           | Some next \<Rightarrow> (Inr next, w1)))"

text \<open>
  The loop of \<open>OnChangeWithError\<close>, with fuel: the versions given to the callback, and how it
  ended (\<open>None\<close>: still running).
\<close>

fun change_loop ::
  "nat \<Rightarrow> 'w metadata_env \<Rightarrow> httpClient \<Rightarrow> int \<Rightarrow> (string \<Rightarrow> 'w \<Rightarrow> 'w) \<Rightarrow> string \<Rightarrow> 'w \<Rightarrow>
   string list \<times> go_error option \<times> 'w" where
  "change_loop 0 env client interval callback version w = ([], None, w)"
| "change_loop (Suc n) env client interval callback version w =
     (case waitVersion env client interval version w of
        (Inl e, w1) \<Rightarrow> ([], Some e, w1)
      | (Inr next, w1) \<Rightarrow>
          if next \<noteq> version
          then (case change_loop n env client interval callback next (callback next w1) of
                  (calls, r) \<Rightarrow> (next # calls, r))
          else change_loop n env client interval callback version w1)"

definition OnChangeWithError ::
  "nat \<Rightarrow> 'w metadata_env \<Rightarrow> httpClient \<Rightarrow> int \<Rightarrow> (string \<Rightarrow> 'w \<Rightarrow> 'w) option \<Rightarrow> 'w \<Rightarrow> string list \<times> go_error option \<times> 'w" where
  "OnChangeWithError n env client intervalSeconds callback w =
     (case callback of
        None \<Rightarrow> ([], Some (Errorf ''metadata change callback is nil'' []), w)
      | Some cb \<Rightarrow> change_loop n env client intervalSeconds cb ''init'' w)"

text \<open>
  \<open>OnChange\<close> starts the stream again, from \<open>init\<close>, when it failed. The list gives the fuel of each
  round; the result is the calls of all rounds.
\<close>

fun OnChange :: "nat list \<Rightarrow> 'w metadata_env \<Rightarrow> httpClient \<Rightarrow> int \<Rightarrow> (string \<Rightarrow> 'w \<Rightarrow> 'w) \<Rightarrow> 'w \<Rightarrow> string list \<times> 'w" where
  "OnChange [] env client intervalSeconds callback w = ([], w)"
| "OnChange (n # ns) env client intervalSeconds callback w =
     (let i = (if intervalSeconds < 1 then 1 else intervalSeconds) in
      case OnChangeWithError n env client i (Some callback) w of
        (calls, None, w1) \<Rightarrow> (calls, w1)
      | (calls, Some _, w1) \<Rightarrow>
          (case OnChange ns env client i callback (me_sleep env (1000 * i) w1) of
             (rest, w2) \<Rightarrow> (calls @ rest, w2)))"

section \<open>The view of the controller\<close>

text \<open>What the controller reads of a client while the service does not change.\<close>

definition client_view :: "'w metadata_env \<Rightarrow> httpClient \<Rightarrow> 'w \<Rightarrow> metadata_client" where
  "client_view env client w =
     \<lparr>mc_GetSelfService = fst (GetSelfService env client w),
      mc_GetSelfHost = fst (GetSelfHost env client w),
      mc_GetServices = fst (GetServices env client w),
      mc_GetContainers = fst (GetContainers env client w),
      mc_GetRegionName = fst (GetRegionName env client w),
      mc_GetServiceFromRegionEnvironment = (\<lambda>r e st s. fst (GetServiceFromRegionEnvironment env client r e st s w)),
      mc_GetServiceInLocalRegion = (\<lambda>e st s. fst (GetServiceInLocalRegion env client e st s w)),
      mc_GetServiceInLocalEnvironment = (\<lambda>st s. fst (GetServiceInLocalEnvironment env client st s w)),
      mc_GetServicesFromRegionEnvironment = (\<lambda>r e. fst (GetServicesFromRegionEnvironment env client r e w)),
      mc_GetServicesInLocalRegion = (\<lambda>e. fst (GetServicesInLocalRegion env client e w))\<rparr>"

end
