(* ===== verification/Metadata_Theorems.thy ===== *)
theory Metadata_Theorems
  imports Metadata_Client
begin

text \<open>
  What the controller can rely on when it reads the metadata service through its client: the
  names it builds for selected services resolve, the wait for the service ends, every change is
  reported once. And what it cannot: the names in request paths are not kept apart.
\<close>

section \<open>Paths of requests\<close>

text \<open>The bytes of a path put together from literals and escaped names.\<close>

definition segment_byte :: "char \<Rightarrow> bool" where
  "segment_byte c \<longleftrightarrow> is_alpha c \<or> is_digit c \<or> c \<in> set ''-_.~$&+:=@%''"

definition path_byte :: "char \<Rightarrow> bool" where
  "path_byte c \<longleftrightarrow> c = CHR ''/'' \<or> segment_byte c"

lemma PathEscape_bytes: "c \<in> set (PathEscape s) \<Longrightarrow> segment_byte c"
  unfolding segment_byte_def by (rule segment_char [OF PathEscape_chars])

lemma path_byte_safe:
  assumes "path_byte c"
  shows "c \<noteq> CHR ''#'' \<and> c \<noteq> CHR ''?'' \<and> 32 \<le> code c \<and> code c \<noteq> 127 \<and>
    (c \<in> set ''!$&()*+,;=:@[]%'' \<or> code c = 39 \<or> \<not> should_escape encodePath c)"
proof (cases "c = CHR ''/''")
  case True
  then show ?thesis by (simp add: should_escape_def)
next
  case False
  with assms have s: "is_alpha c \<or> is_digit c \<or> c \<in> set ''-_.~$&+:=@%''"
    by (simp only: path_byte_def segment_byte_def simp_thms)
  have "c \<noteq> CHR ''#'' \<and> c \<noteq> CHR ''?''" using segment_char_safe(1) [OF s] by simp
  with segment_char_safe(2) [OF s] segment_char_valid [OF s] show ?thesis by blast
qed

lemma service_path_bytes: "c \<in> set (service_path st s) \<Longrightarrow> path_byte c"
proof -
  have "list_all path_byte ''/stacks/''" "list_all path_byte ''/services/''" by code_simp+
  moreover have "list_all path_byte (PathEscape x)" for x
    using PathEscape_bytes [of _ x] by (simp add: list_all_iff path_byte_def)
  ultimately have "list_all path_byte (service_path st s)"
    unfolding service_path_def list_all_append by blast
  then show "c \<in> set (service_path st s) \<Longrightarrow> path_byte c" by (simp add: list_all_iff)
qed

lemma service_path_clean:
  "CHR ''#'' \<notin> set (service_path st s)" "CHR ''?'' \<notin> set (service_path st s)" "\<not> has_ctl (service_path st s)"
  "validEncoded (service_path st s)"
  unfolding has_ctl_def validEncoded_def list_ex_iff list_all_iff
  using path_byte_safe [OF service_path_bytes [of _ st s]] by (blast, blast, fastforce, blast)

lemma unescape_service_path: "unescape (service_path st s) = Some (''/stacks/'' @ st @ ''/services/'' @ s)"
  using unescape_PathEscape [of s "[]"] by (simp add: service_path_def unescape_PathEscape)

lemma PathEscape_no_slash: "CHR ''/'' \<notin> set (PathEscape s)"
  using segment_char_safe(1) [OF segment_char [OF PathEscape_chars], of "CHR ''/''" s] by auto

lemma service_path_segments:
  "Split (service_path st s) ''/'' = ['''', ''stacks'', PathEscape st, ''services'', PathEscape s]"
proof -
  have "Split (CHR ''/'' # ''stacks'' @ CHR ''/'' # PathEscape st @ CHR ''/'' # ''services'' @ CHR ''/'' # PathEscape s) [CHR ''/''] =
      ['''', ''stacks'', PathEscape st, ''services'', PathEscape s]"
    using Split_mark [of "CHR ''/''" "[]"]
    by (simp add: Split_mark [OF PathEscape_no_slash] Split_one [OF PathEscape_no_slash] Split_mark del: append_Cons)
  then show ?thesis by (simp add: service_path_def)
qed

text \<open>
  C36 The names of a request are not kept apart by their escaping: the path is parsed back and
  sent in its decoded form, so for every stack and service name, unless one of them is exactly
  two dots, the client asks for the path in which the names stand as they are. A slash in a name
  becomes a slash of the path, and dot segments behind it pass the check for traversal.
\<close>

theorem names_reach_the_path:
  assumes "cl_initErr client = None" and "stackName \<noteq> ''..''" and "serviceName \<noteq> ''..''"
  shows "client_endpoint env client (service_path stackName serviceName) =
    Inr ((cl_baseURL client)\<lparr>u_Path := u_Path (cl_baseURL client) @ ''/stacks/'' @ stackName @ ''/services/'' @ serviceName,
      u_RawPath := '''', u_RawQuery := ''''\<rparr>)"
proof -
  let ?p = "service_path stackName serviceName" and ?path = "''/stacks/'' @ stackName @ ''/services/'' @ serviceName"
  define u where "u = empty_URL\<lparr>u_Path := ?path, u_RawPath := (if ?p = escape encodePath ?path then '''' else ?p)\<rparr>"
  have sl: "HasPrefix ?p ''/''" "\<not> HasPrefix ?p ''//''" by (simp_all add: service_path_def HasPrefix_def)
  have "Parse (me_authority env) ?p = Some u"
    unfolding u_def by (rule Parse_path [OF sl service_path_clean(1-3) unescape_service_path])
  moreover have "EscapedPath u = ?p"
  proof (rule EscapedPath_parsed [OF service_path_clean(4)])
    show "?p \<noteq> ''''" by (simp add: service_path_def)
    show "unescape ?p = Some (u_Path u)" by (simp add: u_def unescape_service_path)
  qed (simp_all add: u_def)
  moreover have "\<not> list_ex traversal_segment (Split ?p ''/'')"
    using assms(2,3) PathEscape_encoded_dots
    by (simp add: service_path_segments traversal_segment_def PathEscape_dots) (simp add: eval_text)
  moreover have "\<not> IsAbs u" "u_Host u = ''''" "HasPrefix (u_Path u) ''/''" "u_Path u = ?path" "u_RawQuery u = ''''"
    by (simp_all add: u_def empty_URL_def IsAbs_def HasPrefix_def)
  ultimately show ?thesis using assms(1) by (simp add: client_endpoint_def)
qed

text \<open>A service name that asks for another document.\<close>

definition demo_base :: URL where
  "demo_base = empty_URL\<lparr>u_Scheme := ''http'', u_Host := ''metadata'', u_Path := ''/latest''\<rparr>"

definition demo_http :: httpClient where
  "demo_http = \<lparr>cl_baseURL = demo_base, cl_forwardedFor = '''', cl_initErr = None\<rparr>"

lemma names_reach_the_path_witness:
  "\<forall>env :: unit metadata_env. \<exists>target. client_endpoint env demo_http (service_path ''s'' ''x/../../../self/host'') = Inr target \<and>
     EscapedPath target = ''/latest/stacks/s/services/x/../../../self/host''"
proof
  fix env :: "unit metadata_env"
  have "EscapedPath (demo_base\<lparr>u_Path := ''/latest/stacks/s/services/x/../../../self/host'', u_RawPath := '''',
      u_RawQuery := ''''\<rparr>) = ''/latest/stacks/s/services/x/../../../self/host''"
    by code_simp
  then show "\<exists>target. client_endpoint env demo_http (service_path ''s'' ''x/../../../self/host'') = Inr target \<and>
     EscapedPath target = ''/latest/stacks/s/services/x/../../../self/host''"
    using names_reach_the_path [of demo_http "''s''" "''x/../../../self/host''" env]
    by (simp add: demo_http_def demo_base_def)
qed

section \<open>Services by name\<close>

lemma find_service_Some:
  assumes "find_service region environment stack service es = Some s"
  shows "svc_StackName s = stack \<and> svc_Name s = service"
  using assms by (induction es) (auto split: if_splits option.splits simp: find_Some_iff)

text \<open>A service of the first matching environment is found there.\<close>

lemma find_service_first:
  assumes "s \<in> set (first_services (\<lambda>e. EqualFold r (env_RegionName e) \<and> EqualFold n (env_Name e)) es)"
  shows "\<exists>s'. find_service r n (svc_StackName s) (svc_Name s) es = Some s' \<and>
    s' \<in> set (first_services (\<lambda>e. EqualFold r (env_RegionName e) \<and> EqualFold n (env_Name e)) es)"
  using assms
proof (induction es)
  case (Cons e es)
  show ?case
  proof (cases "EqualFold r (env_RegionName e) \<and> EqualFold n (env_Name e)")
    case True
    with Cons.prems have "s \<in> set (env_Services e)" by (simp add: first_services_def)
    then have "find (\<lambda>x. svc_StackName x = svc_StackName s \<and> svc_Name x = svc_Name s) (env_Services e) \<noteq> None"
      by (auto simp: find_None_iff)
    then obtain s' where f: "find (\<lambda>x. svc_StackName x = svc_StackName s \<and> svc_Name x = svc_Name s) (env_Services e) = Some s'"
      by blast
    then have "s' \<in> set (env_Services e)" by (auto simp: find_Some_iff)
    with True f show ?thesis by (simp add: first_services_def)
  next
    case False
    with Cons show ?thesis by (auto simp: first_services_def)
  qed
qed (simp add: first_services_def)

lemma client_find:
  assumes "fst (GetServicesFromRegionEnvironment env client r n w) = Inr svcs" and "s \<in> set svcs"
  shows "\<exists>s'. fst (GetServiceFromRegionEnvironment env client r n (svc_StackName s) (svc_Name s) w) = Inr s' \<and>
    s' \<in> set svcs \<and> svc_StackName s' = svc_StackName s \<and> svc_Name s' = svc_Name s"
proof -
  from assms(1) obtain es w1 where e: "GetEnvironments env client w = (Inr es, w1)"
    and svcs: "svcs = first_services (\<lambda>e. EqualFold r (env_RegionName e) \<and> EqualFold n (env_Name e)) es"
    by (auto simp: GetServicesFromRegionEnvironment_def split: prod.splits sum.splits)
  from find_service_first [OF assms(2) [unfolded svcs]] obtain s'
    where f: "find_service r n (svc_StackName s) (svc_Name s) es = Some s'" "s' \<in> set svcs"
    unfolding svcs by blast
  with find_service_Some [OF f(1)] e show ?thesis
    by (simp add: GetServiceFromRegionEnvironment_def)
qed

lemma link_parts:
  assumes "CHR ''/'' \<notin> set r" "CHR ''/'' \<notin> set n" "CHR ''/'' \<notin> set st" "CHR ''/'' \<notin> set s"
  shows "Split (getServiceName s st r n) ''/'' =
    (if r \<noteq> '''' then [r, n, st, s] else if n \<noteq> '''' then [n, st, s] else [st, s])"
  using assms by (simp add: getServiceName_def Split_mark Split_one)

text \<open>
  C34 The links that selector rules generate resolve: for a service that \<open>GetRegionServices\<close> found
  in another environment (of this region or of a named one), the name \<open>processSelector\<close> gives it
  is resolved by \<open>GetService\<close>, through the same client, to a service of the same list with that
  stack and name, provided that no part of the name contains a slash.
\<close>

theorem selector_links_resolve:
  assumes found: "GetRegionServices (client_view env client w) localsvcs regionName envName = Inr svcs"
    and other: "envName \<noteq> ''''" and s: "s \<in> set svcs"
    and still: "snd (GetRegionName env client w) = w"
    and "CHR ''/'' \<notin> set regionName" "CHR ''/'' \<notin> set envName"
    and "CHR ''/'' \<notin> set (svc_StackName s)" "CHR ''/'' \<notin> set (svc_Name s)"
  shows "\<exists>s'. GetService (client_view env client w)
      (getServiceName (svc_Name s) (svc_StackName s) regionName envName) = Ok s' \<and>
    s' \<in> set svcs \<and> svc_StackName s' = svc_StackName s \<and> svc_Name s' = svc_Name s"
proof (cases "regionName = ''''")
  case True
  from found other True have l: "fst (GetServicesInLocalRegion env client envName w) = Inr svcs"
    by (simp add: GetRegionServices_def client_view_def)
  then obtain region where r: "GetRegionName env client w = (Inr region, w)"
    using still by (cases "GetRegionName env client w") (auto simp: GetServicesInLocalRegion_def split: sum.splits)
  with l have "fst (GetServicesFromRegionEnvironment env client region envName w) = Inr svcs"
    by (simp add: GetServicesInLocalRegion_def)
  from client_find [OF this s] r show ?thesis
    using link_parts [OF assms(5-8)] True other
    by (auto simp: GetService_def client_view_def GetServiceInLocalRegion_def)
next
  case False
  with found other have "fst (GetServicesFromRegionEnvironment env client regionName envName w) = Inr svcs"
    by (simp add: GetRegionServices_def client_view_def)
  from client_find [OF this s] show ?thesis
    using link_parts [OF assms(5-8)] False by (auto simp: GetService_def client_view_def)
qed

text \<open>A service with one environment in each document; the world is the clock.\<close>

definition demo_service :: Service where
  "demo_service = zero_Service\<lparr>svc_Name := ''web'', svc_StackName := ''shop''\<rparr>"

definition demo_environment :: Environment where
  "demo_environment = \<lparr>env_Containers = [], env_Hosts = [], env_Name = ''prod'', env_Networks = [], env_RegionName = ''eu'',
     env_Services = [demo_service], env_Stacks = [], env_UUID = '''', env_Version = ''''\<rparr>"

definition demo_metadata_env :: "int metadata_env" where
  "demo_metadata_env = \<lparr>me_authority = (\<lambda>s. Some (None, s)), me_isIP = (\<lambda>_. False), me_now = (\<lambda>w. w), me_sleep = (\<lambda>d w. w + d),
     me_do = (\<lambda>_ _ w. (Inr \<lparr>rs_StatusCode = 200, rs_Body = '''', rs_broken = False\<rparr>, w)),
     me_string = (\<lambda>_. Some ''eu''), me_host = (\<lambda>_. None), me_hosts = (\<lambda>_. None), me_container = (\<lambda>_. None),
     me_containers = (\<lambda>_. None), me_service = (\<lambda>_. None), me_services = (\<lambda>_. None), me_stack = (\<lambda>_. None),
     me_stacks = (\<lambda>_. None), me_environments = (\<lambda>_. Some [demo_environment]), me_networks = (\<lambda>_. None)\<rparr>"

lemma demo_endpoint:
  "is_ok (client_endpoint demo_metadata_env demo_http ''/environments'')"
  "is_ok (client_endpoint demo_metadata_env demo_http ''/region_name'')"
  by code_simp+

lemma demo_environments: "GetEnvironments demo_metadata_env demo_http w = (Inr [demo_environment], w)"
  using demo_endpoint(1)
  by (auto simp: is_ok_iff GetEnvironments_def decode_def SendRequest_def sendRequest_def demo_metadata_env_def
      maxResponseBytes_def)

lemma demo_region: "GetRegionName demo_metadata_env demo_http w = (Inr ''eu'', w)"
  using demo_endpoint(2)
  by (auto simp: is_ok_iff GetRegionName_def decode_def SendRequest_def sendRequest_def demo_metadata_env_def
      maxResponseBytes_def)

lemma selector_links_resolve_witness:
  "\<exists>s'. GetService (client_view demo_metadata_env demo_http 0) ''prod/shop/web'' = Ok s' \<and> s' \<in> {demo_service} \<and>
     svc_StackName s' = ''shop'' \<and> svc_Name s' = ''web''"
proof -
  have "GetRegionServices (client_view demo_metadata_env demo_http 0) [] '''' ''prod'' = Inr [demo_service]"
    by (simp add: GetRegionServices_def client_view_def GetServicesInLocalRegion_def demo_region
        GetServicesFromRegionEnvironment_def demo_environments first_services_def demo_environment_def)
  from selector_links_resolve [OF this, of demo_service] demo_region show ?thesis
    by (simp add: demo_service_def getServiceName_def)
qed

section \<open>Waiting\<close>

lemma wait_loop_step:
  assumes clock: "\<And>w d. 0 \<le> d \<Longrightarrow> me_now env w + d \<le> me_now env (me_sleep env d w)"
    "\<And>w. me_now env w \<le> me_now env (snd (GetVersion env client w))"
    and next_try: "\<And>w. a + delay \<le> me_now env w \<Longrightarrow>
      \<exists>r. wait_loop n env client D (if delay < 4000 then 2 * delay else delay) w = Some r"
    and "0 \<le> delay" "a \<le> me_now env w"
  shows "\<exists>r. wait_loop (Suc n) env client D delay w = Some r"
proof (cases "GetVersion env client w")
  case (Pair r w1)
  with clock(2) [of w] assms(5) have "a \<le> me_now env w1" by simp
  with clock(1) [OF assms(4), of w1] have "a + delay \<le> me_now env (me_sleep env delay w1)" by simp
  from next_try [OF this] obtain x
    where "wait_loop n env client D (if delay < 4000 then 2 * delay else delay) (me_sleep env delay w1) = Some x" by blast
  then show ?thesis by (cases r) (simp_all add: Pair)
qed

lemma wait_loop_last:
  assumes "\<And>w. me_now env w \<le> me_now env (snd (GetVersion env client w))" and "D < me_now env w + delay"
  shows "\<exists>r. wait_loop (Suc n) env client D delay w = Some r"
proof (cases "GetVersion env client w")
  case (Pair r w1)
  with assms(1) [of w] assms(2) have "D < me_now env w1 + delay" by simp
  then show ?thesis by (simp add: Pair split: sum.split)
qed

text \<open>
  C37 Waiting for the metadata service ends: with a clock that never runs backwards and on which
  a sleep lasts as long as it should, the client is ready or gives up after at most seven tries,
  however long each of them takes.
\<close>

theorem wait_ends:
  assumes clock: "\<And>w d. 0 \<le> d \<Longrightarrow> me_now env w + d \<le> me_now env (me_sleep env d w)"
    "\<And>w. me_now env w \<le> me_now env (snd (GetVersion env client w))"
  shows "\<exists>r. waitForConnection 7 env client w = Some r"
proof -
  define D where "D = me_now env w + connectionDeadline"
  note step = wait_loop_step [OF clock]
  have 1: "\<exists>r. wait_loop (Suc 0) env client D 4000 w = Some r" if "D - 1000 \<le> me_now env w" for w
    by (rule wait_loop_last [OF clock(2)]) (use that in simp)
  have 2: "\<exists>r. wait_loop (Suc (Suc n)) env client D 4000 w = Some r"
    if "a \<le> me_now env w" "\<And>w. a + 4000 \<le> me_now env w \<Longrightarrow> \<exists>r. wait_loop (Suc n) env client D 4000 w = Some r" for w a n
    by (rule step [where a = a]) (use that in simp_all)
  have 3: "\<exists>r. wait_loop 5 env client D 4000 w = Some r" if "D - 17000 \<le> me_now env w" for w
  proof -
    have "(5 :: nat) = Suc (Suc (Suc (Suc (Suc 0))))" by simp
    moreover have "\<exists>r. wait_loop (Suc (Suc (Suc (Suc (Suc 0))))) env client D 4000 w = Some r"
      by (rule 2 [OF that], rule 2, assumption, rule 2, assumption, rule 2, assumption, rule 1) simp
    ultimately show ?thesis by (simp only:)
  qed
  have 4: "\<exists>r. wait_loop 6 env client D 2000 w = Some r" if "D - 19000 \<le> me_now env w" for w
    using step [where a = "D - 19000" and delay = 2000 and n = 5 and D = D] 3 that by simp
  have "\<exists>r. wait_loop 7 env client D 1000 w = Some r"
    using step [where a = "D - 20000" and delay = 1000 and n = 6 and D = D and w = w] 4
    by (simp add: D_def connectionDeadline_def)
  then show ?thesis by (simp add: waitForConnection_def D_def)
qed

lemma wait_ends_witness: "\<exists>r. waitForConnection 7 demo_metadata_env demo_http 0 = Some r"
proof (rule wait_ends)
  fix w
  show "me_now demo_metadata_env w \<le> me_now demo_metadata_env (snd (GetVersion demo_metadata_env demo_http w))"
    by (auto simp: GetVersion_def decode_def SendRequest_def sendRequest_def demo_metadata_env_def
        split: sum.split option.split)
qed (simp add: demo_metadata_env_def)

section \<open>Changes\<close>

text \<open>The versions the service reports to the loop.\<close>

fun reported ::
  "nat \<Rightarrow> 'w metadata_env \<Rightarrow> httpClient \<Rightarrow> int \<Rightarrow> (string \<Rightarrow> 'w \<Rightarrow> 'w) \<Rightarrow> string \<Rightarrow> 'w \<Rightarrow> string list" where
  "reported 0 env client interval callback version w = []"
| "reported (Suc n) env client interval callback version w =
     (case waitVersion env client interval version w of
        (Inl e, w1) \<Rightarrow> []
      | (Inr next, w1) \<Rightarrow> next # reported n env client interval callback next (if next \<noteq> version then callback next w1 else w1))"

text \<open>
  Every change is signalled once: the calls of the callback are the versions that the service
  reports, after the initial \<open>init\<close>, without repetitions of the version before.
\<close>

theorem changes_signalled:
  "''init'' # fst (OnChangeWithError n env client interval (Some callback) w) =
   remdups_adj (''init'' # reported n env client interval callback ''init'' w)"
proof -
  have "v # fst (change_loop n env client interval callback v w) = remdups_adj (v # reported n env client interval callback v w)" for v
  proof (induction n arbitrary: v w)
    case (Suc n)
    show ?case
    proof (cases "waitVersion env client interval v w")
      case (Pair r w1)
      then show ?thesis
        by (cases r) (auto simp: split_beta Suc.IH [symmetric])
    qed
  qed simp
  then show ?thesis by (simp add: OnChangeWithError_def)
qed

end
