(* ===== verification/Go_Filepath.thy ===== *)
theory Go_Filepath
  imports Go_Text "HOL-Library.Sublist"
begin

text \<open>
  The functions of Go's \<open>path/filepath\<close> package (on Unix) that the certificate fetcher calls:
  \<open>Clean\<close>, \<open>Join\<close>, \<open>IsAbs\<close> and \<open>Rel\<close>, on the elements of a path.
\<close>

section \<open>Elements\<close>

abbreviation (input) "dotdot \<equiv> ''..''"

text \<open>The elements of a path that \<open>Clean\<close> keeps or applies: no empty ones, no single dots.\<close>

definition path_elems :: "string \<Rightarrow> string list" where
  "path_elems s = filter (\<lambda>e. e \<noteq> '''' \<and> e \<noteq> ''.'') (Split s ''/'')"

text \<open>
  One element on the stack of those before it (the top first): two dots remove an element,
  stay in front of a relative path, and are dropped at the root.
\<close>

definition push_elem :: "bool \<Rightarrow> string \<Rightarrow> string list \<Rightarrow> string list" where
  "push_elem rooted e st =
     (if e = dotdot then
        (case st of [] \<Rightarrow> if rooted then [] else [dotdot] | x # st' \<Rightarrow> if x = dotdot then dotdot # st else st')
      else e # st)"

definition clean_elems :: "string \<Rightarrow> string list" where
  "clean_elems s = rev (fold (push_elem (HasPrefix s ''/'')) (path_elems s) [])"

definition Clean :: "string \<Rightarrow> string" where
  "Clean s =
     (if HasPrefix s ''/'' then CHR ''/'' # Join (clean_elems s) ''/''
      else if clean_elems s = [] then ''.'' else Join (clean_elems s) ''/'')"

definition path_IsAbs :: "string \<Rightarrow> bool" where
  "path_IsAbs s \<longleftrightarrow> HasPrefix s ''/''"

text \<open>\<open>Join\<close> of path elements; empty ones are left out.\<close>

definition path_Join :: "string list \<Rightarrow> string" where
  "path_Join es = (let xs = filter (\<lambda>e. e \<noteq> '''') es in if xs = [] then '''' else Clean (Join xs ''/''))"

section \<open>Relative paths\<close>

definition slash_parts :: "string \<Rightarrow> string list" where
  "slash_parts s = (if s = '''' \<or> s = ''/'' then [] else Split (TrimPrefix s ''/'') ''/'')"

fun drop_common :: "'a list \<Rightarrow> 'a list \<Rightarrow> 'a list \<times> 'a list" where
  "drop_common (x # xs) (y # ys) = (if x = y then drop_common xs ys else (x # xs, y # ys))"
| "drop_common xs ys = (xs, ys)"

text \<open>
  \<open>Rel\<close>: up from what the base has left, then down to what the target has left; \<open>None\<close> when one
  path is absolute and the other is not, or the base would have to be left by two dots.
\<close>

definition Rel :: "string \<Rightarrow> string \<Rightarrow> string option" where
  "Rel basepath targpath =
     (let base = Clean basepath; targ = Clean targpath in
      if targ = base then Some ''.''
      else
        let base = (if base = ''.'' then '''' else base) in
        if HasPrefix base ''/'' \<noteq> HasPrefix targ ''/'' then None
        else case drop_common (slash_parts base) (slash_parts targ) of
          (bs, ts) \<Rightarrow>
            if bs \<noteq> [] \<and> ts \<noteq> [] \<and> hd bs = dotdot then None
            else Some (Join (replicate (length bs) dotdot @ ts) ''/''))"

section \<open>Clean paths\<close>

definition plain_elem :: "string \<Rightarrow> bool" where
  "plain_elem e \<longleftrightarrow> e \<noteq> '''' \<and> e \<noteq> ''.'' \<and> e \<noteq> dotdot \<and> CHR ''/'' \<notin> set e"

lemma path_elems_slash: "e \<in> set (path_elems s) \<Longrightarrow> e \<noteq> '''' \<and> e \<noteq> ''.'' \<and> CHR ''/'' \<notin> set e"
  using Split_parts [of "''/''" e s] by (auto simp: path_elems_def Cut_char split: if_splits)

lemma push_plain:
  assumes "\<forall>x \<in> set st. plain_elem x" and "e \<noteq> ''''" "e \<noteq> ''.''" "CHR ''/'' \<notin> set e"
  shows "\<forall>x \<in> set (push_elem True e st). plain_elem x"
proof (cases "e = dotdot")
  case True
  then show ?thesis using assms(1) by (cases st) (simp_all add: push_elem_def plain_elem_def)
next
  case False
  then have "plain_elem e" using assms(2-4) unfolding plain_elem_def by blast
  with assms(1) False show ?thesis by (simp add: push_elem_def)
qed

lemma fold_push_plain:
  "\<forall>e \<in> set es. e \<noteq> '''' \<and> e \<noteq> ''.'' \<and> CHR ''/'' \<notin> set e \<Longrightarrow> \<forall>x \<in> set st. plain_elem x \<Longrightarrow>
   \<forall>x \<in> set (fold (push_elem True) es st). plain_elem x"
proof (induction es arbitrary: st)
  case (Cons e es)
  then have "\<forall>x \<in> set (push_elem True e st). plain_elem x" by (intro push_plain) simp_all
  with Cons show ?case by simp
qed simp

lemma clean_elems_plain:
  assumes "HasPrefix s ''/''"
  shows "\<forall>x \<in> set (clean_elems s). plain_elem x"
  using fold_push_plain [of "path_elems s" "[]"] path_elems_slash [of _ s] assms
  by (simp add: clean_elems_def)

lemma Join_eq_Nil: "\<forall>e \<in> set es. e \<noteq> [] \<Longrightarrow> Join es sep = [] \<longleftrightarrow> es = []"
  by (induction es sep rule: Join.induct) auto

lemma slash_parts_clean:
  assumes "\<forall>x \<in> set es. plain_elem x"
  shows "slash_parts (CHR ''/'' # Join es ''/'') = es"
proof (cases "es = []")
  case False
  then have "Join es ''/'' \<noteq> []" using assms Join_eq_Nil [of es "''/''"] by (auto simp: plain_elem_def)
  with False show ?thesis
    using assms Split_Join [of es "CHR ''/''"] TrimPrefix_append [of "''/''" "Join es ''/''"]
    by (auto simp: slash_parts_def plain_elem_def)
qed (simp add: slash_parts_def)

lemma fold_push_id:
  "\<forall>x \<in> set es. plain_elem x \<Longrightarrow> fold (push_elem rooted) es st = rev es @ st"
  by (induction es arbitrary: st) (auto simp: push_elem_def plain_elem_def)

lemma clean_elems_clean:
  assumes "\<forall>x \<in> set es. plain_elem x"
  shows "clean_elems (CHR ''/'' # Join es ''/'') = es"
proof -
  have "Split (CHR ''/'' # Join es ''/'') ''/'' = '''' # Split (Join es ''/'') ''/''"
    using Split_mark [of "CHR ''/''" "''''" "Join es ''/''"] by simp
  moreover have "filter (\<lambda>e. e \<noteq> '''' \<and> e \<noteq> ''.'') (Split (Join es ''/'') ''/'') = es"
  proof (cases "es = []")
    case True
    then show ?thesis by (simp add: Split_one)
  next
    case False
    then have "Split (Join es ''/'') ''/'' = es"
      using assms by (intro Split_Join) (auto simp: plain_elem_def)
    moreover have "filter (\<lambda>e. e \<noteq> '''' \<and> e \<noteq> ''.'') es = es"
      using assms by (simp add: filter_id_conv plain_elem_def)
    ultimately show ?thesis by simp
  qed
  ultimately have "path_elems (CHR ''/'' # Join es ''/'') = es" by (simp add: path_elems_def)
  then show ?thesis using fold_push_id [OF assms, of True "[]"] by (simp add: clean_elems_def HasPrefix_def)
qed

lemma Clean_abs: "HasPrefix s ''/'' \<Longrightarrow> Clean s = CHR ''/'' # Join (clean_elems s) ''/''"
  by (simp add: Clean_def)

lemma Clean_Clean_abs:
  assumes "HasPrefix s ''/''"
  shows "Clean (Clean s) = Clean s" and "clean_elems (Clean s) = clean_elems s" and "HasPrefix (Clean s) ''/''"
proof -
  note p = clean_elems_plain [OF assms]
  show h: "HasPrefix (Clean s) ''/''" by (simp add: Clean_abs [OF assms] HasPrefix_def)
  show "clean_elems (Clean s) = clean_elems s"
    unfolding Clean_abs [OF assms] by (rule clean_elems_clean [OF p])
  then show "Clean (Clean s) = Clean s"
    unfolding Clean_abs [OF h] by (simp add: Clean_abs [OF assms])
qed

lemma Clean_rel: "\<not> HasPrefix s ''/'' \<Longrightarrow> \<not> HasPrefix (Clean s) ''/''"
proof -
  assume r: "\<not> HasPrefix s ''/''"
  have "x \<noteq> '''' \<and> CHR ''/'' \<notin> set x" if "x \<in> set (fold (push_elem False) es st)"
    "\<forall>e \<in> set es. e \<noteq> '''' \<and> CHR ''/'' \<notin> set e" "\<forall>e \<in> set st. e \<noteq> '''' \<and> CHR ''/'' \<notin> set e" for x es st
    using that
  proof (induction es arbitrary: st)
    case (Cons e es)
    have "\<forall>y \<in> set (push_elem False e st). y \<noteq> '''' \<and> CHR ''/'' \<notin> set y"
      using Cons.prems by (auto simp: push_elem_def split: list.splits if_splits)
    with Cons show ?case by simp
  qed simp
  from this [of _ "path_elems s" "[]"] path_elems_slash [of _ s] r
  have e: "\<forall>x \<in> set (clean_elems s). x \<noteq> '''' \<and> CHR ''/'' \<notin> set x"
    by (auto simp: clean_elems_def)
  have "\<not> HasPrefix (Join es ''/'') ''/''" if n: "\<forall>x \<in> set es. x \<noteq> '''' \<and> CHR ''/'' \<notin> set x" "es \<noteq> []" for es
  proof -
    from n obtain c x es' where es: "es = (c # x) # es'" "c \<noteq> CHR ''/''"
      by (cases es; cases "hd es") auto
    then show ?thesis by (cases "es' = []") (simp_all add: HasPrefix_def Join_Cons)
  qed
  with e r show ?thesis by (auto simp: Clean_def HasPrefix_def)
qed

section \<open>Prefixes\<close>

lemma drop_common_prefix:
  "drop_common xs ys = (bs, ts) \<Longrightarrow> bs = [] \<longleftrightarrow> prefix xs ys"
  by (induction xs ys rule: drop_common.induct) (auto split: if_splits)

lemma drop_common_sub:
  "drop_common xs ys = (bs, ts) \<Longrightarrow> set bs \<subseteq> set xs \<and> set ts \<subseteq> set ys"
  by (induction xs ys rule: drop_common.induct) (auto split: if_splits)

lemma drop_common_eq: "drop_common xs ys = ([], []) \<Longrightarrow> xs = ys"
  by (induction xs ys rule: drop_common.induct) (auto split: if_splits)

end
