(* ===== verification/Cert_Fetcher.thy ===== *)
theory Cert_Fetcher
  imports Go_Filepath Endpoints
begin

text \<open>
  The certificates (\<open>controller/rancher/certificate_fetcher.go\<close>): polled from mounted directories into
  a cache, or fetched from the control plane.

  The file system and the API client are parameters that act on a world. \<open>fs_walk\<close> gives the
  visits of \<open>filepath.Walk\<close>: path, file info (name, and whether it is a directory) and error.
  \<open>fs_order\<close> is the order in which a \<open>range\<close> visits a map. The state \<open>fio\<close> threads the world and
  records the files read, with their contents.
\<close>

section \<open>State and environment\<close>

record fetcher =
  cf_CertDir :: string
  cf_DefaultCertDir :: string
  cf_CertsCache :: "(string, Certificate) gomap option"
  cf_DefaultCert :: "Certificate option"
  cf_tempCertsMap :: "(string, Certificate) gomap"
  cf_updateCheckInterval :: int
  cf_CertName :: string
  cf_KeyName :: string
  cf_initPollDone :: bool

definition DefaultCertName :: string where
  "DefaultCertName = ''fullchain.pem''"

definition DefaultKeyName :: string where
  "DefaultKeyName = ''privkey.pem''"

record walk_visit =
  wv_path :: string
  wv_info :: "(string \<times> bool) option"
  wv_err :: "go_error option"

record 'w file_env =
  fs_abs :: "string \<Rightarrow> string result"
  fs_lstat :: "string \<Rightarrow> 'w \<Rightarrow> unit result \<times> 'w"
  fs_isNotExist :: "go_error \<Rightarrow> bool"
  fs_evalSymlinks :: "string \<Rightarrow> 'w \<Rightarrow> string result \<times> 'w"
  fs_readFile :: "string \<Rightarrow> 'w \<Rightarrow> string result \<times> 'w"
  fs_readDir :: "string \<Rightarrow> 'w \<Rightarrow> (string \<times> bool) list result \<times> 'w"
  fs_walk :: "string \<Rightarrow> 'w \<Rightarrow> walk_visit list"
  fs_order :: "(string, Certificate) gomap \<Rightarrow> (string, Certificate) gomap"

record 'w fio =
  fi_world :: 'w
  fi_read :: "(string \<times> string) list"

definition checkIfInitPollDone :: "fetcher \<Rightarrow> bool" where
  "checkIfInitPollDone f = cf_initPollDone f"

definition setInitPollDone :: "fetcher \<Rightarrow> fetcher" where
  "setInitPollDone f = f\<lparr>cf_initPollDone := True\<rparr>"

section \<open>Reading a file\<close>

definition pathIsWithinRoot :: "string \<Rightarrow> string \<Rightarrow> bool" where
  "pathIsWithinRoot rootPath candidatePath =
     (case Rel (Clean rootPath) (Clean candidatePath) of
        None \<Rightarrow> False
      | Some relativePath \<Rightarrow>
          \<not> path_IsAbs relativePath \<and> relativePath \<noteq> ''..'' \<and> \<not> HasPrefix relativePath ''../'')"

text \<open>The loop of \<open>pathIsWithinConfiguredRoot\<close> over the two roots.\<close>

fun within_roots ::
  "'w file_env \<Rightarrow> string list \<Rightarrow> string \<Rightarrow> string \<Rightarrow> 'w fio \<Rightarrow> bool \<times> 'w fio" where
  "within_roots env [] sourcePath targetPath io = (False, io)"
| "within_roots env (configuredRoot # roots) sourcePath targetPath io =
     (if configuredRoot = '''' then within_roots env roots sourcePath targetPath io
      else case fs_abs env configuredRoot of
        Inl _ \<Rightarrow> within_roots env roots sourcePath targetPath io
      | Inr rootPath \<Rightarrow>
          if \<not> pathIsWithinRoot rootPath sourcePath then within_roots env roots sourcePath targetPath io
          else case fs_evalSymlinks env rootPath (fi_world io) of
            (Inl _, w) \<Rightarrow> (False, io\<lparr>fi_world := w\<rparr>)
          | (Inr resolvedRoot, w) \<Rightarrow> (pathIsWithinRoot resolvedRoot targetPath, io\<lparr>fi_world := w\<rparr>))"

definition pathIsWithinConfiguredRoot ::
  "'w file_env \<Rightarrow> fetcher \<Rightarrow> string \<Rightarrow> string \<Rightarrow> 'w fio \<Rightarrow> bool \<times> 'w fio" where
  "pathIsWithinConfiguredRoot env f sourcePath targetPath io =
     within_roots env [cf_CertDir f, cf_DefaultCertDir f] sourcePath targetPath io"

definition readFile :: "'w file_env \<Rightarrow> string \<Rightarrow> 'w fio \<Rightarrow> string result \<times> 'w fio" where
  "readFile env filePath io =
     (case fs_readFile env filePath (fi_world io) of
        (Inl e, w) \<Rightarrow> (Inl (Wrapf ''Error reading file %s, error: %v'' [filePath] e), io\<lparr>fi_world := w\<rparr>)
      | (Inr content, w) \<Rightarrow> (Inr content, \<lparr>fi_world = w, fi_read = fi_read io @ [(filePath, content)]\<rparr>))"

definition evaluatueLinkAndReadFile ::
  "'w file_env \<Rightarrow> fetcher \<Rightarrow> string \<Rightarrow> string \<Rightarrow> 'w fio \<Rightarrow> string result \<times> 'w fio" where
  "evaluatueLinkAndReadFile env f relativePath fileName io =
     (let filePath = path_Join [relativePath, fileName] in
      case fs_abs env filePath of
        Inl e \<Rightarrow> (Inl (Wrapf ''Error forming path to file %s, error: %v'' [filePath] e), io)
      | Inr absFilePath \<Rightarrow>
          (case fs_lstat env absFilePath (fi_world io) of
             (Inl e, w) \<Rightarrow>
               (Inl (if fs_isNotExist env e then Errorf ''File %s does not exist'' [absFilePath]
                     else Wrapf ''Error inspecting file %s: %v'' [absFilePath] e), io\<lparr>fi_world := w\<rparr>)
           | (Inr _, w) \<Rightarrow>
               (case fs_evalSymlinks env absFilePath w of
                  (Inl e, w1) \<Rightarrow> (Inl (Wrapf ''Error resolving file %s: %v'' [absFilePath] e), io\<lparr>fi_world := w1\<rparr>)
                | (Inr targetPath, w1) \<Rightarrow>
                    (case pathIsWithinConfiguredRoot env f absFilePath targetPath (io\<lparr>fi_world := w1\<rparr>) of
                       (False, io2) \<Rightarrow>
                         (Inl (Errorf ''File %s resolves outside its configured certificate directory'' [absFilePath]), io2)
                     | (True, io2) \<Rightarrow> readFile env targetPath io2))))"

section \<open>Reading a directory\<close>

record cert_scan =
  sc_cert :: Certificate
  sc_isCertFound :: bool
  sc_isKeyFound :: bool

text \<open>The loop of \<open>readCertificate\<close> over the entries of a directory.\<close>

fun read_files ::
  "'w file_env \<Rightarrow> fetcher \<Rightarrow> string \<Rightarrow> (string \<times> bool) list \<Rightarrow> cert_scan \<Rightarrow> 'w fio \<Rightarrow> cert_scan \<times> 'w fio" where
  "read_files env f path [] sc io = (sc, io)"
| "read_files env f path ((name, isDir) # files) sc io =
     (if isDir then read_files env f path files sc io
      else case evaluatueLinkAndReadFile env f path name io of
        (Inl _, io1) \<Rightarrow> read_files env f path files sc io1
      | (Inr content, io1) \<Rightarrow>
          read_files env f path files
            (if name = cf_CertName f then sc\<lparr>sc_isCertFound := True, sc_cert := (sc_cert sc)\<lparr>cert_Cert := content\<rparr>\<rparr>
             else if name = cf_KeyName f then sc\<lparr>sc_isKeyFound := True, sc_cert := (sc_cert sc)\<lparr>cert_Key := content\<rparr>\<rparr>
             else sc) io1)"

definition new_scan :: "string \<Rightarrow> cert_scan" where
  "new_scan name = \<lparr>sc_cert = \<lparr>cert_Name = name, cert_Cert = '''', cert_Key = '''', cert_Fetch = False\<rparr>,
     sc_isCertFound = False, sc_isKeyFound = False\<rparr>"

definition readCertificate ::
  "'w file_env \<Rightarrow> walk_visit \<Rightarrow> fetcher \<Rightarrow> 'w fio \<Rightarrow> unit result \<times> fetcher \<times> 'w fio" where
  "readCertificate env v f io =
     (case wv_info v of
        Some (name, True) \<Rightarrow>
          (case wv_err v of
             Some e \<Rightarrow> (Inl (Wrapf ''Error while walking dir [%v]. Error: %v'' [wv_path v] e), f, io)
           | None \<Rightarrow>
               (case fs_readDir env (wv_path v) (fi_world io) of
                  (Inl e, w) \<Rightarrow> (Inl e, f, io\<lparr>fi_world := w\<rparr>)
                | (Inr files, w) \<Rightarrow>
                    (case read_files env f (wv_path v) files (new_scan name) (io\<lparr>fi_world := w\<rparr>) of
                       (sc, io1) \<Rightarrow>
                         (Inr (),
                          if sc_isCertFound sc \<and> sc_isKeyFound sc
                          then f\<lparr>cf_tempCertsMap := AList.update (wv_path v) (sc_cert sc) (cf_tempCertsMap f)\<rparr> else f,
                          io1))))
      | _ \<Rightarrow> (Inr (), f, io))"

text \<open>\<open>filepath.Walk\<close> stops at the first error of the visitor.\<close>

fun walk_dir ::
  "'w file_env \<Rightarrow> walk_visit list \<Rightarrow> fetcher \<Rightarrow> 'w fio \<Rightarrow> unit result \<times> fetcher \<times> 'w fio" where
  "walk_dir env [] f io = (Inr (), f, io)"
| "walk_dir env (v # vs) f io =
     (case readCertificate env v f io of
        (Inl e, f1, io1) \<Rightarrow> (Inl e, f1, io1)
      | (Inr _, f1, io1) \<Rightarrow> walk_dir env vs f1 io1)"

section \<open>Polling\<close>

text \<open>\<open>reflect.DeepEqual\<close> of the cache, which may be nil, and the new map.\<close>

definition same_certs :: "(string, Certificate) gomap option \<Rightarrow> (string, Certificate) gomap \<Rightarrow> bool" where
  "same_certs cache new =
     (case cache of
        None \<Rightarrow> False
      | Some old \<Rightarrow> list_all (\<lambda>k. map_of old k = map_of new k) (keys_of old @ keys_of new))"

definition poll_certs :: "'w file_env \<Rightarrow> bool \<Rightarrow> fetcher \<Rightarrow> 'w fio \<Rightarrow> bool \<times> fetcher \<times> 'w fio" where
  "poll_certs env forceUpdate f io =
     (if cf_CertDir f = '''' then (False, f, io)
      else case walk_dir env (fs_walk env (cf_CertDir f) (fi_world io)) (f\<lparr>cf_tempCertsMap := []\<rparr>) io of
        (Inl _, f1, io1) \<Rightarrow> (False, f1, io1)
      | (Inr _, f1, io1) \<Rightarrow>
          if forceUpdate \<or> \<not> same_certs (cf_CertsCache f1) (cf_tempCertsMap f1)
          then (True, f1\<lparr>cf_CertsCache := Some (cf_tempCertsMap f1)\<rparr>, io1) else (False, f1, io1))"

definition last_cert :: "(string, Certificate) gomap \<Rightarrow> Certificate option" where
  "last_cert m = (if m = [] then None else Some (snd (last m)))"

definition poll_default :: "'w file_env \<Rightarrow> bool \<Rightarrow> fetcher \<Rightarrow> 'w fio \<Rightarrow> bool \<times> fetcher \<times> 'w fio" where
  "poll_default env forceUpdate f io =
     (if cf_DefaultCertDir f = '''' then (False, f, io)
      else case walk_dir env (fs_walk env (cf_DefaultCertDir f) (fi_world io)) (f\<lparr>cf_tempCertsMap := []\<rparr>) io of
        (Inl _, f1, io1) \<Rightarrow> (False, f1, io1)
      | (Inr _, f1, io1) \<Rightarrow>
          (let defaultCert = last_cert (fs_order env (cf_tempCertsMap f1)) in
           if forceUpdate \<or> cf_DefaultCert f1 \<noteq> defaultCert
           then (True, f1\<lparr>cf_DefaultCert := defaultCert\<rparr>, io1) else (False, f1, io1)))"

definition pollCertificateDirectories ::
  "'w file_env \<Rightarrow> bool \<Rightarrow> fetcher \<Rightarrow> 'w fio \<Rightarrow> bool \<times> fetcher \<times> 'w fio" where
  "pollCertificateDirectories env forceUpdate f io =
     (case poll_certs env forceUpdate f io of
        (u1, f1, io1) \<Rightarrow>
          (case poll_default env forceUpdate f1 io1 of
             (u2, f2, io2) \<Rightarrow> (u1 \<or> u2, if checkIfInitPollDone f2 then f2 else setInitPollDone f2, io2)))"

text \<open>
  \<open>LookForCertUpdates\<close>, one round per element: whether the force interval has passed. The result
  lists the rounds that called \<open>doOnUpdate\<close>.
\<close>

fun LookForCertUpdates :: "'w file_env \<Rightarrow> bool list \<Rightarrow> fetcher \<Rightarrow> 'w fio \<Rightarrow> bool list \<times> fetcher \<times> 'w fio" where
  "LookForCertUpdates env [] f io = ([], f, io)"
| "LookForCertUpdates env (forceUpdate # rounds) f io =
     (if cf_CertDir f = '''' \<and> cf_DefaultCertDir f = '''' then ([], f, io)
      else case pollCertificateDirectories env forceUpdate f io of
        (u, f1, io1) \<Rightarrow>
          (case LookForCertUpdates env rounds f1 io1 of (us, f2, io2) \<Rightarrow> (u # us, f2, io2)))"

section \<open>Fetching\<close>

definition ReadAllCertificatesFromDir :: "'w file_env \<Rightarrow> fetcher \<Rightarrow> Certificate list" where
  "ReadAllCertificatesFromDir env f =
     (case cf_CertsCache f of None \<Rightarrow> [] | Some cache \<Rightarrow> map snd (fs_order env cache))"

definition ReadDefaultCertificate :: "fetcher \<Rightarrow> Certificate option" where
  "ReadDefaultCertificate f = cf_DefaultCert f"

text \<open>What the API returns for a certificate; the fields that the fetcher reads.\<close>

record api_certificate =
  ac_Name :: string
  ac_Cert :: string
  ac_CertChain :: string
  ac_Key :: string

type_synonym filters = "(string, string) gomap"

definition FetchRancherCertificate ::
  "(filters \<Rightarrow> 'w \<Rightarrow> api_certificate list result \<times> 'w) \<Rightarrow> string \<Rightarrow> 'w \<Rightarrow> Certificate option result \<times> 'w" where
  "FetchRancherCertificate listCerts certName w =
     (if certName = '''' then (Inr None, w)
      else case listCerts [(''name'', certName), (''removed_null'', ''1'')] w of
        (Inl e, w1) \<Rightarrow> (Inl (Wrapf ''Coudln't get certificate by name [%s]. Error: %#v'' [certName] e), w1)
      | (Inr [], w1) \<Rightarrow>
          (Inr (Some \<lparr>cert_Name = '''', cert_Cert = '''', cert_Key = '''', cert_Fetch = False\<rparr>), w1)
      | (Inr (cert # _), w1) \<Rightarrow>
          (Inr (Some \<lparr>cert_Name = ac_Name cert, cert_Cert = ac_Cert cert @ CHR 0x0A # ac_CertChain cert,
             cert_Key = ac_Key cert, cert_Fetch = False\<rparr>), w1))"

fun fetch_named ::
  "(filters \<Rightarrow> 'w \<Rightarrow> api_certificate list result \<times> 'w) \<Rightarrow> string list \<Rightarrow> 'w \<Rightarrow> Certificate option list result \<times> 'w" where
  "fetch_named listCerts [] w = (Inr [], w)"
| "fetch_named listCerts (n # ns) w =
     (case FetchRancherCertificate listCerts n w of
        (Inl e, w1) \<Rightarrow> (Inl e, w1)
      | (Inr c, w1) \<Rightarrow>
          (case fetch_named listCerts ns w1 of
             (Inl e, w2) \<Rightarrow> (Inl e, w2) | (Inr cs, w2) \<Rightarrow> (Inr (c # cs), w2)))"

text \<open>
  \<open>FetchCertificates\<close>: with mounted directories it waits for the first poll; \<open>seen i\<close> is the fetcher
  at its i-th check, \<open>n\<close> the number of checks (\<open>None\<close>: still waiting).
\<close>

fun await_poll :: "nat \<Rightarrow> (nat \<Rightarrow> fetcher) \<Rightarrow> fetcher option" where
  "await_poll 0 seen = None"
| "await_poll (Suc n) seen =
     (if checkIfInitPollDone (seen 0) then Some (seen 0) else await_poll n (\<lambda>i. seen (Suc i)))"

definition FetchCertificates ::
  "'w file_env \<Rightarrow> (filters \<Rightarrow> 'w \<Rightarrow> api_certificate list result \<times> 'w) \<Rightarrow> nat \<Rightarrow> (nat \<Rightarrow> fetcher) \<Rightarrow> LBMetadata \<Rightarrow> bool \<Rightarrow> 'w \<Rightarrow>
   (Certificate option list result \<times> 'w) option" where
  "FetchCertificates env listCerts n seen lbMeta isDefaultCert w =
     (if cf_CertDir (seen 0) \<noteq> '''' \<or> cf_DefaultCertDir (seen 0) \<noteq> '''' then
        (case await_poll n seen of
           None \<Rightarrow> None
         | Some f \<Rightarrow>
             Some (Inr
               (if isDefaultCert
                then (if cf_DefaultCertDir f \<noteq> ''''
                      then (case ReadDefaultCertificate f of None \<Rightarrow> [] | Some c \<Rightarrow> [Some c]) else [])
                else (if cf_CertDir f \<noteq> '''' then map Some (ReadAllCertificatesFromDir env f) else [])), w))
      else if \<not> isDefaultCert then Some (fetch_named listCerts (lm_Certs lbMeta) w)
      else if lm_DefaultCert lbMeta \<noteq> '''' then
        (case FetchRancherCertificate listCerts (lm_DefaultCert lbMeta) w of
           (Inl e, w1) \<Rightarrow> Some (Inl e, w1)
         | (Inr c, w1) \<Rightarrow> Some (Inr (if c \<noteq> None then [c] else []), w1))
      else Some (Inr [], w))"

section \<open>Public endpoints\<close>

text \<open>A page of a listing: its data, and its pagination (\<open>None\<close> is nil) as partial flag and next link.\<close>

record 'l page =
  pg_Data :: "'l list"
  pg_Pagination :: "(bool \<times> string) option"

record ('l, 'e, 'w) services_api =
  sa_List :: "filters \<Rightarrow> 'w \<Rightarrow> 'l page result \<times> 'w"
  sa_Next :: "string \<Rightarrow> 'w \<Rightarrow> 'l page result \<times> 'w"
  sa_Update :: "'l \<Rightarrow> 'e list \<Rightarrow> 'w \<Rightarrow> unit result \<times> 'w"

text \<open>
  The paging loop of \<open>listLoadBalancerServices\<close>, with fuel. A nil pagination, and the nil page that
  \<open>Next\<close> returns when a partial page has no link, are dereferenced.
\<close>

fun page_loop ::
  "nat \<Rightarrow> ('l, 'e, 'w) services_api \<Rightarrow> 'l page \<Rightarrow> 'l list \<Rightarrow> 'w \<Rightarrow> ('l list result \<times> 'w) outcome" where
  "page_loop 0 api page acc w = OutOfFuel"
| "page_loop (Suc n) api page acc w =
     (case pg_Pagination page of
        None \<Rightarrow> Panic
      | Some (False, _) \<Rightarrow> Ok (Inr acc, w)
      | Some (True, link) \<Rightarrow>
          if link = '''' then Panic
          else case sa_Next api link w of
            (Inl e, w1) \<Rightarrow> Ok (Inl (Wrapf ''could not fetch the next load-balancer service page: %w'' [] e), w1)
          | (Inr page', w1) \<Rightarrow> page_loop n api page' (acc @ pg_Data page') w1)"

definition listLoadBalancerServices ::
  "nat \<Rightarrow> ('l, 'e, 'w) services_api \<Rightarrow> filters \<Rightarrow> 'w \<Rightarrow> ('l list result \<times> 'w) outcome" where
  "listLoadBalancerServices n api opts w =
     (case sa_List api opts w of
        (Inl e, w1) \<Rightarrow> Ok (Inl (Wrapf ''could not list load-balancer services: %w'' [] e), w1)
      | (Inr page, w1) \<Rightarrow> page_loop n api page (pg_Data page) w1)"

definition UpdateEndpoints ::
  "nat \<Rightarrow> ('l, 'e, 'w) services_api \<Rightarrow> Service \<Rightarrow> 'e list \<Rightarrow> 'w \<Rightarrow> (unit result \<times> 'w) outcome" where
  "UpdateEndpoints n api lbSvc eps w =
     bind_out (listLoadBalancerServices n api [(''uuid'', svc_UUID lbSvc), (''removed_null'', ''1'')] w)
       (\<lambda>(r, w1). case r of
          Inl e \<Rightarrow> Ok (Inl (Wrapf ''could not get LB service by uuid [%s]. Error: %#v'' [svc_UUID lbSvc] e), w1)
        | Inr [] \<Rightarrow> Ok (Inr (), w1)
        | Inr (lb # _) \<Rightarrow>
            (case sa_Update api lb eps w1 of
               (Inl e, w2) \<Rightarrow> Ok (Inl (Wrapf ''failed to update load balancer [%s] in stack [%s]. Error: %#v''
                 [svc_Name lbSvc, svc_StackName lbSvc] e), w2)
             | (Inr _, w2) \<Rightarrow> Ok (Inr (), w2)))"

end
