(* ===== verification/Cert_Theorems.thy ===== *)
theory Cert_Theorems
  imports Cert_Fetcher
begin

text \<open>
  What holds of the certificate fetcher: the check of paths is the prefix order on path elements,
  no file outside the configured directories is read, every cached certificate is made of
  contents read there, and what happens to the cache when a directory cannot be read.
\<close>

section \<open>The check of paths\<close>

lemma Join_not_up:
  assumes "\<forall>x \<in> set (t # ts). plain_elem x"
  shows "\<not> HasPrefix (Join (t # ts) ''/'') ''/''" "Join (t # ts) ''/'' \<noteq> ''..''"
    "\<not> HasPrefix (Join (t # ts) ''/'') ''../''"
proof -
  let ?j = "Join (t # ts) ''/''"
  have s: "Split ?j ''/'' = t # ts" using assms by (intro Split_Join) (auto simp: plain_elem_def)
  have t: "t \<noteq> ''''" "t \<noteq> ''..''" using assms by (auto simp: plain_elem_def)
  show "\<not> HasPrefix ?j ''/''"
  proof
    assume "HasPrefix ?j ''/''"
    then obtain r where "?j = [] @ CHR ''/'' # r" by (auto simp: HasPrefix_iff)
    with s t(1) Split_mark [of "CHR ''/''" "[]" r] show False by simp
  qed
  show "?j \<noteq> ''..''"
  proof
    assume "?j = ''..''"
    with s t(2) Split_one [of "CHR ''/''" "''..''"] show False by simp
  qed
  show "\<not> HasPrefix ?j ''../''"
  proof
    assume "HasPrefix ?j ''../''"
    then obtain r where "?j = ''..'' @ CHR ''/'' # r" by (auto simp: HasPrefix_iff)
    with s t(2) Split_mark [of "CHR ''/''" "''..''" r] show False by simp
  qed
qed

lemma up_string:
  assumes "bs \<noteq> []"
  shows "Join (replicate (length bs) ''..'' @ ts) ''/'' = ''..'' \<or>
    HasPrefix (Join (replicate (length bs) ''..'' @ ts) ''/'') ''../''"
proof -
  obtain b bs' where "bs = b # bs'" using assms by (cases bs) auto
  then obtain rest where r: "replicate (length bs) ''..'' @ ts = ''..'' # rest" by simp
  show ?thesis unfolding r by (cases "rest = []") (simp_all add: Join_Cons HasPrefix_def)
qed

lemma within_root:
  assumes root: "HasPrefix rootPath ''/''"
  shows "pathIsWithinRoot rootPath p \<longleftrightarrow> HasPrefix p ''/'' \<and> prefix (clean_elems rootPath) (clean_elems p)"
proof (cases "HasPrefix p ''/''")
  case False
  have "Clean rootPath \<noteq> ''.''" using Clean_Clean_abs(3) [OF root] by (auto simp: HasPrefix_def)
  moreover have "\<not> HasPrefix (Clean (Clean p)) ''/''" using False by (intro Clean_rel)
  moreover from this have "Clean (Clean p) \<noteq> Clean rootPath" using Clean_Clean_abs(3) [OF root] by auto
  ultimately have "Rel (Clean rootPath) (Clean p) = None"
    using Clean_Clean_abs [OF root] by (simp add: Rel_def Let_def)
  with False show ?thesis by (simp add: pathIsWithinRoot_def)
next
  case True
  note cr = Clean_Clean_abs [OF root] and cp = Clean_Clean_abs [OF True]
  note pr = clean_elems_plain [OF root] and pp = clean_elems_plain [OF True]
  have sr: "slash_parts (Clean rootPath) = clean_elems rootPath"
    unfolding Clean_abs [OF root] by (rule slash_parts_clean [OF pr])
  have sp: "slash_parts (Clean p) = clean_elems p"
    unfolding Clean_abs [OF True] by (rule slash_parts_clean [OF pp])
  have nd: "Clean rootPath \<noteq> ''.''" using cr(3) by (auto simp: HasPrefix_def)
  show ?thesis
  proof (cases "Clean p = Clean rootPath")
    case eq: True
    then have "clean_elems p = clean_elems rootPath" using sr sp by simp
    moreover have "Rel (Clean rootPath) (Clean p) = Some ''.''" using eq cr by (simp add: Rel_def)
    ultimately show ?thesis using True by (simp add: pathIsWithinRoot_def path_IsAbs_def HasPrefix_def)
  next
    case ne: False
    obtain bs ts where d: "drop_common (clean_elems rootPath) (clean_elems p) = (bs, ts)" by fastforce
    have plain: "\<forall>x \<in> set bs. plain_elem x" "\<forall>x \<in> set ts. plain_elem x"
      using drop_common_sub [OF d] pr pp by auto
    have "\<not> (bs \<noteq> [] \<and> ts \<noteq> [] \<and> hd bs = dotdot)"
    proof
      assume "bs \<noteq> [] \<and> ts \<noteq> [] \<and> hd bs = dotdot"
      then have "dotdot \<in> set bs" by (metis hd_in_set)
      with plain(1) show False unfolding plain_elem_def by blast
    qed
    then have rel: "Rel (Clean rootPath) (Clean p) = Some (Join (replicate (length bs) dotdot @ ts) ''/'')"
      using ne nd cr cp by (simp add: Rel_def Let_def sr sp d)
    show ?thesis
    proof (cases "bs = []")
      case b: True
      have "ts \<noteq> []"
      proof
        assume "ts = []"
        with d b drop_common_eq have "clean_elems rootPath = clean_elems p" by metis
        with ne show False by (simp add: Clean_abs [OF root] Clean_abs [OF True])
      qed
      then obtain t ts' where "ts = t # ts'" by (cases ts) auto
      with plain(2) rel b True drop_common_prefix [OF d] Join_not_up [of t ts'] show ?thesis
        by (simp add: pathIsWithinRoot_def path_IsAbs_def)
    next
      case b: False
      with rel drop_common_prefix [OF d] up_string [OF b, of ts] show ?thesis
        by (auto simp: pathIsWithinRoot_def)
    qed
  qed
qed

text \<open>
  The check of certificate paths is exact: for an absolute root, a path is accepted exactly
  when it is absolute and its elements, after single and double dots are resolved, start with
  the elements of the root. Siblings of the root whose names extend its name are refused.
\<close>

theorem within_root_is_prefix:
  assumes "HasPrefix rootPath ''/''"
  shows "pathIsWithinRoot rootPath p \<longleftrightarrow> HasPrefix p ''/'' \<and> prefix (clean_elems rootPath) (clean_elems p)"
  by (rule within_root [OF assms])

lemma within_root_is_prefix_witness:
  "pathIsWithinRoot ''/certs/'' ''/certs/a/../b'' \<and> \<not> pathIsWithinRoot ''/certs/'' ''/certs-old/b''"
proof -
  have "clean_elems ''/certs/'' = [''certs'']" "clean_elems ''/certs/a/../b'' = [''certs'', ''b'']"
    "clean_elems ''/certs-old/b'' = [''certs-old'', ''b'']"
    by code_simp+
  then show ?thesis
    using within_root_is_prefix [of "''/certs/''" "''/certs/a/../b''"] within_root_is_prefix [of "''/certs/''" "''/certs-old/b''"]
    by (simp add: HasPrefix_def)
qed

section \<open>What is read\<close>

text \<open>A path inside what a configured root resolved to, at some moment.\<close>

definition confined :: "'w file_env \<Rightarrow> string list \<Rightarrow> string \<Rightarrow> bool" where
  "confined env roots p \<longleftrightarrow> (\<exists>root \<in> set roots. \<exists>rootPath w resolved w'. root \<noteq> '''' \<and> fs_abs env root = Inr rootPath \<and>
     fs_evalSymlinks env rootPath w = (Inr resolved, w') \<and> HasPrefix p ''/'' \<and>
     prefix (clean_elems resolved) (clean_elems p))"

definition roots_of :: "fetcher \<Rightarrow> string list" where
  "roots_of f = [cf_CertDir f, cf_DefaultCertDir f]"

text \<open>Both texts of a certificate were read from files.\<close>

definition sourced :: "(string \<times> string) list \<Rightarrow> Certificate \<Rightarrow> bool" where
  "sourced log c \<longleftrightarrow> cert_Cert c \<in> snd ` set log \<and> cert_Key c \<in> snd ` set log"

definition cache_map :: "fetcher \<Rightarrow> (string, Certificate) gomap" where
  "cache_map f = (case cf_CertsCache f of None \<Rightarrow> [] | Some m \<Rightarrow> m)"

definition all_cached :: "fetcher \<Rightarrow> Certificate set" where
  "all_cached f = snd ` set (cache_map f) \<union> set_option (cf_DefaultCert f)"

lemma cache_map_simps [simp]:
  "cache_map (f\<lparr>cf_tempCertsMap := m\<rparr>) = cache_map f" "cache_map (f\<lparr>cf_DefaultCert := d\<rparr>) = cache_map f"
  "cache_map (f\<lparr>cf_initPollDone := b\<rparr>) = cache_map f" "cache_map (f\<lparr>cf_CertsCache := Some m\<rparr>) = m"
  "cf_CertsCache f = None \<Longrightarrow> cache_map f = []"
  by (simp_all add: cache_map_def)

definition files_ok :: "'w file_env \<Rightarrow> fetcher \<Rightarrow> 'w fio \<Rightarrow> bool" where
  "files_ok env f io \<longleftrightarrow> (\<forall>(p, c) \<in> set (fi_read io). confined env (roots_of f) p) \<and>
     (\<forall>c \<in> all_cached f. sourced (fi_read io) c)"

text \<open>What an operation may change: the log grows by confined files.\<close>

definition reads_ok :: "'w file_env \<Rightarrow> string list \<Rightarrow> 'w fio \<Rightarrow> 'w fio \<Rightarrow> bool" where
  "reads_ok env roots io io' \<longleftrightarrow> (\<exists>new. fi_read io' = fi_read io @ new \<and> (\<forall>(p, c) \<in> set new. confined env roots p))"

lemma reads_ok_refl [simp]: "reads_ok env roots io io" "reads_ok env roots io (io\<lparr>fi_world := w\<rparr>)"
  by (simp_all add: reads_ok_def)

lemma reads_ok_trans [trans]: "reads_ok env roots a b \<Longrightarrow> reads_ok env roots b c \<Longrightarrow> reads_ok env roots a c"
  by (fastforce simp: reads_ok_def)

lemma reads_ok_world [simp]: "reads_ok env roots (io\<lparr>fi_world := w\<rparr>) io' = reads_ok env roots io io'"
  by (simp add: reads_ok_def)

lemma sourced_mono: "reads_ok env roots io io' \<Longrightarrow> sourced (fi_read io) c \<Longrightarrow> sourced (fi_read io') c"
  by (auto simp: reads_ok_def sourced_def)

text \<open>What \<open>filepath.Abs\<close> and \<open>filepath.EvalSymlinks\<close> promise of absolute paths.\<close>

definition absolute_paths :: "'w file_env \<Rightarrow> bool" where
  "absolute_paths env \<longleftrightarrow> (\<forall>p q. fs_abs env p = Inr q \<longrightarrow> HasPrefix q ''/'') \<and>
     (\<forall>p w q w'. HasPrefix p ''/'' \<longrightarrow> fs_evalSymlinks env p w = (Inr q, w') \<longrightarrow> HasPrefix q ''/'')"

lemma within_roots_confined:
  assumes env: "absolute_paths env"
  shows "within_roots env roots src tgt io = (ok, io') \<Longrightarrow>
    fi_read io' = fi_read io \<and> (ok \<longrightarrow> confined env roots tgt)"
proof (induction roots arbitrary: io)
  case (Cons root roots)
  have up: "confined env roots tgt \<Longrightarrow> confined env (root # roots) tgt" by (auto simp: confined_def)
  show ?case
  proof (cases "root = '''' \<or> (\<forall>q. fs_abs env root \<noteq> Inr q) \<or> (\<exists>q. fs_abs env root = Inr q \<and> \<not> pathIsWithinRoot q src)")
    case True
    with Cons.prems have "within_roots env roots src tgt io = (ok, io')"
      by (auto split: if_splits sum.splits)
    with Cons.IH up show ?thesis by blast
  next
    case False
    then obtain q where q: "root \<noteq> ''''" "fs_abs env root = Inr q" "pathIsWithinRoot q src" by blast
    show ?thesis
    proof (cases "fs_evalSymlinks env q (fi_world io)")
      case (Pair r w)
      show ?thesis
      proof (cases r)
        case (Inl e)
        with Pair q Cons.prems show ?thesis by auto
      next
        case (Inr resolved)
        with Pair q Cons.prems have o: "ok = pathIsWithinRoot resolved tgt" "io' = io\<lparr>fi_world := w\<rparr>" by auto
        from env q(2) Pair Inr have "HasPrefix resolved ''/''" unfolding absolute_paths_def by blast
        with o(1) within_root have "ok \<Longrightarrow> HasPrefix tgt ''/'' \<and> prefix (clean_elems resolved) (clean_elems tgt)" by blast
        with q Pair Inr have "ok \<Longrightarrow> confined env (root # roots) tgt" unfolding confined_def by fastforce
        with o(2) show ?thesis by simp
      qed
    qed
  qed
qed simp

lemma read_confined:
  assumes env: "absolute_paths env" and run: "evaluatueLinkAndReadFile env f path name io = (r, io')"
  shows "reads_ok env (roots_of f) io io' \<and> (\<forall>c. r = Inr c \<longrightarrow> c \<in> snd ` set (fi_read io'))"
proof -
  consider "reads_ok env (roots_of f) io io'" "\<And>c. r \<noteq> Inr c"
    | abs tgt w io2 where "within_roots env (roots_of f) abs tgt (io\<lparr>fi_world := w\<rparr>) = (True, io2)" "readFile env tgt io2 = (r, io')"
  proof (cases "fs_abs env (path_Join [path, name])")
    case (Inl e)
    with run show thesis by (intro that(1)) (auto simp: evaluatueLinkAndReadFile_def)
  next
    case abs: (Inr abs)
    obtain r1 w where l: "fs_lstat env abs (fi_world io) = (r1, w)" by fastforce
    show thesis
    proof (cases r1)
      case (Inl e)
      with run abs l show thesis by (intro that(1)) (auto simp: evaluatueLinkAndReadFile_def)
    next
      case (Inr u)
      obtain r2 w1 where e: "fs_evalSymlinks env abs w = (r2, w1)" by fastforce
      show thesis
      proof (cases r2)
        case (Inl x)
        with run abs l Inr e show thesis by (intro that(1)) (auto simp: evaluatueLinkAndReadFile_def)
      next
        case tgt: (Inr tgt)
        obtain ok io2 where c: "within_roots env (roots_of f) abs tgt (io\<lparr>fi_world := w1\<rparr>) = (ok, io2)" by fastforce
        with run abs l Inr e tgt have o: "(if ok then readFile env tgt io2 else
            (Inl (Errorf ''File %s resolves outside its configured certificate directory'' [abs]), io2)) = (r, io')"
          by (cases ok) (simp_all add: evaluatueLinkAndReadFile_def pathIsWithinConfiguredRoot_def roots_of_def)
        show thesis
        proof (cases ok)
          case True
          with c o show thesis by (intro that(2)) simp_all
        next
          case False
          with o within_roots_confined [OF env c] show thesis
            by (intro that(1)) (auto simp: reads_ok_def)
        qed
      qed
    qed
  qed
  then show ?thesis
  proof cases
    case 2
    from within_roots_confined [OF env 2(1)] have "fi_read io2 = fi_read io" "confined env (roots_of f) tgt" by simp_all
    with 2(2) show ?thesis
      by (cases "fs_readFile env tgt (fi_world io2)"; cases "fst (fs_readFile env tgt (fi_world io2))")
        (auto simp: readFile_def reads_ok_def)
  qed simp
qed

lemma read_files_ok:
  assumes env: "absolute_paths env"
  shows "read_files env f path files sc io = (sc', io') \<Longrightarrow>
    (sc_isCertFound sc \<Longrightarrow> cert_Cert (sc_cert sc) \<in> snd ` set (fi_read io)) \<Longrightarrow>
    (sc_isKeyFound sc \<Longrightarrow> cert_Key (sc_cert sc) \<in> snd ` set (fi_read io)) \<Longrightarrow>
    reads_ok env (roots_of f) io io' \<and>
    (sc_isCertFound sc' \<longrightarrow> cert_Cert (sc_cert sc') \<in> snd ` set (fi_read io')) \<and>
    (sc_isKeyFound sc' \<longrightarrow> cert_Key (sc_cert sc') \<in> snd ` set (fi_read io'))"
proof (induction files arbitrary: sc io)
  case (Cons x files)
  obtain name isDir where x: "x = (name, isDir)" by fastforce
  show ?case
  proof (cases isDir)
    case True
    with Cons x show ?thesis by simp
  next
    case False
    obtain r io1 where r: "evaluatueLinkAndReadFile env f path name io = (r, io1)" by fastforce
    note c = read_confined [OF env r]
    then have mono: "snd ` set (fi_read io) \<subseteq> snd ` set (fi_read io1)" by (auto simp: reads_ok_def)
    define sc1 where "sc1 = (case r of Inl _ \<Rightarrow> sc | Inr content \<Rightarrow>
      if name = cf_CertName f then sc\<lparr>sc_isCertFound := True, sc_cert := (sc_cert sc)\<lparr>cert_Cert := content\<rparr>\<rparr>
      else if name = cf_KeyName f then sc\<lparr>sc_isKeyFound := True, sc_cert := (sc_cert sc)\<lparr>cert_Key := content\<rparr>\<rparr> else sc)"
    have run: "read_files env f path files sc1 io1 = (sc', io')"
      using Cons.prems(1) False x r by (auto simp: sc1_def split: sum.splits)
    have "sc_isCertFound sc1 \<Longrightarrow> cert_Cert (sc_cert sc1) \<in> snd ` set (fi_read io1)"
      "sc_isKeyFound sc1 \<Longrightarrow> cert_Key (sc_cert sc1) \<in> snd ` set (fi_read io1)"
      using c mono Cons.prems(2,3) by (auto simp: sc1_def split: sum.splits if_splits)
    from Cons.IH [OF run this] c reads_ok_trans show ?thesis by blast
  qed
qed simp

text \<open>The certificates in the map under construction.\<close>

definition temp_sourced :: "fetcher \<Rightarrow> 'w fio \<Rightarrow> bool" where
  "temp_sourced f io \<longleftrightarrow> (\<forall>c \<in> snd ` set (cf_tempCertsMap f). sourced (fi_read io) c)"

lemma readCertificate_ok:
  assumes env: "absolute_paths env" and run: "readCertificate env v f io = (r, f', io')" and t: "temp_sourced f io"
  shows "reads_ok env (roots_of f) io io' \<and> temp_sourced f' io' \<and> (\<exists>m. f' = f\<lparr>cf_tempCertsMap := m\<rparr>)"
proof -
  have same: "\<exists>m. f = f\<lparr>cf_tempCertsMap := m\<rparr>" by (intro exI [of _ "cf_tempCertsMap f"]) simp
  consider "f' = f" "fi_read io' = fi_read io"
    | name files w sc where "read_files env f (wv_path v) files (new_scan name) (io\<lparr>fi_world := w\<rparr>) = (sc, io')"
      "f' = (if sc_isCertFound sc \<and> sc_isKeyFound sc
             then f\<lparr>cf_tempCertsMap := AList.update (wv_path v) (sc_cert sc) (cf_tempCertsMap f)\<rparr> else f)"
    using run by (auto simp: readCertificate_def split: option.splits bool.splits prod.splits sum.splits)
  then show ?thesis
  proof cases
    case 1
    with t same show ?thesis by (auto simp: reads_ok_def temp_sourced_def)
  next
    case 2
    from read_files_ok [OF env 2(1)] have r: "reads_ok env (roots_of f) io io'"
      "sc_isCertFound sc \<Longrightarrow> sc_isKeyFound sc \<Longrightarrow> sourced (fi_read io') (sc_cert sc)"
      by (simp_all add: new_scan_def sourced_def)
    have "temp_sourced f io'" using t sourced_mono [OF r(1)] by (auto simp: temp_sourced_def)
    moreover have "snd ` set (AList.update k c m) \<subseteq> insert c (snd ` set m)" for k m and c :: Certificate
      by (induction m) auto
    ultimately show ?thesis using r 2(2) same by (fastforce simp: temp_sourced_def)
  qed
qed

lemma walk_dir_ok:
  assumes env: "absolute_paths env"
  shows "walk_dir env vs f io = (r, f', io') \<Longrightarrow> temp_sourced f io \<Longrightarrow>
    reads_ok env (roots_of f) io io' \<and> temp_sourced f' io' \<and> (\<exists>m. f' = f\<lparr>cf_tempCertsMap := m\<rparr>)"
proof (induction vs arbitrary: f io)
  case Nil
  then show ?case by (auto intro: exI [of _ "cf_tempCertsMap f"])
next
  case (Cons v vs)
  obtain r1 f1 io1 where r: "readCertificate env v f io = (r1, f1, io1)" by (metis prod_cases3)
  from readCertificate_ok [OF env r Cons.prems(2)] obtain m where
    o: "reads_ok env (roots_of f) io io1" "temp_sourced f1 io1" "f1 = f\<lparr>cf_tempCertsMap := m\<rparr>" by blast
  show ?case
  proof (cases r1)
    case (Inl e)
    with Cons.prems r o show ?thesis by auto
  next
    case (Inr u)
    with Cons.prems r have "walk_dir env vs f1 io1 = (r, f', io')" by simp
    from Cons.IH [OF this o(2)] o(1,3) reads_ok_trans show ?thesis by (fastforce simp: roots_of_def)
  qed
qed

section \<open>The cache\<close>

lemma files_ok_reads:
  assumes "files_ok env f io" and "reads_ok env (roots_of f) io io'" and "roots_of f' = roots_of f"
    and "\<And>c. c \<in> all_cached f' \<Longrightarrow> c \<in> all_cached f \<or> sourced (fi_read io') c"
  shows "files_ok env f' io'"
  using assms sourced_mono [OF assms(2)] unfolding files_ok_def reads_ok_def by (fastforce simp: case_prod_beta)

lemma poll_certs_ok:
  assumes env: "absolute_paths env" and run: "poll_certs env force f io = (u, f', io')" and ok: "files_ok env f io"
  shows "files_ok env f' io' \<and> roots_of f' = roots_of f"
proof (cases "cf_CertDir f = ''''")
  case True
  with run ok show ?thesis by (simp add: poll_certs_def)
next
  case False
  obtain r f1 io1 where w: "walk_dir env (fs_walk env (cf_CertDir f) (fi_world io)) (f\<lparr>cf_tempCertsMap := []\<rparr>) io = (r, f1, io1)"
    by (metis prod_cases3)
  have "temp_sourced (f\<lparr>cf_tempCertsMap := []\<rparr>) io" by (simp add: temp_sourced_def)
  from walk_dir_ok [OF env w this] obtain m where
    o: "reads_ok env (roots_of f) io io1" "temp_sourced f1 io1" "f1 = f\<lparr>cf_tempCertsMap := m\<rparr>"
    by (auto simp: roots_of_def)
  have f': "io' = io1" "f' = f1 \<or> f' = f1\<lparr>cf_CertsCache := Some m\<rparr>"
    using run False w o(3) by (auto simp: poll_certs_def split: sum.splits if_splits)
  have "c \<in> all_cached f' \<Longrightarrow> c \<in> all_cached f \<or> sourced (fi_read io1) c" for c
    using f'(2) o(2,3) by (auto simp: all_cached_def temp_sourced_def)
  moreover have "roots_of f' = roots_of f" using f'(2) o(3) by (auto simp: roots_of_def)
  ultimately show ?thesis using files_ok_reads [OF ok o(1)] f'(1) by blast
qed

lemma poll_default_ok:
  assumes env: "absolute_paths env" and order: "\<And>m. set (fs_order env m) \<subseteq> set m"
    and run: "poll_default env force f io = (u, f', io')" and ok: "files_ok env f io"
  shows "files_ok env f' io' \<and> roots_of f' = roots_of f"
proof (cases "cf_DefaultCertDir f = ''''")
  case True
  with run ok show ?thesis by (simp add: poll_default_def)
next
  case False
  obtain r f1 io1 where w: "walk_dir env (fs_walk env (cf_DefaultCertDir f) (fi_world io)) (f\<lparr>cf_tempCertsMap := []\<rparr>) io = (r, f1, io1)"
    by (metis prod_cases3)
  have "temp_sourced (f\<lparr>cf_tempCertsMap := []\<rparr>) io" by (simp add: temp_sourced_def)
  from walk_dir_ok [OF env w this] obtain m where
    o: "reads_ok env (roots_of f) io io1" "temp_sourced f1 io1" "f1 = f\<lparr>cf_tempCertsMap := m\<rparr>"
    by (auto simp: roots_of_def)
  have f': "io' = io1" "f' = f1 \<or> f' = f1\<lparr>cf_DefaultCert := last_cert (fs_order env m)\<rparr>"
    using run False w o(3) by (auto simp: poll_default_def Let_def split: sum.splits if_splits)
  have "snd (last (fs_order env m)) \<in> snd ` set m" if "fs_order env m \<noteq> []"
    using order [of m] last_in_set [OF that] by blast
  then have "c \<in> all_cached f' \<Longrightarrow> c \<in> all_cached f \<or> sourced (fi_read io1) c" for c
    using f'(2) o(2,3) by (fastforce simp: all_cached_def temp_sourced_def last_cert_def split: if_splits)
  moreover have "roots_of f' = roots_of f" using f'(2) o(3) by (auto simp: roots_of_def)
  ultimately show ?thesis using files_ok_reads [OF ok o(1)] f'(1) by blast
qed

lemma files_ok_poll_flag: "files_ok env (f\<lparr>cf_initPollDone := b\<rparr>) io = files_ok env f io"
  "roots_of (f\<lparr>cf_initPollDone := b\<rparr>) = roots_of f"
  by (simp_all add: files_ok_def roots_of_def all_cached_def)

lemma poll_ok:
  assumes "absolute_paths env" and "\<And>m. set (fs_order env m) \<subseteq> set m"
    and "pollCertificateDirectories env force f io = (u, f', io')" and "files_ok env f io"
  shows "files_ok env f' io' \<and> roots_of f' = roots_of f"
proof -
  obtain u1 f1 io1 where p: "poll_certs env force f io = (u1, f1, io1)" by (metis prod_cases3)
  obtain u2 f2 io2 where d: "poll_default env force f1 io1 = (u2, f2, io2)" by (metis prod_cases3)
  from poll_certs_ok [OF assms(1) p assms(4)] poll_default_ok [OF assms(1,2) d]
  have "files_ok env f2 io2 \<and> roots_of f2 = roots_of f" by simp
  with assms(3) p d show ?thesis
    by (auto simp: pollCertificateDirectories_def setInitPollDone_def files_ok_poll_flag split: if_splits)
qed

lemma look_ok:
  assumes "absolute_paths env" and "\<And>m. set (fs_order env m) \<subseteq> set m"
  shows "LookForCertUpdates env rounds f io = (us, f', io') \<Longrightarrow> files_ok env f io \<Longrightarrow>
    files_ok env f' io' \<and> roots_of f' = roots_of f"
proof (induction rounds arbitrary: f io us)
  case (Cons force rounds)
  show ?case
  proof (cases "cf_CertDir f = '''' \<and> cf_DefaultCertDir f = ''''")
    case True
    with Cons show ?thesis by simp
  next
    case False
    obtain u f1 io1 where p: "pollCertificateDirectories env force f io = (u, f1, io1)" by (metis prod_cases3)
    obtain us1 f2 io2 where l: "LookForCertUpdates env rounds f1 io1 = (us1, f2, io2)" by (metis prod_cases3)
    from False have "LookForCertUpdates env (force # rounds) f io = (u # us1, f2, io2)" by (auto simp: p l)
    with Cons.prems(1) l have l': "LookForCertUpdates env rounds f1 io1 = (us1, f', io')" by (simp only: prod.inject)
    from poll_ok [OF assms p Cons.prems(2)] Cons.IH [OF l'] show ?thesis by simp
  qed
qed simp


text \<open>A directory with a certificate, a key, and a link to a file outside.\<close>

definition demo_file_env :: "unit file_env" where
  "demo_file_env = \<lparr>fs_abs = (\<lambda>p. Inr p), fs_lstat = (\<lambda>_ w. (Inr (), w)), fs_isNotExist = (\<lambda>_. False),
     fs_evalSymlinks = (\<lambda>p w. (Inr (if p = ''/certs/a/key'' then ''/etc/key'' else p), w)),
     fs_readFile = (\<lambda>p w. (Inr p, w)),
     fs_readDir = (\<lambda>_ w. (Inr [(''cert'', False), (''key'', False)], w)),
     fs_walk = (\<lambda>r _. [\<lparr>wv_path = ''/certs/a'', wv_info = Some (''a'', True), wv_err = None\<rparr>,
       \<lparr>wv_path = ''/certs/b'', wv_info = Some (''b'', True), wv_err = None\<rparr>]),
     fs_order = (\<lambda>m. m)\<rparr>"

definition demo_fetcher :: fetcher where
  "demo_fetcher = \<lparr>cf_CertDir = ''/certs'', cf_DefaultCertDir = '''', cf_CertsCache = None, cf_DefaultCert = None,
     cf_tempCertsMap = [], cf_updateCheckInterval = 30, cf_CertName = ''cert'', cf_KeyName = ''key'',
     cf_initPollDone = False\<rparr>"

lemma demo_absolute: "absolute_paths (demo_file_env\<lparr>fs_abs := (\<lambda>p. if HasPrefix p ''/'' then Inr p else Inl (Errorf '''' []))\<rparr>)"
  by (auto simp: absolute_paths_def demo_file_env_def HasPrefix_def split: if_splits)

lemma demo_look:
  "LookForCertUpdates (demo_file_env\<lparr>fs_abs := (\<lambda>p. if HasPrefix p ''/'' then Inr p else Inl (Errorf '''' []))\<rparr>)
     [False] demo_fetcher \<lparr>fi_world = (), fi_read = []\<rparr> =
   ([True], demo_fetcher\<lparr>cf_CertsCache := Some [(''/certs/b'', \<lparr>cert_Name = ''b'', cert_Cert = ''/certs/b/cert'',
        cert_Key = ''/certs/b/key'', cert_Fetch = False\<rparr>)],
      cf_tempCertsMap := [(''/certs/b'', \<lparr>cert_Name = ''b'', cert_Cert = ''/certs/b/cert'',
        cert_Key = ''/certs/b/key'', cert_Fetch = False\<rparr>)], cf_initPollDone := True\<rparr>,
    \<lparr>fi_world = (), fi_read = [(''/certs/a/cert'', ''/certs/a/cert''), (''/certs/b/cert'', ''/certs/b/cert''),
       (''/certs/b/key'', ''/certs/b/key'')]\<rparr>)"
  by code_simp


section \<open>Directories that cannot be read\<close>

text \<open>
  A mounted directory that disappears takes its certificates with it: when the walk finds no
  directory at the configured path, the poll succeeds, replaces a cache that held certificates by
  the empty one and asks for a new configuration; only a directory that is there but cannot be
  listed leaves the cache as it is.
\<close>

theorem missing_directory_drops_certs:
  assumes "cf_CertDir f \<noteq> ''''" and "cf_CertsCache f = Some ((k, c) # certs)"
  shows "(fs_walk env (cf_CertDir f) (fi_world io) = [\<lparr>wv_path = cf_CertDir f, wv_info = None, wv_err = Some e\<rparr>] \<longrightarrow>
      poll_certs env False f io = (True, f\<lparr>cf_tempCertsMap := [], cf_CertsCache := Some []\<rparr>, io)) \<and>
    (fs_walk env (cf_CertDir f) (fi_world io) = [\<lparr>wv_path = cf_CertDir f, wv_info = Some (n, True), wv_err = Some e\<rparr>] \<longrightarrow>
      poll_certs env False f io = (False, f\<lparr>cf_tempCertsMap := []\<rparr>, io))"
  using assms by (simp add: poll_certs_def readCertificate_def same_certs_def)

definition demo_cert :: Certificate where
  "demo_cert = \<lparr>cert_Name = ''b'', cert_Cert = ''cert'', cert_Key = ''key'', cert_Fetch = False\<rparr>"

lemma missing_directory_drops_certs_witness:
  "poll_certs (demo_file_env\<lparr>fs_walk := (\<lambda>r _. [\<lparr>wv_path = ''/certs'', wv_info = None, wv_err = Some (Errorf '''' [])\<rparr>])\<rparr>) False
     (demo_fetcher\<lparr>cf_CertsCache := Some [(''/certs/b'', demo_cert)]\<rparr>) \<lparr>fi_world = (), fi_read = []\<rparr> =
   (True, demo_fetcher\<lparr>cf_CertsCache := Some []\<rparr>, \<lparr>fi_world = (), fi_read = []\<rparr>)"
  using missing_directory_drops_certs [of "demo_fetcher\<lparr>cf_CertsCache := Some [(''/certs/b'', demo_cert)]\<rparr>" "''/certs/b''" demo_cert "[]"
      "demo_file_env\<lparr>fs_walk := (\<lambda>r _. [\<lparr>wv_path = ''/certs'', wv_info = None, wv_err = Some (Errorf '''' [])\<rparr>])\<rparr>"
      "\<lparr>fi_world = (), fi_read = []\<rparr>" "Errorf '''' []"]
  by (simp add: demo_fetcher_def)

end
