(* ===== verification/Go_Url_Text.thy ===== *)
theory Go_Url_Text
  imports Go_Url Go_Sort
begin

text \<open>
  The rest of \<open>net/url\<close> in use: \<open>String\<close>, \<open>Hostname\<close> and \<open>Port\<close>, \<open>ResolveReference\<close>, the values of
  a query. What \<open>String\<close> writes for user and host is the parameter \<open>text\<close>, the inverse of the
  parameter \<open>authority\<close> of \<open>Parse\<close>. The lemmas show that \<open>Parse\<close> reads back the origin of a URL
  that \<open>String\<close> wrote.
\<close>

section \<open>Texts of URLs\<close>

definition validEncodedFragment :: "string \<Rightarrow> bool" where
  "validEncodedFragment =
     list_all (\<lambda>c. c \<in> set ''!$&()*+,;=:@[]%'' \<or> code c = 39 \<or> \<not> should_escape encodeFragment c)"

definition EscapedFragment :: "URL \<Rightarrow> string" where
  "EscapedFragment u =
     (if u_RawFragment u \<noteq> '''' \<and> validEncodedFragment (u_RawFragment u) \<and>
         unescape (u_RawFragment u) = Some (u_Fragment u)
      then u_RawFragment u else escape encodeFragment (u_Fragment u))"

text \<open>Scheme, authority and path; the path gets a leading slash after a host, and a dot in front of a colon.\<close>

definition String_head :: "(string option \<Rightarrow> string \<Rightarrow> string) \<Rightarrow> URL \<Rightarrow> string" where
  "String_head text u =
     (let scheme = (if u_Scheme u = '''' then '''' else u_Scheme u @ '':'') in
      if u_Opaque u \<noteq> '''' then scheme @ u_Opaque u
      else
        let path = EscapedPath u;
            host = (if u_Scheme u = '''' \<and> u_Host u = '''' \<and> u_User u = None then ''''
                    else if u_OmitHost u \<and> u_Host u = '''' \<and> u_User u = None then ''''
                    else (if u_Host u \<noteq> '''' \<or> u_Path u \<noteq> '''' \<or> u_User u \<noteq> None then ''//'' else '''') @
                         text (u_User u) (u_Host u));
            slash = (if path \<noteq> '''' \<and> \<not> HasPrefix path ''/'' \<and> u_Host u \<noteq> '''' then ''/'' else '''');
            start = scheme @ host @ slash
        in start @ (if start = '''' \<and> CHR '':'' \<in> set (takeWhile (\<lambda>c. c \<noteq> CHR ''/'') path) then ''./'' else '''') @ path)"

definition URL_String :: "(string option \<Rightarrow> string \<Rightarrow> string) \<Rightarrow> URL \<Rightarrow> string" where
  "URL_String text u =
     String_head text u @
     (if u_ForceQuery u \<or> u_RawQuery u \<noteq> '''' then ''?'' @ u_RawQuery u else '''') @
     (if u_Fragment u \<noteq> '''' then ''#'' @ EscapedFragment u else '''')"

section \<open>Host and port\<close>

definition splitHostPort :: "string \<Rightarrow> string \<times> string" where
  "splitHostPort hostPort =
     (let digits = rev (takeWhile (\<lambda>c. c \<noteq> CHR '':'') (rev hostPort));
          r = (if CHR '':'' \<in> set hostPort \<and> list_all is_digit digits
               then (take (length hostPort - length digits - 1) hostPort, digits) else (hostPort, ''''));
          host = fst r
      in (if HasPrefix host ''['' \<and> HasSuffix host '']'' then butlast (tl host) else host, snd r))"

definition Hostname :: "URL \<Rightarrow> string" where
  "Hostname u = fst (splitHostPort (u_Host u))"

definition Port :: "URL \<Rightarrow> string" where
  "Port u = snd (splitHostPort (u_Host u))"

section \<open>References\<close>

text \<open>The elements of \<open>resolvePath\<close>: what is written after the leading slash, and whether nothing was.\<close>

definition cut_last :: "string \<Rightarrow> string option" where
  "cut_last s = (if CHR ''/'' \<in> set s
     then Some (rev (tl (dropWhile (\<lambda>c. c \<noteq> CHR ''/'') (rev s)))) else None)"

fun resolve_elems :: "string list \<Rightarrow> string \<Rightarrow> bool \<Rightarrow> string" where
  "resolve_elems [] str first = str"
| "resolve_elems (e # es) str first =
     (if e = ''.'' then resolve_elems es str False
      else if e = ''..'' then
        (case cut_last str of None \<Rightarrow> resolve_elems es '''' True | Some s \<Rightarrow> resolve_elems es s first)
      else resolve_elems es (str @ (if first then '''' else ''/'') @ e) False)"

definition resolvePath :: "string \<Rightarrow> string \<Rightarrow> string" where
  "resolvePath base ref =
     (let full = (if ref = '''' then base
                  else if \<not> HasPrefix ref ''/'' then rev (dropWhile (\<lambda>c. c \<noteq> CHR ''/'') (rev base)) @ ref
                  else ref);
          elems = Split full ''/''
      in if full = '''' then ''''
         else
           let r = ''/'' @ resolve_elems elems '''' True @
                 (if last elems = ''.'' \<or> last elems = ''..'' then ''/'' else '''')
           in if HasPrefix r ''//'' then tl r else r)"

definition set_path :: "string \<Rightarrow> URL \<Rightarrow> URL" where
  "set_path p u = (case setPath p u of None \<Rightarrow> u | Some u' \<Rightarrow> u')"

definition ResolveReference :: "URL \<Rightarrow> URL \<Rightarrow> URL" where
  "ResolveReference base ref =
     (let url = (if u_Scheme ref = '''' then ref\<lparr>u_Scheme := u_Scheme base\<rparr> else ref) in
      if u_Scheme ref \<noteq> '''' \<or> u_Host ref \<noteq> '''' \<or> u_User ref \<noteq> None
      then set_path (resolvePath (EscapedPath ref) '''') url
      else if u_Opaque ref \<noteq> '''' then url\<lparr>u_User := None, u_Host := '''', u_Path := ''''\<rparr>
      else
        let url = (if u_Path ref = '''' \<and> \<not> u_ForceQuery ref \<and> u_RawQuery ref = ''''
                   then (let u = url\<lparr>u_RawQuery := u_RawQuery base\<rparr> in
                         if u_Fragment ref = ''''
                         then u\<lparr>u_Fragment := u_Fragment base, u_RawFragment := u_RawFragment base\<rparr> else u)
                   else url)
        in if u_Path ref = '''' \<and> u_Opaque base \<noteq> ''''
           then url\<lparr>u_Opaque := u_Opaque base, u_User := None, u_Host := '''', u_Path := ''''\<rparr>
           else set_path (resolvePath (EscapedPath base) (EscapedPath ref)) (url\<lparr>u_Host := u_Host base, u_User := u_User base\<rparr>))"

section \<open>Queries\<close>

type_synonym url_values = "(string, string list) gomap"

definition values_add :: "string \<Rightarrow> string \<Rightarrow> url_values \<Rightarrow> url_values" where
  "values_add k v m = AList.update k (map_get [] m k @ [v]) m"

definition QueryUnescape :: "string \<Rightarrow> string option" where
  "QueryUnescape s = unescape (map (\<lambda>c. if c = CHR ''+'' then CHR '' '' else c) s)"

definition parse_pair :: "string \<Rightarrow> url_values \<Rightarrow> url_values" where
  "parse_pair pair m =
     (if CHR '';'' \<in> set pair \<or> pair = '''' then m
      else case (QueryUnescape (fst (cut_at pair ''='')), QueryUnescape (snd (cut_at pair ''=''))) of
        (Some k, Some v) \<Rightarrow> values_add k v m
      | _ \<Rightarrow> m)"

text \<open>\<open>Query\<close>: pairs that do not parse are left out.\<close>

definition Query :: "URL \<Rightarrow> url_values" where
  "Query u = fold parse_pair (Split (u_RawQuery u) ''&'') []"

definition Encode :: "url_values \<Rightarrow> string" where
  "Encode m = Join (concat (map (\<lambda>k. map (\<lambda>v. QueryEscape k @ ''='' @ QueryEscape v) (map_get [] m k))
     (sort_strings (keys_of m)))) ''&''"

section \<open>What parsing gives\<close>

definition ctl_free :: "string \<Rightarrow> bool" where
  "ctl_free s \<longleftrightarrow> CHR ''#'' \<notin> set s \<and> \<not> has_ctl s"

text \<open>
  User and host of a URL were read by \<open>authority\<close>, an opaque URL has no host, and the query cannot
  end the URL.
\<close>

definition parsed_URL :: "(string \<Rightarrow> (string option \<times> string) option) \<Rightarrow> URL \<Rightarrow> bool" where
  "parsed_URL authority u \<longleftrightarrow>
     (u_Host u = '''' \<or> (u_Opaque u = '''' \<and> (\<exists>a. authority a = Some (u_User u, u_Host u)))) \<and>
     ctl_free (u_RawQuery u)"

lemma setPath_fields:
  "setPath p u = Some v \<Longrightarrow> u_Scheme v = u_Scheme u \<and> u_Opaque v = u_Opaque u \<and> u_User v = u_User u \<and>
     u_Host v = u_Host u \<and> u_RawQuery v = u_RawQuery u"
  by (auto simp: setPath_def split: option.splits)

lemma set_path_fields [simp]:
  "u_Scheme (set_path p u) = u_Scheme u" "u_Opaque (set_path p u) = u_Opaque u" "u_User (set_path p u) = u_User u"
  "u_Host (set_path p u) = u_Host u" "u_RawQuery (set_path p u) = u_RawQuery u"
  by (auto simp: set_path_def dest: setPath_fields split: option.split)

lemma setFragment_fields:
  "setFragment f u = Some v \<Longrightarrow> u_Scheme v = u_Scheme u \<and> u_Opaque v = u_Opaque u \<and> u_User v = u_User u \<and>
     u_Host v = u_Host u \<and> u_RawQuery v = u_RawQuery u"
  by (auto simp: setFragment_def split: option.splits)

lemma parse_rest_parsed:
  assumes "parse_rest authority scheme rest force query = Some u" and "ctl_free query"
  shows "parsed_URL authority u \<and> u_Scheme u = scheme"
  using assms unfolding parse_rest_def Let_def
  by (auto simp: empty_URL_def parsed_URL_def dest!: setPath_fields split: if_split_asm option.split_asm)

lemma cut_at_sub: "cut_at s sep = (a, b) \<Longrightarrow> set a \<subseteq> set s \<and> set b \<subseteq> set s"
  by (auto simp: cut_at_def split: option.splits dest!: Cut_Some)

lemma cut_query_sub: "cut_query s = (a, f, b) \<Longrightarrow> set a \<subseteq> set s \<and> set b \<subseteq> set s"
  using cut_at_sub [of s "''?''" "fst (cut_at s ''?'')" "snd (cut_at s ''?'')"]
  by (simp add: cut_query_def split: if_splits) (auto dest: in_set_butlastD)

lemma get_scheme_rest: "get_scheme raw acc s = Some (sch, rest) \<Longrightarrow> set rest \<subseteq> set raw \<union> set s"
  by (induction raw acc s rule: get_scheme.induct) (auto split: if_splits)

lemma cut_at_hash: "cut_at s [x] = (a, b) \<Longrightarrow> x \<notin> set a"
  by (auto simp: cut_at_def Cut_char split: if_splits dest: set_takeWhileD)

lemma Parse_parsed:
  assumes "Parse authority raw = Some u"
  shows "parsed_URL authority u"
proof -
  obtain body frag where b: "cut_at raw ''#'' = (body, frag)" by (cases "cut_at raw ''#''")
  have cf: "ctl_free body" if "\<not> has_ctl body" using cut_at_hash [OF b] that by (simp add: ctl_free_def)
  have sub: "ctl_free q" if "ctl_free body" "set q \<subseteq> set body" for q
    using that by (auto simp: ctl_free_def has_ctl_def list_ex_iff)
  show ?thesis
  proof (cases "body = ''*''")
    case True
    with assms b show ?thesis
      by (auto simp: Parse_def empty_URL_def parsed_URL_def ctl_free_def has_ctl_def dest!: setFragment_fields
          split: if_splits)
  next
    case False
    with assms b obtain sch rest p f q v where n: "\<not> has_ctl body" and g: "get_scheme body '''' body = Some (sch, rest)"
      and c: "cut_query rest = (p, f, q)" and r: "parse_rest authority (ToLower sch) p f q = Some v"
      and u: "u = v \<or> setFragment frag v = Some u"
      by (auto simp: Parse_def split: if_splits option.splits prod.splits)
    from get_scheme_rest [OF g] cut_query_sub [OF c] have "set q \<subseteq> set body" by auto
    with parse_rest_parsed [OF r] sub cf n have "parsed_URL authority v" by blast
    with u show ?thesis by (auto simp: parsed_URL_def dest!: setFragment_fields)
  qed
qed

lemma parse_rest_scheme: "parse_rest authority s p f q = Some v \<Longrightarrow> u_Scheme v = s"
  by (auto simp: parse_rest_def Let_def empty_URL_def dest!: setPath_fields split: if_split_asm option.split_asm)

lemma Parse_lower:
  assumes "Parse authority raw = Some u"
  shows "\<exists>s. u_Scheme u = ToLower s"
proof -
  have "\<exists>s. u_Scheme v = ToLower s" if "parse_rest authority (ToLower s) p f q = Some v" for s p f q v
    using parse_rest_scheme [OF that] by blast
  moreover have "\<exists>s. '''' = ToLower s" by (rule exI [of _ "''''"]) (simp add: ToLower_def)
  ultimately show ?thesis
    using assms
    by (auto simp: Parse_def empty_URL_def dest!: setFragment_fields split: if_splits option.splits prod.splits)
qed

lemma ResolveReference_parsed:
  assumes "parsed_URL authority base" "parsed_URL authority ref"
  shows "parsed_URL authority (ResolveReference base ref)"
  using assms by (auto simp: ResolveReference_def parsed_URL_def Let_def)

section \<open>Parsing what String wrote\<close>

text \<open>\<open>authority\<close> reads back what \<open>text\<close> writes for a user and a host that it has read.\<close>

definition reads_back ::
  "(string \<Rightarrow> (string option \<times> string) option) \<Rightarrow> (string option \<Rightarrow> string \<Rightarrow> string) \<Rightarrow> bool" where
  "reads_back authority text \<longleftrightarrow>
     (\<forall>a user host. authority a = Some (user, host) \<and> host \<noteq> '''' \<longrightarrow>
        authority (text user host) = Some (user, host) \<and>
        ctl_free (text user host) \<and> CHR ''/'' \<notin> set (text user host) \<and> CHR ''?'' \<notin> set (text user host))"

lemma escape_chars:
  assumes "m \<noteq> encodeQueryComponent"
  shows "c \<in> set (escape m s) \<Longrightarrow> c = CHR ''%'' \<or> is_alpha c \<or> is_digit c \<or> \<not> should_escape m c"
proof (induction s)
  case (Cons x s)
  have "code x div 16 < 16" using code_bound [of x] by (simp add: less_mult_imp_div_less)
  with upper_hex_alnum [of "code x div 16"] upper_hex_alnum [of "code x mod 16"] Cons assms
  show ?case by (auto split: if_splits)
qed simp

definition path_char :: "char \<Rightarrow> bool" where
  "path_char c \<longleftrightarrow> c \<in> set ''!$&()*+,;=:@[]%'' \<or> code c = 39 \<or> is_alpha c \<or> is_digit c \<or> \<not> should_escape encodePath c"

lemma path_char_safe:
  assumes "path_char c"
  shows "c \<noteq> CHR ''?''" "c \<noteq> CHR ''#''" "32 \<le> code c" "code c \<noteq> 127"
proof -
  have low: "c \<notin> set ''-_.~$&+,/:;=?@!()*[]%''" "\<not> is_alpha c" "\<not> is_digit c" if "code c < 32 \<or> code c = 127"
    using that by (auto simp: is_alpha_def is_digit_def)
  then have "\<not> path_char c" if "code c < 32 \<or> code c = 127"
    using that by (auto simp: path_char_def should_escape_def)
  with assms show "32 \<le> code c" "code c \<noteq> 127" by fastforce+
  have "\<not> path_char (CHR ''?'')" "\<not> path_char (CHR ''#'')" by code_simp+
  with assms show "c \<noteq> CHR ''?''" "c \<noteq> CHR ''#''" by blast+
qed

lemma EscapedPath_char: "c \<in> set (EscapedPath u) \<Longrightarrow> path_char c"
proof -
  assume c: "c \<in> set (EscapedPath u)"
  have "path_char c" if "list_all path_char (u_RawPath u)" "c \<in> set (u_RawPath u)"
    using that by (simp add: list_all_iff)
  moreover have "list_all path_char s" if "validEncoded s" for s
    using that unfolding validEncoded_def path_char_def by (rule list.pred_mono_strong) blast
  moreover have "path_char c" if "c \<in> set (escape encodePath (u_Path u))"
  proof -
    have "c = CHR ''%'' \<or> is_alpha c \<or> is_digit c \<or> \<not> should_escape encodePath c"
      using that by (intro escape_chars) simp_all
    moreover have "CHR ''%'' \<in> set ''!$&()*+,;=:@[]%''" by simp
    ultimately show ?thesis unfolding path_char_def by metis
  qed
  moreover have "path_char (CHR ''*'')" by code_simp
  ultimately show ?thesis using c by (simp add: EscapedPath_def split: if_splits)
qed

lemma EscapedPath_text:
  "CHR ''?'' \<notin> set (EscapedPath u)" "ctl_free (EscapedPath u)" "unescape (EscapedPath u) \<noteq> None"
proof -
  show "CHR ''?'' \<notin> set (EscapedPath u)" using EscapedPath_char [of _ u] path_char_safe(1) by blast
  show "ctl_free (EscapedPath u)"
    using EscapedPath_char [of _ u] path_char_safe(2-4) unfolding ctl_free_def has_ctl_def list_ex_iff by (metis not_less)
  show "unescape (EscapedPath u) \<noteq> None"
    using unescape_escape [of encodePath "u_Path u" "[]"] by (auto simp: EscapedPath_def)
qed

lemma EscapedFragment_text: "unescape (EscapedFragment u) \<noteq> None"
  using unescape_escape [of encodeFragment "u_Fragment u" "[]"] by (auto simp: EscapedFragment_def)

lemma ctl_free_append [simp]: "ctl_free (a @ b) \<longleftrightarrow> ctl_free a \<and> ctl_free b"
  by (auto simp: ctl_free_def has_ctl_def)

lemma cut_at_mark: "x \<notin> set a \<Longrightarrow> cut_at (a @ x # b) [x] = (a, b)"
  by (simp add: cut_at_def Cut_char takeWhile_append dropWhile_append)

lemma cut_query_mark:
  assumes "CHR ''?'' \<notin> set a"
  shows "\<exists>f. cut_query (a @ CHR ''?'' # q) = (a, f, q)"
proof (cases "q = []")
  case True
  with assms have "cut_query (a @ CHR ''?'' # q) = (a, True, q)"
    by (simp add: cut_query_def HasSuffix_iff butlast_append)
  then show ?thesis ..
next
  case False
  then have "\<not> (HasSuffix (a @ CHR ''?'' # q) ''?'' \<and> CHR ''?'' \<notin> set (butlast (a @ CHR ''?'' # q)))"
    by (simp add: butlast_append)
  then have "cut_query (a @ CHR ''?'' # q) = (a, False, q)"
    by (simp only: cut_query_def if_False cut_at_mark [OF assms] fst_conv snd_conv)
  then show ?thesis ..
qed

text \<open>The schemes in use.\<close>

definition web_scheme :: "string \<Rightarrow> bool" where
  "web_scheme s \<longleftrightarrow> s \<in> set [''http'', ''https'', ''ws'', ''wss'']"

lemma web_schemeE:
  assumes "web_scheme s"
  obtains "s = ''http''" | "s = ''https''" | "s = ''ws''" | "s = ''wss''"
  using assms by (auto simp: web_scheme_def)

lemma web_scheme_http [simp]:
  "web_scheme ''http''" "web_scheme ''https''" "web_scheme ''ws''" "web_scheme ''wss''"
  by (simp_all add: web_scheme_def)

lemma web_scheme_text: "web_scheme s \<Longrightarrow> s \<noteq> '''' \<and> ctl_free s"
  by (erule web_schemeE) (simp_all add: ctl_free_def has_ctl_def)

lemma get_scheme_http:
  "web_scheme s \<Longrightarrow> get_scheme raw '''' (s @ '':'' @ rest) = Some (s, rest)"
  by (erule web_schemeE) (simp_all add: is_alpha_def is_digit_def)

lemma ToLower_http: "web_scheme s \<Longrightarrow> ToLower s = s"
  by (erule web_schemeE) (simp_all add: ToLower_def ascii_lower_def)

lemma unescape_slash: "unescape s \<noteq> None \<Longrightarrow> unescape (CHR ''/'' # s) \<noteq> None"
  by auto

lemma split_slash:
  assumes a: "CHR ''/'' \<notin> set a" and p: "p = '''' \<or> HasPrefix p ''/''"
  shows "takeWhile (\<lambda>c. c \<noteq> CHR ''/'') (a @ p) = a" "dropWhile (\<lambda>c. c \<noteq> CHR ''/'') (a @ p) = p"
proof -
  have al: "\<And>x. x \<in> set a \<Longrightarrow> x \<noteq> CHR ''/''" using a by metis
  have "takeWhile (\<lambda>c. c \<noteq> CHR ''/'') p = ''''" "dropWhile (\<lambda>c. c \<noteq> CHR ''/'') p = p"
    using p by (cases p; simp add: HasPrefix_def)+
  with takeWhile_append2 [of a "\<lambda>c. c \<noteq> CHR ''/''" p] dropWhile_append2 [of a "\<lambda>c. c \<noteq> CHR ''/''" p] al
  show "takeWhile (\<lambda>c. c \<noteq> CHR ''/'') (a @ p) = a" "dropWhile (\<lambda>c. c \<noteq> CHR ''/'') (a @ p) = p"
    by simp_all
qed

lemma parse_rest_host:
  assumes "s \<noteq> ''''" "authority (takeWhile (\<lambda>c. c \<noteq> CHR ''/'') r) = Some (user, host)"
    "unescape (dropWhile (\<lambda>c. c \<noteq> CHR ''/'') r) \<noteq> None"
  shows "\<exists>v. parse_rest authority s (''//'' @ r) force q = Some v \<and>
      u_Scheme v = s \<and> u_Opaque v = '''' \<and> u_User v = user \<and> u_Host v = host \<and> u_RawQuery v = q"
proof -
  have "HasPrefix (''//'' @ r) ''/''" "HasPrefix (''//'' @ r) ''//''" "drop 2 (''//'' @ r) = r"
    by (simp_all add: HasPrefix_def)
  moreover obtain path where "unescape (dropWhile (\<lambda>c. c \<noteq> CHR ''/'') r) = Some path" using assms(3) by blast
  ultimately show ?thesis
    using assms(1,2) by (simp only: parse_rest_def Let_def setPath_def) (simp add: empty_URL_def)
qed

text \<open>An absolute HTTP URL is read back with its scheme, user and host.\<close>

lemma Parse_body:
  assumes s: "web_scheme s" and a: "authority a = Some (user, host)"
    and c: "CHR ''/'' \<notin> set a" "CHR ''?'' \<notin> set (a @ p)" "ctl_free (a @ p @ q)"
    and p: "p = '''' \<or> HasPrefix p ''/''" "unescape p \<noteq> None"
    and q: "q = '''' \<or> HasPrefix q ''?''" and f: "unescape frag \<noteq> None"
  shows "\<exists>v. Parse authority (s @ '':'' @ ''//'' @ a @ p @ q @ (if b then ''#'' @ frag else '''')) = Some v \<and>
    u_Scheme v = s \<and> u_Opaque v = '''' \<and> u_User v = user \<and> u_Host v = host \<and> u_RawQuery v = drop 1 q"
proof -
  let ?rest = "''//'' @ a @ p @ q" and ?body = "s @ '':'' @ ''//'' @ a @ p @ q"
  have cf: "ctl_free ?body" using web_scheme_text [OF s] c(3) by (auto simp: ctl_free_def has_ctl_def)
  have cut: "cut_at (?body @ (if b then ''#'' @ frag else '''')) ''#'' = (?body, if b then frag else '''')"
    using cf cut_at_mark [of "CHR ''#''" ?body frag] cut_at_absent [of "CHR ''#''" ?body]
    by (simp add: ctl_free_def)
  have np: "CHR ''?'' \<notin> set (''//'' @ a @ p)" using c(2) by simp
  obtain force where cq: "cut_query ?rest = (''//'' @ a @ p, force, drop 1 q)"
  proof (cases "q = ''''")
    case True
    then show ?thesis using cut_query_absent [OF np] that [of False] True by simp
  next
    case False
    with q obtain q1 where "q = CHR ''?'' # q1" by (auto simp: HasPrefix_iff)
    then show ?thesis using cut_query_mark [OF np, of q1] that by auto
  qed
  have tk: "takeWhile (\<lambda>c. c \<noteq> CHR ''/'') (a @ p) = a" "dropWhile (\<lambda>c. c \<noteq> CHR ''/'') (a @ p) = p"
    by (rule split_slash [OF c(1) p(1)])+
  have r: "\<exists>v. parse_rest authority s (''//'' @ a @ p) force (drop 1 q) = Some v \<and>
      u_Scheme v = s \<and> u_Opaque v = '''' \<and> u_User v = user \<and> u_Host v = host \<and> u_RawQuery v = drop 1 q"
  proof (rule parse_rest_host)
    show "s \<noteq> ''''" using web_scheme_text [OF s] by simp
  qed (use a tk p(2) in simp_all)
  then obtain v where v: "parse_rest authority s (''//'' @ a @ p) force (drop 1 q) = Some v"
    "u_Scheme v = s" "u_Opaque v = ''''" "u_User v = user" "u_Host v = host" "u_RawQuery v = drop 1 q" by blast
  have g: "get_scheme ?body '''' ?body = Some (s, ?rest)" by (rule get_scheme_http [OF s])
  have "?body \<noteq> ''*''" using s by (auto elim: web_schemeE)
  then have P: "Parse authority (?body @ (if b then ''#'' @ frag else '''')) =
      (if \<not> b \<or> frag = '''' then Some v else setFragment frag v)"
    using cf by (simp only: Parse_def cut g cq ToLower_http [OF s] v(1) prod.case option.case) (simp add: ctl_free_def)
  have "\<exists>w. (if \<not> b \<or> frag = '''' then Some v else setFragment frag v) = Some w \<and> u_Scheme w = s \<and> u_Opaque w = '''' \<and> u_User w = user \<and> u_Host w = host \<and> u_RawQuery w = drop 1 q"
    using f v(2-) by (auto simp: setFragment_def)
  with P show ?thesis by simp
qed

lemma Parse_URL_String:
  assumes law: "reads_back authority text" and u: "parsed_URL authority u"
    and s: "web_scheme (u_Scheme u)" and o: "u_Opaque u = ''''" and h: "u_Host u \<noteq> ''''"
  shows "\<exists>v. Parse authority (URL_String text u) = Some v \<and> u_Scheme v = u_Scheme u \<and> u_Opaque v = '''' \<and>
    u_User v = u_User u \<and> u_Host v = u_Host u \<and> u_RawQuery v = u_RawQuery u"
proof -
  let ?a = "text (u_User u) (u_Host u)"
  let ?p = "(if EscapedPath u \<noteq> '''' \<and> \<not> HasPrefix (EscapedPath u) ''/'' then ''/'' else '''') @ EscapedPath u"
  let ?q = "if u_ForceQuery u \<or> u_RawQuery u \<noteq> '''' then ''?'' @ u_RawQuery u else ''''"
  from u h obtain a where "authority a = Some (u_User u, u_Host u)" by (auto simp: parsed_URL_def)
  with law h have a: "authority ?a = Some (u_User u, u_Host u)" "ctl_free ?a" "CHR ''/'' \<notin> set ?a" "CHR ''?'' \<notin> set ?a"
    by (auto simp: reads_back_def)
  have e: "URL_String text u = u_Scheme u @ '':'' @ ''//'' @ ?a @ ?p @ ?q @ (if u_Fragment u \<noteq> '''' then ''#'' @ EscapedFragment u else '''')"
    using web_scheme_text [OF s] o h by (auto simp: URL_String_def String_head_def Let_def)
  have "ctl_free ?q" using u by (simp add: parsed_URL_def ctl_free_def has_ctl_def)
  moreover have "ctl_free ?p" using EscapedPath_text(2) [of u] by (simp add: ctl_free_def has_ctl_def)
  ultimately have c: "ctl_free (?a @ ?p @ ?q)" using a(2) by simp
  have q: "CHR ''?'' \<notin> set (?a @ ?p)" using a(4) EscapedPath_text(1) [of u] by simp
  have p: "?p = '''' \<or> HasPrefix ?p ''/''" "unescape ?p \<noteq> None"
    using EscapedPath_text(3) [of u] unescape_slash by (auto simp: HasPrefix_iff)
  have qm: "?q = '''' \<or> HasPrefix ?q ''?''" by (simp add: HasPrefix_def)
  have dq: "drop 1 ?q = u_RawQuery u" by simp
  note body = Parse_body [where authority = authority and a = ?a and b = "u_Fragment u \<noteq> ''''"]
  have "\<exists>v. Parse authority (URL_String text u) = Some v \<and> u_Scheme v = u_Scheme u \<and> u_Opaque v = '''' \<and>
      u_User v = u_User u \<and> u_Host v = u_Host u \<and> u_RawQuery v = drop 1 ?q"
    unfolding e by (rule body [OF s a(1) a(3) q c]) (rule p qm EscapedFragment_text)+
  then show ?thesis by (simp only: dq)
qed

section \<open>Queries are read back\<close>

lemma should_escape_query: "should_escape encodeQueryComponent c \<longleftrightarrow> \<not> (is_alpha c \<or> is_digit c \<or> c \<in> set ''-_.~'')"
  by (simp add: should_escape_def)

definition query_char :: "char \<Rightarrow> bool" where
  "query_char c \<longleftrightarrow> c = CHR ''%'' \<or> c = CHR ''+'' \<or> is_alpha c \<or> is_digit c \<or> c \<in> set ''-_.~''"

lemma QueryEscape_chars: "c \<in> set (QueryEscape s) \<Longrightarrow> query_char c"
  unfolding QueryEscape_def
proof (induction s)
  case (Cons x s)
  have "code x div 16 < 16" using code_bound [of x] by (simp add: less_mult_imp_div_less)
  with upper_hex_alnum [of "code x div 16"] upper_hex_alnum [of "code x mod 16"]
  have h: "query_char (upper_hex (code x div 16))" "query_char (upper_hex (code x mod 16))" "query_char (CHR ''%'')" "query_char (CHR ''+'')"
    by (auto simp: query_char_def)
  have "query_char x" if "\<not> should_escape encodeQueryComponent x"
    using that unfolding should_escape_query query_char_def by blast
  with Cons h show ?case by (auto split: if_splits)
qed simp

lemma query_char_safe:
  assumes "query_char c"
  shows "c \<noteq> CHR ''#''" "c \<noteq> CHR ''&''" "c \<noteq> CHR '';''" "c \<noteq> CHR ''=''" "32 \<le> code c" "code c \<noteq> 127"
proof -
  have "\<not> query_char (CHR ''#'')" "\<not> query_char (CHR ''&'')" "\<not> query_char (CHR '';'')" "\<not> query_char (CHR ''='')"
    by code_simp+
  with assms show "c \<noteq> CHR ''#''" "c \<noteq> CHR ''&''" "c \<noteq> CHR '';''" "c \<noteq> CHR ''=''" by blast+
  show "32 \<le> code c" "code c \<noteq> 127"
    using assms by (auto simp: query_char_def is_alpha_def is_digit_def)
qed

lemma QueryEscape_safe:
  "CHR ''&'' \<notin> set (QueryEscape s)" "CHR '';'' \<notin> set (QueryEscape s)" "CHR ''='' \<notin> set (QueryEscape s)" "ctl_free (QueryEscape s)"
proof -
  note safe = query_char_safe [OF QueryEscape_chars [of _ s]]
  show "CHR ''&'' \<notin> set (QueryEscape s)" "CHR '';'' \<notin> set (QueryEscape s)" "CHR ''='' \<notin> set (QueryEscape s)"
    using safe(2-4) by blast+
  show "ctl_free (QueryEscape s)"
    unfolding ctl_free_def has_ctl_def list_ex_iff using safe(1,5,6) by (metis not_less)
qed

lemma QueryUnescape_Escape: "QueryUnescape (QueryEscape s) = Some s"
  unfolding QueryUnescape_def QueryEscape_def
proof (induction s)
  case (Cons c s)
  let ?plus = "\<lambda>c. if c = CHR ''+'' then CHR '' '' else c"
  have c: "char_of (16 * (code c div 16) + code c mod 16) = c" by (simp add: mult.commute)
  have d: "code c div 16 < 16" using code_bound [of c] by (simp add: less_mult_imp_div_less)
  have p: "?plus (upper_hex n) = upper_hex n" if "n < 16" for n
    using upper_hex_alnum [OF that] by (auto simp: is_alpha_def is_digit_def)
  show ?case
  proof (cases "should_escape encodeQueryComponent c")
    case True
    show ?thesis
    proof (cases "c = CHR '' ''")
      case True
      with Cons show ?thesis by simp
    next
      case False
      have "unescape (map ?plus (escape encodeQueryComponent (c # s))) =
          unescape (CHR ''%'' # upper_hex (code c div 16) # upper_hex (code c mod 16) # map ?plus (escape encodeQueryComponent s))"
        using True False p [OF d] p [of "code c mod 16"] by simp
      also have "\<dots> = map_option ((#) c) (unescape (map ?plus (escape encodeQueryComponent s)))"
        using hex_value_upper [OF d] hex_value_upper [of "code c mod 16"] c by simp
      finally show ?thesis using Cons by simp
    qed
  next
    case False
    then have "c \<noteq> CHR ''+''" "c \<noteq> CHR ''%''" "c \<noteq> CHR '' ''"
      unfolding should_escape_query by (auto simp: is_alpha_def is_digit_def)
    with False Cons show ?thesis by simp
  qed
qed simp

lemma parse_encoded_pair: "parse_pair (QueryEscape k @ ''='' @ QueryEscape v) m = values_add k v m"
  using QueryEscape_safe [of k] QueryEscape_safe [of v] cut_at_mark [of "CHR ''=''" "QueryEscape k" "QueryEscape v"]
  by (simp add: parse_pair_def QueryUnescape_Escape)

lemma values_add_get: "map_get [] (values_add k v m) k' = (if k' = k then map_get [] m k @ [v] else map_get [] m k')"
  by (simp add: values_add_def map_get_update)

lemma fold_values_get:
  "map_get [] (fold (\<lambda>(k, v). values_add k v) ps m) k = map_get [] m k @ map snd (filter (\<lambda>p. fst p = k) ps)"
  by (induction ps arbitrary: m) (auto simp: values_add_get)

lemma filter_pairs:
  "distinct keys \<Longrightarrow> map snd (filter (\<lambda>p. fst p = k) (concat (map (\<lambda>k. map (Pair k) (f k)) keys))) =
     (if k \<in> set keys then f k else [])"
proof (induction keys)
  case (Cons a keys)
  then show ?case by (cases "a = k") (auto simp: filter_map comp_def)
qed simp

text \<open>Reading back what \<open>Encode\<close> wrote gives the values of every key.\<close>

lemma Query_Encode:
  assumes "is_gomap m"
  shows "map_get [] (Query (u\<lparr>u_RawQuery := Encode m\<rparr>)) k = map_get [] m k"
proof -
  define keys where "keys = sort_strings (keys_of m)"
  define ps where "ps = concat (map (\<lambda>k. map (Pair k) (map_get [] m k)) keys)"
  let ?enc = "\<lambda>(k, v). QueryEscape k @ ''='' @ QueryEscape v"
  have d: "distinct keys" "set keys = set (keys_of m)"
    using assms mset_eq_imp_distinct_iff [OF mset_sort_strings, of "keys_of m"] by (simp_all add: keys_def)
  have e: "Encode m = Join (map ?enc ps) ''&''"
    by (simp add: Encode_def keys_def ps_def map_concat comp_def)
  have q: "Query (u\<lparr>u_RawQuery := Encode m\<rparr>) = fold (\<lambda>(k, v). values_add k v) ps []"
  proof (cases "ps = []")
    case True
    then show ?thesis by (simp add: Query_def e Split_one parse_pair_def)
  next
    case False
    have "\<forall>t \<in> set (map ?enc ps). CHR ''&'' \<notin> set t" using QueryEscape_safe(1) by auto
    with False have "Split (Join (map ?enc ps) ''&'') ''&'' = map ?enc ps" by (intro Split_Join) simp_all
    moreover have "fold parse_pair (map ?enc qs) a = fold (\<lambda>(k, v). values_add k v) qs a" for qs a
      by (induction qs arbitrary: a) (auto simp: parse_encoded_pair simp del: append_Cons append.simps)
    ultimately show ?thesis by (simp add: Query_def e)
  qed
  have "map_of m k = None" if "k \<notin> set keys"
    using that d(2) by (simp add: map_of_eq_None_iff)
  then have "map_get [] m k = []" if "k \<notin> set keys"
    using that by (simp add: map_get_def)
  then show ?thesis
    unfolding q fold_values_get using filter_pairs [OF d(1), of k "map_get [] m"] by (simp add: ps_def)
qed

end
