(* ===== verification/Api_Client.thy ===== *)
theory Api_Client
  imports Go_Url_Text LB_Prelude
begin

text \<open>
  The client of the control-plane API (\<open>internal/rancherclient/v2/common.go\<close>): the origin every
  request is confined to, redirects, and the operations on resources that the schemas allow.

  The parameter \<open>env\<close> holds the parts of Go's library that are not modelled (the parsers of
  authorities and addresses, one exchange of the HTTP transport) and the JSON decoders. Requests are
  recorded in the state \<open>api_io\<close>. A result \<open>None\<close> of an operation is a panic: the options of a client
  that was not set up are dereferenced.
\<close>

section \<open>Errors\<close>

record ApiError =
  ar_StatusCode :: int
  ar_Url :: string
  ar_Msg :: string
  ar_Status :: string
  ar_Body :: string

text \<open>\<open>UrlErr\<close> is \<open>url.Error\<close> (operation, URL, cause), \<open>WrapErr\<close> a message with \<open>%w\<close>.\<close>

datatype api_error =
    ApiErr ApiError
  | UrlErr string string api_error
  | WrapErr string "string list" api_error
  | PlainErr string "string list"

type_synonym 'a api_result = "api_error + 'a"

definition IsNotFound :: "api_error option \<Rightarrow> bool" where
  "IsNotFound err = (case err of Some (ApiErr e) \<Rightarrow> ar_StatusCode e = 404 | _ \<Rightarrow> False)"

text \<open>\<open>errors.As\<close> looks along the chain of causes.\<close>

fun as_ApiError :: "api_error \<Rightarrow> ApiError option" where
  "as_ApiError (ApiErr e) = Some e"
| "as_ApiError (UrlErr op url e) = as_ApiError e"
| "as_ApiError (WrapErr fmt args e) = as_ApiError e"
| "as_ApiError (PlainErr fmt args) = None"

text \<open>\<open>render\<close> is the text of an error. No API error is in the chain when a cause is summarized.\<close>

fun summary_of :: "(api_error \<Rightarrow> string) \<Rightarrow> api_error \<Rightarrow> api_error \<Rightarrow> string" where
  "summary_of render e (UrlErr op url c) = op @ '': '' @ summary_of render c c"
| "summary_of render e (WrapErr fmt args c) = summary_of render e c"
| "summary_of render e (ApiErr a) = render e"
| "summary_of render e (PlainErr fmt args) = render e"

definition ErrorSummary :: "(api_error \<Rightarrow> string) \<Rightarrow> api_error option \<Rightarrow> string" where
  "ErrorSummary render err =
     (case err of
        None \<Rightarrow> ''''
      | Some e \<Rightarrow>
          (case as_ApiError e of
             Some a \<Rightarrow> ''HTTP status='' @ Itoa (ar_StatusCode a) @ '' '' @ ar_Status a
           | None \<Rightarrow> summary_of render e e))"

section \<open>Requests and environment\<close>

record ClientOpts =
  co_Url :: string
  co_AccessKey :: string
  co_SecretKey :: string
  co_Timeout :: int

record api_request =
  rq_Method :: string
  rq_Url :: URL
  rq_Header :: "(string, string) gomap"
  rq_Body :: "string option"
  rq_Timeout :: int

record api_response =
  rs_StatusCode :: int
  rs_Status :: string
  rs_Location :: string
  rs_Schemas :: string
  rs_Body :: string
  rs_BodyErr :: "api_error option"

record Resource =
  res_Id :: string
  res_Type :: string
  res_Links :: "(string, string) gomap"
  res_Actions :: "(string, string) gomap"

text \<open>A schema: the fields that the client reads.\<close>

record Schema = Resource +
  sm_PluralName :: string
  sm_ResourceMethods :: "string list"
  sm_CollectionMethods :: "string list"

text \<open>
  \<open>ap_errorData\<close> gives the entries of a JSON object in the order in which Go visits the map, with
  the value as \<open>%v\<close> prints it (\<open>None\<close>: nil); \<open>ap_defaultTimeout\<close> is the value of \<open>defaultTimeout()\<close>.
\<close>

record 'w api_env =
  ap_authority :: "string \<Rightarrow> (string option \<times> string) option"
  ap_hostText :: "string option \<Rightarrow> string \<Rightarrow> string"
  ap_parseAddr :: "string \<Rightarrow> string option"
  ap_exchange :: "api_request \<Rightarrow> 'w \<Rightarrow> api_response api_result \<times> 'w"
  ap_errorData :: "string \<Rightarrow> (string \<times> string option) list option"
  ap_schemas :: "string \<Rightarrow> Schema list option"
  ap_defaultTimeout :: int

record 'w api_io =
  ax_world :: 'w
  ax_sent :: "api_request list"

definition parse_url :: "'w api_env \<Rightarrow> string \<Rightarrow> URL api_result" where
  "parse_url env s = (case Parse (ap_authority env) s of
     None \<Rightarrow> Inl (UrlErr ''parse'' s (PlainErr ''invalid URL'' [])) | Some u \<Rightarrow> Inr u)"

abbreviation url_text :: "'w api_env \<Rightarrow> URL \<Rightarrow> string" where
  "url_text env u \<equiv> URL_String (ap_hostText env) u"

definition newApiError :: "'w api_env \<Rightarrow> api_response \<Rightarrow> string \<Rightarrow> api_error" where
  "newApiError env resp url =
     (let body = (case ap_errorData env (rs_Body resp) of
            None \<Rightarrow> (if rs_BodyErr resp \<noteq> None then ''Unreadable body.'' else rs_Body resp)
          | Some data \<Rightarrow>
              Join (concat (map (\<lambda>(k, v). case v of
                  Some t \<Rightarrow> (if k \<in> set [''id'', ''links'', ''actions'', ''type'', ''status''] then [] else [k @ ''='' @ t])
                | None \<Rightarrow> []) data)) '', '')
      in ApiErr \<lparr>ar_StatusCode = rs_StatusCode resp, ar_Url = url,
           ar_Msg = ''Bad response statusCode ['' @ Itoa (rs_StatusCode resp) @ '']. Status ['' @ rs_Status resp @
             '']. Body: ['' @ body @ ''] from ['' @ url @ '']'',
           ar_Status = rs_Status resp, ar_Body = body\<rparr>)"

section \<open>Addresses\<close>

text \<open>The value of a filter: a list of texts, or the text of another value.\<close>

datatype filter_value = FilterList "string list" | FilterText string

fun add_filter :: "string \<times> filter_value \<Rightarrow> url_values \<Rightarrow> url_values" where
  "add_filter (k, FilterList vs) q = fold (values_add k) vs q"
| "add_filter (k, FilterText v) q = values_add k v q"

definition appendFilters :: "'w api_env \<Rightarrow> string \<Rightarrow> (string, filter_value) gomap \<Rightarrow> string api_result" where
  "appendFilters env urlString filters =
     (if filters = [] then Inr urlString
      else case parse_url env urlString of
        Inl e \<Rightarrow> Inl e
      | Inr u \<Rightarrow> Inr (url_text env (u\<lparr>u_RawQuery := Encode (fold add_filter filters (Query u))\<rparr>)))"

definition NormalizeUrl :: "'w api_env \<Rightarrow> string \<Rightarrow> string api_result" where
  "NormalizeUrl env existingUrl =
     (case parse_url env existingUrl of
        Inl e \<Rightarrow> Inl e
      | Inr u \<Rightarrow>
          Inr (url_text env
            (if u_Path u = '''' \<or> u_Path u = ''/'' then u\<lparr>u_Path := ''v2-beta''\<rparr>
             else if u_Path u = ''/v1'' \<or> HasPrefix (u_Path u) ''/v1/''
             then u\<lparr>u_Path := ''/v2-beta'' @ drop 3 (u_Path u)\<rparr> else u)))"

text \<open>\<open>redacted\<close> is the URL with its password replaced.\<close>

definition safeURLForLog :: "'w api_env \<Rightarrow> (URL \<Rightarrow> URL) \<Rightarrow> string \<Rightarrow> string" where
  "safeURLForLog env redacted value =
     (case parse_url env value of
        Inl _ \<Rightarrow> ''[invalid URL]''
      | Inr u \<Rightarrow> url_text env (redacted (u\<lparr>u_RawQuery := '''', u_Fragment := ''''\<rparr>)))"

record requestOrigin =
  ro_root :: URL
  ro_scheme :: string
  ro_host :: string
  ro_port :: string

definition zero_origin :: requestOrigin where
  "zero_origin = \<lparr>ro_root = empty_URL, ro_scheme = '''', ro_host = '''', ro_port = ''''\<rparr>"

definition originParts :: "'w api_env \<Rightarrow> URL \<Rightarrow> (string \<times> string \<times> string) api_result" where
  "originParts env u =
     (let scheme = ToLower (u_Scheme u);
          host = (case ap_parseAddr env (Hostname u) of
                    Some ip \<Rightarrow> ip
                  | None \<Rightarrow> if CHR '':'' \<notin> set (Hostname u) then ToLower (Hostname u) else Hostname u)
      in if (scheme \<noteq> ''http'' \<and> scheme \<noteq> ''https'') \<or> host = '''' \<or> u_Opaque u \<noteq> ''''
         then Inl (PlainErr ''control-plane URL must be absolute HTTP or HTTPS'' [])
         else if Port u = '''' then Inr (scheme, host, if scheme = ''https'' then ''443'' else ''80'')
         else if dec_value (Port u) < 65536 then Inr (scheme, host, Itoa (dec_value (Port u)))
         else Inl (PlainErr ''invalid control-plane URL port'' []))"

definition newRequestOrigin :: "'w api_env \<Rightarrow> string \<Rightarrow> requestOrigin api_result" where
  "newRequestOrigin env root =
     (case parse_url env root of
        Inl e \<Rightarrow> Inl e
      | Inr u \<Rightarrow>
          (case originParts env u of
             Inl e \<Rightarrow> Inl e
           | Inr (scheme, host, port) \<Rightarrow>
               Inr \<lparr>ro_root = u\<lparr>u_Scheme := scheme\<rparr>, ro_scheme = scheme, ro_host = host, ro_port = port\<rparr>))"

definition resolve :: "'w api_env \<Rightarrow> requestOrigin \<Rightarrow> string \<Rightarrow> URL api_result" where
  "resolve env origin value =
     (if ro_scheme origin = '''' then Inl (PlainErr ''control-plane origin is not initialized'' [])
      else case parse_url env value of
        Inl e \<Rightarrow> Inl e
      | Inr ref \<Rightarrow>
          (let u = ResolveReference (ro_root origin) ref in
           case originParts env u of
             Inl e \<Rightarrow> Inl e
           | Inr (scheme, host, port) \<Rightarrow>
               if scheme \<noteq> ro_scheme origin \<or> host \<noteq> ro_host origin \<or> port \<noteq> ro_port origin
               then Inl (PlainErr ''cross-origin control-plane URL blocked'' [])
               else Inr (u\<lparr>u_Scheme := scheme\<rparr>)))"

section \<open>The HTTP client\<close>

abbreviation (input) "auth_header \<equiv> ''Authorization''"

text \<open>\<open>CheckRedirect\<close> of the client for an origin: the request that may be sent.\<close>

definition client_check_redirect ::
  "'w api_env \<Rightarrow> requestOrigin \<Rightarrow> api_request \<Rightarrow> api_request list \<Rightarrow> api_request api_result" where
  "client_check_redirect env origin req via =
     (let r = req\<lparr>rq_Header := AList.delete auth_header (rq_Header req)\<rparr> in
      if length via \<ge> 10 then Inl (PlainErr ''stopped after 10 redirects'' [])
      else case resolve env origin (url_text env (rq_Url r)) of
        Inl _ \<Rightarrow> Inl (PlainErr ''cross-origin redirect blocked'' [])
      | Inr _ \<Rightarrow>
          Inr (if via \<noteq> []
               then r\<lparr>rq_Header := AList.update auth_header (map_get '''' (rq_Header (hd via)) auth_header) (rq_Header r)\<rparr>
               else r))"

text \<open>
  \<open>http.Client.Do\<close>: the transport takes HTTP and HTTPS URLs with a host; a redirect answer with a
  location gives the next request, whose other headers are those of the first.
\<close>

definition round_trip :: "'w api_env \<Rightarrow> api_request \<Rightarrow> 'w api_io \<Rightarrow> api_response api_result \<times> 'w api_io" where
  "round_trip env req io =
     (if (u_Scheme (rq_Url req) \<noteq> ''http'' \<and> u_Scheme (rq_Url req) \<noteq> ''https'') \<or> u_Host (rq_Url req) = ''''
      then (Inl (PlainErr ''unsupported protocol scheme or no host'' []), io)
      else case ap_exchange env req (ax_world io) of
        (r, w) \<Rightarrow> (r, \<lparr>ax_world = w, ax_sent = ax_sent io @ [req]\<rparr>))"

definition redirect_behavior :: "string \<Rightarrow> int \<Rightarrow> (string \<times> bool) option" where
  "redirect_behavior reqMethod status =
     (if status = 301 \<or> status = 302 \<or> status = 303
      then Some (if reqMethod \<noteq> ''GET'' \<and> reqMethod \<noteq> ''HEAD'' then ''GET'' else reqMethod, False)
      else if status = 307 \<or> status = 308 then Some (reqMethod, True) else None)"

definition next_request :: "'w api_env \<Rightarrow> api_request \<Rightarrow> api_response \<Rightarrow> api_request option api_result" where
  "next_request env req resp =
     (case redirect_behavior (rq_Method req) (rs_StatusCode resp) of
        None \<Rightarrow> Inr None
      | Some (m, withBody) \<Rightarrow>
          if rs_Location resp = '''' then Inr None
          else case Parse (ap_authority env) (rs_Location resp) of
            None \<Rightarrow> Inl (PlainErr ''failed to parse Location header %q'' [rs_Location resp])
          | Some loc \<Rightarrow>
              Inr (Some (req\<lparr>rq_Method := m, rq_Url := ResolveReference (rq_Url req) loc,
                rq_Body := (if withBody then rq_Body req else None)\<rparr>)))"

function do_loop ::
  "'w api_env \<Rightarrow> requestOrigin \<Rightarrow> api_request list \<Rightarrow> api_request \<Rightarrow> 'w api_io \<Rightarrow> api_response api_result \<times> 'w api_io" where
  "do_loop env origin via req io =
     (case round_trip env req io of
        (Inl e, io1) \<Rightarrow> (Inl e, io1)
      | (Inr resp, io1) \<Rightarrow>
          (case next_request env req resp of
             Inl e \<Rightarrow> (Inl e, io1)
           | Inr None \<Rightarrow> (Inr resp, io1)
           | Inr (Some req1) \<Rightarrow>
               (case client_check_redirect env origin req1 (via @ [req]) of
                  Inl e \<Rightarrow> (Inl e, io1)
                | Inr req2 \<Rightarrow> do_loop env origin (via @ [req]) req2 io1)))"
  by pat_completeness auto
termination
  by (relation "measure (\<lambda>(env, origin, via, req, io). 11 - length via)")
    (auto simp: client_check_redirect_def Let_def split: if_splits)

declare do_loop.simps [simp del]

definition url_op :: "string \<Rightarrow> string" where
  "url_op m = take 1 m @ ToLower (drop 1 m)"

definition client_Do ::
  "'w api_env \<Rightarrow> requestOrigin \<Rightarrow> api_request \<Rightarrow> 'w api_io \<Rightarrow> api_response api_result \<times> 'w api_io" where
  "client_Do env origin req io =
     (case do_loop env origin [] req io of
        (Inl e, io1) \<Rightarrow> (Inl (UrlErr (url_op (rq_Method req)) (url_text env (rq_Url req)) e), io1)
      | (Inr resp, io1) \<Rightarrow> (Inr resp, io1))"

section \<open>The base client\<close>

record base_client =
  bc_Opts :: "ClientOpts option"
  bc_Schemas :: "Schema list option"
  bc_Types :: "(string, Schema) gomap"
  bc_origin :: requestOrigin

definition new_base_client :: base_client where
  "new_base_client = \<lparr>bc_Opts = None, bc_Schemas = None, bc_Types = [], bc_origin = zero_origin\<rparr>"

text \<open>Base64 of bytes, and the header that \<open>SetBasicAuth\<close> sets.\<close>

definition base64_char :: "nat \<Rightarrow> char" where
  "base64_char n =
     (if n < 26 then char_of (65 + n) else if n < 52 then char_of (71 + n) else if n < 62 then char_of (n - 4)
      else if n = 62 then CHR ''+'' else CHR ''/'')"

fun base64 :: "string \<Rightarrow> string" where
  "base64 [] = []"
| "base64 [a] = [base64_char (code a div 4), base64_char (code a mod 4 * 16), CHR ''='', CHR ''='']"
| "base64 [a, b] = [base64_char (code a div 4), base64_char (code a mod 4 * 16 + code b div 16),
     base64_char (code b mod 16 * 4), CHR ''='']"
| "base64 (a # b # c # cs) = base64_char (code a div 4) # base64_char (code a mod 4 * 16 + code b div 16) #
     base64_char (code b mod 16 * 4 + code c div 64) # base64_char (code c mod 64) # base64 cs"

definition basic_auth :: "ClientOpts \<Rightarrow> string" where
  "basic_auth opts = ''Basic '' @ base64 (co_AccessKey opts @ '':'' @ co_SecretKey opts)"

text \<open>\<open>newHttpClient\<close>: the timeout of the client it makes; \<open>None\<close> where nil options are dereferenced.\<close>

definition newHttpClient :: "'w api_env \<Rightarrow> base_client \<Rightarrow> int option" where
  "newHttpClient env c =
     map_option (\<lambda>opts. if co_Timeout opts = 0 then 1000000000 * ap_defaultTimeout env else co_Timeout opts) (bc_Opts c)"

definition newRequest ::
  "'w api_env \<Rightarrow> base_client \<Rightarrow> int \<Rightarrow> string \<Rightarrow> string \<Rightarrow> string option \<Rightarrow> api_request api_result" where
  "newRequest env c timeout httpMethod value body =
     (case resolve env (bc_origin c) value of
        Inl e \<Rightarrow> Inl e
      | Inr u \<Rightarrow>
          (case bc_Opts c of
             None \<Rightarrow> Inl (PlainErr ''control-plane credentials are not initialized'' [])
           | Some opts \<Rightarrow>
               (case parse_url env (url_text env u) of
                  Inl e \<Rightarrow> Inl e
                | Inr v \<Rightarrow> Inr \<lparr>rq_Method = httpMethod, rq_Url = v, rq_Header = [(auth_header, basic_auth opts)],
                    rq_Body = body, rq_Timeout = timeout\<rparr>)))"

text \<open>A request through a new client: \<open>headers\<close> are set before it is sent.\<close>

definition send_request ::
  "'w api_env \<Rightarrow> base_client \<Rightarrow> string \<Rightarrow> string \<Rightarrow> string option \<Rightarrow> (string, string) gomap \<Rightarrow> 'w api_io \<Rightarrow>
   (api_response api_result \<times> 'w api_io) option" where
  "send_request env c httpMethod value body headers io =
     (case newHttpClient env c of
        None \<Rightarrow> None
      | Some timeout \<Rightarrow>
          (case newRequest env c timeout httpMethod value body of
             Inl e \<Rightarrow> Some (Inl e, io)
           | Inr req \<Rightarrow> Some (client_Do env (bc_origin c) (req\<lparr>rq_Header := rq_Header req @ headers\<rparr>) io)))"

text \<open>The body of an answer that was read to its end.\<close>

definition read_body :: "api_response \<Rightarrow> string api_result" where
  "read_body resp = (case rs_BodyErr resp of Some e \<Rightarrow> Inl e | None \<Rightarrow> Inr (rs_Body resp))"

text \<open>The body is discarded before the error is made.\<close>

definition doDelete :: "'w api_env \<Rightarrow> base_client \<Rightarrow> string \<Rightarrow> 'w api_io \<Rightarrow> (unit api_result \<times> 'w api_io) option" where
  "doDelete env c url io =
     map_option (\<lambda>(r, io1). case r of
         Inl e \<Rightarrow> (Inl e, io1)
       | Inr resp \<Rightarrow> (if rs_StatusCode resp \<ge> 300 then Inl (newApiError env (resp\<lparr>rs_Body := ''''\<rparr>) url) else Inr (), io1))
       (send_request env c ''DELETE'' url None [] io)"

definition doGet ::
  "'w api_env \<Rightarrow> base_client \<Rightarrow> (string \<Rightarrow> 'a option) \<Rightarrow> string \<Rightarrow> (string, filter_value) gomap \<Rightarrow> 'w api_io \<Rightarrow>
   ('a api_result \<times> 'w api_io) option" where
  "doGet env c parse urlString filters io =
     (case appendFilters env urlString filters of
        Inl e \<Rightarrow> Some (Inl e, io)
      | Inr url \<Rightarrow>
          map_option (\<lambda>(r, io1). case r of
              Inl e \<Rightarrow> (Inl e, io1)
            | Inr resp \<Rightarrow>
                (if rs_StatusCode resp \<noteq> 200 then Inl (newApiError env resp url)
                 else case read_body resp of
                   Inl e \<Rightarrow> Inl e
                 | Inr body \<Rightarrow>
                     (case parse body of
                        None \<Rightarrow> Inl (WrapErr ''failed to parse response %q: %w'' [body] (PlainErr ''invalid JSON'' []))
                      | Some x \<Rightarrow> Inr x), io1))
            (send_request env c ''GET'' url None [] io))"

text \<open>\<open>body\<close> is the marshalled object; an empty answer leaves the result object as it was.\<close>

definition doModify ::
  "'w api_env \<Rightarrow> base_client \<Rightarrow> (string \<Rightarrow> 'a option) \<Rightarrow> string \<Rightarrow> string \<Rightarrow> string api_result \<Rightarrow> 'w api_io \<Rightarrow>
   ('a option api_result \<times> 'w api_io) option" where
  "doModify env c parse httpMethod url marshalled io =
     (case marshalled of
        Inl e \<Rightarrow> Some (Inl e, io)
      | Inr bodyContent \<Rightarrow>
          map_option (\<lambda>(r, io1). case r of
              Inl e \<Rightarrow> (Inl e, io1)
            | Inr resp \<Rightarrow>
                (if rs_StatusCode resp \<ge> 300 then Inl (newApiError env resp url)
                 else case read_body resp of
                   Inl e \<Rightarrow> Inl e
                 | Inr body \<Rightarrow>
                     (if body = '''' then Inr None
                      else case parse body of None \<Rightarrow> Inl (PlainErr ''invalid JSON'' []) | Some x \<Rightarrow> Inr (Some x)), io1))
            (send_request env c httpMethod url (Some bodyContent) [(''Content-Type'', ''application/json'')] io))"

section \<open>Operations on resources\<close>

definition unknown_schema :: "string \<Rightarrow> api_error" where
  "unknown_schema schemaType = PlainErr (''Unknown schema type ['' @ schemaType @ '']'') []"

definition not_allowed :: "string \<Rightarrow> string \<Rightarrow> api_error" where
  "not_allowed schemaType what = PlainErr (''Resource type ['' @ schemaType @ ''] '' @ what) []"

definition no_collection :: "string \<Rightarrow> api_error" where
  "no_collection schemaType = PlainErr (''Failed to find collection URL for ['' @ schemaType @ '']'') []"

abbreviation (input) "no_self \<equiv> PlainErr ''failed to find self URL of [%v]'' []"

definition doList ::
  "'w api_env \<Rightarrow> base_client \<Rightarrow> (string \<Rightarrow> 'a option) \<Rightarrow> string \<Rightarrow> (string, filter_value) gomap \<Rightarrow> 'w api_io \<Rightarrow>
   ('a api_result \<times> 'w api_io) option" where
  "doList env c parse schemaType filters io =
     (case map_of (bc_Types c) schemaType of
        None \<Rightarrow> Some (Inl (unknown_schema schemaType), io)
      | Some schema \<Rightarrow>
          if ''GET'' \<notin> set (sm_CollectionMethods schema) then Some (Inl (not_allowed schemaType ''is not listable''), io)
          else case map_of (res_Links schema) ''collection'' of
            None \<Rightarrow> Some (Inl (no_collection schemaType), io)
          | Some collectionUrl \<Rightarrow> doGet env c parse collectionUrl filters io)"

definition doNext ::
  "'w api_env \<Rightarrow> base_client \<Rightarrow> (string \<Rightarrow> 'a option) \<Rightarrow> string \<Rightarrow> 'w api_io \<Rightarrow> ('a api_result \<times> 'w api_io) option" where
  "doNext env c parse nextUrl io = doGet env c parse nextUrl [] io"

definition Post ::
  "'w api_env \<Rightarrow> base_client \<Rightarrow> (string \<Rightarrow> 'a option) \<Rightarrow> string \<Rightarrow> string api_result \<Rightarrow> 'w api_io \<Rightarrow>
   ('a option api_result \<times> 'w api_io) option" where
  "Post env c parse url createObj io = doModify env c parse ''POST'' url createObj io"

definition GetLink ::
  "'w api_env \<Rightarrow> base_client \<Rightarrow> (string \<Rightarrow> 'a option) \<Rightarrow> Resource \<Rightarrow> string \<Rightarrow> 'w api_io \<Rightarrow> ('a api_result \<times> 'w api_io) option" where
  "GetLink env c parse resource link io =
     (let url = map_get '''' (res_Links resource) link in
      if url = '''' then Some (Inl (PlainErr ''Failed to find link: %s'' [link]), io)
      else doGet env c parse url [] io)"

text \<open>
  \<open>regexp.MustCompile("schemas.*").ReplaceAllString\<close>: every \<open>schemas\<close> with the rest of its line is
  replaced (by a name without a dollar sign).
\<close>

fun replace_schemas :: "nat \<Rightarrow> string \<Rightarrow> string \<Rightarrow> string" where
  "replace_schemas 0 name s = s"
| "replace_schemas (Suc n) name s =
     (case Cut s ''schemas'' of
        None \<Rightarrow> s
      | Some (a, b) \<Rightarrow> a @ name @ replace_schemas n name (dropWhile (\<lambda>c. c \<noteq> CHR 0x0A) b))"

definition creation_url :: "Schema \<Rightarrow> string" where
  "creation_url schema =
     (case map_of (res_Links schema) ''collection'' of
        Some url \<Rightarrow> url
      | None \<Rightarrow> (let self = map_get '''' (res_Links schema) ''self'' in replace_schemas (length self) (sm_PluralName schema) self))"

definition doCreate ::
  "'w api_env \<Rightarrow> base_client \<Rightarrow> (string \<Rightarrow> 'a option) \<Rightarrow> string \<Rightarrow> string api_result \<Rightarrow> 'w api_io \<Rightarrow>
   ('a option api_result \<times> 'w api_io) option" where
  "doCreate env c parse schemaType createObj io =
     (case map_of (bc_Types c) schemaType of
        None \<Rightarrow> Some (Inl (unknown_schema schemaType), io)
      | Some schema \<Rightarrow>
          if ''POST'' \<notin> set (sm_CollectionMethods schema) then Some (Inl (not_allowed schemaType ''is not creatable''), io)
          else doModify env c parse ''POST'' (creation_url schema) createObj io)"

definition doUpdate ::
  "'w api_env \<Rightarrow> base_client \<Rightarrow> (string \<Rightarrow> 'a option) \<Rightarrow> string \<Rightarrow> Resource option \<Rightarrow> string api_result \<Rightarrow> 'w api_io \<Rightarrow>
   ('a option api_result \<times> 'w api_io) option" where
  "doUpdate env c parse schemaType existing updates io =
     (case existing of
        None \<Rightarrow> Some (Inl (PlainErr ''Existing object is nil'' []), io)
      | Some r \<Rightarrow>
          (case map_of (res_Links r) ''self'' of
             None \<Rightarrow> Some (Inl no_self, io)
           | Some selfUrl \<Rightarrow>
               (case map_of (bc_Types c) schemaType of
                  None \<Rightarrow> Some (Inl (unknown_schema schemaType), io)
                | Some schema \<Rightarrow>
                    if ''PUT'' \<notin> set (sm_ResourceMethods schema) then Some (Inl (not_allowed schemaType ''is not updatable''), io)
                    else doModify env c parse ''PUT'' selfUrl updates io)))"

definition doById ::
  "'w api_env \<Rightarrow> base_client \<Rightarrow> (string \<Rightarrow> 'a option) \<Rightarrow> string \<Rightarrow> string \<Rightarrow> 'w api_io \<Rightarrow> ('a api_result \<times> 'w api_io) option" where
  "doById env c parse schemaType rid io =
     (case map_of (bc_Types c) schemaType of
        None \<Rightarrow> Some (Inl (unknown_schema schemaType), io)
      | Some schema \<Rightarrow>
          if ''GET'' \<notin> set (sm_ResourceMethods schema)
          then Some (Inl (not_allowed schemaType ''can not be looked up by ID''), io)
          else case map_of (res_Links schema) ''collection'' of
            None \<Rightarrow> Some (Inl (no_collection schemaType), io)
          | Some collectionUrl \<Rightarrow> doGet env c parse (collectionUrl @ ''/'' @ rid) [] io)"

definition doResourceDelete ::
  "'w api_env \<Rightarrow> base_client \<Rightarrow> string \<Rightarrow> Resource \<Rightarrow> 'w api_io \<Rightarrow> (unit api_result \<times> 'w api_io) option" where
  "doResourceDelete env c schemaType existing io =
     (case map_of (bc_Types c) schemaType of
        None \<Rightarrow> Some (Inl (unknown_schema schemaType), io)
      | Some schema \<Rightarrow>
          if ''DELETE'' \<notin> set (sm_ResourceMethods schema)
          then Some (Inl (not_allowed schemaType ''can not be deleted''), io)
          else case map_of (res_Links existing) ''self'' of
            None \<Rightarrow> Some (Inl no_self, io)
          | Some selfUrl \<Rightarrow> doDelete env c selfUrl io)"

definition Delete :: "'w api_env \<Rightarrow> base_client \<Rightarrow> Resource option \<Rightarrow> 'w api_io \<Rightarrow> (unit api_result \<times> 'w api_io) option" where
  "Delete env c existing io =
     (case existing of None \<Rightarrow> Some (Inr (), io) | Some r \<Rightarrow> doResourceDelete env c (res_Type r) r io)"

definition Reload ::
  "'w api_env \<Rightarrow> base_client \<Rightarrow> (string \<Rightarrow> 'a option) \<Rightarrow> Resource \<Rightarrow> 'w api_io \<Rightarrow> ('a api_result \<times> 'w api_io) option" where
  "Reload env c parse existing io =
     (case map_of (res_Links existing) ''self'' of
        None \<Rightarrow> Some (Inl no_self, io)
      | Some selfUrl \<Rightarrow> doGet env c parse selfUrl [] io)"

text \<open>\<open>input\<close> is the marshalled input object, if there is one.\<close>

definition doAction ::
  "'w api_env \<Rightarrow> base_client \<Rightarrow> (string \<Rightarrow> 'a option) \<Rightarrow> string \<Rightarrow> string \<Rightarrow> Resource option \<Rightarrow>
   string api_result option \<Rightarrow> 'w api_io \<Rightarrow> ('a api_result \<times> 'w api_io) option" where
  "doAction env c parse schemaType action existing input io =
     (case existing of
        None \<Rightarrow> Some (Inl (PlainErr ''Existing object is nil'' []), io)
      | Some r \<Rightarrow>
          (case map_of (res_Actions r) action of
             None \<Rightarrow> Some (Inl (PlainErr ''action [%v] not available on [%v]'' [action]), io)
           | Some actionUrl \<Rightarrow>
               if map_of (bc_Types c) schemaType = None then Some (Inl (unknown_schema schemaType), io)
               else
                 (case (case input of None \<Rightarrow> Inr None | Some (Inl e) \<Rightarrow> Inl e | Some (Inr b) \<Rightarrow> Inr (Some b)) of
                    Inl e \<Rightarrow> Some (Inl e, io)
                  | Inr body \<Rightarrow>
                      map_option (\<lambda>(res, io1). case res of
                          Inl e \<Rightarrow> (Inl e, io1)
                        | Inr resp \<Rightarrow>
                            (if rs_StatusCode resp \<ge> 300 then Inl (newApiError env resp actionUrl)
                             else case read_body resp of
                               Inl e \<Rightarrow> Inl e
                             | Inr content \<Rightarrow>
                                 (case parse content of None \<Rightarrow> Inl (PlainErr ''invalid JSON'' []) | Some x \<Rightarrow> Inr x), io1))
                        (send_request env c ''POST'' actionUrl body
                           [(''Content-Type'', ''application/json''), (''Content-Length'', ''0'')] io))))"

section \<open>Setup\<close>

text \<open>The answer that holds the schemas: the first one, or the one of the address that it names.\<close>

definition fetch_schemas ::
  "'w api_env \<Rightarrow> base_client \<Rightarrow> int \<Rightarrow> string \<Rightarrow> api_response \<Rightarrow> 'w api_io \<Rightarrow> api_response api_result \<times> 'w api_io" where
  "fetch_schemas env c timeout url resp io =
     (if rs_Schemas resp = url then (Inr resp, io)
      else case newRequest env c timeout ''GET'' (rs_Schemas resp) None of
        Inl e \<Rightarrow> (Inl e, io)
      | Inr req \<Rightarrow>
          (case client_Do env (bc_origin c) req io of
             (Inl e, io1) \<Rightarrow> (Inl e, io1)
           | (Inr resp1, io1) \<Rightarrow>
               (if rs_StatusCode resp1 \<noteq> 200 then Inl (newApiError env resp1 url) else Inr resp1, io1)))"

definition store_schemas :: "'w api_env \<Rightarrow> base_client \<Rightarrow> api_response \<Rightarrow> unit api_result \<times> base_client" where
  "store_schemas env c resp =
     (case read_body resp of
        Inl e \<Rightarrow> (Inl e, c)
      | Inr bytes \<Rightarrow>
          (case ap_schemas env bytes of
             None \<Rightarrow> (Inl (PlainErr ''invalid JSON'' []), c)
           | Some schemas \<Rightarrow>
               (Inr (), c\<lparr>bc_Schemas := Some schemas,
                  bc_Types := fold (\<lambda>sm. AList.update (res_Id sm) sm) schemas (bc_Types c)\<rparr>)))"

text \<open>The part of the setup after the client has its origin and options.\<close>

definition setup_schemas ::
  "'w api_env \<Rightarrow> base_client \<Rightarrow> int \<Rightarrow> string \<Rightarrow> 'w api_io \<Rightarrow> unit api_result \<times> base_client \<times> 'w api_io" where
  "setup_schemas env c timeout url io =
     (case newRequest env c timeout ''GET'' url None of
        Inl e \<Rightarrow> (Inl e, c, io)
      | Inr req \<Rightarrow>
          (case client_Do env (bc_origin c) req io of
             (Inl e, io1) \<Rightarrow> (Inl e, c, io1)
           | (Inr resp, io1) \<Rightarrow>
               if rs_StatusCode resp \<noteq> 200 then (Inl (newApiError env resp url), c, io1)
               else if rs_Schemas resp = ''''
               then (Inl (PlainErr ''control-plane response is missing X-API-Schemas'' []), c, io1)
               else
                 (case fetch_schemas env c timeout url resp io1 of
                    (Inl e, io2) \<Rightarrow> (Inl e, c, io2)
                  | (Inr answer, io2) \<Rightarrow> (case store_schemas env c answer of (r, c1) \<Rightarrow> (r, c1, io2)))))"

definition setupRancherBaseClient ::
  "'w api_env \<Rightarrow> base_client \<Rightarrow> ClientOpts \<Rightarrow> 'w api_io \<Rightarrow> unit api_result \<times> base_client \<times> 'w api_io" where
  "setupRancherBaseClient env c opts io =
     (case NormalizeUrl env (co_Url opts) of
        Inl e \<Rightarrow> (Inl e, c, io)
      | Inr url \<Rightarrow>
          let opts1 = opts\<lparr>co_Url := url,
                co_Timeout := (if co_Timeout opts = 0 then 1000000000 * ap_defaultTimeout env else co_Timeout opts)\<rparr>
          in case newRequestOrigin env url of
            Inl e \<Rightarrow> (Inl e, c\<lparr>bc_origin := zero_origin\<rparr>, io)
          | Inr origin \<Rightarrow>
              setup_schemas env (c\<lparr>bc_origin := origin, bc_Opts := Some opts1\<rparr>) (co_Timeout opts1) url io)"

definition NewRancherClient :: "'w api_env \<Rightarrow> ClientOpts \<Rightarrow> 'w api_io \<Rightarrow> base_client api_result \<times> 'w api_io" where
  "NewRancherClient env opts io =
     (case setupRancherBaseClient env new_base_client opts io of
        (Inl e, c, io1) \<Rightarrow> (Inl e, io1)
      | (Inr _, c, io1) \<Rightarrow> (Inr c, io1))"

section \<open>Websockets\<close>

text \<open>The loop over the caller's headers; \<open>u\<close> is the address with its HTTP scheme.\<close>

fun websocket_headers ::
  "'w api_env \<Rightarrow> base_client \<Rightarrow> URL \<Rightarrow> (string, string list) gomap \<Rightarrow> (string, string list) gomap \<Rightarrow>
   (string, string list) gomap api_result" where
  "websocket_headers env c u [] acc = Inr acc"
| "websocket_headers env c u ((k, v) # hs) acc =
     (case (if EqualFold k ''Host'' then
              (case v of
                 [h] \<Rightarrow> (case resolve env (bc_origin c) (url_text env (u\<lparr>u_Host := h\<rparr>)) of Inl e \<Rightarrow> Some e | Inr _ \<Rightarrow> None)
               | _ \<Rightarrow> Some (PlainErr ''invalid control-plane WebSocket Host header'' []))
            else None) of
        Some e \<Rightarrow> Inl e
      | None \<Rightarrow>
          if EqualFold k auth_header \<and> bc_Opts c \<noteq> None then websocket_headers env c u hs acc
          else websocket_headers env c u hs (AList.update k v acc))"

text \<open>The address and the headers that \<open>Websocket\<close> gives to the dialer.\<close>

definition Websocket ::
  "'w api_env \<Rightarrow> base_client \<Rightarrow> string \<Rightarrow> (string, string list) gomap \<Rightarrow> (string \<times> (string, string list) gomap) api_result" where
  "Websocket env c value headers =
     (case parse_url env value of
        Inl e \<Rightarrow> Inl e
      | Inr u \<Rightarrow>
          if u_Scheme u \<noteq> ''ws'' \<and> u_Scheme u \<noteq> ''wss''
          then Inl (PlainErr ''control-plane WebSocket URL must use ws or wss'' [])
          else
            let u1 = u\<lparr>u_Scheme := (if u_Scheme u = ''ws'' then ''http'' else ''https'')\<rparr> in
            (case resolve env (bc_origin c) (url_text env u1) of
               Inl e \<Rightarrow> Inl e
             | Inr _ \<Rightarrow>
                 (case websocket_headers env c u1 headers [] of
                    Inl e \<Rightarrow> Inl e
                  | Inr hs \<Rightarrow>
                      Inr (value, case bc_Opts c of None \<Rightarrow> hs | Some opts \<Rightarrow> AList.update auth_header [basic_auth opts] hs))))"

end
