(* ===== verification/Lb_Controller.thy ===== *)
theory Lb_Controller
  imports Build_Config Haproxy_Provider Task_Queue Cert_Fetcher Api_Client
begin

text \<open>
  The controller itself (\<open>controller/rancher/rancher.go\<close>): its start from the process environment,
  one reconciliation (\<open>sync\<close>), the retries with their backoff, and the shutdown; the registry of
  controllers (\<open>controller/controller.go\<close>) and the program's main goroutine (\<open>main.go\<close>).
\<close>

section \<open>Starting\<close>

definition firstCredential :: "(string \<Rightarrow> string) \<Rightarrow> string \<Rightarrow> string \<Rightarrow> string" where
  "firstCredential getenv primaryName compatibilityName =
     (if getenv primaryName \<noteq> '''' then getenv primaryName else getenv compatibilityName)"

text \<open>What \<open>Init\<close> stores: the API client, the metadata client, the fetcher and the event handler's data.\<close>

record ('c, 'f) init_state =
  is_apiClient :: 'c
  is_meta :: metadata_client
  is_fetcher :: fetcher
  is_forceUpdateInterval :: 'f
  is_CattleURL :: string
  is_CattleAccessKey :: string
  is_CattleSecretKey :: string

text \<open>
  What \<open>Init\<close> calls: the environment variables, the API client's constructor, \<open>strconv.ParseFloat\<close>,
  the metadata client's constructor. Every \<open>log.Fatalf\<close> ends the program: \<open>Inl\<close> of its format.
\<close>

record ('c, 'f) init_env =
  ie_getenv :: "string \<Rightarrow> string"
  ie_newRancherClient :: "ClientOpts \<Rightarrow> 'c result"
  ie_parseFloat :: "string \<Rightarrow> 'f option"
  ie_newMetadata :: "string \<Rightarrow> metadata_client result"

definition or_default :: "string \<Rightarrow> string \<Rightarrow> string" where
  "or_default s d = (if s = '''' then d else s)"

definition Init :: "('c, 'f) init_env \<Rightarrow> string \<Rightarrow> string + ('c, 'f) init_state" where
  "Init env metadataURL =
     (let getenv = ie_getenv env; cattleURL = getenv ''CATTLE_URL'';
          adminAccess = firstCredential getenv ''CATTLE_ENVIRONMENT_ADMIN_ACCESS_KEY'' ''CATTLE_ACCESS_KEY'';
          adminSecret = firstCredential getenv ''CATTLE_ENVIRONMENT_ADMIN_SECRET_KEY'' ''CATTLE_SECRET_KEY'';
          agentAccess = firstCredential getenv ''CATTLE_AGENT_ACCESS_KEY'' ''CATTLE_ACCESS_KEY'';
          agentSecret = firstCredential getenv ''CATTLE_AGENT_SECRET_KEY'' ''CATTLE_SECRET_KEY'';
          poll = or_default (getenv ''CERTS_POLL_INTERVAL'') ''30'';
          force = or_default (getenv ''CERTS_FORCE_UPDATE_INTERVAL'') ''300'';
          certFName = or_default (getenv ''CERT_FILE_NAME'') DefaultCertName;
          keyFName = or_default (getenv ''KEY_FILE_NAME'') DefaultKeyName
      in if cattleURL = '''' then Inl ''CATTLE_URL is not set''
      else if adminAccess = '''' then Inl ''CATTLE_ENVIRONMENT_ADMIN_ACCESS_KEY and CATTLE_ACCESS_KEY are not set''
      else if adminSecret = '''' then Inl ''CATTLE_ENVIRONMENT_ADMIN_SECRET_KEY and CATTLE_SECRET_KEY are not set''
      else if agentAccess = '''' then Inl ''CATTLE_AGENT_ACCESS_KEY and CATTLE_ACCESS_KEY are not set''
      else if agentSecret = '''' then Inl ''CATTLE_AGENT_SECRET_KEY and CATTLE_SECRET_KEY are not set''
      else case ie_newRancherClient env \<lparr>co_Url = cattleURL, co_AccessKey = adminAccess, co_SecretKey = adminSecret, co_Timeout = 0\<rparr> of
        Inl _ \<Rightarrow> Inl ''Failed to create control-plane client''
      | Inr apiClient \<Rightarrow>
          (case Atoi poll of
             None \<Rightarrow> Inl ''Failed to convert CERTS_POLL_INTERVAL''
           | Some pollInterval \<Rightarrow>
               (case ie_parseFloat env force of
                  None \<Rightarrow> Inl ''Failed to convert CERTS_FORCE_UPDATE_INTERVAL''
                | Some forceUpdateInt \<Rightarrow>
                    (case ie_newMetadata env metadataURL of
                       Inl _ \<Rightarrow> Inl ''Error initiating metadata client''
                     | Inr meta \<Rightarrow>
                         (case mc_GetSelfService meta of
                            Inl _ \<Rightarrow> Inl ''Error reading self service metadata''
                          | Inr lbSvc \<Rightarrow>
                              Inr \<lparr>is_apiClient = apiClient, is_meta = meta,
                                is_fetcher = \<lparr>cf_CertDir = map_get '''' (svc_Labels lbSvc) ''io.rancher.lb_service.cert_dir'',
                                  cf_DefaultCertDir = map_get '''' (svc_Labels lbSvc) ''io.rancher.lb_service.default_cert_dir'',
                                  cf_CertsCache = None, cf_DefaultCert = None, cf_tempCertsMap = [],
                                  cf_updateCheckInterval = pollInterval, cf_CertName = certFName, cf_KeyName = keyFName,
                                  cf_initPollDone = False\<rparr>,
                                is_forceUpdateInterval = forceUpdateInt, is_CattleURL = cattleURL,
                                is_CattleAccessKey = agentAccess, is_CattleSecretKey = agentSecret\<rparr>)))))"

section \<open>The controller's state\<close>

text \<open>\<open>lc_stopClosed\<close> tells that \<open>stopCh\<close> is closed.\<close>

record LoadBalancerController =
  lc_shutdown :: bool
  lc_stopClosed :: bool
  lc_LBProvider :: Provider
  lc_syncQueue :: TaskQueue
  lc_incrementalBackoff :: int
  lc_incrementalBackoffInterval :: int

definition controller_GetName :: string where
  "controller_GetName = ''rancher''"

definition NewLoadBalancerController :: "Provider \<Rightarrow> LoadBalancerController" where
  "NewLoadBalancerController pv = \<lparr>lc_shutdown = False, lc_stopClosed = False, lc_LBProvider = pv,
     lc_syncQueue = NewTaskQueue, lc_incrementalBackoff = 0, lc_incrementalBackoffInterval = 5\<rparr>"

definition ScheduleApplyConfig :: "string \<Rightarrow> LoadBalancerController \<Rightarrow> LoadBalancerController" where
  "ScheduleApplyConfig s c = c\<lparr>lc_syncQueue := Enqueue controller_GetName (lc_syncQueue c)\<rparr>"

definition controller_IsEndpointUpForDrain :: "Endpoint \<Rightarrow> LoadBalancerController \<Rightarrow> bool" where
  "controller_IsEndpointUpForDrain ep c = (if IsEndpointUpForDrain ep (lc_LBProvider c) then True else False)"

definition controller_DrainEndpoint ::
  "'w provider_env \<Rightarrow> Endpoint \<Rightarrow> LoadBalancerController \<Rightarrow> 'w io \<Rightarrow> bool \<times> LoadBalancerController \<times> 'w io" where
  "controller_DrainEndpoint env ep c io =
     (case DrainEndpoint env ep (lc_LBProvider c) io of (ok, pv, io') \<Rightarrow> (ok, c\<lparr>lc_LBProvider := pv\<rparr>, io'))"

definition controller_IsEndpointDrained ::
  "'w provider_env \<Rightarrow> Endpoint \<Rightarrow> LoadBalancerController \<Rightarrow> 'w io \<Rightarrow> bool \<times> 'w io" where
  "controller_IsEndpointDrained env ep c io = IsEndpointDrained env ep (lc_LBProvider c) io"

definition controller_RemoveEndpointFromDrain :: "Endpoint \<Rightarrow> LoadBalancerController \<Rightarrow> LoadBalancerController" where
  "controller_RemoveEndpointFromDrain ep c =
     c\<lparr>lc_LBProvider := provider_RemoveEndpointFromDrain ep (lc_LBProvider c)\<rparr>"

text \<open>\<open>Stop\<close>; \<open>Panic\<close> where the provider closes a closed channel.\<close>

definition controller_Stop :: "LoadBalancerController \<Rightarrow> (unit result \<times> LoadBalancerController) outcome" where
  "controller_Stop c =
     (if \<not> lc_shutdown c then
        (case provider_Stop (lc_LBProvider c) of
           None \<Rightarrow> Panic
         | Some (Inl e, pv) \<Rightarrow> Ok (Inl e, c\<lparr>lc_LBProvider := pv\<rparr>)
         | Some (Inr _, pv) \<Rightarrow>
             if lc_stopClosed c then Panic
             else Ok (Inl (Errorf ''shutdown already in progress'' []),
                    c\<lparr>lc_LBProvider := pv, lc_stopClosed := True, lc_shutdown := True\<rparr>))
      else Ok (Inl (Errorf ''shutdown already in progress'' []), c))"

section \<open>One reconciliation\<close>

text \<open>
  What one reconciliation works on: the metadata and certificates it reads (with the fuel for
  alias services), the provider's environment, and what \<open>ApplyConfig\<close> sees in \<open>init\<close>.
\<close>

record 'w sync_env =
  se_fuel :: nat
  se_controller :: controller_env
  se_provider :: "'w provider_env"
  se_starting :: "nat \<Rightarrow> bool"

text \<open>The loop over the configurations; the flag asks for a retry.\<close>

fun apply_configs ::
  "'w sync_env \<Rightarrow> LoadBalancerConfig list \<Rightarrow> bool \<Rightarrow> Provider \<Rightarrow> 'w io \<Rightarrow> (bool \<times> Provider \<times> 'w io) outcome" where
  "apply_configs env [] requeue pv io = Ok (requeue, pv, io)"
| "apply_configs env (cfg # cfgs) requeue pv io =
     (case ApplyConfig (se_provider env) (se_starting env) cfg pv io of
        None \<Rightarrow> Panic
      | Some (r, pv1, io1) \<Rightarrow> apply_configs env cfgs (requeue \<or> \<not> is_ok r) pv1 io1)"

text \<open>\<open>sync\<close>: whether it starts a goroutine that requeues the key.\<close>

definition sync ::
  "'w sync_env \<Rightarrow> string \<Rightarrow> LoadBalancerController \<Rightarrow> 'w io \<Rightarrow> (bool \<times> LoadBalancerController \<times> 'w io) outcome" where
  "sync env key c io =
     (if lc_shutdown c then Ok (False, c, io)
      else
        bind_out
          (case GetLBConfigs (se_fuel env) (se_controller env) of
             Ok cfgs \<Rightarrow> apply_configs env cfgs False (lc_LBProvider c) io
           | Err e \<Rightarrow> Ok (True, lc_LBProvider c, io)
           | Panic \<Rightarrow> Panic
           | OutOfFuel \<Rightarrow> OutOfFuel)
          (\<lambda>(requeue, pv, io1).
             if requeue then Ok (True, c\<lparr>lc_LBProvider := pv\<rparr>, io1)
             else Ok (False, c\<lparr>lc_LBProvider := pv, lc_incrementalBackoff := 0\<rparr>, io1)))"

text \<open>\<open>requeue\<close> up to its sleep: the seconds to sleep; and after it.\<close>

definition requeue_begin :: "LoadBalancerController \<Rightarrow> int \<times> LoadBalancerController" where
  "requeue_begin c =
     (let backoff = lc_incrementalBackoff c + lc_incrementalBackoffInterval c
      in (backoff, c\<lparr>lc_incrementalBackoff := backoff\<rparr>))"

definition requeue_end :: "string \<Rightarrow> LoadBalancerController \<Rightarrow> LoadBalancerController" where
  "requeue_end key c = c\<lparr>lc_syncQueue := Requeue key
     (Errorf ''retrying sync as one of the configs failed to apply on a backend'' []) (lc_syncQueue c)\<rparr>"

section \<open>Worker and retries\<close>

text \<open>
  The goroutines around the queue: the worker that pops and syncs keys and stops the queue when
  the stop channel is closed, the retries that were started, and those that sleep. \<open>ks_failed\<close> records whether the last sync asked for a retry.
\<close>

record 'w controller_system =
  ks_ctl :: LoadBalancerController
  ks_io :: "'w io"
  ks_syncing :: "string option"
  ks_started :: "string list"
  ks_sleeping :: "(string \<times> int) list"
  ks_failed :: bool

definition init_controller_system :: "'w io \<Rightarrow> 'w controller_system" where
  "init_controller_system io = \<lparr>ks_ctl = NewLoadBalancerController init_Provider, ks_io = io, ks_syncing = None,
     ks_started = [], ks_sleeping = [], ks_failed = False\<rparr>"

inductive controller_step :: "'w controller_system \<Rightarrow> 'w controller_system \<Rightarrow> bool" where
  schedule: "controller_step s (s\<lparr>ks_ctl := ScheduleApplyConfig v (ks_ctl s)\<rparr>)"
| pop: "ks_syncing s = None \<Longrightarrow> queue_pop (lc_syncQueue (ks_ctl s)) = Some (key, t) \<Longrightarrow>
    controller_step s (s\<lparr>ks_ctl := (ks_ctl s)\<lparr>lc_syncQueue := t\<rparr>, ks_syncing := Some key\<rparr>)"
| synced: "ks_syncing s = Some key \<Longrightarrow> sync env key (ks_ctl s) (ks_io s) = Ok (again, c, io) \<Longrightarrow>
    controller_step s (s\<lparr>ks_ctl := c, ks_io := io, ks_syncing := None,
      ks_started := (if again then ks_started s @ [key] else ks_started s), ks_failed := again\<rparr>)"
| sleep: "ks_started s = ks @ key # ks' \<Longrightarrow> requeue_begin (ks_ctl s) = (delay, c) \<Longrightarrow>
    controller_step s (s\<lparr>ks_ctl := c, ks_started := ks @ ks', ks_sleeping := ks_sleeping s @ [(key, delay)]\<rparr>)"
| woken: "ks_sleeping s = zs @ (key, delay) # zs' \<Longrightarrow>
    controller_step s (s\<lparr>ks_ctl := requeue_end key (ks_ctl s), ks_sleeping := zs @ zs'\<rparr>)"
| stop: "controller_Stop (ks_ctl s) = Ok (r, c) \<Longrightarrow> controller_step s (s\<lparr>ks_ctl := c\<rparr>)"
| exit: "lc_stopClosed (ks_ctl s) \<Longrightarrow> ks_syncing s = None \<Longrightarrow>
    controller_step s (s\<lparr>ks_ctl := (ks_ctl s)\<lparr>lc_syncQueue := snd (shutdown_locked (lc_syncQueue (ks_ctl s)))\<rparr>\<rparr>)"

inductive controller_reachable :: "'w controller_system \<Rightarrow> bool" where
  init: "controller_reachable (init_controller_system io)"
| step: "controller_reachable s \<Longrightarrow> controller_step s s' \<Longrightarrow> controller_reachable s'"

section \<open>The program\<close>

text \<open>\<open>controller/controller.go\<close>: a name that is not registered gives the default, without \<open>Init\<close>.\<close>

definition RegisterController :: "string \<Rightarrow> 'c \<Rightarrow> (string, 'c) gomap \<Rightarrow> unit result \<times> (string, 'c) gomap" where
  "RegisterController name c controllers =
     (if has_key controllers name then (Inl (Errorf ''controller already registered'' []), controllers)
      else (Inr (), AList.update name c controllers))"

definition GetController :: "('c \<Rightarrow> string \<Rightarrow> 'c) \<Rightarrow> (string, 'c) gomap \<Rightarrow> string \<Rightarrow> string \<Rightarrow> 'c option" where
  "GetController initialize controllers name metadataURL =
     (case map_of controllers name of
        Some c \<Rightarrow> Some (initialize c metadataURL)
      | None \<Rightarrow> map_of controllers ''rancher'')"

text \<open>\<open>run\<close> of \<open>main.go\<close>: the controller and the provider it starts, or the error.\<close>

definition run_program ::
  "('c \<Rightarrow> string \<Rightarrow> 'c) \<Rightarrow> (string, 'c) gomap \<Rightarrow> (string, 'p) gomap \<Rightarrow> string \<Rightarrow> string \<Rightarrow> string \<Rightarrow> ('c \<times> 'p) result" where
  "run_program initialize controllers providers controllerName providerName metadataAddress =
     (case GetController initialize controllers controllerName (''http://'' @ metadataAddress @ ''/2016-07-29'') of
        None \<Rightarrow> Inl (Errorf ''unable to find controller by name %s'' [controllerName])
      | Some c \<Rightarrow>
          (case GetProvider providers providerName of
             None \<Rightarrow> Inl (Errorf ''unable to find provider by name %s'' [providerName])
           | Some p \<Rightarrow> Inr (c, p)))"

text \<open>\<open>handleSigterm\<close>: the exit code.\<close>

definition handleSigterm :: "LoadBalancerController \<Rightarrow> int outcome" where
  "handleSigterm c = bind_out (controller_Stop c) (\<lambda>(r, _). Ok (if is_ok r then 0 else 1))"

text \<open>The health check's answer to a request: status and body; \<open>http.Error\<close> ends the body with a newline.\<close>

definition controller_IsHealthy :: "LoadBalancerController \<Rightarrow> bool" where
  "controller_IsHealthy c = True"

definition provider_IsHealthy :: "Provider \<Rightarrow> bool" where
  "provider_IsHealthy pv = True"

definition healthcheck :: "string \<Rightarrow> LoadBalancerController \<Rightarrow> Provider \<Rightarrow> int \<times> string" where
  "healthcheck requestMethod c pv =
     (if requestMethod \<noteq> ''GET'' \<and> requestMethod \<noteq> ''HEAD'' then (405, ''method not allowed'' @ [CHR 0x0A])
      else if \<not> controller_IsHealthy c then (500, ''Healthcheck failed for LB controller'' @ [CHR 0x0A])
      else if \<not> provider_IsHealthy pv then (500, ''Healthcheck failed for LB provider'' @ [CHR 0x0A])
      else (200, ''OK''))"

end
