(* ===== verification/Controller_Theorems.thy ===== *)
theory Controller_Theorems
  imports Lb_Controller
begin

text \<open>
  What holds of the controller as a whole: a reconciliation that succeeds has installed the
  configuration it built, one that fails is retried, and a shutdown always reports an error.
\<close>

section \<open>What a reconciliation leaves alone\<close>

lemma applyHaproxyConfig_stopped:
  "applyHaproxyConfig env cfg pv io = Some (r, pv', io') \<Longrightarrow> pv_stopped pv' = pv_stopped pv \<and> pv_init pv' = pv_init pv"
  by (auto simp: applyHaproxyConfig_def split: option.splits prod.splits sum.splits)

lemma ApplyConfig_stopped:
  "ApplyConfig env starting cfg pv io = Some (r, pv', io') \<Longrightarrow> pv_stopped pv' = pv_stopped pv"
  by (auto simp: ApplyConfig_def dest: applyHaproxyConfig_stopped split: if_splits)

lemma apply_configs_stopped:
  "apply_configs env cfgs b pv io = Ok (b', pv', io') \<Longrightarrow> pv_stopped pv' = pv_stopped pv"
  by (induction env cfgs b pv io rule: apply_configs.induct)
    (auto split: option.splits prod.splits dest: ApplyConfig_stopped)

lemma apply_configs_sticky: "apply_configs env cfgs True pv io = Ok (b', pv', io') \<Longrightarrow> b'"
  by (induction cfgs arbitrary: pv io) (auto split: option.splits prod.splits)

lemma sync_cases:
  assumes "sync env key c io = Ok (again, c', io')"
  obtains (down) "lc_shutdown c" "again = False" "c' = c" "io' = io"
  | (retry) pv where "\<not> lc_shutdown c" "again" "c' = c\<lparr>lc_LBProvider := pv\<rparr>" "pv_stopped pv = pv_stopped (lc_LBProvider c)"
  | (fine) cfgs pv where "\<not> lc_shutdown c" "\<not> again" "GetLBConfigs (se_fuel env) (se_controller env) = Ok cfgs"
      "apply_configs env cfgs False (lc_LBProvider c) io = Ok (False, pv, io')"
      "c' = c\<lparr>lc_LBProvider := pv, lc_incrementalBackoff := 0\<rparr>" "pv_stopped pv = pv_stopped (lc_LBProvider c)"
proof (cases "lc_shutdown c")
  case True
  with assms show ?thesis by (intro down) (auto simp: sync_def)
next
  case False
  show ?thesis
  proof (cases "GetLBConfigs (se_fuel env) (se_controller env)")
    case (Ok cfgs)
    with False assms obtain b pv io1 where a: "apply_configs env cfgs False (lc_LBProvider c) io = Ok (b, pv, io1)"
      by (auto simp: sync_def bind_out_Ok)
    note s = apply_configs_stopped [OF a]
    show ?thesis
    proof (cases b)
      case True
      with a s Ok False assms show ?thesis by (intro retry [of pv]) (simp_all add: sync_def)
    next
      case no: False
      with a s Ok False assms show ?thesis by (intro fine [of cfgs pv]) (simp_all add: sync_def)
    qed
  next
    case (Err e)
    with False assms show ?thesis by (intro retry [of "lc_LBProvider c"]) (auto simp: sync_def)
  qed (use False assms in \<open>auto simp: sync_def\<close>)
qed

section \<open>A reconciliation that succeeds\<close>

lemma reconcileDrains_desired: "reconcileDrains env b dm io = (r, dm', io') \<Longrightarrow> dm_desired dm' = dm_desired dm"
  by (cases rule: reconcileDrains_cases) auto

lemma setDesired_desired: "dm_desired (setDesired cfg dm) = dm_desired (setDesired cfg dm')"
  by (simp add: setDesired_def)

lemma apply_ok:
  assumes "ApplyConfig env starting cfg pv io = Some (Inr u, pv', io')"
  shows "\<not> pv_recoveryBlocked pv' \<and> dm_desired (pv_drainMgr pv') = dm_desired (setDesired cfg init_drainMgr) \<and>
    (\<exists>w. install_config env cfg (io_world io) = Some (Inr (), w))"
proof -
  from assms have a: "applyHaproxyConfig env cfg pv io = Some (Inr u, pv', io')"
    by (auto simp: ApplyConfig_def split: if_splits)
  then obtain w where w: "install_config env cfg (io_world io) = Some (Inr (), w)"
    by (auto simp: applyHaproxyConfig_def split: option.splits prod.splits sum.splits)
  obtain r dm io1 where r: "reconcileDrains (pe_haproxy env) False (setDesired cfg (pv_drainMgr pv)) (io\<lparr>io_world := w\<rparr>) = (r, dm, io1)"
    by (metis prod_cases3)
  with a w have "pv' = pv\<lparr>pv_recoveryBlocked := False, pv_drainMgr := dm\<rparr>" by (simp add: applyHaproxyConfig_def)
  with reconcileDrains_desired [OF r] setDesired_desired [of cfg "pv_drainMgr pv"] w show ?thesis by simp
qed

lemma processed_one:
  "(case p of (Inl e, _) \<Rightarrow> Err e | (Inr (_ :: unit), cfg) \<Rightarrow> Ok [cfg]) = Ok cfgs \<Longrightarrow> \<exists>cfg. cfgs = [cfg]"
  by (cases p; cases "fst p") auto

lemma GetLBConfigs_one: "GetLBConfigs n env = Ok cfgs \<Longrightarrow> \<exists>cfg. cfgs = [cfg]"
proof -
  have "BuildConfigFromMetadata n env a b c d m = Ok cfgs \<Longrightarrow> \<exists>cfg. cfgs = [cfg]" for a b c d m
    by (auto simp: BuildConfigFromMetadata_def bind_out_Ok Let_def dest!: processed_one)
  then show "GetLBConfigs n env = Ok cfgs \<Longrightarrow> \<exists>cfg. cfgs = [cfg]"
    by (auto simp: GetLBConfigs_def bind_out_Ok split: option.splits if_splits)
qed

text \<open>
  C3 A reconciliation that asks for no retry has done its work: unless the controller is shutting
  down, the metadata gave exactly one configuration, its directories, certificates and file were
  written and HAProxy reloaded without an error, the drain manager works towards exactly this
  configuration with recovery enabled, and the backoff starts again from zero.
\<close>

theorem sync_success:
  assumes "sync env key c io = Ok (False, c', io')" and "\<not> lc_shutdown c"
  shows "\<exists>cfg w. GetLBConfigs (se_fuel env) (se_controller env) = Ok [cfg] \<and>
    install_config (se_provider env) cfg (io_world io) = Some (Inr (), w) \<and>
    dm_desired (pv_drainMgr (lc_LBProvider c')) = dm_desired (setDesired cfg init_drainMgr) \<and>
    \<not> pv_recoveryBlocked (lc_LBProvider c') \<and> lc_incrementalBackoff c' = 0"
  using assms(1)
proof (cases rule: sync_cases)
  case (fine cfgs pv)
  from GetLBConfigs_one [OF fine(3)] obtain cfg where cfg: "cfgs = [cfg]" by blast
  with fine(4) obtain r where a: "ApplyConfig (se_provider env) (se_starting env) cfg (lc_LBProvider c) io = Some (r, pv, io')" "is_ok r"
    by (auto split: option.splits prod.splits)
  then obtain u where "ApplyConfig (se_provider env) (se_starting env) cfg (lc_LBProvider c) io = Some (Inr u, pv, io')"
    by (auto simp: is_ok_iff)
  from apply_ok [OF this] fine cfg show ?thesis by auto
qed (use assms in auto)

text \<open>A small environment in which every call succeeds.\<close>

definition success_env :: "unit sync_env" where
  "success_env = \<lparr>se_fuel = 1,
     se_controller = \<lparr>ce_meta = demo_client, ce_fetch = (\<lambda>_ _. Inr []),
       ce_process = (\<lambda>cfg _. (Inr (), cfg))\<rparr>,
     se_provider = \<lparr>pe_haproxy = \<lparr>env_command = (\<lambda>_ w. (Inr [], w)), env_pidof = (\<lambda>_. Inr ''''), env_pidFile = (\<lambda>_. Inr ''''),
         env_statProc = (\<lambda>_ _. Inr False)\<rparr>, pe_missing = (\<lambda>_ _. False), pe_mkdir = (\<lambda>_ w. (Inr (), w)),
       pe_writeFile = (\<lambda>_ _ w. (Inr (), w)), pe_create = (\<lambda>w. (Inr (), w)), pe_parse = (\<lambda>_. Inr ()),
       pe_execute = (\<lambda>_ w. (Inr (), w)), pe_close = (\<lambda>w. (Inr (), w)), pe_start = (\<lambda>w. (Inr (), w)),
       pe_reload = (\<lambda>w. (Inr (), w))\<rparr>,
     se_starting = (\<lambda>_. False)\<rparr>"

definition demo_ctl_io :: "unit io" where
  "demo_ctl_io = \<lparr>io_world = (), io_sent = []\<rparr>"

lemma demo_sync:
  "case sync success_env controller_GetName (NewLoadBalancerController init_Provider) demo_ctl_io of
     Ok (again, c, io) \<Rightarrow> \<not> again | _ \<Rightarrow> False"
  by code_simp

lemma sync_success_witness:
  "\<exists>cfg w. GetLBConfigs (se_fuel success_env) (se_controller success_env) = Ok [cfg] \<and>
     install_config (se_provider success_env) cfg () = Some (Inr (), w)"
proof -
  obtain c io where "sync success_env controller_GetName (NewLoadBalancerController init_Provider) demo_ctl_io = Ok (False, c, io)"
    using demo_sync by (auto split: outcome.splits)
  from sync_success [OF this] show ?thesis by (auto simp: NewLoadBalancerController_def demo_ctl_io_def)
qed

section \<open>Retries\<close>

definition system_keys :: "'w controller_system \<Rightarrow> string list" where
  "system_keys s = tq_items (lc_syncQueue (ks_ctl s)) @ (case ks_syncing s of None \<Rightarrow> [] | Some k \<Rightarrow> [k]) @
     ks_started s @ map fst (ks_sleeping s)"

definition controller_ok :: "'w controller_system \<Rightarrow> bool" where
  "controller_ok s \<longleftrightarrow> queue_ok (lc_syncQueue (ks_ctl s)) \<and> set (system_keys s) \<subseteq> {controller_GetName} \<and>
     lc_incrementalBackoffInterval (ks_ctl s) = 5 \<and> 0 \<le> lc_incrementalBackoff (ks_ctl s) \<and>
     5 dvd lc_incrementalBackoff (ks_ctl s) \<and> (\<forall>(k, d) \<in> set (ks_sleeping s). 5 \<le> d \<and> 5 dvd d) \<and>
     lc_stopClosed (ks_ctl s) = lc_shutdown (ks_ctl s) \<and> pv_stopped (lc_LBProvider (ks_ctl s)) = lc_shutdown (ks_ctl s) \<and>
     (tq_stopped (lc_syncQueue (ks_ctl s)) \<longrightarrow> lc_shutdown (ks_ctl s)) \<and>
     (ks_failed s \<longrightarrow> lc_shutdown (ks_ctl s) \<or> system_keys s \<noteq> [])"

lemma enqueue_name:
  assumes "queue_ok t" and "set (tq_items t) \<subseteq> {controller_GetName}"
  shows "queue_ok (Enqueue controller_GetName t)" "set (tq_items (Enqueue controller_GetName t)) \<subseteq> {controller_GetName}"
    "tq_stopped t \<or> tq_items (Enqueue controller_GetName t) \<noteq> []"
  using tq.enq_waiting [OF assms(1), of controller_GetName] tq.enq_ok [OF assms(1)] assms(2)
  by (auto simp del: Enqueue_frame simp: queue_accepts_def controller_GetName_def)

lemma enqueue_keeps: "queue_ok t \<Longrightarrow> tq_items t \<noteq> [] \<Longrightarrow> tq_items (Enqueue k t) \<noteq> []"
  using tq.enq_waiting [of t k] by (simp del: Enqueue_frame)

lemma init_controller_ok: "controller_ok (init_controller_system io)"
  by (simp add: controller_ok_def init_controller_system_def NewLoadBalancerController_def init_Provider_def
      system_keys_def queue_new_ok) (simp add: NewTaskQueue_def)

lemma controller_ok_step: "controller_step s s' \<Longrightarrow> controller_ok s \<Longrightarrow> controller_ok s'"
proof (induction rule: controller_step.induct)
  case (schedule s v)
  let ?q = "lc_syncQueue (ks_ctl s)"
  from schedule have q: "queue_ok ?q" "set (tq_items ?q) \<subseteq> {controller_GetName}"
    by (auto simp: controller_ok_def system_keys_def)
  note e = enqueue_name [OF q]
  have "system_keys s \<noteq> [] \<Longrightarrow> system_keys (s\<lparr>ks_ctl := ScheduleApplyConfig v (ks_ctl s)\<rparr>) \<noteq> []"
    using enqueue_keeps [OF q(1), of controller_GetName]
    by (auto simp: system_keys_def ScheduleApplyConfig_def simp del: Enqueue_frame split: option.splits)
  with schedule e show ?case
    by (auto simp: controller_ok_def system_keys_def ScheduleApplyConfig_def simp del: Enqueue_frame(1,2) split: option.splits)
next
  case (pop s key t)
  then obtain w where w: "tq_items (lc_syncQueue (ks_ctl s)) = key # tq_items t" "tq_stopped t = tq_stopped (lc_syncQueue (ks_ctl s))"
    by (auto simp: queue_pop_def split: list.splits)
  from pop have "queue_ok t" by (auto simp: controller_ok_def intro: queue_pop_ok)
  with pop w show ?case by (auto simp: controller_ok_def system_keys_def)
next
  case (synced s key env again c io)
  then show ?case
    by (cases rule: sync_cases [OF synced.hyps(2)]) (auto simp: controller_ok_def system_keys_def)
next
  case (sleep s ks key ks' delay c)
  then have d: "delay = lc_incrementalBackoff (ks_ctl s) + 5" "c = (ks_ctl s)\<lparr>lc_incrementalBackoff := delay\<rparr>"
    by (auto simp: requeue_begin_def controller_ok_def Let_def)
  from sleep have "5 \<le> delay" "5 dvd delay" by (auto simp: d(1) controller_ok_def)
  with sleep d(2) show ?case by (auto simp: controller_ok_def system_keys_def)
next
  case (woken s zs key delay zs')
  let ?q = "lc_syncQueue (ks_ctl s)"
  from woken have q: "queue_ok ?q" "set (tq_items ?q) \<subseteq> {controller_GetName}" "key = controller_GetName"
    by (auto simp: controller_ok_def system_keys_def)
  note e = enqueue_name [OF q(1,2)]
  from woken e q(3) show ?case
    by (auto simp: controller_ok_def system_keys_def requeue_end_def Requeue_def simp del: Enqueue_frame(1,2) split: option.splits)
next
  case (stop s r c)
  then show ?case
    by (auto simp: controller_ok_def system_keys_def controller_Stop_def provider_Stop_def split: if_splits)
next
  case (exit s)
  then show ?case
    by (auto simp: controller_ok_def system_keys_def shutdown_locked_def)
qed

lemma reachable_controller_ok: "controller_reachable s \<Longrightarrow> controller_ok s"
  by (induction rule: controller_reachable.induct) (auto intro: init_controller_ok controller_ok_step)


text \<open>A metadata service that cannot be reached: the first reconciliation fails.\<close>

definition failing_env :: "unit sync_env" where
  "failing_env = success_env\<lparr>se_controller := (se_controller success_env)\<lparr>ce_meta := demo_client\<lparr>mc_GetSelfService := Inl (Errorf '''' [])\<rparr>\<rparr>\<rparr>"

lemma failing_sync: "\<not> lc_shutdown c \<Longrightarrow> sync failing_env key c io = Ok (True, c, io)"
  by (simp add: sync_def failing_env_def success_env_def GetLBConfigs_def)

lemma demo_failed:
  "\<exists>s. controller_reachable (s :: unit controller_system) \<and> ks_failed s \<and> \<not> lc_shutdown (ks_ctl s) \<and> ks_started s = [controller_GetName] \<and>
     tq_items (lc_syncQueue (ks_ctl s)) = [] \<and> ks_syncing s = None \<and> ks_sleeping s = []"
proof -
  let ?s0 = "init_controller_system demo_ctl_io"
  let ?c1 = "ScheduleApplyConfig '''' (ks_ctl ?s0)"
  let ?s1 = "?s0\<lparr>ks_ctl := ?c1\<rparr>"
  have 1: "controller_reachable ?s1"
    by (rule controller_reachable.step [OF controller_reachable.init controller_step.schedule])
  obtain t where t: "queue_pop (lc_syncQueue ?c1) = Some (controller_GetName, t)" "tq_items t = []"
    by (simp add: ScheduleApplyConfig_def init_controller_system_def NewLoadBalancerController_def queue_pop_def
        enqueue_locked_def NewTaskQueue_def controller_GetName_def split: list.split)
  let ?s2 = "?s1\<lparr>ks_ctl := ?c1\<lparr>lc_syncQueue := t\<rparr>, ks_syncing := Some controller_GetName\<rparr>"
  have "controller_step ?s1 ?s2"
    using controller_step.pop [of ?s1 controller_GetName t] t(1) by (simp add: init_controller_system_def)
  with 1 have 2: "controller_reachable ?s2" by (rule controller_reachable.step)
  have n: "\<not> lc_shutdown (ks_ctl ?s2)"
    by (simp add: ScheduleApplyConfig_def init_controller_system_def NewLoadBalancerController_def)
  note st = controller_step.synced [of ?s2 controller_GetName failing_env True "ks_ctl ?s2" "ks_io ?s2"]
  have "controller_reachable (?s2\<lparr>ks_ctl := ks_ctl ?s2, ks_io := ks_io ?s2, ks_syncing := None,
      ks_started := ks_started ?s2 @ [controller_GetName], ks_failed := True\<rparr>)"
    using controller_reachable.step [OF 2] st failing_sync [OF n] by simp
  then show ?thesis using n t(2)
    by (intro exI conjI) (assumption, simp_all add: init_controller_system_def)
qed


section \<open>Shutdown\<close>

text \<open>
  A shutdown always fails: in every reachable state \<open>Stop\<close> stops the provider and closes the
  channel at most once and never panics, but the result is an error even the first time, so
  that the handler of the termination signal ends the program with exit code 1.
\<close>

theorem stop_reports_failure:
  assumes "controller_reachable s"
  shows "\<exists>c e. controller_Stop (ks_ctl s) = Ok (Inl e, c) \<and> lc_shutdown c \<and> lc_stopClosed c \<and>
    pv_stopped (lc_LBProvider c) \<and> handleSigterm (ks_ctl s) = Ok 1"
  using reachable_controller_ok [OF assms]
  by (cases "lc_shutdown (ks_ctl s)") (auto simp: controller_ok_def controller_Stop_def provider_Stop_def handleSigterm_def)

lemma stop_reports_failure_witness: "handleSigterm (NewLoadBalancerController init_Provider) = Ok 1"
  using stop_reports_failure [OF controller_reachable.init [of demo_ctl_io]] by (auto simp: init_controller_system_def)

end
