(* ===== verification/Event_Router.thy ===== *)
theory Event_Router
  imports Api_Client Worker_Pool Endpoints
begin

text \<open>
  The subscription to control-plane events (\<open>internal/events/listener.go\<close>), its pings
  (\<open>websocket_pings.go\<close>), and the registration of external handlers (\<open>external_handler.go\<close>,
  \<open>util.go\<close>). The websocket is the list of the messages it delivers, with what the workers do between them; the API's handler resource, the
  ticker and the dialer are parameters that act on a world.
\<close>

section \<open>The router\<close>

record PingConfig =
  pc_SendPingInterval :: int
  pc_CheckPongInterval :: int
  pc_MaxPongWait :: int

definition DefaultPingConfig :: PingConfig where
  "DefaultPingConfig = \<lparr>pc_SendPingInterval = 5000, pc_CheckPongInterval = 5000, pc_MaxPongWait = 10000\<rparr>"

record ('c, 'h) EventRouter =
  er_name :: string
  er_priority :: int
  er_apiURL :: string
  er_accessKey :: string
  er_secretKey :: string
  er_apiClient :: 'c
  er_subscribeURL :: string
  er_eventHandlers :: "(string, 'h) gomap"
  er_workerCount :: nat
  er_resourceName :: string
  er_pingConfig :: PingConfig

text \<open>The address of the websocket for an API URL.\<close>

definition subscribe_url :: "'w api_env \<Rightarrow> string \<Rightarrow> string api_result" where
  "subscribe_url env apiURL =
     (case parse_url env apiURL of
        Inl e \<Rightarrow> Inl (WrapErr ''parse event API URL: %w'' [] e)
      | Inr u \<Rightarrow>
          if u_Scheme u = ''http'' \<or> u_Scheme u = ''https''
          then Inr (url_text env (u\<lparr>u_Scheme := (if u_Scheme u = ''http'' then ''ws'' else ''wss''),
                 u_Path := TrimSuffix (u_Path u) ''/'' @ ''/subscribe'', u_RawQuery := '''', u_Fragment := ''''\<rparr>))
          else Inl (PlainErr ''unsupported event API URL scheme %q'' [u_Scheme u]))"

text \<open>\<open>newClient\<close> makes the API client when none is given; \<open>timeout\<close> is the value of \<open>defaultTimeout()\<close> in seconds.\<close>

definition NewEventRouter ::
  "'w api_env \<Rightarrow> (ClientOpts \<Rightarrow> 'c api_result) \<Rightarrow> int \<Rightarrow> string \<Rightarrow> int \<Rightarrow> string \<Rightarrow> string \<Rightarrow> string \<Rightarrow> 'c option \<Rightarrow>
   (string, 'h) gomap \<Rightarrow> string \<Rightarrow> nat \<Rightarrow> PingConfig \<Rightarrow> ('c, 'h) EventRouter api_result" where
  "NewEventRouter env newClient timeout name priority apiURL accessKey secretKey apiClient eventHandlers resourceName workerCount pingConfig =
     (case (case apiClient of
              Some c \<Rightarrow> Inr c
            | None \<Rightarrow> newClient \<lparr>co_Url = apiURL, co_AccessKey = accessKey, co_SecretKey = secretKey, co_Timeout = 1000000000 * timeout\<rparr>) of
        Inl e \<Rightarrow> Inl e
      | Inr c \<Rightarrow>
          (case subscribe_url env apiURL of
             Inl e \<Rightarrow> Inl e
           | Inr subscribeURL \<Rightarrow>
               Inr \<lparr>er_name = name, er_priority = priority, er_apiURL = apiURL, er_accessKey = accessKey, er_secretKey = secretKey,
                 er_apiClient = c, er_subscribeURL = subscribeURL, er_eventHandlers = eventHandlers, er_workerCount = workerCount,
                 er_resourceName = resourceName, er_pingConfig = pingConfig\<rparr>))"

text \<open>The handlers by event name, and the parameters of the subscription.\<close>

definition router_handlers :: "('c, 'h) EventRouter \<Rightarrow> string \<Rightarrow> (string, 'h) gomap" where
  "router_handlers router eventSuffix =
     fold (\<lambda>(event, h). AList.update (event @ eventSuffix) h) (er_eventHandlers router)
       (case map_of (er_eventHandlers router) ''ping'' of None \<Rightarrow> [] | Some h \<Rightarrow> [(''ping'', h)])"

definition subscribe_params :: "('c, 'h) EventRouter \<Rightarrow> string \<Rightarrow> url_values" where
  "subscribe_params router eventSuffix =
     fold (\<lambda>(event, h). values_add ''eventNames'' (event @ eventSuffix)) (er_eventHandlers router) []"

text \<open>\<open>subscribeToEvents\<close>: the address and the credentials given to the dialer.\<close>

definition subscription :: "'w api_env \<Rightarrow> string \<Rightarrow> string \<Rightarrow> string \<Rightarrow> url_values \<Rightarrow> (string \<times> string) api_result" where
  "subscription env subscribeURL accessKey secretKey data =
     (case parse_url env subscribeURL of
        Inl e \<Rightarrow> Inl (WrapErr ''parse event subscription URL: %w'' [] e)
      | Inr endpoint \<Rightarrow>
          Inr (url_text env (endpoint\<lparr>u_RawQuery :=
                 Encode (fold (\<lambda>(key, vs). fold (values_add key) vs) data (Query endpoint))\<rparr>),
               ''Basic '' @ base64 (accessKey @ '':'' @ secretKey)))"

text \<open>
  What the reading loop of \<open>run\<close> sees of a connection: a message, its end, and between them what the
  workers of the pool did in the meantime.
\<close>

datatype conn_event = Delivered string | ConnClosed | WorkersDid "pool \<Rightarrow> pool"

text \<open>
  The reading loop. \<open>parse\<close> is \<open>json.Unmarshal\<close> into an event: \<open>None\<close> is an error, \<open>Some None\<close> the
  JSON document \<open>null\<close>, which leaves a nil event that the pool dereferences.
\<close>

fun read_messages :: "(string \<Rightarrow> Event option option) \<Rightarrow> conn_event list \<Rightarrow> pool \<Rightarrow> pool outcome" where
  "read_messages parse [] p = Ok p"
| "read_messages parse (ConnClosed # ms) p = Ok p"
| "read_messages parse (WorkersDid f # ms) p = read_messages parse ms (f p)"
| "read_messages parse (Delivered m # ms) p =
     (let t = TrimSpace m in
      if t = '''' then read_messages parse ms p
      else case parse t of
        None \<Rightarrow> read_messages parse ms p
      | Some None \<Rightarrow> Panic
      | Some (Some event) \<Rightarrow> read_messages parse ms (HandleWork event p))"

text \<open>\<open>run\<close>: connect, read until the connection ends, stop.\<close>

definition router_run ::
  "'w api_env \<Rightarrow> (string \<Rightarrow> string \<Rightarrow> 'w \<Rightarrow> conn_event list api_result \<times> 'w) \<Rightarrow> (string \<Rightarrow> Event option option) \<Rightarrow>
   ('c, 'h) EventRouter \<Rightarrow> string \<Rightarrow> pool \<Rightarrow> 'w \<Rightarrow> (unit api_result \<times> pool \<times> 'w) outcome" where
  "router_run env dial parse router eventSuffix p w =
     (case subscription env (er_subscribeURL router) (er_accessKey router) (er_secretKey router)
             (subscribe_params router eventSuffix) of
        Inl e \<Rightarrow> Ok (Inl e, p, w)
      | Inr (url, auth) \<Rightarrow>
          (case dial url auth w of
             (Inl e, w1) \<Rightarrow> Ok (Inl e, p, w1)
           | (Inr messages, w1) \<Rightarrow> bind_out (read_messages parse messages p) (\<lambda>p1. Ok (Inr (), p1, w1))))"

text \<open>\<open>StartWithoutCreate\<close> and \<open>RunWithWorkerPool\<close>; \<open>Subscribe\<close> of the events handler runs the latter in a loop.\<close>

definition RunWithWorkerPool ::
  "'w api_env \<Rightarrow> (string \<Rightarrow> string \<Rightarrow> 'w \<Rightarrow> conn_event list api_result \<times> 'w) \<Rightarrow> (string \<Rightarrow> Event option option) \<Rightarrow>
   ('c, 'h) EventRouter \<Rightarrow> pool \<Rightarrow> 'w \<Rightarrow> (unit api_result \<times> pool \<times> 'w) outcome" where
  "RunWithWorkerPool env dial parse router p w = router_run env dial parse router '''' p w"

definition StartWithoutCreate ::
  "'w api_env \<Rightarrow> (string \<Rightarrow> string \<Rightarrow> 'w \<Rightarrow> conn_event list api_result \<times> 'w) \<Rightarrow> (string \<Rightarrow> Event option option) \<Rightarrow>
   ('c, 'h) EventRouter \<Rightarrow> 'w \<Rightarrow> (unit api_result \<times> pool \<times> 'w) outcome" where
  "StartWithoutCreate env dial parse router w =
     router_run env dial parse router '''' (SkippingWorkerPool (er_workerCount router)) w"

section \<open>Subscribing\<close>

text \<open>
  \<open>Subscribe\<close> of \<open>rancher_events_handler.go\<close>: the router it makes, and the rounds of its goroutine
  (one unit of fuel each); an error of a round is logged, and the next one follows.
\<close>

definition Subscribe ::
  "'w api_env \<Rightarrow> (ClientOpts \<Rightarrow> 'c api_result) \<Rightarrow> int \<Rightarrow> string \<Rightarrow> string \<Rightarrow> string \<Rightarrow> 'h \<Rightarrow> ('c, 'h) EventRouter api_result" where
  "Subscribe env newClient timeout cattleURL accessKey secretKey handle =
     NewEventRouter env newClient timeout '''' 0 cattleURL accessKey secretKey None
       [(''target.drain'', handle), (''ping'', handle)] '''' 250 DefaultPingConfig"

fun subscribe_rounds ::
  "nat \<Rightarrow> 'w api_env \<Rightarrow> (string \<Rightarrow> string \<Rightarrow> 'w \<Rightarrow> conn_event list api_result \<times> 'w) \<Rightarrow> (string \<Rightarrow> Event option option) \<Rightarrow>
   ('w \<Rightarrow> 'w) \<Rightarrow> ('c, 'h) EventRouter \<Rightarrow> pool \<Rightarrow> 'w \<Rightarrow> (pool \<times> 'w) outcome" where
  "subscribe_rounds 0 env dial parse pause router p w = Ok (p, w)"
| "subscribe_rounds (Suc n) env dial parse pause router p w =
     bind_out (RunWithWorkerPool env dial parse router p w)
       (\<lambda>(r, p1, w1). subscribe_rounds n env dial parse pause router p1 (pause w1))"

section \<open>Pings\<close>

text \<open>
  The pong handler: the time of the last pong and whether the connection was closed. A check that
  comes later than the allowed wait closes it; times are in milliseconds.
\<close>

record pong_state =
  ph_lastPing :: int
  ph_closed :: bool

datatype ping_event = PongAt int | CheckAt int

definition newPongHandler :: "int \<Rightarrow> pong_state" where
  "newPongHandler now = \<lparr>ph_lastPing = now, ph_closed = False\<rparr>"

fun pong_event :: "int \<Rightarrow> ping_event \<Rightarrow> pong_state \<Rightarrow> pong_state" where
  "pong_event maxWait (PongAt t) h = h\<lparr>ph_lastPing := t\<rparr>"
| "pong_event maxWait (CheckAt t) h = (if t > ph_lastPing h + maxWait then h\<lparr>ph_closed := True\<rparr> else h)"

section \<open>External handlers\<close>

record ExternalHandler =
  xh_Id :: string
  xh_Name :: string
  xh_Uuid :: string
  xh_Priority :: int
  xh_Transitioning :: string
  xh_Actions :: "string list"
  xh_ProcessConfigs :: "(string \<times> string) list"

text \<open>\<open>ha_ById\<close> gives nil for a handler that is not found; \<open>ha_tick\<close> waits for the ticker; times in milliseconds.\<close>

record 'w handler_api =
  ha_List :: "(string, string) gomap \<Rightarrow> 'w \<Rightarrow> ExternalHandler list result \<times> 'w"
  ha_ById :: "string \<Rightarrow> 'w \<Rightarrow> ExternalHandler option result \<times> 'w"
  ha_Create :: "ExternalHandler \<Rightarrow> 'w \<Rightarrow> ExternalHandler result \<times> 'w"
  ha_Deactivate :: "ExternalHandler \<Rightarrow> 'w \<Rightarrow> ExternalHandler result \<times> 'w"
  ha_Remove :: "ExternalHandler \<Rightarrow> 'w \<Rightarrow> ExternalHandler result \<times> 'w"
  ha_now :: "'w \<Rightarrow> int"
  ha_tick :: "'w \<Rightarrow> int \<times> 'w"

definition MaxWait :: int where
  "MaxWait = 10000"

text \<open>\<open>waitForTransition\<close>, with fuel: one unit per tick.\<close>

fun transition_loop ::
  "nat \<Rightarrow> 'w handler_api \<Rightarrow> ('w \<Rightarrow> bool outcome \<times> 'w) \<Rightarrow> int \<Rightarrow> 'w \<Rightarrow> unit outcome \<times> 'w" where
  "transition_loop 0 api waitFunc timeoutAt w = (OutOfFuel, w)"
| "transition_loop (Suc n) api waitFunc timeoutAt w =
     (case ha_tick api w of
        (tick, w1) \<Rightarrow>
          (case waitFunc w1 of
             (Ok finished, w2) \<Rightarrow>
               if finished then (Ok (), w2)
               else if tick > timeoutAt then (Err (Errorf ''Timed out waiting for transtion'' []), w2)
               else transition_loop n api waitFunc timeoutAt w2
           | (Err e, w2) \<Rightarrow> (Err e, w2)
           | (Panic, w2) \<Rightarrow> (Panic, w2)
           | (OutOfFuel, w2) \<Rightarrow> (OutOfFuel, w2)))"

definition waitForTransition :: "nat \<Rightarrow> 'w handler_api \<Rightarrow> ('w \<Rightarrow> bool outcome \<times> 'w) \<Rightarrow> 'w \<Rightarrow> unit outcome \<times> 'w" where
  "waitForTransition n api waitFunc w = transition_loop n api waitFunc (ha_now api w + MaxWait) w"

text \<open>\<open>doneTransitioning\<close>: the message for a missing handler reads the id of nil; also \<open>createNewHandler\<close> reads nil.\<close>

definition doneTransitioning :: "'w handler_api \<Rightarrow> string \<Rightarrow> 'w \<Rightarrow> bool outcome \<times> 'w" where
  "doneTransitioning api hid w =
     (case ha_ById api hid w of
        (Inl e, w1) \<Rightarrow> (Err e, w1)
      | (Inr None, w1) \<Rightarrow> (Panic, w1)
      | (Inr (Some h), w1) \<Rightarrow> (Ok (xh_Transitioning h \<noteq> ''yes''), w1))"

text \<open>Sequencing of calls on a world.\<close>

definition then_call :: "'a outcome \<times> 'w \<Rightarrow> ('a \<Rightarrow> 'w \<Rightarrow> 'b outcome \<times> 'w) \<Rightarrow> 'b outcome \<times> 'w" where
  "then_call r f = (case r of
      (Ok x, w) \<Rightarrow> f x w | (Err e, w) \<Rightarrow> (Err e, w) | (Panic, w) \<Rightarrow> (Panic, w) | (OutOfFuel, w) \<Rightarrow> (OutOfFuel, w))"

definition call_result :: "'a result \<times> 'w \<Rightarrow> 'a outcome \<times> 'w" where
  "call_result r = (of_result (fst r), snd r)"

text \<open>One round of the loop of \<open>removeOldHandler\<close>.\<close>

definition remove_handler :: "nat \<Rightarrow> 'w handler_api \<Rightarrow> ExternalHandler \<Rightarrow> 'w \<Rightarrow> unit outcome \<times> 'w" where
  "remove_handler n api h w =
     then_call
       (if ''deactivate'' \<in> set (xh_Actions h)
        then then_call (call_result (ha_Deactivate api h w)) (\<lambda>h1 w1.
               then_call (waitForTransition n api (doneTransitioning api (xh_Id h1)) w1) (\<lambda>_ w2. (Ok h1, w2)))
        else (Ok h, w))
       (\<lambda>h1 w1. then_call (call_result (ha_ById api (xh_Id h1) w1)) (\<lambda>h2 w2.
          case h2 of
            None \<Rightarrow> (Ok (), w2)
          | Some h3 \<Rightarrow>
              if ''remove'' \<in> set (xh_Actions h3)
              then then_call (call_result (ha_Remove api h3 w2)) (\<lambda>h4 w3.
                     waitForTransition n api (doneTransitioning api (xh_Id h4)) w3)
              else (Ok (), w2)))"

fun remove_handlers :: "nat \<Rightarrow> 'w handler_api \<Rightarrow> ExternalHandler list \<Rightarrow> 'w \<Rightarrow> unit outcome \<times> 'w" where
  "remove_handlers n api [] w = (Ok (), w)"
| "remove_handlers n api (h # hs) w = then_call (remove_handler n api h w) (\<lambda>_ w1. remove_handlers n api hs w1)"

definition removeOldHandler :: "nat \<Rightarrow> 'w handler_api \<Rightarrow> string \<Rightarrow> 'w \<Rightarrow> unit outcome \<times> 'w" where
  "removeOldHandler n api name w =
     then_call (call_result (ha_List api [(''name'', name), (''state'', ''active'')] w)) (remove_handlers n api)"

definition createNewHandler :: "nat \<Rightarrow> 'w handler_api \<Rightarrow> ExternalHandler \<Rightarrow> 'w \<Rightarrow> unit outcome \<times> 'w" where
  "createNewHandler n api externalHandler w =
     then_call (call_result (ha_Create api externalHandler w)) (\<lambda>h w1.
       waitForTransition n api (doneTransitioning api (xh_Id h)) w1)"

definition createExternalHandler :: "nat \<Rightarrow> 'w handler_api \<Rightarrow> ('c, 'h) EventRouter \<Rightarrow> 'w \<Rightarrow> unit outcome \<times> 'w" where
  "createExternalHandler n api router w =
     then_call (removeOldHandler n api (er_name router) w) (\<lambda>_ w1.
       createNewHandler n api \<lparr>xh_Id = '''', xh_Name = er_name router, xh_Uuid = er_name router, xh_Priority = er_priority router,
         xh_Transitioning = '''', xh_Actions = [],
         xh_ProcessConfigs = map (\<lambda>event. (event, ToLower (er_resourceName router) @ ''.error'')) (keys_of (er_eventHandlers router))\<rparr> w1)"

text \<open>\<open>RemoveExternalHandlers\<close>: \<open>seen\<close> are the names removed already.\<close>

fun remove_names :: "nat \<Rightarrow> 'w handler_api \<Rightarrow> string \<Rightarrow> string list \<Rightarrow> string list \<Rightarrow> 'w \<Rightarrow> unit outcome \<times> 'w" where
  "remove_names n api own seen [] w = (Ok (), w)"
| "remove_names n api own seen (name # names) w =
     (if name = '''' \<or> name = own \<or> name \<in> set seen then remove_names n api own seen names w
      else then_call (removeOldHandler n api name w) (\<lambda>_ w1. remove_names n api own (name # seen) names w1))"

definition RemoveExternalHandlers :: "nat \<Rightarrow> 'w handler_api \<Rightarrow> ('c, 'h) EventRouter \<Rightarrow> string list \<Rightarrow> 'w \<Rightarrow> unit outcome \<times> 'w" where
  "RemoveExternalHandlers n api router names w = remove_names n api (er_name router) [] names w"

text \<open>\<open>Start\<close> registers the handler first, and its events carry the router's name.\<close>

definition router_Start ::
  "nat \<Rightarrow> 'w handler_api \<Rightarrow> 'w api_env \<Rightarrow> (string \<Rightarrow> string \<Rightarrow> 'w \<Rightarrow> conn_event list api_result \<times> 'w) \<Rightarrow>
   (string \<Rightarrow> Event option option) \<Rightarrow> ('c, 'h) EventRouter \<Rightarrow> 'w \<Rightarrow> (unit api_result \<times> pool \<times> 'w) outcome" where
  "router_Start n api env dial parse router w =
     (case createExternalHandler n api router w of
        (Ok _, w1) \<Rightarrow> router_run env dial parse router ('';handler='' @ er_name router)
                        (SkippingWorkerPool (er_workerCount router)) w1
      | (Err e, w1) \<Rightarrow> Err e
      | (Panic, w1) \<Rightarrow> Panic
      | (OutOfFuel, w1) \<Rightarrow> OutOfFuel)"

end
