(* ===== verification/Api_Theorems.thy ===== *)
theory Api_Theorems
  imports Api_Client
begin

text \<open>
  What holds of the API client: its credentials stay at the origin it was set up for, redirects are
  bounded, and operations that the schemas do not allow send nothing.
\<close>

section \<open>Origins\<close>

definition at_origin :: "'w api_env \<Rightarrow> requestOrigin \<Rightarrow> URL \<Rightarrow> bool" where
  "at_origin env origin u \<longleftrightarrow> originParts env u = Inr (ro_scheme origin, ro_host origin, ro_port origin)"

text \<open>What the client relies on: hosts and users are read back as they were written, and nothing is no address.\<close>

definition url_laws :: "'w api_env \<Rightarrow> bool" where
  "url_laws env \<longleftrightarrow> reads_back (ap_authority env) (ap_hostText env) \<and> ap_parseAddr env '''' = None"

lemma originParts_cong:
  assumes "ToLower (u_Scheme u) = ToLower (u_Scheme v)" "u_Host u = u_Host v" "u_Opaque u = u_Opaque v"
  shows "originParts env u = originParts env v"
proof -
  have "Hostname u = Hostname v" "Port u = Port v" using assms(2) by (simp_all add: Hostname_def Port_def)
  then show ?thesis using assms(1,3) by (simp only: originParts_def)
qed

lemma ToLower_scheme: "ToLower (ToLower s) = ToLower s"
proof -
  have "ascii_lower (ascii_lower c) = ascii_lower c" for c
    using code_bound [of c] by (simp add: ascii_lower_def)
  then show ?thesis by (simp add: ToLower_def)
qed

lemma originParts_ok:
  assumes "originParts env u = Inr (s, h, p)" and "ap_parseAddr env '''' = None"
  shows "ToLower (u_Scheme u) = s" "s = ''http'' \<or> s = ''https''" "u_Opaque u = ''''" "u_Host u \<noteq> ''''"
proof -
  show s: "ToLower (u_Scheme u) = s" "s = ''http'' \<or> s = ''https''" "u_Opaque u = ''''"
    using assms(1) by (auto simp: originParts_def Let_def split: if_splits)
  show "u_Host u \<noteq> ''''"
  proof
    assume "u_Host u = ''''"
    then have "Hostname u = ''''" by (simp add: Hostname_def splitHostPort_def Let_def HasPrefix_def)
    with assms show False by (simp add: originParts_def Let_def ToLower_def)
  qed
qed

lemma parsed_scheme: "parsed_URL authority (u\<lparr>u_Scheme := s\<rparr>) = parsed_URL authority u"
  by (simp add: parsed_URL_def)

text \<open>An address that \<open>resolve\<close> accepts, and what \<open>String\<close> and \<open>Parse\<close> make of it, are at the origin.\<close>

lemma resolve_origin:
  assumes laws: "url_laws env" and root: "parsed_URL (ap_authority env) (ro_root origin)"
    and r: "resolve env origin value = Inr u" and v: "parse_url env (url_text env u) = Inr v"
  shows "at_origin env origin v" "parsed_URL (ap_authority env) v"
proof -
  from r obtain ref w where p: "Parse (ap_authority env) value = Some ref"
    and w: "w = ResolveReference (ro_root origin) ref"
    and o: "originParts env w = Inr (ro_scheme origin, ro_host origin, ro_port origin)"
    and u: "u = w\<lparr>u_Scheme := ro_scheme origin\<rparr>"
    by (auto simp: resolve_def parse_url_def Let_def split: if_splits option.splits sum.splits prod.splits)
  from laws have addr: "ap_parseAddr env '''' = None" by (simp add: url_laws_def)
  note ok = originParts_ok [OF o addr]
  have "parsed_URL (ap_authority env) u"
    using ResolveReference_parsed [OF root Parse_parsed [OF p]] by (simp add: u w parsed_scheme)
  with Parse_URL_String [of "ap_authority env" "ap_hostText env" u] laws ok v
  have f: "u_Scheme v = ro_scheme origin" "u_Opaque v = ''''" "u_Host v = u_Host w"
    by (auto simp: url_laws_def u parse_url_def)
  have "originParts env v = originParts env w"
    using f ok by (intro originParts_cong) (auto simp: ToLower_http)
  with o show "at_origin env origin v" by (simp add: at_origin_def)
  from v show "parsed_URL (ap_authority env) v" by (auto simp: parse_url_def split: option.splits dest: Parse_parsed)
qed

text \<open>A redirect whose text is accepted and that the transport can send is at the origin.\<close>

lemma redirect_origin:
  assumes laws: "url_laws env" and root: "parsed_URL (ap_authority env) (ro_root origin)"
    and u: "parsed_URL (ap_authority env) u" and r: "resolve env origin (url_text env u) = Inr x"
    and s: "u_Scheme u = ''http'' \<or> u_Scheme u = ''https''" and h: "u_Host u \<noteq> ''''"
  shows "at_origin env origin u"
proof -
  from u h have o: "u_Opaque u = ''''" by (auto simp: parsed_URL_def)
  from Parse_URL_String [of "ap_authority env" "ap_hostText env" u] laws u s h o
  obtain v where v: "Parse (ap_authority env) (url_text env u) = Some v" "u_Scheme v = u_Scheme u" "u_Opaque v = ''''"
    "u_Host v = u_Host u"
    by (auto simp: url_laws_def)
  define w where "w = ResolveReference (ro_root origin) v"
  have abs: "u_Scheme w = u_Scheme u" "u_Host w = u_Host u" "u_Opaque w = ''''"
    using v s by (auto simp: w_def ResolveReference_def Let_def)
  from r v(1) have "originParts env w = Inr (ro_scheme origin, ro_host origin, ro_port origin)"
    by (auto simp: resolve_def parse_url_def w_def Let_def split: if_splits sum.splits prod.splits)
  moreover have "originParts env w = originParts env u" using abs o by (intro originParts_cong) simp_all
  ultimately show ?thesis by (simp add: at_origin_def)
qed

section \<open>One exchange with its redirects\<close>

definition request_auth :: "api_request \<Rightarrow> string" where
  "request_auth req = map_get '''' (rq_Header req) ''Authorization''"

definition sendable :: "URL \<Rightarrow> bool" where
  "sendable u \<longleftrightarrow> (u_Scheme u = ''http'' \<or> u_Scheme u = ''https'') \<and> u_Host u \<noteq> ''''"

definition good_request :: "'w api_env \<Rightarrow> requestOrigin \<Rightarrow> string \<Rightarrow> api_request \<Rightarrow> bool" where
  "good_request env origin auth req \<longleftrightarrow> at_origin env origin (rq_Url req) \<and> request_auth req = auth"

text \<open>At most \<open>n\<close> requests were sent, all of them at the origin and with the credentials.\<close>

definition confined_io :: "'w api_env \<Rightarrow> requestOrigin \<Rightarrow> string \<Rightarrow> nat \<Rightarrow> 'w api_io \<Rightarrow> 'w api_io \<Rightarrow> bool" where
  "confined_io env origin auth n io io' \<longleftrightarrow>
     (\<exists>xs. ax_sent io' = ax_sent io @ xs \<and> length xs \<le> n \<and> (\<forall>x \<in> set xs. good_request env origin auth x))"

lemma confined_refl: "confined_io env origin auth n io io"
  by (simp add: confined_io_def)

lemma confined_trans:
  "confined_io env origin auth n io io1 \<Longrightarrow> confined_io env origin auth m io1 io2 \<Longrightarrow> confined_io env origin auth (n + m) io io2"
proof -
  assume "confined_io env origin auth n io io1" "confined_io env origin auth m io1 io2"
  then obtain xs ys where "ax_sent io1 = ax_sent io @ xs" "length xs \<le> n" "\<forall>x \<in> set xs. good_request env origin auth x"
    "ax_sent io2 = ax_sent io1 @ ys" "length ys \<le> m" "\<forall>x \<in> set ys. good_request env origin auth x"
    unfolding confined_io_def by blast
  then show ?thesis unfolding confined_io_def by (intro exI [of _ "xs @ ys"]) auto
qed

lemma confined_mono: "confined_io env origin auth n io io' \<Longrightarrow> n \<le> m \<Longrightarrow> confined_io env origin auth m io io'"
  unfolding confined_io_def by (meson le_trans)

lemma round_trip_confined:
  assumes "round_trip env req io = (r, io')" and "sendable (rq_Url req) \<Longrightarrow> good_request env origin auth req"
  shows "confined_io env origin auth 1 io io'"
  using assms by (auto simp: round_trip_def confined_io_def sendable_def split: if_splits prod.splits)

lemma next_request_parsed:
  "next_request env req resp = Inr (Some req1) \<Longrightarrow> parsed_URL (ap_authority env) (rq_Url req) \<Longrightarrow>
   parsed_URL (ap_authority env) (rq_Url req1)"
  by (auto simp: next_request_def split: option.split_asm prod.split_asm if_split_asm
      dest: Parse_parsed intro!: ResolveReference_parsed)

lemma check_redirectD:
  assumes "client_check_redirect env origin req1 via = Inr req2" and "via \<noteq> []"
  shows "rq_Url req2 = rq_Url req1" "request_auth req2 = request_auth (hd via)" "length via \<le> 9"
    "\<exists>x. resolve env origin (url_text env (rq_Url req1)) = Inr x"
  using assms
  by (auto simp: client_check_redirect_def Let_def request_auth_def map_get_update split: if_splits sum.splits)

lemma do_loop_cases:
  assumes "do_loop env origin via req io = (r, io')"
  obtains (stop) a where "round_trip env req io = (a, io')"
  | (again) resp io1 req1 req2 where "round_trip env req io = (Inr resp, io1)" "next_request env req resp = Inr (Some req1)"
      "client_check_redirect env origin req1 (via @ [req]) = Inr req2" "do_loop env origin (via @ [req]) req2 io1 = (r, io')"
  using assms by (subst (asm) do_loop.simps) (auto split: prod.splits sum.splits option.splits)

lemma do_loop_confined:
  assumes "url_laws env" and "parsed_URL (ap_authority env) (ro_root origin)"
  shows "do_loop env origin via req io = (r, io') \<Longrightarrow> parsed_URL (ap_authority env) (rq_Url req) \<Longrightarrow>
    (sendable (rq_Url req) \<longrightarrow> good_request env origin auth req) \<Longrightarrow> request_auth req = auth \<Longrightarrow>
    (via \<noteq> [] \<longrightarrow> request_auth (hd via) = auth) \<Longrightarrow> length via \<le> 9 \<Longrightarrow>
    confined_io env origin auth (10 - length via) io io'"
  using assms
proof (induction env origin via req io arbitrary: r io' rule: do_loop.induct)
  case (1 env origin via req io)
  have one: "confined_io env origin auth 1 io io1" if "round_trip env req io = (a, io1)" for a io1
    by (rule round_trip_confined [OF that]) (use 1(4) in simp)
  from 1(2) show ?case
  proof (cases rule: do_loop_cases)
    case (stop a)
    from one [OF this] show ?thesis using 1(7) by (auto intro: confined_mono)
  next
    case (again resp io1 req1 req2)
    note d = check_redirectD [OF again(3)]
    have "request_auth (hd (via @ [req])) = auth" using 1(5,6) by (cases via) simp_all
    moreover have "parsed_URL (ap_authority env) (rq_Url req1)" by (rule next_request_parsed [OF again(2) 1(3)])
    ultimately have "sendable (rq_Url req2) \<longrightarrow> good_request env origin auth req2"
      using redirect_origin [OF 1(8,9), of "rq_Url req1"] d by (auto simp: sendable_def good_request_def)
    with 1(1) [OF again(1) [symmetric] refl again(2) refl again(3) again(4)] 1(8,9) d \<open>request_auth (hd (via @ [req])) = auth\<close>
      \<open>parsed_URL (ap_authority env) (rq_Url req1)\<close>
    have "confined_io env origin auth (10 - length (via @ [req])) io1 io'" by simp
    from confined_trans [OF one [OF again(1)] this] show ?thesis using d(3) by (auto intro: confined_mono)
  qed
qed

lemma client_Do_confined:
  assumes "url_laws env" and "parsed_URL (ap_authority env) (ro_root origin)"
    and "client_Do env origin req io = (r, io')" and "parsed_URL (ap_authority env) (rq_Url req)"
    and "good_request env origin auth req"
  shows "confined_io env origin auth 10 io io'"
proof -
  from assms(3) obtain x where "do_loop env origin [] req io = (x, io')"
    by (auto simp: client_Do_def split: prod.splits sum.splits)
  from do_loop_confined [OF assms(1,2) this assms(4), of auth] assms(5) show ?thesis
    by (simp add: good_request_def)
qed

lemma newRequest_good:
  assumes "url_laws env" and "parsed_URL (ap_authority env) (ro_root (bc_origin c))"
    and "newRequest env c timeout m value body = Inr req" and "bc_Opts c = Some opts"
  shows "parsed_URL (ap_authority env) (rq_Url req)" "at_origin env (bc_origin c) (rq_Url req)"
    "rq_Header req = [(''Authorization'', basic_auth opts)]"
proof -
  from assms(3,4) obtain u v where u: "resolve env (bc_origin c) value = Inr u" "parse_url env (url_text env u) = Inr v"
    and req: "rq_Url req = v" "rq_Header req = [(''Authorization'', basic_auth opts)]"
    by (auto simp: newRequest_def split: sum.splits)
  from resolve_origin [OF assms(1,2) u] req
  show "parsed_URL (ap_authority env) (rq_Url req)" "at_origin env (bc_origin c) (rq_Url req)"
    "rq_Header req = [(''Authorization'', basic_auth opts)]" by simp_all
qed

text \<open>A client whose root was parsed; operations go through \<open>send_request\<close> at most once.\<close>

definition client_ok :: "'w api_env \<Rightarrow> base_client \<Rightarrow> string \<Rightarrow> bool" where
  "client_ok env c auth \<longleftrightarrow>
     parsed_URL (ap_authority env) (ro_root (bc_origin c)) \<and> map_option basic_auth (bc_Opts c) = Some auth"

lemma send_request_confined:
  assumes "url_laws env" and "client_ok env c auth" and "send_request env c m value body headers io = Some (r, io')"
  shows "confined_io env (bc_origin c) auth 10 io io'"
proof -
  from assms(2) obtain opts where o: "bc_Opts c = Some opts" "basic_auth opts = auth"
    and root: "parsed_URL (ap_authority env) (ro_root (bc_origin c))"
    by (auto simp: client_ok_def)
  from assms(3) consider "io' = io" | timeout req where "newRequest env c timeout m value body = Inr req"
      "client_Do env (bc_origin c) (req\<lparr>rq_Header := rq_Header req @ headers\<rparr>) io = (r, io')"
    by (auto simp: send_request_def split: option.splits sum.splits)
  then show ?thesis
  proof cases
    case 1
    then show ?thesis by (simp add: confined_refl)
  next
    case 2
    note g = newRequest_good [OF assms(1) root 2(1) o(1)]
    show ?thesis
      by (rule client_Do_confined [OF assms(1) root 2(2)])
        (use g o(2) in \<open>simp_all add: good_request_def request_auth_def at_origin_def\<close>)
  qed
qed

section \<open>Operations\<close>

text \<open>The operations of a client, and the state after one of them (\<open>None\<close>: it panicked).\<close>

datatype api_call =
    ListCall string "(string, filter_value) gomap"
  | NextCall string
  | PostCall string "string api_result"
  | LinkCall Resource string
  | CreateCall string "string api_result"
  | UpdateCall string "Resource option" "string api_result"
  | ByIdCall string string
  | DeleteCall "Resource option"
  | ReloadCall Resource
  | ActionCall string string "Resource option" "string api_result option"

fun call_io :: "'w api_env \<Rightarrow> base_client \<Rightarrow> (string \<Rightarrow> 'a option) \<Rightarrow> api_call \<Rightarrow> 'w api_io \<Rightarrow> 'w api_io option" where
  "call_io env c parse (ListCall t fs) io = map_option snd (doList env c parse t fs io)"
| "call_io env c parse (NextCall url) io = map_option snd (doNext env c parse url io)"
| "call_io env c parse (PostCall url b) io = map_option snd (Post env c parse url b io)"
| "call_io env c parse (LinkCall r l) io = map_option snd (GetLink env c parse r l io)"
| "call_io env c parse (CreateCall t b) io = map_option snd (doCreate env c parse t b io)"
| "call_io env c parse (UpdateCall t r b) io = map_option snd (doUpdate env c parse t r b io)"
| "call_io env c parse (ByIdCall t i) io = map_option snd (doById env c parse t i io)"
| "call_io env c parse (DeleteCall r) io = map_option snd (Delete env c r io)"
| "call_io env c parse (ReloadCall r) io = map_option snd (Reload env c parse r io)"
| "call_io env c parse (ActionCall t a r b) io = map_option snd (doAction env c parse t a r b io)"

fun run_calls :: "'w api_env \<Rightarrow> base_client \<Rightarrow> (string \<Rightarrow> 'a option) \<Rightarrow> api_call list \<Rightarrow> 'w api_io \<Rightarrow> 'w api_io option" where
  "run_calls env c parse [] io = Some io"
| "run_calls env c parse (call # calls) io =
     (case call_io env c parse call io of None \<Rightarrow> None | Some io1 \<Rightarrow> run_calls env c parse calls io1)"

definition sends_once :: "'w api_env \<Rightarrow> base_client \<Rightarrow> 'w api_io \<Rightarrow> 'w api_io \<Rightarrow> bool" where
  "sends_once env c io io' \<longleftrightarrow> io' = io \<or> (\<exists>m v b h r. send_request env c m v b h io = Some (r, io'))"

lemma sends_once_refl: "sends_once env c io io"
  by (simp add: sends_once_def)

lemma map_answer: "(case a of Inl e \<Rightarrow> (Inl e, io1) | Inr x \<Rightarrow> (f x, io1)) = (r, io') \<Longrightarrow> io1 = io'"
  by (cases a) auto

lemma doDelete_once: "doDelete env c url io = Some (r, io') \<Longrightarrow> sends_once env c io io'"
  unfolding doDelete_def sends_once_def by (auto dest!: map_answer)

lemma doGet_once: "doGet env c parse url fs io = Some (r, io') \<Longrightarrow> sends_once env c io io'"
  unfolding doGet_def sends_once_def by (cases "appendFilters env url fs") (auto dest!: map_answer)

lemma doModify_once: "doModify env c parse m url b io = Some (r, io') \<Longrightarrow> sends_once env c io io'"
  unfolding doModify_def sends_once_def by (cases b) (auto dest!: map_answer)

lemma doAction_once:
  assumes "doAction env c parse t a res b io = Some (r, io')"
  shows "sends_once env c io io'"
proof (cases res)
  case (Some x)
  then show ?thesis
  proof (cases "map_of (res_Actions x) a")
    case url: (Some url)
    show ?thesis
    proof (cases "map_of (bc_Types c) t")
      case (Some sm)
      show ?thesis
      proof (cases "case b of None \<Rightarrow> Inr None | Some (Inl e) \<Rightarrow> Inl e | Some (Inr x) \<Rightarrow> Inr (Some x)")
        case (Inl e)
        with assms Some url \<open>res = Some x\<close> show ?thesis by (simp add: doAction_def sends_once_def)
      next
        case (Inr body)
        with assms Some url \<open>res = Some x\<close> show ?thesis
          unfolding doAction_def sends_once_def by (auto dest!: map_answer)
      qed
    qed (use assms url Some in \<open>simp add: doAction_def sends_once_def\<close>)
  qed (use assms Some in \<open>simp add: doAction_def sends_once_def\<close>)
qed (use assms in \<open>simp add: doAction_def sends_once_def\<close>)

lemmas op_once = doDelete_once doGet_once doModify_once doAction_once sends_once_refl

lemma call_once: "call_io env c parse call io = Some io' \<Longrightarrow> sends_once env c io io'"
  by (cases call)
    (auto simp: doList_def doNext_def Post_def GetLink_def doCreate_def doUpdate_def doById_def Delete_def
      doResourceDelete_def Reload_def Let_def intro: op_once split: option.splits if_splits)

lemma call_confined:
  "url_laws env \<Longrightarrow> client_ok env c auth \<Longrightarrow> call_io env c parse call io = Some io' \<Longrightarrow>
   confined_io env (bc_origin c) auth 10 io io'"
  using call_once [of env c parse call io io'] send_request_confined [of env c auth]
  by (auto simp: sends_once_def confined_refl)

section \<open>A client that was set up\<close>

lemma newRequestOriginD:
  assumes "newRequestOrigin env s = Inr origin"
  shows "parsed_URL (ap_authority env) (ro_root origin)"
    "\<exists>u. parse_url env s = Inr u \<and> at_origin env origin u"
  using assms
  by (auto simp: newRequestOrigin_def parse_url_def at_origin_def parsed_scheme
      split: option.split_asm sum.split_asm prod.split_asm dest: Parse_parsed)

lemma newRequest_Do:
  assumes "url_laws env" and "client_ok env c auth" and "newRequest env c timeout m value body = Inr req"
    and "client_Do env (bc_origin c) req io = (r, io')"
  shows "confined_io env (bc_origin c) auth 10 io io'"
proof -
  from assms(2) obtain opts where o: "bc_Opts c = Some opts" "basic_auth opts = auth"
    and root: "parsed_URL (ap_authority env) (ro_root (bc_origin c))"
    by (auto simp: client_ok_def)
  note g = newRequest_good [OF assms(1) root assms(3) o(1)]
  show ?thesis
    by (rule client_Do_confined [OF assms(1) root assms(4) g(1)])
      (use g o(2) in \<open>simp add: good_request_def request_auth_def\<close>)
qed

lemma fetch_schemas_confined:
  assumes "url_laws env" and "client_ok env c auth" and "fetch_schemas env c timeout url resp io = (r, io')"
  shows "confined_io env (bc_origin c) auth 10 io io'"
proof -
  from assms(3) consider "io' = io" | req x where "newRequest env c timeout ''GET'' (rs_Schemas resp) None = Inr req"
      "client_Do env (bc_origin c) req io = (x, io')"
    by (auto simp: fetch_schemas_def split: if_split_asm sum.split_asm prod.split_asm)
  then show ?thesis
  proof cases
    case 1
    then show ?thesis by (simp add: confined_refl)
  next
    case 2
    show ?thesis by (rule newRequest_Do [OF assms(1,2) 2])
  qed
qed

lemma store_schemas_frame:
  "store_schemas env c resp = (r, c') \<Longrightarrow> bc_origin c' = bc_origin c \<and> bc_Opts c' = bc_Opts c"
  by (auto simp: store_schemas_def split: sum.splits option.splits)

lemma setup_schemas_confined:
  assumes "url_laws env" and ok: "client_ok env c auth" and "setup_schemas env c timeout url io = (r, c', io')"
  shows "confined_io env (bc_origin c) auth 20 io io'" "bc_origin c' = bc_origin c" "bc_Opts c' = bc_Opts c"
proof -
  note twenty = confined_mono [of env "bc_origin c" auth 10]
  have "confined_io env (bc_origin c) auth 20 io io' \<and> bc_origin c' = bc_origin c \<and> bc_Opts c' = bc_Opts c"
  proof (cases "newRequest env c timeout ''GET'' url None")
    case (Inl e)
    with assms(3) show ?thesis by (simp add: setup_schemas_def confined_refl)
  next
    case q: (Inr req)
    obtain a io1 where d: "client_Do env (bc_origin c) req io = (a, io1)" by (cases "client_Do env (bc_origin c) req io")
    note one = newRequest_Do [OF assms(1) ok q d]
    show ?thesis
    proof (cases "\<exists>resp. a = Inr resp \<and> rs_StatusCode resp = 200 \<and> rs_Schemas resp \<noteq> ''''")
      case False
      then have "c' = c" "io' = io1" using assms(3) q d by (auto simp: setup_schemas_def split: sum.split_asm if_split_asm)
      with one show ?thesis by (simp add: twenty)
    next
      case True
      then obtain resp where resp: "a = Inr resp" "rs_StatusCode resp = 200" "rs_Schemas resp \<noteq> ''''" by blast
      obtain b io2 where f: "fetch_schemas env c timeout url resp io1 = (b, io2)"
        by (cases "fetch_schemas env c timeout url resp io1")
      have "io' = io2 \<and> bc_origin c' = bc_origin c \<and> bc_Opts c' = bc_Opts c"
        using assms(3) q d f resp
        by (auto simp: setup_schemas_def dest!: store_schemas_frame split: sum.split_asm prod.split_asm)
      with confined_trans [OF one fetch_schemas_confined [OF assms(1) ok f]] show ?thesis by simp
    qed
  qed
  then show "confined_io env (bc_origin c) auth 20 io io'" "bc_origin c' = bc_origin c" "bc_Opts c' = bc_Opts c"
    by simp_all
qed

lemma setup_confined:
  assumes laws: "url_laws env" and s: "setupRancherBaseClient env c0 opts io = (Inr (), c, io')"
  shows "client_ok env c (basic_auth opts)" "confined_io env (bc_origin c) (basic_auth opts) 20 io io'"
    "\<exists>url u. NormalizeUrl env (co_Url opts) = Inr url \<and> parse_url env url = Inr u \<and> at_origin env (bc_origin c) u"
proof -
  from s obtain url origin t where n: "NormalizeUrl env (co_Url opts) = Inr url" "newRequestOrigin env url = Inr origin"
    and u: "setup_schemas env (c0\<lparr>bc_origin := origin, bc_Opts := Some (opts\<lparr>co_Url := url, co_Timeout := t\<rparr>)\<rparr>) t url io = (Inr (), c, io')"
    by (auto simp: setupRancherBaseClient_def Let_def split: sum.split_asm)
  let ?c = "c0\<lparr>bc_origin := origin, bc_Opts := Some (opts\<lparr>co_Url := url, co_Timeout := t\<rparr>)\<rparr>"
  have ok: "client_ok env ?c (basic_auth opts)"
    using newRequestOriginD(1) [OF n(2)] by (simp add: client_ok_def basic_auth_def)
  note c = setup_schemas_confined [OF laws ok u]
  from c ok show "client_ok env c (basic_auth opts)" "confined_io env (bc_origin c) (basic_auth opts) 20 io io'"
    by (simp_all add: client_ok_def)
  from newRequestOriginD(2) [OF n(2)] n(1) c(2)
  show "\<exists>url u. NormalizeUrl env (co_Url opts) = Inr url \<and> parse_url env url = Inr u \<and> at_origin env (bc_origin c) u"
    by auto
qed

text \<open>The root that the client adds to an address keeps its origin.\<close>

lemma NormalizeUrl_origin:
  assumes laws: "url_laws env" and u: "parse_url env s = Inr u" and p: "originParts env u = Inr p"
    and n: "NormalizeUrl env s = Inr url" and v: "parse_url env url = Inr v"
  shows "originParts env v = Inr p"
proof -
  obtain sch h port where "p = (sch, h, port)" by (cases p)
  with p have o: "originParts env u = Inr (sch, h, port)" by simp
  from laws have addr: "ap_parseAddr env '''' = None" by (simp add: url_laws_def)
  note ok = originParts_ok [OF o addr]
  obtain path where url: "url = url_text env (u\<lparr>u_Path := path\<rparr>)"
    using n u by (auto simp: NormalizeUrl_def split: if_splits) (metis URL.surjective URL.update_convs(5))
  have w: "parsed_URL (ap_authority env) (u\<lparr>u_Path := path\<rparr>)"
    using u by (auto simp: parse_url_def parsed_URL_def split: option.splits dest!: Parse_parsed)
  have low: "u_Scheme u = ''http'' \<or> u_Scheme u = ''https''"
    using u ok(1,2) Parse_lower [of "ap_authority env" s u] by (auto simp: parse_url_def ToLower_scheme split: option.splits)
  from Parse_URL_String [of "ap_authority env" "ap_hostText env" "u\<lparr>u_Path := path\<rparr>"] laws w low ok(3,4) v url
  have "u_Scheme v = u_Scheme u" "u_Opaque v = ''''" "u_Host v = u_Host u"
    by (auto simp: url_laws_def parse_url_def)
  with ok have "originParts env v = originParts env u" by (intro originParts_cong) simp_all
  with p show ?thesis by simp
qed

lemma setup_at_origin:
  assumes laws: "url_laws env" and url: "parse_url env (co_Url opts) = Inr u" and p: "originParts env u = Inr p"
    and s: "setupRancherBaseClient env c0 opts io = (Inr (), c, io1)"
  shows "p = (ro_scheme (bc_origin c), ro_host (bc_origin c), ro_port (bc_origin c))"
proof -
  from setup_confined(3) [OF laws s] obtain t v where v: "NormalizeUrl env (co_Url opts) = Inr t" "parse_url env t = Inr v"
    "at_origin env (bc_origin c) v"
    by blast
  from NormalizeUrl_origin [OF laws url p v(1,2)] v(3) show ?thesis by (simp add: at_origin_def)
qed

text \<open>
  C11 The credentials stay at home. Let a client be set up for a URL, and let any operations
  follow, whatever addresses the schemas, links, actions, pages and redirects of the answers
  contain: every request that is sent has the scheme, the host and the port of the configured URL,
  and carries the credentials it was set up with.
\<close>

theorem credentials_confined:
  assumes laws: "url_laws env" and url: "parse_url env (co_Url opts) = Inr u" and p: "originParts env u = Inr p"
    and s: "setupRancherBaseClient env new_base_client opts io = (Inr (), c, io1)"
    and r: "run_calls env c parse calls io1 = Some io2"
  shows "\<exists>xs. ax_sent io2 = ax_sent io @ xs \<and>
    (\<forall>x \<in> set xs. originParts env (rq_Url x) = Inr p \<and> request_auth x = basic_auth opts)"
proof -
  note sc = setup_confined [OF laws s]
  note origin = setup_at_origin [OF laws url p s]
  have "\<exists>n. confined_io env (bc_origin c) (basic_auth opts) n io1 io2"
    using r
  proof (induction calls arbitrary: io1)
    case (Cons call calls)
    then obtain io3 where "call_io env c parse call io1 = Some io3" "run_calls env c parse calls io3 = Some io2"
      by (auto split: option.splits)
    with call_confined [OF laws sc(1)] Cons.IH confined_trans show ?case by metis
  qed (auto simp: confined_refl)
  with confined_trans [OF sc(2)] obtain n where "confined_io env (bc_origin c) (basic_auth opts) n io io2" by blast
  then show ?thesis by (auto simp: confined_io_def good_request_def at_origin_def origin)
qed

definition is_ok_api :: "'a api_result \<Rightarrow> bool" where
  "is_ok_api r = (case r of Inl _ \<Rightarrow> False | Inr _ \<Rightarrow> True)"

text \<open>An environment whose control plane serves one schema and sends a listing to another host.\<close>

definition demo_schema :: Schema where
  "demo_schema = \<lparr>res_Id = ''service'', res_Type = ''schema'', res_Links = [(''collection'', ''/v2-beta/services'')],
     res_Actions = [], sm_PluralName = ''services'', sm_ResourceMethods = [''GET''], sm_CollectionMethods = [''GET'']\<rparr>"

definition demo_answer :: "int \<Rightarrow> string \<Rightarrow> string \<Rightarrow> string \<Rightarrow> api_response" where
  "demo_answer status location schemas body = \<lparr>rs_StatusCode = status, rs_Status = '''', rs_Location = location,
     rs_Schemas = schemas, rs_Body = body, rs_BodyErr = None\<rparr>"

definition demo_api_env :: "unit api_env" where
  "demo_api_env = \<lparr>ap_authority = (\<lambda>a. if ctl_free a \<and> CHR ''/'' \<notin> set a \<and> CHR ''?'' \<notin> set a then Some (None, a) else None),
     ap_hostText = (\<lambda>_ h. h), ap_parseAddr = (\<lambda>_. None),
     ap_exchange = (\<lambda>req w. (Inr (if u_Path (rq_Url req) = ''/v2-beta'' then demo_answer 200 '''' ''http://c/v2-beta'' ''schemas''
        else if u_Path (rq_Url req) = ''/v2-beta/services'' then demo_answer 302 ''http://c/v2-beta/list'' '''' ''''
        else demo_answer 302 ''http://evil/v2-beta/list'' '''' ''''), w)),
     ap_errorData = (\<lambda>_. None), ap_schemas = (\<lambda>s. if s = ''schemas'' then Some [demo_schema] else None),
     ap_defaultTimeout = 10\<rparr>"

definition demo_opts :: ClientOpts where
  "demo_opts = \<lparr>co_Url = ''HTTP://c/v1'', co_AccessKey = ''key'', co_SecretKey = ''secret'', co_Timeout = 0\<rparr>"

lemma demo_laws: "url_laws demo_api_env"
  by (auto simp: url_laws_def reads_back_def demo_api_env_def split: if_splits)

definition demo_base_client :: base_client where
  "demo_base_client = fst (snd (setupRancherBaseClient demo_api_env new_base_client demo_opts \<lparr>ax_world = (), ax_sent = []\<rparr>))"

lemma demo_base: "case parse_url demo_api_env ''HTTP://c/v1'' of Inl _ \<Rightarrow> False
   | Inr u \<Rightarrow> originParts demo_api_env u = Inr (''http'', ''c'', ''80'')"
  by code_simp

lemma demo_setup:
  "case setupRancherBaseClient demo_api_env new_base_client demo_opts \<lparr>ax_world = (), ax_sent = []\<rparr> of
     (r, c, io) \<Rightarrow> is_ok_api r \<and> length (ax_sent io) = 1 \<and>
       map_option (\<lambda>io'. map (u_Path \<circ> rq_Url) (ax_sent io')) (run_calls demo_api_env c (\<lambda>_. Some ()) [ListCall ''service'' []] io) =
         Some [''/v2-beta'', ''/v2-beta/services'', ''/v2-beta/list'']"
  by code_simp

lemma credentials_confined_witness:
  "case setupRancherBaseClient demo_api_env new_base_client demo_opts \<lparr>ax_world = (), ax_sent = []\<rparr> of
     (r, c, io) \<Rightarrow>
       (case run_calls demo_api_env c (\<lambda>_. Some ()) [ListCall ''service'' []] io of
          None \<Rightarrow> False
        | Some io' \<Rightarrow> length (ax_sent io') = 3 \<and>
            list_all (\<lambda>x. originParts demo_api_env (rq_Url x) = Inr (''http'', ''c'', ''80'')) (ax_sent io'))"
proof -
  obtain r c io where s: "setupRancherBaseClient demo_api_env new_base_client demo_opts \<lparr>ax_world = (), ax_sent = []\<rparr> = (r, c, io)"
    by (metis prod_cases3)
  from demo_setup s have "is_ok_api r" by simp
  then have r: "r = Inr ()" by (cases r) (simp_all add: is_ok_api_def)
  from demo_setup s obtain io' where i: "run_calls demo_api_env c (\<lambda>_. Some ()) [ListCall ''service'' []] io = Some io'"
    "map (u_Path \<circ> rq_Url) (ax_sent io') = [''/v2-beta'', ''/v2-beta/services'', ''/v2-beta/list'']"
    by auto
  from demo_base obtain u where u: "parse_url demo_api_env (co_Url demo_opts) = Inr u"
    "originParts demo_api_env u = Inr (''http'', ''c'', ''80'')"
    by (auto simp: demo_opts_def split: sum.splits)
  from i(2) have "length (ax_sent io') = 3"
    by (metis length_map list.size(3,4) numeral_3_eq_3 One_nat_def add_0_left plus_1_eq_Suc add.commute)
  with credentials_confined [OF demo_laws u s [unfolded r] i(1)] s i(1) show ?thesis
    by (auto simp: list_all_iff)
qed

section \<open>How many requests\<close>

lemma do_loop_length:
  "do_loop env origin via req io = (r, io') \<Longrightarrow> length via \<le> 9 \<Longrightarrow>
   length (ax_sent io') \<le> length (ax_sent io) + (10 - length via)"
proof (induction env origin via req io arbitrary: r io' rule: do_loop.induct)
  case (1 env origin via req io)
  have one: "length (ax_sent io1) \<le> length (ax_sent io) + 1" if "round_trip env req io = (a, io1)" for a io1
    using that by (auto simp: round_trip_def split: if_splits prod.splits)
  from 1(2) show ?case
  proof (cases rule: do_loop_cases)
    case (stop a)
    from one [OF this] 1(3) show ?thesis by simp
  next
    case (again resp io1 req1 req2)
    from check_redirectD(3) [OF again(3)] have l: "length (via @ [req]) \<le> 9" by simp
    from 1(1) [OF again(1) [symmetric] refl again(2) refl again(3) again(4) l] one [OF again(1)] l show ?thesis by simp
  qed
qed

lemma client_Do_length:
  "client_Do env origin req io = (r, io') \<Longrightarrow> length (ax_sent io') \<le> length (ax_sent io) + 10"
  using do_loop_length [of env origin "[]" req io] by (auto simp: client_Do_def split: prod.splits sum.splits)

lemma send_request_length:
  "send_request env c m v b h io = Some (r, io') \<Longrightarrow> length (ax_sent io') \<le> length (ax_sent io) + 10"
  by (auto simp: send_request_def dest!: client_Do_length split: option.split_asm sum.split_asm)

text \<open>
  No answer keeps the client busy: an operation sends at most ten requests, the first one and
  nine redirects, whatever the control plane answers.
\<close>

theorem requests_bounded:
  assumes "call_io env c parse call io = Some io'"
  shows "length (ax_sent io') \<le> length (ax_sent io) + 10"
  using call_once [OF assms] by (auto simp: sends_once_def dest: send_request_length)

text \<open>A control plane that redirects every request to itself.\<close>

definition loop_api_env :: "unit api_env" where
  "loop_api_env = demo_api_env\<lparr>ap_exchange := (\<lambda>req w. (Inr (demo_answer 302 ''http://c/v1'' '''' ''''), w))\<rparr>"

definition loop_client :: base_client where
  "loop_client = new_base_client\<lparr>bc_Opts := Some demo_opts,
     bc_origin := \<lparr>ro_root = empty_URL\<lparr>u_Scheme := ''http'', u_Host := ''c''\<rparr>, ro_scheme = ''http'', ro_host = ''c'', ro_port = ''80''\<rparr>\<rparr>"

lemma loop_sent:
  "map_option (\<lambda>io. length (ax_sent io)) (call_io loop_api_env loop_client (\<lambda>_. Some ()) (NextCall ''/v1'') \<lparr>ax_world = (), ax_sent = []\<rparr>) = Some 10"
  by code_simp

lemma requests_bounded_witness:
  "\<exists>io'. call_io loop_api_env loop_client (\<lambda>_. Some ()) (NextCall ''/v1'') \<lparr>ax_world = (), ax_sent = []\<rparr> = Some io' \<and>
     length (ax_sent io') = 10 \<and> length (ax_sent io') \<le> length ([] :: api_request list) + 10"
  using loop_sent requests_bounded [of loop_api_env loop_client "\<lambda>_. Some ()" "NextCall ''/v1''" "\<lparr>ax_world = (), ax_sent = []\<rparr>"]
  by (auto simp del: call_io.simps)

section \<open>What the schemas allow\<close>

text \<open>The schema conditions of an operation, and the address that the operation needs.\<close>

definition schema_has :: "base_client \<Rightarrow> string \<Rightarrow> (Schema \<Rightarrow> bool) \<Rightarrow> bool" where
  "schema_has c t P = (case map_of (bc_Types c) t of None \<Rightarrow> False | Some sm \<Rightarrow> P sm)"

fun call_allowed :: "base_client \<Rightarrow> api_call \<Rightarrow> bool" where
  "call_allowed c (ListCall t fs) =
     schema_has c t (\<lambda>sm. ''GET'' \<in> set (sm_CollectionMethods sm) \<and> has_key (res_Links sm) ''collection'')"
| "call_allowed c (NextCall url) = True"
| "call_allowed c (PostCall url b) = True"
| "call_allowed c (LinkCall r l) = (map_get '''' (res_Links r) l \<noteq> '''')"
| "call_allowed c (CreateCall t b) = schema_has c t (\<lambda>sm. ''POST'' \<in> set (sm_CollectionMethods sm))"
| "call_allowed c (UpdateCall t r b) = (schema_has c t (\<lambda>sm. ''PUT'' \<in> set (sm_ResourceMethods sm)) \<and>
     (case r of None \<Rightarrow> False | Some x \<Rightarrow> has_key (res_Links x) ''self''))"
| "call_allowed c (ByIdCall t i) =
     schema_has c t (\<lambda>sm. ''GET'' \<in> set (sm_ResourceMethods sm) \<and> has_key (res_Links sm) ''collection'')"
| "call_allowed c (DeleteCall r) = (case r of None \<Rightarrow> False | Some x \<Rightarrow> has_key (res_Links x) ''self'' \<and>
     schema_has c (res_Type x) (\<lambda>sm. ''DELETE'' \<in> set (sm_ResourceMethods sm)))"
| "call_allowed c (ReloadCall r) = has_key (res_Links r) ''self''"
| "call_allowed c (ActionCall t a r b) = (schema_has c t (\<lambda>_. True) \<and>
     (case r of None \<Rightarrow> False | Some x \<Rightarrow> has_key (res_Actions x) a))"

text \<open>
  The schemas decide: an operation on a type that the control plane did not describe, with a
  method that the schema does not list, or on a resource without the link or action it needs,
  returns without a panic and sends nothing, also on a client that was never set up.
\<close>

theorem schemas_guard:
  assumes "\<not> call_allowed c call"
  shows "call_io env c parse call io = Some io"
  using assms
  by (cases call)
    (auto simp: schema_has_def doList_def GetLink_def doCreate_def doUpdate_def doById_def Delete_def
      doResourceDelete_def Reload_def doAction_def Let_def split: option.splits)

lemma schemas_guard_witness:
  "call_io demo_api_env new_base_client (\<lambda>_. Some ()) (CreateCall ''service'' (Inr ''body'')) \<lparr>ax_world = (), ax_sent = []\<rparr> =
   Some \<lparr>ax_world = (), ax_sent = []\<rparr>"
  by (rule schemas_guard) (simp add: schema_has_def new_base_client_def)

end
