(* ===== verification/Event_Router_Theorems.thy ===== *)
theory Event_Router_Theorems
  imports Event_Router Api_Theorems
begin

text \<open>
  What holds of the event subscription: where it connects and with which parameters, what happens
  to the messages, how long the transition of a handler is waited for, and when a silent
  connection is closed.
\<close>

section \<open>Messages\<close>

text \<open>What a connection means for the pool: the actions on it up to its end, or up to a nil event.\<close>

fun pool_actions :: "(string \<Rightarrow> Event option option) \<Rightarrow> conn_event list \<Rightarrow> (pool \<Rightarrow> pool) list" where
  "pool_actions parse [] = []"
| "pool_actions parse (ConnClosed # ms) = []"
| "pool_actions parse (WorkersDid f # ms) = f # pool_actions parse ms"
| "pool_actions parse (Delivered m # ms) =
     (case parse (TrimSpace m) of
        Some (Some e) \<Rightarrow> (if TrimSpace m = '''' then [] else [HandleWork e])
      | _ \<Rightarrow> []) @ pool_actions parse ms"

definition is_open :: "conn_event \<Rightarrow> bool" where
  "is_open m = (case m of ConnClosed \<Rightarrow> False | _ \<Rightarrow> True)"

definition nil_message :: "(string \<Rightarrow> Event option option) \<Rightarrow> conn_event \<Rightarrow> bool" where
  "nil_message parse m =
     (case m of Delivered t \<Rightarrow> TrimSpace t \<noteq> '''' \<and> parse (TrimSpace t) = Some None | _ \<Rightarrow> False)"

text \<open>
  Every message of a connection is handled in order, whatever the workers do in between: blank
  and malformed ones are skipped, and each event goes to the pool, until the connection is closed.
  But the JSON document \<open>null\<close> leaves a nil event, and the first such message ends the program.
\<close>

theorem messages_handled:
  "read_messages parse ms p =
     (if list_ex (nil_message parse) (takeWhile is_open ms) then Panic
      else Ok (fold (\<lambda>act q. act q) (pool_actions parse ms) p))"
  by (induction parse ms p rule: read_messages.induct)
    (auto simp: is_open_def nil_message_def Let_def split: option.split)

text \<open>
  A connection keeps the pool in a reachable state, whatever messages it delivers, when what
  happens in between are steps of the workers: every invariant of the pool holds after it.
\<close>

theorem connection_keeps_pool:
  assumes "pool_reachable lock n p" and "read_messages parse ms p = Ok p'"
    and "\<And>f q. WorkersDid f \<in> set ms \<Longrightarrow> pool_reachable lock n q \<Longrightarrow> pool_reachable lock n (f q)"
  shows "pool_reachable lock n p'"
  using assms
proof (induction parse ms p rule: read_messages.induct)
  case (4 parse m ms p)
  have "pool_reachable lock n (HandleWork e p)" for e
    using 4(4) by (rule pool_reachable.step) (rule pool_step.handle)
  with 4 show ?case by (auto simp: Let_def split: if_split_asm option.split_asm)
qed auto

lemma connection_keeps_pool_witness:
  "pool_reachable nopLocker 1 (HandleWork zero_Event (SkippingWorkerPool 1))"
  by (rule connection_keeps_pool [OF pool_reachable.start [of nopLocker 1],
        of "\<lambda>_. Some (Some zero_Event)" "[WorkersDid id, Delivered ''{}'', ConnClosed]"])
    (auto simp: TrimSpace_def is_space_def)

section \<open>The address of the subscription\<close>

lemma values_gomap: "is_gomap m \<Longrightarrow> is_gomap (values_add k v m)"
  unfolding values_add_def by (rule is_gomap_update)

lemma fold_add_get:
  "map_get [] (fold (values_add key) vs m) k = (if k = key then map_get [] m k @ vs else map_get [] m k)"
  by (induction vs arbitrary: m) (auto simp: values_add_get)

lemma fold_add_gomap: "is_gomap m \<Longrightarrow> is_gomap (fold (values_add key) vs m)"
  by (induction vs arbitrary: m) (auto intro: values_gomap)

text \<open>Adding all values of one set of parameters to another.\<close>

abbreviation (input) "add_all data m \<equiv> fold (\<lambda>(key, vs). fold (values_add key) vs) data m"

lemma add_all_get: "is_gomap data \<Longrightarrow> map_get [] (add_all data m) k = map_get [] m k @ map_get [] data k"
proof (induction data arbitrary: m)
  case (Cons p data)
  obtain key vs where p: "p = (key, vs)" by (cases p)
  have "map_get [] data key = []" using Cons.prems p by (simp add: map_get_def map_of_eq_None_iff [THEN iffD2])
  with Cons p show ?case by (simp add: fold_add_get)
qed simp

lemma add_all_gomap: "is_gomap m \<Longrightarrow> is_gomap (add_all data m)"
  by (induction data arbitrary: m) (auto intro: fold_add_gomap)

lemma subscribe_params_get:
  "map_get [] (subscribe_params router suffix) ''eventNames'' = map (\<lambda>e. e @ suffix) (keys_of (er_eventHandlers router))"
  "is_gomap (subscribe_params router suffix)"
proof -
  have "map_get [] (fold (\<lambda>(event, h). values_add ''eventNames'' (event @ suffix)) hs m) ''eventNames'' =
      map_get [] m ''eventNames'' @ map (\<lambda>e. e @ suffix) (map fst hs)" for hs :: "(string \<times> 'b) list" and m
    by (induction hs arbitrary: m) (auto simp: values_add_get)
  then show "map_get [] (subscribe_params router suffix) ''eventNames'' = map (\<lambda>e. e @ suffix) (keys_of (er_eventHandlers router))"
    by (simp add: subscribe_params_def)
  have "is_gomap (fold (\<lambda>(event, h). values_add ''eventNames'' (event @ suffix)) hs m)" if "is_gomap m"
    for hs :: "(string \<times> 'b) list" and m
    using that by (induction hs arbitrary: m) (auto intro: values_gomap)
  then show "is_gomap (subscribe_params router suffix)" by (simp add: subscribe_params_def)
qed

lemma ctl_free_Join: "list_all ctl_free ts \<Longrightarrow> ctl_free sep \<Longrightarrow> ctl_free (Join ts sep)"
  by (induction ts sep rule: Join.induct) (auto simp: ctl_free_def has_ctl_def)

lemma ctl_free_Encode: "ctl_free (Encode m)"
proof -
  have "ctl_free ''=''" "ctl_free ''&''" by (simp_all add: ctl_free_def has_ctl_def)
  then show ?thesis unfolding Encode_def
    by (intro ctl_free_Join) (auto simp: list_all_iff QueryEscape_safe(4) simp del: append.simps)
qed

lemma Query_cong: "u_RawQuery u = u_RawQuery v \<Longrightarrow> Query u = Query v"
  by (simp add: Query_def)

text \<open>
  C31 The subscription goes to the configured control plane: for an API URL with a host, the
  websocket is dialled at the same host, encrypted exactly when the API is not plain HTTP, with the
  credentials of the router, and the query asks for exactly the events that have a handler.
\<close>

theorem subscription_confined:
  assumes law: "reads_back (ap_authority env) (ap_hostText env)"
    and r: "NewEventRouter env nc t name prio apiURL accessKey secretKey cl handlers rn wc pc = Inr router"
    and u: "parse_url env apiURL = Inr u" and h: "u_Host u \<noteq> ''''"
  shows "\<exists>url v. subscription env (er_subscribeURL router) (er_accessKey router) (er_secretKey router)
      (subscribe_params router suffix) = Inr (url, ''Basic '' @ base64 (accessKey @ '':'' @ secretKey)) \<and>
    parse_url env url = Inr v \<and> u_Host v = u_Host u \<and>
    u_Scheme v = (if u_Scheme u = ''http'' then ''ws'' else ''wss'') \<and>
    map_get [] (Query v) ''eventNames'' = map (\<lambda>e. e @ suffix) (keys_of handlers)"
proof -
  let ?s = "if u_Scheme u = ''http'' then ''ws'' else ''wss''"
  let ?w = "u\<lparr>u_Scheme := ?s, u_Path := TrimSuffix (u_Path u) ''/'' @ ''/subscribe'', u_RawQuery := '''', u_Fragment := ''''\<rparr>"
  from r u have router: "er_subscribeURL router = url_text env ?w" "er_accessKey router = accessKey" "er_secretKey router = secretKey"
    "er_eventHandlers router = handlers"
    by (auto simp: NewEventRouter_def subscribe_url_def split: sum.split_asm option.split_asm if_split_asm)
  have "parsed_URL (ap_authority env) u" using u by (auto simp: parse_url_def split: option.splits dest: Parse_parsed)
  with h have w: "parsed_URL (ap_authority env) ?w" "u_Opaque ?w = ''''" by (auto simp: parsed_URL_def ctl_free_def has_ctl_def)
  have sc: "web_scheme ?s" by simp
  with Parse_URL_String [OF law w(1)] w(2) h
  obtain v where v: "Parse (ap_authority env) (url_text env ?w) = Some v" "u_Scheme v = ?s" "u_Opaque v = ''''"
    "u_Host v = u_Host u" "u_User v = u_User u" "u_RawQuery v = ''''"
    by auto
  let ?q = "add_all (subscribe_params router suffix) (Query v)"
  let ?v = "v\<lparr>u_RawQuery := Encode ?q\<rparr>"
  have "parsed_URL (ap_authority env) ?v"
    using Parse_parsed [OF v(1)] by (simp add: parsed_URL_def ctl_free_Encode)
  from Parse_URL_String [OF law this] v h sc
  obtain x where x: "Parse (ap_authority env) (url_text env ?v) = Some x" "u_Scheme x = ?s" "u_Host x = u_Host u"
    "u_RawQuery x = Encode ?q"
    by auto
  have qv: "Query v = []" using v(6) by (simp add: Query_def Split_one parse_pair_def)
  have "is_gomap ?q" using qv by (simp add: add_all_gomap)
  from Query_Encode [OF this, of v "''eventNames''"] x(4)
  have "map_get [] (Query x) ''eventNames'' = map_get [] ?q ''eventNames''"
    using Query_cong [of x ?v] by simp
  also have "\<dots> = map (\<lambda>e. e @ suffix) (keys_of handlers)"
    using qv router(4) by (simp add: add_all_get subscribe_params_get)
  finally show ?thesis
    using router v(1) x by (simp add: subscription_def parse_url_def)
qed

definition demo_router :: "(nat, nat) EventRouter api_result" where
  "demo_router = NewEventRouter demo_api_env (\<lambda>opts. Inr 0) 30 '''' 0 ''https://c/v1'' ''key'' ''secret'' None
     [(''target.drain'', 1), (''ping'', 1)] '''' 250 DefaultPingConfig"

lemma demo_router_ok: "is_ok_api demo_router"
  by code_simp

lemma demo_router_url:
  "case parse_url demo_api_env ''https://c/v1'' of Inl _ \<Rightarrow> False | Inr u \<Rightarrow> u_Host u = ''c'' \<and> u_Scheme u = ''https''"
  by code_simp

lemma subscription_confined_witness:
  "case demo_router of Inl _ \<Rightarrow> False
   | Inr router \<Rightarrow>
       (case subscription demo_api_env (er_subscribeURL router) (er_accessKey router) (er_secretKey router)
               (subscribe_params router '''') of
          Inl _ \<Rightarrow> False
        | Inr (url, auth) \<Rightarrow> auth = ''Basic '' @ base64 (''key'' @ '':'' @ ''secret'') \<and>
            (case parse_url demo_api_env url of Inl _ \<Rightarrow> False
             | Inr v \<Rightarrow> u_Host v = ''c'' \<and> u_Scheme v = ''wss'' \<and>
                 map_get [] (Query v) ''eventNames'' = [''target.drain'', ''ping'']))"
proof -
  obtain router where r: "demo_router = Inr router"
    using demo_router_ok by (auto simp: is_ok_api_def split: sum.split_asm)
  from demo_router_url obtain u where u: "parse_url demo_api_env ''https://c/v1'' = Inr u" "u_Host u = ''c''" "u_Scheme u = ''https''"
    by (auto split: sum.splits)
  from demo_laws have "reads_back (ap_authority demo_api_env) (ap_hostText demo_api_env)" by (simp add: url_laws_def)
  from subscription_confined [OF this r [unfolded demo_router_def] u(1), of "''''"] u(2,3)
  obtain url v where "subscription demo_api_env (er_subscribeURL router) (er_accessKey router) (er_secretKey router)
      (subscribe_params router '''') = Inr (url, ''Basic '' @ base64 (''key'' @ '':'' @ ''secret''))"
    "parse_url demo_api_env url = Inr v" "u_Host v = ''c'' \<and> u_Scheme v = ''wss''"
    "map_get [] (Query v) ''eventNames'' = [''target.drain'', ''ping'']"
    by auto
  then show ?thesis unfolding r by simp
qed

section \<open>Waiting for a handler\<close>

lemma transition_loop_ends:
  assumes tick: "\<And>w t w1. ha_tick api w = (t, w1) \<Longrightarrow> t \<ge> last_tick w + 250 \<and> last_tick w1 = t"
    and call: "\<And>w. fst (waitFunc w) \<noteq> OutOfFuel \<and> last_tick (snd (waitFunc w)) = last_tick w"
  shows "0 < n \<Longrightarrow> timeoutAt < last_tick w + 250 * int n \<Longrightarrow> fst (transition_loop n api waitFunc timeoutAt w) \<noteq> OutOfFuel"
proof (induction n arbitrary: w)
  case (Suc n)
  obtain t w1 where t: "ha_tick api w = (t, w1)" by fastforce
  obtain r w2 where r: "waitFunc w1 = (r, w2)" by fastforce
  note ticks = tick [OF t] and calls = call [of w1, unfolded r]
  show ?case
  proof (cases "r = Ok False \<and> t \<le> timeoutAt")
    case True
    then have "timeoutAt < last_tick w2 + 250 * int n" using Suc.prems ticks calls by simp
    moreover from this True ticks calls have "0 < n" by (cases n) auto
    ultimately show ?thesis using Suc.IH True t r by simp
  next
    case False
    with t r calls show ?thesis by (cases r) auto
  qed
qed simp

text \<open>
  C38 The wait for a handler's transition ends: when the ticks are 250 ms apart, as the code's
  ticker delivers them, at most 41 looks at the handler decide it, whatever the control plane answers.
\<close>

theorem transition_ends:
  assumes "\<And>w t w1. ha_tick api w = (t, w1) \<Longrightarrow> t \<ge> last_tick w + 250 \<and> last_tick w1 = t"
    and "\<And>w. fst (waitFunc w) \<noteq> OutOfFuel \<and> last_tick (snd (waitFunc w)) = last_tick w"
    and "last_tick w = ha_now api w"
  shows "fst (waitForTransition 41 api waitFunc w) \<noteq> OutOfFuel"
  unfolding waitForTransition_def
  by (rule transition_loop_ends [of api last_tick waitFunc]) (use assms in \<open>simp_all add: MaxWait_def\<close>)

text \<open>A clock whose world is the time, and a handler that never leaves its transition.\<close>

definition demo_handler_api :: "int handler_api" where
  "demo_handler_api = \<lparr>ha_List = (\<lambda>_ w. (Inr [], w)), ha_ById = (\<lambda>_ w. (Inr None, w)), ha_Create = (\<lambda>h w. (Inr h, w)),
     ha_Deactivate = (\<lambda>h w. (Inr h, w)), ha_Remove = (\<lambda>h w. (Inr h, w)), ha_now = (\<lambda>w. w), ha_tick = (\<lambda>w. (w + 250, w + 250))\<rparr>"

lemma transition_ends_witness:
  "fst (waitForTransition 41 demo_handler_api (\<lambda>w. (Ok False, w)) 0) \<noteq> OutOfFuel \<and>
   fst (waitForTransition 40 demo_handler_api (\<lambda>w. (Ok False, w)) 0) = OutOfFuel"
proof
  show "fst (waitForTransition 41 demo_handler_api (\<lambda>w. (Ok False, w)) 0) \<noteq> OutOfFuel"
    by (rule transition_ends [of _ "\<lambda>w. w"]) (auto simp: demo_handler_api_def)
  show "fst (waitForTransition 40 demo_handler_api (\<lambda>w. (Ok False, w)) 0) = OutOfFuel" by code_simp
qed

section \<open>Pongs\<close>

text \<open>
  Between two pongs the connection is closed exactly when a check comes later than the allowed wait.
\<close>

lemma pong_closes:
  "\<not> ph_closed h \<Longrightarrow>
   ph_closed (fold (pong_event maxWait) (map CheckAt ts) h) \<longleftrightarrow> list_ex (\<lambda>t. t > ph_lastPing h + maxWait) ts"
proof -
  have closed: "ph_closed h \<Longrightarrow> ph_closed (fold (pong_event maxWait) (map CheckAt ts) h)" for h ts
    by (induction ts arbitrary: h) auto
  show "\<not> ph_closed h \<Longrightarrow> ?thesis" by (induction ts) (auto simp: closed)
qed

end
