(* ===== verification/Haproxy_Template.thy ===== *)
theory Haproxy_Template
  imports Haproxy_Provider
begin

text \<open>
  The template \<open>provider/haproxy/config/haproxy_template.cfg\<close> as the function that its execution
  computes: the text of the proxy's configuration. Every action of the template writes whole lines,
  so the text is a list of lines, of which the custom parts may have several. A reader of the
  text, written from the grammar of the proxy's configuration and not from the template, says what
  the proxy sees of it: the servers of the backends, and the backends that the frontends use.
\<close>

section \<open>The template\<close>

definition line :: "string \<Rightarrow> string" where
  "line s = s @ [nl]"

text \<open>\<open>if\<close> of the template on a text: it is written when it is not empty.\<close>

definition custom_lines :: "string \<Rightarrow> string list" where
  "custom_lines s = (if s = '''' then [] else [s])"

definition bind_line :: "template_data \<Rightarrow> FrontendService \<Rightarrow> string" where
  "bind_line td fe =
     ''bind *:'' @ Itoa (fe_Port fe) @ (if fe_AcceptProxy fe then '' accept-proxy'' else '''') @
     (if fe_Protocol fe = ''https'' \<or> fe_Protocol fe = ''tls'' then
        (case td_defaultCertFile td of
           None \<Rightarrow> ''''
         | Some f \<Rightarrow> if f = '''' then '''' else '' ssl crt /etc/haproxy/certs/current/'' @ f) @
        '' ssl crt /etc/haproxy/certs/current'' @ (if td_strictSni td then '' strict-sni'' else '''')
      else '''')"

definition listener_mode :: "string \<Rightarrow> string list" where
  "listener_mode protocol =
     (if protocol = ''https'' then [''mode http'']
      else if protocol = ''tls'' then [''mode tcp'']
      else if protocol = ''sni'' then
        [''mode tcp'', ''tcp-request inspect-delay 5s'', ''tcp-request content accept if { req_ssl_hello_type 1 }'']
      else [''mode '' @ protocol])"

definition host_match :: "string \<Rightarrow> string \<Rightarrow> string option" where
  "host_match protocol comparator =
     (if protocol = ''sni'' then Some ''req_ssl_sni''
      else if comparator = ''eq'' then Some ''hdr(host)''
      else if comparator = ''beg'' then Some ''hdr_beg(host)''
      else if comparator = ''end'' then Some ''hdr_end(host)''
      else None)"

definition host_lines :: "FrontendService \<Rightarrow> BackendService \<Rightarrow> string list" where
  "host_lines fe svc =
     (if be_Host svc = '''' then []
      else case host_match (fe_Protocol fe) (be_RuleComparator svc) of
        None \<Rightarrow> []
      | Some m \<Rightarrow>
          [''acl '' @ be_UUID svc @ ''_host '' @ m @ '' -i '' @ be_Host svc,
           ''acl '' @ be_UUID svc @ ''_host '' @ m @ '' -i '' @ be_Host svc @ '':'' @ Itoa (fe_Port fe)])"

definition path_lines :: "BackendService \<Rightarrow> string list" where
  "path_lines svc =
     (if be_Path svc = '''' then [] else [''acl '' @ be_UUID svc @ ''_path path_beg -i '' @ be_Path svc])"

text \<open>
  The assignment of \<open>$defaultBackend\<close> declares a new variable inside the \<open>if\<close>, so the test of the
  outer one always succeeds: every backend without host and path is a default one.
\<close>

definition route_line :: "BackendService \<Rightarrow> string" where
  "route_line svc =
     (let name = be_UUID svc in
      if be_Path svc \<noteq> '''' then
        (if be_Host svc \<noteq> '''' then ''use_backend '' @ name @ '' if '' @ name @ ''_host '' @ name @ ''_path''
         else ''use_backend '' @ name @ '' if '' @ name @ ''_path'')
      else if be_Host svc \<noteq> '''' then ''use_backend '' @ name @ '' if '' @ name @ ''_host''
      else ''default_backend '' @ name)"

definition listener_lines :: "template_data \<Rightarrow> FrontendService \<Rightarrow> string list" where
  "listener_lines td fe =
     [''frontend '' @ fe_Name fe, bind_line td fe] @ custom_lines (fe_Config fe) @ listener_mode (fe_Protocol fe) @
     concat (map (\<lambda>svc. host_lines fe svc @ path_lines svc @ [route_line svc]) (fe_BackendServices fe))"

definition backend_mode :: "string \<Rightarrow> string" where
  "backend_mode protocol =
     (if protocol = ''https'' then ''mode http''
      else if protocol = ''tls'' then ''mode tcp''
      else if protocol = ''sni'' then ''mode tcp''
      else ''mode '' @ protocol)"

definition server_line :: "Endpoint \<Rightarrow> string" where
  "server_line ep = ''server '' @ ep_Name ep @ '' '' @ ep_IP ep @ '':'' @ Itoa (ep_Port ep) @ '' '' @ ep_Config ep"

definition backend_lines :: "BackendService \<Rightarrow> string list" where
  "backend_lines be =
     ['''', ''backend '' @ be_UUID be, ''acl forwarded_proto hdr_cnt(X-Forwarded-Proto) eq 0'',
      ''acl forwarded_port hdr_cnt(X-Forwarded-Port) eq 0''] @ custom_lines (be_Config be) @
     [backend_mode (be_Protocol be)] @ map server_line (be_Endpoints be)"

definition template_lines :: "template_data \<Rightarrow> string list" where
  "template_lines td =
     [td_globalConfig td, '''', ''resolvers rancher'', '' nameserver dnsmasq 169.254.169.250:53'', '''',
      ''listen default'', ''bind *:42'', ''''] @
     concat (map (listener_lines td) (td_frontends td)) @ concat (map backend_lines (td_backends td))"

definition render_template :: "template_data \<Rightarrow> string" where
  "render_template td = concat (map line (template_lines td))"

section \<open>A reader of the configuration\<close>

datatype proxy_section = NoProxy | InFrontend string | InBackend string

text \<open>What is read: the open section, servers as (backend, name, address), routes as (frontend, backend).\<close>

record reading =
  rd_section :: proxy_section
  rd_servers :: "(string \<times> string \<times> string) list"
  rd_routes :: "(string \<times> string) list"

definition other_sections :: "string list" where
  "other_sections = [''global'', ''defaults'', ''listen'', ''resolvers'', ''userlist'', ''peers'', ''mailers'']"

definition reserved_words :: "string list" where
  "reserved_words = [''frontend'', ''backend'', ''server'', ''use_backend'', ''default_backend''] @ other_sections"

fun read_words :: "string list \<Rightarrow> reading \<Rightarrow> reading" where
  "read_words [] r = r"
| "read_words (kw # ws) r =
     (if kw \<in> set other_sections then r\<lparr>rd_section := NoProxy\<rparr>
      else case ws of
        [] \<Rightarrow> r
      | n # rest \<Rightarrow>
          if kw = ''frontend'' then r\<lparr>rd_section := InFrontend n\<rparr>
          else if kw = ''backend'' then r\<lparr>rd_section := InBackend n\<rparr>
          else if kw = ''server'' then
            (case (rd_section r, rest) of
               (InBackend b, a # _) \<Rightarrow> r\<lparr>rd_servers := rd_servers r @ [(b, n, a)]\<rparr>
             | _ \<Rightarrow> r)
          else if kw = ''use_backend'' \<or> kw = ''default_backend'' then
            (case rd_section r of InFrontend f \<Rightarrow> r\<lparr>rd_routes := rd_routes r @ [(f, n)]\<rparr> | _ \<Rightarrow> r)
          else r)"

definition read_block :: "string \<Rightarrow> reading \<Rightarrow> reading" where
  "read_block s = fold (\<lambda>l. read_words (Fields l)) (Split s [nl])"

definition read_configuration :: "string \<Rightarrow> reading" where
  "read_configuration s = read_block s \<lparr>rd_section = NoProxy, rd_servers = [], rd_routes = []\<rparr>"

section \<open>Reading lines\<close>

lemma char_parts_append: "char_parts x w (a @ x # b) = char_parts x w a @ char_parts x [] b"
  by (induction x w a rule: char_parts.induct) auto

lemma read_block_line: "read_block (line a @ b) r = read_block b (read_block a r)"
  by (simp add: read_block_def line_def Split_char char_parts_append)

lemma read_block_lines: "read_block (concat (map line ls)) r = fold read_block ls r"
proof (induction ls arbitrary: r)
  case Nil
  have "Split [] [nl] = [[]]" by (simp add: Split_char)
  then show ?case by (simp add: read_block_def)
next
  case (Cons l ls)
  then show ?case by (simp add: read_block_line)
qed

definition one_line :: "string \<Rightarrow> bool" where
  "one_line s \<longleftrightarrow> nl \<notin> set s"

lemma read_one_line: "one_line s \<Longrightarrow> read_block s r = read_words (Fields s) r"
  by (simp add: read_block_def one_line_def Split_one)

text \<open>A line that the reader skips, and a text of such lines.\<close>

definition inert :: "string \<Rightarrow> bool" where
  "inert l = (case Fields l of [] \<Rightarrow> True | w # _ \<Rightarrow> w \<notin> set reserved_words)"

definition inert_text :: "string \<Rightarrow> bool" where
  "inert_text s = list_all inert (Split s [nl])"

lemma read_inert: "inert l \<Longrightarrow> read_words (Fields l) r = r"
  by (cases "Fields l") (auto simp: inert_def reserved_words_def split: list.splits)

lemma read_inert_text: "inert_text s \<Longrightarrow> read_block s r = r"
proof -
  have "list_all inert ls \<Longrightarrow> fold (\<lambda>l. read_words (Fields l)) ls r = r" for ls
    by (induction ls) (auto simp: read_inert)
  then show "inert_text s \<Longrightarrow> ?thesis" by (simp add: inert_text_def read_block_def)
qed

text \<open>A text in front of the first frontend: it may have other sections, but opens no frontend or backend.\<close>

definition preamble_text :: "string \<Rightarrow> bool" where
  "preamble_text s = list_all (\<lambda>l. case Fields l of [] \<Rightarrow> True | w # _ \<Rightarrow> w \<notin> set [''frontend'', ''backend'']) (Split s [nl])"

lemma read_preamble_text:
  assumes "preamble_text s" "rd_section r = NoProxy"
  shows "read_block s r = r"
proof -
  have "read_words ws r = r" if "case ws of [] \<Rightarrow> True | w # _ \<Rightarrow> w \<notin> set [''frontend'', ''backend'']" for ws
    using that assms(2) by (cases ws) (auto split: list.splits)
  then have "list_all (\<lambda>l. case Fields l of [] \<Rightarrow> True | w # _ \<Rightarrow> w \<notin> set [''frontend'', ''backend'']) ls \<Longrightarrow>
      fold (\<lambda>l. read_words (Fields l)) ls r = r" for ls
    by (induction ls) auto
  with assms(1) show ?thesis by (simp add: preamble_text_def read_block_def)
qed

definition word :: "string \<Rightarrow> bool" where
  "word s \<longleftrightarrow> s \<noteq> '''' \<and> list_all (\<lambda>c. \<not> is_space c) s"

lemma word_one_line: "word s \<Longrightarrow> one_line s"
  by (auto simp: word_def one_line_def list_all_iff is_space_def)

lemma word_append: "word a \<Longrightarrow> list_all (\<lambda>c. \<not> is_space c) b \<Longrightarrow> word (a @ b)"
  by (simp add: word_def)

lemma word_Itoa: "word (Itoa i)"
  by (simp add: word_def Itoa_no_space)

lemma Fields_first: "word w \<Longrightarrow> Fields (w @ CHR '' '' # s) = w # Fields s"
  by (simp add: Fields_space Fields_word word_def is_space_def)

lemma Fields_only: "word w \<Longrightarrow> Fields w = [w]"
  by (simp add: Fields_word word_def)

lemma one_line_simps [simp]:
  "one_line (a @ b) \<longleftrightarrow> one_line a \<and> one_line b" "one_line (c # s) \<longleftrightarrow> c \<noteq> nl \<and> one_line s" "one_line []"
  "one_line (Itoa i)"
  using word_one_line [OF word_Itoa] by (auto simp: one_line_def)

end
