(* ===== verification/Template_Theorems.thy ===== *)
theory Template_Theorems
  imports Haproxy_Template Build_Theorems
begin

text \<open>
  What the proxy reads from the configuration that the template writes, and how the names of
  backends decide where a request goes.
\<close>

section \<open>Plain configurations\<close>

text \<open>Names are words, other values have one line, and custom texts name no server or
  route; those of frontends and backends open no section, the global one no frontend or backend.\<close>

definition plain_endpoint :: "Endpoint \<Rightarrow> bool" where
  "plain_endpoint ep \<longleftrightarrow> word (ep_Name ep) \<and> word (ep_IP ep) \<and> one_line (ep_Config ep)"

definition plain_backend :: "BackendService \<Rightarrow> bool" where
  "plain_backend be \<longleftrightarrow> word (be_UUID be) \<and> one_line (be_Host be) \<and> one_line (be_Path be) \<and> one_line (be_Protocol be) \<and>
     inert_text (be_Config be) \<and> list_all plain_endpoint (be_Endpoints be)"

definition plain_frontend :: "FrontendService \<Rightarrow> bool" where
  "plain_frontend fe \<longleftrightarrow> word (fe_Name fe) \<and> one_line (fe_Protocol fe) \<and> inert_text (fe_Config fe) \<and>
     list_all plain_backend (fe_BackendServices fe)"

definition plain_template :: "template_data \<Rightarrow> bool" where
  "plain_template td \<longleftrightarrow> preamble_text (td_globalConfig td) \<and>
     (case td_defaultCertFile td of None \<Rightarrow> True | Some f \<Rightarrow> one_line f) \<and>
     list_all plain_frontend (td_frontends td) \<and> list_all plain_backend (td_backends td)"

section \<open>Lines that are skipped\<close>

definition skipped :: "string \<Rightarrow> bool" where
  "skipped l \<longleftrightarrow> one_line l \<and> inert l"

lemma read_skipped: "list_all skipped ls \<Longrightarrow> fold read_block ls r = r"
  by (induction ls) (simp_all add: skipped_def read_one_line read_inert)

lemma inert_first: "word w \<Longrightarrow> w \<notin> set reserved_words \<Longrightarrow> inert (w @ CHR '' '' # s)"
  by (simp add: inert_def Fields_first)

lemma literal_words:
  "word ''acl''" "word ''bind''" "word ''mode''" "word ''tcp-request''" "word ''server''" "word ''backend''" "word ''frontend''"
  "word ''use_backend''" "word ''default_backend''" "word ''nameserver''" "word ''listen''" "word ''resolvers''" "word ''default''"
  "word ''rancher''"
  by (simp_all add: word_def is_space_def)

lemma skipped_literal:
  "one_line s \<Longrightarrow> skipped (''acl '' @ s)" "one_line s \<Longrightarrow> skipped (''bind '' @ s)" "one_line s \<Longrightarrow> skipped (''mode '' @ s)"
  "one_line s \<Longrightarrow> skipped (''tcp-request '' @ s)" "skipped []"
  using inert_first [OF literal_words(1), of s] inert_first [OF literal_words(2), of s]
    inert_first [OF literal_words(3), of s] inert_first [OF literal_words(4), of s]
  by (simp_all add: skipped_def reserved_words_def other_sections_def, simp add: inert_def)

lemma skipped_mode: "one_line p \<Longrightarrow> list_all skipped (listener_mode p)" "one_line p \<Longrightarrow> skipped (backend_mode p)"
  using skipped_literal(3) [of "''http''"] skipped_literal(3) [of "''tcp''"] skipped_literal(3) [of p]
    skipped_literal(4) [of "''inspect-delay 5s''"] skipped_literal(4) [of "''content accept if { req_ssl_hello_type 1 }''"]
  by (simp_all add: listener_mode_def backend_mode_def)

lemma skipped_bind:
  assumes "plain_template td" shows "skipped (bind_line td fe)"
proof -
  obtain s where s: "bind_line td fe = ''bind '' @ s" by (auto simp: bind_line_def)
  have "one_line (bind_line td fe)"
    using assms by (auto simp: bind_line_def plain_template_def split: option.splits)
  then have "one_line s" unfolding s by simp
  then show ?thesis unfolding s by (rule skipped_literal(2))
qed

lemma host_match_one_line: "host_match p c = Some m \<Longrightarrow> one_line m"
  by (auto simp: host_match_def split: if_splits)

lemma skipped_host: "plain_backend be \<Longrightarrow> list_all skipped (host_lines fe be)"
  using skipped_literal(1)
  by (auto simp: host_lines_def plain_backend_def word_one_line host_match_one_line simp del: append.simps append_assoc
      split: option.split)

lemma skipped_path: "plain_backend be \<Longrightarrow> list_all skipped (path_lines be)"
  using skipped_literal(1) by (auto simp: path_lines_def plain_backend_def word_one_line simp del: append.simps append_assoc)

section \<open>Lines that are read\<close>

lemma read_section:
  "word n \<Longrightarrow> read_block (''frontend '' @ n) r = r\<lparr>rd_section := InFrontend n\<rparr>"
  "word n \<Longrightarrow> read_block (''backend '' @ n) r = r\<lparr>rd_section := InBackend n\<rparr>"
  using Fields_first [OF literal_words(7), of n] Fields_first [OF literal_words(6), of n]
  by (simp_all add: read_one_line word_one_line Fields_only other_sections_def)

lemma Fields_word_rest: "word n \<Longrightarrow> s = [] \<or> hd s = CHR '' '' \<Longrightarrow> Fields (n @ s) = n # Fields s"
  by (cases s) (auto simp: Fields_first Fields_only Fields_Cons_space is_space_def)

lemma read_use:
  assumes "word n" "one_line s" "s = [] \<or> hd s = CHR '' ''" "rd_section r = InFrontend f"
  shows "read_block (''use_backend '' @ n @ s) r = r\<lparr>rd_routes := rd_routes r @ [(f, n)]\<rparr>"
    "read_block (''default_backend '' @ n @ s) r = r\<lparr>rd_routes := rd_routes r @ [(f, n)]\<rparr>"
  using Fields_first [OF literal_words(8), of "n @ s"] Fields_first [OF literal_words(9), of "n @ s"] assms
  by (simp_all add: read_one_line word_one_line Fields_word_rest other_sections_def)

lemma read_route:
  assumes "word (be_UUID svc)" "rd_section r = InFrontend f"
  shows "read_block (route_line svc) r = r\<lparr>rd_routes := rd_routes r @ [(f, be_UUID svc)]\<rparr>"
proof -
  let ?n = "be_UUID svc"
  have "\<exists>s. one_line s \<and> (s = [] \<or> hd s = CHR '' '') \<and>
      (route_line svc = ''use_backend '' @ ?n @ s \<or> route_line svc = ''default_backend '' @ ?n @ s)"
    using word_one_line [OF assms(1)]
    by (auto simp: route_line_def Let_def intro: exI [of _ "'' if '' @ ?n @ ''_host '' @ ?n @ ''_path''"]
        exI [of _ "'' if '' @ ?n @ ''_path''"] exI [of _ "'' if '' @ ?n @ ''_host''"] exI [of _ "[]"])
  with read_use [OF assms(1) _ _ assms(2)] show ?thesis by metis
qed

lemma read_server:
  assumes "plain_endpoint ep" "rd_section r = InBackend b"
  shows "read_block (server_line ep) r = r\<lparr>rd_servers := rd_servers r @ [(b, ep_Name ep, ep_IP ep @ '':'' @ Itoa (ep_Port ep))]\<rparr>"
proof -
  have a: "word (ep_IP ep @ '':'' @ Itoa (ep_Port ep))" "word (ep_Name ep)" "one_line (ep_IP ep)" "one_line (ep_Config ep)"
    using assms(1) Itoa_no_space [of "ep_Port ep"] by (auto simp: plain_endpoint_def word_def is_space_def word_one_line)
  have "Fields (server_line ep) = ''server'' # ep_Name ep # (ep_IP ep @ '':'' @ Itoa (ep_Port ep)) # Fields (ep_Config ep)"
    using Fields_first [OF literal_words(5), of "ep_Name ep @ CHR '' '' # ep_IP ep @ '':'' @ Itoa (ep_Port ep) @ CHR '' '' # ep_Config ep"]
      Fields_first [OF a(2)] Fields_first [OF a(1), of "ep_Config ep"]
    by (simp add: server_line_def)
  moreover have "one_line (server_line ep)" using a by (simp add: server_line_def word_one_line)
  ultimately show ?thesis using assms(2) by (simp add: read_one_line other_sections_def)
qed

section \<open>Sections\<close>

lemma read_custom: "inert_text s \<Longrightarrow> fold read_block (custom_lines s) r = r"
  by (simp add: custom_lines_def read_inert_text)

lemma read_routes:
  "list_all plain_backend bes \<Longrightarrow> rd_section r = InFrontend f \<Longrightarrow>
   fold read_block (concat (map (\<lambda>svc. host_lines fe svc @ path_lines svc @ [route_line svc]) bes)) r =
     r\<lparr>rd_routes := rd_routes r @ map (\<lambda>be. (f, be_UUID be)) bes\<rparr>"
proof (induction bes arbitrary: r)
  case (Cons be bes)
  then have "word (be_UUID be)" by (simp add: plain_backend_def)
  with Cons show ?case by (simp add: read_skipped skipped_host skipped_path read_route)
qed simp

lemma read_listener:
  assumes "plain_template td" "plain_frontend fe"
  shows "fold read_block (listener_lines td fe) r =
    r\<lparr>rd_section := InFrontend (fe_Name fe),
      rd_routes := rd_routes r @ map (\<lambda>be. (fe_Name fe, be_UUID be)) (fe_BackendServices fe)\<rparr>"
  using assms(2) read_skipped [of "[bind_line td fe]"] skipped_bind [OF assms(1), of fe]
  by (simp add: listener_lines_def plain_frontend_def read_section read_custom read_skipped skipped_mode read_routes
      del: append.simps)

definition servers_of :: "BackendService \<Rightarrow> (string \<times> string \<times> string) list" where
  "servers_of be = map (\<lambda>ep. (be_UUID be, ep_Name ep, ep_IP ep @ '':'' @ Itoa (ep_Port ep))) (be_Endpoints be)"

definition routes_of :: "FrontendService \<Rightarrow> (string \<times> string) list" where
  "routes_of fe = map (\<lambda>be. (fe_Name fe, be_UUID be)) (fe_BackendServices fe)"

lemma read_servers:
  "list_all plain_endpoint eps \<Longrightarrow> rd_section r = InBackend b \<Longrightarrow>
   fold read_block (map server_line eps) r =
     r\<lparr>rd_servers := rd_servers r @ map (\<lambda>ep. (b, ep_Name ep, ep_IP ep @ '':'' @ Itoa (ep_Port ep))) eps\<rparr>"
  by (induction eps arbitrary: r) (simp_all add: read_server)

lemma read_backend:
  assumes "plain_backend be"
  shows "fold read_block (backend_lines be) r =
    r\<lparr>rd_section := InBackend (be_UUID be), rd_servers := rd_servers r @ servers_of be\<rparr>"
  using assms read_skipped [of "[[]]"] skipped_literal(5) read_skipped [of "[backend_mode (be_Protocol be)]"]
    read_skipped [of "[''acl '' @ ''forwarded_proto hdr_cnt(X-Forwarded-Proto) eq 0'']"]
    read_skipped [of "[''acl '' @ ''forwarded_port hdr_cnt(X-Forwarded-Port) eq 0'']"]
    skipped_literal(1) [of "''forwarded_proto hdr_cnt(X-Forwarded-Proto) eq 0''"]
    skipped_literal(1) [of "''forwarded_port hdr_cnt(X-Forwarded-Port) eq 0''"]
    read_section(2) [of "be_UUID be"] skipped_mode(2) [of "be_Protocol be"]
  by (simp add: backend_lines_def plain_backend_def read_custom read_servers servers_of_def)

lemma read_listeners:
  assumes "plain_template td"
  shows "list_all plain_frontend fes \<Longrightarrow> \<exists>sec. fold read_block (concat (map (listener_lines td) fes)) r =
    r\<lparr>rd_section := sec, rd_routes := rd_routes r @ concat (map routes_of fes)\<rparr>"
proof (induction fes arbitrary: r)
  case Nil
  show ?case by (intro exI [of _ "rd_section r"]) simp
next
  case (Cons fe fes)
  let ?r = "r\<lparr>rd_section := InFrontend (fe_Name fe), rd_routes := rd_routes r @ routes_of fe\<rparr>"
  from Cons.IH [of ?r] Cons.prems obtain sec where
    "fold read_block (concat (map (listener_lines td) fes)) ?r =
      ?r\<lparr>rd_section := sec, rd_routes := rd_routes ?r @ concat (map routes_of fes)\<rparr>"
    by auto
  with Cons.prems assms show ?case by (intro exI [of _ sec]) (simp add: read_listener routes_of_def [of fe])
qed

lemma read_backends:
  "list_all plain_backend bes \<Longrightarrow>
   rd_servers (fold read_block (concat (map backend_lines bes)) r) = rd_servers r @ concat (map servers_of bes) \<and>
   rd_routes (fold read_block (concat (map backend_lines bes)) r) = rd_routes r"
  by (induction bes arbitrary: r) (simp_all add: read_backend)

text \<open>The lines before the first frontend.\<close>

lemma read_preamble:
  assumes "preamble_text g" "rd_section r = NoProxy"
  shows "\<exists>sec. fold read_block [g, '''', ''resolvers rancher'', '' nameserver dnsmasq 169.254.169.250:53'', '''', ''listen default'',
    ''bind *:42'', ''''] r = r\<lparr>rd_section := sec\<rparr>"
proof -
  have "read_block ''resolvers rancher'' r = r\<lparr>rd_section := NoProxy\<rparr>" "read_block ''listen default'' r = r\<lparr>rd_section := NoProxy\<rparr>"
    "skipped '' nameserver dnsmasq 169.254.169.250:53''" "skipped ''bind *:42''" "skipped ''''" for r
    by (simp_all add: read_one_line skipped_def inert_def Fields_def is_space_def other_sections_def reserved_words_def)
  then have "fold read_block ['''', ''resolvers rancher'', '' nameserver dnsmasq 169.254.169.250:53'', '''', ''listen default'',
      ''bind *:42'', ''''] r = r\<lparr>rd_section := NoProxy\<rparr>"
    using read_skipped [of "[s]" for s] by simp
  with read_preamble_text [OF assms] show ?thesis by (intro exI [of _ NoProxy]) simp
qed

lemma rendered_sections:
  assumes "plain_template td"
  shows "rd_servers (read_configuration (render_template td)) = concat (map servers_of (td_backends td)) \<and>
    rd_routes (read_configuration (render_template td)) = concat (map routes_of (td_frontends td))"
proof -
  let ?r = "\<lparr>rd_section = NoProxy, rd_servers = [], rd_routes = []\<rparr>"
  from assms have p: "preamble_text (td_globalConfig td)" "list_all plain_frontend (td_frontends td)"
    "list_all plain_backend (td_backends td)" by (simp_all add: plain_template_def)
  have "rd_section ?r = NoProxy" by simp
  from read_preamble [OF p(1) this] obtain sec where sec: "fold read_block [td_globalConfig td, '''', ''resolvers rancher'',
      '' nameserver dnsmasq 169.254.169.250:53'', '''', ''listen default'', ''bind *:42'', ''''] ?r = ?r\<lparr>rd_section := sec\<rparr>" by blast
  from read_listeners [OF assms p(2), of "?r\<lparr>rd_section := sec\<rparr>"] obtain sec' where
    "fold read_block (concat (map (listener_lines td) (td_frontends td))) (?r\<lparr>rd_section := sec\<rparr>) =
      ?r\<lparr>rd_section := sec', rd_routes := concat (map routes_of (td_frontends td))\<rparr>" by auto
  moreover have "read_configuration (render_template td) = fold read_block (concat (map backend_lines (td_backends td)))
      (fold read_block (concat (map (listener_lines td) (td_frontends td)))
        (fold read_block [td_globalConfig td, '''', ''resolvers rancher'', '' nameserver dnsmasq 169.254.169.250:53'', '''',
          ''listen default'', ''bind *:42'', ''''] ?r))"
    unfolding read_configuration_def render_template_def read_block_lines template_lines_def
    by (simp only: fold_append o_apply)
  ultimately show ?thesis unfolding sec by (simp add: read_backends [OF p(3)])
qed

section \<open>An example\<close>

definition tpl_rule :: "string \<Rightarrow> PortRule" where
  "tpl_rule h = zero_PortRule\<lparr>pr_Hostname := h, pr_Protocol := ''http'', pr_SourcePort := 8\<rparr>"

definition tpl_ep :: "string \<Rightarrow> Endpoint" where
  "tpl_ep ip = zero_Endpoint\<lparr>ep_Name := ''e'' @ ip, ep_IP := ip, ep_Port := 9, ep_Config := ''weight 1''\<rparr>"

definition tpl_check :: HealthCheck where
  "tpl_check = \<lparr>hc_ResponseTimeout = 0, hc_Interval = 0, hc_HealthyThreshold = 0, hc_UnhealthyThreshold = 0,
     hc_RequestLine = '''', hc_Port = 0\<rparr>"

definition tpl_frontend :: FrontendService where
  "tpl_frontend = \<lparr>fe_Name = ''8'', fe_Port = 8, fe_BackendServices =
      [new_backend (tpl_rule ''a-b'') [tpl_ep ''1''] tpl_check, new_backend (tpl_rule ''a.b'') [tpl_ep ''2''] tpl_check],
     fe_Protocol = ''http'', fe_Config = '''', fe_AcceptProxy = False\<rparr>"

definition tpl_config :: LoadBalancerConfig where
  "tpl_config = \<lparr>lb_DefaultCert = None, lb_Certs = [], lb_Name = '''', lb_Annotations = [], lb_FrontendServices = [tpl_frontend],
     lb_Config = ''global'' @ nl # '' maxconn 3'', lb_StickinessPolicy = None\<rparr>"

section \<open>The written file and the drain manager\<close>

lemma foldl_update_keys:
  "set (keys_of (foldl (\<lambda>m (be, ep). AList.update (f be ep) (g ep) m) m xs)) = set (keys_of m) \<union> (\<lambda>(be, ep). f be ep) ` set xs"
  by (induction xs arbitrary: m) (auto simp: set_keys_update simp del: set_map)

lemma template_sections:
  shows "td_frontends (template_of lb) = filter (\<lambda>fe. fe_Protocol fe \<in> set supportedProtos) (lb_FrontendServices lb)"
    "set (td_backends (template_of lb)) \<subseteq> (\<Union>fe \<in> set (td_frontends (template_of lb)). set (fe_BackendServices fe))"
    "be_UUID ` set (td_backends (template_of lb)) =
      be_UUID ` (\<Union>fe \<in> set (td_frontends (template_of lb)). set (fe_BackendServices fe))"
proof -
  obtain fs bs where c: "collect_frontends (lb_FrontendServices lb) ([], []) = (fs, bs)" by fastforce
  have "set [] = be_UUID ` set []" "distinct (map be_UUID [])" by simp_all
  note i = collect_frontends_inv [OF c this]
  from c have t: "td_frontends (template_of lb) = fs" "td_backends (template_of lb) = bs" by (simp_all add: template_of_def)
  from i show "td_frontends (template_of lb) = filter (\<lambda>fe. fe_Protocol fe \<in> set supportedProtos) (lb_FrontendServices lb)"
    unfolding t by (rule conjunct1)
  from i show "set (td_backends (template_of lb)) \<subseteq> (\<Union>fe \<in> set (td_frontends (template_of lb)). set (fe_BackendServices fe))"
    unfolding t list.set Un_empty_left by (elim conjE)
  from i show "be_UUID ` set (td_backends (template_of lb)) =
      be_UUID ` (\<Union>fe \<in> set (td_frontends (template_of lb)). set (fe_BackendServices fe))"
    unfolding t list.set image_empty Un_empty_left by (elim conjE)
qed

lemma template_backends:
  "be \<in> set (td_backends (template_of lb)) \<Longrightarrow> \<exists>fe \<in> set (lb_FrontendServices lb). be \<in> set (fe_BackendServices fe)"
  using template_sections(1,2) [of lb] by auto



lemma tpl_plain: "plain_template (template_of tpl_config)"
  by code_simp

lemma tpl_read:
  "td_backends (template_of tpl_config) = [hd (fe_BackendServices tpl_frontend)]"
  "servers_of (hd (fe_BackendServices tpl_frontend)) = [(''8_a_b_'', ''e1'', ''1:9'')]"
  "concat (map routes_of (filter (\<lambda>fe. fe_Protocol fe \<in> set supportedProtos) (lb_FrontendServices tpl_config))) =
     [(''8'', ''8_a_b_''), (''8'', ''8_a_b_'')]"
  by code_simp+


lemma tpl_server:
  "(''8_a_b_'', ''e1'', ''1:9'') \<in> set (rd_servers (read_configuration (render_template (template_of tpl_config))))"
  using rendered_sections [OF tpl_plain] by (simp add: tpl_read)


section \<open>Default backends\<close>

lemma built_key:
  assumes "backend_ok fl key be" "be_Host be = ''''" "be_Path be = ''''"
  shows "\<exists>p. key = path_uuid p '''' ''''"
proof -
  from assms(1) obtain r eps hc where r: "(r, eps, hc) \<in> set fl" "key_of (r, eps, hc) = key"
    and b: "be\<lparr>be_Endpoints := []\<rparr> = new_backend r [] hc"
    unfolding backend_ok_def by auto
  from arg_cong [OF b, of be_Host] arg_cong [OF b, of be_Path] assms(2,3)
  have "fst (rule_host r) = ''''" "rule_path r = ''''" by (simp_all add: new_backend_def)
  with r(2) show ?thesis by (auto simp: key_of_def rule_key_def)
qed

text \<open>
  At most one backend of a built frontend has neither host nor path, so at most one of its lines
  in the written configuration names a default backend, although the template never skips one.
\<close>

theorem one_default_backend:
  assumes "rule_loop n mc envUUID self pref rules init_build = Ok st"
    and "fe \<in> set (finish_frontends st)"
  shows "length (filter (\<lambda>svc. be_Host svc = '''' \<and> be_Path svc = '''') (fe_BackendServices fe)) \<le> 1"
proof -
  let ?fl = "fed_rules n mc envUUID self pref rules" and ?P = "\<lambda>svc. be_Host svc = '''' \<and> be_Path svc = ''''"
  from rule_loop_feed [OF assms(1)] have "st = feed ?fl" by (simp add: feed_def)
  then have B: "build_ok ?fl st" by (simp add: build_ok_feed)
  from assms(2) obtain name cell where c: "(name, cell) \<in> set (bs_frontends st)" "fe = finish_frontend st cell"
    by (auto simp: finish_frontends_def)
  from cell_in [OF B c(1)] have d: "distinct (fc_backends cell)"
    and ports: "set (fc_backends cell) = key_of ` {f \<in> set ?fl. pr_SourcePort (fst f) = fe_Port fe}"
    by (simp_all add: cell_ok_def c(2))
  have key: "key = path_uuid (fe_Port fe) '''' ''''"
    if k: "key \<in> set (fc_backends cell)" "map_of (bs_allBe st) key = Some be" "?P be" for key be
  proof -
    from k(1) ports obtain f where f: "key = key_of f" "pr_SourcePort (fst f) = fe_Port fe" by auto
    from built_key [OF build_okD(3) [OF B k(2)]] k(3) obtain p where p: "key = path_uuid p '''' ''''" by auto
    with f have "rule_key (fst f) = path_uuid p '''' ''''" by (simp add: key_of_def)
    then have "path_uuid (fe_Port fe) (fst (rule_host (fst f))) (rule_path (fst f)) = path_uuid p '''' ''''"
      by (simp add: rule_key_def f(2))
    from path_uuid_port [OF this] p show ?thesis by simp
  qed
  have "length (filter ?P (List.map_filter (map_of (bs_allBe st)) ks)) \<le> length (filter (\<lambda>k. k = path_uuid (fe_Port fe) '''' '''') ks)"
    if "set ks \<subseteq> set (fc_backends cell)" for ks
    using that by (induction ks) (auto simp: List.map_filter_simps key split: option.split)
  from this [of "fc_backends cell"]
  have "length (filter ?P (List.map_filter (map_of (bs_allBe st)) (fc_backends cell))) \<le>
      card ({path_uuid (fe_Port fe) '''' ''''} \<inter> set (fc_backends cell))"
    by (simp add: distinct_length_filter [OF d])
  also have "\<dots> \<le> card {path_uuid (fe_Port fe) '''' ''''}" by (rule card_mono) auto
  finally have "length (filter ?P (List.map_filter (map_of (bs_allBe st)) (fc_backends cell))) \<le> 1" by simp
  moreover have "mset (fe_BackendServices fe) = mset (List.map_filter (map_of (bs_allBe st)) (fc_backends cell))"
    by (simp add: c(2) finish_frontend_def mset_sorts)
  ultimately show ?thesis by (metis mset_filter size_mset)
qed

section \<open>Colliding names\<close>

lemma squash_separator:
  "\<not> is_alnum c \<Longrightarrow> \<not> is_alnum d \<Longrightarrow> squash run (a @ c # b) = squash run (a @ d # b)"
  by (induction a arbitrary: run) auto

lemma backend_name_separator:
  assumes "\<not> is_alnum c" "\<not> is_alnum d"
  shows "FormulateBackendName p (a @ c # b) x = FormulateBackendName p (a @ d # b) x"
  using squash_separator [OF assms, of False "Itoa p @ ''_'' @ a" "b @ ''_'' @ x"]
  by (simp add: FormulateBackendName_def path_uuid_def)



end
