(* ===== verification/Rendered_Config.thy ===== *)
theory Rendered_Config
  imports Template_Theorems Log_Safety
begin

text \<open>
  Well-formedness from the port rules to the written file: when the names in the rules and targets
  are plain, so is everything that the builder, the custom configuration and the template make of
  them, up to the texts that the operator wrote.
\<close>

section \<open>Well-formed parts\<close>

text \<open>The texts of a frontend that the custom configuration sets.\<close>

definition texts_ok :: "FrontendService \<Rightarrow> bool" where
  "texts_ok fe \<longleftrightarrow> inert_text (fe_Config fe) \<and>
     list_all (\<lambda>be. inert_text (be_Config be) \<and> list_all (\<lambda>ep. one_line (ep_Config ep)) (be_Endpoints be)) (fe_BackendServices fe)"

lemma inert_text_Nil [simp]: "inert_text ''''"
  by (simp add: inert_text_def inert_def Split_char)

lemma plain_bare_endpoint: "plain_endpoint ep \<longleftrightarrow> plain_endpoint (bare_endpoint ep) \<and> one_line (ep_Config ep)"
  by (auto simp: plain_endpoint_def bare_endpoint_def)

lemma plain_bare_backend:
  "plain_backend be \<longleftrightarrow> plain_backend (bare_backend be) \<and> inert_text (be_Config be) \<and>
     list_all (\<lambda>ep. one_line (ep_Config ep)) (be_Endpoints be)"
proof -
  have "list_all plain_endpoint eps \<longleftrightarrow>
      list_all plain_endpoint (map bare_endpoint eps) \<and> list_all (\<lambda>ep. one_line (ep_Config ep)) eps" for eps
  proof (induction eps)
    case (Cons e eps)
    then show ?case using plain_bare_endpoint [of e] by auto
  qed simp
  from this [of "be_Endpoints be"] show ?thesis by (auto simp: plain_backend_def bare_backend_def)
qed

lemma plain_bare_frontend: "plain_frontend fe \<longleftrightarrow> plain_frontend (bare_frontend fe) \<and> texts_ok fe"
proof -
  have "list_all plain_backend bes \<longleftrightarrow> list_all plain_backend (map bare_backend bes) \<and>
      list_all (\<lambda>be. inert_text (be_Config be) \<and> list_all (\<lambda>ep. one_line (ep_Config ep)) (be_Endpoints be)) bes" for bes
  proof (induction bes)
    case (Cons be bes)
    then show ?case using plain_bare_backend [of be] by auto
  qed simp
  from this [of "fe_BackendServices fe"] show ?thesis by (auto simp: plain_frontend_def bare_frontend_def texts_ok_def)
qed

section \<open>Rules and targets\<close>

definition plain_rule :: "PortRule \<Rightarrow> bool" where
  "plain_rule r \<longleftrightarrow> (pr_BackendName r = '''' \<or> word (pr_BackendName r)) \<and> one_line (pr_Hostname r) \<and>
     one_line (pr_Path r) \<and> one_line (pr_Protocol r)"

definition plain_fed :: "PortRule \<times> Endpoint list \<times> HealthCheck \<Rightarrow> bool" where
  "plain_fed f = (case f of (r, eps, hc) \<Rightarrow> plain_rule r \<and> list_all plain_endpoint eps)"

lemma word_FormulateBackendName: "word (FormulateBackendName p h x)"
proof -
  have "squash False (path_uuid p h x) \<noteq> ''''"
    by (cases "path_uuid p h x") (auto simp: path_uuid_def)
  with squash_no_space show ?thesis by (simp add: word_def FormulateBackendName_def)
qed

lemma one_line_host: "one_line (pr_Hostname r) \<Longrightarrow> one_line (fst (rule_host r))"
  by (auto simp: rule_host_def Let_def one_line_def dest: in_set_butlastD list.set_sel(2) [rotated])

lemma plain_new_backend: "plain_rule r \<Longrightarrow> plain_backend ((new_backend r [] hc)\<lparr>be_Config := ''''\<rparr>)"
  by (auto simp: plain_backend_def new_backend_def plain_rule_def word_FormulateBackendName one_line_host rule_path_def)

lemma plain_weigh: "plain_endpoint (weigh w ep) \<longleftrightarrow> plain_endpoint ep"
  by (simp add: plain_endpoint_def weigh_def)

lemma built_backend_plain:
  assumes "backend_ok fl key be" and "list_all plain_fed fl"
  shows "plain_backend be"
proof -
  from assms(1) obtain r eps hc where r: "(r, eps, hc) \<in> set fl" "be\<lparr>be_Endpoints := []\<rparr> = new_backend r [] hc"
    unfolding backend_ok_def by auto
  from r(1) assms(2) have "plain_rule r" by (auto simp: list_all_iff plain_fed_def)
  from plain_new_backend [OF this, of hc] have "plain_backend (be\<lparr>be_Endpoints := []\<rparr>)"
    unfolding r(2) by (simp add: new_backend_def)
  moreover have "list_all plain_endpoint (be_Endpoints be)"
    using assms unfolding backend_ok_def list_all_iff by (fastforce simp: plain_fed_def list_all_iff plain_weigh)
  ultimately show ?thesis by (simp add: plain_backend_def)
qed

text \<open>The protocol of a frontend is that of the rule that made it.\<close>

lemma add_rule_protocol:
  assumes "map_of (bs_frontends (add_rule r eps hc st)) name = Some cell"
  shows "fe_Protocol (fc_frontend cell) = pr_Protocol r \<or>
    (\<exists>c. map_of (bs_frontends st) name = Some c \<and> fe_Protocol (fc_frontend cell) = fe_Protocol (fc_frontend c))"
  using assms
  by (auto simp: add_rule_def Let_def map_of_update new_cell_def split: option.splits prod.splits if_split_asm)

lemma feed_protocol:
  "map_of (bs_frontends (feed fl)) name = Some cell \<Longrightarrow> \<exists>f \<in> set fl. fe_Protocol (fc_frontend cell) = pr_Protocol (fst f)"
proof (induction fl arbitrary: cell rule: rev_induct)
  case (snoc f fl)
  obtain r eps hc where f: "f = (r, eps, hc)" by (metis prod_cases3)
  from add_rule_protocol [OF snoc.prems [unfolded f feed_snoc]] snoc.IH f show ?case by auto
qed (simp add: feed_def init_build_def)

lemma built_frontend_plain:
  assumes "list_all plain_fed fl" and "fe \<in> set (finish_frontends (feed fl))"
  shows "plain_frontend (bare_frontend fe)"
proof -
  note B = build_ok_feed [of fl]
  from assms(2) obtain name cell where c: "(name, cell) \<in> set (bs_frontends (feed fl))" "fe = finish_frontend (feed fl) cell"
    by (auto simp: finish_frontends_def)
  from map_of_is_SomeI [OF build_okD(4) [OF B] c(1)] have m: "map_of (bs_frontends (feed fl)) name = Some cell" .
  note ok = build_okD(6) [OF B m]
  from feed_protocol [OF m] assms(1) have "one_line (fe_Protocol (fc_frontend cell))"
    by (force simp: list_all_iff plain_fed_def plain_rule_def)
  moreover have "word (fe_Name fe)" using ok by (simp add: c(2) cell_ok_def word_Itoa)
  moreover have "plain_backend (bare_backend be)" if "be \<in> set (fe_BackendServices fe)" for be
  proof -
    from that finish_backends [OF B ok] obtain key where "map_of (bs_allBe (feed fl)) key = Some be" by (auto simp: c(2))
    from built_backend_plain [OF build_okD(3) [OF B this] assms(1)] show ?thesis using plain_bare_backend [of be] by blast
  qed
  ultimately show ?thesis
    by (simp add: plain_frontend_def bare_frontend_def list_all_iff c(2) finish_frontend_def)
qed

text \<open>
  C14 A well-formed configuration from well-formed rules: when the rules name hosts, paths and
  protocols in one line, backends by words, and their targets have plain names and addresses, then
  whatever custom text the operator gives, the data of the template are plain as long as the texts
  that the custom configuration sets are: no name can break out of its line or section.
\<close>

theorem configuration_well_formed:
  assumes "rule_loop n mc envUUID self pref rules init_build = Ok st"
    and "list_all plain_fed (fed_rules n mc envUUID self pref rules)"
    and "lb_FrontendServices lb = finish_frontends st"
    and "list_all texts_ok (lb_FrontendServices (BuildCustomConfig lb custom))"
    and "preamble_text (lb_Config (BuildCustomConfig lb custom))"
    and "case lb_DefaultCert (BuildCustomConfig lb custom) of None \<Rightarrow> True | Some c \<Rightarrow> one_line (cert_Name c)"
  shows "plain_template (template_of (BuildCustomConfig lb custom))"
proof -
  let ?lb = "BuildCustomConfig lb custom"
  from rule_loop_feed [OF assms(1)] have st: "st = feed (fed_rules n mc envUUID self pref rules)" by (simp add: feed_def)
  have bare: "map bare_frontend (lb_FrontendServices ?lb) = map bare_frontend (lb_FrontendServices lb)"
    by (simp add: BuildCustomConfig_def Let_def bare_custom_frontends)
  have fes: "plain_frontend fe" if "fe \<in> set (lb_FrontendServices ?lb)" for fe
  proof -
    from that have "bare_frontend fe \<in> set (map bare_frontend (lb_FrontendServices lb))" unfolding bare [symmetric] by simp
    then obtain fe0 where "fe0 \<in> set (finish_frontends st)" "bare_frontend fe = bare_frontend fe0" by (auto simp: assms(3))
    with built_frontend_plain [OF assms(2)] st have "plain_frontend (bare_frontend fe)" by simp
    with that assms(4) plain_bare_frontend [of fe] show ?thesis by (auto simp: list_all_iff)
  qed
  then have bes: "plain_backend be" if "be \<in> set (td_backends (template_of ?lb))" for be
    using template_backends [OF that] by (auto simp: plain_frontend_def list_all_iff)
  have cert: "case td_defaultCertFile (template_of ?lb) of None \<Rightarrow> True | Some f \<Rightarrow> one_line f"
    using assms(6) ReplaceAll_single_set [of _ "CHR '' ''" "[CHR 0x5C, CHR '' '']"]
    by (fastforce simp: template_of_def one_line_def split: prod.split option.split)
  have "td_globalConfig (template_of ?lb) = lb_Config ?lb" by (simp add: template_of_def split: prod.split)
  moreover have "list_all plain_frontend (td_frontends (template_of ?lb))"
    using fes by (auto simp: template_sections(1) list_all_iff)
  moreover have "list_all plain_backend (td_backends (template_of ?lb))" using bes by (simp add: list_all_iff)
  ultimately show ?thesis using assms(5) cert by (simp only: plain_template_def simp_thms)
qed

text \<open>One rule, no custom text.\<close>

definition demo_lb_of :: "FrontendService list \<Rightarrow> LoadBalancerConfig" where
  "demo_lb_of fes = \<lparr>lb_DefaultCert = None, lb_Certs = [], lb_Name = '''', lb_Annotations = [], lb_FrontendServices = fes,
     lb_Config = '''', lb_StickinessPolicy = None\<rparr>"

text \<open>
  A scan of a text: no line of it begins with one of the given bytes. It decides in one pass
  that the default texts hold no word that opens a section or a line that the reader knows.
\<close>

fun calm :: "char list \<Rightarrow> bool \<Rightarrow> string \<Rightarrow> bool" where
  "calm bad start [] = True"
| "calm bad start (c # s) =
     (if c = nl then calm bad True s
      else if start \<and> \<not> is_space c then c \<notin> set bad \<and> calm bad False s
      else calm bad start s)"

definition starts_calm :: "char list \<Rightarrow> string \<Rightarrow> bool" where
  "starts_calm bad l = (case dropWhile is_space l of [] \<Rightarrow> True | c # _ \<Rightarrow> c \<notin> set bad)"

lemma starts_calm_snoc:
  "starts_calm bad (w @ [c]) \<longleftrightarrow> starts_calm bad w \<and> (list_all is_space w \<and> \<not> is_space c \<longrightarrow> c \<notin> set bad)"
  by (induction w) (auto simp: starts_calm_def)

lemma calm_parts:
  "calm bad (list_all is_space w) s \<Longrightarrow> starts_calm bad w \<Longrightarrow> l \<in> set (char_parts nl w s) \<Longrightarrow> starts_calm bad l"
proof (induction nl w s rule: char_parts.induct)
  case (2 w c s)
  show ?case
  proof (cases "c = nl")
    case True
    with 2 show ?thesis by (auto simp: starts_calm_def)
  next
    case False
    with 2(3-5) show ?thesis by (intro 2(2)) (auto simp: starts_calm_snoc split: if_splits)
  qed
qed simp

lemma fields_from_first: "\<exists>v vs. fields_from (c # w) s = (c # v) # vs"
  by (induction "c # w" s arbitrary: w rule: fields_from.induct) auto

lemma Fields_calm: "starts_calm bad l \<Longrightarrow> Fields l = w # ws \<Longrightarrow> \<exists>c v. w = c # v \<and> c \<notin> set bad"
proof (induction l)
  case (Cons c l)
  then show ?case using fields_from_first [of c "[]" l]
    by (cases "is_space c") (auto simp: starts_calm_def Fields_Cons_space Fields_def)
qed simp

lemma Split_calm: "calm bad True s \<Longrightarrow> l \<in> set (Split s [nl]) \<Longrightarrow> starts_calm bad l"
  using calm_parts [of bad "[]" s l] by (simp add: Split_char starts_calm_def)

lemma calm_preamble: "calm ''fb'' True s \<Longrightarrow> preamble_text s"
  using Fields_calm [OF Split_calm [of "''fb''" s]]
  by (fastforce simp: preamble_text_def list_all_iff split: list.split)

lemma calm_inert: "calm ''fbsudglrpm'' True s \<Longrightarrow> inert_text s"
  using Fields_calm [OF Split_calm [of "''fbsudglrpm''" s]]
  by (fastforce simp: inert_text_def inert_def reserved_words_def other_sections_def list_all_iff split: list.split)

definition calm_defaults :: "custom \<Rightarrow> bool" where
  "calm_defaults cm \<longleftrightarrow> keys_of cm = [''defaults'', ''global'', ''backend''] \<and>
     calm ''fbsudglrpm'' True (confToString (map_get [] cm ''backend'') False True) \<and>
     calm ''fb'' True (''global'' @ nl # confToString (map_get [] cm ''global'') False True @ nl # nl #
       ''defaults'' @ nl # confToString (map_get [] cm ''defaults'') False True)"

lemma calm_custom_map: "calm_defaults (custom_map '''')"
  by code_simp

lemmas calm_custom = calm_custom_map [unfolded calm_defaults_def]

lemmas custom_map_Nil_keys = calm_custom [THEN conjunct1]

lemma custom_map_Nil: "k \<notin> set [''defaults'', ''global'', ''backend''] \<Longrightarrow> map_get [] (custom_map '''') k = []"
  using custom_map_Nil_keys
  by (simp add: map_get_def map_of_eq_None_iff [THEN iffD2] flip: list.set_map)

lemma confToString_Nil: "confToString [] False b = ''''"
  by (cases b) code_simp+

lemma extra_config_Nil: "extra_config (custom_map '''') processed = ''''"
  by (simp add: extra_config_def custom_map_Nil_keys extra_section_def)

lemma newline_Itoa: "nl \<notin> set (Itoa n)"
  using word_one_line [OF word_Itoa] by (simp add: one_line_def)

lemma word_hashIP: "word (hashIP ip)"
  by (simp add: word_def hashIP_no_space)

lemma demo_texts: "list_all texts_ok (lb_FrontendServices (BuildCustomConfig (demo_lb_of
    (finish_frontends (feed [(demo_rule, [demo_ep], demo_hc)]))) ''''))"
  unfolding demo_backend
  by (simp add: BuildCustomConfig_def Let_def demo_lb_of_def custom_frontend_def custom_backend_def 
      calm_custom [THEN conjunct2, THEN conjunct1, THEN calm_inert]
      custom_map_Nil confToString_Nil texts_ok_def new_backend_def custom_endpoint_def endpoint_text_def weigh_def
      has_check_def demo_hc_def demo_ep_def demo_rule_def zero_PortRule_def zero_Endpoint_def one_line_def newline_Itoa)

lemma demo_preamble: "preamble_text (lb_Config (BuildCustomConfig (demo_lb_of fes) ''''))"
  using calm_custom [THEN conjunct2, THEN conjunct2, THEN calm_preamble]
  by (simp add: BuildCustomConfig_def Let_def extra_config_Nil)

lemma configuration_well_formed_witness:
  "plain_template (template_of (BuildCustomConfig (demo_lb_of
     (finish_frontends (feed [(demo_rule, [demo_ep], demo_hc)]))) ''''))"
proof (rule configuration_well_formed [OF demo_run _ _ demo_texts demo_preamble])
  show "list_all plain_fed (fed_rules (Suc 0) demo_client '''' '''' ''any'' [demo_rule])"
    unfolding demo_fed
    by (simp add: plain_fed_def plain_rule_def plain_endpoint_def demo_rule_def zero_PortRule_def demo_ep_def
        zero_Endpoint_def one_line_def word_hashIP word_def [of "''10.0.0.1''"]
        is_space_def)
qed (simp_all add: demo_lb_of_def BuildCustomConfig_def Let_def)

end
