(* ===== verification/Api_Resources.thy ===== *)
theory Api_Resources
  imports Event_Router Cert_Fetcher
begin

text \<open>
  The typed clients of resources (\<open>internal/rancherclient/v2/generated_certificate.go\<close> and its
  siblings: the generator writes the same methods for every type), and what the program asks of
  them: the interfaces of the certificate fetcher, the worker pool and the handler registration on
  the client of the control-plane API.
\<close>

section \<open>The methods of a typed client\<close>

text \<open>
  A resource type: its zero value, the decoders of a resource and of a page, the encoder, and the
  embedded resource.
\<close>

record 'a codec =
  cd_zero :: 'a
  cd_decode :: "string \<Rightarrow> 'a option"
  cd_page :: "string \<Rightarrow> 'a page option"
  cd_encode :: "'a \<Rightarrow> string api_result"
  cd_resource :: "'a \<Rightarrow> Resource"

text \<open>An empty answer leaves the response object as it was: zero.\<close>

definition or_zero :: "'a codec \<Rightarrow> 'a option api_result \<times> 's \<Rightarrow> 'a api_result \<times> 's" where
  "or_zero cd r = (case r of
      (Inl e, s) \<Rightarrow> (Inl e, s) | (Inr None, s) \<Rightarrow> (Inr (cd_zero cd), s) | (Inr (Some x), s) \<Rightarrow> (Inr x, s))"

definition res_Create ::
  "'w api_env \<Rightarrow> base_client \<Rightarrow> 'a codec \<Rightarrow> string \<Rightarrow> 'a \<Rightarrow> 'w api_io \<Rightarrow> ('a api_result \<times> 'w api_io) option" where
  "res_Create env c cd T container io = map_option (or_zero cd) (doCreate env c (cd_decode cd) T (cd_encode cd container) io)"

text \<open>\<open>updates\<close> is the marshalled object.\<close>

definition res_Update ::
  "'w api_env \<Rightarrow> base_client \<Rightarrow> 'a codec \<Rightarrow> string \<Rightarrow> 'a \<Rightarrow> string api_result \<Rightarrow> 'w api_io \<Rightarrow> ('a api_result \<times> 'w api_io) option" where
  "res_Update env c cd T existing updates io =
     map_option (or_zero cd) (doUpdate env c (cd_decode cd) T (Some (cd_resource cd existing)) updates io)"

definition res_List ::
  "'w api_env \<Rightarrow> base_client \<Rightarrow> 'a codec \<Rightarrow> string \<Rightarrow> (string, filter_value) gomap \<Rightarrow> 'w api_io \<Rightarrow>
   ('a page api_result \<times> 'w api_io) option" where
  "res_List env c cd T filters io = doList env c (cd_page cd) T filters io"

text \<open>\<open>Next\<close> of a page; \<open>None\<close> as a page is nil, which is also what a page without a next link gives.\<close>

definition res_Next ::
  "'w api_env \<Rightarrow> base_client \<Rightarrow> 'a codec \<Rightarrow> 'a page option \<Rightarrow> 'w api_io \<Rightarrow> ('a page option api_result \<times> 'w api_io) option" where
  "res_Next env c cd page io =
     (case Option.bind page pg_Pagination of
        None \<Rightarrow> Some (Inr None, io)
      | Some (partial, link) \<Rightarrow>
          if link = '''' then Some (Inr None, io)
          else map_option (\<lambda>(r, io1). (map_sum id Some r, io1)) (doNext env c (cd_page cd) link io))"

text \<open>\<open>ById\<close>: nil without an error for the status 404.\<close>

definition res_ById ::
  "'w api_env \<Rightarrow> base_client \<Rightarrow> 'a codec \<Rightarrow> string \<Rightarrow> string \<Rightarrow> 'w api_io \<Rightarrow> ('a option api_result \<times> 'w api_io) option" where
  "res_ById env c cd T rid io =
     map_option (\<lambda>(r, io1). (case r of
         Inl e \<Rightarrow> if IsNotFound (Some e) then Inr None else Inl e
       | Inr x \<Rightarrow> Inr (Some x), io1)) (doById env c (cd_decode cd) T rid io)"

definition res_Delete ::
  "'w api_env \<Rightarrow> base_client \<Rightarrow> 'a codec \<Rightarrow> string \<Rightarrow> 'a \<Rightarrow> 'w api_io \<Rightarrow> (unit api_result \<times> 'w api_io) option" where
  "res_Delete env c cd T container io = doResourceDelete env c T (cd_resource cd container) io"

definition res_Action ::
  "'w api_env \<Rightarrow> base_client \<Rightarrow> 'a codec \<Rightarrow> string \<Rightarrow> string \<Rightarrow> 'a \<Rightarrow> 'w api_io \<Rightarrow> ('a api_result \<times> 'w api_io) option" where
  "res_Action env c cd T action resource io = doAction env c (cd_decode cd) T action (Some (cd_resource cd resource)) None io"

section \<open>The types that the program uses\<close>

abbreviation (input) "CERTIFICATE_TYPE \<equiv> ''certificate''"
abbreviation (input) "PUBLISH_TYPE \<equiv> ''publish''"
abbreviation (input) "EXTERNAL_HANDLER_TYPE \<equiv> ''externalHandler''"
abbreviation (input) "LOAD_BALANCER_SERVICE_TYPE \<equiv> ''loadBalancerService''"

definition certificate_List ::
  "'w api_env \<Rightarrow> base_client \<Rightarrow> api_certificate codec \<Rightarrow> (string, filter_value) gomap \<Rightarrow> 'w api_io \<Rightarrow>
   (api_certificate page api_result \<times> 'w api_io) option" where
  "certificate_List env c cd filters io = res_List env c cd CERTIFICATE_TYPE filters io"

definition publish_Create ::
  "'w api_env \<Rightarrow> base_client \<Rightarrow> Publish codec \<Rightarrow> Publish \<Rightarrow> 'w api_io \<Rightarrow> (Publish api_result \<times> 'w api_io) option" where
  "publish_Create env c cd container io = res_Create env c cd PUBLISH_TYPE container io"

definition externalHandler_Create ::
  "'w api_env \<Rightarrow> base_client \<Rightarrow> ExternalHandler codec \<Rightarrow> ExternalHandler \<Rightarrow> 'w api_io \<Rightarrow>
   (ExternalHandler api_result \<times> 'w api_io) option" where
  "externalHandler_Create env c cd container io = res_Create env c cd EXTERNAL_HANDLER_TYPE container io"

definition externalHandler_List ::
  "'w api_env \<Rightarrow> base_client \<Rightarrow> ExternalHandler codec \<Rightarrow> (string, filter_value) gomap \<Rightarrow> 'w api_io \<Rightarrow>
   (ExternalHandler page api_result \<times> 'w api_io) option" where
  "externalHandler_List env c cd filters io = res_List env c cd EXTERNAL_HANDLER_TYPE filters io"

definition externalHandler_ById ::
  "'w api_env \<Rightarrow> base_client \<Rightarrow> ExternalHandler codec \<Rightarrow> string \<Rightarrow> 'w api_io \<Rightarrow>
   (ExternalHandler option api_result \<times> 'w api_io) option" where
  "externalHandler_ById env c cd rid io = res_ById env c cd EXTERNAL_HANDLER_TYPE rid io"

definition externalHandler_ActionDeactivate ::
  "'w api_env \<Rightarrow> base_client \<Rightarrow> ExternalHandler codec \<Rightarrow> ExternalHandler \<Rightarrow> 'w api_io \<Rightarrow>
   (ExternalHandler api_result \<times> 'w api_io) option" where
  "externalHandler_ActionDeactivate env c cd resource io = res_Action env c cd EXTERNAL_HANDLER_TYPE ''deactivate'' resource io"

definition externalHandler_ActionRemove ::
  "'w api_env \<Rightarrow> base_client \<Rightarrow> ExternalHandler codec \<Rightarrow> ExternalHandler \<Rightarrow> 'w api_io \<Rightarrow>
   (ExternalHandler api_result \<times> 'w api_io) option" where
  "externalHandler_ActionRemove env c cd resource io = res_Action env c cd EXTERNAL_HANDLER_TYPE ''remove'' resource io"

definition loadBalancerService_List ::
  "'w api_env \<Rightarrow> base_client \<Rightarrow> 'l codec \<Rightarrow> (string, filter_value) gomap \<Rightarrow> 'w api_io \<Rightarrow> ('l page api_result \<times> 'w api_io) option" where
  "loadBalancerService_List env c cd filters io = res_List env c cd LOAD_BALANCER_SERVICE_TYPE filters io"

definition loadBalancerService_Next ::
  "'w api_env \<Rightarrow> base_client \<Rightarrow> 'l codec \<Rightarrow> 'l page option \<Rightarrow> 'w api_io \<Rightarrow> ('l page option api_result \<times> 'w api_io) option" where
  "loadBalancerService_Next env c cd page io = res_Next env c cd page io"

definition loadBalancerService_Update ::
  "'w api_env \<Rightarrow> base_client \<Rightarrow> 'l codec \<Rightarrow> 'l \<Rightarrow> string api_result \<Rightarrow> 'w api_io \<Rightarrow> ('l api_result \<times> 'w api_io) option" where
  "loadBalancerService_Update env c cd existing updates io = res_Update env c cd LOAD_BALANCER_SERVICE_TYPE existing updates io"

section \<open>What the components ask of the client\<close>

text \<open>
  An operation as the components use it: \<open>gerr\<close> is the error as a Go value. A client that was never
  set up (\<open>None\<close>) does not occur in the program, which stops when the setup fails.
\<close>

definition settled :: "(api_error \<Rightarrow> go_error) \<Rightarrow> 's \<Rightarrow> ('a api_result \<times> 's) option \<Rightarrow> 'a result \<times> 's" where
  "settled gerr s r = (case r of
      None \<Rightarrow> (Inl (Errorf ''runtime error: nil client options'' []), s)
    | Some (Inl e, s1) \<Rightarrow> (Inl (gerr e), s1)
    | Some (Inr x, s1) \<Rightarrow> (Inr x, s1))"

definition text_filters :: "filters \<Rightarrow> (string, filter_value) gomap" where
  "text_filters fs = map (\<lambda>(k, v). (k, FilterText v)) fs"

definition on_ok :: "('a \<Rightarrow> 'b) \<Rightarrow> 'a result \<times> 's \<Rightarrow> 'b result \<times> 's" where
  "on_ok f r = (case r of (Inl e, s) \<Rightarrow> (Inl e, s) | (Inr x, s) \<Rightarrow> (Inr (f x), s))"

text \<open>The listing of certificates that \<open>FetchRancherCertificate\<close> calls.\<close>

definition cert_lister ::
  "'w api_env \<Rightarrow> base_client \<Rightarrow> api_certificate codec \<Rightarrow> (api_error \<Rightarrow> go_error) \<Rightarrow> filters \<Rightarrow> 'w api_io \<Rightarrow>
   api_certificate list result \<times> 'w api_io" where
  "cert_lister env c cd gerr fs io = on_ok pg_Data (settled gerr io (certificate_List env c cd (text_filters fs) io))"

text \<open>
  The service interface of \<open>UpdateEndpoints\<close>; \<open>page_loop\<close> asks for the next page by its link, and only for
  a link that is not empty. \<open>enc\<close> marshals the map with the public endpoints.
\<close>

definition lb_services ::
  "'w api_env \<Rightarrow> base_client \<Rightarrow> 'l codec \<Rightarrow> (api_error \<Rightarrow> go_error) \<Rightarrow> ('e list \<Rightarrow> string api_result) \<Rightarrow> ('l, 'e, 'w api_io) services_api" where
  "lb_services env c cd gerr enc =
     \<lparr>sa_List = (\<lambda>fs io. settled gerr io (loadBalancerService_List env c cd (text_filters fs) io)),
      sa_Next = (\<lambda>link io. on_ok the (settled gerr io
        (loadBalancerService_Next env c cd (Some \<lparr>pg_Data = [], pg_Pagination = Some (True, link)\<rparr>) io))),
      sa_Update = (\<lambda>lb eps io. on_ok (\<lambda>_. ()) (settled gerr io (loadBalancerService_Update env c cd lb (enc eps) io)))\<rparr>"

definition handler_resource ::
  "'w api_env \<Rightarrow> base_client \<Rightarrow> ExternalHandler codec \<Rightarrow> (api_error \<Rightarrow> go_error) \<Rightarrow> ('w \<Rightarrow> int) \<Rightarrow> ('w \<Rightarrow> int \<times> 'w) \<Rightarrow>
   'w api_io handler_api" where
  "handler_resource env c cd gerr now tick =
     \<lparr>ha_List = (\<lambda>fs io. on_ok pg_Data (settled gerr io (externalHandler_List env c cd (text_filters fs) io))),
      ha_ById = (\<lambda>i io. settled gerr io (externalHandler_ById env c cd i io)),
      ha_Create = (\<lambda>h io. settled gerr io (externalHandler_Create env c cd h io)),
      ha_Deactivate = (\<lambda>h io. settled gerr io (externalHandler_ActionDeactivate env c cd h io)),
      ha_Remove = (\<lambda>h io. settled gerr io (externalHandler_ActionRemove env c cd h io)),
      ha_now = (\<lambda>io. now (ax_world io)),
      ha_tick = (\<lambda>io. case tick (ax_world io) of (t, w) \<Rightarrow> (t, io\<lparr>ax_world := w\<rparr>))\<rparr>"

definition publisher ::
  "'w api_env \<Rightarrow> base_client \<Rightarrow> Publish codec \<Rightarrow> (api_error \<Rightarrow> go_error) \<Rightarrow> Publish \<Rightarrow> 'w api_io \<Rightarrow> unit result \<times> 'w api_io" where
  "publisher env c cd gerr reply io = on_ok (\<lambda>_. ()) (settled gerr io (publish_Create env c cd reply io))"

end
