(* ===== verification/Api_Frames.thy ===== *)
theory Api_Frames
  imports Api_Resources Api_Theorems
begin

text \<open>
  What the components may do to the world through an interface, stated once per interface: if every
  operation of the interface keeps a relation between worlds, so does the component. The
  interpretations give the operations of the typed clients and the relation that says that all
  requests stay at the origin and carry the credentials of the client.
\<close>

section \<open>Interfaces\<close>

locale api_frame =
  fixes rel :: "'w \<Rightarrow> 'w \<Rightarrow> bool"
  assumes rel_refl: "rel w w"
    and rel_trans: "rel w w1 \<Longrightarrow> rel w1 w2 \<Longrightarrow> rel w w2"

locale services_frame = api_frame rel for rel :: "'w \<Rightarrow> 'w \<Rightarrow> bool" +
  fixes api :: "('l, 'e, 'w) services_api"
  assumes list_rel: "rel w (snd (sa_List api fs w))"
    and next_rel: "rel w (snd (sa_Next api l w))"
    and update_rel: "rel w (snd (sa_Update api lb eps w))"
begin

lemma page_loop_rel: "page_loop n api page acc w = Ok (r, w') \<Longrightarrow> rel w w'"
proof (induction n arbitrary: page acc w)
  case (Suc n)
  show ?case
  proof (cases "pg_Pagination page")
    case (Some pl)
    obtain partial link where pl: "pl = (partial, link)" by fastforce
    obtain a w1 where a: "sa_Next api link w = (a, w1)" by fastforce
    with next_rel [of w link] have "rel w w1" by simp
    with Suc Some pl a show ?thesis
      by (cases a) (auto simp: rel_refl intro: rel_trans split: if_split_asm bool.split_asm)
  qed (use Suc.prems in simp)
qed simp

lemma services_rel: "listLoadBalancerServices n api fs w = Ok (r, w') \<Longrightarrow> rel w w'"
proof -
  obtain a w1 where a: "sa_List api fs w = (a, w1)" by fastforce
  with list_rel [of w fs] have "rel w w1" by simp
  with a show "listLoadBalancerServices n api fs w = Ok (r, w') \<Longrightarrow> ?thesis"
    by (cases a) (auto simp: listLoadBalancerServices_def intro: rel_trans page_loop_rel)
qed

lemma update_endpoints_rel:
  assumes "UpdateEndpoints n api lbSvc eps w = Ok (r, w')"
  shows "rel w w'"
proof -
  from assms obtain a w1 where a: "listLoadBalancerServices n api [(''uuid'', svc_UUID lbSvc), (''removed_null'', ''1'')] w = Ok (a, w1)"
    by (cases "listLoadBalancerServices n api [(''uuid'', svc_UUID lbSvc), (''removed_null'', ''1'')] w")
      (auto simp: UpdateEndpoints_def)
  note first = services_rel [OF a]
  show ?thesis
  proof (cases "\<exists>lb lbs. a = Inr (lb # lbs)")
    case True
    then obtain lb lbs where lb: "a = Inr (lb # lbs)" by blast
    obtain b w2 where b: "sa_Update api lb eps w1 = (b, w2)" by fastforce
    with update_rel [of w1 lb eps] have "rel w1 w2" by simp
    with first rel_trans a b lb assms show ?thesis by (auto simp: UpdateEndpoints_def split: sum.split_asm)
  next
    case False
    with a assms first show ?thesis by (auto simp: UpdateEndpoints_def split: sum.split_asm list.split_asm)
  qed
qed

end

locale certs_frame = api_frame rel for rel :: "'w \<Rightarrow> 'w \<Rightarrow> bool" +
  fixes listCerts :: "filters \<Rightarrow> 'w \<Rightarrow> api_certificate list result \<times> 'w"
  assumes certs_rel: "rel w (snd (listCerts fs w))"
begin

lemma fetch_one_rel: "rel w (snd (FetchRancherCertificate listCerts name w))"
  using certs_rel [of w "[(''name'', name), (''removed_null'', ''1'')]"]
  by (auto simp: FetchRancherCertificate_def rel_refl split: prod.split sum.split list.split)

lemma fetch_named_rel: "rel w (snd (fetch_named listCerts ns w))"
proof (induction ns arbitrary: w)
  case (Cons n ns)
  obtain r w1 where f: "FetchRancherCertificate listCerts n w = (r, w1)" by fastforce
  with fetch_one_rel [of w n] have "rel w w1" by simp
  moreover have "rel w1 (snd (fetch_named listCerts ns w1))" by (rule Cons.IH)
  ultimately show ?case using f rel_trans by (auto split: sum.split prod.split)
qed (simp add: rel_refl)

lemma fetch_rel: "FetchCertificates env listCerts n seen lbMeta isDefault w = Some (r, w') \<Longrightarrow> rel w w'"
  using fetch_named_rel [of w "lm_Certs lbMeta"] fetch_one_rel [of w "lm_DefaultCert lbMeta"]
  by (auto simp: FetchCertificates_def rel_refl split: if_split_asm option.split_asm prod.split_asm sum.split_asm)

end

locale handlers_frame = api_frame rel for rel :: "'w \<Rightarrow> 'w \<Rightarrow> bool" +
  fixes api :: "'w handler_api"
  assumes handler_rel: "rel w (snd (ha_List api fs w))" "rel w (snd (ha_ById api i w))" "rel w (snd (ha_Create api h w))"
      "rel w (snd (ha_Deactivate api h w))" "rel w (snd (ha_Remove api h w))" "rel w (snd (ha_tick api w))"
begin

lemma then_rel:
  assumes "rel w (snd r)" and "\<And>x w1. rel w1 (snd (f x w1))"
  shows "rel w (snd (then_call r f))"
  using assms rel_trans by (auto simp: then_call_def split: prod.split outcome.split)

lemma call_rel: "rel w (snd r) \<Longrightarrow> rel w (snd (call_result r))"
  by (simp add: call_result_def)

lemma done_rel: "rel w (snd (doneTransitioning api i w))"
  using handler_rel(2) [of w i] by (auto simp: doneTransitioning_def split: prod.split sum.split option.split)

lemma transition_rel: "(\<And>w. rel w (snd (f w))) \<Longrightarrow> rel w (snd (transition_loop n api f t w))"
proof (induction n arbitrary: w)
  case (Suc n)
  obtain tick w1 where t: "ha_tick api w = (tick, w1)" by fastforce
  obtain r w2 where f: "f w1 = (r, w2)" by fastforce
  have "rel w w2" using handler_rel(6) [of w] Suc.prems [of w1] t f rel_trans by auto
  with Suc t f show ?case by (auto intro: rel_trans split: outcome.split)
qed (simp add: rel_refl)

lemma wait_rel: "rel w (snd (waitForTransition n api (doneTransitioning api i) w))"
  unfolding waitForTransition_def by (rule transition_rel [OF done_rel])

lemma remove_rel: "rel w (snd (remove_handler n api h w))"
  unfolding remove_handler_def
  by (auto intro!: then_rel call_rel handler_rel wait_rel rel_refl split: option.split)

lemma removes_rel: "rel w (snd (remove_handlers n api hs w))"
  by (induction hs arbitrary: w) (auto intro!: then_rel remove_rel rel_refl)

lemma register_rel: "rel w (snd (createExternalHandler n api router w))"
  unfolding createExternalHandler_def removeOldHandler_def createNewHandler_def
  by (intro then_rel call_rel handler_rel wait_rel removes_rel)

end

section \<open>The client's operations keep its requests at home\<close>

definition api_rel :: "'w api_env \<Rightarrow> base_client \<Rightarrow> string \<Rightarrow> 'w api_io \<Rightarrow> 'w api_io \<Rightarrow> bool" where
  "api_rel env c auth io io' \<longleftrightarrow>
     (url_laws env \<and> client_ok env c auth \<longrightarrow> (\<exists>n. confined_io env (bc_origin c) auth n io io'))"

lemma api_rel_once: "sends_once env c io io' \<Longrightarrow> api_rel env c auth io io'"
  unfolding api_rel_def sends_once_def using send_request_confined confined_refl by blast

lemma do_once:
  "doList env c parse1 t fs io = Some (r1, io') \<Longrightarrow> sends_once env c io io'"
  "doNext env c parse1 u io = Some (r1, io') \<Longrightarrow> sends_once env c io io'"
  "doCreate env c parse2 t b io = Some (r2, io') \<Longrightarrow> sends_once env c io io'"
  "doUpdate env c parse2 t res b io = Some (r2, io') \<Longrightarrow> sends_once env c io io'"
  "doById env c parse2 t u io = Some (r3, io') \<Longrightarrow> sends_once env c io io'"
  using call_once [of env c parse1 "ListCall t fs"] call_once [of env c parse1 "NextCall u"] call_once [of env c parse2 "CreateCall t b"]
    call_once [of env c parse2 "UpdateCall t res b"] call_once [of env c parse2 "ByIdCall t u"]
  by simp_all

lemma or_zero_snd: "or_zero cd r = (x, s) \<Longrightarrow> snd r = s"
  by (auto simp: or_zero_def split: prod.split_asm sum.split_asm option.split_asm)

lemma typed_once:
  "certificate_List env c cdc fs io = Some (r1, io') \<Longrightarrow> sends_once env c io io'"
  "publish_Create env c cdp b io = Some (r2, io') \<Longrightarrow> sends_once env c io io'"
  "externalHandler_Create env c cdh h io = Some (r3, io') \<Longrightarrow> sends_once env c io io'"
  "externalHandler_List env c cdh fs io = Some (r4, io') \<Longrightarrow> sends_once env c io io'"
  "externalHandler_ById env c cdh i io = Some (r5, io') \<Longrightarrow> sends_once env c io io'"
  "externalHandler_ActionDeactivate env c cdh h io = Some (r3, io') \<Longrightarrow> sends_once env c io io'"
  "externalHandler_ActionRemove env c cdh h io = Some (r3, io') \<Longrightarrow> sends_once env c io io'"
  "loadBalancerService_List env c cdl fs io = Some (r6, io') \<Longrightarrow> sends_once env c io io'"
  "loadBalancerService_Next env c cdl pg io = Some (r7, io') \<Longrightarrow> sends_once env c io io'"
  "loadBalancerService_Update env c cdl lb u io = Some (r8, io') \<Longrightarrow> sends_once env c io io'"
  by (auto simp: certificate_List_def publish_Create_def externalHandler_Create_def externalHandler_List_def externalHandler_ById_def
      externalHandler_ActionDeactivate_def externalHandler_ActionRemove_def loadBalancerService_List_def loadBalancerService_Next_def
      loadBalancerService_Update_def res_Create_def res_List_def res_Next_def res_ById_def res_Action_def res_Update_def
      split: option.split_asm if_split_asm dest!: or_zero_snd intro: do_once doAction_once sends_once_refl)

lemma settled_rel:
  assumes "\<And>r io'. answer = Some (r, io') \<Longrightarrow> sends_once env c io io'"
  shows "api_rel env c auth io (snd (settled gerr io answer))" "api_rel env c auth io (snd (on_ok f (settled gerr io answer)))"
proof -
  have "sends_once env c io (snd (settled gerr io answer))"
    using assms by (auto simp: settled_def sends_once_refl split: option.split sum.split)
  then show "api_rel env c auth io (snd (settled gerr io answer))" by (rule api_rel_once)
  then show "api_rel env c auth io (snd (on_ok f (settled gerr io answer)))"
    by (auto simp: on_ok_def split: prod.split sum.split)
qed

interpretation api: api_frame "api_rel env c auth" for env c auth
proof
  show "api_rel env c auth io io" for io by (simp add: api_rel_once sends_once_refl)
  show "api_rel env c auth io io1 \<Longrightarrow> api_rel env c auth io1 io2 \<Longrightarrow> api_rel env c auth io io2" for io io1 io2
    unfolding api_rel_def using confined_trans by blast
qed

interpretation lb_updates: services_frame "api_rel env c auth" "lb_services env c cd gerr enc" for env c auth cd gerr enc
  by unfold_locales (simp_all add: lb_services_def, (rule settled_rel, erule typed_once)+)

interpretation cert_lists: certs_frame "api_rel env c auth" "cert_lister env c cd gerr" for env c auth cd gerr
  by unfold_locales (simp add: cert_lister_def, rule settled_rel, erule typed_once)

lemma tick_rel: "api_rel env c auth io (io\<lparr>ax_world := w\<rparr>)"
  by (auto simp: api_rel_def confined_io_def)

interpretation registrations: handlers_frame "api_rel env c auth" "handler_resource env c cd gerr now tick"
  for env c auth cd gerr now tick
  by unfold_locales
    (simp_all add: handler_resource_def tick_rel split: prod.split, (rule settled_rel, erule typed_once)+)

section \<open>The program\<close>

text \<open>How the types of the API are encoded, and errors as Go values.\<close>

record ('l, 'e) api_types =
  at_certificate :: "api_certificate codec"
  at_publish :: "Publish codec"
  at_handler :: "ExternalHandler codec"
  at_service :: "'l codec"
  at_endpoints :: "'e list \<Rightarrow> string api_result"
  at_error :: "api_error \<Rightarrow> go_error"

text \<open>
  One use of the API by a component: an update of public endpoints, a fetch of the certificates of a
  balancer, the registration of the event handler, a reply to an event.
\<close>

inductive component_call ::
  "'w api_env \<Rightarrow> base_client \<Rightarrow> ('l, 'e) api_types \<Rightarrow> ('c, 'h) EventRouter \<Rightarrow> 'w api_io \<Rightarrow> 'w api_io \<Rightarrow> bool"
  for env c ty router where
  endpoints: "UpdateEndpoints n (lb_services env c (at_service ty) (at_error ty) (at_endpoints ty)) svc eps io = Ok (r, io') \<Longrightarrow>
    component_call env c ty router io io'"
| certificates: "FetchCertificates fenv (cert_lister env c (at_certificate ty) (at_error ty)) n seen lbMeta isDefault io = Some (r', io') \<Longrightarrow>
    component_call env c ty router io io'"
| registration: "createExternalHandler n (handler_resource env c (at_handler ty) (at_error ty) now tick) router io = (r'', io') \<Longrightarrow>
    component_call env c ty router io io'"
| reply: "publisher env c (at_publish ty) (at_error ty) p io = (r''', io') \<Longrightarrow> component_call env c ty router io io'"

lemma component_rel: "component_call env c ty router io io' \<Longrightarrow> api_rel env c auth io io'"
proof (induction rule: component_call.induct)
  case (endpoints n svc eps io r io')
  then show ?case by (rule lb_updates.update_endpoints_rel)
next
  case (certificates fenv n seen lbMeta isDefault io r' io')
  then show ?case by (rule cert_lists.fetch_rel)
next
  case (registration n now tick io r'' io')
  then show ?case using registrations.register_rel [of env c auth io n] by (metis snd_conv)
next
  case (reply p io r''' io')
  have "api_rel env c auth io (snd (publisher env c (at_publish ty) (at_error ty) p io))"
    unfolding publisher_def by (rule settled_rel, erule typed_once)
  with reply show ?case by simp
qed

lemma components_rel: "(component_call env c ty router)\<^sup>*\<^sup>* io io' \<Longrightarrow> api_rel env c auth io io'"
  by (induction rule: rtranclp_induct) (auto intro: api.rel_refl api.rel_trans component_rel)

text \<open>
  C15 The whole program stays at home: after the client was set up, let the components use it in any
  order and as often as they like - updating endpoints page by page, fetching certificates,
  registering handlers, replying to events. Every request has the scheme, the host and the port of
  the configured URL, and carries the credentials it was set up with.
\<close>

theorem components_confined:
  assumes laws: "url_laws env" and url: "parse_url env (co_Url opts) = Inr u" and p: "originParts env u = Inr p"
    and s: "setupRancherBaseClient env new_base_client opts io = (Inr (), c, io1)"
    and r: "(component_call env c ty router)\<^sup>*\<^sup>* io1 io2"
  shows "\<exists>xs. ax_sent io2 = ax_sent io @ xs \<and>
    (\<forall>x \<in> set xs. originParts env (rq_Url x) = Inr p \<and> request_auth x = basic_auth opts)"
proof -
  from components_rel [OF r, of "basic_auth opts"] laws setup_confined(1) [OF laws s]
  obtain n where n: "confined_io env (bc_origin c) (basic_auth opts) n io1 io2" by (auto simp: api_rel_def)
  from confined_trans [OF setup_confined(2) [OF laws s] n] show ?thesis
    using setup_at_origin [OF laws url p s] by (auto simp: confined_io_def good_request_def at_origin_def)
qed

text \<open>A control plane with one load-balancer service.\<close>

definition lb_schema :: Schema where
  "lb_schema = demo_schema\<lparr>res_Id := LOAD_BALANCER_SERVICE_TYPE, sm_ResourceMethods := [''PUT'']\<rparr>"

definition lb_resource :: Resource where
  "lb_resource = \<lparr>res_Id = ''1s1'', res_Type = LOAD_BALANCER_SERVICE_TYPE, res_Links = [(''self'', ''services/1s1'')], res_Actions = []\<rparr>"

definition lb_api_env :: "unit api_env" where
  "lb_api_env = demo_api_env\<lparr>ap_schemas := (\<lambda>s. if s = ''schemas'' then Some [lb_schema] else None),
     ap_exchange := (\<lambda>req w. (Inr (if u_Path (rq_Url req) = ''/v2-beta'' then demo_answer 200 '''' ''http://c/v2-beta'' ''schemas''
        else demo_answer 200 '''' '''' ''answer''), w))\<rparr>"

definition lb_types :: "(Resource, string) api_types" where
  "lb_types = \<lparr>at_certificate = \<lparr>cd_zero = \<lparr>ac_Name = '''', ac_Cert = '''', ac_CertChain = '''', ac_Key = ''''\<rparr>, cd_decode = (\<lambda>_. None),
       cd_page = (\<lambda>_. None), cd_encode = (\<lambda>_. Inr ''''), cd_resource = (\<lambda>_. lb_resource)\<rparr>,
     at_publish = \<lparr>cd_zero = \<lparr>pub_Name = '''', pub_PreviousIds = [], pub_ResourceType = '''', pub_ResourceId = '''', pub_Transitioning = '''',
         pub_TransitioningMessage = ''''\<rparr>, cd_decode = (\<lambda>_. None), cd_page = (\<lambda>_. None), cd_encode = (\<lambda>_. Inr ''''),
       cd_resource = (\<lambda>_. lb_resource)\<rparr>,
     at_handler = \<lparr>cd_zero = \<lparr>xh_Id = '''', xh_Name = '''', xh_Uuid = '''', xh_Priority = 0, xh_Transitioning = '''', xh_Actions = [],
         xh_ProcessConfigs = []\<rparr>, cd_decode = (\<lambda>_. None), cd_page = (\<lambda>_. None), cd_encode = (\<lambda>_. Inr ''''),
       cd_resource = (\<lambda>_. lb_resource)\<rparr>,
     at_service = \<lparr>cd_zero = lb_resource, cd_decode = (\<lambda>_. Some lb_resource),
       cd_page = (\<lambda>_. Some \<lparr>pg_Data = [lb_resource], pg_Pagination = Some (False, '''')\<rparr>), cd_encode = (\<lambda>_. Inr ''''), cd_resource = id\<rparr>,
     at_endpoints = (\<lambda>_. Inr ''endpoints''), at_error = (\<lambda>_. Errorf '''' [])\<rparr>"

lemma lb_laws: "url_laws lb_api_env"
  using demo_laws by (simp add: url_laws_def lb_api_env_def)

definition lb_client :: base_client where
  "lb_client = fst (snd (setupRancherBaseClient lb_api_env new_base_client demo_opts \<lparr>ax_world = (), ax_sent = []\<rparr>))"

definition lb_io :: "unit api_io" where
  "lb_io = snd (snd (setupRancherBaseClient lb_api_env new_base_client demo_opts \<lparr>ax_world = (), ax_sent = []\<rparr>))"

lemma lb_setup: "setupRancherBaseClient lb_api_env new_base_client demo_opts \<lparr>ax_world = (), ax_sent = []\<rparr> = (Inr (), lb_client, lb_io)"
proof -
  have "is_ok_api (fst (setupRancherBaseClient lb_api_env new_base_client demo_opts \<lparr>ax_world = (), ax_sent = []\<rparr>))" by code_simp
  then show ?thesis
    by (cases "setupRancherBaseClient lb_api_env new_base_client demo_opts \<lparr>ax_world = (), ax_sent = []\<rparr>")
      (auto simp: is_ok_api_def lb_client_def lb_io_def split: sum.splits)
qed

definition lb_listed :: "(Resource page api_result \<times> unit api_io) option" where
  "lb_listed = loadBalancerService_List lb_api_env lb_client (at_service lb_types) (text_filters [(''uuid'', ''''), (''removed_null'', ''1'')]) lb_io"

definition lb_put :: "unit api_io \<Rightarrow> (Resource api_result \<times> unit api_io) option" where
  "lb_put io = loadBalancerService_Update lb_api_env lb_client (at_service lb_types) lb_resource (Inr ''endpoints'') io"

lemma lb_run:
  "case lb_listed of
     Some (Inr page, io) \<Rightarrow> page = \<lparr>pg_Data = [lb_resource], pg_Pagination = Some (False, '''')\<rparr> \<and>
       (case lb_put io of
          Some (Inr x, io') \<Rightarrow> map (\<lambda>x. (rq_Method x, u_Path (rq_Url x))) (ax_sent io') =
            [(''GET'', ''/v2-beta''), (''GET'', ''/v2-beta/services''), (''PUT'', ''/services/1s1'')]
        | _ \<Rightarrow> False)
   | _ \<Rightarrow> False"
  by code_simp

lemma answer_cases:
  assumes "case r of Some (Inr x, s) \<Rightarrow> P x s | _ \<Rightarrow> False"
  obtains x s where "r = Some (Inr x, s)" "P x s"
  using assms by (cases r) (auto split: prod.split_asm sum.split_asm)

lemma lb_base: "case parse_url lb_api_env ''HTTP://c/v1'' of Inl _ \<Rightarrow> False
   | Inr u \<Rightarrow> originParts lb_api_env u = Inr (''http'', ''c'', ''80'')"
  by code_simp

lemma lb_update:
  "\<exists>io'. UpdateEndpoints 1 (lb_services lb_api_env lb_client (at_service lb_types) (at_error lb_types) (at_endpoints lb_types))
      zero_Service [''e''] lb_io = Ok (Inr (), io') \<and>
     map (\<lambda>x. (rq_Method x, u_Path (rq_Url x))) (ax_sent io') =
       [(''GET'', ''/v2-beta''), (''GET'', ''/v2-beta/services''), (''PUT'', ''/services/1s1'')]"
proof -
  let ?api = "lb_services lb_api_env lb_client (at_service lb_types) (at_error lb_types) (at_endpoints lb_types)"
  obtain page io where l: "lb_listed = Some (Inr page, io)" "page = \<lparr>pg_Data = [lb_resource], pg_Pagination = Some (False, '''')\<rparr> \<and>
       (case lb_put io of
          Some (Inr x, io') \<Rightarrow> map (\<lambda>x. (rq_Method x, u_Path (rq_Url x))) (ax_sent io') =
            [(''GET'', ''/v2-beta''), (''GET'', ''/v2-beta/services''), (''PUT'', ''/services/1s1'')]
        | _ \<Rightarrow> False)"
    by (rule answer_cases [OF lb_run])
  obtain x io' where u: "lb_put io = Some (Inr x, io')" "map (\<lambda>x. (rq_Method x, u_Path (rq_Url x))) (ax_sent io') =
       [(''GET'', ''/v2-beta''), (''GET'', ''/v2-beta/services''), (''PUT'', ''/services/1s1'')]"
    by (rule answer_cases [OF conjunct2 [OF l(2)]])
  note page = conjunct1 [OF l(2)]
  have "sa_List ?api [(''uuid'', ''''), (''removed_null'', ''1'')] lb_io = (Inr \<lparr>pg_Data = [lb_resource], pg_Pagination = Some (False, '''')\<rparr>, io)"
    using l(1) page by (simp add: lb_services_def settled_def lb_listed_def)
  moreover have "sa_Update ?api lb_resource [''e''] io = (Inr (), io')"
    using u(1) by (simp add: lb_services_def settled_def on_ok_def lb_put_def lb_types_def [THEN arg_cong [where f = at_endpoints]])
  moreover have "svc_UUID zero_Service = ''''" by (simp add: zero_Service_def)
  ultimately show ?thesis
    using u(2) by (simp add: UpdateEndpoints_def listLoadBalancerServices_def)
qed

lemma components_confined_witness:
  "\<exists>io. (component_call lb_api_env lb_client lb_types (undefined :: (unit, unit) EventRouter))\<^sup>*\<^sup>* lb_io io \<and> length (ax_sent io) = 3 \<and>
     list_all (\<lambda>x. originParts lb_api_env (rq_Url x) = Inr (''http'', ''c'', ''80'')) (ax_sent io)"
proof -
  from lb_base obtain v where v: "parse_url lb_api_env (co_Url demo_opts) = Inr v"
    "originParts lb_api_env v = Inr (''http'', ''c'', ''80'')"
    by (auto simp: demo_opts_def split: sum.splits)
  from lb_update obtain io where u: "UpdateEndpoints 1 (lb_services lb_api_env lb_client (at_service lb_types) (at_error lb_types)
      (at_endpoints lb_types)) zero_Service [''e''] lb_io = Ok (Inr (), io)"
    "map (\<lambda>x. (rq_Method x, u_Path (rq_Url x))) (ax_sent io) =
      [(''GET'', ''/v2-beta''), (''GET'', ''/v2-beta/services''), (''PUT'', ''/services/1s1'')]"
    by (elim exE conjE)
  have "component_call lb_api_env lb_client lb_types (undefined :: (unit, unit) EventRouter) lb_io io"
    by (rule component_call.endpoints [OF u(1)])
  then have calls: "(component_call lb_api_env lb_client lb_types (undefined :: (unit, unit) EventRouter))\<^sup>*\<^sup>* lb_io io" by simp
  have "length (ax_sent io) = 3" using arg_cong [OF u(2), of length] by simp
  moreover from components_confined [OF lb_laws v lb_setup calls]
  have "list_all (\<lambda>x. originParts lb_api_env (rq_Url x) = Inr (''http'', ''c'', ''80'')) (ax_sent io)"
    unfolding list_all_iff by (elim exE conjE) simp
  ultimately show ?thesis using calls by (intro exI [of _ io] conjI)
qed

end
