(* ===== verification/Api_Queries.thy ===== *)
theory Api_Queries
  imports Api_Frames Event_Router_Theorems
begin

text \<open>
  What the first request of a filtered listing asks for: the filters travel through the query of the
  collection's address unharmed, whatever bytes they contain.
\<close>

section \<open>Filters\<close>

lemma add_filters: "fold add_filter (text_filters fs) m = fold (\<lambda>(k, v). values_add k v) fs m"
  by (induction fs arbitrary: m) (auto simp: text_filters_def)

lemma Query_gomap: "is_gomap (Query u)"
proof -
  have "is_gomap m \<Longrightarrow> is_gomap (fold parse_pair ps m)" for ps m
    by (induction ps arbitrary: m) (auto simp: parse_pair_def values_gomap split: option.split)
  then show ?thesis by (simp add: Query_def)
qed

lemma add_filters_gomap: "is_gomap m \<Longrightarrow> is_gomap (fold (\<lambda>(k, v). values_add k v) fs m)"
  by (induction fs arbitrary: m) (auto intro: values_gomap)

lemma filtered_query:
  assumes "u_RawQuery x = Encode (fold add_filter (text_filters fs) (Query u))"
  shows "map_get [] (Query x) k = map_get [] (Query u) k @ map snd (filter (\<lambda>p. fst p = k) fs)"
proof -
  have "Query x = Query (u\<lparr>u_RawQuery := Encode (fold add_filter (text_filters fs) (Query u))\<rparr>)"
    using assms by (intro Query_cong) simp
  then show ?thesis by (simp add: add_filters Query_Encode add_filters_gomap Query_gomap fold_values_get)
qed

section \<open>The request\<close>

text \<open>An address at the origin, with a new query, gives a request with that query.\<close>

lemma newRequest_query:
  assumes laws: "url_laws env" and ok: "client_ok env c auth"
    and u: "parse_url env url = Inr u" "at_origin env (bc_origin c) u" and q: "ctl_free q"
  obtains req where "newRequest env c timeout m (url_text env (u\<lparr>u_RawQuery := q\<rparr>)) body = Inr req"
    "rq_Method req = m" "sendable (rq_Url req)" "u_RawQuery (rq_Url req) = q"
proof -
  let ?o = "bc_origin c"
  from laws have rb: "reads_back (ap_authority env) (ap_hostText env)" and addr: "ap_parseAddr env '''' = None"
    by (simp_all add: url_laws_def)
  from ok obtain opts where root: "parsed_URL (ap_authority env) (ro_root ?o)" and opts: "bc_Opts c = Some opts"
    by (auto simp: client_ok_def)
  from u(2) have parts: "originParts env u = Inr (ro_scheme ?o, ro_host ?o, ro_port ?o)" by (simp add: at_origin_def)
  note p = originParts_ok [OF parts addr]
  from u(1) have Pu: "Parse (ap_authority env) url = Some u" by (simp add: parse_url_def split: option.splits)
  have low: "u_Scheme u = ro_scheme ?o" using p(1) Parse_lower [OF Pu] by (auto simp: ToLower_scheme)
  have web: "web_scheme (ro_scheme ?o)" and ne: "ro_scheme ?o \<noteq> ''''" using p(2) by auto
  have "parsed_URL (ap_authority env) (u\<lparr>u_RawQuery := q\<rparr>)" using Parse_parsed [OF Pu] q by (simp add: parsed_URL_def)
  from Parse_URL_String [OF rb this] web low p(3,4) obtain v where
    v: "Parse (ap_authority env) (url_text env (u\<lparr>u_RawQuery := q\<rparr>)) = Some v" "u_Scheme v = ro_scheme ?o" "u_Opaque v = ''''"
      "u_Host v = u_Host u" "u_RawQuery v = q"
    by auto
  define w where "w = ResolveReference (ro_root ?o) v"
  have w: "u_Scheme w = ro_scheme ?o" "u_Opaque w = ''''" "u_Host w = u_Host u" "u_RawQuery w = q"
    using v ne by (simp_all add: w_def ResolveReference_def Let_def)
  have "originParts env w = originParts env u" using w low p(3) by (intro originParts_cong) simp_all
  with parts w v(1) ne have r: "resolve env ?o (url_text env (u\<lparr>u_RawQuery := q\<rparr>)) = Inr w"
    by (simp add: resolve_def parse_url_def w_def Let_def)
  have "parsed_URL (ap_authority env) w" unfolding w_def by (rule ResolveReference_parsed [OF root Parse_parsed [OF v(1)]])
  from Parse_URL_String [OF rb this] web w p(4) obtain y where
    y: "Parse (ap_authority env) (url_text env w) = Some y" "u_Scheme y = ro_scheme ?o" "u_Host y = u_Host u" "u_RawQuery y = q"
    by auto
  show ?thesis
    by (rule that [of "\<lparr>rq_Method = m, rq_Url = y, rq_Header = [(''Authorization'', basic_auth opts)], rq_Body = body, rq_Timeout = timeout\<rparr>"])
      (use r opts y p in \<open>simp_all add: newRequest_def parse_url_def sendable_def\<close>)
qed

lemma round_trip_extends: "round_trip env req io = (r, io') \<Longrightarrow> \<exists>xs. ax_sent io' = ax_sent io @ xs"
  by (auto simp: round_trip_def split: if_splits prod.splits)

lemma do_loop_extends: "do_loop env origin via req io = (r, io') \<Longrightarrow> \<exists>xs. ax_sent io' = ax_sent io @ xs"
proof (induction env origin via req io arbitrary: r io' rule: do_loop.induct)
  case (1 env origin via req io)
  from 1(2) show ?case
  proof (cases rule: do_loop_cases)
    case (stop a)
    then show ?thesis by (rule round_trip_extends)
  next
    case (again resp io1 req1 req2)
    from 1(1) [OF again(1) [symmetric] refl again(2) refl again(3) again(4)] round_trip_extends [OF again(1)]
    show ?thesis by auto
  qed
qed

lemma client_Do_first:
  assumes "client_Do env origin req io = (r, io')" and "sendable (rq_Url req)"
  shows "\<exists>xs. ax_sent io' = ax_sent io @ req # xs"
proof -
  from assms(1) obtain a where d: "do_loop env origin [] req io = (a, io')"
    by (auto simp: client_Do_def split: prod.splits sum.splits)
  have one: "ax_sent io1 = ax_sent io @ [req]" if "round_trip env req io = (b, io1)" for b io1
    using that assms(2) by (auto simp: round_trip_def sendable_def split: prod.splits)
  from d show ?thesis
  proof (cases rule: do_loop_cases)
    case (stop b)
    from one [OF this] show ?thesis by simp
  next
    case (again resp io1 req1 req2)
    from one [OF again(1)] do_loop_extends [OF again(4)] show ?thesis by auto
  qed
qed

lemma listing_request:
  assumes laws: "url_laws env" and ok: "client_ok env c auth"
    and schema: "map_of (bc_Types c) T = Some sm" "''GET'' \<in> set (sm_CollectionMethods sm)"
      "map_of (res_Links sm) ''collection'' = Some url"
    and u: "parse_url env url = Inr u" "at_origin env (bc_origin c) u"
    and d: "doList env c parse T (text_filters fs) io = Some (r, io')" and fs: "fs \<noteq> []"
  shows "\<exists>x xs. ax_sent io' = ax_sent io @ x # xs \<and> rq_Method x = ''GET'' \<and>
    (\<forall>k. map_get [] (Query (rq_Url x)) k = map_get [] (Query u) k @ map snd (filter (\<lambda>p. fst p = k) fs))"
proof -
  let ?q = "Encode (fold add_filter (text_filters fs) (Query u))"
  from ok obtain opts where opts: "bc_Opts c = Some opts" by (auto simp: client_ok_def)
  then obtain timeout where t: "newHttpClient env c = Some timeout" by (simp add: newHttpClient_def)
  obtain req where req: "newRequest env c timeout ''GET'' (url_text env (u\<lparr>u_RawQuery := ?q\<rparr>)) None = Inr req"
    "rq_Method req = ''GET''" "sendable (rq_Url req)" "u_RawQuery (rq_Url req) = ?q"
    by (rule newRequest_query [OF laws ok u ctl_free_Encode])
  have f: "appendFilters env url (text_filters fs) = Inr (url_text env (u\<lparr>u_RawQuery := ?q\<rparr>))"
    using fs u(1) by (cases fs) (simp_all add: appendFilters_def text_filters_def)
  obtain a io1 where a: "client_Do env (bc_origin c) req io = (a, io1)" by fastforce
  have "io1 = io'"
    using d schema f t req(1) a by (auto simp: doList_def doGet_def send_request_def split: sum.split_asm)
  with client_Do_first [OF a req(3)] obtain xs where "ax_sent io' = ax_sent io @ req # xs" by auto
  with req(2) filtered_query [OF req(4)] show ?thesis by blast
qed

section \<open>Fetching a certificate\<close>

lemma listing_answers:
  assumes "client_ok env c auth"
  shows "doList env c parse T fs io \<noteq> None"
proof -
  from assms obtain opts where "bc_Opts c = Some opts" by (auto simp: client_ok_def)
  then have "newHttpClient env c \<noteq> None" by (simp add: newHttpClient_def)
  then have "send_request env c m v b h io \<noteq> None" for m v b h
    by (auto simp: send_request_def split: option.split sum.split)
  then have "doGet env c parse url fs io \<noteq> None" for url
    by (cases "appendFilters env url fs") (simp_all add: doGet_def)
  then show ?thesis by (auto simp: doList_def split: option.split)
qed

text \<open>
  The certificate that is asked for is the one that is configured: when the control plane describes
  certificates by a listing at its own address, the first request of a fetch is a GET there, whose
  query, when it is parsed, has exactly the configured name added (whatever bytes it contains), and
  asks for certificates that were not removed.
\<close>

theorem fetch_asks_by_name:
  assumes laws: "url_laws env" and ok: "client_ok env c auth"
    and schema: "map_of (bc_Types c) CERTIFICATE_TYPE = Some sm" "''GET'' \<in> set (sm_CollectionMethods sm)"
      "map_of (res_Links sm) ''collection'' = Some url"
    and u: "parse_url env url = Inr u" "at_origin env (bc_origin c) u"
    and name: "certName \<noteq> ''''"
    and fetch: "FetchRancherCertificate (cert_lister env c cd gerr) certName io = (r, io')"
  shows "\<exists>x xs. ax_sent io' = ax_sent io @ x # xs \<and> rq_Method x = ''GET'' \<and>
    map_get [] (Query (rq_Url x)) ''name'' = map_get [] (Query u) ''name'' @ [certName] \<and>
    map_get [] (Query (rq_Url x)) ''removed_null'' = map_get [] (Query u) ''removed_null'' @ [''1'']"
proof -
  let ?fs = "[(''name'', certName), (''removed_null'', ''1'')]"
  obtain a io1 where d: "doList env c (cd_page cd) CERTIFICATE_TYPE (text_filters ?fs) io = Some (a, io1)"
    using listing_answers [OF ok] by (metis not_None_eq surj_pair)
  then have "snd (cert_lister env c cd gerr ?fs io) = io1"
    by (auto simp: cert_lister_def certificate_List_def res_List_def settled_def on_ok_def split: sum.split)
  with fetch name have "io' = io1"
    by (auto simp: FetchRancherCertificate_def split: prod.split_asm sum.split_asm list.split_asm)
  with listing_request [OF laws ok schema u d] obtain x xs where x: "ax_sent io' = ax_sent io @ x # xs" "rq_Method x = ''GET''"
    "\<And>k. map_get [] (Query (rq_Url x)) k = map_get [] (Query u) k @ map snd (filter (\<lambda>p. fst p = k) ?fs)"
    by auto
  show ?thesis by (intro exI conjI) (rule x(1), rule x(2), simp_all add: x(3))
qed

definition cert_schema :: Schema where
  "cert_schema = demo_schema\<lparr>res_Id := CERTIFICATE_TYPE, res_Links := [(''collection'', ''http://c/v2-beta/certificates'')]\<rparr>"

definition cert_client :: base_client where
  "cert_client = loop_client\<lparr>bc_Types := [(CERTIFICATE_TYPE, cert_schema)]\<rparr>"

lemma cert_ok: "client_ok loop_api_env cert_client (basic_auth demo_opts)"
  by (simp add: client_ok_def cert_client_def loop_client_def parsed_URL_def empty_URL_def ctl_free_def has_ctl_def
      loop_api_env_def demo_api_env_def) (intro exI [of _ "''c''"], simp)

lemma cert_address: "case parse_url loop_api_env ''http://c/v2-beta/certificates'' of Inl _ \<Rightarrow> False
   | Inr u \<Rightarrow> at_origin loop_api_env (bc_origin cert_client) u \<and> u_RawQuery u = ''''"
  unfolding at_origin_def by code_simp

lemma fetch_asks_by_name_witness:
  "\<exists>x xs. ax_sent (snd (FetchRancherCertificate (cert_lister loop_api_env cert_client (at_certificate lb_types) (at_error lb_types))
      ''a&name=b'' \<lparr>ax_world = (), ax_sent = []\<rparr>)) = x # xs \<and> map_get [] (Query (rq_Url x)) ''name'' = [''a&name=b'']"
proof -
  have laws: "url_laws loop_api_env" using demo_laws by (simp add: url_laws_def loop_api_env_def)
  have schema: "map_of (bc_Types cert_client) CERTIFICATE_TYPE = Some cert_schema" "''GET'' \<in> set (sm_CollectionMethods cert_schema)"
    "map_of (res_Links cert_schema) ''collection'' = Some ''http://c/v2-beta/certificates''"
    by (simp_all add: cert_client_def cert_schema_def demo_schema_def)
  obtain u where u: "parse_url loop_api_env ''http://c/v2-beta/certificates'' = Inr u" "at_origin loop_api_env (bc_origin cert_client) u"
    "u_RawQuery u = ''''"
    using cert_address by (auto split: sum.split_asm)
  have q: "Query u = []" using u(3) by (simp add: Query_def Split_one parse_pair_def)
  obtain r io where f: "FetchRancherCertificate (cert_lister loop_api_env cert_client (at_certificate lb_types) (at_error lb_types))
      ''a&name=b'' \<lparr>ax_world = (), ax_sent = []\<rparr> = (r, io)" by (metis surj_pair)
  have "''a&name=b'' \<noteq> ''''" by simp
  from fetch_asks_by_name [OF laws cert_ok schema u(1,2) this f] q f show ?thesis by (auto simp: map_get_def)
qed

end
