(* ===== verification/Log_Server.thy ===== *)
theory Log_Server
  imports Log_Safety
begin

text \<open>
  The local log-level endpoint (\<open>internal/logserver/server.go\<close>), the start of the program that uses it
  (\<open>main\<close> of \<open>main.go\<close>), and the cleaning of event fields for the log (\<open>internal/events/safe_log.go\<close>).
  The file system, the listener and the levels of the logging library are parameters.
\<close>

section \<open>Starting the endpoint\<close>

definition socketLocation :: string where
  "socketLocation = ''/tmp/log.sock''"

datatype stat_result = StatError go_error | StatMissing | StatFile bool

text \<open>\<open>sv_lstat\<close> does not follow links; \<open>StatFile\<close> tells whether the file is a socket.\<close>

record 'w server_env =
  sv_lstat :: "string \<Rightarrow> 'w \<Rightarrow> stat_result"
  sv_remove :: "string \<Rightarrow> 'w \<Rightarrow> unit result \<times> 'w"
  sv_listen :: "string \<Rightarrow> 'w \<Rightarrow> unit result \<times> 'w"

definition log_Start :: "'w server_env \<Rightarrow> 'w \<Rightarrow> unit result \<times> 'w" where
  "log_Start env w =
     (case (case sv_lstat env socketLocation w of
              StatFile socket \<Rightarrow>
                if \<not> socket then (Inl (Errorf ''refusing to replace non-socket %s'' [socketLocation]), w)
                else sv_remove env socketLocation w
            | StatMissing \<Rightarrow> (Inr (), w)
            | StatError e \<Rightarrow> (Inl e, w)) of
        (Inl e, w1) \<Rightarrow> (Inl e, w1)
      | (Inr _, w1) \<Rightarrow> sv_listen env socketLocation w1)"

section \<open>The endpoint\<close>

record http_answer =
  an_Status :: int
  an_Header :: "(string, string) gomap"
  an_Body :: string

definition plain_text :: string where
  "plain_text = ''text/plain; charset=utf-8''"

text \<open>\<open>http.Error\<close> on the headers set before.\<close>

definition http_Error :: "(string, string) gomap \<Rightarrow> string \<Rightarrow> int \<Rightarrow> http_answer" where
  "http_Error header msg status =
     \<lparr>an_Status = status,
      an_Header = AList.update ''X-Content-Type-Options'' ''nosniff''
        (AList.update ''Content-Type'' plain_text (AList.delete ''Content-Length'' header)),
      an_Body = msg @ [CHR 0x0A]\<rparr>"

text \<open>
  The handler on the current level: \<open>form\<close> is the value of \<open>level\<close> in the parsed form (\<open>None\<close>: it does
  not parse), \<open>parseLevel\<close> and \<open>levelText\<close> are the library's.
\<close>

definition logLevel ::
  "(string \<Rightarrow> 'l option) \<Rightarrow> ('l \<Rightarrow> string) \<Rightarrow> string \<Rightarrow> string option \<Rightarrow> 'l \<Rightarrow> http_answer \<times> 'l" where
  "logLevel parseLevel levelText requestMethod form level =
     (let header = [(''Content-Type'', plain_text)] in
      if requestMethod = ''GET'' then (\<lparr>an_Status = 200, an_Header = header, an_Body = levelText level @ [CHR 0x0A]\<rparr>, level)
      else if requestMethod = ''POST'' then
        (case form of
           None \<Rightarrow> (http_Error header ''invalid form'' 400, level)
         | Some text \<Rightarrow>
             (case parseLevel text of
                None \<Rightarrow> (http_Error header ''invalid log level'' 400, level)
              | Some l \<Rightarrow> (\<lparr>an_Status = 200, an_Header = header, an_Body = ''OK'' @ [CHR 0x0A]\<rparr>, l)))
      else (http_Error (AList.update ''Allow'' ''GET, POST'' header) ''method not allowed'' 405, level))"

text \<open>The start of \<open>main\<close>: the level after it, unless the endpoint fails, which ends the program.\<close>

definition main_start :: "'w server_env \<Rightarrow> (string \<Rightarrow> string) \<Rightarrow> 'l \<Rightarrow> 'l \<Rightarrow> 'w \<Rightarrow> 'l result \<times> 'w" where
  "main_start env getenv debugLevel level w =
     (case log_Start env w of
        (Inl e, w1) \<Rightarrow> (Inl (Wrapf ''Unable to start log-level server: %v'' [] e), w1)
      | (Inr _, w1) \<Rightarrow>
          (Inr (if getenv ''PASTURESTACK_DEBUG'' = ''true'' \<or> getenv ''RANCHER_DEBUG'' = ''true'' then debugLevel else level), w1))"

section \<open>Cleaning event fields\<close>

definition safeLogValue :: "string \<Rightarrow> string" where
  "safeLogValue text = ReplaceAll (ReplaceAll text [CHR 0x0D] '''') [CHR 0x0A] '' ''"

section \<open>What holds\<close>

text \<open>Only a socket is ever removed: with anything else at the location the world stays as it is.\<close>

lemma log_Start_keeps:
  assumes "sv_lstat env socketLocation w \<noteq> StatFile True" and "sv_lstat env socketLocation w \<noteq> StatMissing"
  shows "\<exists>e. log_Start env w = (Inl e, w)"
  using assms by (auto simp: log_Start_def split: stat_result.split)

text \<open>The level changes only by a POST of a level that parses, and the answer says so.\<close>

lemma logLevel_changes:
  assumes "logLevel parseLevel levelText m form level = (a, level')" and "level' \<noteq> level"
  shows "m = ''POST'' \<and> an_Status a = 200 \<and> (\<exists>t. form = Some t \<and> parseLevel t = Some level')"
  using assms by (auto simp: logLevel_def Let_def split: if_split_asm option.split_asm)

lemma safeLogValue_one_line: "CHR 0x0D \<notin> set (safeLogValue s) \<and> CHR 0x0A \<notin> set (safeLogValue s)"
  using ReplaceAll_single_set [of "ReplaceAll s [CHR 0x0D] ''''" "CHR 0x0A" "'' ''"]
    ReplaceAll_single_set [of s "CHR 0x0D" "''''"]
  by (auto simp: safeLogValue_def)

end
