(* ===== verification/Go_Struct.thy ===== *)
theory Go_Struct
  imports Go_Json
begin

text \<open>
  Struct types with JSON tags as data, and \<open>json.Marshal\<close> and \<open>json.Unmarshal\<close> on their values. A
  struct type is the list of its fields in the order in which \<open>encoding/json\<close> writes them: the
  fields of an embedded struct stand at its place. (The rule for equal names is not needed:
  \<open>wf_env\<close> asks for distinct ones.) Values of maps are kept sorted by key.
\<close>

section \<open>Types and values\<close>

datatype go_type =
    TString
  | TBool
  | TInt
  | TAny
  | TMap go_type
  | TSlice go_type
  | TPtr go_type
  | TStruct string

record field =
  fd_Name :: string
  fd_Key :: string
  fd_OmitEmpty :: bool
  fd_Type :: go_type

text \<open>
  The declarations that are in scope. \<open>te_depth\<close> bounds how deep structs nest by value; \<open>te_float\<close> is
  the text that \<open>encoding/json\<close> writes for the \<open>float64\<close> that it reads from a literal, \<open>None\<close> when the
  literal is out of range.
\<close>

record type_env =
  te_struct :: "string \<Rightarrow> field list option"
  te_depth :: nat
  te_float :: "string \<Rightarrow> string option"

definition struct_fields :: "type_env \<Rightarrow> string \<Rightarrow> field list" where
  "struct_fields E n = (case te_struct E n of None \<Rightarrow> [] | Some fs \<Rightarrow> fs)"

text \<open>A value of \<open>interface{}\<close> is the JSON that it stands for; \<open>JNull\<close> is nil. \<open>None\<close> is a nil map, slice or pointer.\<close>

datatype go_value =
    VString string
  | VBool bool
  | VInt int
  | VAny json
  | VMap "(string \<times> go_value) list option"
  | VSlice "go_value list option"
  | VPtr "go_value option"
  | VStruct "go_value list"

fun elem_type :: "go_type \<Rightarrow> go_type" where
  "elem_type (TMap T) = T"
| "elem_type (TSlice T) = T"
| "elem_type (TPtr T) = T"
| "elem_type T = TAny"

fun struct_name :: "go_type \<Rightarrow> string" where
  "struct_name (TStruct n) = n"
| "struct_name T = []"

fun zero_value :: "type_env \<Rightarrow> nat \<Rightarrow> go_type \<Rightarrow> go_value" where
  "zero_value E d TString = VString []"
| "zero_value E d TBool = VBool False"
| "zero_value E d TInt = VInt 0"
| "zero_value E d TAny = VAny JNull"
| "zero_value E d (TMap T) = VMap None"
| "zero_value E d (TSlice T) = VSlice None"
| "zero_value E d (TPtr T) = VPtr None"
| "zero_value E 0 (TStruct n) = VStruct []"
| "zero_value E (Suc d) (TStruct n) = VStruct (map (\<lambda>f. zero_value E d (fd_Type f)) (struct_fields E n))"

abbreviation zero_of :: "type_env \<Rightarrow> go_type \<Rightarrow> go_value" where
  "zero_of E \<equiv> zero_value E (te_depth E)"

text \<open>The values that \<open>omitempty\<close> leaves out; a struct never is one.\<close>

fun is_empty_value :: "go_value \<Rightarrow> bool" where
  "is_empty_value (VString s) \<longleftrightarrow> s = []"
| "is_empty_value (VBool b) \<longleftrightarrow> \<not> b"
| "is_empty_value (VInt i) \<longleftrightarrow> i = 0"
| "is_empty_value (VAny j) \<longleftrightarrow> j = JNull"
| "is_empty_value (VMap m) \<longleftrightarrow> m = None \<or> m = Some []"
| "is_empty_value (VSlice vs) \<longleftrightarrow> vs = None \<or> vs = Some []"
| "is_empty_value (VPtr p) \<longleftrightarrow> p = None"
| "is_empty_value (VStruct vs) \<longleftrightarrow> False"

section \<open>Writing\<close>

fun encode :: "type_env \<Rightarrow> go_type \<Rightarrow> go_value \<Rightarrow> json"
  and encode_fields :: "type_env \<Rightarrow> field list \<Rightarrow> go_value list \<Rightarrow> (string \<times> json) list" where
  "encode E T (VString s) = JStr s"
| "encode E T (VBool b) = JBool b"
| "encode E T (VInt i) = JNum (Itoa i)"
| "encode E T (VAny j) = j"
| "encode E T (VMap None) = JNull"
| "encode E T (VMap (Some m)) = JObj (map (\<lambda>(k, v). (k, encode E (elem_type T) v)) m)"
| "encode E T (VSlice None) = JNull"
| "encode E T (VSlice (Some vs)) = JArr (map (encode E (elem_type T)) vs)"
| "encode E T (VPtr None) = JNull"
| "encode E T (VPtr (Some v)) = encode E (elem_type T) v"
| "encode E T (VStruct vs) = JObj (encode_fields E (struct_fields E (struct_name T)) vs)"
| "encode_fields E (f # fs) (v # vs) =
     (if fd_OmitEmpty f \<and> is_empty_value v then [] else [(fd_Key f, encode E (fd_Type f) v)]) @ encode_fields E fs vs"
| "encode_fields E fs vs = []"

definition Marshal :: "type_env \<Rightarrow> go_type \<Rightarrow> go_value \<Rightarrow> string" where
  "Marshal E T v = print_json (encode E T v)"

section \<open>Reading\<close>

text \<open>A map with a key set, sorted.\<close>

fun put :: "string \<Rightarrow> 'a \<Rightarrow> (string \<times> 'a) list \<Rightarrow> (string \<times> 'a) list" where
  "put k v [] = [(k, v)]"
| "put k v ((a, b) # m) = (if k = a then (k, v) # m else if k < a then (k, v) # (a, b) # m else (a, b) # put k v m)"

text \<open>\<open>interface{}\<close> takes any value; the flag is false when a number did not fit.\<close>

fun any_value :: "type_env \<Rightarrow> json \<Rightarrow> json \<times> bool"
  and any_list :: "type_env \<Rightarrow> json list \<Rightarrow> json list \<times> bool"
  and any_map :: "type_env \<Rightarrow> (string \<times> json) list \<Rightarrow> (string \<times> json) list \<Rightarrow> (string \<times> json) list \<times> bool" where
  "any_value E (JNum t) = (case te_float E t of None \<Rightarrow> (JNull, False) | Some u \<Rightarrow> (JNum u, True))"
| "any_value E (JArr js) = (case any_list E js of (vs, ok) \<Rightarrow> (JArr vs, ok))"
| "any_value E (JObj kvs) = (case any_map E kvs [] of (m, ok) \<Rightarrow> (JObj m, ok))"
| "any_value E j = (j, True)"
| "any_list E [] = ([], True)"
| "any_list E (j # js) = (case any_value E j of (v, a) \<Rightarrow> case any_list E js of (vs, b) \<Rightarrow> (v # vs, a \<and> b))"
| "any_map E [] m = (m, True)"
| "any_map E ((k, j) # kvs) m =
     (case any_value E j of (v, a) \<Rightarrow> case any_map E kvs (put k v m) of (m', b) \<Rightarrow> (m', a \<and> b))"

fun find_index :: "('a \<Rightarrow> bool) \<Rightarrow> 'a list \<Rightarrow> nat option" where
  "find_index P [] = None"
| "find_index P (x # xs) = (if P x then Some 0 else map_option Suc (find_index P xs))"

text \<open>The field for a member: the one of that name, else the first whose name agrees up to case.\<close>

definition find_field :: "field list \<Rightarrow> string \<Rightarrow> nat option" where
  "find_field fs k = (case find_index (\<lambda>f. fd_Key f = k) fs of
     Some i \<Rightarrow> Some i | None \<Rightarrow> find_index (\<lambda>f. EqualFold (fd_Key f) k) fs)"

text \<open>
  Reading into a value: the flag is false when a part had the wrong type or did not fit, which is
  reported at the end; such a part keeps its value and the others are read. \<open>null\<close> leaves what is
  not a pointer, map, slice or interface as it is.
\<close>

function (sequential) decode_value :: "type_env \<Rightarrow> go_type \<Rightarrow> json \<Rightarrow> go_value \<Rightarrow> go_value \<times> bool"
  and decode_list :: "type_env \<Rightarrow> go_type \<Rightarrow> json list \<Rightarrow> go_value list \<times> bool"
  and decode_map :: "type_env \<Rightarrow> go_type \<Rightarrow> (string \<times> json) list \<Rightarrow> (string \<times> go_value) list \<Rightarrow> (string \<times> go_value) list \<times> bool"
  and decode_members :: "type_env \<Rightarrow> field list \<Rightarrow> (string \<times> json) list \<Rightarrow> go_value list \<Rightarrow> go_value list \<times> bool" where
  "decode_value E TString j old = (case j of JStr s \<Rightarrow> (VString s, True) | JNull \<Rightarrow> (old, True) | _ \<Rightarrow> (old, False))"
| "decode_value E TBool j old = (case j of JBool b \<Rightarrow> (VBool b, True) | JNull \<Rightarrow> (old, True) | _ \<Rightarrow> (old, False))"
| "decode_value E TInt j old = (case j of
       JNum t \<Rightarrow> (case Atoi t of None \<Rightarrow> (old, False) | Some i \<Rightarrow> (VInt i, True))
     | JNull \<Rightarrow> (old, True)
     | _ \<Rightarrow> (old, False))"
| "decode_value E TAny j old = (case any_value E j of (v, ok) \<Rightarrow> (VAny v, ok))"
| "decode_value E (TPtr T) j old = (case j of
       JNull \<Rightarrow> (VPtr None, True)
     | _ \<Rightarrow> (case decode_value E T j (case old of VPtr (Some v) \<Rightarrow> v | _ \<Rightarrow> zero_of E T) of
         (v, ok) \<Rightarrow> (VPtr (Some v), ok)))"
| "decode_value E (TSlice T) j old = (case j of
       JNull \<Rightarrow> (VSlice None, True)
     | JArr js \<Rightarrow> (case decode_list E T js of (vs, ok) \<Rightarrow> (VSlice (Some vs), ok))
     | _ \<Rightarrow> (old, False))"
| "decode_value E (TMap T) j old = (case j of
       JNull \<Rightarrow> (VMap None, True)
     | JObj kvs \<Rightarrow> (case decode_map E T kvs (case old of VMap (Some m) \<Rightarrow> m | _ \<Rightarrow> []) of (m, ok) \<Rightarrow> (VMap (Some m), ok))
     | _ \<Rightarrow> (old, False))"
| "decode_value E (TStruct n) j old = (case j of
       JNull \<Rightarrow> (old, True)
     | JObj kvs \<Rightarrow> (case decode_members E (struct_fields E n) kvs (case old of VStruct vs \<Rightarrow> vs | _ \<Rightarrow> []) of
         (vs, ok) \<Rightarrow> (VStruct vs, ok))
     | _ \<Rightarrow> (old, False))"
| "decode_list E T [] = ([], True)"
| "decode_list E T (j # js) =
     (case decode_value E T j (zero_of E T) of (v, a) \<Rightarrow> case decode_list E T js of (vs, b) \<Rightarrow> (v # vs, a \<and> b))"
| "decode_map E T [] m = (m, True)"
| "decode_map E T ((k, j) # kvs) m =
     (case decode_value E T j (zero_of E T) of (v, a) \<Rightarrow>
        case decode_map E T kvs (put k v m) of (m', b) \<Rightarrow> (m', a \<and> b))"
| "decode_members E fs [] vs = (vs, True)"
| "decode_members E fs ((k, j) # kvs) vs =
     (case find_field fs k of
        None \<Rightarrow> decode_members E fs kvs vs
      | Some i \<Rightarrow> (case decode_value E (fd_Type (fs ! i)) j (vs ! i) of (v, a) \<Rightarrow>
          case decode_members E fs kvs (vs[i := v]) of (vs', b) \<Rightarrow> (vs', a \<and> b)))"
  by pat_completeness auto
termination
  by (relation "measures [\<lambda>x. case x of
       Inl (Inl (E, T, j, old)) \<Rightarrow> size j
     | Inl (Inr (E, T, js)) \<Rightarrow> size_list size js
     | Inr (Inl (E, T, kvs, m)) \<Rightarrow> size_list (size_prod (\<lambda>_. 0) size) kvs
     | Inr (Inr (E, fs, kvs, vs)) \<Rightarrow> size_list (size_prod (\<lambda>_. 0) size) kvs,
     \<lambda>x. case x of Inl (Inl (E, T, j, old)) \<Rightarrow> size T | _ \<Rightarrow> 0]") auto

text \<open>A text that is not JSON leaves the value as it is.\<close>

definition Unmarshal :: "type_env \<Rightarrow> go_type \<Rightarrow> string \<Rightarrow> go_value \<Rightarrow> go_value \<times> bool" where
  "Unmarshal E T s old = (case parse_json s of None \<Rightarrow> (old, False) | Some j \<Rightarrow> decode_value E T j old)"

section \<open>Well-typed values\<close>

text \<open>
  A value of a type as the program can hold it: numbers fit 64 bits, maps are sorted, an interface
  holds what reading gives, an omitted field is zero and not an empty map or slice, and a pointer does
  not point to what is written as \<open>null\<close>.
\<close>

fun has_type :: "type_env \<Rightarrow> go_type \<Rightarrow> go_value \<Rightarrow> bool"
  and has_fields :: "type_env \<Rightarrow> field list \<Rightarrow> go_value list \<Rightarrow> bool" where
  "has_type E T (VString s) \<longleftrightarrow> T = TString"
| "has_type E T (VBool b) \<longleftrightarrow> T = TBool"
| "has_type E T (VInt i) \<longleftrightarrow> T = TInt \<and> - (2 ^ 63) \<le> i \<and> i < 2 ^ 63"
| "has_type E T (VAny j) \<longleftrightarrow> T = TAny \<and> any_value E j = (j, True)"
| "has_type E T (VMap None) \<longleftrightarrow> T = TMap (elem_type T)"
| "has_type E T (VMap (Some m)) \<longleftrightarrow> T = TMap (elem_type T) \<and> sorted_wrt (<) (map fst m) \<and>
     list_all (\<lambda>kv. has_type E (elem_type T) (snd kv)) m"
| "has_type E T (VSlice None) \<longleftrightarrow> T = TSlice (elem_type T)"
| "has_type E T (VSlice (Some vs)) \<longleftrightarrow> T = TSlice (elem_type T) \<and> list_all (has_type E (elem_type T)) vs"
| "has_type E T (VPtr None) \<longleftrightarrow> T = TPtr (elem_type T)"
| "has_type E T (VPtr (Some v)) \<longleftrightarrow> T = TPtr (elem_type T) \<and> has_type E (elem_type T) v \<and> encode E (elem_type T) v \<noteq> JNull"
| "has_type E T (VStruct vs) \<longleftrightarrow> T = TStruct (struct_name T) \<and> has_fields E (struct_fields E (struct_name T)) vs"
| "has_fields E (f # fs) (v # vs) \<longleftrightarrow>
     has_type E (fd_Type f) v \<and> (fd_OmitEmpty f \<and> is_empty_value v \<longrightarrow> v = zero_of E (fd_Type f)) \<and> has_fields E fs vs"
| "has_fields E [] [] \<longleftrightarrow> True"
| "has_fields E [] (v # vs) \<longleftrightarrow> False"
| "has_fields E (f # fs) [] \<longleftrightarrow> False"

text \<open>Structs nest by value at most \<open>d\<close> deep.\<close>

fun closed :: "type_env \<Rightarrow> nat \<Rightarrow> go_type \<Rightarrow> bool" where
  "closed E 0 (TStruct n) \<longleftrightarrow> False"
| "closed E (Suc d) (TStruct n) \<longleftrightarrow> list_all (\<lambda>f. closed E d (fd_Type f)) (struct_fields E n)"
| "closed E d T \<longleftrightarrow> True"

definition wf_env :: "type_env \<Rightarrow> bool" where
  "wf_env E \<longleftrightarrow> te_depth E > 0 \<and>
     (\<forall>n fs. te_struct E n = Some fs \<longrightarrow> distinct (map fd_Key fs) \<and> closed E (te_depth E) (TStruct n))"

lemma wf_closed:
  assumes "wf_env E"
  shows "closed E (te_depth E) T"
proof (cases T)
  case (TStruct n)
  with assms show ?thesis
    by (cases "te_struct E n"; cases "te_depth E") (auto simp: wf_env_def struct_fields_def)
qed simp_all

lemma wf_distinct: "wf_env E \<Longrightarrow> distinct (map fd_Key (struct_fields E n))"
  by (cases "te_struct E n") (auto simp: wf_env_def struct_fields_def)

lemma zero_value_stable: "closed E d T \<Longrightarrow> d \<le> d' \<Longrightarrow> zero_value E d' T = zero_value E d T"
proof (induction E d T arbitrary: d' rule: closed.induct)
  case (2 E d n)
  from 2(3) obtain e where e: "d' = Suc e" "d \<le> e" by (cases d') auto
  have "zero_value E e (fd_Type f) = zero_value E d (fd_Type f)" if "f \<in> set (struct_fields E n)" for f
    using 2(1) [of f e] 2(2) e(2) that by (simp add: list_all_iff)
  then show ?case by (simp add: e(1))
qed simp_all

lemma zero_of_struct:
  assumes "wf_env E"
  shows "zero_of E (TStruct n) = VStruct (map (\<lambda>f. zero_of E (fd_Type f)) (struct_fields E n))"
proof -
  obtain d where d: "te_depth E = Suc d" using assms by (cases "te_depth E") (auto simp: wf_env_def)
  from wf_closed [OF assms, of "TStruct n"] have "zero_of E (fd_Type f) = zero_value E d (fd_Type f)"
    if "f \<in> set (struct_fields E n)" for f
    using that zero_value_stable [of E d "fd_Type f" "Suc d"] by (simp add: d list_all_iff)
  then show ?thesis by (simp add: d)
qed

section \<open>Round trip\<close>

lemma put_append: "(\<forall>a \<in> set (map fst m). a < k) \<Longrightarrow> put k v m = m @ [(k, v)]"
proof (induction m)
  case (Cons ab m)
  obtain a b where ab: "ab = (a, b)" by (cases ab)
  with Cons.prems have "a < k" by simp
  then have "k \<noteq> a" "\<not> k < a" by auto
  with Cons ab show ?case by simp
qed simp

lemma decode_sorted_map:
  assumes "\<forall>kv \<in> set m. decode_value E T (encode E T (snd kv)) (zero_of E T) = (snd kv, True)"
    and "sorted_wrt (<) (map fst (acc @ m))"
  shows "decode_map E T (map (\<lambda>(k, v). (k, encode E T v)) m) acc = (acc @ m, True)"
  using assms
proof (induction m arbitrary: acc)
  case (Cons kv m)
  obtain k v where kv: "kv = (k, v)" by (cases kv)
  from Cons.prems(2) have "put k v acc = acc @ [(k, v)]"
    by (intro put_append) (auto simp: kv sorted_wrt_append)
  with Cons.prems(1) Cons.IH [of "acc @ [(k, v)]"] Cons.prems(2) show ?case by (simp add: kv)
qed simp

lemma decode_encoded_list:
  "\<forall>v \<in> set vs. decode_value E T (encode E T v) (zero_of E T) = (v, True) \<Longrightarrow>
    decode_list E T (map (encode E T) vs) = (vs, True)"
  by (induction vs) auto

lemma find_index_append:
  "(\<forall>x \<in> set xs. \<not> P x) \<Longrightarrow> P y \<Longrightarrow> find_index P (xs @ y # ys) = Some (length xs)"
  by (induction xs) auto

lemma find_field_own:
  assumes "distinct (map fd_Key (pre @ f # fs))"
  shows "find_field (pre @ f # fs) (fd_Key f) = Some (length pre)"
proof -
  from assms have "\<forall>g \<in> set pre. fd_Key g \<noteq> fd_Key f" by (auto simp: image_iff)
  from find_index_append [where P = "\<lambda>g. fd_Key g = fd_Key f", OF this refl] show ?thesis by (simp add: find_field_def)
qed

text \<open>The members of a struct are read field by field; what was left out stays zero.\<close>

lemma decode_encoded_members:
  assumes "length fs = length vs" and "distinct (map fd_Key (pre @ fs))" and "length pvs = length pre"
    and "\<forall>(f, v) \<in> set (zip fs vs). decode_value E (fd_Type f) (encode E (fd_Type f) v) (zero_of E (fd_Type f)) = (v, True) \<and>
      (fd_OmitEmpty f \<and> is_empty_value v \<longrightarrow> v = zero_of E (fd_Type f))"
  shows "decode_members E (pre @ fs) (encode_fields E fs vs) (pvs @ map (\<lambda>f. zero_of E (fd_Type f)) fs) = (pvs @ vs, True)"
  using assms
proof (induction fs vs arbitrary: pre pvs rule: list_induct2)
  case (Cons f fs v vs)
  have IH: "decode_members E (pre @ f # fs) (encode_fields E fs vs) ((pvs @ [v]) @ map (\<lambda>f. zero_of E (fd_Type f)) fs) =
      ((pvs @ [v]) @ vs, True)"
    using Cons.IH [of "pre @ [f]" "pvs @ [v]"] Cons.prems by simp
  show ?case
  proof (cases "fd_OmitEmpty f \<and> is_empty_value v")
    case True
    with Cons.prems(3) IH show ?thesis by auto
  next
    case False
    with Cons.prems IH find_field_own [OF Cons.prems(1)] show ?thesis by (auto simp: nth_append list_update_append)
  qed
qed simp

lemma has_fields_zip:
  "has_fields E fs vs \<Longrightarrow> length fs = length vs \<and>
     (\<forall>(f, v) \<in> set (zip fs vs). fd_OmitEmpty f \<and> is_empty_value v \<longrightarrow> v = zero_of E (fd_Type f))"
  by (induction fs arbitrary: vs) (case_tac vs; auto)+

text \<open>A value of a well-typed environment is read back from what is written of it.\<close>

lemma decode_encode:
  assumes wf: "wf_env E"
  shows "has_type E T v \<Longrightarrow> decode_value E T (encode E T v) (zero_of E T) = (v, True)"
    and "has_fields E fs vs \<Longrightarrow>
      \<forall>(f, v) \<in> set (zip fs vs). decode_value E (fd_Type f) (encode E (fd_Type f) v) (zero_of E (fd_Type f)) = (v, True)"
  using wf
proof (induction E T v and E fs vs rule: has_type_has_fields.induct)
  case (3 E T i)
  then show ?case by (simp add: Atoi_Itoa)
next
  case (5 E T)
  then obtain U where "T = TMap U" by auto
  then show ?case by simp
next
  case (6 E T m)
  then obtain U where "T = TMap U" by auto
  with 6 show ?case using decode_sorted_map [of m E U "[]"] by (auto simp: list_all_iff)
next
  case (7 E T)
  then obtain U where "T = TSlice U" by auto
  then show ?case by simp
next
  case (8 E T vs)
  then obtain U where "T = TSlice U" by auto
  with 8 show ?case using decode_encoded_list [of vs E U] by (auto simp: list_all_iff)
next
  case (9 E T)
  then obtain U where "T = TPtr U" by auto
  then show ?case by simp
next
  case (10 E T v)
  then obtain U where "T = TPtr U" by auto
  with 10 show ?case by (cases "encode E U v") auto
next
  case (11 E T vs)
  then obtain n where T: "T = TStruct n" by auto
  with 11 have fs: "has_fields E (struct_fields E n) vs" by simp
  have "\<forall>(f, v) \<in> set (zip (struct_fields E n) vs).
      decode_value E (fd_Type f) (encode E (fd_Type f) v) (zero_of E (fd_Type f)) = (v, True)"
    using 11 T by auto
  with has_fields_zip [OF fs] wf_distinct [OF 11(3), of n]
  have "decode_members E (struct_fields E n) (encode_fields E (struct_fields E n) vs)
      (map (\<lambda>f. zero_of E (fd_Type f)) (struct_fields E n)) = (vs, True)"
    using decode_encoded_members [of "struct_fields E n" vs "[]" "[]" E] by auto
  then show ?case by (simp add: T zero_of_struct [OF 11(3)])
qed (auto dest: sym)

text \<open>The same on texts: what \<open>Marshal\<close> writes, \<open>Unmarshal\<close> reads back into a zero value.\<close>

lemma Unmarshal_Marshal:
  assumes "wf_env E" and "has_type E T v"
    and "json_ok maxNestingDepth (encode E T v)" and "scrub (encode E T v) = encode E T v"
  shows "Unmarshal E T (Marshal E T v) (zero_of E T) = (v, True)"
  using decode_encode(1) [OF assms(1,2)] parse_print_json [OF assms(3)] assms(4)
  by (simp add: Unmarshal_def Marshal_def)

section \<open>Documents\<close>

text \<open>A text read into a zero value; \<open>None\<close> is an error.\<close>

definition decode_doc :: "type_env \<Rightarrow> go_type \<Rightarrow> string \<Rightarrow> go_value option" where
  "decode_doc E T s = (case Unmarshal E T s (zero_of E T) of (v, ok) \<Rightarrow> if ok then Some v else None)"

text \<open>A value whose text \<open>encoding/json\<close> takes back: valid UTF-8, and not nested too deep.\<close>

definition marshallable :: "type_env \<Rightarrow> go_type \<Rightarrow> go_value \<Rightarrow> bool" where
  "marshallable E T v \<longleftrightarrow> has_type E T v \<and> json_ok maxNestingDepth (encode E T v) \<and> scrub (encode E T v) = encode E T v"

lemma decode_doc_Marshal: "wf_env E \<Longrightarrow> marshallable E T v \<Longrightarrow> decode_doc E T (Marshal E T v) = Some v"
  using Unmarshal_Marshal by (simp add: marshallable_def decode_doc_def)

section \<open>Sizes\<close>

text \<open>How long the text of a value can get: an escape takes six bytes for one.\<close>

fun text_bound :: "json \<Rightarrow> nat" where
  "text_bound JNull = 4"
| "text_bound (JBool b) = 5"
| "text_bound (JNum t) = length t"
| "text_bound (JStr s) = 6 * length s + 2"
| "text_bound (JArr js) = 2 + sum_list (map (\<lambda>j. Suc (text_bound j)) js)"
| "text_bound (JObj kvs) = 2 + sum_list (map (\<lambda>(k, j). 6 * length k + text_bound j + 4) kvs)"

lemma length_escape_byte: "length (escape_byte c) \<le> 6"
  by (simp add: escape_byte_def escape_rune_def hex4_def split: option.split)

lemma length_quote_from: "length (quote_from s) \<le> 6 * length s"
proof (induction s rule: quote_from.induct)
  case (2 c cs)
  show ?case
  proof (cases "code c < 128")
    case True
    with 2(1) length_escape_byte [of c] show ?thesis by (simp add: quote_from.simps(2))
  next
    case False
    obtain r w where d: "decode_rune c cs = (r, w)" by (cases "decode_rune c cs")
    have "length (escape_wide r w (c # cs)) \<le> 6 \<or> length (escape_wide r w (c # cs)) \<le> min w (Suc (length cs))"
      by (auto simp: escape_wide_def escape_rune_def hex4_def)
    moreover have "length (quote_from (drop (w - 1) cs)) \<le> 6 * (length cs - (w - 1))"
      using 2(2) [OF False d [symmetric]] by simp
    ultimately show ?thesis using False d by (auto simp: quote_from.simps(2))
  qed
qed simp

lemma length_Join: "length (Join xs [c]) \<le> sum_list (map (\<lambda>x. Suc (length x)) xs)"
  by (induction xs rule: induct_list012) auto

lemma length_print_json: "length (print_json j) \<le> text_bound j"
proof (induction j rule: print_json.induct)
  case (4 s)
  show ?case using length_quote_from [of s] by (simp add: quote_def)
next
  case (5 js)
  have "sum_list (map (\<lambda>x. Suc (length x)) (map print_json js)) \<le> sum_list (map (\<lambda>j. Suc (text_bound j)) js)"
    using 5 by (auto simp: comp_def intro!: sum_list_mono)
  with length_Join [of "map print_json js" "CHR '',''"] show ?case by simp
next
  case (6 kvs)
  let ?f = "\<lambda>(k, v). quote k @ CHR '':'' # print_json v"
  have "Suc (length (?f kv)) \<le> (\<lambda>(k, j). 6 * length k + text_bound j + 4) kv" if "kv \<in> set kvs" for kv
    using 6 [of kv "fst kv" "snd kv"] that length_quote_from [of "fst kv"] by (cases kv) (simp add: quote_def)
  then have "sum_list (map (\<lambda>x. Suc (length x)) (map ?f kvs)) \<le> sum_list (map (\<lambda>(k, j). 6 * length k + text_bound j + 4) kvs)"
    by (auto simp: comp_def intro!: sum_list_mono)
  with length_Join [of "map ?f kvs" "CHR '',''"] show ?case by simp
qed auto

end
