(* ===== verification/Api_Struct.thy ===== *)
theory Api_Struct
  imports Go_Struct Api_Frames
begin

text \<open>
  The struct types of \<open>internal/rancherclient/v2/types.go\<close>, and what a generated file declares of a
  resource type, as data: its name in the API, its struct, and its actions. The generator writes the
  same methods into every file, so a typed client is the meaning that this theory gives to such a
  declaration: each method calls the operation of the base client with the name of the type, and
  reads and writes structs with \<open>encoding/json\<close>.
\<close>

section \<open>Fields\<close>

definition ascii_upper :: "char \<Rightarrow> char" where
  "ascii_upper c = (if 97 \<le> code c \<and> code c \<le> 122 then char_of (code c - 32) else c)"

text \<open>The Go name of a field or method: every one of the API is its JSON name with a capital.\<close>

definition exported :: "string \<Rightarrow> string" where
  "exported key = (case key of [] \<Rightarrow> [] | c # cs \<Rightarrow> ascii_upper c # cs)"

definition tagged :: "string \<Rightarrow> go_type \<Rightarrow> field" where
  "tagged key T = \<lparr>fd_Name = exported key, fd_Key = key, fd_OmitEmpty = True, fd_Type = T\<rparr>"

definition always :: "string \<Rightarrow> go_type \<Rightarrow> field" where
  "always key T = (tagged key T)\<lparr>fd_OmitEmpty := False\<rparr>"

definition Pagination_fields :: "field list" where
  "Pagination_fields = [tagged ''marker'' TString, tagged ''first'' TString, tagged ''previous'' TString, tagged ''next'' TString,
     tagged ''limit'' (TPtr TInt), tagged ''total'' (TPtr TInt), tagged ''partial'' TBool]"

definition Sort_fields :: "field list" where
  "Sort_fields = [tagged ''name'' TString, tagged ''order'' TString, tagged ''reverse'' TString]"

definition Condition_fields :: "field list" where
  "Condition_fields = [tagged ''modifier'' TString, tagged ''value'' TAny]"

definition Collection_fields :: "field list" where
  "Collection_fields = [tagged ''type'' TString, tagged ''resourceType'' TString, tagged ''links'' (TMap TString),
     tagged ''createTypes'' (TMap TString), tagged ''actions'' (TMap TString), tagged ''sortLinks'' (TMap TString),
     tagged ''pagination'' (TPtr (TStruct ''Pagination'')), tagged ''sort'' (TPtr (TStruct ''Sort'')),
     tagged ''filters'' (TMap (TSlice (TStruct ''Condition'')))]"

definition Resource_fields :: "field list" where
  "Resource_fields = [tagged ''id'' TString, tagged ''type'' TString, always ''links'' (TMap TString), always ''actions'' (TMap TString)]"

section \<open>Typed clients\<close>

record api_method =
  am_Name :: string
  am_Action :: string
  am_Input :: "string option"
  am_Output :: string

definition act :: "string \<Rightarrow> string option \<Rightarrow> string \<Rightarrow> api_method" where
  "act action input output = \<lparr>am_Name = ''Action'' @ exported action, am_Action = action, am_Input = input, am_Output = output\<rparr>"

text \<open>\<open>tc_Fields\<close> are the fields after the embedded \<open>Resource\<close>.\<close>

record typed_client =
  tc_Type :: string
  tc_Struct :: string
  tc_Fields :: "field list"
  tc_Actions :: "api_method list"

definition collection_name :: "string \<Rightarrow> string" where
  "collection_name n = n @ ''Collection''"

definition resource_struct :: "typed_client \<Rightarrow> string \<times> field list" where
  "resource_struct tc = (tc_Struct tc, Resource_fields @ tc_Fields tc)"

definition collection_struct :: "typed_client \<Rightarrow> string \<times> field list" where
  "collection_struct tc = (collection_name (tc_Struct tc), Collection_fields @ [tagged ''data'' (TSlice (TStruct (tc_Struct tc)))])"

definition base_structs :: "(string \<times> field list) list" where
  "base_structs = [(''Pagination'', Pagination_fields), (''Sort'', Sort_fields), (''Condition'', Condition_fields)]"

definition structs_of :: "typed_client list \<Rightarrow> (string \<times> field list) list" where
  "structs_of tcs = base_structs @ map resource_struct tcs @ map collection_struct tcs"

lemma tagged_simps [simp]: "fd_Key (tagged k T) = k" "fd_Type (tagged k T) = T" "fd_OmitEmpty (tagged k T) = True"
    "fd_Key (always k T) = k" "fd_Type (always k T) = T" "fd_OmitEmpty (always k T) = False"
  by (simp_all add: tagged_def always_def)

lemma act_simps [simp]: "am_Action (act a i r) = a" "am_Input (act a i r) = i" "am_Output (act a i r) = r"
  by (simp_all add: act_def)

text \<open>
  The order in which the generator writes names. Names in ascending order are distinct, and the order
  is checked in one pass.
\<close>

fun ascending :: "string list \<Rightarrow> bool" where
  "ascending (x # y # zs) \<longleftrightarrow> x < y \<and> ascending (y # zs)"
| "ascending xs \<longleftrightarrow> True"

lemma ascending_sorted: "ascending xs \<Longrightarrow> sorted_wrt (<) xs"
proof (induction xs rule: ascending.induct)
  case (1 x y zs)
  then have s: "sorted_wrt (<) (y # zs)" and xy: "x < y" by auto
  then have "x < z" if "z \<in> set zs" for z using that less_trans [OF xy, of z] by auto
  with s xy show ?case by auto
qed auto

lemma ascending_distinct: "ascending xs \<Longrightarrow> distinct xs"
  using ascending_sorted strict_sorted_iff by blast

text \<open>What the fields and actions of one declaration are checked for.\<close>

definition names_ok :: "typed_client \<Rightarrow> bool" where
  "names_ok tc \<longleftrightarrow> ascending (map fd_Key (tc_Fields tc)) \<and> ascending (map am_Action (tc_Actions tc)) \<and>
     list_all (\<lambda>f. fd_Key f \<notin> set [''id'', ''type'', ''links'', ''actions'']) (tc_Fields tc)"

lemma names_ok_distinct: "names_ok tc \<Longrightarrow> distinct (map fd_Key (Resource_fields @ tc_Fields tc))"
  using ascending_distinct [of "map fd_Key (tc_Fields tc)"]
  by (auto simp: names_ok_def Resource_fields_def list_all_iff)

lemma names_ok_actions: "names_ok tc \<Longrightarrow> distinct (map am_Action (tc_Actions tc))"
  by (simp add: names_ok_def ascending_distinct)

section \<open>Reading what the client needs\<close>

definition field_value :: "type_env \<Rightarrow> string \<Rightarrow> string \<Rightarrow> go_value \<Rightarrow> go_value option" where
  "field_value E n k v = (case (v, find_index (\<lambda>f. fd_Key f = k) (struct_fields E n)) of
       (VStruct vs, Some i) \<Rightarrow> if i < length vs then Some (vs ! i) else None
     | _ \<Rightarrow> None)"

definition text_of :: "go_value option \<Rightarrow> string" where
  "text_of v = (case v of Some (VString s) \<Rightarrow> s | _ \<Rightarrow> [])"

definition texts_of :: "go_value option \<Rightarrow> (string, string) gomap" where
  "texts_of v = (case v of Some (VMap (Some m)) \<Rightarrow> map (\<lambda>(k, x). (k, text_of (Some x))) m | _ \<Rightarrow> [])"

definition resource_of :: "type_env \<Rightarrow> string \<Rightarrow> go_value \<Rightarrow> Resource" where
  "resource_of E n v =
     \<lparr>res_Id = text_of (field_value E n ''id'' v), res_Type = text_of (field_value E n ''type'' v),
      res_Links = texts_of (field_value E n ''links'' v), res_Actions = texts_of (field_value E n ''actions'' v)\<rparr>"

definition page_of :: "type_env \<Rightarrow> string \<Rightarrow> go_value \<Rightarrow> go_value page" where
  "page_of E n v =
     \<lparr>pg_Data = (case field_value E n ''data'' v of Some (VSlice (Some vs)) \<Rightarrow> vs | _ \<Rightarrow> []),
      pg_Pagination = (case field_value E n ''pagination'' v of
          Some (VPtr (Some p)) \<Rightarrow>
            Some (field_value E ''Pagination'' ''partial'' p = Some (VBool True), text_of (field_value E ''Pagination'' ''next'' p))
        | _ \<Rightarrow> None)\<rparr>"

definition struct_codec :: "type_env \<Rightarrow> string \<Rightarrow> go_value codec" where
  "struct_codec E n =
     \<lparr>cd_zero = zero_of E (TStruct n),
      cd_decode = decode_doc E (TStruct n),
      cd_page = (\<lambda>s. map_option (page_of E (collection_name n)) (decode_doc E (TStruct (collection_name n)) s)),
      cd_encode = (\<lambda>v. Inr (Marshal E (TStruct n) v)),
      cd_resource = resource_of E n\<rparr>"

section \<open>The methods\<close>

abbreviation tc_codec :: "type_env \<Rightarrow> typed_client \<Rightarrow> go_value codec" where
  "tc_codec E tc \<equiv> struct_codec E (tc_Struct tc)"

definition typed_Create ::
  "'w api_env \<Rightarrow> base_client \<Rightarrow> type_env \<Rightarrow> typed_client \<Rightarrow> go_value \<Rightarrow> 'w api_io \<Rightarrow> (go_value api_result \<times> 'w api_io) option" where
  "typed_Create env c E tc container io = res_Create env c (tc_codec E tc) (tc_Type tc) container io"

definition typed_Update ::
  "'w api_env \<Rightarrow> base_client \<Rightarrow> type_env \<Rightarrow> typed_client \<Rightarrow> go_value \<Rightarrow> string api_result \<Rightarrow> 'w api_io \<Rightarrow>
   (go_value api_result \<times> 'w api_io) option" where
  "typed_Update env c E tc existing updates io = res_Update env c (tc_codec E tc) (tc_Type tc) existing updates io"

definition typed_List ::
  "'w api_env \<Rightarrow> base_client \<Rightarrow> type_env \<Rightarrow> typed_client \<Rightarrow> (string, filter_value) gomap \<Rightarrow> 'w api_io \<Rightarrow>
   (go_value page api_result \<times> 'w api_io) option" where
  "typed_List env c E tc filters io = res_List env c (tc_codec E tc) (tc_Type tc) filters io"

definition typed_Next ::
  "'w api_env \<Rightarrow> base_client \<Rightarrow> type_env \<Rightarrow> typed_client \<Rightarrow> go_value page option \<Rightarrow> 'w api_io \<Rightarrow>
   (go_value page option api_result \<times> 'w api_io) option" where
  "typed_Next env c E tc page io = res_Next env c (tc_codec E tc) page io"

definition typed_ById ::
  "'w api_env \<Rightarrow> base_client \<Rightarrow> type_env \<Rightarrow> typed_client \<Rightarrow> string \<Rightarrow> 'w api_io \<Rightarrow> (go_value option api_result \<times> 'w api_io) option" where
  "typed_ById env c E tc rid io = res_ById env c (tc_codec E tc) (tc_Type tc) rid io"

definition typed_Delete ::
  "'w api_env \<Rightarrow> base_client \<Rightarrow> type_env \<Rightarrow> typed_client \<Rightarrow> go_value \<Rightarrow> 'w api_io \<Rightarrow> (unit api_result \<times> 'w api_io) option" where
  "typed_Delete env c E tc container io = res_Delete env c (tc_codec E tc) (tc_Type tc) container io"

text \<open>
  The body of an action. The input is a pointer, which is never the nil interface: a nil pointer
  (\<open>None\<close>) is written as \<open>null\<close>.
\<close>

definition action_body :: "type_env \<Rightarrow> api_method \<Rightarrow> go_value option \<Rightarrow> string api_result option" where
  "action_body E m input = map_option (\<lambda>n. Inr (Marshal E (TPtr (TStruct n)) (VPtr input))) (am_Input m)"

definition typed_Action ::
  "'w api_env \<Rightarrow> base_client \<Rightarrow> type_env \<Rightarrow> typed_client \<Rightarrow> api_method \<Rightarrow> go_value \<Rightarrow> go_value option \<Rightarrow> 'w api_io \<Rightarrow>
   (go_value api_result \<times> 'w api_io) option" where
  "typed_Action env c E tc m resource input io =
     doAction env c (decode_doc E (TStruct (am_Output m))) (tc_Type tc) (am_Action m)
       (Some (resource_of E (tc_Struct tc) resource)) (action_body E m input) io"

end
