(* ===== verification/Api_Types_A_D.thy ===== *)
theory Api_Types_A_D
  imports Api_Struct
begin

text \<open>
  The resource types of \<open>internal/rancherclient/v2/generated_account.go\<close> to \<open>generated_docker_build.go\<close>: for each
  the fields of its struct after the embedded \<open>Resource\<close>, and its client.
\<close>

definition Account_fields :: "field list" where
  "Account_fields = [tagged ''created'' TString, tagged ''data'' (TMap TAny), tagged ''description'' TString,
     tagged ''externalId'' TString, tagged ''externalIdType'' TString, tagged ''identity'' TString,
     tagged ''kind'' TString, tagged ''name'' TString, tagged ''removeTime'' TString,
     tagged ''removed'' TString, tagged ''state'' TString, tagged ''transitioning'' TString,
     tagged ''transitioningMessage'' TString, tagged ''transitioningProgress'' TInt, tagged ''uuid'' TString,
     tagged ''version'' TString]"

definition Account_client :: typed_client where
  "Account_client = \<lparr>tc_Type = ''account'', tc_Struct = ''Account'', tc_Fields = Account_fields,
     tc_Actions = [act ''activate'' None ''Account'', act ''create'' None ''Account'', act ''deactivate'' None ''Account'',
       act ''purge'' None ''Account'', act ''remove'' None ''Account'', act ''update'' None ''Account'',
       act ''upgrade'' None ''Account'']\<rparr>"

definition ActiveSetting_fields :: "field list" where
  "ActiveSetting_fields = [tagged ''activeValue'' TAny, tagged ''inDb'' TBool, tagged ''name'' TString, tagged ''source'' TString,
     tagged ''value'' TString]"

definition ActiveSetting_client :: typed_client where
  "ActiveSetting_client = \<lparr>tc_Type = ''activeSetting'', tc_Struct = ''ActiveSetting'', tc_Fields = ActiveSetting_fields,
     tc_Actions = []\<rparr>"

definition AddOutputsInput_fields :: "field list" where
  "AddOutputsInput_fields = [tagged ''outputs'' (TMap TAny)]"

definition AddOutputsInput_client :: typed_client where
  "AddOutputsInput_client = \<lparr>tc_Type = ''addOutputsInput'', tc_Struct = ''AddOutputsInput'', tc_Fields = AddOutputsInput_fields,
     tc_Actions = []\<rparr>"

definition AddRemoveServiceLinkInput_fields :: "field list" where
  "AddRemoveServiceLinkInput_fields = [tagged ''serviceLink'' (TStruct ''ServiceLink'')]"

definition AddRemoveServiceLinkInput_client :: typed_client where
  "AddRemoveServiceLinkInput_client = \<lparr>tc_Type = ''addRemoveServiceLinkInput'', tc_Struct = ''AddRemoveServiceLinkInput'', tc_Fields = AddRemoveServiceLinkInput_fields,
     tc_Actions = []\<rparr>"

definition Agent_fields :: "field list" where
  "Agent_fields = [tagged ''accountId'' TString, tagged ''created'' TString, tagged ''data'' (TMap TAny),
     tagged ''description'' TString, tagged ''kind'' TString, tagged ''managedConfig'' TBool,
     tagged ''name'' TString, tagged ''removeTime'' TString, tagged ''removed'' TString,
     tagged ''state'' TString, tagged ''transitioning'' TString, tagged ''transitioningMessage'' TString,
     tagged ''transitioningProgress'' TInt, tagged ''uri'' TString, tagged ''uuid'' TString]"

definition Agent_client :: typed_client where
  "Agent_client = \<lparr>tc_Type = ''agent'', tc_Struct = ''Agent'', tc_Fields = Agent_fields,
     tc_Actions = [act ''activate'' None ''Agent'', act ''create'' None ''Agent'', act ''deactivate'' None ''Agent'',
       act ''disconnect'' None ''Agent'', act ''finishreconnect'' None ''Agent'', act ''purge'' None ''Agent'',
       act ''reconnect'' None ''Agent'', act ''remove'' None ''Agent'', act ''update'' None ''Agent'']\<rparr>"

definition Amazonec2Config_fields :: "field list" where
  "Amazonec2Config_fields = [tagged ''accessKey'' TString, tagged ''ami'' TString, tagged ''blockDurationMinutes'' TString,
     tagged ''deviceName'' TString, tagged ''endpoint'' TString, tagged ''iamInstanceProfile'' TString,
     tagged ''insecureTransport'' TBool, tagged ''instanceType'' TString, tagged ''keypairName'' TString,
     tagged ''monitoring'' TBool, tagged ''openPort'' (TSlice TString), tagged ''privateAddressOnly'' TBool,
     tagged ''region'' TString, tagged ''requestSpotInstance'' TBool, tagged ''retries'' TString,
     tagged ''rootSize'' TString, tagged ''secretKey'' TString, tagged ''securityGroup'' (TSlice TString),
     tagged ''sessionToken'' TString, tagged ''spotPrice'' TString, tagged ''sshKeypath'' TString,
     tagged ''sshUser'' TString, tagged ''subnetId'' TString, tagged ''tags'' TString,
     tagged ''useEbsOptimizedInstance'' TBool, tagged ''usePrivateAddress'' TBool, tagged ''userdata'' TString,
     tagged ''volumeType'' TString, tagged ''vpcId'' TString, tagged ''zone'' TString]"

definition Amazonec2Config_client :: typed_client where
  "Amazonec2Config_client = \<lparr>tc_Type = ''amazonec2Config'', tc_Struct = ''Amazonec2Config'', tc_Fields = Amazonec2Config_fields,
     tc_Actions = []\<rparr>"

definition ApiKey_fields :: "field list" where
  "ApiKey_fields = [tagged ''accountId'' TString, tagged ''created'' TString, tagged ''data'' (TMap TAny),
     tagged ''description'' TString, tagged ''kind'' TString, tagged ''name'' TString,
     tagged ''publicValue'' TString, tagged ''removeTime'' TString, tagged ''removed'' TString,
     tagged ''secretValue'' TString, tagged ''state'' TString, tagged ''transitioning'' TString,
     tagged ''transitioningMessage'' TString, tagged ''transitioningProgress'' TInt, tagged ''uuid'' TString]"

definition ApiKey_client :: typed_client where
  "ApiKey_client = \<lparr>tc_Type = ''apiKey'', tc_Struct = ''ApiKey'', tc_Fields = ApiKey_fields,
     tc_Actions = [act ''activate'' None ''Credential'', act ''create'' None ''Credential'',
       act ''deactivate'' None ''Credential'', act ''purge'' None ''Credential'',
       act ''remove'' None ''Credential'', act ''update'' None ''Credential'']\<rparr>"

definition AuditLog_fields :: "field list" where
  "AuditLog_fields = [tagged ''accountId'' TString, tagged ''authType'' TString, tagged ''authenticatedAsAccountId'' TString,
     tagged ''authenticatedAsIdentityId'' TString, tagged ''clientIp'' TString, tagged ''created'' TString,
     tagged ''description'' TString, tagged ''eventType'' TString, tagged ''kind'' TString,
     tagged ''requestObject'' TString, tagged ''resourceId'' TInt, tagged ''resourceType'' TString,
     tagged ''responseCode'' TString, tagged ''responseObject'' TString]"

definition AuditLog_client :: typed_client where
  "AuditLog_client = \<lparr>tc_Type = ''auditLog'', tc_Struct = ''AuditLog'', tc_Fields = AuditLog_fields,
     tc_Actions = []\<rparr>"

definition AzureConfig_fields :: "field list" where
  "AzureConfig_fields = [tagged ''availabilitySet'' TString, tagged ''clientId'' TString, tagged ''clientSecret'' TString,
     tagged ''customData'' TString, tagged ''dns'' TString, tagged ''dockerPort'' TString,
     tagged ''environment'' TString, tagged ''image'' TString, tagged ''location'' TString,
     tagged ''noPublicIp'' TBool, tagged ''openPort'' (TSlice TString), tagged ''privateIpAddress'' TString,
     tagged ''resourceGroup'' TString, tagged ''size'' TString, tagged ''sshUser'' TString,
     tagged ''staticPublicIp'' TBool, tagged ''storageType'' TString, tagged ''subnet'' TString,
     tagged ''subnetPrefix'' TString, tagged ''subscriptionId'' TString, tagged ''usePrivateIp'' TBool,
     tagged ''vnet'' TString]"

definition AzureConfig_client :: typed_client where
  "AzureConfig_client = \<lparr>tc_Type = ''azureConfig'', tc_Struct = ''AzureConfig'', tc_Fields = AzureConfig_fields,
     tc_Actions = []\<rparr>"

definition Azureadconfig_fields :: "field list" where
  "Azureadconfig_fields = [tagged ''accessMode'' TString, tagged ''adminAccountPassword'' TString, tagged ''adminAccountUsername'' TString,
     tagged ''clientId'' TString, tagged ''domain'' TString, tagged ''enabled'' TBool, tagged ''name'' TString,
     tagged ''tenantId'' TString]"

definition Azureadconfig_client :: typed_client where
  "Azureadconfig_client = \<lparr>tc_Type = ''azureadconfig'', tc_Struct = ''Azureadconfig'', tc_Fields = Azureadconfig_fields,
     tc_Actions = []\<rparr>"

definition Backup_fields :: "field list" where
  "Backup_fields = [tagged ''accountId'' TString, tagged ''backupTargetId'' TString, tagged ''created'' TString,
     tagged ''data'' (TMap TAny), tagged ''description'' TString, tagged ''kind'' TString,
     tagged ''name'' TString, tagged ''removeTime'' TString, tagged ''removed'' TString,
     tagged ''snapshotId'' TString, tagged ''state'' TString, tagged ''transitioning'' TString,
     tagged ''transitioningMessage'' TString, tagged ''transitioningProgress'' TInt, tagged ''uri'' TString,
     tagged ''uuid'' TString, tagged ''volumeId'' TString]"

definition Backup_client :: typed_client where
  "Backup_client = \<lparr>tc_Type = ''backup'', tc_Struct = ''Backup'', tc_Fields = Backup_fields,
     tc_Actions = [act ''create'' None ''Backup'', act ''remove'' None ''Backup'']\<rparr>"

definition BackupTarget_fields :: "field list" where
  "BackupTarget_fields = [tagged ''accountId'' TString, tagged ''created'' TString, tagged ''data'' (TMap TAny),
     tagged ''description'' TString, tagged ''kind'' TString, tagged ''name'' TString,
     tagged ''nfsConfig'' (TPtr (TStruct ''NfsConfig'')), tagged ''removeTime'' TString,
     tagged ''removed'' TString, tagged ''state'' TString, tagged ''transitioning'' TString,
     tagged ''transitioningMessage'' TString, tagged ''transitioningProgress'' TInt, tagged ''uuid'' TString]"

definition BackupTarget_client :: typed_client where
  "BackupTarget_client = \<lparr>tc_Type = ''backupTarget'', tc_Struct = ''BackupTarget'', tc_Fields = BackupTarget_fields,
     tc_Actions = [act ''create'' None ''BackupTarget'', act ''remove'' None ''BackupTarget'']\<rparr>"

definition BaseMachineConfig_fields :: "field list" where
  "BaseMachineConfig_fields = []"

definition BaseMachineConfig_client :: typed_client where
  "BaseMachineConfig_client = \<lparr>tc_Type = ''baseMachineConfig'', tc_Struct = ''BaseMachineConfig'', tc_Fields = BaseMachineConfig_fields,
     tc_Actions = []\<rparr>"

definition Binding_fields :: "field list" where
  "Binding_fields = [tagged ''services'' (TMap TAny)]"

definition Binding_client :: typed_client where
  "Binding_client = \<lparr>tc_Type = ''binding'', tc_Struct = ''Binding'', tc_Fields = Binding_fields,
     tc_Actions = []\<rparr>"

definition BlkioDeviceOption_fields :: "field list" where
  "BlkioDeviceOption_fields = [tagged ''readBps'' TInt, tagged ''readIops'' TInt, tagged ''weight'' TInt, tagged ''writeBps'' TInt,
     tagged ''writeIops'' TInt]"

definition BlkioDeviceOption_client :: typed_client where
  "BlkioDeviceOption_client = \<lparr>tc_Type = ''blkioDeviceOption'', tc_Struct = ''BlkioDeviceOption'', tc_Fields = BlkioDeviceOption_fields,
     tc_Actions = []\<rparr>"

definition CatalogTemplate_fields :: "field list" where
  "CatalogTemplate_fields = [tagged ''answers'' (TMap TAny), tagged ''binding'' (TStruct ''Binding''), tagged ''description'' TString,
     tagged ''dockerCompose'' TString, tagged ''name'' TString, tagged ''rancherCompose'' TString,
     tagged ''templateId'' TString, tagged ''templateVersionId'' TString]"

definition CatalogTemplate_client :: typed_client where
  "CatalogTemplate_client = \<lparr>tc_Type = ''catalogTemplate'', tc_Struct = ''CatalogTemplate'', tc_Fields = CatalogTemplate_fields,
     tc_Actions = []\<rparr>"

definition Certificate_fields :: "field list" where
  "Certificate_fields = [tagged ''accountId'' TString, tagged ''algorithm'' TString, tagged ''cN'' TString, tagged ''cert'' TString,
     tagged ''certChain'' TString, tagged ''certFingerprint'' TString, tagged ''created'' TString,
     tagged ''data'' (TMap TAny), tagged ''description'' TString, tagged ''expiresAt'' TString,
     tagged ''issuedAt'' TString, tagged ''issuer'' TString, tagged ''key'' TString, tagged ''keySize'' TInt,
     tagged ''kind'' TString, tagged ''name'' TString, tagged ''removeTime'' TString,
     tagged ''removed'' TString, tagged ''serialNumber'' TString, tagged ''state'' TString,
     tagged ''subjectAlternativeNames'' (TSlice TString), tagged ''transitioning'' TString,
     tagged ''transitioningMessage'' TString, tagged ''transitioningProgress'' TInt, tagged ''uuid'' TString,
     tagged ''version'' TString]"

definition Certificate_client :: typed_client where
  "Certificate_client = \<lparr>tc_Type = ''certificate'', tc_Struct = ''Certificate'', tc_Fields = Certificate_fields,
     tc_Actions = [act ''create'' None ''Certificate'', act ''remove'' None ''Certificate'', act ''update'' None ''Certificate'']\<rparr>"

definition ChangeSecretInput_fields :: "field list" where
  "ChangeSecretInput_fields = [tagged ''newSecret'' TString, tagged ''oldSecret'' TString]"

definition ChangeSecretInput_client :: typed_client where
  "ChangeSecretInput_client = \<lparr>tc_Type = ''changeSecretInput'', tc_Struct = ''ChangeSecretInput'', tc_Fields = ChangeSecretInput_fields,
     tc_Actions = []\<rparr>"

definition ClusterMembership_fields :: "field list" where
  "ClusterMembership_fields = [tagged ''clustered'' TBool, tagged ''config'' TString, tagged ''heartbeat'' TInt, tagged ''name'' TString,
     tagged ''uuid'' TString]"

definition ClusterMembership_client :: typed_client where
  "ClusterMembership_client = \<lparr>tc_Type = ''clusterMembership'', tc_Struct = ''ClusterMembership'', tc_Fields = ClusterMembership_fields,
     tc_Actions = []\<rparr>"

definition ComposeConfig_fields :: "field list" where
  "ComposeConfig_fields = [tagged ''dockerComposeConfig'' TString, tagged ''rancherComposeConfig'' TString]"

definition ComposeConfig_client :: typed_client where
  "ComposeConfig_client = \<lparr>tc_Type = ''composeConfig'', tc_Struct = ''ComposeConfig'', tc_Fields = ComposeConfig_fields,
     tc_Actions = []\<rparr>"

definition ComposeConfigInput_fields :: "field list" where
  "ComposeConfigInput_fields = [tagged ''serviceIds'' (TSlice TString)]"

definition ComposeConfigInput_client :: typed_client where
  "ComposeConfigInput_client = \<lparr>tc_Type = ''composeConfigInput'', tc_Struct = ''ComposeConfigInput'', tc_Fields = ComposeConfigInput_fields,
     tc_Actions = []\<rparr>"

definition ComposeProject_fields :: "field list" where
  "ComposeProject_fields = [tagged ''accountId'' TString, tagged ''answers'' (TMap TAny), tagged ''binding'' (TPtr (TStruct ''Binding'')),
     tagged ''created'' TString, tagged ''data'' (TMap TAny), tagged ''description'' TString,
     tagged ''environment'' (TMap TAny), tagged ''externalId'' TString, tagged ''group'' TString,
     tagged ''healthState'' TString, tagged ''kind'' TString, tagged ''name'' TString,
     tagged ''previousEnvironment'' (TMap TAny), tagged ''previousExternalId'' TString,
     tagged ''removeTime'' TString, tagged ''removed'' TString, tagged ''serviceIds'' (TSlice TString),
     tagged ''state'' TString, tagged ''system'' TBool, tagged ''templates'' (TMap TAny),
     tagged ''transitioning'' TString, tagged ''transitioningMessage'' TString,
     tagged ''transitioningProgress'' TInt, tagged ''uuid'' TString]"

definition ComposeProject_client :: typed_client where
  "ComposeProject_client = \<lparr>tc_Type = ''composeProject'', tc_Struct = ''ComposeProject'', tc_Fields = ComposeProject_fields,
     tc_Actions = [act ''cancelupgrade'' None ''Stack'', act ''create'' None ''Stack'', act ''error'' None ''Stack'',
       act ''finishupgrade'' None ''Stack'', act ''remove'' None ''Stack'', act ''rollback'' None ''Stack'']\<rparr>"

definition ComposeService_fields :: "field list" where
  "ComposeService_fields = [tagged ''accountId'' TString, tagged ''created'' TString, tagged ''currentScale'' TInt,
     tagged ''data'' (TMap TAny), tagged ''description'' TString, tagged ''externalId'' TString,
     tagged ''fqdn'' TString, tagged ''healthState'' TString, tagged ''instanceIds'' (TSlice TString),
     tagged ''kind'' TString, tagged ''launchConfig'' (TPtr (TStruct ''LaunchConfig'')),
     tagged ''linkedServices'' (TMap TAny), tagged ''name'' TString,
     tagged ''publicEndpoints'' (TSlice (TStruct ''PublicEndpoint'')), tagged ''removeTime'' TString,
     tagged ''removed'' TString, tagged ''scale'' TInt, tagged ''scalePolicy'' (TPtr (TStruct ''ScalePolicy'')),
     tagged ''selectorContainer'' TString, tagged ''selectorLink'' TString, tagged ''stackId'' TString,
     tagged ''startOnCreate'' TBool, tagged ''state'' TString, tagged ''system'' TBool,
     tagged ''transitioning'' TString, tagged ''transitioningMessage'' TString,
     tagged ''transitioningProgress'' TInt, tagged ''uuid'' TString, tagged ''vip'' TString]"

definition ComposeService_client :: typed_client where
  "ComposeService_client = \<lparr>tc_Type = ''composeService'', tc_Struct = ''ComposeService'', tc_Fields = ComposeService_fields,
     tc_Actions = [act ''activate'' None ''Service'', act ''cancelupgrade'' None ''Service'',
       act ''continueupgrade'' None ''Service'', act ''create'' None ''Service'',
       act ''finishupgrade'' None ''Service'', act ''remove'' None ''Service'',
       act ''rollback'' None ''Service'']\<rparr>"

definition ConfigItem_fields :: "field list" where
  "ConfigItem_fields = [tagged ''name'' TString, tagged ''sourceVersion'' TString]"

definition ConfigItem_client :: typed_client where
  "ConfigItem_client = \<lparr>tc_Type = ''configItem'', tc_Struct = ''ConfigItem'', tc_Fields = ConfigItem_fields,
     tc_Actions = []\<rparr>"

definition ConfigItemStatus_fields :: "field list" where
  "ConfigItemStatus_fields = [tagged ''accountId'' TString, tagged ''agentId'' TString, tagged ''appliedUpdated'' TString,
     tagged ''appliedVersion'' TInt, tagged ''name'' TString, tagged ''requestedUpdated'' TString,
     tagged ''requestedVersion'' TInt, tagged ''sourceVersion'' TString]"

definition ConfigItemStatus_client :: typed_client where
  "ConfigItemStatus_client = \<lparr>tc_Type = ''configItemStatus'', tc_Struct = ''ConfigItemStatus'', tc_Fields = ConfigItemStatus_fields,
     tc_Actions = []\<rparr>"

definition Container_fields :: "field list" where
  "Container_fields = [tagged ''accountId'' TString, tagged ''agentId'' TString, tagged ''allocationState'' TString,
     tagged ''blkioDeviceOptions'' (TMap TAny), tagged ''blkioWeight'' TInt,
     tagged ''build'' (TPtr (TStruct ''DockerBuild'')), tagged ''capAdd'' (TSlice TString),
     tagged ''capDrop'' (TSlice TString), tagged ''cgroupParent'' TString, tagged ''command'' (TSlice TString),
     tagged ''count'' TInt, tagged ''cpuCount'' TInt, tagged ''cpuPercent'' TInt, tagged ''cpuPeriod'' TInt,
     tagged ''cpuQuota'' TInt, tagged ''cpuRealtimePeriod'' TInt, tagged ''cpuRealtimeRuntime'' TInt,
     tagged ''cpuSet'' TString, tagged ''cpuSetMems'' TString, tagged ''cpuShares'' TInt,
     tagged ''createIndex'' TInt, tagged ''created'' TString, tagged ''data'' (TMap TAny),
     tagged ''dataVolumeMounts'' (TMap TAny), tagged ''dataVolumes'' (TSlice TString),
     tagged ''dataVolumesFrom'' (TSlice TString), tagged ''deploymentUnitUuid'' TString,
     tagged ''description'' TString, tagged ''devices'' (TSlice TString), tagged ''diskQuota'' TInt,
     tagged ''dns'' (TSlice TString), tagged ''dnsOpt'' (TSlice TString), tagged ''dnsSearch'' (TSlice TString),
     tagged ''domainName'' TString, tagged ''entryPoint'' (TSlice TString), tagged ''environment'' (TMap TAny),
     tagged ''expose'' (TSlice TString), tagged ''externalId'' TString, tagged ''extraHosts'' (TSlice TString),
     tagged ''firstRunning'' TString, tagged ''groupAdd'' (TSlice TString),
     tagged ''healthCheck'' (TPtr (TStruct ''InstanceHealthCheck'')), tagged ''healthCmd'' (TSlice TString),
     tagged ''healthInterval'' TInt, tagged ''healthRetries'' TInt, tagged ''healthState'' TString,
     tagged ''healthTimeout'' TInt, tagged ''hostId'' TString, tagged ''hostname'' TString,
     tagged ''imageUuid'' TString, tagged ''instanceLinks'' (TMap TAny),
     tagged ''instanceTriggeredStop'' TString, tagged ''ioMaximumBandwidth'' TInt,
     tagged ''ioMaximumIOps'' TInt, tagged ''ip'' TString, tagged ''ip6'' TString, tagged ''ipcMode'' TString,
     tagged ''isolation'' TString, tagged ''kernelMemory'' TInt, tagged ''kind'' TString,
     tagged ''labels'' (TMap TAny), tagged ''logConfig'' (TPtr (TStruct ''LogConfig'')),
     tagged ''lxcConf'' (TMap TAny), tagged ''memory'' TInt, tagged ''memoryReservation'' TInt,
     tagged ''memorySwap'' TInt, tagged ''memorySwappiness'' TInt, tagged ''milliCpuReservation'' TInt,
     tagged ''mounts'' (TSlice (TStruct ''MountEntry'')), tagged ''name'' TString,
     tagged ''nativeContainer'' TBool, tagged ''netAlias'' (TSlice TString),
     tagged ''networkContainerId'' TString, tagged ''networkIds'' (TSlice TString),
     tagged ''networkMode'' TString, tagged ''oomKillDisable'' TBool, tagged ''oomScoreAdj'' TInt,
     tagged ''pidMode'' TString, tagged ''pidsLimit'' TInt, tagged ''ports'' (TSlice TString),
     tagged ''primaryIpAddress'' TString, tagged ''primaryNetworkId'' TString, tagged ''privileged'' TBool,
     tagged ''publishAllPorts'' TBool, tagged ''readOnly'' TBool, tagged ''registryCredentialId'' TString,
     tagged ''removeTime'' TString, tagged ''removed'' TString, tagged ''requestedHostId'' TString,
     tagged ''restartPolicy'' (TPtr (TStruct ''RestartPolicy'')), tagged ''runInit'' TBool,
     tagged ''secrets'' (TSlice (TStruct ''SecretReference'')), tagged ''securityOpt'' (TSlice TString),
     tagged ''serviceId'' TString, tagged ''serviceIds'' (TSlice TString), tagged ''shmSize'' TInt,
     tagged ''stackId'' TString, tagged ''startCount'' TInt, tagged ''startOnCreate'' TBool,
     tagged ''state'' TString, tagged ''stdinOpen'' TBool, tagged ''stopSignal'' TString,
     tagged ''stopTimeout'' TInt, tagged ''storageOpt'' (TMap TAny), tagged ''sysctls'' (TMap TAny),
     tagged ''system'' TBool, tagged ''tmpfs'' (TMap TAny), tagged ''token'' TString,
     tagged ''transitioning'' TString, tagged ''transitioningMessage'' TString,
     tagged ''transitioningProgress'' TInt, tagged ''tty'' TBool,
     tagged ''ulimits'' (TSlice (TStruct ''Ulimit'')), tagged ''user'' TString,
     tagged ''userPorts'' (TSlice TString), tagged ''usernsMode'' TString, tagged ''uts'' TString,
     tagged ''uuid'' TString, tagged ''version'' TString, tagged ''volumeDriver'' TString,
     tagged ''workingDir'' TString]"

definition Container_client :: typed_client where
  "Container_client = \<lparr>tc_Type = ''container'', tc_Struct = ''Container'', tc_Fields = Container_fields,
     tc_Actions = [act ''allocate'' None ''Instance'', act ''console'' (Some ''InstanceConsoleInput'') ''InstanceConsole'',
       act ''create'' None ''Instance'', act ''deallocate'' None ''Instance'', act ''error'' None ''Instance'',
       act ''execute'' (Some ''ContainerExec'') ''HostAccess'',
       act ''logs'' (Some ''ContainerLogs'') ''HostAccess'', act ''migrate'' None ''Instance'',
       act ''proxy'' (Some ''ContainerProxy'') ''HostAccess'', act ''purge'' None ''Instance'',
       act ''remove'' None ''Instance'', act ''restart'' None ''Instance'', act ''start'' None ''Instance'',
       act ''stop'' (Some ''InstanceStop'') ''Instance'', act ''update'' None ''Instance'',
       act ''updatehealthy'' None ''Instance'', act ''updatereinitializing'' None ''Instance'',
       act ''updateunhealthy'' None ''Instance'']\<rparr>"

definition ContainerEvent_fields :: "field list" where
  "ContainerEvent_fields = [tagged ''accountId'' TString, tagged ''created'' TString, tagged ''data'' (TMap TAny),
     tagged ''dockerInspect'' TAny, tagged ''externalFrom'' TString, tagged ''externalId'' TString,
     tagged ''externalStatus'' TString, tagged ''externalTimestamp'' TInt, tagged ''hostId'' TString,
     tagged ''kind'' TString, tagged ''reportedHostUuid'' TString, tagged ''state'' TString,
     tagged ''transitioning'' TString, tagged ''transitioningMessage'' TString,
     tagged ''transitioningProgress'' TInt]"

definition ContainerEvent_client :: typed_client where
  "ContainerEvent_client = \<lparr>tc_Type = ''containerEvent'', tc_Struct = ''ContainerEvent'', tc_Fields = ContainerEvent_fields,
     tc_Actions = [act ''create'' None ''ContainerEvent'', act ''remove'' None ''ContainerEvent'']\<rparr>"

definition ContainerExec_fields :: "field list" where
  "ContainerExec_fields = [tagged ''attachStdin'' TBool, tagged ''attachStdout'' TBool, tagged ''command'' (TSlice TString),
     tagged ''tty'' TBool]"

definition ContainerExec_client :: typed_client where
  "ContainerExec_client = \<lparr>tc_Type = ''containerExec'', tc_Struct = ''ContainerExec'', tc_Fields = ContainerExec_fields,
     tc_Actions = []\<rparr>"

definition ContainerLogs_fields :: "field list" where
  "ContainerLogs_fields = [tagged ''follow'' TBool, tagged ''lines'' TInt]"

definition ContainerLogs_client :: typed_client where
  "ContainerLogs_client = \<lparr>tc_Type = ''containerLogs'', tc_Struct = ''ContainerLogs'', tc_Fields = ContainerLogs_fields,
     tc_Actions = []\<rparr>"

definition ContainerProxy_fields :: "field list" where
  "ContainerProxy_fields = [tagged ''port'' TInt, tagged ''scheme'' TString]"

definition ContainerProxy_client :: typed_client where
  "ContainerProxy_client = \<lparr>tc_Type = ''containerProxy'', tc_Struct = ''ContainerProxy'', tc_Fields = ContainerProxy_fields,
     tc_Actions = []\<rparr>"

definition Credential_fields :: "field list" where
  "Credential_fields = [tagged ''accountId'' TString, tagged ''created'' TString, tagged ''data'' (TMap TAny),
     tagged ''description'' TString, tagged ''kind'' TString, tagged ''name'' TString,
     tagged ''publicValue'' TString, tagged ''removeTime'' TString, tagged ''removed'' TString,
     tagged ''secretValue'' TString, tagged ''state'' TString, tagged ''transitioning'' TString,
     tagged ''transitioningMessage'' TString, tagged ''transitioningProgress'' TInt, tagged ''uuid'' TString]"

definition Credential_client :: typed_client where
  "Credential_client = \<lparr>tc_Type = ''credential'', tc_Struct = ''Credential'', tc_Fields = Credential_fields,
     tc_Actions = [act ''activate'' None ''Credential'', act ''create'' None ''Credential'',
       act ''deactivate'' None ''Credential'', act ''purge'' None ''Credential'',
       act ''remove'' None ''Credential'', act ''update'' None ''Credential'']\<rparr>"

definition Databasechangelog_fields :: "field list" where
  "Databasechangelog_fields = [tagged ''author'' TString, tagged ''comments'' TString, tagged ''dateexecuted'' TString,
     tagged ''description'' TString, tagged ''exectype'' TString, tagged ''filename'' TString,
     tagged ''liquibase'' TString, tagged ''md5sum'' TString, tagged ''orderexecuted'' TInt,
     tagged ''tag'' TString]"

definition Databasechangelog_client :: typed_client where
  "Databasechangelog_client = \<lparr>tc_Type = ''databasechangelog'', tc_Struct = ''Databasechangelog'', tc_Fields = Databasechangelog_fields,
     tc_Actions = []\<rparr>"

definition Databasechangeloglock_fields :: "field list" where
  "Databasechangeloglock_fields = [tagged ''locked'' TBool, tagged ''lockedby'' TString, tagged ''lockgranted'' TString]"

definition Databasechangeloglock_client :: typed_client where
  "Databasechangeloglock_client = \<lparr>tc_Type = ''databasechangeloglock'', tc_Struct = ''Databasechangeloglock'', tc_Fields = Databasechangeloglock_fields,
     tc_Actions = []\<rparr>"

definition DefaultNetwork_fields :: "field list" where
  "DefaultNetwork_fields = [tagged ''accountId'' TString, tagged ''created'' TString, tagged ''data'' (TMap TAny),
     tagged ''defaultPolicyAction'' TString, tagged ''description'' TString, tagged ''dns'' (TSlice TString),
     tagged ''dnsSearch'' (TSlice TString), tagged ''hostPorts'' TBool, tagged ''kind'' TString,
     tagged ''metadata'' (TMap TAny), tagged ''name'' TString,
     tagged ''policy'' (TSlice (TStruct ''NetworkPolicyRule'')), tagged ''removeTime'' TString,
     tagged ''removed'' TString, tagged ''state'' TString, tagged ''subnets'' (TSlice (TStruct ''Subnet'')),
     tagged ''transitioning'' TString, tagged ''transitioningMessage'' TString,
     tagged ''transitioningProgress'' TInt, tagged ''uuid'' TString]"

definition DefaultNetwork_client :: typed_client where
  "DefaultNetwork_client = \<lparr>tc_Type = ''defaultNetwork'', tc_Struct = ''DefaultNetwork'', tc_Fields = DefaultNetwork_fields,
     tc_Actions = [act ''activate'' None ''Network'', act ''create'' None ''Network'', act ''deactivate'' None ''Network'',
       act ''purge'' None ''Network'', act ''remove'' None ''Network'', act ''update'' None ''Network'']\<rparr>"

definition DigitaloceanConfig_fields :: "field list" where
  "DigitaloceanConfig_fields = [tagged ''accessToken'' TString, tagged ''backups'' TBool, tagged ''image'' TString, tagged ''ipv6'' TBool,
     tagged ''privateNetworking'' TBool, tagged ''region'' TString, tagged ''size'' TString,
     tagged ''sshKeyFingerprint'' TString, tagged ''sshKeyPath'' TString, tagged ''sshPort'' TString,
     tagged ''sshUser'' TString, tagged ''userdata'' TString]"

definition DigitaloceanConfig_client :: typed_client where
  "DigitaloceanConfig_client = \<lparr>tc_Type = ''digitaloceanConfig'', tc_Struct = ''DigitaloceanConfig'', tc_Fields = DigitaloceanConfig_fields,
     tc_Actions = []\<rparr>"

definition DnsService_fields :: "field list" where
  "DnsService_fields = [tagged ''accountId'' TString, tagged ''assignServiceIpAddress'' TBool, tagged ''created'' TString,
     tagged ''data'' (TMap TAny), tagged ''description'' TString, tagged ''externalId'' TString,
     tagged ''fqdn'' TString, tagged ''healthState'' TString, tagged ''instanceIds'' (TSlice TString),
     tagged ''kind'' TString, tagged ''launchConfig'' (TPtr (TStruct ''LaunchConfig'')),
     tagged ''linkedServices'' (TMap TAny), tagged ''metadata'' (TMap TAny), tagged ''name'' TString,
     tagged ''removeTime'' TString, tagged ''removed'' TString, tagged ''retainIp'' TBool,
     tagged ''selectorLink'' TString, tagged ''stackId'' TString, tagged ''startOnCreate'' TBool,
     tagged ''state'' TString, tagged ''system'' TBool, tagged ''transitioning'' TString,
     tagged ''transitioningMessage'' TString, tagged ''transitioningProgress'' TInt,
     tagged ''upgrade'' (TPtr (TStruct ''ServiceUpgrade'')), tagged ''uuid'' TString]"

definition DnsService_client :: typed_client where
  "DnsService_client = \<lparr>tc_Type = ''dnsService'', tc_Struct = ''DnsService'', tc_Fields = DnsService_fields,
     tc_Actions = [act ''activate'' None ''Service'', act ''addservicelink'' (Some ''AddRemoveServiceLinkInput'') ''Service'',
       act ''cancelupgrade'' None ''Service'', act ''continueupgrade'' None ''Service'',
       act ''create'' None ''Service'', act ''deactivate'' None ''Service'',
       act ''finishupgrade'' None ''Service'', act ''remove'' None ''Service'',
       act ''removeservicelink'' (Some ''AddRemoveServiceLinkInput'') ''Service'',
       act ''restart'' (Some ''ServiceRestart'') ''Service'', act ''rollback'' None ''Service'',
       act ''setservicelinks'' (Some ''SetServiceLinksInput'') ''Service'', act ''update'' None ''Service'',
       act ''upgrade'' (Some ''ServiceUpgrade'') ''Service'']\<rparr>"

definition DockerBuild_fields :: "field list" where
  "DockerBuild_fields = [tagged ''context'' TString, tagged ''dockerfile'' TString, tagged ''forcerm'' TBool, tagged ''nocache'' TBool,
     tagged ''remote'' TString, tagged ''rm'' TBool]"

definition DockerBuild_client :: typed_client where
  "DockerBuild_client = \<lparr>tc_Type = ''dockerBuild'', tc_Struct = ''DockerBuild'', tc_Fields = DockerBuild_fields,
     tc_Actions = []\<rparr>"

definition A_D_clients :: "typed_client list" where
  "A_D_clients = [Account_client, ActiveSetting_client, AddOutputsInput_client, AddRemoveServiceLinkInput_client, Agent_client,
     Amazonec2Config_client, ApiKey_client, AuditLog_client, AzureConfig_client, Azureadconfig_client,
     Backup_client, BackupTarget_client, BaseMachineConfig_client, Binding_client, BlkioDeviceOption_client,
     CatalogTemplate_client, Certificate_client, ChangeSecretInput_client, ClusterMembership_client,
     ComposeConfig_client, ComposeConfigInput_client, ComposeProject_client, ComposeService_client,
     ConfigItem_client, ConfigItemStatus_client, Container_client, ContainerEvent_client, ContainerExec_client,
     ContainerLogs_client, ContainerProxy_client, Credential_client, Databasechangelog_client,
     Databasechangeloglock_client, DefaultNetwork_client, DigitaloceanConfig_client, DnsService_client,
     DockerBuild_client]"

lemmas A_D_client_defs =
  Account_client_def ActiveSetting_client_def AddOutputsInput_client_def AddRemoveServiceLinkInput_client_def
  Agent_client_def Amazonec2Config_client_def ApiKey_client_def AuditLog_client_def AzureConfig_client_def
  Azureadconfig_client_def Backup_client_def BackupTarget_client_def BaseMachineConfig_client_def
  Binding_client_def BlkioDeviceOption_client_def CatalogTemplate_client_def Certificate_client_def
  ChangeSecretInput_client_def ClusterMembership_client_def ComposeConfig_client_def ComposeConfigInput_client_def
  ComposeProject_client_def ComposeService_client_def ConfigItem_client_def ConfigItemStatus_client_def
  Container_client_def ContainerEvent_client_def ContainerExec_client_def ContainerLogs_client_def
  ContainerProxy_client_def Credential_client_def Databasechangelog_client_def Databasechangeloglock_client_def
  DefaultNetwork_client_def DigitaloceanConfig_client_def DnsService_client_def DockerBuild_client_def

lemmas A_D_field_defs =
  Account_fields_def ActiveSetting_fields_def AddOutputsInput_fields_def AddRemoveServiceLinkInput_fields_def
  Agent_fields_def Amazonec2Config_fields_def ApiKey_fields_def AuditLog_fields_def AzureConfig_fields_def
  Azureadconfig_fields_def Backup_fields_def BackupTarget_fields_def BaseMachineConfig_fields_def
  Binding_fields_def BlkioDeviceOption_fields_def CatalogTemplate_fields_def Certificate_fields_def
  ChangeSecretInput_fields_def ClusterMembership_fields_def ComposeConfig_fields_def ComposeConfigInput_fields_def
  ComposeProject_fields_def ComposeService_fields_def ConfigItem_fields_def ConfigItemStatus_fields_def
  Container_fields_def ContainerEvent_fields_def ContainerExec_fields_def ContainerLogs_fields_def
  ContainerProxy_fields_def Credential_fields_def Databasechangelog_fields_def Databasechangeloglock_fields_def
  DefaultNetwork_fields_def DigitaloceanConfig_fields_def DnsService_fields_def DockerBuild_fields_def

lemma A_D_names:
  "map tc_Struct A_D_clients = [''Account'', ''ActiveSetting'', ''AddOutputsInput'', ''AddRemoveServiceLinkInput'', ''Agent'',
     ''Amazonec2Config'', ''ApiKey'', ''AuditLog'', ''AzureConfig'', ''Azureadconfig'', ''Backup'',
     ''BackupTarget'', ''BaseMachineConfig'', ''Binding'', ''BlkioDeviceOption'', ''CatalogTemplate'',
     ''Certificate'', ''ChangeSecretInput'', ''ClusterMembership'', ''ComposeConfig'', ''ComposeConfigInput'',
     ''ComposeProject'', ''ComposeService'', ''ConfigItem'', ''ConfigItemStatus'', ''Container'',
     ''ContainerEvent'', ''ContainerExec'', ''ContainerLogs'', ''ContainerProxy'', ''Credential'',
     ''Databasechangelog'', ''Databasechangeloglock'', ''DefaultNetwork'', ''DigitaloceanConfig'',
     ''DnsService'', ''DockerBuild'']"
  by (simp add: A_D_clients_def A_D_client_defs)

lemma A_D_names_ok: "list_all names_ok A_D_clients"
  by (simp add: A_D_clients_def A_D_client_defs A_D_field_defs names_ok_def less_char_def)

end
