(* ===== verification/Api_Types_E_L.thy ===== *)
theory Api_Types_E_L
  imports Api_Struct
begin

text \<open>
  The resource types of \<open>internal/rancherclient/v2/generated_extension_implementation.go\<close> to \<open>generated_log_config.go\<close>: for each
  the fields of its struct after the embedded \<open>Resource\<close>, and its client.
\<close>

definition ExtensionImplementation_fields :: "field list" where
  "ExtensionImplementation_fields = [tagged ''className'' TString, tagged ''name'' TString, tagged ''properties'' (TMap TAny)]"

definition ExtensionImplementation_client :: typed_client where
  "ExtensionImplementation_client = \<lparr>tc_Type = ''extensionImplementation'', tc_Struct = ''ExtensionImplementation'', tc_Fields = ExtensionImplementation_fields,
     tc_Actions = []\<rparr>"

definition ExtensionPoint_fields :: "field list" where
  "ExtensionPoint_fields = [tagged ''excludeSetting'' TString, tagged ''implementations'' (TSlice (TStruct ''ExtensionImplementation'')),
     tagged ''includeSetting'' TString, tagged ''listSetting'' TString, tagged ''name'' TString]"

definition ExtensionPoint_client :: typed_client where
  "ExtensionPoint_client = \<lparr>tc_Type = ''extensionPoint'', tc_Struct = ''ExtensionPoint'', tc_Fields = ExtensionPoint_fields,
     tc_Actions = []\<rparr>"

definition ExternalDnsEvent_fields :: "field list" where
  "ExternalDnsEvent_fields = [tagged ''accountId'' TString, tagged ''created'' TString, tagged ''data'' (TMap TAny),
     tagged ''eventType'' TString, tagged ''externalId'' TString, tagged ''fqdn'' TString,
     tagged ''kind'' TString, tagged ''reportedAccountId'' TString, tagged ''serviceName'' TString,
     tagged ''stackName'' TString, tagged ''state'' TString, tagged ''transitioning'' TString,
     tagged ''transitioningMessage'' TString, tagged ''transitioningProgress'' TInt, tagged ''uuid'' TString]"

definition ExternalDnsEvent_client :: typed_client where
  "ExternalDnsEvent_client = \<lparr>tc_Type = ''externalDnsEvent'', tc_Struct = ''ExternalDnsEvent'', tc_Fields = ExternalDnsEvent_fields,
     tc_Actions = [act ''create'' None ''ExternalEvent'', act ''remove'' None ''ExternalEvent'']\<rparr>"

definition ExternalEvent_fields :: "field list" where
  "ExternalEvent_fields = [tagged ''accountId'' TString, tagged ''created'' TString, tagged ''data'' (TMap TAny),
     tagged ''eventType'' TString, tagged ''externalId'' TString, tagged ''kind'' TString,
     tagged ''reportedAccountId'' TString, tagged ''state'' TString, tagged ''transitioning'' TString,
     tagged ''transitioningMessage'' TString, tagged ''transitioningProgress'' TInt, tagged ''uuid'' TString]"

definition ExternalEvent_client :: typed_client where
  "ExternalEvent_client = \<lparr>tc_Type = ''externalEvent'', tc_Struct = ''ExternalEvent'', tc_Fields = ExternalEvent_fields,
     tc_Actions = [act ''create'' None ''ExternalEvent'', act ''remove'' None ''ExternalEvent'']\<rparr>"

definition ExternalHandler_fields :: "field list" where
  "ExternalHandler_fields = [tagged ''created'' TString, tagged ''data'' (TMap TAny), tagged ''description'' TString,
     tagged ''kind'' TString, tagged ''name'' TString, tagged ''priority'' TInt,
     tagged ''processConfigs'' (TSlice (TStruct ''ExternalHandlerProcessConfig'')),
     tagged ''removeTime'' TString, tagged ''removed'' TString, tagged ''retries'' TInt,
     tagged ''state'' TString, tagged ''timeoutMillis'' TInt, tagged ''transitioning'' TString,
     tagged ''transitioningMessage'' TString, tagged ''transitioningProgress'' TInt, tagged ''uuid'' TString]"

definition ExternalHandler_client :: typed_client where
  "ExternalHandler_client = \<lparr>tc_Type = ''externalHandler'', tc_Struct = ''ExternalHandler'', tc_Fields = ExternalHandler_fields,
     tc_Actions = [act ''activate'' None ''ExternalHandler'', act ''create'' None ''ExternalHandler'',
       act ''deactivate'' None ''ExternalHandler'', act ''purge'' None ''ExternalHandler'',
       act ''remove'' None ''ExternalHandler'', act ''update'' None ''ExternalHandler'']\<rparr>"

definition ExternalHandlerExternalHandlerProcessMap_fields :: "field list" where
  "ExternalHandlerExternalHandlerProcessMap_fields = [tagged ''created'' TString, tagged ''data'' (TMap TAny), tagged ''description'' TString,
     tagged ''eventName'' TString, tagged ''externalHandlerId'' TString,
     tagged ''externalHandlerProcessId'' TString, tagged ''kind'' TString, tagged ''name'' TString,
     tagged ''onError'' TString, tagged ''removeTime'' TString, tagged ''removed'' TString,
     tagged ''state'' TString, tagged ''transitioning'' TString, tagged ''transitioningMessage'' TString,
     tagged ''transitioningProgress'' TInt, tagged ''uuid'' TString]"

definition ExternalHandlerExternalHandlerProcessMap_client :: typed_client where
  "ExternalHandlerExternalHandlerProcessMap_client = \<lparr>tc_Type = ''externalHandlerExternalHandlerProcessMap'', tc_Struct = ''ExternalHandlerExternalHandlerProcessMap'', tc_Fields = ExternalHandlerExternalHandlerProcessMap_fields,
     tc_Actions = [act ''activate'' None ''ExternalHandlerExternalHandlerProcessMap'',
       act ''create'' None ''ExternalHandlerExternalHandlerProcessMap'',
       act ''deactivate'' None ''ExternalHandlerExternalHandlerProcessMap'',
       act ''purge'' None ''ExternalHandlerExternalHandlerProcessMap'',
       act ''remove'' None ''ExternalHandlerExternalHandlerProcessMap'',
       act ''update'' None ''ExternalHandlerExternalHandlerProcessMap'']\<rparr>"

definition ExternalHandlerProcess_fields :: "field list" where
  "ExternalHandlerProcess_fields = [tagged ''created'' TString, tagged ''data'' (TMap TAny), tagged ''description'' TString,
     tagged ''kind'' TString, tagged ''name'' TString, tagged ''removeTime'' TString,
     tagged ''removed'' TString, tagged ''state'' TString, tagged ''transitioning'' TString,
     tagged ''transitioningMessage'' TString, tagged ''transitioningProgress'' TInt, tagged ''uuid'' TString]"

definition ExternalHandlerProcess_client :: typed_client where
  "ExternalHandlerProcess_client = \<lparr>tc_Type = ''externalHandlerProcess'', tc_Struct = ''ExternalHandlerProcess'', tc_Fields = ExternalHandlerProcess_fields,
     tc_Actions = [act ''activate'' None ''ExternalHandlerProcess'', act ''create'' None ''ExternalHandlerProcess'',
       act ''deactivate'' None ''ExternalHandlerProcess'', act ''purge'' None ''ExternalHandlerProcess'',
       act ''remove'' None ''ExternalHandlerProcess'', act ''update'' None ''ExternalHandlerProcess'']\<rparr>"

definition ExternalHandlerProcessConfig_fields :: "field list" where
  "ExternalHandlerProcessConfig_fields = [tagged ''name'' TString, tagged ''onError'' TString]"

definition ExternalHandlerProcessConfig_client :: typed_client where
  "ExternalHandlerProcessConfig_client = \<lparr>tc_Type = ''externalHandlerProcessConfig'', tc_Struct = ''ExternalHandlerProcessConfig'', tc_Fields = ExternalHandlerProcessConfig_fields,
     tc_Actions = []\<rparr>"

definition ExternalHostEvent_fields :: "field list" where
  "ExternalHostEvent_fields = [tagged ''accountId'' TString, tagged ''created'' TString, tagged ''data'' (TMap TAny),
     tagged ''deleteHost'' TBool, tagged ''eventType'' TString, tagged ''externalId'' TString,
     tagged ''hostId'' TString, tagged ''hostLabel'' TString, tagged ''kind'' TString,
     tagged ''reportedAccountId'' TString, tagged ''state'' TString, tagged ''transitioning'' TString,
     tagged ''transitioningMessage'' TString, tagged ''transitioningProgress'' TInt, tagged ''uuid'' TString]"

definition ExternalHostEvent_client :: typed_client where
  "ExternalHostEvent_client = \<lparr>tc_Type = ''externalHostEvent'', tc_Struct = ''ExternalHostEvent'', tc_Fields = ExternalHostEvent_fields,
     tc_Actions = [act ''create'' None ''ExternalEvent'', act ''remove'' None ''ExternalEvent'']\<rparr>"

definition ExternalService_fields :: "field list" where
  "ExternalService_fields = [tagged ''accountId'' TString, tagged ''created'' TString, tagged ''data'' (TMap TAny),
     tagged ''description'' TString, tagged ''externalId'' TString,
     tagged ''externalIpAddresses'' (TSlice TString), tagged ''fqdn'' TString,
     tagged ''healthCheck'' (TPtr (TStruct ''InstanceHealthCheck'')), tagged ''healthState'' TString,
     tagged ''hostname'' TString, tagged ''instanceIds'' (TSlice TString), tagged ''kind'' TString,
     tagged ''launchConfig'' (TPtr (TStruct ''LaunchConfig'')), tagged ''linkedServices'' (TMap TAny),
     tagged ''metadata'' (TMap TAny), tagged ''name'' TString, tagged ''removeTime'' TString,
     tagged ''removed'' TString, tagged ''stackId'' TString, tagged ''startOnCreate'' TBool,
     tagged ''state'' TString, tagged ''system'' TBool, tagged ''transitioning'' TString,
     tagged ''transitioningMessage'' TString, tagged ''transitioningProgress'' TInt,
     tagged ''upgrade'' (TPtr (TStruct ''ServiceUpgrade'')), tagged ''uuid'' TString]"

definition ExternalService_client :: typed_client where
  "ExternalService_client = \<lparr>tc_Type = ''externalService'', tc_Struct = ''ExternalService'', tc_Fields = ExternalService_fields,
     tc_Actions = [act ''activate'' None ''Service'', act ''cancelupgrade'' None ''Service'',
       act ''continueupgrade'' None ''Service'', act ''create'' None ''Service'',
       act ''deactivate'' None ''Service'', act ''finishupgrade'' None ''Service'',
       act ''remove'' None ''Service'', act ''restart'' (Some ''ServiceRestart'') ''Service'',
       act ''rollback'' None ''Service'', act ''update'' None ''Service'',
       act ''upgrade'' (Some ''ServiceUpgrade'') ''Service'']\<rparr>"

definition ExternalServiceEvent_fields :: "field list" where
  "ExternalServiceEvent_fields = [tagged ''accountId'' TString, tagged ''created'' TString, tagged ''data'' (TMap TAny),
     tagged ''environment'' TAny, tagged ''eventType'' TString, tagged ''externalId'' TString,
     tagged ''kind'' TString, tagged ''reportedAccountId'' TString, tagged ''service'' TAny,
     tagged ''state'' TString, tagged ''transitioning'' TString, tagged ''transitioningMessage'' TString,
     tagged ''transitioningProgress'' TInt, tagged ''uuid'' TString]"

definition ExternalServiceEvent_client :: typed_client where
  "ExternalServiceEvent_client = \<lparr>tc_Type = ''externalServiceEvent'', tc_Struct = ''ExternalServiceEvent'', tc_Fields = ExternalServiceEvent_fields,
     tc_Actions = [act ''create'' None ''ExternalEvent'', act ''remove'' None ''ExternalEvent'']\<rparr>"

definition ExternalStoragePoolEvent_fields :: "field list" where
  "ExternalStoragePoolEvent_fields = [tagged ''accountId'' TString, tagged ''created'' TString, tagged ''data'' (TMap TAny),
     tagged ''eventType'' TString, tagged ''externalId'' TString, tagged ''hostUuids'' (TSlice TString),
     tagged ''kind'' TString, tagged ''reportedAccountId'' TString, tagged ''state'' TString,
     tagged ''storagePool'' (TStruct ''StoragePool''), tagged ''transitioning'' TString,
     tagged ''transitioningMessage'' TString, tagged ''transitioningProgress'' TInt, tagged ''uuid'' TString]"

definition ExternalStoragePoolEvent_client :: typed_client where
  "ExternalStoragePoolEvent_client = \<lparr>tc_Type = ''externalStoragePoolEvent'', tc_Struct = ''ExternalStoragePoolEvent'', tc_Fields = ExternalStoragePoolEvent_fields,
     tc_Actions = [act ''create'' None ''ExternalEvent'', act ''remove'' None ''ExternalEvent'']\<rparr>"

definition ExternalVolumeEvent_fields :: "field list" where
  "ExternalVolumeEvent_fields = [tagged ''accountId'' TString, tagged ''created'' TString, tagged ''data'' (TMap TAny),
     tagged ''eventType'' TString, tagged ''externalId'' TString, tagged ''kind'' TString,
     tagged ''reportedAccountId'' TString, tagged ''state'' TString, tagged ''transitioning'' TString,
     tagged ''transitioningMessage'' TString, tagged ''transitioningProgress'' TInt, tagged ''uuid'' TString,
     tagged ''volume'' (TStruct ''Volume'')]"

definition ExternalVolumeEvent_client :: typed_client where
  "ExternalVolumeEvent_client = \<lparr>tc_Type = ''externalVolumeEvent'', tc_Struct = ''ExternalVolumeEvent'', tc_Fields = ExternalVolumeEvent_fields,
     tc_Actions = [act ''create'' None ''ExternalEvent'', act ''remove'' None ''ExternalEvent'']\<rparr>"

definition FieldDocumentation_fields :: "field list" where
  "FieldDocumentation_fields = [tagged ''description'' TString]"

definition FieldDocumentation_client :: typed_client where
  "FieldDocumentation_client = \<lparr>tc_Type = ''fieldDocumentation'', tc_Struct = ''FieldDocumentation'', tc_Fields = FieldDocumentation_fields,
     tc_Actions = []\<rparr>"

definition GenericObject_fields :: "field list" where
  "GenericObject_fields = [tagged ''accountId'' TString, tagged ''created'' TString, tagged ''data'' (TMap TAny),
     tagged ''description'' TString, tagged ''key'' TString, tagged ''kind'' TString, tagged ''name'' TString,
     tagged ''removeTime'' TString, tagged ''removed'' TString, tagged ''resourceData'' (TMap TAny),
     tagged ''state'' TString, tagged ''transitioning'' TString, tagged ''transitioningMessage'' TString,
     tagged ''transitioningProgress'' TInt, tagged ''uuid'' TString]"

definition GenericObject_client :: typed_client where
  "GenericObject_client = \<lparr>tc_Type = ''genericObject'', tc_Struct = ''GenericObject'', tc_Fields = GenericObject_fields,
     tc_Actions = [act ''create'' None ''GenericObject'', act ''remove'' None ''GenericObject'']\<rparr>"

definition HaConfig_fields :: "field list" where
  "HaConfig_fields = [tagged ''clusterSize'' TInt, tagged ''dbHost'' TString, tagged ''dbSize'' TInt, tagged ''enabled'' TBool]"

definition HaConfig_client :: typed_client where
  "HaConfig_client = \<lparr>tc_Type = ''haConfig'', tc_Struct = ''HaConfig'', tc_Fields = HaConfig_fields,
     tc_Actions = []\<rparr>"

definition HaConfigInput_fields :: "field list" where
  "HaConfigInput_fields = [tagged ''cert'' TString, tagged ''certChain'' TString, tagged ''clusterSize'' TInt,
     tagged ''hostRegistrationUrl'' TString, tagged ''httpEnabled'' TBool, tagged ''httpPort'' TInt,
     tagged ''httpsPort'' TInt, tagged ''key'' TString, tagged ''ppHttpPort'' TInt, tagged ''ppHttpsPort'' TInt,
     tagged ''redisPort'' TInt, tagged ''swarmEnabled'' TBool, tagged ''swarmPort'' TInt,
     tagged ''zookeeperClientPort'' TInt, tagged ''zookeeperLeaderPort'' TInt,
     tagged ''zookeeperQuorumPort'' TInt]"

definition HaConfigInput_client :: typed_client where
  "HaConfigInput_client = \<lparr>tc_Type = ''haConfigInput'', tc_Struct = ''HaConfigInput'', tc_Fields = HaConfigInput_fields,
     tc_Actions = []\<rparr>"

definition HealthcheckInstanceHostMap_fields :: "field list" where
  "HealthcheckInstanceHostMap_fields = [tagged ''accountId'' TString, tagged ''created'' TString, tagged ''data'' (TMap TAny),
     tagged ''description'' TString, tagged ''healthState'' TString, tagged ''hostId'' TString,
     tagged ''instanceId'' TString, tagged ''kind'' TString, tagged ''name'' TString,
     tagged ''removeTime'' TString, tagged ''removed'' TString, tagged ''state'' TString,
     tagged ''transitioning'' TString, tagged ''transitioningMessage'' TString,
     tagged ''transitioningProgress'' TInt, tagged ''uuid'' TString]"

definition HealthcheckInstanceHostMap_client :: typed_client where
  "HealthcheckInstanceHostMap_client = \<lparr>tc_Type = ''healthcheckInstanceHostMap'', tc_Struct = ''HealthcheckInstanceHostMap'', tc_Fields = HealthcheckInstanceHostMap_fields,
     tc_Actions = [act ''create'' None ''HealthcheckInstanceHostMap'', act ''remove'' None ''HealthcheckInstanceHostMap'']\<rparr>"

definition Host_fields :: "field list" where
  "Host_fields = [tagged ''accountId'' TString, tagged ''agentId'' TString, tagged ''agentIpAddress'' TString,
     tagged ''agentState'' TString, tagged ''amazonec2Config'' (TPtr (TStruct ''Amazonec2Config'')),
     tagged ''apiProxy'' TString, tagged ''authCertificateAuthority'' TString, tagged ''authKey'' TString,
     tagged ''azureConfig'' (TPtr (TStruct ''AzureConfig'')), tagged ''computeTotal'' TInt,
     tagged ''created'' TString, tagged ''data'' (TMap TAny), tagged ''description'' TString,
     tagged ''digitaloceanConfig'' (TPtr (TStruct ''DigitaloceanConfig'')), tagged ''dockerVersion'' TString,
     tagged ''driver'' TString, tagged ''engineEnv'' (TMap TAny),
     tagged ''engineInsecureRegistry'' (TSlice TString), tagged ''engineInstallUrl'' TString,
     tagged ''engineLabel'' (TMap TAny), tagged ''engineOpt'' (TMap TAny),
     tagged ''engineRegistryMirror'' (TSlice TString), tagged ''engineStorageDriver'' TString,
     tagged ''hostTemplateId'' TString, tagged ''hostname'' TString, tagged ''info'' TAny,
     tagged ''instanceIds'' (TSlice TString), tagged ''kind'' TString, tagged ''labels'' (TMap TAny),
     tagged ''localStorageMb'' TInt, tagged ''memory'' TInt, tagged ''milliCpu'' TInt, tagged ''name'' TString,
     tagged ''packetConfig'' (TPtr (TStruct ''PacketConfig'')), tagged ''physicalHostId'' TString,
     tagged ''publicEndpoints'' (TSlice (TStruct ''PublicEndpoint'')), tagged ''removeTime'' TString,
     tagged ''removed'' TString, tagged ''stackId'' TString, tagged ''state'' TString,
     tagged ''transitioning'' TString, tagged ''transitioningMessage'' TString,
     tagged ''transitioningProgress'' TInt, tagged ''uuid'' TString]"

definition Host_client :: typed_client where
  "Host_client = \<lparr>tc_Type = ''host'', tc_Struct = ''Host'', tc_Fields = Host_fields,
     tc_Actions = [act ''activate'' None ''Host'', act ''create'' None ''Host'', act ''deactivate'' None ''Host'',
       act ''dockersocket'' None ''HostAccess'', act ''error'' None ''Host'', act ''evacuate'' None ''Host'',
       act ''provision'' None ''Host'', act ''purge'' None ''Host'', act ''remove'' None ''Host'',
       act ''update'' None ''Host'']\<rparr>"

definition HostAccess_fields :: "field list" where
  "HostAccess_fields = [tagged ''token'' TString, tagged ''url'' TString]"

definition HostAccess_client :: typed_client where
  "HostAccess_client = \<lparr>tc_Type = ''hostAccess'', tc_Struct = ''HostAccess'', tc_Fields = HostAccess_fields,
     tc_Actions = []\<rparr>"

definition HostApiProxyToken_fields :: "field list" where
  "HostApiProxyToken_fields = [tagged ''reportedUuid'' TString, tagged ''token'' TString, tagged ''url'' TString]"

definition HostApiProxyToken_client :: typed_client where
  "HostApiProxyToken_client = \<lparr>tc_Type = ''hostApiProxyToken'', tc_Struct = ''HostApiProxyToken'', tc_Fields = HostApiProxyToken_fields,
     tc_Actions = []\<rparr>"

definition HostTemplate_fields :: "field list" where
  "HostTemplate_fields = [tagged ''accountId'' TString, tagged ''created'' TString, tagged ''data'' (TMap TAny),
     tagged ''description'' TString, tagged ''driver'' TString, tagged ''flavorPrefix'' TString,
     tagged ''kind'' TString, tagged ''name'' TString, tagged ''publicValues'' (TMap TAny),
     tagged ''removeTime'' TString, tagged ''removed'' TString, tagged ''secretValues'' (TMap TAny),
     tagged ''state'' TString, tagged ''transitioning'' TString, tagged ''transitioningMessage'' TString,
     tagged ''transitioningProgress'' TInt, tagged ''uuid'' TString]"

definition HostTemplate_client :: typed_client where
  "HostTemplate_client = \<lparr>tc_Type = ''hostTemplate'', tc_Struct = ''HostTemplate'', tc_Fields = HostTemplate_fields,
     tc_Actions = [act ''create'' None ''HostTemplate'', act ''remove'' None ''HostTemplate'']\<rparr>"

definition Identity_fields :: "field list" where
  "Identity_fields = [tagged ''all'' TString, tagged ''externalId'' TString, tagged ''externalIdType'' TString,
     tagged ''login'' TString, tagged ''name'' TString, tagged ''profilePicture'' TString,
     tagged ''profileUrl'' TString, tagged ''projectId'' TString, tagged ''role'' TString, tagged ''user'' TBool]"

definition Identity_client :: typed_client where
  "Identity_client = \<lparr>tc_Type = ''identity'', tc_Struct = ''Identity'', tc_Fields = Identity_fields,
     tc_Actions = []\<rparr>"

definition Image_fields :: "field list" where
  "Image_fields = [tagged ''accountId'' TString, tagged ''created'' TString, tagged ''data'' (TMap TAny),
     tagged ''description'' TString, tagged ''kind'' TString, tagged ''name'' TString,
     tagged ''removeTime'' TString, tagged ''removed'' TString, tagged ''state'' TString,
     tagged ''transitioning'' TString, tagged ''transitioningMessage'' TString,
     tagged ''transitioningProgress'' TInt, tagged ''uuid'' TString]"

definition Image_client :: typed_client where
  "Image_client = \<lparr>tc_Type = ''image'', tc_Struct = ''Image'', tc_Fields = Image_fields,
     tc_Actions = [act ''activate'' None ''Image'', act ''create'' None ''Image'', act ''deactivate'' None ''Image'',
       act ''purge'' None ''Image'', act ''remove'' None ''Image'', act ''update'' None ''Image'']\<rparr>"

definition InServiceUpgradeStrategy_fields :: "field list" where
  "InServiceUpgradeStrategy_fields = [tagged ''batchSize'' TInt, tagged ''intervalMillis'' TInt,
     tagged ''launchConfig'' (TPtr (TStruct ''LaunchConfig'')),
     tagged ''previousLaunchConfig'' (TPtr (TStruct ''LaunchConfig'')),
     tagged ''previousSecondaryLaunchConfigs'' (TSlice (TStruct ''SecondaryLaunchConfig'')),
     tagged ''secondaryLaunchConfigs'' (TSlice (TStruct ''SecondaryLaunchConfig'')), tagged ''startFirst'' TBool]"

definition InServiceUpgradeStrategy_client :: typed_client where
  "InServiceUpgradeStrategy_client = \<lparr>tc_Type = ''inServiceUpgradeStrategy'', tc_Struct = ''InServiceUpgradeStrategy'', tc_Fields = InServiceUpgradeStrategy_fields,
     tc_Actions = []\<rparr>"

definition Instance_fields :: "field list" where
  "Instance_fields = [tagged ''accountId'' TString, tagged ''created'' TString, tagged ''data'' (TMap TAny),
     tagged ''description'' TString, tagged ''externalId'' TString, tagged ''hostId'' TString,
     tagged ''kind'' TString, tagged ''name'' TString, tagged ''removeTime'' TString,
     tagged ''removed'' TString, tagged ''state'' TString, tagged ''transitioning'' TString,
     tagged ''transitioningMessage'' TString, tagged ''transitioningProgress'' TInt, tagged ''uuid'' TString]"

definition Instance_client :: typed_client where
  "Instance_client = \<lparr>tc_Type = ''instance'', tc_Struct = ''Instance'', tc_Fields = Instance_fields,
     tc_Actions = [act ''allocate'' None ''Instance'', act ''console'' (Some ''InstanceConsoleInput'') ''InstanceConsole'',
       act ''create'' None ''Instance'', act ''deallocate'' None ''Instance'', act ''error'' None ''Instance'',
       act ''migrate'' None ''Instance'', act ''purge'' None ''Instance'', act ''remove'' None ''Instance'',
       act ''restart'' None ''Instance'', act ''start'' None ''Instance'',
       act ''stop'' (Some ''InstanceStop'') ''Instance'', act ''update'' None ''Instance'',
       act ''updatehealthy'' None ''Instance'', act ''updatereinitializing'' None ''Instance'',
       act ''updateunhealthy'' None ''Instance'']\<rparr>"

definition InstanceConsole_fields :: "field list" where
  "InstanceConsole_fields = [tagged ''kind'' TString, tagged ''password'' TString, tagged ''url'' TString]"

definition InstanceConsole_client :: typed_client where
  "InstanceConsole_client = \<lparr>tc_Type = ''instanceConsole'', tc_Struct = ''InstanceConsole'', tc_Fields = InstanceConsole_fields,
     tc_Actions = []\<rparr>"

definition InstanceConsoleInput_fields :: "field list" where
  "InstanceConsoleInput_fields = []"

definition InstanceConsoleInput_client :: typed_client where
  "InstanceConsoleInput_client = \<lparr>tc_Type = ''instanceConsoleInput'', tc_Struct = ''InstanceConsoleInput'', tc_Fields = InstanceConsoleInput_fields,
     tc_Actions = []\<rparr>"

definition InstanceHealthCheck_fields :: "field list" where
  "InstanceHealthCheck_fields = [tagged ''healthyThreshold'' TInt, tagged ''initializingTimeout'' TInt, tagged ''interval'' TInt,
     tagged ''name'' TString, tagged ''port'' TInt,
     tagged ''recreateOnQuorumStrategyConfig'' (TPtr (TStruct ''RecreateOnQuorumStrategyConfig'')),
     tagged ''reinitializingTimeout'' TInt, tagged ''requestLine'' TString, tagged ''responseTimeout'' TInt,
     tagged ''strategy'' TString, tagged ''unhealthyThreshold'' TInt]"

definition InstanceHealthCheck_client :: typed_client where
  "InstanceHealthCheck_client = \<lparr>tc_Type = ''instanceHealthCheck'', tc_Struct = ''InstanceHealthCheck'', tc_Fields = InstanceHealthCheck_fields,
     tc_Actions = []\<rparr>"

definition InstanceLink_fields :: "field list" where
  "InstanceLink_fields = [tagged ''accountId'' TString, tagged ''created'' TString, tagged ''data'' (TMap TAny),
     tagged ''description'' TString, tagged ''instanceId'' TString, tagged ''kind'' TString,
     tagged ''linkName'' TString, tagged ''name'' TString, tagged ''ports'' (TSlice TAny),
     tagged ''removeTime'' TString, tagged ''removed'' TString, tagged ''state'' TString,
     tagged ''targetInstanceId'' TString, tagged ''transitioning'' TString,
     tagged ''transitioningMessage'' TString, tagged ''transitioningProgress'' TInt, tagged ''uuid'' TString]"

definition InstanceLink_client :: typed_client where
  "InstanceLink_client = \<lparr>tc_Type = ''instanceLink'', tc_Struct = ''InstanceLink'', tc_Fields = InstanceLink_fields,
     tc_Actions = [act ''activate'' None ''InstanceLink'', act ''create'' None ''InstanceLink'',
       act ''deactivate'' None ''InstanceLink'', act ''purge'' None ''InstanceLink'',
       act ''remove'' None ''InstanceLink'', act ''update'' None ''InstanceLink'']\<rparr>"

definition InstanceStop_fields :: "field list" where
  "InstanceStop_fields = [tagged ''remove'' TBool, tagged ''timeout'' TInt]"

definition InstanceStop_client :: typed_client where
  "InstanceStop_client = \<lparr>tc_Type = ''instanceStop'', tc_Struct = ''InstanceStop'', tc_Fields = InstanceStop_fields,
     tc_Actions = []\<rparr>"

definition IpAddress_fields :: "field list" where
  "IpAddress_fields = [tagged ''accountId'' TString, tagged ''address'' TString, tagged ''created'' TString,
     tagged ''data'' (TMap TAny), tagged ''description'' TString, tagged ''kind'' TString,
     tagged ''name'' TString, tagged ''networkId'' TString, tagged ''removeTime'' TString,
     tagged ''removed'' TString, tagged ''state'' TString, tagged ''transitioning'' TString,
     tagged ''transitioningMessage'' TString, tagged ''transitioningProgress'' TInt, tagged ''uuid'' TString]"

definition IpAddress_client :: typed_client where
  "IpAddress_client = \<lparr>tc_Type = ''ipAddress'', tc_Struct = ''IpAddress'', tc_Fields = IpAddress_fields,
     tc_Actions = [act ''activate'' None ''IpAddress'', act ''associate'' None ''IpAddress'', act ''create'' None ''IpAddress'',
       act ''deactivate'' None ''IpAddress'', act ''disassociate'' None ''IpAddress'',
       act ''purge'' None ''IpAddress'', act ''remove'' None ''IpAddress'', act ''update'' None ''IpAddress'']\<rparr>"

definition KubernetesService_fields :: "field list" where
  "KubernetesService_fields = [tagged ''accountId'' TString, tagged ''created'' TString, tagged ''data'' (TMap TAny),
     tagged ''description'' TString, tagged ''externalId'' TString, tagged ''healthState'' TString,
     tagged ''instanceIds'' (TSlice TString), tagged ''kind'' TString, tagged ''linkedServices'' (TMap TAny),
     tagged ''name'' TString, tagged ''removeTime'' TString, tagged ''removed'' TString,
     tagged ''selectorContainer'' TString, tagged ''stackId'' TString, tagged ''state'' TString,
     tagged ''system'' TBool, tagged ''template'' TAny, tagged ''transitioning'' TString,
     tagged ''transitioningMessage'' TString, tagged ''transitioningProgress'' TInt, tagged ''uuid'' TString,
     tagged ''vip'' TString]"

definition KubernetesService_client :: typed_client where
  "KubernetesService_client = \<lparr>tc_Type = ''kubernetesService'', tc_Struct = ''KubernetesService'', tc_Fields = KubernetesService_fields,
     tc_Actions = [act ''activate'' None ''Service'', act ''addservicelink'' (Some ''AddRemoveServiceLinkInput'') ''Service'',
       act ''cancelupgrade'' None ''Service'', act ''continueupgrade'' None ''Service'',
       act ''create'' None ''Service'', act ''deactivate'' None ''Service'',
       act ''finishupgrade'' None ''Service'', act ''remove'' None ''Service'',
       act ''removeservicelink'' (Some ''AddRemoveServiceLinkInput'') ''Service'',
       act ''restart'' (Some ''ServiceRestart'') ''Service'', act ''rollback'' None ''Service'',
       act ''setservicelinks'' (Some ''SetServiceLinksInput'') ''Service'', act ''update'' None ''Service'',
       act ''upgrade'' (Some ''ServiceUpgrade'') ''Service'']\<rparr>"

definition KubernetesStack_fields :: "field list" where
  "KubernetesStack_fields = [tagged ''accountId'' TString, tagged ''answers'' (TMap TAny), tagged ''binding'' (TPtr (TStruct ''Binding'')),
     tagged ''created'' TString, tagged ''data'' (TMap TAny), tagged ''description'' TString,
     tagged ''environment'' (TMap TAny), tagged ''externalId'' TString, tagged ''group'' TString,
     tagged ''healthState'' TString, tagged ''kind'' TString, tagged ''name'' TString,
     tagged ''namespace'' TString, tagged ''previousEnvironment'' (TMap TAny),
     tagged ''previousExternalId'' TString, tagged ''removeTime'' TString, tagged ''removed'' TString,
     tagged ''serviceIds'' (TSlice TString), tagged ''state'' TString, tagged ''system'' TBool,
     tagged ''templates'' (TMap TAny), tagged ''transitioning'' TString,
     tagged ''transitioningMessage'' TString, tagged ''transitioningProgress'' TInt, tagged ''uuid'' TString]"

definition KubernetesStack_client :: typed_client where
  "KubernetesStack_client = \<lparr>tc_Type = ''kubernetesStack'', tc_Struct = ''KubernetesStack'', tc_Fields = KubernetesStack_fields,
     tc_Actions = [act ''cancelupgrade'' None ''Stack'', act ''create'' None ''Stack'', act ''error'' None ''Stack'',
       act ''finishupgrade'' None ''Stack'', act ''remove'' None ''Stack'', act ''rollback'' None ''Stack'',
       act ''upgrade'' (Some ''KubernetesStackUpgrade'') ''KubernetesStack'']\<rparr>"

definition KubernetesStackUpgrade_fields :: "field list" where
  "KubernetesStackUpgrade_fields = [tagged ''answers'' (TMap TAny), tagged ''environment'' (TMap TAny), tagged ''externalId'' TString,
     tagged ''templates'' (TMap TAny)]"

definition KubernetesStackUpgrade_client :: typed_client where
  "KubernetesStackUpgrade_client = \<lparr>tc_Type = ''kubernetesStackUpgrade'', tc_Struct = ''KubernetesStackUpgrade'', tc_Fields = KubernetesStackUpgrade_fields,
     tc_Actions = []\<rparr>"

definition Label_fields :: "field list" where
  "Label_fields = [tagged ''accountId'' TString, tagged ''created'' TString, tagged ''data'' (TMap TAny),
     tagged ''description'' TString, tagged ''key'' TString, tagged ''kind'' TString, tagged ''name'' TString,
     tagged ''removeTime'' TString, tagged ''removed'' TString, tagged ''state'' TString,
     tagged ''transitioning'' TString, tagged ''transitioningMessage'' TString,
     tagged ''transitioningProgress'' TInt, tagged ''uuid'' TString, tagged ''value'' TString]"

definition Label_client :: typed_client where
  "Label_client = \<lparr>tc_Type = ''label'', tc_Struct = ''Label'', tc_Fields = Label_fields,
     tc_Actions = [act ''create'' None ''Label'', act ''remove'' None ''Label'']\<rparr>"

definition LaunchConfig_fields :: "field list" where
  "LaunchConfig_fields = [tagged ''accountId'' TString, tagged ''agentId'' TString, tagged ''allocationState'' TString,
     tagged ''blkioDeviceOptions'' (TMap TAny), tagged ''blkioWeight'' TInt,
     tagged ''build'' (TPtr (TStruct ''DockerBuild'')), tagged ''capAdd'' (TSlice TString),
     tagged ''capDrop'' (TSlice TString), tagged ''cgroupParent'' TString, tagged ''command'' (TSlice TString),
     tagged ''count'' TInt, tagged ''cpuCount'' TInt, tagged ''cpuPercent'' TInt, tagged ''cpuPeriod'' TInt,
     tagged ''cpuQuota'' TInt, tagged ''cpuRealtimePeriod'' TInt, tagged ''cpuRealtimeRuntime'' TInt,
     tagged ''cpuSet'' TString, tagged ''cpuSetMems'' TString, tagged ''cpuShares'' TInt,
     tagged ''createIndex'' TInt, tagged ''created'' TString, tagged ''data'' (TMap TAny),
     tagged ''dataVolumeMounts'' (TMap TAny), tagged ''dataVolumes'' (TSlice TString),
     tagged ''dataVolumesFrom'' (TSlice TString), tagged ''dataVolumesFromLaunchConfigs'' (TSlice TString),
     tagged ''deploymentUnitUuid'' TString, tagged ''description'' TString, tagged ''devices'' (TSlice TString),
     tagged ''diskQuota'' TInt, tagged ''disks'' (TSlice (TStruct ''VirtualMachineDisk'')),
     tagged ''dns'' (TSlice TString), tagged ''dnsOpt'' (TSlice TString), tagged ''dnsSearch'' (TSlice TString),
     tagged ''domainName'' TString, tagged ''drainTimeoutMs'' TInt, tagged ''entryPoint'' (TSlice TString),
     tagged ''environment'' (TMap TAny), tagged ''expose'' (TSlice TString), tagged ''externalId'' TString,
     tagged ''extraHosts'' (TSlice TString), tagged ''firstRunning'' TString,
     tagged ''groupAdd'' (TSlice TString), tagged ''healthCheck'' (TPtr (TStruct ''InstanceHealthCheck'')),
     tagged ''healthCmd'' (TSlice TString), tagged ''healthInterval'' TInt, tagged ''healthRetries'' TInt,
     tagged ''healthState'' TString, tagged ''healthTimeout'' TInt, tagged ''hostId'' TString,
     tagged ''hostname'' TString, tagged ''imageUuid'' TString, tagged ''instanceLinks'' (TMap TAny),
     tagged ''instanceTriggeredStop'' TString, tagged ''ioMaximumBandwidth'' TInt,
     tagged ''ioMaximumIOps'' TInt, tagged ''ip'' TString, tagged ''ip6'' TString, tagged ''ipcMode'' TString,
     tagged ''isolation'' TString, tagged ''kernelMemory'' TInt, tagged ''kind'' TString,
     tagged ''labels'' (TMap TAny), tagged ''logConfig'' (TPtr (TStruct ''LogConfig'')),
     tagged ''lxcConf'' (TMap TAny), tagged ''memory'' TInt, tagged ''memoryMb'' TInt,
     tagged ''memoryReservation'' TInt, tagged ''memorySwap'' TInt, tagged ''memorySwappiness'' TInt,
     tagged ''milliCpuReservation'' TInt, tagged ''mounts'' (TSlice (TStruct ''MountEntry'')),
     tagged ''nativeContainer'' TBool, tagged ''netAlias'' (TSlice TString),
     tagged ''networkContainerId'' TString, tagged ''networkIds'' (TSlice TString),
     tagged ''networkLaunchConfig'' TString, tagged ''networkMode'' TString, tagged ''oomKillDisable'' TBool,
     tagged ''oomScoreAdj'' TInt, tagged ''pidMode'' TString, tagged ''pidsLimit'' TInt,
     tagged ''ports'' (TSlice TString), tagged ''primaryIpAddress'' TString,
     tagged ''primaryNetworkId'' TString, tagged ''privileged'' TBool, tagged ''publishAllPorts'' TBool,
     tagged ''readOnly'' TBool, tagged ''registryCredentialId'' TString, tagged ''removeTime'' TString,
     tagged ''removed'' TString, tagged ''requestedHostId'' TString, tagged ''requestedIpAddress'' TString,
     tagged ''runInit'' TBool, tagged ''secrets'' (TSlice (TStruct ''SecretReference'')),
     tagged ''securityOpt'' (TSlice TString), tagged ''serviceId'' TString,
     tagged ''serviceIds'' (TSlice TString), tagged ''shmSize'' TInt, tagged ''stackId'' TString,
     tagged ''startCount'' TInt, tagged ''startOnCreate'' TBool, tagged ''state'' TString,
     tagged ''stdinOpen'' TBool, tagged ''stopSignal'' TString, tagged ''stopTimeout'' TInt,
     tagged ''storageOpt'' (TMap TAny), tagged ''sysctls'' (TMap TAny), tagged ''system'' TBool,
     tagged ''tmpfs'' (TMap TAny), tagged ''token'' TString, tagged ''transitioning'' TString,
     tagged ''transitioningMessage'' TString, tagged ''transitioningProgress'' TInt, tagged ''tty'' TBool,
     tagged ''ulimits'' (TSlice (TStruct ''Ulimit'')), tagged ''user'' TString,
     tagged ''userPorts'' (TSlice TString), tagged ''userdata'' TString, tagged ''usernsMode'' TString,
     tagged ''uts'' TString, tagged ''uuid'' TString, tagged ''vcpu'' TInt, tagged ''version'' TString,
     tagged ''volumeDriver'' TString, tagged ''workingDir'' TString]"

definition LaunchConfig_client :: typed_client where
  "LaunchConfig_client = \<lparr>tc_Type = ''launchConfig'', tc_Struct = ''LaunchConfig'', tc_Fields = LaunchConfig_fields,
     tc_Actions = [act ''allocate'' None ''Instance'', act ''console'' (Some ''InstanceConsoleInput'') ''InstanceConsole'',
       act ''create'' None ''Instance'', act ''deallocate'' None ''Instance'', act ''error'' None ''Instance'',
       act ''execute'' (Some ''ContainerExec'') ''HostAccess'', act ''migrate'' None ''Instance'',
       act ''proxy'' (Some ''ContainerProxy'') ''HostAccess'', act ''purge'' None ''Instance'',
       act ''remove'' None ''Instance'', act ''restart'' None ''Instance'', act ''start'' None ''Instance'',
       act ''stop'' (Some ''InstanceStop'') ''Instance'', act ''update'' None ''Instance'',
       act ''updatehealthy'' None ''Instance'', act ''updatereinitializing'' None ''Instance'',
       act ''updateunhealthy'' None ''Instance'']\<rparr>"

definition LbConfig_fields :: "field list" where
  "LbConfig_fields = [tagged ''certificateIds'' (TSlice TString), tagged ''config'' TString, tagged ''defaultCertificateId'' TString,
     tagged ''portRules'' (TSlice (TStruct ''PortRule'')),
     tagged ''stickinessPolicy'' (TPtr (TStruct ''LoadBalancerCookieStickinessPolicy''))]"

definition LbConfig_client :: typed_client where
  "LbConfig_client = \<lparr>tc_Type = ''lbConfig'', tc_Struct = ''LbConfig'', tc_Fields = LbConfig_fields,
     tc_Actions = []\<rparr>"

definition LbTargetConfig_fields :: "field list" where
  "LbTargetConfig_fields = [tagged ''portRules'' (TSlice (TStruct ''TargetPortRule''))]"

definition LbTargetConfig_client :: typed_client where
  "LbTargetConfig_client = \<lparr>tc_Type = ''lbTargetConfig'', tc_Struct = ''LbTargetConfig'', tc_Fields = LbTargetConfig_fields,
     tc_Actions = []\<rparr>"

definition LoadBalancerCookieStickinessPolicy_fields :: "field list" where
  "LoadBalancerCookieStickinessPolicy_fields = [tagged ''cookie'' TString, tagged ''domain'' TString, tagged ''indirect'' TBool, tagged ''mode'' TString,
     tagged ''name'' TString, tagged ''nocache'' TBool, tagged ''postonly'' TBool]"

definition LoadBalancerCookieStickinessPolicy_client :: typed_client where
  "LoadBalancerCookieStickinessPolicy_client = \<lparr>tc_Type = ''loadBalancerCookieStickinessPolicy'', tc_Struct = ''LoadBalancerCookieStickinessPolicy'', tc_Fields = LoadBalancerCookieStickinessPolicy_fields,
     tc_Actions = []\<rparr>"

definition LoadBalancerService_fields :: "field list" where
  "LoadBalancerService_fields = [tagged ''accountId'' TString, tagged ''assignServiceIpAddress'' TBool, tagged ''created'' TString,
     tagged ''currentScale'' TInt, tagged ''data'' (TMap TAny), tagged ''description'' TString,
     tagged ''externalId'' TString, tagged ''fqdn'' TString, tagged ''healthState'' TString,
     tagged ''instanceIds'' (TSlice TString), tagged ''kind'' TString,
     tagged ''launchConfig'' (TPtr (TStruct ''LaunchConfig'')),
     tagged ''lbConfig'' (TPtr (TStruct ''LbConfig'')), tagged ''linkedServices'' (TMap TAny),
     tagged ''metadata'' (TMap TAny), tagged ''name'' TString,
     tagged ''publicEndpoints'' (TSlice (TStruct ''PublicEndpoint'')), tagged ''removeTime'' TString,
     tagged ''removed'' TString, tagged ''retainIp'' TBool, tagged ''scale'' TInt,
     tagged ''scalePolicy'' (TPtr (TStruct ''ScalePolicy'')), tagged ''selectorLink'' TString,
     tagged ''stackId'' TString, tagged ''startOnCreate'' TBool, tagged ''state'' TString,
     tagged ''system'' TBool, tagged ''transitioning'' TString, tagged ''transitioningMessage'' TString,
     tagged ''transitioningProgress'' TInt, tagged ''upgrade'' (TPtr (TStruct ''ServiceUpgrade'')),
     tagged ''uuid'' TString, tagged ''vip'' TString]"

definition LoadBalancerService_client :: typed_client where
  "LoadBalancerService_client = \<lparr>tc_Type = ''loadBalancerService'', tc_Struct = ''LoadBalancerService'', tc_Fields = LoadBalancerService_fields,
     tc_Actions = [act ''activate'' None ''Service'', act ''addservicelink'' (Some ''AddRemoveServiceLinkInput'') ''Service'',
       act ''cancelupgrade'' None ''Service'', act ''continueupgrade'' None ''Service'',
       act ''create'' None ''Service'', act ''deactivate'' None ''Service'',
       act ''finishupgrade'' None ''Service'', act ''remove'' None ''Service'',
       act ''removeservicelink'' (Some ''AddRemoveServiceLinkInput'') ''Service'',
       act ''restart'' (Some ''ServiceRestart'') ''Service'', act ''rollback'' None ''Service'',
       act ''setservicelinks'' (Some ''SetServiceLinksInput'') ''Service'', act ''update'' None ''Service'',
       act ''upgrade'' (Some ''ServiceUpgrade'') ''Service'']\<rparr>"

definition LocalAuthConfig_fields :: "field list" where
  "LocalAuthConfig_fields = [tagged ''accessMode'' TString, tagged ''enabled'' TBool, tagged ''name'' TString, tagged ''password'' TString,
     tagged ''username'' TString]"

definition LocalAuthConfig_client :: typed_client where
  "LocalAuthConfig_client = \<lparr>tc_Type = ''localAuthConfig'', tc_Struct = ''LocalAuthConfig'', tc_Fields = LocalAuthConfig_fields,
     tc_Actions = []\<rparr>"

definition LogConfig_fields :: "field list" where
  "LogConfig_fields = [tagged ''config'' (TMap TAny), tagged ''driver'' TString]"

definition LogConfig_client :: typed_client where
  "LogConfig_client = \<lparr>tc_Type = ''logConfig'', tc_Struct = ''LogConfig'', tc_Fields = LogConfig_fields,
     tc_Actions = []\<rparr>"

definition E_L_clients :: "typed_client list" where
  "E_L_clients = [ExtensionImplementation_client, ExtensionPoint_client, ExternalDnsEvent_client, ExternalEvent_client,
     ExternalHandler_client, ExternalHandlerExternalHandlerProcessMap_client, ExternalHandlerProcess_client,
     ExternalHandlerProcessConfig_client, ExternalHostEvent_client, ExternalService_client,
     ExternalServiceEvent_client, ExternalStoragePoolEvent_client, ExternalVolumeEvent_client,
     FieldDocumentation_client, GenericObject_client, HaConfig_client, HaConfigInput_client,
     HealthcheckInstanceHostMap_client, Host_client, HostAccess_client, HostApiProxyToken_client,
     HostTemplate_client, Identity_client, Image_client, InServiceUpgradeStrategy_client, Instance_client,
     InstanceConsole_client, InstanceConsoleInput_client, InstanceHealthCheck_client, InstanceLink_client,
     InstanceStop_client, IpAddress_client, KubernetesService_client, KubernetesStack_client,
     KubernetesStackUpgrade_client, Label_client, LaunchConfig_client, LbConfig_client, LbTargetConfig_client,
     LoadBalancerCookieStickinessPolicy_client, LoadBalancerService_client, LocalAuthConfig_client,
     LogConfig_client]"

lemmas E_L_client_defs =
  ExtensionImplementation_client_def ExtensionPoint_client_def ExternalDnsEvent_client_def
  ExternalEvent_client_def ExternalHandler_client_def ExternalHandlerExternalHandlerProcessMap_client_def
  ExternalHandlerProcess_client_def ExternalHandlerProcessConfig_client_def ExternalHostEvent_client_def
  ExternalService_client_def ExternalServiceEvent_client_def ExternalStoragePoolEvent_client_def
  ExternalVolumeEvent_client_def FieldDocumentation_client_def GenericObject_client_def HaConfig_client_def
  HaConfigInput_client_def HealthcheckInstanceHostMap_client_def Host_client_def HostAccess_client_def
  HostApiProxyToken_client_def HostTemplate_client_def Identity_client_def Image_client_def
  InServiceUpgradeStrategy_client_def Instance_client_def InstanceConsole_client_def
  InstanceConsoleInput_client_def InstanceHealthCheck_client_def InstanceLink_client_def InstanceStop_client_def
  IpAddress_client_def KubernetesService_client_def KubernetesStack_client_def KubernetesStackUpgrade_client_def
  Label_client_def LaunchConfig_client_def LbConfig_client_def LbTargetConfig_client_def
  LoadBalancerCookieStickinessPolicy_client_def LoadBalancerService_client_def LocalAuthConfig_client_def
  LogConfig_client_def

lemmas E_L_field_defs =
  ExtensionImplementation_fields_def ExtensionPoint_fields_def ExternalDnsEvent_fields_def
  ExternalEvent_fields_def ExternalHandler_fields_def ExternalHandlerExternalHandlerProcessMap_fields_def
  ExternalHandlerProcess_fields_def ExternalHandlerProcessConfig_fields_def ExternalHostEvent_fields_def
  ExternalService_fields_def ExternalServiceEvent_fields_def ExternalStoragePoolEvent_fields_def
  ExternalVolumeEvent_fields_def FieldDocumentation_fields_def GenericObject_fields_def HaConfig_fields_def
  HaConfigInput_fields_def HealthcheckInstanceHostMap_fields_def Host_fields_def HostAccess_fields_def
  HostApiProxyToken_fields_def HostTemplate_fields_def Identity_fields_def Image_fields_def
  InServiceUpgradeStrategy_fields_def Instance_fields_def InstanceConsole_fields_def
  InstanceConsoleInput_fields_def InstanceHealthCheck_fields_def InstanceLink_fields_def InstanceStop_fields_def
  IpAddress_fields_def KubernetesService_fields_def KubernetesStack_fields_def KubernetesStackUpgrade_fields_def
  Label_fields_def LaunchConfig_fields_def LbConfig_fields_def LbTargetConfig_fields_def
  LoadBalancerCookieStickinessPolicy_fields_def LoadBalancerService_fields_def LocalAuthConfig_fields_def
  LogConfig_fields_def

lemma E_L_names:
  "map tc_Struct E_L_clients = [''ExtensionImplementation'', ''ExtensionPoint'', ''ExternalDnsEvent'', ''ExternalEvent'', ''ExternalHandler'',
     ''ExternalHandlerExternalHandlerProcessMap'', ''ExternalHandlerProcess'', ''ExternalHandlerProcessConfig'',
     ''ExternalHostEvent'', ''ExternalService'', ''ExternalServiceEvent'', ''ExternalStoragePoolEvent'',
     ''ExternalVolumeEvent'', ''FieldDocumentation'', ''GenericObject'', ''HaConfig'', ''HaConfigInput'',
     ''HealthcheckInstanceHostMap'', ''Host'', ''HostAccess'', ''HostApiProxyToken'', ''HostTemplate'',
     ''Identity'', ''Image'', ''InServiceUpgradeStrategy'', ''Instance'', ''InstanceConsole'',
     ''InstanceConsoleInput'', ''InstanceHealthCheck'', ''InstanceLink'', ''InstanceStop'', ''IpAddress'',
     ''KubernetesService'', ''KubernetesStack'', ''KubernetesStackUpgrade'', ''Label'', ''LaunchConfig'',
     ''LbConfig'', ''LbTargetConfig'', ''LoadBalancerCookieStickinessPolicy'', ''LoadBalancerService'',
     ''LocalAuthConfig'', ''LogConfig'']"
  by (simp add: E_L_clients_def E_L_client_defs)

lemma E_L_names_ok: "list_all names_ok E_L_clients"
  by (simp add: E_L_clients_def E_L_client_defs E_L_field_defs names_ok_def less_char_def)

end
