(* ===== verification/Api_Types_M_R.thy ===== *)
theory Api_Types_M_R
  imports Api_Struct
begin

text \<open>
  The resource types of \<open>internal/rancherclient/v2/generated_machine.go\<close> to \<open>generated_rolling_restart_strategy.go\<close>: for each
  the fields of its struct after the embedded \<open>Resource\<close>, and its client.
\<close>

definition Machine_fields :: "field list" where
  "Machine_fields = [tagged ''accountId'' TString, tagged ''amazonec2Config'' (TPtr (TStruct ''Amazonec2Config'')),
     tagged ''authCertificateAuthority'' TString, tagged ''authKey'' TString,
     tagged ''azureConfig'' (TPtr (TStruct ''AzureConfig'')), tagged ''created'' TString,
     tagged ''data'' (TMap TAny), tagged ''description'' TString,
     tagged ''digitaloceanConfig'' (TPtr (TStruct ''DigitaloceanConfig'')), tagged ''dockerVersion'' TString,
     tagged ''driver'' TString, tagged ''engineEnv'' (TMap TAny),
     tagged ''engineInsecureRegistry'' (TSlice TString), tagged ''engineInstallUrl'' TString,
     tagged ''engineLabel'' (TMap TAny), tagged ''engineOpt'' (TMap TAny),
     tagged ''engineRegistryMirror'' (TSlice TString), tagged ''engineStorageDriver'' TString,
     tagged ''externalId'' TString, tagged ''hostTemplateId'' TString, tagged ''kind'' TString,
     tagged ''labels'' (TMap TAny), tagged ''name'' TString,
     tagged ''packetConfig'' (TPtr (TStruct ''PacketConfig'')), tagged ''removeTime'' TString,
     tagged ''removed'' TString, tagged ''state'' TString, tagged ''transitioning'' TString,
     tagged ''transitioningMessage'' TString, tagged ''transitioningProgress'' TInt, tagged ''uuid'' TString]"

definition Machine_client :: typed_client where
  "Machine_client = \<lparr>tc_Type = ''machine'', tc_Struct = ''Machine'', tc_Fields = Machine_fields,
     tc_Actions = [act ''bootstrap'' None ''PhysicalHost'', act ''create'' None ''PhysicalHost'',
       act ''error'' None ''PhysicalHost'', act ''remove'' None ''PhysicalHost'',
       act ''update'' None ''PhysicalHost'']\<rparr>"

definition MachineDriver_fields :: "field list" where
  "MachineDriver_fields = [tagged ''activateOnCreate'' TBool, tagged ''builtin'' TBool, tagged ''checksum'' TString,
     tagged ''created'' TString, tagged ''data'' (TMap TAny), tagged ''defaultActive'' TBool,
     tagged ''description'' TString, tagged ''externalId'' TString, tagged ''kind'' TString,
     tagged ''name'' TString, tagged ''removeTime'' TString, tagged ''removed'' TString,
     tagged ''state'' TString, tagged ''transitioning'' TString, tagged ''transitioningMessage'' TString,
     tagged ''transitioningProgress'' TInt, tagged ''uiUrl'' TString, tagged ''url'' TString,
     tagged ''uuid'' TString]"

definition MachineDriver_client :: typed_client where
  "MachineDriver_client = \<lparr>tc_Type = ''machineDriver'', tc_Struct = ''MachineDriver'', tc_Fields = MachineDriver_fields,
     tc_Actions = [act ''activate'' None ''MachineDriver'', act ''create'' None ''MachineDriver'',
       act ''deactivate'' None ''MachineDriver'', act ''error'' None ''MachineDriver'',
       act ''reactivate'' None ''MachineDriver'', act ''remove'' None ''MachineDriver'',
       act ''update'' None ''MachineDriver'']\<rparr>"

definition Mount_fields :: "field list" where
  "Mount_fields = [tagged ''accountId'' TString, tagged ''created'' TString, tagged ''data'' (TMap TAny),
     tagged ''description'' TString, tagged ''instanceId'' TString, tagged ''kind'' TString,
     tagged ''name'' TString, tagged ''path'' TString, tagged ''permissions'' TString,
     tagged ''removeTime'' TString, tagged ''removed'' TString, tagged ''state'' TString,
     tagged ''transitioning'' TString, tagged ''transitioningMessage'' TString,
     tagged ''transitioningProgress'' TInt, tagged ''uuid'' TString, tagged ''volumeId'' TString]"

definition Mount_client :: typed_client where
  "Mount_client = \<lparr>tc_Type = ''mount'', tc_Struct = ''Mount'', tc_Fields = Mount_fields,
     tc_Actions = [act ''create'' None ''Mount'', act ''deactivate'' None ''Mount'', act ''remove'' None ''Mount'']\<rparr>"

definition MountEntry_fields :: "field list" where
  "MountEntry_fields = [tagged ''instanceId'' TString, tagged ''instanceName'' TString, tagged ''path'' TString,
     tagged ''volumeId'' TString, tagged ''volumeName'' TString]"

definition MountEntry_client :: typed_client where
  "MountEntry_client = \<lparr>tc_Type = ''mountEntry'', tc_Struct = ''MountEntry'', tc_Fields = MountEntry_fields,
     tc_Actions = []\<rparr>"

definition Network_fields :: "field list" where
  "Network_fields = [tagged ''accountId'' TString, tagged ''created'' TString, tagged ''data'' (TMap TAny),
     tagged ''defaultPolicyAction'' TString, tagged ''description'' TString, tagged ''dns'' (TSlice TString),
     tagged ''dnsSearch'' (TSlice TString), tagged ''hostPorts'' TBool, tagged ''kind'' TString,
     tagged ''metadata'' (TMap TAny), tagged ''name'' TString, tagged ''networkDriverId'' TString,
     tagged ''policy'' (TSlice (TStruct ''NetworkPolicyRule'')), tagged ''removeTime'' TString,
     tagged ''removed'' TString, tagged ''state'' TString, tagged ''subnets'' (TSlice (TStruct ''Subnet'')),
     tagged ''transitioning'' TString, tagged ''transitioningMessage'' TString,
     tagged ''transitioningProgress'' TInt, tagged ''uuid'' TString]"

definition Network_client :: typed_client where
  "Network_client = \<lparr>tc_Type = ''network'', tc_Struct = ''Network'', tc_Fields = Network_fields,
     tc_Actions = [act ''activate'' None ''Network'', act ''create'' None ''Network'', act ''deactivate'' None ''Network'',
       act ''purge'' None ''Network'', act ''remove'' None ''Network'', act ''update'' None ''Network'']\<rparr>"

definition NetworkDriver_fields :: "field list" where
  "NetworkDriver_fields = [tagged ''accountId'' TString, tagged ''cniConfig'' (TMap TAny), tagged ''created'' TString,
     tagged ''data'' (TMap TAny), tagged ''defaultNetwork'' (TStruct ''DefaultNetwork''),
     tagged ''description'' TString, tagged ''kind'' TString, tagged ''name'' TString,
     tagged ''networkMetadata'' (TMap TAny), tagged ''removeTime'' TString, tagged ''removed'' TString,
     tagged ''serviceId'' TString, tagged ''state'' TString, tagged ''transitioning'' TString,
     tagged ''transitioningMessage'' TString, tagged ''transitioningProgress'' TInt, tagged ''uuid'' TString]"

definition NetworkDriver_client :: typed_client where
  "NetworkDriver_client = \<lparr>tc_Type = ''networkDriver'', tc_Struct = ''NetworkDriver'', tc_Fields = NetworkDriver_fields,
     tc_Actions = [act ''activate'' None ''NetworkDriver'', act ''create'' None ''NetworkDriver'',
       act ''deactivate'' None ''NetworkDriver'', act ''remove'' None ''NetworkDriver'',
       act ''update'' None ''NetworkDriver'']\<rparr>"

definition NetworkDriverService_fields :: "field list" where
  "NetworkDriverService_fields = [tagged ''accountId'' TString, tagged ''assignServiceIpAddress'' TBool, tagged ''createIndex'' TInt,
     tagged ''created'' TString, tagged ''currentScale'' TInt, tagged ''data'' (TMap TAny),
     tagged ''description'' TString, tagged ''externalId'' TString, tagged ''fqdn'' TString,
     tagged ''healthState'' TString, tagged ''instanceIds'' (TSlice TString), tagged ''kind'' TString,
     tagged ''launchConfig'' (TPtr (TStruct ''LaunchConfig'')),
     tagged ''lbConfig'' (TPtr (TStruct ''LbTargetConfig'')), tagged ''linkedServices'' (TMap TAny),
     tagged ''metadata'' (TMap TAny), tagged ''name'' TString,
     tagged ''networkDriver'' (TStruct ''NetworkDriver''),
     tagged ''publicEndpoints'' (TSlice (TStruct ''PublicEndpoint'')), tagged ''removeTime'' TString,
     tagged ''removed'' TString, tagged ''retainIp'' TBool, tagged ''scale'' TInt,
     tagged ''scalePolicy'' (TPtr (TStruct ''ScalePolicy'')),
     tagged ''secondaryLaunchConfigs'' (TSlice (TStruct ''SecondaryLaunchConfig'')),
     tagged ''selectorContainer'' TString, tagged ''selectorLink'' TString, tagged ''stackId'' TString,
     tagged ''startOnCreate'' TBool, tagged ''state'' TString, tagged ''system'' TBool,
     tagged ''transitioning'' TString, tagged ''transitioningMessage'' TString,
     tagged ''transitioningProgress'' TInt, tagged ''upgrade'' (TPtr (TStruct ''ServiceUpgrade'')),
     tagged ''uuid'' TString, tagged ''vip'' TString]"

definition NetworkDriverService_client :: typed_client where
  "NetworkDriverService_client = \<lparr>tc_Type = ''networkDriverService'', tc_Struct = ''NetworkDriverService'', tc_Fields = NetworkDriverService_fields,
     tc_Actions = [act ''activate'' None ''Service'', act ''addservicelink'' (Some ''AddRemoveServiceLinkInput'') ''Service'',
       act ''cancelupgrade'' None ''Service'', act ''continueupgrade'' None ''Service'',
       act ''create'' None ''Service'', act ''deactivate'' None ''Service'',
       act ''finishupgrade'' None ''Service'', act ''remove'' None ''Service'',
       act ''removeservicelink'' (Some ''AddRemoveServiceLinkInput'') ''Service'',
       act ''restart'' (Some ''ServiceRestart'') ''Service'', act ''rollback'' None ''Service'',
       act ''setservicelinks'' (Some ''SetServiceLinksInput'') ''Service'', act ''update'' None ''Service'',
       act ''upgrade'' (Some ''ServiceUpgrade'') ''Service'']\<rparr>"

definition NetworkPolicyRule_fields :: "field list" where
  "NetworkPolicyRule_fields = [tagged ''action'' TString, tagged ''between'' (TStruct ''NetworkPolicyRuleBetween''),
     tagged ''from'' (TStruct ''NetworkPolicyRuleMember''), tagged ''ports'' (TSlice TString),
     tagged ''to'' (TStruct ''NetworkPolicyRuleMember''), tagged ''within'' TString]"

definition NetworkPolicyRule_client :: typed_client where
  "NetworkPolicyRule_client = \<lparr>tc_Type = ''networkPolicyRule'', tc_Struct = ''NetworkPolicyRule'', tc_Fields = NetworkPolicyRule_fields,
     tc_Actions = []\<rparr>"

definition NetworkPolicyRuleBetween_fields :: "field list" where
  "NetworkPolicyRuleBetween_fields = [tagged ''groupBy'' TString, tagged ''selector'' TString]"

definition NetworkPolicyRuleBetween_client :: typed_client where
  "NetworkPolicyRuleBetween_client = \<lparr>tc_Type = ''networkPolicyRuleBetween'', tc_Struct = ''NetworkPolicyRuleBetween'', tc_Fields = NetworkPolicyRuleBetween_fields,
     tc_Actions = []\<rparr>"

definition NetworkPolicyRuleMember_fields :: "field list" where
  "NetworkPolicyRuleMember_fields = [tagged ''selector'' TString]"

definition NetworkPolicyRuleMember_client :: typed_client where
  "NetworkPolicyRuleMember_client = \<lparr>tc_Type = ''networkPolicyRuleMember'', tc_Struct = ''NetworkPolicyRuleMember'', tc_Fields = NetworkPolicyRuleMember_fields,
     tc_Actions = []\<rparr>"

definition NetworkPolicyRuleWithin_fields :: "field list" where
  "NetworkPolicyRuleWithin_fields = []"

definition NetworkPolicyRuleWithin_client :: typed_client where
  "NetworkPolicyRuleWithin_client = \<lparr>tc_Type = ''networkPolicyRuleWithin'', tc_Struct = ''NetworkPolicyRuleWithin'', tc_Fields = NetworkPolicyRuleWithin_fields,
     tc_Actions = []\<rparr>"

definition NfsConfig_fields :: "field list" where
  "NfsConfig_fields = [tagged ''mountOptions'' TString, tagged ''server'' TString, tagged ''share'' TString]"

definition NfsConfig_client :: typed_client where
  "NfsConfig_client = \<lparr>tc_Type = ''nfsConfig'', tc_Struct = ''NfsConfig'', tc_Fields = NfsConfig_fields,
     tc_Actions = []\<rparr>"

definition Openldapconfig_fields :: "field list" where
  "Openldapconfig_fields = [tagged ''accessMode'' TString, tagged ''allowedIdentities'' (TSlice (TStruct ''Identity'')),
     tagged ''connectionTimeout'' TInt, tagged ''domain'' TString, tagged ''enabled'' TBool,
     tagged ''groupDNField'' TString, tagged ''groupMemberMappingAttribute'' TString,
     tagged ''groupMemberUserAttribute'' TString, tagged ''groupNameField'' TString,
     tagged ''groupObjectClass'' TString, tagged ''groupSearchDomain'' TString,
     tagged ''groupSearchField'' TString, tagged ''loginDomain'' TString, tagged ''name'' TString,
     tagged ''port'' TInt, tagged ''server'' TString, tagged ''serviceAccountPassword'' TString,
     tagged ''serviceAccountUsername'' TString, tagged ''tls'' TBool, tagged ''userDisabledBitMask'' TInt,
     tagged ''userEnabledAttribute'' TString, tagged ''userLoginField'' TString,
     tagged ''userMemberAttribute'' TString, tagged ''userNameField'' TString,
     tagged ''userObjectClass'' TString, tagged ''userSearchField'' TString]"

definition Openldapconfig_client :: typed_client where
  "Openldapconfig_client = \<lparr>tc_Type = ''openldapconfig'', tc_Struct = ''Openldapconfig'', tc_Fields = Openldapconfig_fields,
     tc_Actions = []\<rparr>"

definition PacketConfig_fields :: "field list" where
  "PacketConfig_fields = [tagged ''apiKey'' TString, tagged ''billingCycle'' TString, tagged ''facilityCode'' TString,
     tagged ''os'' TString, tagged ''plan'' TString, tagged ''projectId'' TString]"

definition PacketConfig_client :: typed_client where
  "PacketConfig_client = \<lparr>tc_Type = ''packetConfig'', tc_Struct = ''PacketConfig'', tc_Fields = PacketConfig_fields,
     tc_Actions = []\<rparr>"

definition Password_fields :: "field list" where
  "Password_fields = [tagged ''accountId'' TString, tagged ''created'' TString, tagged ''data'' (TMap TAny),
     tagged ''description'' TString, tagged ''kind'' TString, tagged ''name'' TString,
     tagged ''publicValue'' TString, tagged ''removeTime'' TString, tagged ''removed'' TString,
     tagged ''secretValue'' TString, tagged ''state'' TString, tagged ''transitioning'' TString,
     tagged ''transitioningMessage'' TString, tagged ''transitioningProgress'' TInt, tagged ''uuid'' TString]"

definition Password_client :: typed_client where
  "Password_client = \<lparr>tc_Type = ''password'', tc_Struct = ''Password'', tc_Fields = Password_fields,
     tc_Actions = [act ''activate'' None ''Credential'', act ''changesecret'' (Some ''ChangeSecretInput'') ''ChangeSecretInput'',
       act ''create'' None ''Credential'', act ''deactivate'' None ''Credential'',
       act ''purge'' None ''Credential'', act ''remove'' None ''Credential'', act ''update'' None ''Credential'']\<rparr>"

definition PhysicalHost_fields :: "field list" where
  "PhysicalHost_fields = [tagged ''accountId'' TString, tagged ''created'' TString, tagged ''data'' (TMap TAny),
     tagged ''description'' TString, tagged ''driver'' TString, tagged ''externalId'' TString,
     tagged ''kind'' TString, tagged ''name'' TString, tagged ''removeTime'' TString,
     tagged ''removed'' TString, tagged ''state'' TString, tagged ''transitioning'' TString,
     tagged ''transitioningMessage'' TString, tagged ''transitioningProgress'' TInt, tagged ''uuid'' TString]"

definition PhysicalHost_client :: typed_client where
  "PhysicalHost_client = \<lparr>tc_Type = ''physicalHost'', tc_Struct = ''PhysicalHost'', tc_Fields = PhysicalHost_fields,
     tc_Actions = [act ''bootstrap'' None ''PhysicalHost'', act ''create'' None ''PhysicalHost'',
       act ''error'' None ''PhysicalHost'', act ''remove'' None ''PhysicalHost'',
       act ''update'' None ''PhysicalHost'']\<rparr>"

definition Port_fields :: "field list" where
  "Port_fields = [tagged ''accountId'' TString, tagged ''bindAddress'' TString, tagged ''created'' TString,
     tagged ''data'' (TMap TAny), tagged ''description'' TString, tagged ''instanceId'' TString,
     tagged ''kind'' TString, tagged ''name'' TString, tagged ''privateIpAddressId'' TString,
     tagged ''privatePort'' TInt, tagged ''protocol'' TString, tagged ''publicIpAddressId'' TString,
     tagged ''publicPort'' TInt, tagged ''removeTime'' TString, tagged ''removed'' TString,
     tagged ''state'' TString, tagged ''transitioning'' TString, tagged ''transitioningMessage'' TString,
     tagged ''transitioningProgress'' TInt, tagged ''uuid'' TString]"

definition Port_client :: typed_client where
  "Port_client = \<lparr>tc_Type = ''port'', tc_Struct = ''Port'', tc_Fields = Port_fields,
     tc_Actions = [act ''activate'' None ''Port'', act ''create'' None ''Port'', act ''deactivate'' None ''Port'',
       act ''purge'' None ''Port'', act ''remove'' None ''Port'', act ''update'' None ''Port'']\<rparr>"

definition PortRule_fields :: "field list" where
  "PortRule_fields = [tagged ''backendName'' TString, tagged ''environment'' TString, tagged ''hostname'' TString,
     tagged ''path'' TString, tagged ''priority'' TInt, tagged ''protocol'' TString, tagged ''region'' TString,
     tagged ''selector'' TString, tagged ''serviceId'' TString, tagged ''sourcePort'' TInt,
     tagged ''targetPort'' TInt, tagged ''weight'' TInt]"

definition PortRule_client :: typed_client where
  "PortRule_client = \<lparr>tc_Type = ''portRule'', tc_Struct = ''PortRule'', tc_Fields = PortRule_fields,
     tc_Actions = []\<rparr>"

definition ProcessDefinition_fields :: "field list" where
  "ProcessDefinition_fields = [tagged ''extensionBased'' TBool, tagged ''name'' TString, tagged ''postProcessListeners'' TAny,
     tagged ''preProcessListeners'' TAny, tagged ''processHandlers'' TAny, tagged ''resourceType'' TString,
     tagged ''stateTransitions'' (TSlice (TStruct ''StateTransition''))]"

definition ProcessDefinition_client :: typed_client where
  "ProcessDefinition_client = \<lparr>tc_Type = ''processDefinition'', tc_Struct = ''ProcessDefinition'', tc_Fields = ProcessDefinition_fields,
     tc_Actions = []\<rparr>"

definition ProcessExecution_fields :: "field list" where
  "ProcessExecution_fields = [tagged ''created'' TString, tagged ''log'' (TMap TAny), tagged ''processInstanceId'' TString,
     tagged ''uuid'' TString]"

definition ProcessExecution_client :: typed_client where
  "ProcessExecution_client = \<lparr>tc_Type = ''processExecution'', tc_Struct = ''ProcessExecution'', tc_Fields = ProcessExecution_fields,
     tc_Actions = []\<rparr>"

definition ProcessInstance_fields :: "field list" where
  "ProcessInstance_fields = [tagged ''accountId'' TString, tagged ''data'' (TMap TAny), tagged ''endTime'' TString,
     tagged ''executionCount'' TInt, tagged ''exitReason'' TString, tagged ''phase'' TString,
     tagged ''priority'' TInt, tagged ''processName'' TString, tagged ''resourceId'' TString,
     tagged ''resourceType'' TString, tagged ''result'' TString, tagged ''runAfter'' TString,
     tagged ''runningProcessServerId'' TString, tagged ''startProcessServerId'' TString,
     tagged ''startTime'' TString]"

definition ProcessInstance_client :: typed_client where
  "ProcessInstance_client = \<lparr>tc_Type = ''processInstance'', tc_Struct = ''ProcessInstance'', tc_Fields = ProcessInstance_fields,
     tc_Actions = [act ''replay'' None ''ProcessInstance'']\<rparr>"

definition ProcessPool_fields :: "field list" where
  "ProcessPool_fields = [tagged ''activeTasks'' TInt, tagged ''completedTasks'' TInt, tagged ''maxPoolSize'' TInt,
     tagged ''minPoolSize'' TInt, tagged ''name'' TString, tagged ''poolSize'' TInt,
     tagged ''queueRemainingCapacity'' TInt, tagged ''queueSize'' TInt, tagged ''rejectedTasks'' TInt]"

definition ProcessPool_client :: typed_client where
  "ProcessPool_client = \<lparr>tc_Type = ''processPool'', tc_Struct = ''ProcessPool'', tc_Fields = ProcessPool_fields,
     tc_Actions = []\<rparr>"

definition ProcessSummary_fields :: "field list" where
  "ProcessSummary_fields = [tagged ''delay'' TInt, tagged ''processName'' TString, tagged ''ready'' TInt, tagged ''running'' TInt]"

definition ProcessSummary_client :: typed_client where
  "ProcessSummary_client = \<lparr>tc_Type = ''processSummary'', tc_Struct = ''ProcessSummary'', tc_Fields = ProcessSummary_fields,
     tc_Actions = []\<rparr>"

definition Project_fields :: "field list" where
  "Project_fields = [tagged ''allowSystemRole'' TBool, tagged ''created'' TString, tagged ''data'' (TMap TAny),
     tagged ''defaultNetworkId'' TString, tagged ''description'' TString, tagged ''healthState'' TString,
     tagged ''hostRemoveDelaySeconds'' TInt, tagged ''kind'' TString,
     tagged ''members'' (TSlice (TStruct ''ProjectMember'')), tagged ''name'' TString,
     tagged ''orchestration'' TString, tagged ''projectLinks'' (TSlice TString),
     tagged ''projectTemplateId'' TString, tagged ''removeTime'' TString, tagged ''removed'' TString,
     tagged ''servicesPortRange'' (TPtr (TStruct ''ServicesPortRange'')), tagged ''state'' TString,
     tagged ''transitioning'' TString, tagged ''transitioningMessage'' TString,
     tagged ''transitioningProgress'' TInt, tagged ''uuid'' TString, tagged ''version'' TString,
     tagged ''virtualMachine'' TBool]"

definition Project_client :: typed_client where
  "Project_client = \<lparr>tc_Type = ''project'', tc_Struct = ''Project'', tc_Fields = Project_fields,
     tc_Actions = [act ''activate'' None ''Account'', act ''create'' None ''Account'', act ''deactivate'' None ''Account'',
       act ''purge'' None ''Account'', act ''remove'' None ''Account'',
       act ''setmembers'' (Some ''SetProjectMembersInput'') ''SetProjectMembersInput'',
       act ''update'' None ''Account'', act ''upgrade'' None ''Account'']\<rparr>"

definition ProjectMember_fields :: "field list" where
  "ProjectMember_fields = [tagged ''created'' TString, tagged ''data'' (TMap TAny), tagged ''description'' TString,
     tagged ''externalId'' TString, tagged ''externalIdType'' TString, tagged ''kind'' TString,
     tagged ''name'' TString, tagged ''projectId'' TString, tagged ''removeTime'' TString,
     tagged ''removed'' TString, tagged ''role'' TString, tagged ''state'' TString,
     tagged ''transitioning'' TString, tagged ''transitioningMessage'' TString,
     tagged ''transitioningProgress'' TInt, tagged ''uuid'' TString]"

definition ProjectMember_client :: typed_client where
  "ProjectMember_client = \<lparr>tc_Type = ''projectMember'', tc_Struct = ''ProjectMember'', tc_Fields = ProjectMember_fields,
     tc_Actions = [act ''activate'' None ''ProjectMember'', act ''create'' None ''ProjectMember'',
       act ''deactivate'' None ''ProjectMember'', act ''purge'' None ''ProjectMember'',
       act ''remove'' None ''ProjectMember'', act ''update'' None ''ProjectMember'']\<rparr>"

definition ProjectTemplate_fields :: "field list" where
  "ProjectTemplate_fields = [tagged ''accountId'' TString, tagged ''created'' TString, tagged ''data'' (TMap TAny),
     tagged ''description'' TString, tagged ''externalId'' TString, tagged ''isPublic'' TBool,
     tagged ''kind'' TString, tagged ''name'' TString, tagged ''removeTime'' TString,
     tagged ''removed'' TString, tagged ''stacks'' (TSlice (TStruct ''CatalogTemplate'')),
     tagged ''state'' TString, tagged ''transitioning'' TString, tagged ''transitioningMessage'' TString,
     tagged ''transitioningProgress'' TInt, tagged ''uuid'' TString]"

definition ProjectTemplate_client :: typed_client where
  "ProjectTemplate_client = \<lparr>tc_Type = ''projectTemplate'', tc_Struct = ''ProjectTemplate'', tc_Fields = ProjectTemplate_fields,
     tc_Actions = [act ''create'' None ''ProjectTemplate'', act ''remove'' None ''ProjectTemplate'']\<rparr>"

definition PublicEndpoint_fields :: "field list" where
  "PublicEndpoint_fields = [tagged ''hostId'' TString, tagged ''instanceId'' TString, tagged ''ipAddress'' TString, tagged ''port'' TInt,
     tagged ''serviceId'' TString]"

definition PublicEndpoint_client :: typed_client where
  "PublicEndpoint_client = \<lparr>tc_Type = ''publicEndpoint'', tc_Struct = ''PublicEndpoint'', tc_Fields = PublicEndpoint_fields,
     tc_Actions = []\<rparr>"

definition Publish_fields :: "field list" where
  "Publish_fields = [tagged ''data'' (TMap TAny), tagged ''name'' TString, tagged ''previousIds'' (TSlice TString),
     tagged ''publisher'' TString, tagged ''resourceId'' TString, tagged ''resourceType'' TString,
     tagged ''time'' TInt, tagged ''transitioning'' TString, tagged ''transitioningInternalMessage'' TString,
     tagged ''transitioningMessage'' TString, tagged ''transitioningProgress'' TInt]"

definition Publish_client :: typed_client where
  "Publish_client = \<lparr>tc_Type = ''publish'', tc_Struct = ''Publish'', tc_Fields = Publish_fields,
     tc_Actions = []\<rparr>"

definition PullTask_fields :: "field list" where
  "PullTask_fields = [tagged ''accountId'' TString, tagged ''created'' TString, tagged ''data'' (TMap TAny),
     tagged ''description'' TString, tagged ''image'' TString, tagged ''kind'' TString,
     tagged ''labels'' (TMap TAny), tagged ''mode'' TString, tagged ''name'' TString,
     tagged ''removeTime'' TString, tagged ''removed'' TString, tagged ''state'' TString,
     tagged ''status'' (TMap TAny), tagged ''transitioning'' TString, tagged ''transitioningMessage'' TString,
     tagged ''transitioningProgress'' TInt, tagged ''uuid'' TString]"

definition PullTask_client :: typed_client where
  "PullTask_client = \<lparr>tc_Type = ''pullTask'', tc_Struct = ''PullTask'', tc_Fields = PullTask_fields,
     tc_Actions = [act ''create'' None ''GenericObject'', act ''remove'' None ''GenericObject'']\<rparr>"

definition RecreateOnQuorumStrategyConfig_fields :: "field list" where
  "RecreateOnQuorumStrategyConfig_fields = [tagged ''quorum'' TInt]"

definition RecreateOnQuorumStrategyConfig_client :: typed_client where
  "RecreateOnQuorumStrategyConfig_client = \<lparr>tc_Type = ''recreateOnQuorumStrategyConfig'', tc_Struct = ''RecreateOnQuorumStrategyConfig'', tc_Fields = RecreateOnQuorumStrategyConfig_fields,
     tc_Actions = []\<rparr>"

definition Register_fields :: "field list" where
  "Register_fields = [tagged ''accessKey'' TString, tagged ''accountId'' TString, tagged ''created'' TString,
     tagged ''data'' (TMap TAny), tagged ''description'' TString, tagged ''key'' TString,
     tagged ''kind'' TString, tagged ''name'' TString, tagged ''removeTime'' TString,
     tagged ''removed'' TString, tagged ''resourceData'' (TMap TAny), tagged ''secretKey'' TString,
     tagged ''state'' TString, tagged ''transitioning'' TString, tagged ''transitioningMessage'' TString,
     tagged ''transitioningProgress'' TInt, tagged ''uuid'' TString]"

definition Register_client :: typed_client where
  "Register_client = \<lparr>tc_Type = ''register'', tc_Struct = ''Register'', tc_Fields = Register_fields,
     tc_Actions = [act ''create'' None ''GenericObject'', act ''remove'' None ''GenericObject'',
       act ''stop'' (Some ''InstanceStop'') ''Instance'']\<rparr>"

definition RegistrationToken_fields :: "field list" where
  "RegistrationToken_fields = [tagged ''accountId'' TString, tagged ''command'' TString, tagged ''created'' TString,
     tagged ''data'' (TMap TAny), tagged ''description'' TString, tagged ''image'' TString,
     tagged ''kind'' TString, tagged ''name'' TString, tagged ''registrationUrl'' TString,
     tagged ''removeTime'' TString, tagged ''removed'' TString, tagged ''state'' TString,
     tagged ''token'' TString, tagged ''transitioning'' TString, tagged ''transitioningMessage'' TString,
     tagged ''transitioningProgress'' TInt, tagged ''uuid'' TString]"

definition RegistrationToken_client :: typed_client where
  "RegistrationToken_client = \<lparr>tc_Type = ''registrationToken'', tc_Struct = ''RegistrationToken'', tc_Fields = RegistrationToken_fields,
     tc_Actions = [act ''activate'' None ''Credential'', act ''create'' None ''Credential'',
       act ''deactivate'' None ''Credential'', act ''purge'' None ''Credential'',
       act ''remove'' None ''Credential'', act ''update'' None ''Credential'']\<rparr>"

definition Registry_fields :: "field list" where
  "Registry_fields = [tagged ''accountId'' TString, tagged ''blockDevicePath'' TString, tagged ''created'' TString,
     tagged ''data'' (TMap TAny), tagged ''description'' TString, tagged ''driverName'' TString,
     tagged ''externalId'' TString, tagged ''kind'' TString, tagged ''name'' TString,
     tagged ''removeTime'' TString, tagged ''removed'' TString, tagged ''serverAddress'' TString,
     tagged ''state'' TString, tagged ''transitioning'' TString, tagged ''transitioningMessage'' TString,
     tagged ''transitioningProgress'' TInt, tagged ''uuid'' TString, tagged ''volumeAccessMode'' TString,
     tagged ''volumeCapabilities'' (TSlice TString)]"

definition Registry_client :: typed_client where
  "Registry_client = \<lparr>tc_Type = ''registry'', tc_Struct = ''Registry'', tc_Fields = Registry_fields,
     tc_Actions = [act ''activate'' None ''StoragePool'', act ''create'' None ''StoragePool'',
       act ''deactivate'' None ''StoragePool'', act ''purge'' None ''StoragePool'',
       act ''remove'' None ''StoragePool'', act ''update'' None ''StoragePool'']\<rparr>"

definition RegistryCredential_fields :: "field list" where
  "RegistryCredential_fields = [tagged ''accountId'' TString, tagged ''created'' TString, tagged ''data'' (TMap TAny),
     tagged ''description'' TString, tagged ''kind'' TString, tagged ''name'' TString,
     tagged ''publicValue'' TString, tagged ''registryId'' TString, tagged ''removeTime'' TString,
     tagged ''removed'' TString, tagged ''secretValue'' TString, tagged ''state'' TString,
     tagged ''transitioning'' TString, tagged ''transitioningMessage'' TString,
     tagged ''transitioningProgress'' TInt, tagged ''uuid'' TString]"

definition RegistryCredential_client :: typed_client where
  "RegistryCredential_client = \<lparr>tc_Type = ''registryCredential'', tc_Struct = ''RegistryCredential'', tc_Fields = RegistryCredential_fields,
     tc_Actions = [act ''activate'' None ''Credential'', act ''create'' None ''Credential'',
       act ''deactivate'' None ''Credential'', act ''purge'' None ''Credential'',
       act ''remove'' None ''Credential'', act ''update'' None ''Credential'']\<rparr>"

definition ResourceDefinition_fields :: "field list" where
  "ResourceDefinition_fields = [tagged ''name'' TString]"

definition ResourceDefinition_client :: typed_client where
  "ResourceDefinition_client = \<lparr>tc_Type = ''resourceDefinition'', tc_Struct = ''ResourceDefinition'', tc_Fields = ResourceDefinition_fields,
     tc_Actions = []\<rparr>"

definition RestartPolicy_fields :: "field list" where
  "RestartPolicy_fields = [tagged ''maximumRetryCount'' TInt, tagged ''name'' TString]"

definition RestartPolicy_client :: typed_client where
  "RestartPolicy_client = \<lparr>tc_Type = ''restartPolicy'', tc_Struct = ''RestartPolicy'', tc_Fields = RestartPolicy_fields,
     tc_Actions = []\<rparr>"

definition RestoreFromBackupInput_fields :: "field list" where
  "RestoreFromBackupInput_fields = [tagged ''backupId'' TString]"

definition RestoreFromBackupInput_client :: typed_client where
  "RestoreFromBackupInput_client = \<lparr>tc_Type = ''restoreFromBackupInput'', tc_Struct = ''RestoreFromBackupInput'', tc_Fields = RestoreFromBackupInput_fields,
     tc_Actions = []\<rparr>"

definition RevertToSnapshotInput_fields :: "field list" where
  "RevertToSnapshotInput_fields = [tagged ''snapshotId'' TString]"

definition RevertToSnapshotInput_client :: typed_client where
  "RevertToSnapshotInput_client = \<lparr>tc_Type = ''revertToSnapshotInput'', tc_Struct = ''RevertToSnapshotInput'', tc_Fields = RevertToSnapshotInput_fields,
     tc_Actions = []\<rparr>"

definition RollingRestartStrategy_fields :: "field list" where
  "RollingRestartStrategy_fields = [tagged ''batchSize'' TInt, tagged ''intervalMillis'' TInt]"

definition RollingRestartStrategy_client :: typed_client where
  "RollingRestartStrategy_client = \<lparr>tc_Type = ''rollingRestartStrategy'', tc_Struct = ''RollingRestartStrategy'', tc_Fields = RollingRestartStrategy_fields,
     tc_Actions = []\<rparr>"

definition M_R_clients :: "typed_client list" where
  "M_R_clients = [Machine_client, MachineDriver_client, Mount_client, MountEntry_client, Network_client, NetworkDriver_client,
     NetworkDriverService_client, NetworkPolicyRule_client, NetworkPolicyRuleBetween_client,
     NetworkPolicyRuleMember_client, NetworkPolicyRuleWithin_client, NfsConfig_client, Openldapconfig_client,
     PacketConfig_client, Password_client, PhysicalHost_client, Port_client, PortRule_client,
     ProcessDefinition_client, ProcessExecution_client, ProcessInstance_client, ProcessPool_client,
     ProcessSummary_client, Project_client, ProjectMember_client, ProjectTemplate_client, PublicEndpoint_client,
     Publish_client, PullTask_client, RecreateOnQuorumStrategyConfig_client, Register_client,
     RegistrationToken_client, Registry_client, RegistryCredential_client, ResourceDefinition_client,
     RestartPolicy_client, RestoreFromBackupInput_client, RevertToSnapshotInput_client,
     RollingRestartStrategy_client]"

lemmas M_R_client_defs =
  Machine_client_def MachineDriver_client_def Mount_client_def MountEntry_client_def Network_client_def
  NetworkDriver_client_def NetworkDriverService_client_def NetworkPolicyRule_client_def
  NetworkPolicyRuleBetween_client_def NetworkPolicyRuleMember_client_def NetworkPolicyRuleWithin_client_def
  NfsConfig_client_def Openldapconfig_client_def PacketConfig_client_def Password_client_def
  PhysicalHost_client_def Port_client_def PortRule_client_def ProcessDefinition_client_def
  ProcessExecution_client_def ProcessInstance_client_def ProcessPool_client_def ProcessSummary_client_def
  Project_client_def ProjectMember_client_def ProjectTemplate_client_def PublicEndpoint_client_def
  Publish_client_def PullTask_client_def RecreateOnQuorumStrategyConfig_client_def Register_client_def
  RegistrationToken_client_def Registry_client_def RegistryCredential_client_def ResourceDefinition_client_def
  RestartPolicy_client_def RestoreFromBackupInput_client_def RevertToSnapshotInput_client_def
  RollingRestartStrategy_client_def

lemmas M_R_field_defs =
  Machine_fields_def MachineDriver_fields_def Mount_fields_def MountEntry_fields_def Network_fields_def
  NetworkDriver_fields_def NetworkDriverService_fields_def NetworkPolicyRule_fields_def
  NetworkPolicyRuleBetween_fields_def NetworkPolicyRuleMember_fields_def NetworkPolicyRuleWithin_fields_def
  NfsConfig_fields_def Openldapconfig_fields_def PacketConfig_fields_def Password_fields_def
  PhysicalHost_fields_def Port_fields_def PortRule_fields_def ProcessDefinition_fields_def
  ProcessExecution_fields_def ProcessInstance_fields_def ProcessPool_fields_def ProcessSummary_fields_def
  Project_fields_def ProjectMember_fields_def ProjectTemplate_fields_def PublicEndpoint_fields_def
  Publish_fields_def PullTask_fields_def RecreateOnQuorumStrategyConfig_fields_def Register_fields_def
  RegistrationToken_fields_def Registry_fields_def RegistryCredential_fields_def ResourceDefinition_fields_def
  RestartPolicy_fields_def RestoreFromBackupInput_fields_def RevertToSnapshotInput_fields_def
  RollingRestartStrategy_fields_def

lemma M_R_names:
  "map tc_Struct M_R_clients = [''Machine'', ''MachineDriver'', ''Mount'', ''MountEntry'', ''Network'', ''NetworkDriver'',
     ''NetworkDriverService'', ''NetworkPolicyRule'', ''NetworkPolicyRuleBetween'', ''NetworkPolicyRuleMember'',
     ''NetworkPolicyRuleWithin'', ''NfsConfig'', ''Openldapconfig'', ''PacketConfig'', ''Password'',
     ''PhysicalHost'', ''Port'', ''PortRule'', ''ProcessDefinition'', ''ProcessExecution'', ''ProcessInstance'',
     ''ProcessPool'', ''ProcessSummary'', ''Project'', ''ProjectMember'', ''ProjectTemplate'',
     ''PublicEndpoint'', ''Publish'', ''PullTask'', ''RecreateOnQuorumStrategyConfig'', ''Register'',
     ''RegistrationToken'', ''Registry'', ''RegistryCredential'', ''ResourceDefinition'', ''RestartPolicy'',
     ''RestoreFromBackupInput'', ''RevertToSnapshotInput'', ''RollingRestartStrategy'']"
  by (simp add: M_R_clients_def M_R_client_defs)

lemma M_R_names_ok: "list_all names_ok M_R_clients"
  by (simp add: M_R_clients_def M_R_client_defs M_R_field_defs names_ok_def less_char_def)

end
