(* ===== verification/Api_Types_S_Z.thy ===== *)
theory Api_Types_S_Z
  imports Api_Struct
begin

text \<open>
  The resource types of \<open>internal/rancherclient/v2/generated_scale_policy.go\<close> to \<open>generated_volume_template.go\<close>: for each
  the fields of its struct after the embedded \<open>Resource\<close>, and its client.
\<close>

definition ScalePolicy_fields :: "field list" where
  "ScalePolicy_fields = [tagged ''increment'' TInt, tagged ''max'' TInt, tagged ''min'' TInt]"

definition ScalePolicy_client :: typed_client where
  "ScalePolicy_client = \<lparr>tc_Type = ''scalePolicy'', tc_Struct = ''ScalePolicy'', tc_Fields = ScalePolicy_fields,
     tc_Actions = []\<rparr>"

definition ScheduledUpgrade_fields :: "field list" where
  "ScheduledUpgrade_fields = [tagged ''accountId'' TString, tagged ''created'' TString, tagged ''data'' (TMap TAny), tagged ''kind'' TString,
     tagged ''removeTime'' TString, tagged ''removed'' TString, tagged ''stackId'' TString,
     tagged ''started'' TString, tagged ''state'' TString, tagged ''transitioning'' TString,
     tagged ''transitioningMessage'' TString, tagged ''transitioningProgress'' TInt, tagged ''uuid'' TString]"

definition ScheduledUpgrade_client :: typed_client where
  "ScheduledUpgrade_client = \<lparr>tc_Type = ''scheduledUpgrade'', tc_Struct = ''ScheduledUpgrade'', tc_Fields = ScheduledUpgrade_fields,
     tc_Actions = [act ''create'' None ''ScheduledUpgrade'', act ''remove'' None ''ScheduledUpgrade'',
       act ''start'' None ''ScheduledUpgrade'']\<rparr>"

definition SecondaryLaunchConfig_fields :: "field list" where
  "SecondaryLaunchConfig_fields = [tagged ''accountId'' TString, tagged ''agentId'' TString, tagged ''allocationState'' TString,
     tagged ''blkioDeviceOptions'' (TMap TAny), tagged ''blkioWeight'' TInt,
     tagged ''build'' (TPtr (TStruct ''DockerBuild'')), tagged ''capAdd'' (TSlice TString),
     tagged ''capDrop'' (TSlice TString), tagged ''cgroupParent'' TString, tagged ''command'' (TSlice TString),
     tagged ''count'' TInt, tagged ''cpuCount'' TInt, tagged ''cpuPercent'' TInt, tagged ''cpuPeriod'' TInt,
     tagged ''cpuQuota'' TInt, tagged ''cpuRealtimePeriod'' TInt, tagged ''cpuRealtimeRuntime'' TInt,
     tagged ''cpuSet'' TString, tagged ''cpuSetMems'' TString, tagged ''cpuShares'' TInt,
     tagged ''createIndex'' TInt, tagged ''created'' TString, tagged ''data'' (TMap TAny),
     tagged ''dataVolumeMounts'' (TMap TAny), tagged ''dataVolumes'' (TSlice TString),
     tagged ''dataVolumesFrom'' (TSlice TString), tagged ''dataVolumesFromLaunchConfigs'' (TSlice TString),
     tagged ''deploymentUnitUuid'' TString, tagged ''description'' TString, tagged ''devices'' (TSlice TString),
     tagged ''diskQuota'' TInt, tagged ''disks'' (TSlice (TStruct ''VirtualMachineDisk'')),
     tagged ''dns'' (TSlice TString), tagged ''dnsOpt'' (TSlice TString), tagged ''dnsSearch'' (TSlice TString),
     tagged ''domainName'' TString, tagged ''drainTimeoutMs'' TInt, tagged ''entryPoint'' (TSlice TString),
     tagged ''environment'' (TMap TAny), tagged ''expose'' (TSlice TString), tagged ''externalId'' TString,
     tagged ''extraHosts'' (TSlice TString), tagged ''firstRunning'' TString,
     tagged ''groupAdd'' (TSlice TString), tagged ''healthCheck'' (TPtr (TStruct ''InstanceHealthCheck'')),
     tagged ''healthCmd'' (TSlice TString), tagged ''healthInterval'' TInt, tagged ''healthRetries'' TInt,
     tagged ''healthState'' TString, tagged ''healthTimeout'' TInt, tagged ''hostId'' TString,
     tagged ''hostname'' TString, tagged ''imageUuid'' TString, tagged ''instanceLinks'' (TMap TAny),
     tagged ''instanceTriggeredStop'' TString, tagged ''ioMaximumBandwidth'' TInt,
     tagged ''ioMaximumIOps'' TInt, tagged ''ip'' TString, tagged ''ip6'' TString, tagged ''ipcMode'' TString,
     tagged ''isolation'' TString, tagged ''kernelMemory'' TInt, tagged ''kind'' TString,
     tagged ''labels'' (TMap TAny), tagged ''logConfig'' (TPtr (TStruct ''LogConfig'')),
     tagged ''lxcConf'' (TMap TAny), tagged ''memory'' TInt, tagged ''memoryMb'' TInt,
     tagged ''memoryReservation'' TInt, tagged ''memorySwap'' TInt, tagged ''memorySwappiness'' TInt,
     tagged ''milliCpuReservation'' TInt, tagged ''mounts'' (TSlice (TStruct ''MountEntry'')),
     tagged ''name'' TString, tagged ''nativeContainer'' TBool, tagged ''netAlias'' (TSlice TString),
     tagged ''networkContainerId'' TString, tagged ''networkIds'' (TSlice TString),
     tagged ''networkLaunchConfig'' TString, tagged ''networkMode'' TString, tagged ''oomKillDisable'' TBool,
     tagged ''oomScoreAdj'' TInt, tagged ''pidMode'' TString, tagged ''pidsLimit'' TInt,
     tagged ''ports'' (TSlice TString), tagged ''primaryIpAddress'' TString,
     tagged ''primaryNetworkId'' TString, tagged ''privileged'' TBool, tagged ''publishAllPorts'' TBool,
     tagged ''readOnly'' TBool, tagged ''registryCredentialId'' TString, tagged ''removeTime'' TString,
     tagged ''removed'' TString, tagged ''requestedHostId'' TString, tagged ''requestedIpAddress'' TString,
     tagged ''runInit'' TBool, tagged ''secrets'' (TSlice (TStruct ''SecretReference'')),
     tagged ''securityOpt'' (TSlice TString), tagged ''serviceId'' TString,
     tagged ''serviceIds'' (TSlice TString), tagged ''shmSize'' TInt, tagged ''stackId'' TString,
     tagged ''startCount'' TInt, tagged ''startOnCreate'' TBool, tagged ''state'' TString,
     tagged ''stdinOpen'' TBool, tagged ''stopSignal'' TString, tagged ''stopTimeout'' TInt,
     tagged ''storageOpt'' (TMap TAny), tagged ''sysctls'' (TMap TAny), tagged ''system'' TBool,
     tagged ''tmpfs'' (TMap TAny), tagged ''token'' TString, tagged ''transitioning'' TString,
     tagged ''transitioningMessage'' TString, tagged ''transitioningProgress'' TInt, tagged ''tty'' TBool,
     tagged ''ulimits'' (TSlice (TStruct ''Ulimit'')), tagged ''user'' TString,
     tagged ''userPorts'' (TSlice TString), tagged ''userdata'' TString, tagged ''usernsMode'' TString,
     tagged ''uts'' TString, tagged ''uuid'' TString, tagged ''vcpu'' TInt, tagged ''version'' TString,
     tagged ''volumeDriver'' TString, tagged ''workingDir'' TString]"

definition SecondaryLaunchConfig_client :: typed_client where
  "SecondaryLaunchConfig_client = \<lparr>tc_Type = ''secondaryLaunchConfig'', tc_Struct = ''SecondaryLaunchConfig'', tc_Fields = SecondaryLaunchConfig_fields,
     tc_Actions = [act ''allocate'' None ''Instance'', act ''console'' (Some ''InstanceConsoleInput'') ''InstanceConsole'',
       act ''create'' None ''Instance'', act ''deallocate'' None ''Instance'', act ''error'' None ''Instance'',
       act ''execute'' (Some ''ContainerExec'') ''HostAccess'', act ''migrate'' None ''Instance'',
       act ''proxy'' (Some ''ContainerProxy'') ''HostAccess'', act ''purge'' None ''Instance'',
       act ''remove'' None ''Instance'', act ''restart'' None ''Instance'', act ''start'' None ''Instance'',
       act ''stop'' (Some ''InstanceStop'') ''Instance'', act ''update'' None ''Instance'',
       act ''updatehealthy'' None ''Instance'', act ''updatereinitializing'' None ''Instance'',
       act ''updateunhealthy'' None ''Instance'']\<rparr>"

definition Secret_fields :: "field list" where
  "Secret_fields = [tagged ''accountId'' TString, tagged ''created'' TString, tagged ''data'' (TMap TAny),
     tagged ''description'' TString, tagged ''kind'' TString, tagged ''name'' TString,
     tagged ''removeTime'' TString, tagged ''removed'' TString, tagged ''state'' TString,
     tagged ''transitioning'' TString, tagged ''transitioningMessage'' TString,
     tagged ''transitioningProgress'' TInt, tagged ''uuid'' TString, tagged ''value'' TString]"

definition Secret_client :: typed_client where
  "Secret_client = \<lparr>tc_Type = ''secret'', tc_Struct = ''Secret'', tc_Fields = Secret_fields,
     tc_Actions = [act ''create'' None ''Secret'', act ''remove'' None ''Secret'']\<rparr>"

definition SecretReference_fields :: "field list" where
  "SecretReference_fields = [tagged ''gid'' TString, tagged ''mode'' TString, tagged ''name'' TString, tagged ''secretId'' TString,
     tagged ''uid'' TString]"

definition SecretReference_client :: typed_client where
  "SecretReference_client = \<lparr>tc_Type = ''secretReference'', tc_Struct = ''SecretReference'', tc_Fields = SecretReference_fields,
     tc_Actions = []\<rparr>"

definition Service_fields :: "field list" where
  "Service_fields = [tagged ''accountId'' TString, tagged ''assignServiceIpAddress'' TBool, tagged ''createIndex'' TInt,
     tagged ''created'' TString, tagged ''currentScale'' TInt, tagged ''data'' (TMap TAny),
     tagged ''description'' TString, tagged ''externalId'' TString, tagged ''fqdn'' TString,
     tagged ''healthState'' TString, tagged ''instanceIds'' (TSlice TString), tagged ''kind'' TString,
     tagged ''launchConfig'' (TPtr (TStruct ''LaunchConfig'')),
     tagged ''lbConfig'' (TPtr (TStruct ''LbTargetConfig'')), tagged ''linkedServices'' (TMap TAny),
     tagged ''metadata'' (TMap TAny), tagged ''name'' TString,
     tagged ''publicEndpoints'' (TSlice (TStruct ''PublicEndpoint'')), tagged ''removeTime'' TString,
     tagged ''removed'' TString, tagged ''retainIp'' TBool, tagged ''scale'' TInt,
     tagged ''scalePolicy'' (TPtr (TStruct ''ScalePolicy'')),
     tagged ''secondaryLaunchConfigs'' (TSlice (TStruct ''SecondaryLaunchConfig'')),
     tagged ''selectorContainer'' TString, tagged ''selectorLink'' TString, tagged ''stackId'' TString,
     tagged ''startOnCreate'' TBool, tagged ''state'' TString, tagged ''system'' TBool,
     tagged ''transitioning'' TString, tagged ''transitioningMessage'' TString,
     tagged ''transitioningProgress'' TInt, tagged ''upgrade'' (TPtr (TStruct ''ServiceUpgrade'')),
     tagged ''uuid'' TString, tagged ''vip'' TString]"

definition Service_client :: typed_client where
  "Service_client = \<lparr>tc_Type = ''service'', tc_Struct = ''Service'', tc_Fields = Service_fields,
     tc_Actions = [act ''activate'' None ''Service'', act ''addservicelink'' (Some ''AddRemoveServiceLinkInput'') ''Service'',
       act ''cancelupgrade'' None ''Service'', act ''continueupgrade'' None ''Service'',
       act ''create'' None ''Service'', act ''deactivate'' None ''Service'',
       act ''finishupgrade'' None ''Service'', act ''remove'' None ''Service'',
       act ''removeservicelink'' (Some ''AddRemoveServiceLinkInput'') ''Service'',
       act ''restart'' (Some ''ServiceRestart'') ''Service'', act ''rollback'' None ''Service'',
       act ''setservicelinks'' (Some ''SetServiceLinksInput'') ''Service'', act ''update'' None ''Service'',
       act ''upgrade'' (Some ''ServiceUpgrade'') ''Service'']\<rparr>"

definition ServiceBinding_fields :: "field list" where
  "ServiceBinding_fields = [tagged ''labels'' (TMap TAny), tagged ''ports'' (TSlice TString)]"

definition ServiceBinding_client :: typed_client where
  "ServiceBinding_client = \<lparr>tc_Type = ''serviceBinding'', tc_Struct = ''ServiceBinding'', tc_Fields = ServiceBinding_fields,
     tc_Actions = []\<rparr>"

definition ServiceConsumeMap_fields :: "field list" where
  "ServiceConsumeMap_fields = [tagged ''accountId'' TString, tagged ''consumedServiceId'' TString, tagged ''created'' TString,
     tagged ''data'' (TMap TAny), tagged ''description'' TString, tagged ''kind'' TString,
     tagged ''name'' TString, tagged ''ports'' (TSlice TString), tagged ''removeTime'' TString,
     tagged ''removed'' TString, tagged ''serviceId'' TString, tagged ''state'' TString,
     tagged ''transitioning'' TString, tagged ''transitioningMessage'' TString,
     tagged ''transitioningProgress'' TInt, tagged ''uuid'' TString]"

definition ServiceConsumeMap_client :: typed_client where
  "ServiceConsumeMap_client = \<lparr>tc_Type = ''serviceConsumeMap'', tc_Struct = ''ServiceConsumeMap'', tc_Fields = ServiceConsumeMap_fields,
     tc_Actions = [act ''create'' None ''ServiceConsumeMap'', act ''remove'' None ''ServiceConsumeMap'',
       act ''update'' None ''ServiceConsumeMap'']\<rparr>"

definition ServiceEvent_fields :: "field list" where
  "ServiceEvent_fields = [tagged ''accountId'' TString, tagged ''created'' TString, tagged ''data'' (TMap TAny),
     tagged ''description'' TString, tagged ''externalTimestamp'' TInt, tagged ''healthcheckUuid'' TString,
     tagged ''hostId'' TString, tagged ''instanceId'' TString, tagged ''kind'' TString, tagged ''name'' TString,
     tagged ''removeTime'' TString, tagged ''removed'' TString, tagged ''reportedHealth'' TString,
     tagged ''state'' TString, tagged ''transitioning'' TString, tagged ''transitioningMessage'' TString,
     tagged ''transitioningProgress'' TInt, tagged ''uuid'' TString]"

definition ServiceEvent_client :: typed_client where
  "ServiceEvent_client = \<lparr>tc_Type = ''serviceEvent'', tc_Struct = ''ServiceEvent'', tc_Fields = ServiceEvent_fields,
     tc_Actions = [act ''create'' None ''ServiceEvent'', act ''remove'' None ''ServiceEvent'']\<rparr>"

definition ServiceExposeMap_fields :: "field list" where
  "ServiceExposeMap_fields = [tagged ''accountId'' TString, tagged ''created'' TString, tagged ''data'' (TMap TAny),
     tagged ''description'' TString, tagged ''instanceId'' TString, tagged ''ipAddress'' TString,
     tagged ''kind'' TString, tagged ''managed'' TBool, tagged ''name'' TString, tagged ''removeTime'' TString,
     tagged ''removed'' TString, tagged ''serviceId'' TString, tagged ''state'' TString,
     tagged ''transitioning'' TString, tagged ''transitioningMessage'' TString,
     tagged ''transitioningProgress'' TInt, tagged ''uuid'' TString]"

definition ServiceExposeMap_client :: typed_client where
  "ServiceExposeMap_client = \<lparr>tc_Type = ''serviceExposeMap'', tc_Struct = ''ServiceExposeMap'', tc_Fields = ServiceExposeMap_fields,
     tc_Actions = [act ''create'' None ''ServiceExposeMap'', act ''remove'' None ''ServiceExposeMap'']\<rparr>"

definition ServiceLink_fields :: "field list" where
  "ServiceLink_fields = [tagged ''name'' TString, tagged ''service'' TString, tagged ''serviceId'' TString, tagged ''uuid'' TString]"

definition ServiceLink_client :: typed_client where
  "ServiceLink_client = \<lparr>tc_Type = ''serviceLink'', tc_Struct = ''ServiceLink'', tc_Fields = ServiceLink_fields,
     tc_Actions = []\<rparr>"

definition ServiceLog_fields :: "field list" where
  "ServiceLog_fields = [tagged ''accountId'' TString, tagged ''created'' TString, tagged ''data'' (TMap TAny),
     tagged ''description'' TString, tagged ''endTime'' TString, tagged ''eventType'' TString,
     tagged ''instanceId'' TString, tagged ''kind'' TString, tagged ''level'' TString,
     tagged ''serviceId'' TString, tagged ''subLog'' TBool, tagged ''transactionId'' TString]"

definition ServiceLog_client :: typed_client where
  "ServiceLog_client = \<lparr>tc_Type = ''serviceLog'', tc_Struct = ''ServiceLog'', tc_Fields = ServiceLog_fields,
     tc_Actions = []\<rparr>"

definition ServiceProxy_fields :: "field list" where
  "ServiceProxy_fields = [tagged ''port'' TInt, tagged ''scheme'' TString, tagged ''service'' TString, tagged ''token'' TString,
     tagged ''url'' TString]"

definition ServiceProxy_client :: typed_client where
  "ServiceProxy_client = \<lparr>tc_Type = ''serviceProxy'', tc_Struct = ''ServiceProxy'', tc_Fields = ServiceProxy_fields,
     tc_Actions = []\<rparr>"

definition ServiceRestart_fields :: "field list" where
  "ServiceRestart_fields = [tagged ''rollingRestartStrategy'' (TStruct ''RollingRestartStrategy'')]"

definition ServiceRestart_client :: typed_client where
  "ServiceRestart_client = \<lparr>tc_Type = ''serviceRestart'', tc_Struct = ''ServiceRestart'', tc_Fields = ServiceRestart_fields,
     tc_Actions = []\<rparr>"

definition ServiceUpgrade_fields :: "field list" where
  "ServiceUpgrade_fields = [tagged ''inServiceStrategy'' (TPtr (TStruct ''InServiceUpgradeStrategy'')),
     tagged ''toServiceStrategy'' (TPtr (TStruct ''ToServiceUpgradeStrategy''))]"

definition ServiceUpgrade_client :: typed_client where
  "ServiceUpgrade_client = \<lparr>tc_Type = ''serviceUpgrade'', tc_Struct = ''ServiceUpgrade'', tc_Fields = ServiceUpgrade_fields,
     tc_Actions = []\<rparr>"

definition ServiceUpgradeStrategy_fields :: "field list" where
  "ServiceUpgradeStrategy_fields = [tagged ''batchSize'' TInt, tagged ''intervalMillis'' TInt]"

definition ServiceUpgradeStrategy_client :: typed_client where
  "ServiceUpgradeStrategy_client = \<lparr>tc_Type = ''serviceUpgradeStrategy'', tc_Struct = ''ServiceUpgradeStrategy'', tc_Fields = ServiceUpgradeStrategy_fields,
     tc_Actions = []\<rparr>"

definition ServicesPortRange_fields :: "field list" where
  "ServicesPortRange_fields = [tagged ''endPort'' TInt, tagged ''startPort'' TInt]"

definition ServicesPortRange_client :: typed_client where
  "ServicesPortRange_client = \<lparr>tc_Type = ''servicesPortRange'', tc_Struct = ''ServicesPortRange'', tc_Fields = ServicesPortRange_fields,
     tc_Actions = []\<rparr>"

definition SetProjectMembersInput_fields :: "field list" where
  "SetProjectMembersInput_fields = [tagged ''members'' (TSlice (TStruct ''ProjectMember''))]"

definition SetProjectMembersInput_client :: typed_client where
  "SetProjectMembersInput_client = \<lparr>tc_Type = ''setProjectMembersInput'', tc_Struct = ''SetProjectMembersInput'', tc_Fields = SetProjectMembersInput_fields,
     tc_Actions = []\<rparr>"

definition SetServiceLinksInput_fields :: "field list" where
  "SetServiceLinksInput_fields = [tagged ''serviceLinks'' (TSlice (TStruct ''ServiceLink''))]"

definition SetServiceLinksInput_client :: typed_client where
  "SetServiceLinksInput_client = \<lparr>tc_Type = ''setServiceLinksInput'', tc_Struct = ''SetServiceLinksInput'', tc_Fields = SetServiceLinksInput_fields,
     tc_Actions = []\<rparr>"

definition Setting_fields :: "field list" where
  "Setting_fields = [tagged ''activeValue'' TString, tagged ''inDb'' TBool, tagged ''name'' TString, tagged ''source'' TString,
     tagged ''value'' TString]"

definition Setting_client :: typed_client where
  "Setting_client = \<lparr>tc_Type = ''setting'', tc_Struct = ''Setting'', tc_Fields = Setting_fields,
     tc_Actions = []\<rparr>"

definition Snapshot_fields :: "field list" where
  "Snapshot_fields = [tagged ''accountId'' TString, tagged ''created'' TString, tagged ''data'' (TMap TAny),
     tagged ''description'' TString, tagged ''kind'' TString, tagged ''name'' TString,
     tagged ''removeTime'' TString, tagged ''removed'' TString, tagged ''state'' TString,
     tagged ''transitioning'' TString, tagged ''transitioningMessage'' TString,
     tagged ''transitioningProgress'' TInt, tagged ''uuid'' TString, tagged ''volumeId'' TString]"

definition Snapshot_client :: typed_client where
  "Snapshot_client = \<lparr>tc_Type = ''snapshot'', tc_Struct = ''Snapshot'', tc_Fields = Snapshot_fields,
     tc_Actions = [act ''backup'' (Some ''SnapshotBackupInput'') ''Backup'', act ''create'' None ''Snapshot'',
       act ''remove'' None ''Snapshot'']\<rparr>"

definition SnapshotBackupInput_fields :: "field list" where
  "SnapshotBackupInput_fields = [tagged ''backupTargetId'' TString, tagged ''data'' (TMap TAny), tagged ''name'' TString,
     tagged ''removeTime'' TString]"

definition SnapshotBackupInput_client :: typed_client where
  "SnapshotBackupInput_client = \<lparr>tc_Type = ''snapshotBackupInput'', tc_Struct = ''SnapshotBackupInput'', tc_Fields = SnapshotBackupInput_fields,
     tc_Actions = [act ''create'' None ''Backup'', act ''remove'' None ''Backup'']\<rparr>"

definition Stack_fields :: "field list" where
  "Stack_fields = [tagged ''accountId'' TString, tagged ''answers'' (TMap TAny), tagged ''binding'' (TPtr (TStruct ''Binding'')),
     tagged ''created'' TString, tagged ''data'' (TMap TAny), tagged ''description'' TString,
     tagged ''dockerCompose'' TString, tagged ''environment'' (TMap TAny), tagged ''externalId'' TString,
     tagged ''group'' TString, tagged ''healthState'' TString, tagged ''kind'' TString, tagged ''name'' TString,
     tagged ''outputs'' (TMap TAny), tagged ''previousEnvironment'' (TMap TAny),
     tagged ''previousExternalId'' TString, tagged ''rancherCompose'' TString, tagged ''removeTime'' TString,
     tagged ''removed'' TString, tagged ''serviceIds'' (TSlice TString), tagged ''startOnCreate'' TBool,
     tagged ''state'' TString, tagged ''system'' TBool, tagged ''templates'' (TMap TAny),
     tagged ''transitioning'' TString, tagged ''transitioningMessage'' TString,
     tagged ''transitioningProgress'' TInt, tagged ''uuid'' TString]"

definition Stack_client :: typed_client where
  "Stack_client = \<lparr>tc_Type = ''stack'', tc_Struct = ''Stack'', tc_Fields = Stack_fields,
     tc_Actions = [act ''activateservices'' None ''Stack'', act ''addoutputs'' (Some ''AddOutputsInput'') ''Stack'',
       act ''cancelupgrade'' None ''Stack'', act ''create'' None ''Stack'',
       act ''deactivateservices'' None ''Stack'', act ''error'' None ''Stack'',
       act ''exportconfig'' (Some ''ComposeConfigInput'') ''ComposeConfig'',
       act ''finishupgrade'' None ''Stack'', act ''remove'' None ''Stack'', act ''rollback'' None ''Stack'',
       act ''update'' None ''Stack'', act ''upgrade'' (Some ''StackUpgrade'') ''Stack'']\<rparr>"

definition StackUpgrade_fields :: "field list" where
  "StackUpgrade_fields = [tagged ''answers'' (TMap TAny), tagged ''dockerCompose'' TString, tagged ''environment'' (TMap TAny),
     tagged ''externalId'' TString, tagged ''rancherCompose'' TString, tagged ''templates'' (TMap TAny)]"

definition StackUpgrade_client :: typed_client where
  "StackUpgrade_client = \<lparr>tc_Type = ''stackUpgrade'', tc_Struct = ''StackUpgrade'', tc_Fields = StackUpgrade_fields,
     tc_Actions = []\<rparr>"

definition StateTransition_fields :: "field list" where
  "StateTransition_fields = []"

definition StateTransition_client :: typed_client where
  "StateTransition_client = \<lparr>tc_Type = ''stateTransition'', tc_Struct = ''StateTransition'', tc_Fields = StateTransition_fields,
     tc_Actions = []\<rparr>"

definition StatsAccess_fields :: "field list" where
  "StatsAccess_fields = [tagged ''token'' TString, tagged ''url'' TString]"

definition StatsAccess_client :: typed_client where
  "StatsAccess_client = \<lparr>tc_Type = ''statsAccess'', tc_Struct = ''StatsAccess'', tc_Fields = StatsAccess_fields,
     tc_Actions = []\<rparr>"

definition StorageDriver_fields :: "field list" where
  "StorageDriver_fields = [tagged ''accountId'' TString, tagged ''blockDevicePath'' TString, tagged ''created'' TString,
     tagged ''data'' (TMap TAny), tagged ''description'' TString, tagged ''kind'' TString,
     tagged ''name'' TString, tagged ''removeTime'' TString, tagged ''removed'' TString,
     tagged ''scope'' TString, tagged ''serviceId'' TString, tagged ''state'' TString,
     tagged ''transitioning'' TString, tagged ''transitioningMessage'' TString,
     tagged ''transitioningProgress'' TInt, tagged ''uuid'' TString, tagged ''volumeAccessMode'' TString,
     tagged ''volumeCapabilities'' (TSlice TString)]"

definition StorageDriver_client :: typed_client where
  "StorageDriver_client = \<lparr>tc_Type = ''storageDriver'', tc_Struct = ''StorageDriver'', tc_Fields = StorageDriver_fields,
     tc_Actions = [act ''activate'' None ''StorageDriver'', act ''create'' None ''StorageDriver'',
       act ''deactivate'' None ''StorageDriver'', act ''remove'' None ''StorageDriver'',
       act ''update'' None ''StorageDriver'']\<rparr>"

definition StorageDriverService_fields :: "field list" where
  "StorageDriverService_fields = [tagged ''accountId'' TString, tagged ''assignServiceIpAddress'' TBool, tagged ''createIndex'' TInt,
     tagged ''created'' TString, tagged ''currentScale'' TInt, tagged ''data'' (TMap TAny),
     tagged ''description'' TString, tagged ''externalId'' TString, tagged ''fqdn'' TString,
     tagged ''healthState'' TString, tagged ''instanceIds'' (TSlice TString), tagged ''kind'' TString,
     tagged ''launchConfig'' (TPtr (TStruct ''LaunchConfig'')),
     tagged ''lbConfig'' (TPtr (TStruct ''LbTargetConfig'')), tagged ''linkedServices'' (TMap TAny),
     tagged ''metadata'' (TMap TAny), tagged ''name'' TString,
     tagged ''publicEndpoints'' (TSlice (TStruct ''PublicEndpoint'')), tagged ''removeTime'' TString,
     tagged ''removed'' TString, tagged ''retainIp'' TBool, tagged ''scale'' TInt,
     tagged ''scalePolicy'' (TPtr (TStruct ''ScalePolicy'')),
     tagged ''secondaryLaunchConfigs'' (TSlice (TStruct ''SecondaryLaunchConfig'')),
     tagged ''selectorContainer'' TString, tagged ''selectorLink'' TString, tagged ''stackId'' TString,
     tagged ''startOnCreate'' TBool, tagged ''state'' TString,
     tagged ''storageDriver'' (TStruct ''StorageDriver''), tagged ''system'' TBool,
     tagged ''transitioning'' TString, tagged ''transitioningMessage'' TString,
     tagged ''transitioningProgress'' TInt, tagged ''upgrade'' (TPtr (TStruct ''ServiceUpgrade'')),
     tagged ''uuid'' TString, tagged ''vip'' TString]"

definition StorageDriverService_client :: typed_client where
  "StorageDriverService_client = \<lparr>tc_Type = ''storageDriverService'', tc_Struct = ''StorageDriverService'', tc_Fields = StorageDriverService_fields,
     tc_Actions = [act ''activate'' None ''Service'', act ''addservicelink'' (Some ''AddRemoveServiceLinkInput'') ''Service'',
       act ''cancelupgrade'' None ''Service'', act ''continueupgrade'' None ''Service'',
       act ''create'' None ''Service'', act ''deactivate'' None ''Service'',
       act ''finishupgrade'' None ''Service'', act ''remove'' None ''Service'',
       act ''removeservicelink'' (Some ''AddRemoveServiceLinkInput'') ''Service'',
       act ''restart'' (Some ''ServiceRestart'') ''Service'', act ''rollback'' None ''Service'',
       act ''setservicelinks'' (Some ''SetServiceLinksInput'') ''Service'', act ''update'' None ''Service'',
       act ''upgrade'' (Some ''ServiceUpgrade'') ''Service'']\<rparr>"

definition StoragePool_fields :: "field list" where
  "StoragePool_fields = [tagged ''accountId'' TString, tagged ''blockDevicePath'' TString, tagged ''created'' TString,
     tagged ''data'' (TMap TAny), tagged ''description'' TString, tagged ''driverName'' TString,
     tagged ''externalId'' TString, tagged ''hostIds'' (TSlice TString), tagged ''kind'' TString,
     tagged ''name'' TString, tagged ''removeTime'' TString, tagged ''removed'' TString,
     tagged ''state'' TString, tagged ''storageDriverId'' TString, tagged ''transitioning'' TString,
     tagged ''transitioningMessage'' TString, tagged ''transitioningProgress'' TInt, tagged ''uuid'' TString,
     tagged ''volumeAccessMode'' TString, tagged ''volumeCapabilities'' (TSlice TString),
     tagged ''volumeIds'' (TSlice TString)]"

definition StoragePool_client :: typed_client where
  "StoragePool_client = \<lparr>tc_Type = ''storagePool'', tc_Struct = ''StoragePool'', tc_Fields = StoragePool_fields,
     tc_Actions = [act ''activate'' None ''StoragePool'', act ''create'' None ''StoragePool'',
       act ''deactivate'' None ''StoragePool'', act ''purge'' None ''StoragePool'',
       act ''remove'' None ''StoragePool'', act ''update'' None ''StoragePool'']\<rparr>"

definition Subnet_fields :: "field list" where
  "Subnet_fields = [tagged ''accountId'' TString, tagged ''cidrSize'' TInt, tagged ''created'' TString, tagged ''data'' (TMap TAny),
     tagged ''description'' TString, tagged ''endAddress'' TString, tagged ''gateway'' TString,
     tagged ''kind'' TString, tagged ''name'' TString, tagged ''networkAddress'' TString,
     tagged ''networkId'' TString, tagged ''removeTime'' TString, tagged ''removed'' TString,
     tagged ''startAddress'' TString, tagged ''state'' TString, tagged ''transitioning'' TString,
     tagged ''transitioningMessage'' TString, tagged ''transitioningProgress'' TInt, tagged ''uuid'' TString]"

definition Subnet_client :: typed_client where
  "Subnet_client = \<lparr>tc_Type = ''subnet'', tc_Struct = ''Subnet'', tc_Fields = Subnet_fields,
     tc_Actions = [act ''activate'' None ''Subnet'', act ''create'' None ''Subnet'', act ''deactivate'' None ''Subnet'',
       act ''purge'' None ''Subnet'', act ''remove'' None ''Subnet'', act ''update'' None ''Subnet'']\<rparr>"

definition TargetPortRule_fields :: "field list" where
  "TargetPortRule_fields = [tagged ''backendName'' TString, tagged ''hostname'' TString, tagged ''path'' TString, tagged ''targetPort'' TInt]"

definition TargetPortRule_client :: typed_client where
  "TargetPortRule_client = \<lparr>tc_Type = ''targetPortRule'', tc_Struct = ''TargetPortRule'', tc_Fields = TargetPortRule_fields,
     tc_Actions = []\<rparr>"

definition Task_fields :: "field list" where
  "Task_fields = [tagged ''name'' TString]"

definition Task_client :: typed_client where
  "Task_client = \<lparr>tc_Type = ''task'', tc_Struct = ''Task'', tc_Fields = Task_fields,
     tc_Actions = [act ''execute'' None ''Task'']\<rparr>"

definition TaskInstance_fields :: "field list" where
  "TaskInstance_fields = [tagged ''endTime'' TString, tagged ''exception'' TString, tagged ''name'' TString, tagged ''serverId'' TString,
     tagged ''startTime'' TString, tagged ''taskId'' TString]"

definition TaskInstance_client :: typed_client where
  "TaskInstance_client = \<lparr>tc_Type = ''taskInstance'', tc_Struct = ''TaskInstance'', tc_Fields = TaskInstance_fields,
     tc_Actions = []\<rparr>"

definition ToServiceUpgradeStrategy_fields :: "field list" where
  "ToServiceUpgradeStrategy_fields = [tagged ''batchSize'' TInt, tagged ''finalScale'' TInt, tagged ''intervalMillis'' TInt,
     tagged ''toServiceId'' TString, tagged ''updateLinks'' TBool]"

definition ToServiceUpgradeStrategy_client :: typed_client where
  "ToServiceUpgradeStrategy_client = \<lparr>tc_Type = ''toServiceUpgradeStrategy'', tc_Struct = ''ToServiceUpgradeStrategy'', tc_Fields = ToServiceUpgradeStrategy_fields,
     tc_Actions = []\<rparr>"

definition TypeDocumentation_fields :: "field list" where
  "TypeDocumentation_fields = [tagged ''description'' TString, tagged ''resourceFields'' (TMap TAny)]"

definition TypeDocumentation_client :: typed_client where
  "TypeDocumentation_client = \<lparr>tc_Type = ''typeDocumentation'', tc_Struct = ''TypeDocumentation'', tc_Fields = TypeDocumentation_fields,
     tc_Actions = []\<rparr>"

definition Ulimit_fields :: "field list" where
  "Ulimit_fields = [tagged ''hard'' TInt, tagged ''name'' TString, tagged ''soft'' TInt]"

definition Ulimit_client :: typed_client where
  "Ulimit_client = \<lparr>tc_Type = ''ulimit'', tc_Struct = ''Ulimit'', tc_Fields = Ulimit_fields,
     tc_Actions = []\<rparr>"

definition UserPreference_fields :: "field list" where
  "UserPreference_fields = [tagged ''accountId'' TString, tagged ''all'' TBool, tagged ''created'' TString, tagged ''data'' (TMap TAny),
     tagged ''description'' TString, tagged ''kind'' TString, tagged ''name'' TString,
     tagged ''removeTime'' TString, tagged ''removed'' TString, tagged ''state'' TString,
     tagged ''transitioning'' TString, tagged ''transitioningMessage'' TString,
     tagged ''transitioningProgress'' TInt, tagged ''uuid'' TString, tagged ''value'' TString]"

definition UserPreference_client :: typed_client where
  "UserPreference_client = \<lparr>tc_Type = ''userPreference'', tc_Struct = ''UserPreference'', tc_Fields = UserPreference_fields,
     tc_Actions = [act ''activate'' None ''UserPreference'', act ''create'' None ''UserPreference'',
       act ''deactivate'' None ''UserPreference'', act ''purge'' None ''UserPreference'',
       act ''remove'' None ''UserPreference'', act ''update'' None ''UserPreference'']\<rparr>"

definition VirtualMachine_fields :: "field list" where
  "VirtualMachine_fields = [tagged ''accountId'' TString, tagged ''agentId'' TString, tagged ''allocationState'' TString,
     tagged ''blkioDeviceOptions'' (TMap TAny), tagged ''blkioWeight'' TInt, tagged ''cgroupParent'' TString,
     tagged ''command'' (TSlice TString), tagged ''count'' TInt, tagged ''cpuCount'' TInt,
     tagged ''cpuPercent'' TInt, tagged ''cpuPeriod'' TInt, tagged ''cpuQuota'' TInt,
     tagged ''cpuRealtimePeriod'' TInt, tagged ''cpuRealtimeRuntime'' TInt, tagged ''cpuSet'' TString,
     tagged ''cpuSetMems'' TString, tagged ''cpuShares'' TInt, tagged ''createIndex'' TInt,
     tagged ''created'' TString, tagged ''data'' (TMap TAny), tagged ''deploymentUnitUuid'' TString,
     tagged ''description'' TString, tagged ''diskQuota'' TInt,
     tagged ''disks'' (TSlice (TStruct ''VirtualMachineDisk'')), tagged ''dns'' (TSlice TString),
     tagged ''dnsOpt'' (TSlice TString), tagged ''dnsSearch'' (TSlice TString), tagged ''domainName'' TString,
     tagged ''expose'' (TSlice TString), tagged ''externalId'' TString, tagged ''extraHosts'' (TSlice TString),
     tagged ''firstRunning'' TString, tagged ''groupAdd'' (TSlice TString),
     tagged ''healthCheck'' (TPtr (TStruct ''InstanceHealthCheck'')), tagged ''healthCmd'' (TSlice TString),
     tagged ''healthInterval'' TInt, tagged ''healthRetries'' TInt, tagged ''healthState'' TString,
     tagged ''healthTimeout'' TInt, tagged ''hostId'' TString, tagged ''hostname'' TString,
     tagged ''imageUuid'' TString, tagged ''instanceLinks'' (TMap TAny),
     tagged ''instanceTriggeredStop'' TString, tagged ''ioMaximumBandwidth'' TInt,
     tagged ''ioMaximumIOps'' TInt, tagged ''ip'' TString, tagged ''ip6'' TString, tagged ''ipcMode'' TString,
     tagged ''isolation'' TString, tagged ''kernelMemory'' TInt, tagged ''kind'' TString,
     tagged ''labels'' (TMap TAny), tagged ''logConfig'' (TPtr (TStruct ''LogConfig'')), tagged ''memory'' TInt,
     tagged ''memoryMb'' TInt, tagged ''memoryReservation'' TInt, tagged ''memorySwap'' TInt,
     tagged ''memorySwappiness'' TInt, tagged ''milliCpuReservation'' TInt,
     tagged ''mounts'' (TSlice (TStruct ''MountEntry'')), tagged ''name'' TString,
     tagged ''nativeContainer'' TBool, tagged ''netAlias'' (TSlice TString),
     tagged ''networkIds'' (TSlice TString), tagged ''networkMode'' TString, tagged ''oomKillDisable'' TBool,
     tagged ''oomScoreAdj'' TInt, tagged ''pidsLimit'' TInt, tagged ''ports'' (TSlice TString),
     tagged ''primaryIpAddress'' TString, tagged ''primaryNetworkId'' TString,
     tagged ''registryCredentialId'' TString, tagged ''removeTime'' TString, tagged ''removed'' TString,
     tagged ''requestedHostId'' TString, tagged ''restartPolicy'' (TPtr (TStruct ''RestartPolicy'')),
     tagged ''runInit'' TBool, tagged ''securityOpt'' (TSlice TString), tagged ''serviceId'' TString,
     tagged ''serviceIds'' (TSlice TString), tagged ''shmSize'' TInt, tagged ''stackId'' TString,
     tagged ''startCount'' TInt, tagged ''startOnCreate'' TBool, tagged ''state'' TString,
     tagged ''stopSignal'' TString, tagged ''stopTimeout'' TInt, tagged ''storageOpt'' (TMap TAny),
     tagged ''sysctls'' (TMap TAny), tagged ''system'' TBool, tagged ''tmpfs'' (TMap TAny),
     tagged ''token'' TString, tagged ''transitioning'' TString, tagged ''transitioningMessage'' TString,
     tagged ''transitioningProgress'' TInt, tagged ''ulimits'' (TSlice (TStruct ''Ulimit'')),
     tagged ''userPorts'' (TSlice TString), tagged ''userdata'' TString, tagged ''usernsMode'' TString,
     tagged ''uts'' TString, tagged ''uuid'' TString, tagged ''vcpu'' TInt, tagged ''version'' TString,
     tagged ''volumeDriver'' TString]"

definition VirtualMachine_client :: typed_client where
  "VirtualMachine_client = \<lparr>tc_Type = ''virtualMachine'', tc_Struct = ''VirtualMachine'', tc_Fields = VirtualMachine_fields,
     tc_Actions = [act ''allocate'' None ''Instance'', act ''console'' (Some ''InstanceConsoleInput'') ''InstanceConsole'',
       act ''create'' None ''Instance'', act ''deallocate'' None ''Instance'', act ''error'' None ''Instance'',
       act ''execute'' (Some ''ContainerExec'') ''HostAccess'',
       act ''logs'' (Some ''ContainerLogs'') ''HostAccess'', act ''migrate'' None ''Instance'',
       act ''proxy'' (Some ''ContainerProxy'') ''HostAccess'', act ''purge'' None ''Instance'',
       act ''remove'' None ''Instance'', act ''restart'' None ''Instance'', act ''start'' None ''Instance'',
       act ''stop'' (Some ''InstanceStop'') ''Instance'', act ''update'' None ''Instance'',
       act ''updatehealthy'' None ''Instance'', act ''updatereinitializing'' None ''Instance'',
       act ''updateunhealthy'' None ''Instance'']\<rparr>"

definition VirtualMachineDisk_fields :: "field list" where
  "VirtualMachineDisk_fields = [tagged ''driver'' TString, tagged ''name'' TString, tagged ''opts'' (TMap TAny), tagged ''readIops'' TInt,
     tagged ''root'' TBool, tagged ''size'' TString, tagged ''writeIops'' TInt]"

definition VirtualMachineDisk_client :: typed_client where
  "VirtualMachineDisk_client = \<lparr>tc_Type = ''virtualMachineDisk'', tc_Struct = ''VirtualMachineDisk'', tc_Fields = VirtualMachineDisk_fields,
     tc_Actions = []\<rparr>"

definition Volume_fields :: "field list" where
  "Volume_fields = [tagged ''accessMode'' TString, tagged ''accountId'' TString, tagged ''created'' TString,
     tagged ''data'' (TMap TAny), tagged ''description'' TString, tagged ''driver'' TString,
     tagged ''driverOpts'' (TMap TAny), tagged ''externalId'' TString, tagged ''hostId'' TString,
     tagged ''imageId'' TString, tagged ''instanceId'' TString, tagged ''isHostPath'' TBool,
     tagged ''kind'' TString, tagged ''mounts'' (TSlice (TStruct ''MountEntry'')), tagged ''name'' TString,
     tagged ''removeTime'' TString, tagged ''removed'' TString, tagged ''sizeMb'' TInt,
     tagged ''stackId'' TString, tagged ''state'' TString, tagged ''storageDriverId'' TString,
     tagged ''transitioning'' TString, tagged ''transitioningMessage'' TString,
     tagged ''transitioningProgress'' TInt, tagged ''uri'' TString, tagged ''uuid'' TString,
     tagged ''volumeTemplateId'' TString]"

definition Volume_client :: typed_client where
  "Volume_client = \<lparr>tc_Type = ''volume'', tc_Struct = ''Volume'', tc_Fields = Volume_fields,
     tc_Actions = [act ''allocate'' None ''Volume'', act ''create'' None ''Volume'', act ''deallocate'' None ''Volume'',
       act ''purge'' None ''Volume'', act ''remove'' None ''Volume'',
       act ''restorefrombackup'' (Some ''RestoreFromBackupInput'') ''Volume'',
       act ''reverttosnapshot'' (Some ''RevertToSnapshotInput'') ''Volume'',
       act ''snapshot'' (Some ''VolumeSnapshotInput'') ''Snapshot'', act ''update'' None ''Volume'']\<rparr>"

definition VolumeActivateInput_fields :: "field list" where
  "VolumeActivateInput_fields = [tagged ''hostId'' TString]"

definition VolumeActivateInput_client :: typed_client where
  "VolumeActivateInput_client = \<lparr>tc_Type = ''volumeActivateInput'', tc_Struct = ''VolumeActivateInput'', tc_Fields = VolumeActivateInput_fields,
     tc_Actions = []\<rparr>"

definition VolumeSnapshotInput_fields :: "field list" where
  "VolumeSnapshotInput_fields = [tagged ''name'' TString]"

definition VolumeSnapshotInput_client :: typed_client where
  "VolumeSnapshotInput_client = \<lparr>tc_Type = ''volumeSnapshotInput'', tc_Struct = ''VolumeSnapshotInput'', tc_Fields = VolumeSnapshotInput_fields,
     tc_Actions = []\<rparr>"

definition VolumeTemplate_fields :: "field list" where
  "VolumeTemplate_fields = [tagged ''accountId'' TString, tagged ''created'' TString, tagged ''data'' (TMap TAny),
     tagged ''description'' TString, tagged ''driver'' TString, tagged ''driverOpts'' (TMap TAny),
     tagged ''external'' TBool, tagged ''kind'' TString, tagged ''name'' TString, tagged ''perContainer'' TBool,
     tagged ''removeTime'' TString, tagged ''removed'' TString, tagged ''stackId'' TString,
     tagged ''state'' TString, tagged ''transitioning'' TString, tagged ''transitioningMessage'' TString,
     tagged ''transitioningProgress'' TInt, tagged ''uuid'' TString]"

definition VolumeTemplate_client :: typed_client where
  "VolumeTemplate_client = \<lparr>tc_Type = ''volumeTemplate'', tc_Struct = ''VolumeTemplate'', tc_Fields = VolumeTemplate_fields,
     tc_Actions = [act ''activate'' None ''VolumeTemplate'', act ''create'' None ''VolumeTemplate'',
       act ''deactivate'' None ''VolumeTemplate'', act ''purge'' None ''VolumeTemplate'',
       act ''remove'' None ''VolumeTemplate'', act ''update'' None ''VolumeTemplate'']\<rparr>"

definition S_Z_clients :: "typed_client list" where
  "S_Z_clients = [ScalePolicy_client, ScheduledUpgrade_client, SecondaryLaunchConfig_client, Secret_client,
     SecretReference_client, Service_client, ServiceBinding_client, ServiceConsumeMap_client,
     ServiceEvent_client, ServiceExposeMap_client, ServiceLink_client, ServiceLog_client, ServiceProxy_client,
     ServiceRestart_client, ServiceUpgrade_client, ServiceUpgradeStrategy_client, ServicesPortRange_client,
     SetProjectMembersInput_client, SetServiceLinksInput_client, Setting_client, Snapshot_client,
     SnapshotBackupInput_client, Stack_client, StackUpgrade_client, StateTransition_client, StatsAccess_client,
     StorageDriver_client, StorageDriverService_client, StoragePool_client, Subnet_client,
     TargetPortRule_client, Task_client, TaskInstance_client, ToServiceUpgradeStrategy_client,
     TypeDocumentation_client, Ulimit_client, UserPreference_client, VirtualMachine_client,
     VirtualMachineDisk_client, Volume_client, VolumeActivateInput_client, VolumeSnapshotInput_client,
     VolumeTemplate_client]"

lemmas S_Z_client_defs =
  ScalePolicy_client_def ScheduledUpgrade_client_def SecondaryLaunchConfig_client_def Secret_client_def
  SecretReference_client_def Service_client_def ServiceBinding_client_def ServiceConsumeMap_client_def
  ServiceEvent_client_def ServiceExposeMap_client_def ServiceLink_client_def ServiceLog_client_def
  ServiceProxy_client_def ServiceRestart_client_def ServiceUpgrade_client_def ServiceUpgradeStrategy_client_def
  ServicesPortRange_client_def SetProjectMembersInput_client_def SetServiceLinksInput_client_def
  Setting_client_def Snapshot_client_def SnapshotBackupInput_client_def Stack_client_def StackUpgrade_client_def
  StateTransition_client_def StatsAccess_client_def StorageDriver_client_def StorageDriverService_client_def
  StoragePool_client_def Subnet_client_def TargetPortRule_client_def Task_client_def TaskInstance_client_def
  ToServiceUpgradeStrategy_client_def TypeDocumentation_client_def Ulimit_client_def UserPreference_client_def
  VirtualMachine_client_def VirtualMachineDisk_client_def Volume_client_def VolumeActivateInput_client_def
  VolumeSnapshotInput_client_def VolumeTemplate_client_def

lemmas S_Z_field_defs =
  ScalePolicy_fields_def ScheduledUpgrade_fields_def SecondaryLaunchConfig_fields_def Secret_fields_def
  SecretReference_fields_def Service_fields_def ServiceBinding_fields_def ServiceConsumeMap_fields_def
  ServiceEvent_fields_def ServiceExposeMap_fields_def ServiceLink_fields_def ServiceLog_fields_def
  ServiceProxy_fields_def ServiceRestart_fields_def ServiceUpgrade_fields_def ServiceUpgradeStrategy_fields_def
  ServicesPortRange_fields_def SetProjectMembersInput_fields_def SetServiceLinksInput_fields_def
  Setting_fields_def Snapshot_fields_def SnapshotBackupInput_fields_def Stack_fields_def StackUpgrade_fields_def
  StateTransition_fields_def StatsAccess_fields_def StorageDriver_fields_def StorageDriverService_fields_def
  StoragePool_fields_def Subnet_fields_def TargetPortRule_fields_def Task_fields_def TaskInstance_fields_def
  ToServiceUpgradeStrategy_fields_def TypeDocumentation_fields_def Ulimit_fields_def UserPreference_fields_def
  VirtualMachine_fields_def VirtualMachineDisk_fields_def Volume_fields_def VolumeActivateInput_fields_def
  VolumeSnapshotInput_fields_def VolumeTemplate_fields_def

lemma S_Z_names:
  "map tc_Struct S_Z_clients = [''ScalePolicy'', ''ScheduledUpgrade'', ''SecondaryLaunchConfig'', ''Secret'', ''SecretReference'', ''Service'',
     ''ServiceBinding'', ''ServiceConsumeMap'', ''ServiceEvent'', ''ServiceExposeMap'', ''ServiceLink'',
     ''ServiceLog'', ''ServiceProxy'', ''ServiceRestart'', ''ServiceUpgrade'', ''ServiceUpgradeStrategy'',
     ''ServicesPortRange'', ''SetProjectMembersInput'', ''SetServiceLinksInput'', ''Setting'', ''Snapshot'',
     ''SnapshotBackupInput'', ''Stack'', ''StackUpgrade'', ''StateTransition'', ''StatsAccess'',
     ''StorageDriver'', ''StorageDriverService'', ''StoragePool'', ''Subnet'', ''TargetPortRule'', ''Task'',
     ''TaskInstance'', ''ToServiceUpgradeStrategy'', ''TypeDocumentation'', ''Ulimit'', ''UserPreference'',
     ''VirtualMachine'', ''VirtualMachineDisk'', ''Volume'', ''VolumeActivateInput'', ''VolumeSnapshotInput'',
     ''VolumeTemplate'']"
  by (simp add: S_Z_clients_def S_Z_client_defs)

lemma S_Z_names_ok: "list_all names_ok S_Z_clients"
  by (simp add: S_Z_clients_def S_Z_client_defs S_Z_field_defs names_ok_def less_char_def)

end
