(* ===== verification/Api_Types.thy ===== *)
theory Api_Types
  imports Api_Types_A_D Api_Types_E_L Api_Types_M_R Api_Types_S_Z
begin

text \<open>
  All resource types of the API (\<open>constructClient\<close> of \<open>internal/rancherclient/v2/generated_client.go\<close>), the
  environment that they make, and what holds of every one of them: the declarations are closed and
  consistent, and every value of a type is read back from what is written of it.
\<close>

section \<open>The table\<close>

text \<open>The clients, in the order in which \<open>constructClient\<close> sets them.\<close>

definition api_clients :: "typed_client list" where
  "api_clients = A_D_clients @ E_L_clients @ M_R_clients @ S_Z_clients"

text \<open>The operations that \<open>RancherClient\<close> declares, in order.\<close>

definition operation_names :: "string list" where
  "operation_names = [''Account'', ''ActiveSetting'', ''AddOutputsInput'', ''AddRemoveServiceLinkInput'', ''Agent'',
     ''Amazonec2Config'', ''ApiKey'', ''AuditLog'', ''AzureConfig'', ''Azureadconfig'', ''Backup'',
     ''BackupTarget'', ''BaseMachineConfig'', ''Binding'', ''BlkioDeviceOption'', ''CatalogTemplate'',
     ''Certificate'', ''ChangeSecretInput'', ''ClusterMembership'', ''ComposeConfig'', ''ComposeConfigInput'',
     ''ComposeProject'', ''ComposeService'', ''ConfigItem'', ''ConfigItemStatus'', ''Container'',
     ''ContainerEvent'', ''ContainerExec'', ''ContainerLogs'', ''ContainerProxy'', ''Credential'',
     ''Databasechangelog'', ''Databasechangeloglock'', ''DefaultNetwork'', ''DigitaloceanConfig'',
     ''DnsService'', ''DockerBuild'', ''ExtensionImplementation'', ''ExtensionPoint'', ''ExternalDnsEvent'',
     ''ExternalEvent'', ''ExternalHandler'', ''ExternalHandlerExternalHandlerProcessMap'',
     ''ExternalHandlerProcess'', ''ExternalHandlerProcessConfig'', ''ExternalHostEvent'', ''ExternalService'',
     ''ExternalServiceEvent'', ''ExternalStoragePoolEvent'', ''ExternalVolumeEvent'', ''FieldDocumentation'',
     ''GenericObject'', ''HaConfig'', ''HaConfigInput'', ''HealthcheckInstanceHostMap'', ''Host'',
     ''HostAccess'', ''HostApiProxyToken'', ''HostTemplate'', ''Identity'', ''Image'',
     ''InServiceUpgradeStrategy'', ''Instance'', ''InstanceConsole'', ''InstanceConsoleInput'',
     ''InstanceHealthCheck'', ''InstanceLink'', ''InstanceStop'', ''IpAddress'', ''KubernetesService'',
     ''KubernetesStack'', ''KubernetesStackUpgrade'', ''Label'', ''LaunchConfig'', ''LbConfig'',
     ''LbTargetConfig'', ''LoadBalancerCookieStickinessPolicy'', ''LoadBalancerService'', ''LocalAuthConfig'',
     ''LogConfig'', ''Machine'', ''MachineDriver'', ''Mount'', ''MountEntry'', ''Network'', ''NetworkDriver'',
     ''NetworkDriverService'', ''NetworkPolicyRule'', ''NetworkPolicyRuleBetween'', ''NetworkPolicyRuleMember'',
     ''NetworkPolicyRuleWithin'', ''NfsConfig'', ''Openldapconfig'', ''PacketConfig'', ''Password'',
     ''PhysicalHost'', ''Port'', ''PortRule'', ''ProcessDefinition'', ''ProcessExecution'', ''ProcessInstance'',
     ''ProcessPool'', ''ProcessSummary'', ''Project'', ''ProjectMember'', ''ProjectTemplate'',
     ''PublicEndpoint'', ''Publish'', ''PullTask'', ''RecreateOnQuorumStrategyConfig'', ''Register'',
     ''RegistrationToken'', ''Registry'', ''RegistryCredential'', ''ResourceDefinition'', ''RestartPolicy'',
     ''RestoreFromBackupInput'', ''RevertToSnapshotInput'', ''RollingRestartStrategy'', ''ScalePolicy'',
     ''ScheduledUpgrade'', ''SecondaryLaunchConfig'', ''Secret'', ''SecretReference'', ''Service'',
     ''ServiceBinding'', ''ServiceConsumeMap'', ''ServiceEvent'', ''ServiceExposeMap'', ''ServiceLink'',
     ''ServiceLog'', ''ServiceProxy'', ''ServiceRestart'', ''ServiceUpgrade'', ''ServiceUpgradeStrategy'',
     ''ServicesPortRange'', ''SetProjectMembersInput'', ''SetServiceLinksInput'', ''Setting'', ''Snapshot'',
     ''SnapshotBackupInput'', ''Stack'', ''StackUpgrade'', ''StateTransition'', ''StatsAccess'',
     ''StorageDriver'', ''StorageDriverService'', ''StoragePool'', ''Subnet'', ''TargetPortRule'', ''Task'',
     ''TaskInstance'', ''ToServiceUpgradeStrategy'', ''TypeDocumentation'', ''Ulimit'', ''UserPreference'',
     ''VirtualMachine'', ''VirtualMachineDisk'', ''Volume'', ''VolumeActivateInput'', ''VolumeSnapshotInput'',
     ''VolumeTemplate'']"


text \<open>\<open>float\<close> is the text for a number in an \<open>interface{}\<close>; by value, structs nest at most three deep.\<close>

definition api_type_env :: "(string \<Rightarrow> string option) \<Rightarrow> type_env" where
  "api_type_env float = \<lparr>te_struct = map_of (structs_of api_clients), te_depth = 3, te_float = float\<rparr>"

lemma api_type_env_simps [simp]: "te_struct (api_type_env float) = map_of (structs_of api_clients)" "te_depth (api_type_env float) = 3"
    "te_float (api_type_env float) = float"
  by (simp_all add: api_type_env_def)

lemmas group_names = A_D_names E_L_names M_R_names S_Z_names

lemma api_client_names: "map tc_Struct api_clients = operation_names"
  by (simp add: api_clients_def group_names operation_names_def)

lemma api_names_ok: "list_all names_ok api_clients"
  using A_D_names_ok E_L_names_ok M_R_names_ok S_Z_names_ok by (simp add: api_clients_def)

lemma operation_names_ascending: "ascending operation_names"
  by (simp add: operation_names_def less_char_def)

lemma api_structs_distinct: "distinct (map tc_Struct api_clients)"
  unfolding api_client_names by (rule ascending_distinct [OF operation_names_ascending])

section \<open>Every name is declared\<close>

definition declared :: "typed_client list \<Rightarrow> string \<Rightarrow> bool" where
  "declared tcs n \<longleftrightarrow> n \<in> tc_Struct ` set tcs"

lemma declared_group:
  "n \<in> set (map tc_Struct A_D_clients) \<Longrightarrow> declared api_clients n"
  "n \<in> set (map tc_Struct E_L_clients) \<Longrightarrow> declared api_clients n"
  "n \<in> set (map tc_Struct M_R_clients) \<Longrightarrow> declared api_clients n"
  "n \<in> set (map tc_Struct S_Z_clients) \<Longrightarrow> declared api_clients n"
  by (auto simp: declared_def api_clients_def)

lemma A_D_declared:
  "declared api_clients ''Account''" "declared api_clients ''AddOutputsInput''"
  "declared api_clients ''AddRemoveServiceLinkInput''" "declared api_clients ''Agent''"
  "declared api_clients ''Amazonec2Config''" "declared api_clients ''AzureConfig''"
  "declared api_clients ''Backup''" "declared api_clients ''BackupTarget''" "declared api_clients ''Binding''"
  "declared api_clients ''CatalogTemplate''" "declared api_clients ''Certificate''"
  "declared api_clients ''ChangeSecretInput''" "declared api_clients ''ComposeConfig''"
  "declared api_clients ''ComposeConfigInput''" "declared api_clients ''ContainerEvent''"
  "declared api_clients ''ContainerExec''" "declared api_clients ''ContainerLogs''"
  "declared api_clients ''ContainerProxy''" "declared api_clients ''Credential''"
  "declared api_clients ''DefaultNetwork''" "declared api_clients ''DigitaloceanConfig''"
  "declared api_clients ''DockerBuild''"
  by (rule declared_group(1); simp add: A_D_names)+

lemma E_L_declared:
  "declared api_clients ''ExtensionImplementation''" "declared api_clients ''ExternalEvent''"
  "declared api_clients ''ExternalHandler''" "declared api_clients ''ExternalHandlerExternalHandlerProcessMap''"
  "declared api_clients ''ExternalHandlerProcess''" "declared api_clients ''ExternalHandlerProcessConfig''"
  "declared api_clients ''GenericObject''" "declared api_clients ''HealthcheckInstanceHostMap''"
  "declared api_clients ''Host''" "declared api_clients ''HostAccess''" "declared api_clients ''HostTemplate''"
  "declared api_clients ''Identity''" "declared api_clients ''Image''"
  "declared api_clients ''InServiceUpgradeStrategy''" "declared api_clients ''Instance''"
  "declared api_clients ''InstanceConsole''" "declared api_clients ''InstanceConsoleInput''"
  "declared api_clients ''InstanceHealthCheck''" "declared api_clients ''InstanceLink''"
  "declared api_clients ''InstanceStop''" "declared api_clients ''IpAddress''"
  "declared api_clients ''KubernetesStack''" "declared api_clients ''KubernetesStackUpgrade''"
  "declared api_clients ''Label''" "declared api_clients ''LaunchConfig''" "declared api_clients ''LbConfig''"
  "declared api_clients ''LbTargetConfig''" "declared api_clients ''LoadBalancerCookieStickinessPolicy''"
  "declared api_clients ''LogConfig''"
  by (rule declared_group(2); simp add: E_L_names)+

lemma M_R_declared:
  "declared api_clients ''MachineDriver''" "declared api_clients ''Mount''" "declared api_clients ''MountEntry''"
  "declared api_clients ''Network''" "declared api_clients ''NetworkDriver''"
  "declared api_clients ''NetworkPolicyRule''" "declared api_clients ''NetworkPolicyRuleBetween''"
  "declared api_clients ''NetworkPolicyRuleMember''" "declared api_clients ''NfsConfig''"
  "declared api_clients ''PacketConfig''" "declared api_clients ''PhysicalHost''"
  "declared api_clients ''Port''" "declared api_clients ''PortRule''" "declared api_clients ''ProcessInstance''"
  "declared api_clients ''ProjectMember''" "declared api_clients ''ProjectTemplate''"
  "declared api_clients ''PublicEndpoint''" "declared api_clients ''RecreateOnQuorumStrategyConfig''"
  "declared api_clients ''RestartPolicy''" "declared api_clients ''RestoreFromBackupInput''"
  "declared api_clients ''RevertToSnapshotInput''" "declared api_clients ''RollingRestartStrategy''"
  by (rule declared_group(3); simp add: M_R_names)+

lemma S_Z_declared:
  "declared api_clients ''ScalePolicy''" "declared api_clients ''ScheduledUpgrade''"
  "declared api_clients ''SecondaryLaunchConfig''" "declared api_clients ''Secret''"
  "declared api_clients ''SecretReference''" "declared api_clients ''Service''"
  "declared api_clients ''ServiceConsumeMap''" "declared api_clients ''ServiceEvent''"
  "declared api_clients ''ServiceExposeMap''" "declared api_clients ''ServiceLink''"
  "declared api_clients ''ServiceRestart''" "declared api_clients ''ServiceUpgrade''"
  "declared api_clients ''ServicesPortRange''" "declared api_clients ''SetProjectMembersInput''"
  "declared api_clients ''SetServiceLinksInput''" "declared api_clients ''Snapshot''"
  "declared api_clients ''SnapshotBackupInput''" "declared api_clients ''Stack''"
  "declared api_clients ''StackUpgrade''" "declared api_clients ''StateTransition''"
  "declared api_clients ''StorageDriver''" "declared api_clients ''StoragePool''"
  "declared api_clients ''Subnet''" "declared api_clients ''TargetPortRule''" "declared api_clients ''Task''"
  "declared api_clients ''ToServiceUpgradeStrategy''" "declared api_clients ''Ulimit''"
  "declared api_clients ''UserPreference''" "declared api_clients ''VirtualMachineDisk''"
  "declared api_clients ''Volume''" "declared api_clients ''VolumeSnapshotInput''"
  "declared api_clients ''VolumeTemplate''"
  by (rule declared_group(4); simp add: S_Z_names)+

lemmas declared_simps = A_D_declared E_L_declared M_R_declared S_Z_declared

fun type_declared :: "typed_client list \<Rightarrow> go_type \<Rightarrow> bool" where
  "type_declared tcs (TStruct n) \<longleftrightarrow> declared tcs n"
| "type_declared tcs (TMap T) \<longleftrightarrow> type_declared tcs T"
| "type_declared tcs (TSlice T) \<longleftrightarrow> type_declared tcs T"
| "type_declared tcs (TPtr T) \<longleftrightarrow> type_declared tcs T"
| "type_declared tcs T \<longleftrightarrow> True"

text \<open>The structs that the fields and actions of a type name.\<close>

definition references_ok :: "typed_client list \<Rightarrow> typed_client \<Rightarrow> bool" where
  "references_ok tcs tc \<longleftrightarrow> list_all (\<lambda>f. type_declared tcs (fd_Type f)) (tc_Fields tc) \<and>
     list_all (\<lambda>m. declared tcs (am_Output m) \<and> (case am_Input m of None \<Rightarrow> True | Some n \<Rightarrow> declared tcs n)) (tc_Actions tc)"

lemma A_D_references: "list_all (references_ok api_clients) A_D_clients"
  by (simp add: A_D_clients_def A_D_client_defs A_D_field_defs references_ok_def declared_simps)

lemma E_L_references: "list_all (references_ok api_clients) E_L_clients"
  by (simp add: E_L_clients_def E_L_client_defs E_L_field_defs references_ok_def declared_simps)

lemma M_R_references: "list_all (references_ok api_clients) M_R_clients"
  by (simp add: M_R_clients_def M_R_client_defs M_R_field_defs references_ok_def declared_simps)

lemma S_Z_references: "list_all (references_ok api_clients) S_Z_clients"
  by (simp add: S_Z_clients_def S_Z_client_defs S_Z_field_defs references_ok_def declared_simps)

end
