(* ===== verification/Api_Codec.thy ===== *)
theory Api_Codec
  imports Api_Types
begin

text \<open>
  The declarations of the API are closed, and so every resource type is written and read back
  without loss: the typed clients exchange values with the control plane, not only bytes.
\<close>

section \<open>Looking up structs\<close>

lemma operation_names_fresh: "''Pagination'' \<notin> set operation_names" "''Sort'' \<notin> set operation_names"
    "''Condition'' \<notin> set operation_names"
  by (simp_all add: operation_names_def)

lemma struct_name_declared: "tc \<in> set api_clients \<Longrightarrow> tc_Struct tc \<in> set operation_names"
  unfolding api_client_names [symmetric] by simp

lemma map_of_structs: "tc \<in> set tcs \<Longrightarrow> distinct (map tc_Struct tcs) \<Longrightarrow>
    map_of (map resource_struct tcs) (tc_Struct tc) = Some (Resource_fields @ tc_Fields tc)"
  by (rule map_of_is_SomeI) (auto simp: resource_struct_def comp_def)

lemma struct_lookup:
  assumes "tc \<in> set api_clients"
  shows "map_of (structs_of api_clients) (tc_Struct tc) = Some (Resource_fields @ tc_Fields tc)"
proof -
  have "tc_Struct tc \<notin> {''Pagination'', ''Sort'', ''Condition''}"
    using struct_name_declared [OF assms] operation_names_fresh by auto
  then show ?thesis
    using map_of_structs [OF assms api_structs_distinct] by (simp add: structs_of_def base_structs_def map_add_def)
qed

lemma api_struct_fields: "tc \<in> set api_clients \<Longrightarrow> struct_fields (api_type_env float) (tc_Struct tc) = Resource_fields @ tc_Fields tc"
  by (simp add: struct_fields_def struct_lookup)

text \<open>The structs that are fields by value.\<close>

lemma closed_named:
  assumes "tc \<in> set api_clients" and "tc_Struct tc = n"
    and "list_all (\<lambda>f. closed (api_type_env float) d (fd_Type f)) (tc_Fields tc)"
  shows "closed (api_type_env float) (Suc d) (TStruct n)"
  using assms api_struct_fields [OF assms(1)] by (auto simp: Resource_fields_def)

lemmas api_groups = api_clients_def A_D_clients_def E_L_clients_def M_R_clients_def S_Z_clients_def

lemma in_group: "tc \<in> set A_D_clients \<union> set E_L_clients \<union> set M_R_clients \<union> set S_Z_clients \<Longrightarrow> tc \<in> set api_clients"
  by (auto simp: api_clients_def)

lemma in_api_clients:
  "ServiceLink_client \<in> set api_clients"
  "Binding_client \<in> set api_clients"
  "StoragePool_client \<in> set api_clients"
  "Volume_client \<in> set api_clients"
  "DefaultNetwork_client \<in> set api_clients"
  "NetworkPolicyRuleBetween_client \<in> set api_clients"
  "NetworkPolicyRuleMember_client \<in> set api_clients"
  "RollingRestartStrategy_client \<in> set api_clients"
  "StorageDriver_client \<in> set api_clients"
  "NetworkDriver_client \<in> set api_clients"
  by (simp_all add: api_groups)

lemma closed_leaves:
  "closed (api_type_env float) (Suc d) (TStruct ''ServiceLink'')"
  "closed (api_type_env float) (Suc d) (TStruct ''Binding'')"
  "closed (api_type_env float) (Suc d) (TStruct ''StoragePool'')"
  "closed (api_type_env float) (Suc d) (TStruct ''Volume'')"
  "closed (api_type_env float) (Suc d) (TStruct ''DefaultNetwork'')"
  "closed (api_type_env float) (Suc d) (TStruct ''NetworkPolicyRuleBetween'')"
  "closed (api_type_env float) (Suc d) (TStruct ''NetworkPolicyRuleMember'')"
  "closed (api_type_env float) (Suc d) (TStruct ''RollingRestartStrategy'')"
  "closed (api_type_env float) (Suc d) (TStruct ''StorageDriver'')"
  by (rule closed_named, rule in_api_clients; simp add: ServiceLink_client_def ServiceLink_fields_def Binding_client_def Binding_fields_def StoragePool_client_def StoragePool_fields_def Volume_client_def Volume_fields_def DefaultNetwork_client_def DefaultNetwork_fields_def NetworkPolicyRuleBetween_client_def NetworkPolicyRuleBetween_fields_def NetworkPolicyRuleMember_client_def NetworkPolicyRuleMember_fields_def RollingRestartStrategy_client_def RollingRestartStrategy_fields_def StorageDriver_client_def StorageDriver_fields_def)+

lemma closed_NetworkDriver: "closed (api_type_env float) (Suc (Suc d)) (TStruct ''NetworkDriver'')"
  by (rule closed_named [OF in_api_clients(10)])
    (simp_all add: NetworkDriver_client_def NetworkDriver_fields_def closed_leaves del: closed.simps(2))

lemmas closed_by_value = closed_leaves [of _ "Suc 0"] closed_NetworkDriver [of _ 0]

text \<open>Fields are no structs, or those: three levels are enough.\<close>

definition shallow :: "typed_client \<Rightarrow> bool" where
  "shallow tc \<longleftrightarrow> list_all (\<lambda>f. closed (api_type_env (\<lambda>_. None)) (Suc (Suc 0)) (fd_Type f)) (tc_Fields tc)"

lemma closed_float: "closed (api_type_env float) d T \<longleftrightarrow> closed (api_type_env float') d T"
proof (induction "api_type_env float" d T rule: closed.induct)
  case (2 d n)
  then show ?case by (simp add: struct_fields_def list_all_iff)
qed simp_all

lemma groups_shallow:
  "list_all shallow A_D_clients" "list_all shallow E_L_clients" "list_all shallow M_R_clients" "list_all shallow S_Z_clients"
  by (simp_all add: A_D_clients_def A_D_client_defs A_D_field_defs E_L_clients_def E_L_client_defs E_L_field_defs
      M_R_clients_def M_R_client_defs M_R_field_defs S_Z_clients_def S_Z_client_defs S_Z_field_defs
      shallow_def closed_by_value del: closed.simps(2))

lemma api_shallow: "tc \<in> set api_clients \<Longrightarrow> list_all (\<lambda>f. closed (api_type_env float) (Suc (Suc 0)) (fd_Type f)) (tc_Fields tc)"
  using groups_shallow closed_float [of float "Suc (Suc 0)" _ "\<lambda>_. None"]
  by (auto simp: list_all_iff shallow_def api_clients_def)

section \<open>The declarations are closed\<close>

lemma api_entry:
  assumes "map_of (structs_of api_clients) n = Some fs"
  shows "distinct (map fd_Key fs) \<and> list_all (\<lambda>f. closed (api_type_env float) (Suc (Suc 0)) (fd_Type f)) fs"
proof -
  from map_of_SomeD [OF assms] consider (base) "(n, fs) \<in> set base_structs"
    | (res) tc where "tc \<in> set api_clients" "fs = Resource_fields @ tc_Fields tc"
    | (coll) tc where "tc \<in> set api_clients" "fs = Collection_fields @ [tagged ''data'' (TSlice (TStruct (tc_Struct tc)))]"
    by (auto simp: structs_of_def resource_struct_def collection_struct_def)
  then show ?thesis
  proof cases
    case base
    then show ?thesis by (auto simp: base_structs_def Pagination_fields_def Sort_fields_def Condition_fields_def)
  next
    case res
    then have "names_ok tc" using api_names_ok by (simp add: list_all_iff)
    with names_ok_distinct api_shallow [OF res(1)] res(2) show ?thesis by (simp add: Resource_fields_def)
  next
    case coll
    then show ?thesis by (simp add: Collection_fields_def)
  qed
qed

lemma api_wf: "wf_env (api_type_env float)"
  unfolding wf_env_def using api_entry [of _ _ float]
  by (auto simp: struct_fields_def numeral_3_eq_3)

lemma api_type_names: "ascending (map tc_Type api_clients)"
  by (simp add: api_groups A_D_client_defs E_L_client_defs M_R_client_defs S_Z_client_defs less_char_def)

text \<open>
  C39 The generated declarations fit together: every struct that a field or an action names is declared;
  no two types share a struct or an API name, no two fields of a struct a JSON name, no two actions
  of a type a name; structs nest by value to a fixed depth; and exactly the operations that
  \<open>RancherClient\<close> declares are constructed, so no operation of a client is nil.
\<close>

theorem api_declarations_closed:
  "wf_env (api_type_env float) \<and> map tc_Struct api_clients = operation_names \<and> distinct operation_names \<and>
   distinct (map tc_Type api_clients) \<and> list_all (references_ok api_clients) api_clients \<and>
   list_all (\<lambda>tc. distinct (map am_Action (tc_Actions tc))) api_clients"
proof (intro conjI)
  show "wf_env (api_type_env float)" by (rule api_wf)
  show "map tc_Struct api_clients = operation_names" by (rule api_client_names)
  show "distinct operation_names" by (rule ascending_distinct [OF operation_names_ascending])
  show "distinct (map tc_Type api_clients)" by (rule ascending_distinct [OF api_type_names])
  show "list_all (references_ok api_clients) api_clients"
    using A_D_references E_L_references M_R_references S_Z_references by (simp add: api_clients_def)
  show "list_all (\<lambda>tc. distinct (map am_Action (tc_Actions tc))) api_clients"
    using api_names_ok names_ok_actions by (auto simp: list_all_iff)
qed

section \<open>Values survive the exchange\<close>

lemmas marshallable_back = decode_doc_Marshal [OF api_wf]


text \<open>A service link in the input of an action: a struct by value, a nil map and one with an entry.\<close>

definition demo_link :: go_value where
  "demo_link = VStruct [VString [], VString ''addRemoveServiceLinkInput'', VMap None, VMap (Some [(''remove'', VString ''http://c/x'')]),
     VStruct [VString ''1s2'', VString [], VMap None, VMap None, VString ''db'', VString [], VString ''1s7'', VString []]]"

lemma demo_link_fields:
  "struct_fields (api_type_env float) ''ServiceLink'' = Resource_fields @ ServiceLink_fields"
  "struct_fields (api_type_env float) ''AddRemoveServiceLinkInput'' = Resource_fields @ AddRemoveServiceLinkInput_fields"
proof -
  have "AddRemoveServiceLinkInput_client \<in> set api_clients" by (simp add: api_groups)
  from api_struct_fields [OF this] api_struct_fields [OF in_api_clients(1)]
  show "struct_fields (api_type_env float) ''ServiceLink'' = Resource_fields @ ServiceLink_fields"
    "struct_fields (api_type_env float) ''AddRemoveServiceLinkInput'' = Resource_fields @ AddRemoveServiceLinkInput_fields"
    by (simp_all add: ServiceLink_client_def AddRemoveServiceLinkInput_client_def)
qed

lemma demo_link_ok: "marshallable (api_type_env float) (TStruct ''AddRemoveServiceLinkInput'') demo_link"
  by (simp add: marshallable_def demo_link_def demo_link_fields Resource_fields_def ServiceLink_fields_def
      AddRemoveServiceLinkInput_fields_def maxNestingDepth_def)


end
