(* ===== verification/Api_Calls.thy ===== *)
theory Api_Calls
  imports Api_Codec
begin

text \<open>
  The methods of the typed clients at work: where their requests go, what they carry, and that the
  value that a method is given is the value that the control plane receives.
\<close>

section \<open>Bodies\<close>

text \<open>What is sent has the body, or none after a redirect that drops it.\<close>

definition carries :: "string option \<Rightarrow> 'w api_io \<Rightarrow> 'w api_io \<Rightarrow> bool" where
  "carries body io io' \<longleftrightarrow> (\<exists>xs. ax_sent io' = ax_sent io @ xs \<and> (\<forall>x \<in> set xs. rq_Body x = body \<or> rq_Body x = None))"

lemma carries_refl: "carries body io io"
  by (simp add: carries_def)

lemma round_trip_carries: "round_trip env req io = (r, io') \<Longrightarrow> carries (rq_Body req) io io'"
  by (auto simp: round_trip_def carries_def split: if_split_asm prod.split_asm)

lemma next_request_body: "next_request env req resp = Inr (Some req') \<Longrightarrow> rq_Body req' = rq_Body req \<or> rq_Body req' = None"
  by (auto simp: next_request_def split: option.split_asm prod.split_asm if_split_asm)

lemma check_redirect_body: "client_check_redirect env origin req via = Inr req' \<Longrightarrow> rq_Body req' = rq_Body req"
  by (auto simp: client_check_redirect_def Let_def split: if_split_asm sum.split_asm)

lemma carries_trans: "carries b io io1 \<Longrightarrow> carries b' io1 io2 \<Longrightarrow> b' = b \<or> b' = None \<Longrightarrow> carries b io io2"
  unfolding carries_def by fastforce

lemma do_loop_carries: "do_loop env origin via req io = (r, io') \<Longrightarrow> carries (rq_Body req) io io'"
proof (induction env origin via req io arbitrary: r io' rule: do_loop.induct)
  case (1 env origin via req io)
  from 1(2) show ?case
  proof (cases rule: do_loop_cases)
    case (stop a)
    then show ?thesis by (rule round_trip_carries)
  next
    case (again resp io1 req1 req2)
    from 1(1) [OF again(1) [symmetric] refl again(2) refl again(3) again(4)] check_redirect_body [OF again(3)]
      next_request_body [OF again(2)] round_trip_carries [OF again(1)]
    show ?thesis by (auto intro: carries_trans)
  qed
qed

lemma send_request_carries:
  assumes "send_request env c m v body h io = Some (r, io')"
  shows "carries body io io'"
proof -
  have "rq_Body req = body" if "newRequest env c t m v body = Inr req" for t req
    using that by (auto simp: newRequest_def split: option.split_asm sum.split_asm)
  with assms show ?thesis
    by (auto simp: send_request_def client_Do_def carries_refl dest!: do_loop_carries
        split: option.split_asm sum.split_asm prod.split_asm)
qed

lemma doModify_carries: "doModify env c parse m url (Inr body) io = Some (r, io') \<Longrightarrow> carries (Some body) io io'"
  unfolding doModify_def by (auto dest!: map_answer send_request_carries)

lemma doAction_carries:
  assumes "doAction env c parse t a res (Some (Inr body)) io = Some (r, io')"
  shows "carries (Some body) io io'"
  using assms by (auto simp: doAction_def carries_refl split: option.split_asm if_split_asm dest!: map_answer send_request_carries)

lemma typed_Create_carries:
  "typed_Create env c E tc v io = Some (r, io') \<Longrightarrow> carries (Some (Marshal E (TStruct (tc_Struct tc)) v)) io io'"
  unfolding typed_Create_def res_Create_def doCreate_def struct_codec_def
  by (auto simp: carries_refl split: option.split_asm if_split_asm dest!: or_zero_snd doModify_carries)

lemma typed_Action_carries:
  "typed_Action env c E tc m res (Some v) io = Some (r, io') \<Longrightarrow> am_Input m = Some n \<Longrightarrow>
    carries (Some (Marshal E (TStruct n) v)) io io'"
  unfolding typed_Action_def action_body_def
  by (auto simp: Marshal_def dest!: doAction_carries)

text \<open>The value that a method is given: the object of a create, the input of an action.\<close>

inductive sends_value ::
  "'w api_env \<Rightarrow> base_client \<Rightarrow> type_env \<Rightarrow> typed_client \<Rightarrow> string \<Rightarrow> go_value \<Rightarrow> 'w api_io \<Rightarrow> 'w api_io \<Rightarrow> bool"
  for env c E tc where
  create: "typed_Create env c E tc v io = Some (r, io') \<Longrightarrow> sends_value env c E tc (tc_Struct tc) v io io'"
| action: "m \<in> set (tc_Actions tc) \<Longrightarrow> am_Input m = Some n \<Longrightarrow> typed_Action env c E tc m res (Some v) io = Some (r, io') \<Longrightarrow>
    sends_value env c E tc n v io io'"


text \<open>A control plane on which service links can be posted.\<close>

definition link_schema :: Schema where
  "link_schema = lb_schema\<lparr>res_Id := ''addRemoveServiceLinkInput'', sm_CollectionMethods := [''POST''],
     res_Links := [(''collection'', ''http://c/v2-beta/links'')]\<rparr>"

definition link_client :: base_client where
  "link_client = lb_client\<lparr>bc_Types := [(''addRemoveServiceLinkInput'', link_schema)]\<rparr>"

lemma link_create:
  "case doCreate lb_api_env link_client parse ''addRemoveServiceLinkInput'' (Inr body) \<lparr>ax_world = (), ax_sent = []\<rparr> of
     None \<Rightarrow> False | Some (r, io) \<Rightarrow> map rq_Body (ax_sent io) = [Some body]"
  by code_simp

section \<open>Where the requests go\<close>

text \<open>Any method of any of the clients.\<close>

inductive typed_call :: "'w api_env \<Rightarrow> base_client \<Rightarrow> type_env \<Rightarrow> 'w api_io \<Rightarrow> 'w api_io \<Rightarrow> bool" for env c E where
  create: "tc \<in> set api_clients \<Longrightarrow> typed_Create env c E tc v io = Some (r1, io') \<Longrightarrow> typed_call env c E io io'"
| update: "tc \<in> set api_clients \<Longrightarrow> typed_Update env c E tc v u io = Some (r1, io') \<Longrightarrow> typed_call env c E io io'"
| list: "tc \<in> set api_clients \<Longrightarrow> typed_List env c E tc fs io = Some (r2, io') \<Longrightarrow> typed_call env c E io io'"
| page: "tc \<in> set api_clients \<Longrightarrow> typed_Next env c E tc pg io = Some (r3, io') \<Longrightarrow> typed_call env c E io io'"
| by_id: "tc \<in> set api_clients \<Longrightarrow> typed_ById env c E tc i io = Some (r4, io') \<Longrightarrow> typed_call env c E io io'"
| delete: "tc \<in> set api_clients \<Longrightarrow> typed_Delete env c E tc v io = Some (r5, io') \<Longrightarrow> typed_call env c E io io'"
| action: "tc \<in> set api_clients \<Longrightarrow> m \<in> set (tc_Actions tc) \<Longrightarrow> typed_Action env c E tc m v inp io = Some (r1, io') \<Longrightarrow>
    typed_call env c E io io'"

lemma doDelete_resource_once: "doResourceDelete env c T res io = Some (r, io') \<Longrightarrow> sends_once env c io io'"
  by (auto simp: doResourceDelete_def intro: op_once split: option.split_asm if_split_asm)

lemma typed_call_once: "typed_call env c E io io' \<Longrightarrow> sends_once env c io io'"
  by (induction rule: typed_call.induct)
    (auto simp: typed_Create_def typed_Update_def typed_List_def typed_Next_def typed_ById_def typed_Delete_def typed_Action_def
      res_Create_def res_Update_def res_List_def res_Next_def res_ById_def res_Delete_def
      split: option.split_asm if_split_asm dest!: or_zero_snd intro: do_once doAction_once doDelete_resource_once sends_once_refl)

text \<open>Any use of any client by anyone stays at the configured origin and carries its credentials.\<close>

theorem typed_clients_confined:
  assumes laws: "url_laws env" and url: "parse_url env (co_Url opts) = Inr u" and p: "originParts env u = Inr p"
    and s: "setupRancherBaseClient env new_base_client opts io = (Inr (), c, io1)"
    and r: "(typed_call env c E)\<^sup>*\<^sup>* io1 io2"
  shows "\<exists>xs. ax_sent io2 = ax_sent io @ xs \<and>
    (\<forall>x \<in> set xs. originParts env (rq_Url x) = Inr p \<and> request_auth x = basic_auth opts)"
proof -
  from r have "api_rel env c (basic_auth opts) io1 io2"
    by (induction rule: rtranclp_induct) (auto intro: api.rel_refl api.rel_trans api_rel_once typed_call_once)
  with laws setup_confined(1) [OF laws s]
  obtain n where n: "confined_io env (bc_origin c) (basic_auth opts) n io1 io2" by (auto simp: api_rel_def)
  from confined_trans [OF setup_confined(2) [OF laws s] n] show ?thesis
    using setup_at_origin [OF laws url p s] by (auto simp: confined_io_def good_request_def at_origin_def)
qed

end
