(* ===== verification/Api_Schemas.thy ===== *)
theory Api_Schemas
  imports Api_Codec
begin

text \<open>
  The building of schemas from Go types (\<open>internal/rancherclient/v2/schemas.go\<close>): the lookups in schemas,
  \<open>typeToFields\<close> on what \<open>reflect\<close> shows of a struct, and \<open>AddType\<close>.
\<close>

section \<open>Schemas\<close>

record Field =
  sf_Type :: string
  sf_Default :: json
  sf_Unique :: bool
  sf_Nullable :: bool
  sf_Create :: bool
  sf_Required :: bool
  sf_Update :: bool
  sf_MinLength :: "int option"
  sf_MaxLength :: "int option"
  sf_Min :: "int option"
  sf_Max :: "int option"
  sf_Options :: "string list"
  sf_ValidChars :: string
  sf_InvalidChars :: string
  sf_Description :: string

definition zero_Field :: Field where
  "zero_Field = \<lparr>sf_Type = [], sf_Default = JNull, sf_Unique = False, sf_Nullable = False, sf_Create = False,
     sf_Required = False, sf_Update = False, sf_MinLength = None, sf_MaxLength = None, sf_Min = None, sf_Max = None,
     sf_Options = [], sf_ValidChars = [], sf_InvalidChars = [], sf_Description = []\<rparr>"

record schema_action =
  sa_Input :: string
  sa_Output :: string

record full_Schema = Schema +
  sm_ResourceFields :: "(string, Field) gomap"
  sm_ResourceActions :: "(string, schema_action) gomap"
  sm_CollectionFields :: "(string, Field) gomap"
  sm_CollectionActions :: "(string, schema_action) gomap"
  sm_CollectionFilters :: "(string, string list) gomap"
  sm_IncludeableLinks :: "string list"

definition zero_Schema :: full_Schema where
  "zero_Schema = \<lparr>res_Id = [], res_Type = [], res_Links = [], res_Actions = [], sm_PluralName = [],
     sm_ResourceMethods = [], sm_CollectionMethods = [], sm_ResourceFields = [], sm_ResourceActions = [],
     sm_CollectionFields = [], sm_CollectionActions = [], sm_CollectionFilters = [], sm_IncludeableLinks = []\<rparr>"

definition CheckField :: "full_Schema \<Rightarrow> string \<Rightarrow> Field \<times> bool" where
  "CheckField s name = (case map_of (sm_ResourceFields s) name of Some v \<Rightarrow> (v, True) | None \<Rightarrow> (zero_Field, False))"

definition schema_Field :: "full_Schema \<Rightarrow> string \<Rightarrow> Field" where
  "schema_Field s name = fst (CheckField s name)"

text \<open>Of \<open>Schemas\<close> its list \<open>Data\<close>: nothing reads or sets the other fields.\<close>

fun CheckSchema :: "full_Schema list \<Rightarrow> string \<Rightarrow> full_Schema \<times> bool" where
  "CheckSchema [] name = (zero_Schema, False)"
| "CheckSchema (s # ss) name = (if res_Id s = name then (s, True) else CheckSchema ss name)"

definition schemas_Schema :: "full_Schema list \<Rightarrow> string \<Rightarrow> full_Schema" where
  "schemas_Schema d name = fst (CheckSchema d name)"

section \<open>Fields by reflection\<close>

text \<open>
  What \<open>reflect\<close> shows of a struct: an embedded struct with its own members, another embedded type, or a
  field with its name, its \<open>json\<close> tag and the name of the kind of its type.
\<close>

datatype member =
    Embedded "member list"
  | OtherEmbedded
  | Member string string string

definition is_lower :: "char \<Rightarrow> bool" where
  "is_lower c \<longleftrightarrow> 97 \<le> code c \<and> code c \<le> 122"

text \<open>\<open>privateFieldRegex\<close>, \<open>^[[:lower:]]\<close>.\<close>

definition private_name :: "string \<Rightarrow> bool" where
  "private_name n = (case n of [] \<Rightarrow> False | c # _ \<Rightarrow> is_lower c)"

definition schema_type :: "string \<Rightarrow> string" where
  "schema_type fieldString =
     (if HasPrefix fieldString ''int'' \<or> HasPrefix fieldString ''uint'' then ''int''
      else if fieldString = ''bool'' then fieldString
      else if fieldString = ''float32'' \<or> fieldString = ''float64'' then ''float''
      else if fieldString = ''string'' then ''string''
      else if fieldString = ''map'' then ''map[string]''
      else if fieldString = ''slice'' then ''array[string]''
      else '''')"

definition member_key :: "string \<Rightarrow> string \<Rightarrow> string" where
  "member_key n tag =
     (let name = Split tag '','' ! 0
      in if name = '''' \<and> length n > 1 then ToLower (take 1 n) @ drop 1 n else if name = '''' then n else name)"

text \<open>\<open>parentFields[k] = v\<close> for what is there already.\<close>

definition overlay :: "(string, Field) gomap \<Rightarrow> (string, Field) gomap \<Rightarrow> (string, Field) gomap" where
  "overlay result parent = fold (\<lambda>(k, v). AList.update k v) result parent"

text \<open>The loop over the fields, with the map \<open>result\<close>.\<close>

function (sequential) fields_loop :: "member list \<Rightarrow> (string, Field) gomap \<Rightarrow> (string, Field) gomap" where
  "fields_loop [] result = result"
| "fields_loop (Embedded ms # rest) result = fields_loop rest (overlay result (fields_loop ms []))"
| "fields_loop (OtherEmbedded # rest) result = fields_loop rest result"
| "fields_loop (Member n tag kind # rest) result =
     (if private_name n then fields_loop rest result
      else let T = schema_type (ToLower kind)
           in fields_loop rest (if T \<noteq> '''' then AList.update (member_key n tag) (zero_Field\<lparr>sf_Type := T\<rparr>) result else result))"
  by pat_completeness auto
termination by (relation "measure (\<lambda>(ms, _). size_list size ms)") auto

definition typeToFields :: "member list \<Rightarrow> (string, Field) gomap" where
  "typeToFields ms = fields_loop ms []"

definition guessPluralName :: "string \<Rightarrow> string" where
  "guessPluralName name =
     (if name = '''' then ''''
      else if HasSuffix name ''s'' \<or> HasSuffix name ''ch'' \<or> HasSuffix name ''x'' then name @ ''es''
      else name @ ''s'')"

text \<open>\<open>AddType\<close> appends the schema and returns it.\<close>

definition AddType :: "full_Schema list \<Rightarrow> string \<Rightarrow> member list \<Rightarrow> full_Schema \<times> full_Schema list" where
  "AddType d schemaName t =
     (let schema = zero_Schema\<lparr>res_Id := schemaName, res_Type := ''schema'', res_Links := [],
            sm_PluralName := guessPluralName schemaName, sm_ResourceFields := typeToFields t,
            sm_CollectionMethods := [''GET''], sm_ResourceMethods := [''GET'']\<rparr>
      in (schema, d @ [schema]))"

section \<open>The schemas of the resource types\<close>

text \<open>How \<open>reflect\<close> shows the structs of the API.\<close>

fun kind_of :: "go_type \<Rightarrow> string" where
  "kind_of TString = ''string''"
| "kind_of TBool = ''bool''"
| "kind_of TInt = ''int64''"
| "kind_of TAny = ''interface''"
| "kind_of (TMap T) = ''map''"
| "kind_of (TSlice T) = ''slice''"
| "kind_of (TPtr T) = ''ptr''"
| "kind_of (TStruct n) = ''struct''"

definition member_of :: "field \<Rightarrow> member" where
  "member_of f = Member (fd_Name f) (fd_Key f @ (if fd_OmitEmpty f then '',omitempty'' else '''')) (kind_of (fd_Type f))"

definition resource_members :: "typed_client \<Rightarrow> member list" where
  "resource_members tc = Embedded (map member_of Resource_fields) # map member_of (tc_Fields tc)"

section \<open>What is found\<close>

lemma fields_loop_append: "fields_loop (ms @ ms') r = fields_loop ms' (fields_loop ms r)"
  by (induction ms r rule: fields_loop.induct) (simp_all add: Let_def)

text \<open>The type that is listed for a Go type; none for pointers and structs.\<close>

fun listed_type :: "go_type \<Rightarrow> string" where
  "listed_type TString = ''string''"
| "listed_type TBool = ''bool''"
| "listed_type TInt = ''int''"
| "listed_type TAny = ''int''"
| "listed_type (TMap T) = ''map[string]''"
| "listed_type (TSlice T) = ''array[string]''"
| "listed_type (TPtr T) = ''''"
| "listed_type (TStruct n) = ''''"

lemma schema_type_kind: "schema_type (ToLower (kind_of T)) = listed_type T"
  by (cases T) (simp_all add: schema_type_def ToLower_def ascii_lower_def HasPrefix_def)

definition field_ok :: "field \<Rightarrow> bool" where
  "field_ok f \<longleftrightarrow> \<not> private_name (fd_Name f) \<and> fd_Key f \<noteq> [] \<and> CHR '','' \<notin> set (fd_Key f)"

lemma exported_public: "\<not> private_name (exported k)"
proof -
  have "\<not> is_lower (ascii_upper c)" for c
    by (auto simp: ascii_upper_def is_lower_def)
  then show ?thesis by (simp add: exported_def private_name_def split: list.split)
qed

lemma field_ok_simps [simp]:
  "field_ok (tagged k T) \<longleftrightarrow> k \<noteq> [] \<and> CHR '','' \<notin> set k"
  "field_ok (always k T) \<longleftrightarrow> k \<noteq> [] \<and> CHR '','' \<notin> set k"
  by (simp_all add: field_ok_def exported_public tagged_def always_def)

lemma member_key_ok: "k \<noteq> [] \<Longrightarrow> CHR '','' \<notin> set k \<Longrightarrow> member_key n (k @ (if b then '',omitempty'' else '''')) = k"
  using Split_mark [of "CHR '',''" k "''omitempty''"] by (auto simp: member_key_def Let_def Split_one)

definition listed_field :: "go_type \<Rightarrow> Field option" where
  "listed_field T = (if listed_type T = [] then None else Some (zero_Field\<lparr>sf_Type := listed_type T\<rparr>))"

lemma fields_loop_members:
  "list_all field_ok fs \<Longrightarrow> distinct (map fd_Key fs) \<Longrightarrow>
    map_of (fields_loop (map member_of fs) r) k = (case find (\<lambda>f. fd_Key f = k) fs of
        Some f \<Rightarrow> (case listed_field (fd_Type f) of Some v \<Rightarrow> Some v | None \<Rightarrow> map_of r k)
      | None \<Rightarrow> map_of r k)"
proof (induction fs arbitrary: r)
  case (Cons f fs)
  let ?r = "case listed_field (fd_Type f) of None \<Rightarrow> r | Some v \<Rightarrow> AList.update (fd_Key f) v r"
  from Cons have "field_ok f" by simp
  then have step: "fields_loop (member_of f # map member_of fs) r = fields_loop (map member_of fs) ?r"
    by (simp add: member_of_def field_ok_def member_key_ok [of _ _ "fd_OmitEmpty f", simplified] schema_type_kind listed_field_def Let_def)
  from Cons have IH: "map_of (fields_loop (map member_of fs) ?r) k = (case find (\<lambda>f. fd_Key f = k) fs of
      Some f \<Rightarrow> (case listed_field (fd_Type f) of Some v \<Rightarrow> Some v | None \<Rightarrow> map_of ?r k) | None \<Rightarrow> map_of ?r k)" by simp
  show ?case
  proof (cases "fd_Key f = k")
    case True
    with Cons.prems(2) have "k \<notin> fd_Key ` set fs" by simp
    then have "find (\<lambda>f. fd_Key f = k) fs = None" unfolding find_None_iff by blast
    with True show ?thesis by (auto simp: step IH split: option.split)
  next
    case False
    then have same: "map_of ?r k = map_of r k" by (simp split: option.split)
    from False show ?thesis using IH unfolding same by (simp add: step)
  qed
qed simp

lemma api_fields_ok: "list_all (\<lambda>tc. list_all field_ok (tc_Fields tc)) api_clients"
  by (simp add: api_clients_def A_D_clients_def A_D_client_defs A_D_field_defs E_L_clients_def E_L_client_defs E_L_field_defs
      M_R_clients_def M_R_client_defs M_R_field_defs S_Z_clients_def S_Z_client_defs S_Z_field_defs)

lemma resource_fields_found:
  assumes "tc \<in> set api_clients"
  shows "map_of (typeToFields (resource_members tc)) k = (case find (\<lambda>f. fd_Key f = k) (Resource_fields @ tc_Fields tc) of
      None \<Rightarrow> None | Some f \<Rightarrow> listed_field (fd_Type f))"
proof -
  have ok: "list_all field_ok (Resource_fields @ tc_Fields tc)"
    using api_fields_ok assms by (simp add: list_all_iff Resource_fields_def)
  have d: "distinct (map fd_Key (Resource_fields @ tc_Fields tc))"
    using api_names_ok assms by (intro names_ok_distinct) (simp add: list_all_iff)
  have "typeToFields (resource_members tc) = fields_loop (map member_of (Resource_fields @ tc_Fields tc)) []"
    by (simp add: typeToFields_def resource_members_def overlay_def fields_loop_append)
  then show ?thesis using fields_loop_members [OF ok d, of "[]" k] by (auto split: option.split)
qed

lemma find_key: "distinct (map fd_Key fs) \<Longrightarrow> f \<in> set fs \<Longrightarrow> find (\<lambda>g. fd_Key g = fd_Key f) fs = Some f"
  by (induction fs) auto

lemma CheckSchema_append: "name \<notin> res_Id ` set d \<Longrightarrow> CheckSchema (d @ ss) name = CheckSchema ss name"
  by (induction d) auto

text \<open>
  C40 The schema of a resource type has its fields: after \<open>AddType\<close> under a new name the lookup by that
  name finds the schema, the lookup of each JSON name of the struct, embedded ones included, gives the
  type listed for its Go type (and no field for a pointer or a struct), and no other name is found.
\<close>

theorem resource_schema_found:
  assumes "tc \<in> set api_clients" and "tc_Type tc \<notin> res_Id ` set d"
  shows "\<exists>s. CheckSchema (snd (AddType d (tc_Type tc) (resource_members tc))) (tc_Type tc) = (s, True) \<and>
    sm_PluralName s = guessPluralName (tc_Type tc) \<and>
    (\<forall>f \<in> set (Resource_fields @ tc_Fields tc). CheckField s (fd_Key f) =
       (if listed_type (fd_Type f) = '''' then (zero_Field, False) else (zero_Field\<lparr>sf_Type := listed_type (fd_Type f)\<rparr>, True))) \<and>
    (\<forall>k. k \<notin> fd_Key ` set (Resource_fields @ tc_Fields tc) \<longrightarrow> CheckField s k = (zero_Field, False))"
proof -
  let ?fs = "Resource_fields @ tc_Fields tc" and ?s = "fst (AddType d (tc_Type tc) (resource_members tc))"
  have d: "distinct (map fd_Key ?fs)"
    using api_names_ok assms(1) by (intro names_ok_distinct) (simp add: list_all_iff)
  have look: "CheckField ?s k = (case find (\<lambda>f. fd_Key f = k) ?fs of None \<Rightarrow> (zero_Field, False)
      | Some f \<Rightarrow> (case listed_field (fd_Type f) of None \<Rightarrow> (zero_Field, False) | Some v \<Rightarrow> (v, True)))" for k
    using resource_fields_found [OF assms(1), of k] by (simp add: CheckField_def AddType_def Let_def split: option.split)
  have found: "CheckSchema (snd (AddType d (tc_Type tc) (resource_members tc))) (tc_Type tc) = (?s, True)"
    using CheckSchema_append [OF assms(2)] by (simp add: AddType_def Let_def)
  have "CheckField ?s (fd_Key f) =
      (if listed_type (fd_Type f) = '''' then (zero_Field, False) else (zero_Field\<lparr>sf_Type := listed_type (fd_Type f)\<rparr>, True))"
    if "f \<in> set ?fs" for f
    using find_key [OF d that] by (simp add: look listed_field_def)
  moreover have "CheckField ?s k = (zero_Field, False)" if "k \<notin> fd_Key ` set ?fs" for k
  proof -
    from that have "find (\<lambda>f. fd_Key f = k) ?fs = None" unfolding find_None_iff by blast
    then show ?thesis by (simp add: look)
  qed
  moreover have "sm_PluralName ?s = guessPluralName (tc_Type tc)" by (simp add: AddType_def Let_def)
  ultimately show ?thesis using found by blast
qed

definition old_schema :: full_Schema where
  "old_schema = zero_Schema\<lparr>res_Id := ''volume''\<rparr>"

lemma resource_schema_found_witness:
  "\<exists>s. CheckSchema (snd (AddType [old_schema] ''serviceLink'' (resource_members ServiceLink_client))) ''serviceLink'' = (s, True) \<and>
    sm_PluralName s = guessPluralName ''serviceLink'' \<and> CheckField s ''links'' = (zero_Field\<lparr>sf_Type := ''map[string]''\<rparr>, True) \<and>
    CheckField s ''state'' = (zero_Field, False)"
proof -
  have tc: "ServiceLink_client \<in> set api_clients" "tc_Type ServiceLink_client = ''serviceLink''"
    by (simp_all add: api_groups ServiceLink_client_def)
  then have "tc_Type ServiceLink_client \<notin> res_Id ` set [old_schema]" by (simp add: old_schema_def zero_Schema_def)
  from resource_schema_found [OF tc(1) this] obtain s
    where s: "CheckSchema (snd (AddType [old_schema] ''serviceLink'' (resource_members ServiceLink_client))) ''serviceLink'' = (s, True)"
        "sm_PluralName s = guessPluralName ''serviceLink''"
      and f: "\<And>f. f \<in> set (Resource_fields @ tc_Fields ServiceLink_client) \<Longrightarrow> CheckField s (fd_Key f) =
        (if listed_type (fd_Type f) = '''' then (zero_Field, False) else (zero_Field\<lparr>sf_Type := listed_type (fd_Type f)\<rparr>, True))"
      and n: "\<And>k. k \<notin> fd_Key ` set (Resource_fields @ tc_Fields ServiceLink_client) \<Longrightarrow> CheckField s k = (zero_Field, False)"
    unfolding tc(2) by blast
  have "CheckField s ''links'' = (zero_Field\<lparr>sf_Type := ''map[string]''\<rparr>, True)"
    using f [of "always ''links'' (TMap TString)"] by (simp add: Resource_fields_def)
  moreover have "CheckField s ''state'' = (zero_Field, False)"
    by (rule n) (simp add: Resource_fields_def ServiceLink_client_def ServiceLink_fields_def)
  ultimately show ?thesis using s by blast
qed

end
