(* ===== verification/Metadata_Json.thy ===== *)
theory Metadata_Json
  imports Go_Struct Metadata_Types
begin

text \<open>
  The JSON of the metadata documents: the tags of \<open>internal/metadata/types.go\<close>, of
  \<open>controller/rancher/metadata_util.go\<close> and of \<open>config/config.go\<close> as struct types, and the records of the model
  as values of them. A document is read as \<open>encoding/json\<close> reads it, and the conversion of the
  load-balancer part by way of its text is the copy of its fields.
\<close>

section \<open>The struct types\<close>

definition named :: "string \<Rightarrow> string \<Rightarrow> go_type \<Rightarrow> field" where
  "named name key T = \<lparr>fd_Name = name, fd_Key = key, fd_OmitEmpty = False, fd_Type = T\<rparr>"

lemma named_simps [simp]: "fd_Key (named n k T) = k" "fd_Type (named n k T) = T" "fd_OmitEmpty (named n k T) = False"
  by (simp_all add: named_def)

definition doc_HealthCheck :: "field list" where
  "doc_HealthCheck = [named ''HealthyThreshold'' ''healthy_threshold'' TInt, named ''Interval'' ''interval'' TInt,
     named ''Port'' ''port'' TInt, named ''RequestLine'' ''request_line'' TString,
     named ''ResponseTimeout'' ''response_timeout'' TInt,
     named ''UnhealthyThreshold'' ''unhealthy_threshold'' TInt]"

definition doc_PortRule :: "field list" where
  "doc_PortRule = [named ''BackendName'' ''backend_name'' TString, named ''Hostname'' ''hostname'' TString,
     named ''Path'' ''path'' TString, named ''Priority'' ''priority'' TInt,
     named ''Protocol'' ''protocol'' TString, named ''Selector'' ''selector'' TString,
     named ''Service'' ''service'' TString, named ''SourcePort'' ''source_port'' TInt,
     named ''TargetPort'' ''target_port'' TInt, named ''Container'' ''container'' TString,
     named ''Region'' ''region'' TString, named ''Environment'' ''environment'' TString,
     named ''Weight'' ''weight'' TInt]"

definition doc_LBStickinessPolicy :: "field list" where
  "doc_LBStickinessPolicy = [named ''Cookie'' ''cookie'' TString, named ''Domain'' ''domain'' TString, named ''Indirect'' ''indirect'' TBool,
     named ''Mode'' ''mode'' TString, named ''Name'' ''name'' TString, named ''Nocache'' ''nocache'' TBool,
     named ''Postonly'' ''postonly'' TBool]"

definition doc_LBConfig :: "field list" where
  "doc_LBConfig = [named ''Certs'' ''certs'' (TSlice TString), named ''Config'' ''config'' TString,
     named ''DefaultCert'' ''default_cert'' TString,
     named ''PortRules'' ''port_rules'' (TSlice (TStruct ''PortRule'')),
     named ''StickinessPolicy'' ''stickiness_policy'' (TStruct ''LBStickinessPolicy'')]"

definition doc_Container :: "field list" where
  "doc_Container = [named ''CreateIndex'' ''create_index'' TInt, named ''Dns'' ''dns'' (TSlice TString),
     named ''DnsSearch'' ''dns_search'' (TSlice TString),
     named ''EnvironmentUUID'' ''environment_uuid'' TString, named ''ExternalId'' ''external_id'' TString,
     named ''HealthCheck'' ''health_check'' (TStruct ''HealthCheck''),
     named ''HealthCheckHosts'' ''health_check_hosts'' (TSlice TString),
     named ''HealthState'' ''health_state'' TString, named ''HostUUID'' ''host_uuid'' TString,
     named ''Hostname'' ''hostname'' TString, named ''IPs'' ''ips'' (TSlice TString),
     named ''Labels'' ''labels'' (TMap TString), named ''Links'' ''links'' (TMap TString),
     named ''MemoryReservation'' ''memory_reservation'' TInt, named ''MetadataKind'' ''metadata_kind'' TString,
     named ''MilliCPUReservation'' ''milli_cpu_reservation'' TInt, named ''Name'' ''name'' TString,
     named ''NetworkFromContainerUUID'' ''network_from_container_uuid'' TString,
     named ''NetworkUUID'' ''network_uuid'' TString, named ''Ports'' ''ports'' (TSlice TString),
     named ''PrimaryIp'' ''primary_ip'' TString, named ''PrimaryMacAddress'' ''primary_mac_address'' TString,
     named ''ServiceIndex'' ''service_index'' TString, named ''ServiceName'' ''service_name'' TString,
     named ''StackName'' ''stack_name'' TString, named ''StackUUID'' ''stack_uuid'' TString,
     named ''StartCount'' ''start_count'' TInt, named ''State'' ''state'' TString,
     named ''System'' ''system'' TBool, named ''UUID'' ''uuid'' TString]"

definition doc_Service :: "field list" where
  "doc_Service = [named ''Containers'' ''containers'' (TSlice (TStruct ''Container'')),
     named ''CreateIndex'' ''create_index'' TInt, named ''EnvironmentUUID'' ''environment_uuid'' TString,
     named ''Expose'' ''expose'' (TSlice TString), named ''ExternalIps'' ''external_ips'' (TSlice TString),
     named ''Fqdn'' ''fqdn'' TString, named ''HealthCheck'' ''health_check'' (TStruct ''HealthCheck''),
     named ''Hostname'' ''hostname'' TString, named ''Kind'' ''kind'' TString,
     named ''Labels'' ''labels'' (TMap TString), named ''LBConfig'' ''lb_config'' (TStruct ''LBConfig''),
     named ''Links'' ''links'' (TMap TString), named ''Metadata'' ''metadata'' (TMap TAny),
     named ''MetadataKind'' ''metadata_kind'' TString, named ''Name'' ''name'' TString,
     named ''Ports'' ''ports'' (TSlice TString), named ''PrimaryServiceName'' ''primary_service_name'' TString,
     named ''Scale'' ''scale'' TInt, named ''Sidekicks'' ''sidekicks'' (TSlice TString),
     named ''StackName'' ''stack_name'' TString, named ''StackUUID'' ''stack_uuid'' TString,
     named ''State'' ''state'' TString, named ''System'' ''system'' TBool, named ''Token'' ''token'' TString,
     named ''UUID'' ''uuid'' TString, named ''Vip'' ''vip'' TString]"

definition doc_Stack :: "field list" where
  "doc_Stack = [named ''EnvironmentName'' ''environment_name'' TString, named ''EnvironmentUUID'' ''environment_uuid'' TString,
     named ''MetadataKind'' ''metadata_kind'' TString, named ''Name'' ''name'' TString,
     named ''Services'' ''services'' (TSlice (TStruct ''Service'')), named ''System'' ''system'' TBool,
     named ''UUID'' ''uuid'' TString]"

definition doc_Host :: "field list" where
  "doc_Host = [named ''AgentIP'' ''agent_ip'' TString, named ''AgentState'' ''agent_state'' TString,
     named ''EnvironmentUUID'' ''environment_uuid'' TString, named ''HostId'' ''host_id'' TInt,
     named ''Hostname'' ''hostname'' TString, named ''Labels'' ''labels'' (TMap TString),
     named ''LocalStorageMb'' ''local_storage_mb'' TInt, named ''Memory'' ''memory'' TInt,
     named ''MetadataKind'' ''metadata_kind'' TString, named ''MilliCPU'' ''milli_cpu'' TInt,
     named ''Name'' ''name'' TString, named ''State'' ''state'' TString, named ''UUID'' ''uuid'' TString]"

definition doc_NetworkPolicyRuleBetween :: "field list" where
  "doc_NetworkPolicyRuleBetween = [(named ''GroupBy'' ''groupBy'' TString)\<lparr>fd_OmitEmpty := True\<rparr>,
     (named ''Selector'' ''selector'' TString)\<lparr>fd_OmitEmpty := True\<rparr>]"

definition doc_NetworkPolicyRuleMember :: "field list" where
  "doc_NetworkPolicyRuleMember = [(named ''Selector'' ''selector'' TString)\<lparr>fd_OmitEmpty := True\<rparr>]"

definition doc_NetworkPolicyRule :: "field list" where
  "doc_NetworkPolicyRule = [named ''Action'' ''action'' TString,
     named ''Between'' ''between'' (TPtr (TStruct ''NetworkPolicyRuleBetween'')),
     named ''From'' ''from'' (TPtr (TStruct ''NetworkPolicyRuleMember'')),
     named ''Ports'' ''ports'' (TSlice TString),
     named ''To'' ''to'' (TPtr (TStruct ''NetworkPolicyRuleMember'')), named ''Within'' ''within'' TString]"

definition doc_Network :: "field list" where
  "doc_Network = [named ''Default'' ''is_default'' TBool, named ''DefaultPolicyAction'' ''default_policy_action'' TString,
     named ''EnvironmentUUID'' ''environment_uuid'' TString, named ''HostPorts'' ''host_ports'' TBool,
     named ''Metadata'' ''metadata'' (TMap TAny), named ''MetadataKind'' ''metadata_kind'' TString,
     named ''Name'' ''name'' TString,
     (named ''Policy'' ''policy'' (TSlice (TStruct ''NetworkPolicyRule'')))\<lparr>fd_OmitEmpty := True\<rparr>,
     named ''UUID'' ''uuid'' TString]"

definition doc_Environment :: "field list" where
  "doc_Environment = [named ''Containers'' ''containers'' (TSlice (TStruct ''Container'')),
     named ''Hosts'' ''hosts'' (TSlice (TStruct ''Host'')), named ''Name'' ''name'' TString,
     named ''Networks'' ''networks'' (TSlice (TStruct ''Network'')),
     named ''RegionName'' ''region_name'' TString,
     named ''Services'' ''services'' (TSlice (TStruct ''Service'')),
     named ''Stacks'' ''stacks'' (TSlice (TStruct ''Stack'')), named ''UUID'' ''uuid'' TString,
     named ''Version'' ''version'' TString]"

definition doc_LBMetadata :: "field list" where
  "doc_LBMetadata = [named ''PortRules'' ''port_rules'' (TSlice (TStruct ''PortRule'')), named ''Certs'' ''certs'' (TSlice TString),
     named ''DefaultCert'' ''default_cert'' TString, named ''Config'' ''config'' TString,
     named ''StickinessPolicy'' ''stickiness_policy'' (TStruct ''config.StickinessPolicy'')]"

definition doc_config_StickinessPolicy :: "field list" where
  "doc_config_StickinessPolicy = [named ''Name'' ''name'' TString, named ''Cookie'' ''cookie'' TString, named ''Domain'' ''domain'' TString,
     named ''Indirect'' ''indirect'' TBool, named ''Nocache'' ''nocache'' TBool,
     named ''Postonly'' ''postonly'' TBool, named ''Mode'' ''mode'' TString]"

definition doc_config_HealthCheck :: "field list" where
  "doc_config_HealthCheck = [named ''ResponseTimeout'' ''response_timeout'' TInt, named ''Interval'' ''interval'' TInt,
     named ''HealthyThreshold'' ''healthy_threshold'' TInt,
     named ''UnhealthyThreshold'' ''unhealthy_threshold'' TInt, named ''RequestLine'' ''request_line'' TString,
     named ''Port'' ''port'' TInt]"

definition doc_structs :: "(string \<times> field list) list" where
  "doc_structs = [(''HealthCheck'', doc_HealthCheck), (''PortRule'', doc_PortRule),
     (''LBStickinessPolicy'', doc_LBStickinessPolicy), (''LBConfig'', doc_LBConfig),
     (''Container'', doc_Container), (''Service'', doc_Service), (''Stack'', doc_Stack), (''Host'', doc_Host),
     (''NetworkPolicyRuleBetween'', doc_NetworkPolicyRuleBetween),
     (''NetworkPolicyRuleMember'', doc_NetworkPolicyRuleMember), (''NetworkPolicyRule'', doc_NetworkPolicyRule),
     (''Network'', doc_Network), (''Environment'', doc_Environment), (''LBMetadata'', doc_LBMetadata),
     (''config.StickinessPolicy'', doc_config_StickinessPolicy),
     (''config.HealthCheck'', doc_config_HealthCheck)]"

text \<open>By value, the documents nest at most three deep.\<close>

definition doc_types :: "(string \<Rightarrow> string option) \<Rightarrow> type_env" where
  "doc_types float = \<lparr>te_struct = map_of doc_structs, te_depth = 3, te_float = float\<rparr>"

section \<open>Records as values\<close>

definition list_value :: "('a \<Rightarrow> go_value) \<Rightarrow> 'a list \<Rightarrow> go_value" where
  "list_value f xs = VSlice (Some (map f xs))"

text \<open>A field with \<open>omitempty\<close>: an empty list is nil.\<close>

definition omitted_value :: "('a \<Rightarrow> go_value) \<Rightarrow> 'a list \<Rightarrow> go_value" where
  "omitted_value f xs = (if xs = [] then VSlice None else list_value f xs)"

definition map_value :: "('a \<Rightarrow> go_value) \<Rightarrow> (string, 'a) gomap \<Rightarrow> go_value" where
  "map_value f m = VMap (Some (map (apsnd f) m))"

definition the_string :: "go_value \<Rightarrow> string" where
  "the_string v = (case v of VString s \<Rightarrow> s | _ \<Rightarrow> [])"

definition the_int :: "go_value \<Rightarrow> int" where
  "the_int v = (case v of VInt i \<Rightarrow> i | _ \<Rightarrow> 0)"

definition the_bool :: "go_value \<Rightarrow> bool" where
  "the_bool v = (case v of VBool b \<Rightarrow> b | _ \<Rightarrow> False)"

definition the_any :: "go_value \<Rightarrow> json" where
  "the_any v = (case v of VAny j \<Rightarrow> j | _ \<Rightarrow> JNull)"

definition the_list :: "(go_value \<Rightarrow> 'a) \<Rightarrow> go_value \<Rightarrow> 'a list" where
  "the_list f v = (case v of VSlice (Some vs) \<Rightarrow> map f vs | _ \<Rightarrow> [])"

definition the_map :: "(go_value \<Rightarrow> 'a) \<Rightarrow> go_value \<Rightarrow> (string, 'a) gomap" where
  "the_map f v = (case v of VMap (Some m) \<Rightarrow> map (apsnd f) m | _ \<Rightarrow> [])"

definition the_ptr :: "(go_value \<Rightarrow> 'a) \<Rightarrow> go_value \<Rightarrow> 'a option" where
  "the_ptr f v = (case v of VPtr p \<Rightarrow> map_option f p | _ \<Rightarrow> None)"

definition the_struct :: "go_value \<Rightarrow> go_value list" where
  "the_struct v = (case v of VStruct vs \<Rightarrow> vs | _ \<Rightarrow> [])"

lemma the_simps [simp]:
  "the_string (VString s) = s" "the_int (VInt i) = i" "the_bool (VBool b) = b" "the_any (VAny j) = j"
  "the_list f (VSlice (Some vs)) = map f vs" "the_list f (VSlice None) = []" "the_map f (VMap (Some m)) = map (apsnd f) m"
  "the_ptr f (VPtr p) = map_option f p" "the_struct (VStruct vs) = vs"
  by (simp_all add: the_string_def the_int_def the_bool_def the_any_def the_list_def the_map_def the_ptr_def the_struct_def)

lemma the_back [simp]:
  "(\<And>x. g (f x) = x) \<Longrightarrow> the_list g (list_value f xs) = xs"
  "(\<And>x. g (f x) = x) \<Longrightarrow> the_list g (omitted_value f xs) = xs"
  "(\<And>x. g (f x) = x) \<Longrightarrow> the_map g (map_value f m) = m"
  "(\<And>x. g (f x) = x) \<Longrightarrow> map_option g (map_option f p) = p"
  by (simp_all add: list_value_def omitted_value_def map_value_def comp_def apsnd_def map_prod_def split_beta option.map_comp option.map_ident)

definition HealthCheck_value :: "md_HealthCheck \<Rightarrow> go_value" where
  "HealthCheck_value x = VStruct [VInt (mhc_HealthyThreshold x), VInt (mhc_Interval x), VInt (mhc_Port x), VString (mhc_RequestLine x),
     VInt (mhc_ResponseTimeout x), VInt (mhc_UnhealthyThreshold x)]"

definition HealthCheck_of_value :: "go_value \<Rightarrow> md_HealthCheck" where
  "HealthCheck_of_value v = (let vs = the_struct v in \<lparr>mhc_HealthyThreshold = the_int (vs ! 0), mhc_Interval = the_int (vs ! 1), mhc_Port = the_int (vs ! 2),
     mhc_RequestLine = the_string (vs ! 3), mhc_ResponseTimeout = the_int (vs ! 4),
     mhc_UnhealthyThreshold = the_int (vs ! 5)\<rparr>)"

definition PortRule_value :: "PortRule \<Rightarrow> go_value" where
  "PortRule_value x = VStruct [VString (pr_BackendName x), VString (pr_Hostname x), VString (pr_Path x), VInt (pr_Priority x),
     VString (pr_Protocol x), VString (pr_Selector x), VString (pr_Service x), VInt (pr_SourcePort x),
     VInt (pr_TargetPort x), VString (pr_Container x), VString (pr_Region x), VString (pr_Environment x),
     VInt (pr_Weight x)]"

definition PortRule_of_value :: "go_value \<Rightarrow> PortRule" where
  "PortRule_of_value v = (let vs = the_struct v in \<lparr>pr_BackendName = the_string (vs ! 0), pr_Hostname = the_string (vs ! 1), pr_Path = the_string (vs ! 2),
     pr_Priority = the_int (vs ! 3), pr_Protocol = the_string (vs ! 4), pr_Selector = the_string (vs ! 5),
     pr_Service = the_string (vs ! 6), pr_SourcePort = the_int (vs ! 7), pr_TargetPort = the_int (vs ! 8),
     pr_Container = the_string (vs ! 9), pr_Region = the_string (vs ! 10),
     pr_Environment = the_string (vs ! 11), pr_Weight = the_int (vs ! 12)\<rparr>)"

definition LBStickinessPolicy_value :: "LBStickinessPolicy \<Rightarrow> go_value" where
  "LBStickinessPolicy_value x = VStruct [VString (lsp_Cookie x), VString (lsp_Domain x), VBool (lsp_Indirect x), VString (lsp_Mode x),
     VString (lsp_Name x), VBool (lsp_Nocache x), VBool (lsp_Postonly x)]"

definition LBStickinessPolicy_of_value :: "go_value \<Rightarrow> LBStickinessPolicy" where
  "LBStickinessPolicy_of_value v = (let vs = the_struct v in \<lparr>lsp_Cookie = the_string (vs ! 0), lsp_Domain = the_string (vs ! 1), lsp_Indirect = the_bool (vs ! 2),
     lsp_Mode = the_string (vs ! 3), lsp_Name = the_string (vs ! 4), lsp_Nocache = the_bool (vs ! 5),
     lsp_Postonly = the_bool (vs ! 6)\<rparr>)"

definition LBConfig_value :: "LBConfig \<Rightarrow> go_value" where
  "LBConfig_value x = VStruct [list_value VString (lbc_Certs x), VString (lbc_Config x), VString (lbc_DefaultCert x),
     list_value PortRule_value (lbc_PortRules x), LBStickinessPolicy_value (lbc_StickinessPolicy x)]"

definition LBConfig_of_value :: "go_value \<Rightarrow> LBConfig" where
  "LBConfig_of_value v = (let vs = the_struct v in \<lparr>lbc_Certs = the_list the_string (vs ! 0), lbc_Config = the_string (vs ! 1),
     lbc_DefaultCert = the_string (vs ! 2), lbc_PortRules = the_list PortRule_of_value (vs ! 3),
     lbc_StickinessPolicy = LBStickinessPolicy_of_value (vs ! 4)\<rparr>)"

definition Container_value :: "Container \<Rightarrow> go_value" where
  "Container_value x = VStruct [VInt (ct_CreateIndex x), list_value VString (ct_Dns x), list_value VString (ct_DnsSearch x),
     VString (ct_EnvironmentUUID x), VString (ct_ExternalId x), HealthCheck_value (ct_HealthCheck x),
     list_value VString (ct_HealthCheckHosts x), VString (ct_HealthState x), VString (ct_HostUUID x),
     VString (ct_Hostname x), list_value VString (ct_IPs x), map_value VString (ct_Labels x),
     map_value VString (ct_Links x), VInt (ct_MemoryReservation x), VString (ct_MetadataKind x),
     VInt (ct_MilliCPUReservation x), VString (ct_Name x), VString (ct_NetworkFromContainerUUID x),
     VString (ct_NetworkUUID x), list_value VString (ct_Ports x), VString (ct_PrimaryIp x),
     VString (ct_PrimaryMacAddress x), VString (ct_ServiceIndex x), VString (ct_ServiceName x),
     VString (ct_StackName x), VString (ct_StackUUID x), VInt (ct_StartCount x), VString (ct_State x),
     VBool (ct_System x), VString (ct_UUID x)]"

definition Container_of_value :: "go_value \<Rightarrow> Container" where
  "Container_of_value v = (let vs = the_struct v in \<lparr>ct_CreateIndex = the_int (vs ! 0), ct_Dns = the_list the_string (vs ! 1),
     ct_DnsSearch = the_list the_string (vs ! 2), ct_EnvironmentUUID = the_string (vs ! 3),
     ct_ExternalId = the_string (vs ! 4), ct_HealthCheck = HealthCheck_of_value (vs ! 5),
     ct_HealthCheckHosts = the_list the_string (vs ! 6), ct_HealthState = the_string (vs ! 7),
     ct_HostUUID = the_string (vs ! 8), ct_Hostname = the_string (vs ! 9),
     ct_IPs = the_list the_string (vs ! 10), ct_Labels = the_map the_string (vs ! 11),
     ct_Links = the_map the_string (vs ! 12), ct_MemoryReservation = the_int (vs ! 13),
     ct_MetadataKind = the_string (vs ! 14), ct_MilliCPUReservation = the_int (vs ! 15),
     ct_Name = the_string (vs ! 16), ct_NetworkFromContainerUUID = the_string (vs ! 17),
     ct_NetworkUUID = the_string (vs ! 18), ct_Ports = the_list the_string (vs ! 19),
     ct_PrimaryIp = the_string (vs ! 20), ct_PrimaryMacAddress = the_string (vs ! 21),
     ct_ServiceIndex = the_string (vs ! 22), ct_ServiceName = the_string (vs ! 23),
     ct_StackName = the_string (vs ! 24), ct_StackUUID = the_string (vs ! 25),
     ct_StartCount = the_int (vs ! 26), ct_State = the_string (vs ! 27), ct_System = the_bool (vs ! 28),
     ct_UUID = the_string (vs ! 29)\<rparr>)"

definition Service_value :: "Service \<Rightarrow> go_value" where
  "Service_value x = VStruct [list_value Container_value (svc_Containers x), VInt (svc_CreateIndex x), VString (svc_EnvironmentUUID x),
     list_value VString (svc_Expose x), list_value VString (svc_ExternalIps x), VString (svc_Fqdn x),
     HealthCheck_value (svc_HealthCheck x), VString (svc_Hostname x), VString (svc_Kind x),
     map_value VString (svc_Labels x), LBConfig_value (svc_LBConfig x), map_value VString (svc_Links x),
     map_value VAny (svc_Metadata x), VString (svc_MetadataKind x), VString (svc_Name x),
     list_value VString (svc_Ports x), VString (svc_PrimaryServiceName x), VInt (svc_Scale x),
     list_value VString (svc_Sidekicks x), VString (svc_StackName x), VString (svc_StackUUID x),
     VString (svc_State x), VBool (svc_System x), VString (svc_Token x), VString (svc_UUID x),
     VString (svc_Vip x)]"

definition Service_of_value :: "go_value \<Rightarrow> Service" where
  "Service_of_value v = (let vs = the_struct v in \<lparr>svc_Containers = the_list Container_of_value (vs ! 0), svc_CreateIndex = the_int (vs ! 1),
     svc_EnvironmentUUID = the_string (vs ! 2), svc_Expose = the_list the_string (vs ! 3),
     svc_ExternalIps = the_list the_string (vs ! 4), svc_Fqdn = the_string (vs ! 5),
     svc_HealthCheck = HealthCheck_of_value (vs ! 6), svc_Hostname = the_string (vs ! 7),
     svc_Kind = the_string (vs ! 8), svc_Labels = the_map the_string (vs ! 9),
     svc_LBConfig = LBConfig_of_value (vs ! 10), svc_Links = the_map the_string (vs ! 11),
     svc_Metadata = the_map the_any (vs ! 12), svc_MetadataKind = the_string (vs ! 13),
     svc_Name = the_string (vs ! 14), svc_Ports = the_list the_string (vs ! 15),
     svc_PrimaryServiceName = the_string (vs ! 16), svc_Scale = the_int (vs ! 17),
     svc_Sidekicks = the_list the_string (vs ! 18), svc_StackName = the_string (vs ! 19),
     svc_StackUUID = the_string (vs ! 20), svc_State = the_string (vs ! 21), svc_System = the_bool (vs ! 22),
     svc_Token = the_string (vs ! 23), svc_UUID = the_string (vs ! 24), svc_Vip = the_string (vs ! 25)\<rparr>)"

definition Stack_value :: "Stack \<Rightarrow> go_value" where
  "Stack_value x = VStruct [VString (stk_EnvironmentName x), VString (stk_EnvironmentUUID x), VString (stk_MetadataKind x),
     VString (stk_Name x), list_value Service_value (stk_Services x), VBool (stk_System x), VString (stk_UUID x)]"

definition Stack_of_value :: "go_value \<Rightarrow> Stack" where
  "Stack_of_value v = (let vs = the_struct v in \<lparr>stk_EnvironmentName = the_string (vs ! 0), stk_EnvironmentUUID = the_string (vs ! 1),
     stk_MetadataKind = the_string (vs ! 2), stk_Name = the_string (vs ! 3),
     stk_Services = the_list Service_of_value (vs ! 4), stk_System = the_bool (vs ! 5),
     stk_UUID = the_string (vs ! 6)\<rparr>)"

definition Host_value :: "Host \<Rightarrow> go_value" where
  "Host_value x = VStruct [VString (host_AgentIP x), VString (host_AgentState x), VString (host_EnvironmentUUID x), VInt (host_HostId x),
     VString (host_Hostname x), map_value VString (host_Labels x), VInt (host_LocalStorageMb x),
     VInt (host_Memory x), VString (host_MetadataKind x), VInt (host_MilliCPU x), VString (host_Name x),
     VString (host_State x), VString (host_UUID x)]"

definition Host_of_value :: "go_value \<Rightarrow> Host" where
  "Host_of_value v = (let vs = the_struct v in \<lparr>host_AgentIP = the_string (vs ! 0), host_AgentState = the_string (vs ! 1),
     host_EnvironmentUUID = the_string (vs ! 2), host_HostId = the_int (vs ! 3),
     host_Hostname = the_string (vs ! 4), host_Labels = the_map the_string (vs ! 5),
     host_LocalStorageMb = the_int (vs ! 6), host_Memory = the_int (vs ! 7),
     host_MetadataKind = the_string (vs ! 8), host_MilliCPU = the_int (vs ! 9),
     host_Name = the_string (vs ! 10), host_State = the_string (vs ! 11), host_UUID = the_string (vs ! 12)\<rparr>)"

definition NetworkPolicyRuleBetween_value :: "NetworkPolicyRuleBetween \<Rightarrow> go_value" where
  "NetworkPolicyRuleBetween_value x = VStruct [VString (npb_GroupBy x), VString (npb_Selector x)]"

definition NetworkPolicyRuleBetween_of_value :: "go_value \<Rightarrow> NetworkPolicyRuleBetween" where
  "NetworkPolicyRuleBetween_of_value v = (let vs = the_struct v in \<lparr>npb_GroupBy = the_string (vs ! 0), npb_Selector = the_string (vs ! 1)\<rparr>)"

definition NetworkPolicyRuleMember_value :: "NetworkPolicyRuleMember \<Rightarrow> go_value" where
  "NetworkPolicyRuleMember_value x = VStruct [VString (npm_Selector x)]"

definition NetworkPolicyRuleMember_of_value :: "go_value \<Rightarrow> NetworkPolicyRuleMember" where
  "NetworkPolicyRuleMember_of_value v = (let vs = the_struct v in \<lparr>npm_Selector = the_string (vs ! 0)\<rparr>)"

definition NetworkPolicyRule_value :: "NetworkPolicyRule \<Rightarrow> go_value" where
  "NetworkPolicyRule_value x = VStruct [VString (npr_Action x), VPtr (map_option NetworkPolicyRuleBetween_value (npr_Between x)),
     VPtr (map_option NetworkPolicyRuleMember_value (npr_From x)), list_value VString (npr_Ports x),
     VPtr (map_option NetworkPolicyRuleMember_value (npr_To x)), VString (npr_Within x)]"

definition NetworkPolicyRule_of_value :: "go_value \<Rightarrow> NetworkPolicyRule" where
  "NetworkPolicyRule_of_value v = (let vs = the_struct v in \<lparr>npr_Action = the_string (vs ! 0), npr_Between = the_ptr NetworkPolicyRuleBetween_of_value (vs ! 1),
     npr_From = the_ptr NetworkPolicyRuleMember_of_value (vs ! 2), npr_Ports = the_list the_string (vs ! 3),
     npr_To = the_ptr NetworkPolicyRuleMember_of_value (vs ! 4), npr_Within = the_string (vs ! 5)\<rparr>)"

definition Network_value :: "Network \<Rightarrow> go_value" where
  "Network_value x = VStruct [VBool (net_Default x), VString (net_DefaultPolicyAction x), VString (net_EnvironmentUUID x),
     VBool (net_HostPorts x), map_value VAny (net_Metadata x), VString (net_MetadataKind x),
     VString (net_Name x), omitted_value NetworkPolicyRule_value (net_Policy x), VString (net_UUID x)]"

definition Network_of_value :: "go_value \<Rightarrow> Network" where
  "Network_of_value v = (let vs = the_struct v in \<lparr>net_Default = the_bool (vs ! 0), net_DefaultPolicyAction = the_string (vs ! 1),
     net_EnvironmentUUID = the_string (vs ! 2), net_HostPorts = the_bool (vs ! 3),
     net_Metadata = the_map the_any (vs ! 4), net_MetadataKind = the_string (vs ! 5),
     net_Name = the_string (vs ! 6), net_Policy = the_list NetworkPolicyRule_of_value (vs ! 7),
     net_UUID = the_string (vs ! 8)\<rparr>)"

definition Environment_value :: "Environment \<Rightarrow> go_value" where
  "Environment_value x = VStruct [list_value Container_value (env_Containers x), list_value Host_value (env_Hosts x), VString (env_Name x),
     list_value Network_value (env_Networks x), VString (env_RegionName x),
     list_value Service_value (env_Services x), list_value Stack_value (env_Stacks x), VString (env_UUID x),
     VString (env_Version x)]"

definition Environment_of_value :: "go_value \<Rightarrow> Environment" where
  "Environment_of_value v = (let vs = the_struct v in \<lparr>env_Containers = the_list Container_of_value (vs ! 0), env_Hosts = the_list Host_of_value (vs ! 1),
     env_Name = the_string (vs ! 2), env_Networks = the_list Network_of_value (vs ! 3),
     env_RegionName = the_string (vs ! 4), env_Services = the_list Service_of_value (vs ! 5),
     env_Stacks = the_list Stack_of_value (vs ! 6), env_UUID = the_string (vs ! 7),
     env_Version = the_string (vs ! 8)\<rparr>)"

definition config_StickinessPolicy_value :: "StickinessPolicy \<Rightarrow> go_value" where
  "config_StickinessPolicy_value x = VStruct [VString (sp_Name x), VString (sp_Cookie x), VString (sp_Domain x), VBool (sp_Indirect x), VBool (sp_Nocache x),
     VBool (sp_Postonly x), VString (sp_Mode x)]"

definition config_HealthCheck_value :: "HealthCheck \<Rightarrow> go_value" where
  "config_HealthCheck_value x = VStruct [VInt (hc_ResponseTimeout x), VInt (hc_Interval x), VInt (hc_HealthyThreshold x), VInt (hc_UnhealthyThreshold x),
     VString (hc_RequestLine x), VInt (hc_Port x)]"

definition LBMetadata_value :: "LBMetadata \<Rightarrow> go_value" where
  "LBMetadata_value x = VStruct [list_value PortRule_value (lm_PortRules x), list_value VString (lm_Certs x), VString (lm_DefaultCert x),
     VString (lm_Config x), config_StickinessPolicy_value (lm_StickinessPolicy x)]"

lemma HealthCheck_back [simp]: "HealthCheck_of_value (HealthCheck_value x) = x"
  by (cases x) (simp add: HealthCheck_of_value_def HealthCheck_value_def)

lemma PortRule_back [simp]: "PortRule_of_value (PortRule_value x) = x"
  by (cases x) (simp add: PortRule_of_value_def PortRule_value_def)

lemma LBStickinessPolicy_back [simp]: "LBStickinessPolicy_of_value (LBStickinessPolicy_value x) = x"
  by (cases x) (simp add: LBStickinessPolicy_of_value_def LBStickinessPolicy_value_def)

lemma LBConfig_back [simp]: "LBConfig_of_value (LBConfig_value x) = x"
  by (cases x) (simp add: LBConfig_of_value_def LBConfig_value_def)

lemma Container_back [simp]: "Container_of_value (Container_value x) = x"
  by (cases x) (simp add: Container_of_value_def Container_value_def)

lemma Service_back [simp]: "Service_of_value (Service_value x) = x"
  by (cases x) (simp add: Service_of_value_def Service_value_def)

lemma Stack_back [simp]: "Stack_of_value (Stack_value x) = x"
  by (cases x) (simp add: Stack_of_value_def Stack_value_def)

lemma Host_back [simp]: "Host_of_value (Host_value x) = x"
  by (cases x) (simp add: Host_of_value_def Host_value_def)

lemma NetworkPolicyRuleBetween_back [simp]: "NetworkPolicyRuleBetween_of_value (NetworkPolicyRuleBetween_value x) = x"
  by (cases x) (simp add: NetworkPolicyRuleBetween_of_value_def NetworkPolicyRuleBetween_value_def)

lemma NetworkPolicyRuleMember_back [simp]: "NetworkPolicyRuleMember_of_value (NetworkPolicyRuleMember_value x) = x"
  by (cases x) (simp add: NetworkPolicyRuleMember_of_value_def NetworkPolicyRuleMember_value_def)

lemma NetworkPolicyRule_back [simp]: "NetworkPolicyRule_of_value (NetworkPolicyRule_value x) = x"
  by (cases x) (simp add: NetworkPolicyRule_of_value_def NetworkPolicyRule_value_def)

lemma Network_back [simp]: "Network_of_value (Network_value x) = x"
  by (cases x) (simp add: Network_of_value_def Network_value_def)

lemma Environment_back [simp]: "Environment_of_value (Environment_value x) = x"
  by (cases x) (simp add: Environment_of_value_def Environment_value_def)

section \<open>The types fit together\<close>

lemma doc_struct_fields:
  "struct_fields (doc_types float) n = (case map_of doc_structs n of None \<Rightarrow> [] | Some fs \<Rightarrow> fs)"
  by (simp add: struct_fields_def doc_types_def)

lemmas doc_defs = doc_HealthCheck_def doc_PortRule_def doc_LBStickinessPolicy_def doc_LBConfig_def doc_Container_def doc_Service_def
  doc_Stack_def doc_Host_def doc_NetworkPolicyRuleBetween_def doc_NetworkPolicyRuleMember_def doc_NetworkPolicyRule_def
  doc_Network_def doc_Environment_def doc_LBMetadata_def doc_config_StickinessPolicy_def doc_config_HealthCheck_def

lemma doc_wf: "wf_env (doc_types float)"
proof -
  have E: "te_struct (doc_types float) = map_of doc_structs" "te_depth (doc_types float) = 3" by (simp_all add: doc_types_def)
  have "list_all (\<lambda>(n, fs). distinct (map fd_Key fs) \<and>
      list_all (\<lambda>f. closed (doc_types float) (Suc (Suc 0)) (fd_Type f)) fs) doc_structs"
    unfolding doc_structs_def by (simp add: doc_defs doc_struct_fields doc_structs_def)
  then have "distinct (map fd_Key fs) \<and> closed (doc_types float) 3 (TStruct n)" if "map_of doc_structs n = Some fs" for n fs
    using map_of_SomeD [OF that] that by (auto simp: list_all_iff numeral_3_eq_3 doc_struct_fields)
  then show ?thesis by (simp add: wf_env_def E)
qed

end
