(* ===== verification/Metadata_Codec.thy ===== *)
theory Metadata_Codec
  imports Metadata_Json Metadata_Theorems
begin

text \<open>
  The metadata documents as JSON at work: the conversions of \<open>controller/rancher/metadata_util.go\<close>
  by way of the text of a document, and the decoders of the metadata client.
\<close>

section \<open>Conversions\<close>

text \<open>\<open>convert\<close>: the text of one value read into a zero value of the other type.\<close>

definition convert :: "type_env \<Rightarrow> go_type \<Rightarrow> go_value \<Rightarrow> go_type \<Rightarrow> go_value result" where
  "convert E T o1 T2 = (case decode_doc E T2 (Marshal E T o1) of
     None \<Rightarrow> Inl (Errorf ''json: cannot unmarshal'' []) | Some o2 \<Rightarrow> Inr o2)"

definition config_StickinessPolicy_of_value :: "go_value \<Rightarrow> StickinessPolicy" where
  "config_StickinessPolicy_of_value v = (let vs = the_struct v in \<lparr>sp_Name = the_string (vs ! 0), sp_Cookie = the_string (vs ! 1),
     sp_Domain = the_string (vs ! 2), sp_Indirect = the_bool (vs ! 3), sp_Nocache = the_bool (vs ! 4),
     sp_Postonly = the_bool (vs ! 5), sp_Mode = the_string (vs ! 6)\<rparr>)"

definition LBMetadata_of_value :: "go_value \<Rightarrow> LBMetadata" where
  "LBMetadata_of_value v = (let vs = the_struct v in \<lparr>lm_PortRules = the_list PortRule_of_value (vs ! 0),
     lm_Certs = the_list the_string (vs ! 1), lm_DefaultCert = the_string (vs ! 2), lm_Config = the_string (vs ! 3),
     lm_StickinessPolicy = config_StickinessPolicy_of_value (vs ! 4)\<rparr>)"

definition config_HealthCheck_of_value :: "go_value \<Rightarrow> HealthCheck" where
  "config_HealthCheck_of_value v = (let vs = the_struct v in \<lparr>hc_ResponseTimeout = the_int (vs ! 0), hc_Interval = the_int (vs ! 1),
     hc_HealthyThreshold = the_int (vs ! 2), hc_UnhealthyThreshold = the_int (vs ! 3), hc_RequestLine = the_string (vs ! 4),
     hc_Port = the_int (vs ! 5)\<rparr>)"

lemma has_fields_cons:
  "has_fields E (f # fs) vs \<longleftrightarrow> (\<exists>v ws. vs = v # ws \<and> has_type E (fd_Type f) v \<and>
     (fd_OmitEmpty f \<and> is_empty_value v \<longrightarrow> v = zero_of E (fd_Type f)) \<and> has_fields E fs ws)"
  by (cases vs) auto

lemma has_fields_nil: "has_fields E [] vs \<longleftrightarrow> vs = []"
  by (cases vs) auto

lemma has_type_struct: "has_type E (TStruct n) v \<longleftrightarrow> (\<exists>vs. v = VStruct vs \<and> has_fields E (struct_fields E n) vs)"
  by (cases v) (auto elim: has_type.elims)

lemma has_type_leaves:
  "has_type E TString v \<longleftrightarrow> (\<exists>s. v = VString s)" "has_type E TBool v \<longleftrightarrow> (\<exists>b. v = VBool b)"
  "has_type E TInt v \<longleftrightarrow> (\<exists>i. v = VInt i \<and> - (2 ^ 63) \<le> i \<and> i < 2 ^ 63)"
  by (cases v; auto elim: has_type.elims)+

lemmas typed_parts = has_fields_cons has_fields_nil has_type_struct has_type_leaves

text \<open>The fields of the sticky-session part stand in another order in the other type.\<close>

lemma stickiness_converted:
  assumes "has_type (doc_types float) (TStruct ''LBStickinessPolicy'') v"
  obtains w where "decode_value (doc_types float) (TStruct ''config.StickinessPolicy'')
      (encode (doc_types float) (TStruct ''LBStickinessPolicy'') v)
      (zero_of (doc_types float) (TStruct ''config.StickinessPolicy'')) = (w, True)"
    "config_StickinessPolicy_of_value w = convert_stickiness (LBStickinessPolicy_of_value v)"
  using assms
  by (auto simp: typed_parts doc_struct_fields doc_structs_def doc_LBStickinessPolicy_def doc_config_StickinessPolicy_def
      zero_of_struct [OF doc_wf] find_field_def config_StickinessPolicy_of_value_def convert_stickiness_def
      LBStickinessPolicy_of_value_def)

lemma LBMetadata_converted:
  assumes "has_type (doc_types float) (TStruct ''LBConfig'') v"
  shows "\<exists>w. decode_value (doc_types float) (TStruct ''LBMetadata'') (encode (doc_types float) (TStruct ''LBConfig'') v)
      (zero_of (doc_types float) (TStruct ''LBMetadata'')) = (w, True) \<and>
    GetLBMetadata (LBConfig_of_value v) = Inr (LBMetadata_of_value w)"
proof -
  let ?E = "doc_types float"
  from assms obtain certs cfg dflt rules sticky where v: "v = VStruct [certs, VString cfg, VString dflt, rules, sticky]"
    and t: "has_type ?E (TSlice TString) certs" "has_type ?E (TSlice (TStruct ''PortRule'')) rules"
      "has_type ?E (TStruct ''LBStickinessPolicy'') sticky"
    by (auto simp: typed_parts doc_struct_fields doc_structs_def doc_LBConfig_def)
  note parts = decode_encode(1) [OF doc_wf t(1)] decode_encode(1) [OF doc_wf t(2)]
  obtain w where "decode_value ?E (TStruct ''config.StickinessPolicy'') (encode ?E (TStruct ''LBStickinessPolicy'') sticky)
      (zero_of ?E (TStruct ''config.StickinessPolicy'')) = (w, True)"
    "config_StickinessPolicy_of_value w = convert_stickiness (LBStickinessPolicy_of_value sticky)"
    by (rule stickiness_converted [OF t(3)])
  with parts show ?thesis
    by (simp add: v doc_struct_fields doc_structs_def doc_LBConfig_def doc_LBMetadata_def zero_of_struct [OF doc_wf] find_field_def
        GetLBMetadata_def LBConfig_of_value_def LBMetadata_of_value_def)
qed

lemma HealthCheck_converted:
  assumes "has_type (doc_types float) (TStruct ''HealthCheck'') v"
  shows "\<exists>w. decode_value (doc_types float) (TStruct ''config.HealthCheck'') (encode (doc_types float) (TStruct ''HealthCheck'') v)
      (zero_of (doc_types float) (TStruct ''config.HealthCheck'')) = (w, True) \<and>
    getConfigServiceHealthCheck (HealthCheck_of_value v) = Inr (config_HealthCheck_of_value w)"
  using assms
  by (auto simp: typed_parts doc_struct_fields doc_structs_def doc_HealthCheck_def doc_config_HealthCheck_def
      zero_of_struct [OF doc_wf] find_field_def Atoi_Itoa getConfigServiceHealthCheck_def HealthCheck_of_value_def
      config_HealthCheck_of_value_def)

text \<open>What reads into another type also reads from the text.\<close>

lemma convert_eq:
  assumes "marshallable E T v" and "decode_value E T2 (encode E T v) (zero_of E T2) = (w, True)"
  shows "convert E T v T2 = Inr w"
  using assms parse_print_json [of "encode E T v"]
  by (simp add: convert_def decode_doc_def Unmarshal_def Marshal_def marshallable_def)

text \<open>
  C19 The conversions by way of JSON copy every field and do not fail: marshalling the load-balancer part
  of a service, or a health check, and decoding the result into the type of the configuration gives
  the record with the same fields, whose order differs in the two types.
\<close>

theorem conversion_copies_fields:
  assumes "marshallable (doc_types float) (TStruct ''LBConfig'') v" and "marshallable (doc_types float) (TStruct ''HealthCheck'') h"
  shows "map_sum id LBMetadata_of_value (convert (doc_types float) (TStruct ''LBConfig'') v (TStruct ''LBMetadata'')) =
      GetLBMetadata (LBConfig_of_value v) \<and>
    map_sum id config_HealthCheck_of_value (convert (doc_types float) (TStruct ''HealthCheck'') h (TStruct ''config.HealthCheck'')) =
      getConfigServiceHealthCheck (HealthCheck_of_value h)"
proof -
  from assms have t: "has_type (doc_types float) (TStruct ''LBConfig'') v" "has_type (doc_types float) (TStruct ''HealthCheck'') h"
    by (simp_all add: marshallable_def)
  from LBMetadata_converted [OF t(1)] HealthCheck_converted [OF t(2)] assms show ?thesis
    by (auto simp: convert_eq)
qed

definition demo_part :: LBConfig where
  "demo_part = zero_LBConfig\<lparr>lbc_Certs := [''site''], lbc_Config := ''maxconn 10'',
     lbc_PortRules := [\<lparr>pr_BackendName = '''', pr_Hostname = ''foo.com'', pr_Path = ''/a'', pr_Priority = 1, pr_Protocol = ''http'',
       pr_Selector = '''', pr_Service = ''shop/web'', pr_SourcePort = 80, pr_TargetPort = 8080, pr_Container = '''',
       pr_Region = '''', pr_Environment = '''', pr_Weight = -1\<rparr>]\<rparr>"

definition demo_check :: md_HealthCheck where
  "demo_check = zero_HealthCheck\<lparr>mhc_Interval := 2000, mhc_RequestLine := ''GET / HTTP/1.0'', mhc_Port := 42\<rparr>"

lemmas value_defs = HealthCheck_value_def PortRule_value_def LBStickinessPolicy_value_def LBConfig_value_def Service_value_def
  list_value_def map_value_def omitted_value_def

lemma demo_part_ok:
  "marshallable (doc_types float) (TStruct ''LBConfig'') (LBConfig_value demo_part)"
  "marshallable (doc_types float) (TStruct ''HealthCheck'') (HealthCheck_value demo_check)"
  by (simp_all add: marshallable_def demo_part_def zero_LBConfig_def demo_check_def zero_HealthCheck_def value_defs
      doc_struct_fields doc_structs_def doc_defs maxNestingDepth_def number_text_Itoa)

lemma conversion_copies_fields_witness:
  "\<exists>m hc. map_sum id LBMetadata_of_value (convert (doc_types (\<lambda>_. None)) (TStruct ''LBConfig'') (LBConfig_value demo_part)
       (TStruct ''LBMetadata'')) = Inr m \<and> lm_PortRules m = lbc_PortRules demo_part \<and> lm_Certs m = [''site''] \<and>
     map_sum id config_HealthCheck_of_value (convert (doc_types (\<lambda>_. None)) (TStruct ''HealthCheck'') (HealthCheck_value demo_check)
       (TStruct ''config.HealthCheck'')) = Inr hc \<and> hc_Port hc = 42"
  using conversion_copies_fields [OF demo_part_ok [of "\<lambda>_. None"]]
  by (simp add: GetLBMetadata_def getConfigServiceHealthCheck_def demo_part_def demo_check_def)

section \<open>The decoders of the metadata client\<close>

text \<open>A document read as a record, and a list of them.\<close>

definition read_doc :: "type_env \<Rightarrow> go_type \<Rightarrow> (go_value \<Rightarrow> 'a) \<Rightarrow> string \<Rightarrow> 'a option" where
  "read_doc E T of_value s = map_option of_value (decode_doc E T s)"

definition read_docs :: "type_env \<Rightarrow> go_type \<Rightarrow> (go_value \<Rightarrow> 'a) \<Rightarrow> string \<Rightarrow> 'a list option" where
  "read_docs E T of_value s = map_option (the_list of_value) (decode_doc E (TSlice T) s)"

text \<open>A text that the service answers with.\<close>

definition serves :: "type_env \<Rightarrow> go_type \<Rightarrow> go_value \<Rightarrow> string result \<Rightarrow> bool" where
  "serves E T v answer \<longleftrightarrow> marshallable E T v \<and> answer = Inr (Marshal E T v)"

text \<open>A kind of document: its type, and its records as values of that type.\<close>

locale document =
  fixes T :: go_type and to_value :: "'a \<Rightarrow> go_value" and of_value :: "go_value \<Rightarrow> 'a"
  assumes restored: "of_value (to_value x) = x"
begin

lemma read_served: "wf_env E \<Longrightarrow> serves E T (to_value x) (Inr body) \<Longrightarrow> read_doc E T of_value body = Some x"
  by (simp add: serves_def read_doc_def decode_doc_Marshal restored)

lemma read_served_list:
  "wf_env E \<Longrightarrow> serves E (TSlice T) (list_value to_value xs) (Inr body) \<Longrightarrow> read_docs E T of_value body = Some xs"
  by (simp add: serves_def read_docs_def decode_doc_Marshal restored)

end

interpretation doc_container: document "TStruct ''Container''" Container_value Container_of_value by unfold_locales simp
interpretation doc_service: document "TStruct ''Service''" Service_value Service_of_value by unfold_locales simp
interpretation doc_stack: document "TStruct ''Stack''" Stack_value Stack_of_value by unfold_locales simp
interpretation doc_host: document "TStruct ''Host''" Host_value Host_of_value by unfold_locales simp
interpretation doc_environment: document "TStruct ''Environment''" Environment_value Environment_of_value by unfold_locales simp
interpretation doc_network: document "TStruct ''Network''" Network_value Network_of_value by unfold_locales simp

text \<open>The environment of the client with \<open>json.Unmarshal\<close> on the structs of \<open>types.go\<close> for its decoders.\<close>

definition go_decoders :: "type_env \<Rightarrow> 'w metadata_env \<Rightarrow> 'w metadata_env" where
  "go_decoders E env = env\<lparr>me_string := read_doc E TString the_string,
     me_host := read_doc E (TStruct ''Host'') Host_of_value, me_hosts := read_docs E (TStruct ''Host'') Host_of_value,
     me_container := read_doc E (TStruct ''Container'') Container_of_value,
     me_containers := read_docs E (TStruct ''Container'') Container_of_value,
     me_service := read_doc E (TStruct ''Service'') Service_of_value,
     me_services := read_docs E (TStruct ''Service'') Service_of_value,
     me_stack := read_doc E (TStruct ''Stack'') Stack_of_value, me_stacks := read_docs E (TStruct ''Stack'') Stack_of_value,
     me_environments := read_docs E (TStruct ''Environment'') Environment_of_value,
     me_networks := read_docs E (TStruct ''Network'') Network_of_value\<rparr>"

lemma go_decoders_simps [simp]:
  "me_string (go_decoders E env) = read_doc E TString the_string"
  "me_host (go_decoders E env) = read_doc E (TStruct ''Host'') Host_of_value"
  "me_hosts (go_decoders E env) = read_docs E (TStruct ''Host'') Host_of_value"
  "me_container (go_decoders E env) = read_doc E (TStruct ''Container'') Container_of_value"
  "me_containers (go_decoders E env) = read_docs E (TStruct ''Container'') Container_of_value"
  "me_service (go_decoders E env) = read_doc E (TStruct ''Service'') Service_of_value"
  "me_services (go_decoders E env) = read_docs E (TStruct ''Service'') Service_of_value"
  "me_stack (go_decoders E env) = read_doc E (TStruct ''Stack'') Stack_of_value"
  "me_stacks (go_decoders E env) = read_docs E (TStruct ''Stack'') Stack_of_value"
  "me_environments (go_decoders E env) = read_docs E (TStruct ''Environment'') Environment_of_value"
  "me_networks (go_decoders E env) = read_docs E (TStruct ''Network'') Network_of_value"
  by (simp_all add: go_decoders_def)

lemma go_decoders_SendRequest [simp]: "SendRequest (go_decoders E env) client path w = SendRequest env client path w"
proof -
  have e: "me_authority (go_decoders E env) = me_authority env" "me_do (go_decoders E env) = me_do env"
    by (simp_all add: go_decoders_def)
  show ?thesis unfolding SendRequest_def sendRequest_def client_endpoint_def e by (rule refl)
qed

text \<open>A request whose answer is a document.\<close>

lemma decode_answer:
  assumes "wf_env E" and "serves E T v (fst (SendRequest env client path w))"
    and "\<And>body. serves E T v (Inr body) \<Longrightarrow> unmarshal body = Some x"
  shows "fst (decode (go_decoders E env) client unmarshal path w) = Inr x"
  using assms(2,3) by (auto simp: decode_def serves_def split: prod.split sum.split)


text \<open>A service that answers with one document for each path.\<close>

definition shop_service :: Service where
  "shop_service = zero_Service\<lparr>svc_Name := ''web'', svc_StackName := ''shop'', svc_Labels := [(''io.lb'', ''a=b'')], svc_LBConfig := demo_part\<rparr>"

definition shop_documents :: "(string \<times> (go_type \<times> go_value)) list" where
  "shop_documents = [(''/latest/services'', TSlice (TStruct ''Service''), list_value Service_value [shop_service]),
     (''/latest/containers'', TSlice (TStruct ''Container''), list_value Container_value []),
     (''/latest/hosts'', TSlice (TStruct ''Host''), list_value Host_value []),
     (''/latest/networks'', TSlice (TStruct ''Network''), list_value Network_value []),
     (''/latest/self/service'', TStruct ''Service'', Service_value shop_service),
     (''/latest/self/container'', TStruct ''Container'', Container_value zero_Container)]"

definition shop_env :: "int metadata_env" where
  "shop_env = demo_metadata_env\<lparr>me_do := (\<lambda>_ rq w. (case map_of shop_documents (u_Path (rq_URL rq)) of
       None \<Rightarrow> Inl (Errorf ''no such document'' [])
     | Some (T, v) \<Rightarrow> Inr \<lparr>rs_StatusCode = 200, rs_Body = Marshal (doc_types (\<lambda>_. None)) T v, rs_broken = False\<rparr>, w))\<rparr>"

lemma shop_marshallable: "(p, T, v) \<in> set shop_documents \<Longrightarrow> marshallable (doc_types float) T v"
  by (auto simp: shop_documents_def marshallable_def shop_service_def demo_part_def zero_LBConfig_def zero_Service_def
      zero_HealthCheck_def zero_Container_def Container_value_def value_defs doc_struct_fields doc_structs_def doc_defs
      maxNestingDepth_def number_text_Itoa)

lemma shop_sizes: "(p, T, v) \<in> set shop_documents \<Longrightarrow> int (length (Marshal (doc_types float) T v)) \<le> maxResponseBytes"
proof -
  assume "(p, T, v) \<in> set shop_documents"
  then have "text_bound (encode (doc_types float) T v) \<le> 33554432"
    by (auto simp: shop_documents_def marshallable_def shop_service_def demo_part_def zero_LBConfig_def zero_Service_def
      zero_HealthCheck_def zero_Container_def Container_value_def value_defs doc_struct_fields doc_structs_def doc_defs
      Itoa_def dec_digits.simps)
  with length_print_json [of "encode (doc_types float) T v"] show ?thesis
    by (simp add: Marshal_def maxResponseBytes_def push_bit_eq_mult)
qed

lemma shop_endpoints:
  "list_all (\<lambda>p. case client_endpoint demo_metadata_env demo_http p of Inl e \<Rightarrow> False | Inr u \<Rightarrow> u_Path u = ''/latest'' @ p)
     [''/services'', ''/containers'', ''/hosts'', ''/networks'', ''/self/service'', ''/self/container'']"
  by code_simp

lemma shop_serves:
  assumes "p \<in> set [''/services'', ''/containers'', ''/hosts'', ''/networks'', ''/self/service'', ''/self/container'']"
    and "map_of shop_documents (''/latest'' @ p) = Some (T, v)"
  shows "serves (doc_types (\<lambda>_. None)) T v (fst (SendRequest shop_env demo_http p w))"
proof -
  have me: "me_authority shop_env = me_authority demo_metadata_env" by (simp add: shop_env_def)
  have "client_endpoint shop_env demo_http p = client_endpoint demo_metadata_env demo_http p"
    unfolding client_endpoint_def me by (rule refl)
  moreover obtain u where "client_endpoint demo_metadata_env demo_http p = Inr u" "u_Path u = ''/latest'' @ p"
    using shop_endpoints assms(1) unfolding list_all_iff by (fastforce split: sum.split_asm)
  ultimately have "SendRequest shop_env demo_http p w = (Inr (Marshal (doc_types (\<lambda>_. None)) T v), w)"
    using assms(2) shop_sizes [OF map_of_SomeD [OF assms(2)]]
    by (simp add: SendRequest_def sendRequest_def shop_env_def not_less)
  then show ?thesis using shop_marshallable [OF map_of_SomeD [OF assms(2)]] by (simp add: serves_def)
qed


end
