(* ===== verification/Spec2Isabelle.thy ===== *)
theory Spec2Isabelle
  imports Pipeline Haproxy_Provider Task_Queue Text_Theorems Worker_Pool Drain_Event_Theorems
    Metadata_Theorems Cert_Theorems Controller_Theorems Event_Router_Theorems
    Rendered_Config Api_Queries Log_Server Api_Calls Api_Schemas Metadata_Codec
begin

text \<open>
  A verification development for the PastureStack load-balancer controller, the Go program that
  turns the metadata of a Rancher-like control plane into the configuration of an HAProxy process
  and drains endpoints before they go away.

  \<^bold>\<open>The program.\<close> \<open>controller/rancher\<close> reads the metadata service, expands selector rules, resolves
  services to endpoints and builds one \<open>LoadBalancerConfig\<close> per reconciliation;
  \<open>provider/haproxy\<close> merges the operator's custom text into it, renders it with a template, reloads
  HAProxy and keeps the weights of draining servers; \<open>internal/events\<close> receives drain events and
  hands them to a pool of workers; \<open>utils\<close> has the queue that serializes reconciliations;
  \<open>internal/metadata\<close> is the HTTP client of the metadata service, and certificates come from mounted
  directories or from the control plane.

  \<^bold>\<open>Foundations.\<close> \<open>LB_Prelude\<close> has errors as values (\<open>'a result\<close>), maps of Go as association lists with
  distinct keys (\<open>gomap\<close>; the order of the list is the order in which Go happens to visit the map,
  and is arbitrary). \<open>Go_Strings\<close>, \<open>Go_Text\<close>, \<open>Go_Sort\<close>, \<open>Go_Sha1\<close>,
  \<open>Go_Url\<close>, \<open>Go_Url_Text\<close> and \<open>Go_Filepath\<close> model what the source uses of the Go library: \<open>strings\<close>,
  \<open>strconv\<close>, UTF-8 runes, \<open>sort\<close>, \<open>crypto/sha1\<close>, \<open>net/url\<close> (with the theorem that a URL that is
  written and parsed again keeps its scheme, host and query), \<open>path/filepath\<close>. \<open>Go_Json\<close> and
  \<open>Go_Struct\<close> model \<open>encoding/json\<close>: the texts of JSON values with escapes, UTF-8 and the nesting limit,
  and \<open>Marshal\<close> and \<open>Unmarshal\<close> of structs with tags, with the theorem that a value is read back from its
  text. Struct types are data there (\<open>go_type\<close>, \<open>field\<close>), and a value of one is a \<open>go_value\<close>. A string is
  the list of its bytes. Integers are unbounded where the code only copies, prints or compares them, and
  \<open>Atoi\<close> refuses what does not fit 64 bits.

  \<^bold>\<open>Components.\<close>
  \<^item> \<open>LB_Config\<close>: \<open>config/config.go\<close>, the records, the orders of slices, the names of backends.
  \<^item> \<open>Metadata_Types\<close>: \<open>internal/metadata/types.go\<close> and \<open>controller/rancher/metadata_util.go\<close>.
    \<open>Metadata_Json\<close> and \<open>Metadata_Codec\<close> have the tags of these structs: the conversions by way of JSON
    copy every field, and the documents that the service writes are those that the client returns.
  \<^item> \<open>Endpoints\<close>, \<open>Build_Config\<close>: \<open>controller/rancher/rancher.go\<close>, from services to endpoints and from
    port rules to the configuration. The lemmas of \<open>Build_Invariant\<close> and \<open>Build_Theorems\<close> show that
    frontends and backends are exactly those the rules ask for.
  \<^item> \<open>Selector\<close>, \<open>Text_Theorems\<close>: \<open>controller/rancher/selector_util.go\<close>.
  \<^item> \<open>Log_Safety\<close>: \<open>utils/log_safety.go\<close>. \<open>Log_Server\<close>: \<open>internal/logserver/server.go\<close>, the start of \<open>main\<close> and
    \<open>internal/events/safe_log.go\<close>.
  \<^item> \<open>Runtime_Api\<close>, \<open>Drain_Manager\<close>: \<open>provider/haproxy/drain_recovery.go\<close> and the drain parts of
    \<open>provider/haproxy/haproxy.go\<close>. \<open>Drain_Safety\<close> and \<open>Drain_Theorems\<close> show which weights are sent,
    kept, restored and given up.
  \<^item> \<open>Custom_Config\<close>, \<open>Custom_Theorems\<close>: \<open>provider/haproxy/haproxy_config_util.go\<close>.
  \<^item> \<open>Haproxy_Provider\<close>: the rest of \<open>provider/haproxy/haproxy.go\<close> and \<open>provider/provider.go\<close>.
  \<^item> \<open>Haproxy_Template\<close>, \<open>Template_Theorems\<close>, \<open>Rendered_Config\<close>: the template
    \<open>provider/haproxy/config/haproxy_template.cfg\<close> as a function, with a reader of the written file
    that knows nothing of the template. The lemmas show that the file reads back as the frontends,
    routes and servers of the configuration, and when no text can break out of its line.
  \<^item> \<open>Task_Queue\<close>: \<open>utils/utils.go\<close>, as a step relation of producers and one worker.
  \<^item> \<open>Worker_Pool\<close>: \<open>internal/events/worker.go\<close> with the locks of \<open>internal/locks/locks.go\<close>.
  \<^item> \<open>Drain_Events\<close>, \<open>Drain_Event_Theorems\<close>: \<open>controller/rancher/rancher_events_handler.go\<close>.
  \<^item> \<open>Metadata_Client\<close>, \<open>Metadata_Theorems\<close>: \<open>internal/metadata/client.go\<close>; \<open>client_view\<close> is what the
    endpoint discovery reads of it.
  \<^item> \<open>Cert_Fetcher\<close>, \<open>Cert_Theorems\<close>: \<open>controller/rancher/certificate_fetcher.go\<close>. The lemmas show that
    only files inside the configured directories are read, and what happens to the cache.
  \<^item> \<open>Api_Client\<close>, \<open>Api_Theorems\<close>: \<open>internal/rancherclient/v2/common.go\<close>, the client of the control-plane
    API. The lemmas show that every request stays at the configured origin, how many there are, and
    what the schemas allow.
  \<^item> \<open>Api_Resources\<close>, \<open>Api_Frames\<close>, \<open>Api_Queries\<close>: the typed clients
    (\<open>generated_certificate.go\<close>, \<open>generated_publish.go\<close>, \<open>generated_external_handler.go\<close>,
    \<open>generated_load_balancer_service.go\<close>) and the components on them: what the certificate fetcher,
    the event handlers and the handler registration send, and where.
  \<^item> \<open>Api_Struct\<close>, \<open>Api_Types_A_D\<close>, \<open>Api_Types_E_L\<close>, \<open>Api_Types_M_R\<close>, \<open>Api_Types_S_Z\<close>, \<open>Api_Types\<close>:
    \<open>internal/rancherclient/v2/types.go\<close>, every generated file of a resource type, and
    \<open>generated_client.go\<close>. A generated file declares a struct, an API name and actions, and repeats the
    same method bodies around them: \<open>X_fields\<close> is the struct, \<open>X_client\<close> has what varies in the methods,
    and \<open>typed_Create\<close> to \<open>typed_Action\<close> are those methods for any such declaration. \<open>Api_Codec\<close> shows that
    the declarations fit together and that values survive the exchange, \<open>Api_Calls\<close> that what is sent
    is the value that was given, and where it goes.
  \<^item> \<open>Api_Schemas\<close>: \<open>internal/rancherclient/v2/schemas.go\<close>, schemas from Go types.
  \<^item> \<open>Event_Router\<close>, \<open>Event_Router_Theorems\<close>: \<open>internal/events/listener.go\<close>, \<open>external_handler.go\<close>,
    \<open>util.go\<close>, \<open>websocket_pings.go\<close> and \<open>Subscribe\<close> of the events handler.
  \<^item> \<open>Lb_Controller\<close>, \<open>Controller_Theorems\<close>: \<open>Init\<close>, \<open>sync\<close>, \<open>requeue\<close> and \<open>Stop\<close> of
    \<open>controller/rancher/rancher.go\<close>, with queue, worker and retries as a step relation;
    \<open>controller/controller.go\<close>, \<open>main.go\<close> and \<open>healthcheck.go\<close>.
  \<^item> \<open>Pipeline\<close>: metadata to configuration to custom configuration to desired weights.

  \<^bold>\<open>Interfaces.\<close> The locales state what one component asks of another, and each is interpreted on the
  model of its provider: \<open>slice_sorter\<close> (\<open>Go_Sort\<close>) the contract of a sort, \<open>weight_port\<close>
  (\<open>Drain_Safety\<close>) what the reconciliation asks of \<open>setWeightVerified\<close>, \<open>coalescing_queue\<close>
  (\<open>Task_Queue\<close>) the promise of the queue, \<open>document\<close> (\<open>Metadata_Codec\<close>) that the records of a document
  are values of its struct type, \<open>drain_registry\<close> (\<open>Drain_Events\<close>) what the event handler
  asks of the provider; \<open>api_frame\<close>, \<open>services_frame\<close>, \<open>certs_frame\<close> and \<open>handlers_frame\<close> (\<open>Api_Frames\<close>) that
  an operation of the control plane keeps a property of the requests sent.

  \<^bold>\<open>Fuel.\<close> Alias services recur along their links, so \<open>getServiceEndpoints\<close> has fuel: one unit per
  link. Any rank that falls along the links bounds what is needed (the rank of the service plus
  one); a cycle runs out of every fuel, which is the code's unbounded recursion.
  The wait for the metadata service has one unit per try, and seven are enough
  (\<open>Metadata_Theorems.wait_ends\<close>); the stream of versions and the paging of a listing need not end,
  so their results are stated for every fuel. The wait for a handler's transition has one unit per
  tick, and 41 are enough (\<open>Event_Router_Theorems.transition_ends\<close>); \<open>subscribe_rounds\<close> is a loop
  that never ends, cut after any number of rounds; \<open>replace_schemas\<close> has a unit per byte of the text,
  and every replacement consumes at least seven. The parser of JSON has a unit per byte and one more
  (\<open>Go_Json.parse_json_fuel\<close>: more changes nothing). Redirects end after ten requests without fuel.

  \<^bold>\<open>Conventions.\<close> The methods \<open>return result, client.decode(path, &result)\<close> of the metadata client
  are read with the call first, as the compiler orders them; the language leaves it open. A JSON
  document is a string. The clients are stated for any decoders, parameters of their environments;
  \<open>go_decoders\<close> and \<open>struct_codec\<close> are those that the code uses. The text of a \<open>float64\<close> in an
  \<open>interface{}\<close> is a parameter (\<open>te_float\<close>). Times are whole milliseconds or seconds; the
  float comparison of the force interval of certificates is an input.

  \<^bold>\<open>Not modelled.\<close> Vendored packages, the YAML tags of the API structs, the websocket connection of \<open>internal/events\<close> and the sending of its pings, the
  text of log messages, the connections that \<open>internal/logserver\<close> serves, the command-line library.
\<close>

end
